(* ===== verification/Prelude.thy ===== *)
theory Prelude
  imports Complex_Main "HOL-Library.AList" "HOL-Library.Char_ord" "HOL-Library.List_Lexorder"
    "HOL-Library.Sublist"
begin

text \<open>
  What every component shares: the Python text operations the service uses (on ASCII text, one
  \<^typ>\<open>char\<close> per character), slices, insertion-ordered dictionaries as association lists, the
  dynamically typed values that travel in metadata and payloads, and the lemma collections the
  component theories fill.
\<close>

named_theorems text_simps \<open>facts about the text operations\<close>
named_theorems decision_simps \<open>unfolding rules of decision procedures\<close>

section \<open>Types\<close>

text \<open>Python's float is idealised as an exact rational, Python's int is \<^typ>\<open>int\<close>.\<close>

type_synonym pyfloat = rat
type_synonym ('k, 'v) dict = "('k \<times> 'v) list"

text \<open>
  The values of a JSON-like payload. \<open>POther r\<close> stands for any other object; \<open>r\<close> is its \<open>str()\<close>.
\<close>

datatype pyval =
    PNone
  | PBool bool
  | PInt int
  | PFloat pyfloat
  | PStr string
  | PList "pyval list"
  | PDict "(string \<times> pyval) list"
  | POther string

fun truthy :: "pyval \<Rightarrow> bool" where
  "truthy PNone = False"
| "truthy (PBool b) = b"
| "truthy (PInt i) = (i \<noteq> 0)"
| "truthy (PFloat r) = (r \<noteq> 0)"
| "truthy (PStr s) = (s \<noteq> [])"
| "truthy (PList xs) = (xs \<noteq> [])"
| "truthy (PDict d) = (d \<noteq> [])"
| "truthy (POther _) = True"

section \<open>Text\<close>

definition code :: "char \<Rightarrow> nat" where
  "code c = of_char c"

definition is_space :: "char \<Rightarrow> bool" where
  "is_space c \<longleftrightarrow> code c = 32 \<or> (9 \<le> code c \<and> code c \<le> 13) \<or> (28 \<le> code c \<and> code c \<le> 31)"

definition is_digit :: "char \<Rightarrow> bool" where
  "is_digit c \<longleftrightarrow> 48 \<le> code c \<and> code c \<le> 57"

definition is_upper :: "char \<Rightarrow> bool" where
  "is_upper c \<longleftrightarrow> 65 \<le> code c \<and> code c \<le> 90"

definition is_lower :: "char \<Rightarrow> bool" where
  "is_lower c \<longleftrightarrow> 97 \<le> code c \<and> code c \<le> 122"

definition is_alnum :: "char \<Rightarrow> bool" where
  "is_alnum c \<longleftrightarrow> is_digit c \<or> is_upper c \<or> is_lower c"

definition lower_char :: "char \<Rightarrow> char" where
  "lower_char c = (if is_upper c then char_of (code c + 32) else c)"

definition upper_char :: "char \<Rightarrow> char" where
  "upper_char c = (if is_lower c then char_of (code c - 32) else c)"

definition py_lower :: "string \<Rightarrow> string" where
  "py_lower = map lower_char"

definition py_upper :: "string \<Rightarrow> string" where
  "py_upper = map upper_char"

definition py_strip :: "string \<Rightarrow> string" where
  "py_strip s = rev (dropWhile is_space (rev (dropWhile is_space s)))"

definition replace_char :: "char \<Rightarrow> char \<Rightarrow> string \<Rightarrow> string" where
  "replace_char a b = map (\<lambda>c. if c = a then b else c)"

definition dash_to_underscore :: "string \<Rightarrow> string" where
  "dash_to_underscore = replace_char CHR ''-'' CHR ''_''"

text \<open>\<open>needle in hay\<close> on strings, \<open>str.startswith\<close> and \<open>str.endswith\<close>.\<close>

fun contains :: "string \<Rightarrow> string \<Rightarrow> bool" where
  "contains p [] = (p = [])"
| "contains p (x # xs) = (prefix p (x # xs) \<or> contains p xs)"

definition py_startswith :: "string \<Rightarrow> string \<Rightarrow> bool" where
  "py_startswith s p = prefix p s"

definition py_endswith :: "string \<Rightarrow> string \<Rightarrow> bool" where
  "py_endswith s p = suffix p s"

text \<open>\<open>str.split()\<close> on white space and \<open>sep.join\<close>.\<close>

function py_split :: "string \<Rightarrow> string list" where
  "py_split s =
     (let t = dropWhile is_space s in
      if t = [] then []
      else takeWhile (\<lambda>c. \<not> is_space c) t # py_split (dropWhile (\<lambda>c. \<not> is_space c) t))"
  by pat_completeness auto
termination
proof (relation "measure length", simp, goal_cases)
  case (1 s t)
  then obtain x xs where t: "t = x # xs" "\<not> is_space x"
    by (metis dropWhile_eq_Nil_conv hd_dropWhile list.exhaust_sel)
  have "length (dropWhile (\<lambda>c. \<not> is_space c) t) < length t"
    using t by (simp add: length_dropWhile_le le_imp_less_Suc)
  also have "\<dots> \<le> length s" using 1 by (simp add: length_dropWhile_le)
  finally show ?case by simp
qed

declare py_split.simps [simp del]

fun py_join :: "string \<Rightarrow> string list \<Rightarrow> string" where
  "py_join sep [] = []"
| "py_join sep [x] = x"
| "py_join sep (x # y # zs) = x @ sep @ py_join sep (y # zs)"

text \<open>\<open>str(value or '')\<close> for an optional string.\<close>

definition str_or_empty :: "string option \<Rightarrow> string" where
  "str_or_empty v = (case v of None \<Rightarrow> [] | Some s \<Rightarrow> s)"

subsection \<open>Facts about text\<close>

lemma code_less_256 [simp]: "code c < 256"
  by (cases c) (simp add: code_def of_char_def)

lemma code_char_of [simp]: "n < 256 \<Longrightarrow> code (char_of n) = n"
  by (simp add: code_def)

lemma char_of_code [simp]: "char_of (code c) = c"
  by (simp add: code_def)

lemma code_inject: "code c = code d \<longleftrightarrow> c = d"
  by (metis char_of_code)

lemma lower_char_idem [simp]: "lower_char (lower_char c) = lower_char c"
  by (auto simp: lower_char_def is_upper_def)

lemma upper_char_idem [simp]: "upper_char (upper_char c) = upper_char c"
  by (auto simp: upper_char_def is_lower_def)

lemma is_space_lower [simp]: "is_space (lower_char c) = is_space c"
  by (auto simp: lower_char_def is_upper_def is_space_def)

lemma is_space_upper [simp]: "is_space (upper_char c) = is_space c"
  by (auto simp: upper_char_def is_lower_def is_space_def)

lemma py_lower_idem [simp]: "py_lower (py_lower s) = py_lower s"
  by (simp add: py_lower_def)

lemma py_upper_idem [simp]: "py_upper (py_upper s) = py_upper s"
  by (simp add: py_upper_def)

lemma length_py_lower [simp]: "length (py_lower s) = length s"
  by (simp add: py_lower_def)

lemma length_replace_char [simp]: "length (replace_char a b s) = length s"
  by (simp add: replace_char_def)

lemma length_py_strip: "length (py_strip s) \<le> length s"
proof -
  have "length (dropWhile is_space (rev (dropWhile is_space s))) \<le> length (dropWhile is_space s)"
    by (metis length_dropWhile_le length_rev)
  also have "\<dots> \<le> length s" by (rule length_dropWhile_le)
  finally show ?thesis by (simp add: py_strip_def)
qed

text \<open>A stripped text is one that neither starts nor ends with white space.\<close>

definition stripped :: "string \<Rightarrow> bool" where
  "stripped s \<longleftrightarrow> s = [] \<or> (\<not> is_space (hd s) \<and> \<not> is_space (last s))"

lemma stripped_Nil [simp]: "stripped []"
  by (simp add: stripped_def)

lemma stripped_strip: "stripped (py_strip s)"
proof (cases "py_strip s = []")
  case False
  define t where "t = dropWhile is_space s"
  define u where "u = dropWhile is_space (rev t)"
  have eq: "py_strip s = rev u" by (simp add: py_strip_def t_def u_def)
  with False have "u \<noteq> []" by simp
  then have l: "\<not> is_space (last (rev u))"
    by (simp add: u_def last_rev hd_dropWhile)
  obtain pre where "rev t = pre @ u"
    using takeWhile_dropWhile_id [of is_space "rev t"] u_def by metis
  then have "t = rev u @ rev pre" by (metis rev_append rev_rev_ident)
  then have "hd t = hd (rev u)" "t \<noteq> []" using \<open>u \<noteq> []\<close> by auto
  then have "\<not> is_space (hd (rev u))" unfolding t_def by (metis hd_dropWhile)
  with l eq show ?thesis by (simp add: stripped_def)
qed simp

lemma strip_stripped: "stripped s \<Longrightarrow> py_strip s = s"
proof (cases s)
  case (Cons c cs)
  moreover assume "stripped s"
  ultimately have h: "\<not> is_space c" and l: "\<not> is_space (last s)"
    by (auto simp: stripped_def)
  from h have 1: "dropWhile is_space s = s" by (simp add: Cons)
  obtain d ds where d: "rev s = d # ds" using Cons by (cases "rev s") auto
  then have "last s = d" by (metis list.sel(1) hd_rev)
  with l d have "dropWhile is_space (rev s) = rev s" by simp
  with 1 show ?thesis by (simp add: py_strip_def)
qed (simp add: py_strip_def)

lemma py_strip_idem [simp]: "py_strip (py_strip s) = py_strip s"
  by (rule strip_stripped [OF stripped_strip])

lemma stripped_map:
  "(\<And>c. is_space (f c) = is_space c) \<Longrightarrow> stripped (map f s) = stripped s"
  by (cases s) (auto simp: stripped_def last_map)

lemma strip_nonspace: "\<forall>c \<in> set s. \<not> is_space c \<Longrightarrow> py_strip s = s"
  by (rule strip_stripped) (auto simp: stripped_def)

lemma set_py_strip: "set (py_strip s) \<subseteq> set s"
  by (auto simp: py_strip_def dest!: set_dropWhileD)

lemma contains_sublist: "contains p s \<longleftrightarrow> sublist p s"
proof (induction s)
  case (Cons x xs)
  then show ?case by (simp add: sublist_Cons_right)
qed simp

lemma contains_append: "contains p s \<Longrightarrow> contains p (u @ s @ v)"
  unfolding contains_sublist sublist_def by (metis append.assoc)

lemma is_space_dash [simp]: "is_space (if c = CHR ''-'' then CHR ''_'' else c) = is_space c"
  by (simp add: is_space_def code_def)

lemma stripped_lower [simp]: "stripped (py_lower s) = stripped s"
  by (simp add: py_lower_def stripped_map)

lemma stripped_upper [simp]: "stripped (py_upper s) = stripped s"
  by (simp add: py_upper_def stripped_map)

lemma stripped_dash [simp]: "stripped (dash_to_underscore s) = stripped s"
  unfolding dash_to_underscore_def replace_char_def by (rule stripped_map) (rule is_space_dash)

lemma lower_char_dash [simp]: "lower_char (CHR ''_'') = CHR ''_''" "lower_char c = CHR ''-'' \<longleftrightarrow> c = CHR ''-''"
proof -
  show "lower_char (CHR ''_'') = CHR ''_''" by code_simp
  show "lower_char c = CHR ''-'' \<longleftrightarrow> c = CHR ''-''"
    by (auto simp: lower_char_def is_upper_def code_inject [symmetric], auto simp: code_def)
qed

lemma upper_char_dash [simp]: "upper_char (CHR ''_'') = CHR ''_''" "upper_char c = CHR ''-'' \<longleftrightarrow> c = CHR ''-''"
proof -
  show "upper_char (CHR ''_'') = CHR ''_''" by code_simp
  show "upper_char c = CHR ''-'' \<longleftrightarrow> c = CHR ''-''"
    by (auto simp: upper_char_def is_lower_def code_inject [symmetric], auto simp: code_def)
qed

lemma dash_lower_idem: "dash_to_underscore (py_lower (dash_to_underscore (py_lower s))) = dash_to_underscore (py_lower s)"
  unfolding dash_to_underscore_def replace_char_def py_lower_def by (induction s) auto

lemma dash_upper_idem: "dash_to_underscore (py_upper (dash_to_underscore (py_upper s))) = dash_to_underscore (py_upper s)"
  unfolding dash_to_underscore_def replace_char_def py_upper_def by (induction s) auto

section \<open>Normalisers\<close>

text \<open>
  The contract of a text normaliser that picks one spelling per name: it is idempotent and its
  results carry no outer white space. The clients are the tables that are searched by normalised
  name (provider registry, action catalog, connection rows).
\<close>

locale text_normalizer =
  fixes norm :: "string \<Rightarrow> string"
  assumes norm_idem: "norm (norm s) = norm s"
    and norm_stripped: "stripped (norm s)"
begin

lemma strip_norm: "py_strip (norm s) = norm s"
  by (rule strip_stripped [OF norm_stripped])

lemma strip_canonical: "norm s = s \<Longrightarrow> py_strip s = s"
  by (metis strip_norm)

text \<open>A search by normalised name finds every canonical entry, under each of its spellings.\<close>

lemma find_canonical:
  "find (\<lambda>e. key e = norm s) es = Some e \<Longrightarrow> e \<in> set es \<and> key e = norm s \<and> norm (key e) = key e"
  by (induction es) (auto simp: norm_idem split: if_splits)

lemma find_registered:
  "distinct (map key es) \<Longrightarrow> e \<in> set es \<Longrightarrow> norm s = key e \<Longrightarrow> find (\<lambda>e. key e = norm s) es = Some e"
  by (induction es) (auto simp: image_iff)

lemma find_own_name:
  "distinct (map key es) \<Longrightarrow> e \<in> set es \<Longrightarrow> norm (key e) = key e \<Longrightarrow>
   find (\<lambda>e'. key e' = norm (key e)) es = Some e"
  by (rule find_registered) simp_all

end

section \<open>Slices\<close>

text \<open>
  \<open>xs[-n:]\<close> for \<open>n >= 0\<close>: Python reads \<open>-0\<close> as \<open>0\<close>, so the slice with \<open>n = 0\<close> is the whole list.
\<close>

definition py_last_slice :: "nat \<Rightarrow> 'a list \<Rightarrow> 'a list" where
  "py_last_slice n xs = (if n = 0 then xs else drop (length xs - n) xs)"

lemma py_last_slice_length: "0 < n \<Longrightarrow> length (py_last_slice n xs) = min n (length xs)"
  by (simp add: py_last_slice_def)

section \<open>Dictionaries\<close>

text \<open>
  A Python dictionary keeps insertion order and overwrites in place, which is what
  \<open>AList.update\<close> does on an association list; \<open>map_of\<close> looks a key up.
\<close>

abbreviation dict_get :: "('k, 'v) dict \<Rightarrow> 'k \<Rightarrow> 'v option" where
  "dict_get d k \<equiv> map_of d k"

abbreviation dict_set :: "'k \<Rightarrow> 'v \<Rightarrow> ('k, 'v) dict \<Rightarrow> ('k, 'v) dict" where
  "dict_set k v d \<equiv> AList.update k v d"

abbreviation dict_del :: "'k \<Rightarrow> ('k, 'v) dict \<Rightarrow> ('k, 'v) dict" where
  "dict_del k d \<equiv> AList.delete k d"

lemma dict_get_set [simp]: "dict_get (dict_set k v d) k' = (if k' = k then Some v else dict_get d k')"
  by (simp add: update_conv')

lemma set_dict_set: "x \<in> set (dict_set k v d) \<Longrightarrow> x = (k, v) \<or> x \<in> set d"
  by (induction d) (auto split: if_splits)

lemma fst_set_dict_set: "fst ` set (dict_set k v d) = insert k (fst ` set d)"
  by (induction d) auto

lemma length_dict_set: "length (dict_set k v d) \<le> Suc (length d)"
  by (induction d) auto

end
