(* ===== verification/Py_Regex.thy ===== *)
theory Py_Regex
  imports Prelude
begin

text \<open>
  The fragment of Python's \<open>re\<close> the service uses: character classes, greedy repetition of a
  class, sequence, ordered alternation, an optional part and the word boundary. \<open>rx_ends r s i\<close>
  lists the ends of the matches of \<open>r\<close> that start at position \<open>i\<close> of \<open>s\<close>, in the order a
  backtracking matcher finds them, so the first one is Python's match. \<open>rx_sub\<close> is \<open>re.sub\<close> with a
  constant replacement together with the number of replacements.
\<close>

section \<open>Expressions and matches\<close>

datatype rx =
    RCls "char \<Rightarrow> bool"
  | RMany "char \<Rightarrow> bool" nat
  | RSeq rx rx
  | RAlt rx rx
  | ROpt rx
  | RWordB

definition is_word :: "char \<Rightarrow> bool" where
  "is_word c \<longleftrightarrow> is_alnum c \<or> c = CHR ''_''"

definition word_at :: "string \<Rightarrow> nat \<Rightarrow> bool" where
  "word_at s i \<longleftrightarrow> i < length s \<and> is_word (s ! i)"

definition word_boundary :: "string \<Rightarrow> nat \<Rightarrow> bool" where
  "word_boundary s i \<longleftrightarrow> (0 < i \<and> word_at s (i - 1)) \<noteq> word_at s i"

definition run_length :: "(char \<Rightarrow> bool) \<Rightarrow> string \<Rightarrow> nat \<Rightarrow> nat" where
  "run_length p s i = length (takeWhile p (drop i s))"

fun rx_ends :: "rx \<Rightarrow> string \<Rightarrow> nat \<Rightarrow> nat list" where
  "rx_ends (RCls p) s i = (if i < length s \<and> p (s ! i) then [Suc i] else [])"
| "rx_ends (RMany p n) s i = rev [i + n ..< Suc (i + run_length p s i)]"
| "rx_ends (RSeq a b) s i = concat (map (rx_ends b s) (rx_ends a s i))"
| "rx_ends (RAlt a b) s i = rx_ends a s i @ rx_ends b s i"
| "rx_ends (ROpt a) s i = rx_ends a s i @ [i]"
| "rx_ends RWordB s i = (if word_boundary s i then [i] else [])"

definition rx_match :: "rx \<Rightarrow> string \<Rightarrow> nat \<Rightarrow> nat option" where
  "rx_match r s i = (case rx_ends r s i of [] \<Rightarrow> None | e # _ \<Rightarrow> Some e)"

text \<open>Literals, case-insensitive literals and alternatives as derived expressions.\<close>

fun rx_seq :: "rx list \<Rightarrow> rx" where
  "rx_seq [] = RMany (\<lambda>_. False) 0"
| "rx_seq [r] = r"
| "rx_seq (r # r' # rs) = RSeq r (rx_seq (r' # rs))"

fun rx_alt :: "rx list \<Rightarrow> rx" where
  "rx_alt [] = RCls (\<lambda>_. False)"
| "rx_alt [r] = r"
| "rx_alt (r # r' # rs) = RAlt r (rx_alt (r' # rs))"

definition rx_lit :: "string \<Rightarrow> rx" where
  "rx_lit w = rx_seq (map (\<lambda>c. RCls (\<lambda>d. d = c)) w)"

definition rx_ilit :: "string \<Rightarrow> rx" where
  "rx_ilit w = rx_seq (map (\<lambda>c. RCls (\<lambda>d. lower_char d = lower_char c)) w)"

section \<open>Substitution\<close>

text \<open>
  The scan of \<open>re.sub\<close>: at a match it emits the replacement and goes on from the end of the match,
  elsewhere it copies one character. The expressions used here never match the empty text, so the
  scan moves on in either case; the guard \<open>i < e\<close> only makes that visible to the termination proof.
\<close>

function rx_scan :: "rx \<Rightarrow> string \<Rightarrow> string \<Rightarrow> nat \<Rightarrow> string \<times> nat" where
  "rx_scan r repl s i =
     (if length s \<le> i then ([], 0)
      else case rx_match r s i of
        Some e \<Rightarrow>
          if i < e then (let (rest, n) = rx_scan r repl s e in (repl @ rest, Suc n))
          else (let (rest, n) = rx_scan r repl s (Suc i) in (s ! i # rest, n))
      | None \<Rightarrow> (let (rest, n) = rx_scan r repl s (Suc i) in (s ! i # rest, n)))"
  by pat_completeness auto
termination
  by (relation "measure (\<lambda>(r, repl, s, i). length s - i)") auto

declare rx_scan.simps [simp del]

definition rx_sub :: "rx \<Rightarrow> string \<Rightarrow> string \<Rightarrow> string \<times> nat" where
  "rx_sub r repl s = rx_scan r repl s 0"

section \<open>Facts\<close>

lemma run_length_le: "i \<le> length s \<Longrightarrow> i + run_length p s i \<le> length s"
  unfolding run_length_def
  by (metis add_le_cancel_left le_add_diff_inverse length_drop length_takeWhile_le)

lemma rx_ends_bounds: "e \<in> set (rx_ends r s i) \<Longrightarrow> i \<le> length s \<Longrightarrow> i \<le> e \<and> e \<le> length s"
proof (induction r arbitrary: i e)
  case (RMany p n)
  then show ?case using run_length_le [of i s p] by auto
next
  case (RSeq a b)
  then show ?case by fastforce
qed (auto split: if_splits)

lemma rx_match_bounds:
  assumes "rx_match r s i = Some e" "i \<le> length s"
  shows "i \<le> e \<and> e \<le> length s"
  using assms rx_ends_bounds [of e r s i] by (auto simp: rx_match_def split: list.splits)

text \<open>A scan that replaces nothing returns the text it was given.\<close>

lemma rx_scan_zero: "snd (rx_scan r repl s i) = 0 \<Longrightarrow> fst (rx_scan r repl s i) = drop i s"
proof (induction r repl s i rule: rx_scan.induct)
  case (1 r repl s i)
  show ?case
  proof (cases "length s \<le> i")
    case True
    then show ?thesis by (simp add: rx_scan.simps)
  next
    case False
    then show ?thesis
      using 1 by (subst (asm) rx_scan.simps, subst rx_scan.simps)
        (auto split: option.splits if_splits prod.splits simp: Cons_nth_drop_Suc)
  qed
qed

lemma rx_sub_zero: "snd (rx_sub r repl s) = 0 \<Longrightarrow> fst (rx_sub r repl s) = s"
  using rx_scan_zero [of r repl s 0] by (simp add: rx_sub_def)

end
