(* ===== verification/Payload_Sanitizer.thy ===== *)
theory Payload_Sanitizer
  imports Py_Regex
begin

text \<open>
  The privacy filter of \<open>app/engine/runtime/event_payload_sanitizer.py\<close> through which every
  payload passes before it reaches a durable log, a lifecycle hook or an audit record. Two library
  functions are parameters: \<open>blake\<close> stands for the keyed BLAKE2b hex digest of
  \<open>hash_runtime_identifier\<close> and \<open>json_loads\<close> for \<open>json.loads\<close> (\<open>None\<close> is a decode error).
\<close>

section \<open>Constants\<close>

definition max_sanitized_depth :: nat where "max_sanitized_depth = 8"
definition max_sanitized_items :: nat where "max_sanitized_items = 64"
definition max_sanitized_string :: nat where "max_sanitized_string = 4000"

definition sensitive_key_markers :: "string list" where
  "sensitive_key_markers =
    [''access_token'', ''ak_secret'', ''api_key'', ''apikey'', ''approval_token'',
     ''authorization'', ''bearer'', ''client_secret'', ''connection_id'', ''connection_ref'',
     ''cookie'', ''credential'', ''external_account_ref'', ''image_base64'', ''page_id'',
     ''password'', ''private_key'', ''provider_payload'', ''raw_provider'', ''refresh_token'',
     ''secret'', ''token'', ''vault_ref'']"

definition control_keys :: "string list" where
  "control_keys = [''__proto__'', ''constructor'', ''prototype'']"

definition json_string_keys :: "string list" where
  "json_string_keys = [''content'', ''result'', ''tool_result'', ''payload'']"

definition redacted_secret :: string where
  "redacted_secret = ''<redacted-secret>''"

section \<open>Secret patterns\<close>

definition in_chars :: "string \<Rightarrow> char \<Rightarrow> bool" where
  "in_chars cs c \<longleftrightarrow> c \<in> set cs"

definition tok_char :: "char \<Rightarrow> bool" where
  "tok_char c \<longleftrightarrow> is_alnum c \<or> in_chars ''_-'' c"

definition bearer_secret_re :: rx where
  "bearer_secret_re =
     rx_seq [RWordB, rx_ilit ''Bearer'', RMany is_space 1,
             RMany (\<lambda>c. is_alnum c \<or> in_chars ''._~+/=-'' c) 8]"

definition rx_sep :: rx where
  "rx_sep = ROpt (RCls (in_chars ''_-''))"

definition key_names_re :: rx where
  "key_names_re = rx_alt
     [rx_seq [rx_ilit ''access'', rx_sep, rx_ilit ''token''],
      rx_seq [rx_ilit ''refresh'', rx_sep, rx_ilit ''token''],
      rx_seq [rx_ilit ''approval'', rx_sep, rx_ilit ''token''],
      rx_seq [rx_ilit ''api'', rx_sep, rx_ilit ''key''],
      rx_ilit ''apikey'',
      rx_seq [rx_ilit ''ak'', rx_sep, rx_ilit ''secret''],
      rx_seq [rx_ilit ''client'', rx_sep, rx_ilit ''secret''],
      rx_ilit ''authorization'',
      rx_seq [rx_ilit ''connection'', rx_sep, rx_ilit ''id''],
      rx_seq [rx_ilit ''connection'', rx_sep, rx_ilit ''ref''],
      rx_seq [rx_ilit ''connected'', rx_sep, rx_ilit ''account'', rx_sep, rx_ilit ''id''],
      rx_seq [rx_ilit ''external'', rx_sep, rx_ilit ''account'', rx_sep, rx_ilit ''ref''],
      rx_seq [rx_ilit ''image'', rx_sep, rx_ilit ''base64''],
      rx_seq [rx_ilit ''page'', rx_sep, rx_ilit ''id''],
      rx_ilit ''password'',
      rx_seq [rx_ilit ''provider'', rx_sep, rx_ilit ''payload''],
      rx_ilit ''secret'', rx_ilit ''token'', rx_ilit ''credential'',
      rx_seq [rx_ilit ''private'', rx_sep, rx_ilit ''key''],
      rx_ilit ''cookie'',
      rx_seq [rx_ilit ''vault'', rx_sep, rx_ilit ''key'', rx_sep, rx_ilit ''id'']]"

definition is_quote :: "char \<Rightarrow> bool" where
  "is_quote c \<longleftrightarrow> code c = 34 \<or> code c = 39"

definition key_value_secret_re :: rx where
  "key_value_secret_re =
     rx_seq [ROpt (RCls is_quote), key_names_re, ROpt (RCls is_quote),
             RMany is_space 0, RCls (in_chars '':=''), RMany is_space 0, ROpt (RCls is_quote),
             RMany (\<lambda>c. \<not> is_quote c \<and> \<not> is_space c \<and> \<not> in_chars '',;}{'' c) 6,
             ROpt (RCls is_quote)]"

definition bare_secret_re :: rx where
  "bare_secret_re =
     rx_seq [RWordB,
       rx_alt
         [rx_seq [rx_lit ''sk-'', ROpt (rx_lit ''proj-''), RMany tok_char 12],
          rx_seq [rx_lit ''ghp_'', RMany (\<lambda>c. is_alnum c \<or> c = CHR ''_'') 20],
          rx_seq [rx_lit ''github_pat_'', RMany (\<lambda>c. is_alnum c \<or> c = CHR ''_'') 20],
          rx_seq [rx_lit ''xox'', RCls (in_chars ''baprs''), rx_lit ''-'',
                  RMany (\<lambda>c. is_alnum c \<or> c = CHR ''-'') 10],
          rx_seq [rx_lit ''ya29.'', RMany tok_char 10],
          rx_seq [rx_lit ''wcn_'', RMany tok_char 8],
          rx_seq [rx_lit ''eyJ'', RMany tok_char 10, rx_lit ''.'', RMany tok_char 10, rx_lit ''.'',
                  RMany tok_char 10]],
       RWordB]"

section \<open>Operations\<close>

definition sanitizer_normalize_key :: "string \<Rightarrow> string" where
  "sanitizer_normalize_key value =
     replace_char CHR ''.'' CHR ''_'' (dash_to_underscore (py_lower (py_strip value)))"

definition hash_runtime_identifier :: "(string \<Rightarrow> string) \<Rightarrow> string \<Rightarrow> string option" where
  "hash_runtime_identifier blake value =
     (let text = py_strip value in
      if text = [] then None else Some (''sha256:'' @ blake text))"

definition looks_sensitive_key :: "string \<Rightarrow> bool" where
  "looks_sensitive_key key = list_ex (\<lambda>marker. contains marker key) sensitive_key_markers"

definition is_safe_presence_flag :: "string \<Rightarrow> pyval \<Rightarrow> bool" where
  "is_safe_presence_flag key value =
     ((case value of PBool _ \<Rightarrow> True | _ \<Rightarrow> False) \<and>
      (py_endswith key ''_present'' \<or> py_endswith key ''_configured'' \<or> py_endswith key ''_enabled''))"

definition parse_json_string :: "(string \<Rightarrow> pyval option) \<Rightarrow> string \<Rightarrow> pyval option" where
  "parse_json_string json_loads value =
     (let text = py_strip value in
      if text = [] \<or> \<not> in_chars ''[{'' (hd text) then None
      else (case json_loads text of Some PNone \<Rightarrow> None | r \<Rightarrow> r))"

definition redact_secret_text :: "string \<Rightarrow> string \<times> nat" where
  "redact_secret_text value =
     (let (t1, n1) = rx_sub bearer_secret_re (''Bearer '' @ redacted_secret) value;
          (t2, n2) = rx_sub key_value_secret_re redacted_secret t1;
          (t3, n3) = rx_sub bare_secret_re redacted_secret t2
      in (t3, n1 + n2 + n3))"

text \<open>\<open>max_length=None\<close> keeps the whole text.\<close>

definition redact_runtime_secret_text :: "int option \<Rightarrow> string \<Rightarrow> string" where
  "redact_runtime_secret_text max_length value =
     (let text = (case max_length of None \<Rightarrow> value | Some m \<Rightarrow> take (nat (max 0 m)) value)
      in fst (redact_secret_text text))"

text \<open>
  \<open>int(raw_item)\<close>: \<open>None\<close> is the \<open>TypeError\<close> or \<open>ValueError\<close> the code swallows. A string is read as
  Python reads it: white space around it, a sign, digits with single underscores between them.
\<close>

fun digits_value :: "int \<Rightarrow> bool \<Rightarrow> string \<Rightarrow> int option" where
  "digits_value acc after_digit [] = (if after_digit then Some acc else None)"
| "digits_value acc after_digit (c # cs) =
     (if is_digit c then digits_value (acc * 10 + int (code c - 48)) True cs
      else if c = CHR ''_'' \<and> after_digit then digits_value acc False cs
      else None)"

definition int_of_text :: "string \<Rightarrow> int option" where
  "int_of_text s =
     (case py_strip s of
        [] \<Rightarrow> None
      | c # cs \<Rightarrow>
          if c = CHR ''-'' then map_option uminus (digits_value 0 False cs)
          else if c = CHR ''+'' then digits_value 0 False cs
          else digits_value 0 False (c # cs))"

definition truncate_rat :: "rat \<Rightarrow> int" where
  "truncate_rat r = (if r < 0 then - \<lfloor>- r\<rfloor> else \<lfloor>r\<rfloor>)"

fun py_int :: "pyval \<Rightarrow> int option" where
  "py_int (PBool b) = Some (if b then 1 else 0)"
| "py_int (PInt i) = Some i"
| "py_int (PFloat r) = Some (truncate_rat r)"
| "py_int (PStr s) = int_of_text s"
| "py_int _ = None"

definition is_empty_value :: "pyval \<Rightarrow> bool" where
  "is_empty_value v \<longleftrightarrow> v = PNone \<or> v = PStr [] \<or> v = PList [] \<or> v = PDict []"

text \<open>
  \<open>str(value or '')\<close>: text is taken as it is, \<open>str_of\<close> stands for Python's \<open>str\<close> on the other values.
\<close>

definition py_text :: "(pyval \<Rightarrow> string) \<Rightarrow> pyval \<Rightarrow> string" where
  "py_text str_of v =
     (if \<not> truthy v then []
      else case v of PStr s \<Rightarrow> s | POther r \<Rightarrow> r | _ \<Rightarrow> str_of v)"

text \<open>The library functions the filter calls.\<close>

record sanitizer_lib =
  lib_blake :: "string \<Rightarrow> string"
  lib_json_loads :: "string \<Rightarrow> pyval option"
  lib_str :: "pyval \<Rightarrow> string"

text \<open>
  One turn of the loop over a dictionary's items. The accumulator is the pair of \<open>cleaned\<close> and
  \<open>redacted_count\<close>; \<open>rec\<close> is the recursive call one level down.
\<close>

definition sanitize_entry ::
  "sanitizer_lib \<Rightarrow> (pyval \<Rightarrow> pyval) \<Rightarrow> (string, pyval) dict \<times> nat \<Rightarrow> string \<times> pyval
   \<Rightarrow> (string, pyval) dict \<times> nat" where
  "sanitize_entry lib rec acc entry =
     (let (cleaned, redacted_count) = acc;
          (key, raw_item) = entry;
          normalized_key = sanitizer_normalize_key key
      in
      if normalized_key = [] \<or> normalized_key \<in> set control_keys then (cleaned, redacted_count)
      else if normalized_key = ''user_id'' then
        (case hash_runtime_identifier (lib_blake lib) (py_text (lib_str lib) raw_item) of
           Some h \<Rightarrow> (dict_set ''user_id_hash'' (PStr h) cleaned, redacted_count)
         | None \<Rightarrow> (cleaned, redacted_count))
      else if normalized_key = ''redacted_secret_count'' then
        (case py_int raw_item of
           Some n \<Rightarrow> (dict_set ''redacted_secret_count'' (PInt n) cleaned, redacted_count)
         | None \<Rightarrow> (cleaned, redacted_count))
      else if looks_sensitive_key normalized_key then
        (if is_safe_presence_flag normalized_key raw_item
         then (dict_set key raw_item cleaned, redacted_count)
         else if is_empty_value raw_item then (cleaned, redacted_count)
         else (cleaned, Suc redacted_count))
      else
        (case (case raw_item of
                 PStr s \<Rightarrow> if normalized_key \<in> set json_string_keys
                            then parse_json_string (lib_json_loads lib) s else None
               | _ \<Rightarrow> None) of
           Some parsed \<Rightarrow> (dict_set key (rec parsed) cleaned, redacted_count)
         | None \<Rightarrow>
             (dict_set key (rec raw_item) cleaned,
              redacted_count +
                (case raw_item of
                   PStr s \<Rightarrow> snd (redact_secret_text (take max_sanitized_string s))
                 | _ \<Rightarrow> 0))))"

definition add_redacted_count :: "(string, pyval) dict \<times> nat \<Rightarrow> pyval" where
  "add_redacted_count acc =
     (let (cleaned, redacted_count) = acc in
      if redacted_count = 0 then PDict cleaned
      else
        PDict (dict_set ''redacted_secret_count''
          (PInt ((case dict_get cleaned ''redacted_secret_count'' of
                    Some v \<Rightarrow> (case py_int v of Some n \<Rightarrow> n | None \<Rightarrow> 0)
                  | None \<Rightarrow> 0) + int redacted_count)) cleaned))"

function sanitize_runtime_payload :: "sanitizer_lib \<Rightarrow> nat \<Rightarrow> pyval \<Rightarrow> pyval" where
  "sanitize_runtime_payload lib depth value =
     (if max_sanitized_depth < depth then PStr ''<truncated>''
      else case value of
        PDict items \<Rightarrow>
          add_redacted_count
            (foldl (sanitize_entry lib (\<lambda>x. sanitize_runtime_payload lib (Suc depth) x)) ([], 0)
              (take max_sanitized_items items))
      | PList items \<Rightarrow>
          PList (map (\<lambda>x. sanitize_runtime_payload lib (Suc depth) x)
            (take max_sanitized_items items))
      | PStr s \<Rightarrow> PStr (redact_runtime_secret_text (Some (int max_sanitized_string)) s)
      | POther r \<Rightarrow> PStr (take max_sanitized_string r)
      | v \<Rightarrow> v)"
  by pat_completeness auto
termination
  by (relation "measure (\<lambda>(lib, depth, v). Suc max_sanitized_depth - depth)")
    (auto simp: max_sanitized_depth_def)

declare sanitize_runtime_payload.simps [simp del]

lemma sanitize_leaf:
  assumes "depth \<le> max_sanitized_depth"
  shows "sanitize_runtime_payload lib depth (PStr s) =
      PStr (redact_runtime_secret_text (Some (int max_sanitized_string)) s)"
    and "sanitize_runtime_payload lib depth (POther r) = PStr (take max_sanitized_string r)"
  using assms by (subst sanitize_runtime_payload.simps, simp)+

section \<open>What the filter guarantees\<close>

text \<open>
  \<open>key_ok k v\<close>: the spelling \<open>k\<close> may appear beside the value \<open>v\<close> in a durable record. A
  sensitive-looking name is only left on a boolean presence flag or on the counter of redactions.
\<close>

definition key_ok :: "string \<Rightarrow> pyval \<Rightarrow> bool" where
  "key_ok k v \<longleftrightarrow>
     (let n = sanitizer_normalize_key k in
      n \<noteq> [] \<and> n \<notin> set control_keys \<and> n \<noteq> ''user_id'' \<and>
      (looks_sensitive_key n \<longrightarrow>
         (k = ''redacted_secret_count'' \<and> (case v of PInt _ \<Rightarrow> True | _ \<Rightarrow> False)) \<or>
         is_safe_presence_flag n v))"

fun payload_clean :: "pyval \<Rightarrow> bool" where
  "payload_clean (PList xs) = list_all payload_clean xs"
| "payload_clean (PDict d) = list_all (\<lambda>(k, v). key_ok k v \<and> payload_clean v) d"
| "payload_clean (POther _) = False"
| "payload_clean _ = True"

lemma sanitizer_normalize_lit:
  "sanitizer_normalize_key ''user_id_hash'' = ''user_id_hash''"
  "sanitizer_normalize_key ''redacted_secret_count'' = ''redacted_secret_count''"
  by (code_simp)+

lemma key_ok_user_id_hash: "key_ok ''user_id_hash'' (PStr h)"
proof -
  have "\<not> looks_sensitive_key ''user_id_hash''" by code_simp
  moreover have "''user_id_hash'' \<notin> set control_keys" by code_simp
  ultimately show ?thesis by (simp add: key_ok_def sanitizer_normalize_lit Let_def)
qed

lemma key_ok_count: "key_ok ''redacted_secret_count'' (PInt n)"
proof -
  have "''redacted_secret_count'' \<notin> set control_keys" by code_simp
  then show ?thesis by (simp add: key_ok_def sanitizer_normalize_lit Let_def)
qed

definition entries_ok :: "(string, pyval) dict \<Rightarrow> bool" where
  "entries_ok d = list_all (\<lambda>(k, v). key_ok k v \<and> payload_clean v) d"

lemma entries_ok_set:
  "entries_ok d \<Longrightarrow> key_ok k v \<Longrightarrow> payload_clean v \<Longrightarrow> entries_ok (dict_set k v d)"
  by (auto simp: entries_ok_def list_all_iff dest!: set_dict_set)

lemma payload_clean_bool: "is_safe_presence_flag n v \<Longrightarrow> payload_clean v"
  by (cases v) (auto simp: is_safe_presence_flag_def)

lemma sanitize_entry_ok:
  assumes rec: "\<And>x. payload_clean (rec x)" and "entries_ok (fst acc)"
  shows "entries_ok (fst (sanitize_entry lib rec acc e))"
  using assms(2)
  by (cases acc; cases e)
    (auto simp: sanitize_entry_def Let_def key_ok_def
        intro!: entries_ok_set key_ok_user_id_hash key_ok_count rec
        dest: payload_clean_bool split: option.splits)

lemma sanitize_loop_ok:
  assumes "\<And>x. payload_clean (rec x)" and "entries_ok (fst acc)"
  shows "entries_ok (fst (foldl (sanitize_entry lib rec) acc es))"
  using assms(2)
proof (induction es arbitrary: acc)
  case (Cons e es)
  then show ?case by (simp add: sanitize_entry_ok assms(1))
qed simp

lemma add_redacted_count_clean: "entries_ok (fst acc) \<Longrightarrow> payload_clean (add_redacted_count acc)"
  using entries_ok_set [OF _ key_ok_count, of "fst acc"]
  by (cases acc) (auto simp: add_redacted_count_def Let_def entries_ok_def)

text \<open>
  The recursion is on the depth left, so a property of every result is proved by induction on it.
\<close>

lemma sanitize_induct [case_names step]:
  assumes "\<And>depth v. (\<And>x. depth \<le> max_sanitized_depth \<Longrightarrow> P (Suc depth) x) \<Longrightarrow> P depth v"
  shows "P depth v"
proof (induction "Suc max_sanitized_depth - depth" arbitrary: depth v rule: less_induct)
  case less
  show ?case by (rule assms, rule less.hyps) simp
qed

lemma sanitized_clean: "payload_clean (sanitize_runtime_payload lib depth v)"
proof (induction depth v rule: sanitize_induct)
  case (step depth v)
  show ?case
  proof (cases "max_sanitized_depth < depth")
    case True
    then show ?thesis by (simp add: sanitize_runtime_payload.simps)
  next
    case False
    let ?rec = "\<lambda>x. sanitize_runtime_payload lib (Suc depth) x"
    have rec: "payload_clean (?rec x)" for x
      using step False by simp
    have loop: "entries_ok (fst (foldl (sanitize_entry lib ?rec) ([], 0) es))" for es
      by (rule sanitize_loop_ok) (simp_all add: rec entries_ok_def)
    show ?thesis
      using False
      by (subst sanitize_runtime_payload.simps)
        (auto split: pyval.splits intro!: add_redacted_count_clean loop simp: list_all_iff rec)
  qed
qed

text \<open>The size of a record is bounded too: nesting and the number of entries on each level.\<close>

fun payload_depth :: "pyval \<Rightarrow> nat" where
  "payload_depth (PList xs) = Suc (Max (set (0 # map payload_depth xs)))"
| "payload_depth (PDict d) = Suc (Max (set (0 # map (\<lambda>(k, v). payload_depth v) d)))"
| "payload_depth _ = 0"

fun payload_width_ok :: "nat \<Rightarrow> pyval \<Rightarrow> bool" where
  "payload_width_ok n (PList xs) = (length xs \<le> n \<and> list_all (payload_width_ok n) xs)"
| "payload_width_ok n (PDict d) = (length d \<le> n \<and> list_all (\<lambda>(k, v). payload_width_ok n v) d)"
| "payload_width_ok n _ = True"

lemma payload_depth_dict_le:
  "payload_depth (PDict d) \<le> Suc n \<longleftrightarrow> (\<forall>(k, v) \<in> set d. payload_depth v \<le> n)"
  by (auto simp: Max_le_iff)

lemma payload_depth_list_le:
  "payload_depth (PList xs) \<le> Suc n \<longleftrightarrow> (\<forall>v \<in> set xs. payload_depth v \<le> n)"
  by (auto simp: Max_le_iff)

text \<open>A predicate on values that one loop turn keeps for every entry of the accumulator.\<close>

lemma sanitize_entry_values:
  assumes rec: "\<And>x. Q (rec x)" and flat: "\<And>b. Q (PBool b)" "\<And>n. Q (PInt n)" "\<And>s. Q (PStr s)"
    and acc: "\<forall>(k, v) \<in> set (fst acc). Q v"
  shows "\<forall>(k, v) \<in> set (fst (sanitize_entry lib rec acc e)). Q v"
proof -
  have flag: "is_safe_presence_flag n v \<Longrightarrow> Q v" for n v
    using flat(1) by (cases v) (auto simp: is_safe_presence_flag_def)
  show ?thesis
    using acc
    by (cases acc; cases e)
      (auto simp: sanitize_entry_def Let_def dest!: set_dict_set
          split: option.splits intro: rec flat flag)
qed

lemma sanitize_loop_values:
  assumes "\<And>x. Q (rec x)" "\<And>b. Q (PBool b)" "\<And>n. Q (PInt n)" "\<And>s. Q (PStr s)"
    and "\<forall>(k, v) \<in> set (fst acc). Q v"
  shows "\<forall>(k, v) \<in> set (fst (foldl (sanitize_entry lib rec) acc es)). Q v"
  using assms(5)
proof (induction es arbitrary: acc)
  case (Cons e es)
  show ?case
    using Cons.IH [OF sanitize_entry_values [OF assms(1-4) Cons.prems]] by simp
qed simp

lemma sanitize_entry_length:
  "length (fst (sanitize_entry lib rec acc e)) \<le> Suc (length (fst acc))"
  by (cases acc; cases e)
    (auto simp: sanitize_entry_def Let_def split: option.splits intro: length_dict_set)

lemma sanitize_loop_length:
  "length (fst (foldl (sanitize_entry lib rec) acc es)) \<le> length (fst acc) + length es"
proof (induction es arbitrary: acc)
  case (Cons e es)
  show ?case
    using Cons.IH [of "sanitize_entry lib rec acc e"] sanitize_entry_length [of lib rec acc e] by simp
qed simp

lemma add_redacted_count_depth:
  "\<forall>(k, v) \<in> set (fst acc). payload_depth v \<le> n \<Longrightarrow> payload_depth (add_redacted_count acc) \<le> Suc n"
  unfolding add_redacted_count_def
  by (cases acc) (auto simp only: Let_def prod.case fst_conv payload_depth_dict_le
      split: if_splits dest!: set_dict_set, auto)

lemma add_redacted_count_width:
  "length (fst acc) \<le> n \<Longrightarrow> \<forall>(k, v) \<in> set (fst acc). payload_width_ok (Suc n) v
   \<Longrightarrow> payload_width_ok (Suc n) (add_redacted_count acc)"
  by (cases acc) (auto simp: add_redacted_count_def Let_def list_all_iff dest!: set_dict_set
      intro: le_trans [OF length_dict_set])

lemma sanitized_depth:
  "payload_depth (sanitize_runtime_payload lib depth v) \<le> Suc max_sanitized_depth - depth"
proof (induction depth v rule: sanitize_induct)
  case (step depth v)
  show ?case
  proof (cases "max_sanitized_depth < depth")
    case True
    then show ?thesis by (simp add: sanitize_runtime_payload.simps)
  next
    case False
    let ?n = "max_sanitized_depth - depth"
    let ?rec = "\<lambda>x. sanitize_runtime_payload lib (Suc depth) x"
    from False have n: "Suc max_sanitized_depth - depth = Suc ?n" by simp
    have rec: "payload_depth (?rec x) \<le> ?n" for x
      using step [of x] False by simp
    have loop: "\<forall>(k, v) \<in> set (fst (foldl (sanitize_entry lib ?rec) ([], 0) es)).
        payload_depth v \<le> ?n" for es
      by (rule sanitize_loop_values) (simp_all add: rec)
    show ?thesis
    proof (cases v)
      case (PDict items)
      then show ?thesis
        using False by (subst sanitize_runtime_payload.simps)
          (simp add: n add_redacted_count_depth [OF loop])
    next
      case (PList items)
      then show ?thesis
        using False by (subst sanitize_runtime_payload.simps)
          (auto simp: n payload_depth_list_le rec simp del: payload_depth.simps)
    qed (use False in \<open>subst sanitize_runtime_payload.simps, simp\<close>)+
  qed
qed

lemma sanitized_width:
  "payload_width_ok (Suc max_sanitized_items) (sanitize_runtime_payload lib depth v)"
proof (induction depth v rule: sanitize_induct)
  case (step depth v)
  show ?case
  proof (cases "max_sanitized_depth < depth")
    case True
    then show ?thesis by (simp add: sanitize_runtime_payload.simps)
  next
    case False
    let ?rec = "\<lambda>x. sanitize_runtime_payload lib (Suc depth) x"
    have rec: "payload_width_ok (Suc max_sanitized_items) (?rec x)" for x
      using step False by simp
    have vals: "\<forall>(k, v) \<in> set (fst (foldl (sanitize_entry lib ?rec) ([], 0) es)).
        payload_width_ok (Suc max_sanitized_items) v" for es
      by (rule sanitize_loop_values) (simp_all add: rec)
    have len: "length (fst (foldl (sanitize_entry lib ?rec) ([], 0) (take max_sanitized_items es)))
        \<le> max_sanitized_items" for es
      using sanitize_loop_length [of lib ?rec "([], 0)" "take max_sanitized_items es"] by simp
    show ?thesis
      using False by (subst sanitize_runtime_payload.simps)
        (auto split: pyval.splits simp: list_all_iff rec intro!: add_redacted_count_width len vals)
  qed
qed

section \<open>Properties\<close>

text \<open>Whatever payload enters the filter, no dictionary on any level of the result holds a
  control key, a raw \<open>user_id\<close> or an empty key, and a sensitive-looking key is left only on a
  boolean presence flag or on the redaction counter; no unprocessed object is left either.\<close>

theorem sanitized_payload_has_no_sensitive_entry:
  "payload_clean (sanitize_runtime_payload lib 0 v)"
  by (rule sanitized_clean)

text \<open>C40: The result is bounded whatever the input's size: nesting is at most nine levels and every
  list or dictionary on every level has at most 65 entries (64 items and the redaction counter).\<close>

theorem sanitized_payload_bounded:
  "payload_depth (sanitize_runtime_payload lib 0 v) \<le> 9 \<and>
   payload_width_ok 65 (sanitize_runtime_payload lib 0 v)"
  using sanitized_depth [of lib 0 v] sanitized_width [of lib 0 v]
  by (simp add: max_sanitized_depth_def max_sanitized_items_def)

text \<open>The redactor is transparent on text without secrets: when it counts no redaction the text
  is returned unchanged, so ordinary diagnostics survive the filter.\<close>

theorem redaction_without_hits_is_identity:
  assumes "snd (redact_secret_text s) = 0"
  shows "fst (redact_secret_text s) = s"
  using assms rx_sub_zero
  by (auto simp: redact_secret_text_def Let_def split: prod.splits) (metis fst_conv snd_conv)

text \<open>A witness: a text without a secret.\<close>

theorem redaction_without_hits_witness:
  "fst (redact_secret_text ''ok 5'') = ''ok 5''"
proof -
  have "snd (redact_secret_text ''ok 5'') = 0" by code_simp
  then show ?thesis by (rule redaction_without_hits_is_identity)
qed

text \<open>The filter's last branch is not protected by the redactor: a value that is neither a
  dictionary, a list, a string nor a scalar (a tuple, for instance) is written as its \<open>str()\<close>, so a
  secret that is redacted inside a string survives inside the printed form of a tuple.\<close>

theorem stringified_objects_keep_their_secrets:
  "sanitize_runtime_payload lib 0 (PStr ''token=abcdef'') = PStr ''<redacted-secret>''
   \<and> sanitize_runtime_payload lib 0 (POther ''(token=abcdef,)'')
       = PStr ''(token=abcdef,)''"
proof -
  have r: "fst (redact_secret_text ''token=abcdef'') = ''<redacted-secret>''"
    by code_simp
  have t: "take (nat (max 0 (int max_sanitized_string))) ''token=abcdef'' = ''token=abcdef''"
    "take max_sanitized_string ''(token=abcdef,)'' = ''(token=abcdef,)''"
    by (simp_all add: max_sanitized_string_def)
  show ?thesis
    by (simp only: sanitize_leaf [OF le0] redact_runtime_secret_text_def option.case Let_def t r simp_thms)
qed

end
