(* ===== verification/Connect_Lifecycle.thy ===== *)
theory Connect_Lifecycle
  imports Payload_Sanitizer
begin

text \<open>
  The connection lifecycle projection of \<open>app/engine/wiii_connect/connection_lifecycle.py\<close>: storage,
  provider and UI status words are normalised into one enumeration, and every state names the next
  step that is required. A connection object is seen through its \<open>state\<close>, \<open>active\<close> and \<open>reason\<close>.
\<close>

section \<open>Data\<close>

datatype flow_status = FDisconnected | FAuthorizing | FWaiting | FConnected | FExpired | FError

fun flow_status_value :: "flow_status \<Rightarrow> string" where
  "flow_status_value FDisconnected = ''disconnected''"
| "flow_status_value FAuthorizing = ''authorizing''"
| "flow_status_value FWaiting = ''waiting''"
| "flow_status_value FConnected = ''connected''"
| "flow_status_value FExpired = ''expired''"
| "flow_status_value FError = ''error''"

record lifecycle_connection =
  lc_state :: string
  lc_active :: bool
  lc_reason :: string

record lifecycle_decision =
  ld_provider_slug :: string
  ld_status :: flow_status
  ld_reason :: string
  ld_active :: bool
  ld_connection_present :: bool
  ld_agent_ready :: bool
  ld_ready_to_connect :: bool
  ld_ready_to_execute_action :: bool
  ld_required_next :: "string list"

definition lifecycle_version :: string where
  "lifecycle_version = ''wiii_connect_connection_lifecycle.v1''"

section \<open>Operations\<close>

definition lifecycle_safe_key :: "string \<Rightarrow> string" where
  "lifecycle_safe_key value =
     take 96 (filter (\<lambda>c. is_alnum c \<or> c = CHR ''_'')
       (dash_to_underscore (py_lower (py_strip value))))"

definition safe_public_lifecycle_token :: "string \<Rightarrow> string" where
  "safe_public_lifecycle_token value =
     take 96 (filter (\<lambda>c. is_alnum c \<or> c = CHR ''_'' \<or> c = CHR ''.'')
       (dash_to_underscore (py_lower (py_strip value))))"

definition normalize_connection_flow_status :: "string option \<Rightarrow> bool \<Rightarrow> flow_status" where
  "normalize_connection_flow_status value active =
     (if active then FConnected
      else let normalized = lifecycle_safe_key (str_or_empty value) in
        if normalized \<in> {''connected'', ''active'', ''preview''} then FConnected
        else if normalized = ''authorizing'' then FAuthorizing
        else if normalized \<in> {''waiting'', ''pending'', ''initiated'', ''initializing''} then FWaiting
        else if normalized = ''expired'' then FExpired
        else if normalized \<in> {''error'', ''failed''} then FError
        else FDisconnected)"

definition default_reason_for_status :: "flow_status \<Rightarrow> bool \<Rightarrow> string" where
  "default_reason_for_status status ready_to_connect =
     (if status = FConnected then ''connected''
      else if status = FAuthorizing then ''authorization_started''
      else if status = FWaiting then ''waiting_for_oauth''
      else if status = FExpired then ''connection_expired''
      else if status = FError then ''connection_error''
      else if ready_to_connect then ''ready_to_connect'' else ''connection_missing'')"

definition lifecycle_reason_steps :: "(string \<times> string list) list" where
  "lifecycle_reason_steps =
    [(''connection_storage_unavailable'', [''configure_wiii_connect_storage'']),
     (''provider_adapter_disabled'', [''configure_composio_adapter'']),
     (''provider_adapter_not_bound'', [''bind_provider_adapter'']),
     (''provider_adapter_not_configured'', [''configure_provider_adapter'']),
     (''provider_disabled'', [''enable_provider_registry_entry''])]"

definition required_next_for_lifecycle ::
  "flow_status \<Rightarrow> string \<Rightarrow> bool \<Rightarrow> bool \<Rightarrow> bool \<Rightarrow> string list" where
  "required_next_for_lifecycle status reason agent_ready ready_to_connect ready_to_execute_action =
     (if status = FConnected then
        (if ready_to_execute_action then []
         else if agent_ready then [''select_action_and_evaluate_gateway'']
         else [''inspect_provider_readiness''])
      else if status \<in> {FAuthorizing, FWaiting} then [''complete_provider_oauth'']
      else if status = FExpired then [''reconnect_provider_account'']
      else if status = FError then [''inspect_provider_connection_error'']
      else case dict_get lifecycle_reason_steps reason of
          Some steps \<Rightarrow> steps
        | None \<Rightarrow> if ready_to_connect then [''complete_provider_oauth'']
                  else [''connect_provider_account''])"

text \<open>The keyword arguments of \<open>build_connection_lifecycle_decision\<close> and their defaults.\<close>

record lifecycle_request =
  lr_provider_slug :: string
  lr_connection :: "lifecycle_connection option"
  lr_status :: "string option"
  lr_reason :: string
  lr_connection_present :: "bool option"
  lr_active :: "bool option"
  lr_agent_ready :: bool
  lr_ready_to_connect :: bool
  lr_ready_to_execute_action :: bool
  lr_required_next :: "string list option"

definition lifecycle_request_for :: "string \<Rightarrow> lifecycle_connection option \<Rightarrow> lifecycle_request" where
  "lifecycle_request_for provider_slug connection =
     \<lparr>lr_provider_slug = provider_slug, lr_connection = connection, lr_status = None,
      lr_reason = '''', lr_connection_present = None, lr_active = None, lr_agent_ready = False,
      lr_ready_to_connect = False, lr_ready_to_execute_action = False, lr_required_next = None\<rparr>"

definition build_connection_lifecycle_decision :: "lifecycle_request \<Rightarrow> lifecycle_decision" where
  "build_connection_lifecycle_decision r =
     (let raw_state =
            (case lr_connection r of
               Some c \<Rightarrow> Some (if lc_state c \<noteq> [] then lc_state c else str_or_empty (lr_status r))
             | None \<Rightarrow> lr_status r);
          resolved_active =
            (case lr_active r of
               None \<Rightarrow> (case lr_connection r of Some c \<Rightarrow> lc_active c | None \<Rightarrow> False)
             | Some a \<Rightarrow> a);
          resolved_present =
            (case lr_connection_present r of
               None \<Rightarrow> lr_connection r \<noteq> None
             | Some p \<Rightarrow> p);
          resolved_status = normalize_connection_flow_status raw_state resolved_active;
          connection_reason = (case lr_connection r of Some c \<Rightarrow> lc_reason c | None \<Rightarrow> []);
          resolved_reason = lifecycle_safe_key
            (if lr_reason r \<noteq> [] then lr_reason r
             else if connection_reason \<noteq> [] then connection_reason
             else default_reason_for_status resolved_status (lr_ready_to_connect r))
      in \<lparr>ld_provider_slug = lr_provider_slug r,
          ld_status = resolved_status,
          ld_reason = resolved_reason,
          ld_active = resolved_active,
          ld_connection_present = resolved_present,
          ld_agent_ready = lr_agent_ready r,
          ld_ready_to_connect = lr_ready_to_connect r,
          ld_ready_to_execute_action = lr_ready_to_execute_action r,
          ld_required_next =
            (case lr_required_next r of
               Some items \<Rightarrow> map lifecycle_safe_key items
             | None \<Rightarrow> required_next_for_lifecycle resolved_status resolved_reason
                 (lr_agent_ready r) (lr_ready_to_connect r) (lr_ready_to_execute_action r))\<rparr>)"

definition lifecycle_public_metadata :: "lifecycle_decision \<Rightarrow> pyval" where
  "lifecycle_public_metadata d = PDict
     [(''version'', PStr lifecycle_version),
      (''provider_slug'', PStr (lifecycle_safe_key (ld_provider_slug d))),
      (''status'', PStr (flow_status_value (ld_status d))),
      (''reason'', PStr (lifecycle_safe_key (ld_reason d))),
      (''active'', PBool (ld_active d)),
      (''connection_present'', PBool (ld_connection_present d)),
      (''agent_ready'', PBool (ld_agent_ready d)),
      (''ready_to_connect'', PBool (ld_ready_to_connect d)),
      (''ready_to_execute_action'', PBool (ld_ready_to_execute_action d)),
      (''required_next'', PList (map (\<lambda>i. PStr (lifecycle_safe_key i)) (ld_required_next d)))]"

definition lifecycle_allowed_keys :: "string list" where
  "lifecycle_allowed_keys =
    [''version'', ''provider_slug'', ''status'', ''reason'', ''active'', ''connection_present'',
     ''agent_ready'', ''ready_to_connect'', ''ready_to_execute_action'', ''required_next'']"

fun lifecycle_metadata_loop ::
  "(pyval \<Rightarrow> string) \<Rightarrow> (string, pyval) dict \<Rightarrow> (string, pyval) dict \<Rightarrow> (string, pyval) dict" where
  "lifecycle_metadata_loop str_of safe [] = safe"
| "lifecycle_metadata_loop str_of safe ((key, item) # rest) =
     lifecycle_metadata_loop str_of
       (if key \<notin> set lifecycle_allowed_keys \<or> item = PNone then safe
        else case item of
            PBool b \<Rightarrow> dict_set key (PBool b) safe
          | PList entries \<Rightarrow>
              dict_set key
                (PList (take 8 (map PStr (filter (\<lambda>t. t \<noteq> [])
                  (map (\<lambda>entry. safe_public_lifecycle_token (py_text str_of entry)) entries))))) safe
          | _ \<Rightarrow>
              (let token = safe_public_lifecycle_token (py_text str_of item) in
               if token \<noteq> [] then dict_set key (PStr token) safe else safe)) rest"

definition sanitize_connection_lifecycle_metadata :: "(pyval \<Rightarrow> string) \<Rightarrow> pyval \<Rightarrow> pyval" where
  "sanitize_connection_lifecycle_metadata str_of value =
     (case value of PDict items \<Rightarrow> PDict (lifecycle_metadata_loop str_of [] items) | _ \<Rightarrow> PDict [])"

section \<open>Facts\<close>

lemma lifecycle_key_chars:
  "c \<in> set (lifecycle_safe_key v) \<Longrightarrow>
     (is_alnum c \<or> c = CHR ''_'') \<and> lower_char c = c \<and> c \<noteq> CHR ''-'' \<and> \<not> is_space c"
proof -
  assume "c \<in> set (lifecycle_safe_key v)"
  then have "is_alnum c \<or> c = CHR ''_''" and "c \<in> set (dash_to_underscore (py_lower (py_strip v)))"
    by (auto simp: lifecycle_safe_key_def dest!: in_set_takeD)
  moreover then have "\<exists>d. c = (if lower_char d = CHR ''-'' then CHR ''_'' else lower_char d)"
    unfolding dash_to_underscore_def replace_char_def py_lower_def set_map by blast
  then have "lower_char c = c \<and> c \<noteq> CHR ''-''" by (auto split: if_splits)
  moreover have "is_alnum c \<or> c = CHR ''_'' \<Longrightarrow> \<not> is_space c"
    by (auto simp: is_alnum_def is_digit_def is_upper_def is_lower_def is_space_def code_def)
  ultimately show ?thesis by blast
qed

interpretation lifecycle_keys: text_normalizer lifecycle_safe_key
proof
  fix v
  let ?k = "lifecycle_safe_key v"
  have "py_strip ?k = ?k" using lifecycle_key_chars by (blast intro: strip_nonspace)
  moreover have "dash_to_underscore (py_lower ?k) = ?k"
    unfolding dash_to_underscore_def replace_char_def py_lower_def map_map
    by (rule map_idI) (use lifecycle_key_chars [of _ v] in auto)
  moreover have "filter (\<lambda>c. is_alnum c \<or> c = CHR ''_'') ?k = ?k"
    using lifecycle_key_chars by (auto simp: filter_id_conv)
  moreover have "length ?k \<le> 96" by (simp add: lifecycle_safe_key_def)
  ultimately show "lifecycle_safe_key ?k = ?k" unfolding lifecycle_safe_key_def [of "?k"] by simp
  show "stripped ?k" unfolding stripped_def
    using lifecycle_key_chars [of _ v] by (metis hd_in_set last_in_set)
qed

definition token_char :: "char \<Rightarrow> bool" where
  "token_char c \<longleftrightarrow> is_alnum c \<or> c = CHR ''_'' \<or> c = CHR ''.''"

definition token_ok :: "string \<Rightarrow> bool" where
  "token_ok t \<longleftrightarrow> t \<noteq> [] \<and> length t \<le> 96 \<and> list_all token_char t"

fun lifecycle_value_ok :: "pyval \<Rightarrow> bool" where
  "lifecycle_value_ok (PBool b) = True"
| "lifecycle_value_ok (PStr t) = token_ok t"
| "lifecycle_value_ok (PList items) =
     (length items \<le> 8 \<and> list_all (\<lambda>i. case i of PStr t \<Rightarrow> token_ok t | _ \<Rightarrow> False) items)"
| "lifecycle_value_ok _ = False"

lemma token_ok_token: "safe_public_lifecycle_token v \<noteq> [] \<Longrightarrow> token_ok (safe_public_lifecycle_token v)"
  by (auto simp: token_ok_def safe_public_lifecycle_token_def token_char_def list_all_iff
      dest!: in_set_takeD)

lemma lifecycle_loop_ok:
  "list_all (\<lambda>(k, v). k \<in> set lifecycle_allowed_keys \<and> lifecycle_value_ok v) safe \<Longrightarrow>
   list_all (\<lambda>(k, v). k \<in> set lifecycle_allowed_keys \<and> lifecycle_value_ok v)
     (lifecycle_metadata_loop str_of safe items)"
proof (induction str_of safe items rule: lifecycle_metadata_loop.induct)
  case (2 str_of safe key item rest)
  have enter: "list_all (\<lambda>(k, v). k \<in> set lifecycle_allowed_keys \<and> lifecycle_value_ok v)
      (dict_set key v safe)" if "key \<in> set lifecycle_allowed_keys" "lifecycle_value_ok v" for v
    using 2(2) that by (auto simp: list_all_iff dest!: set_dict_set)
  have list_ok: "lifecycle_value_ok (PList (take 8 (map PStr (filter (\<lambda>t. t \<noteq> [])
      (map (\<lambda>entry. safe_public_lifecycle_token (py_text str_of entry)) entries)))))" for entries
    by (auto simp: list_all_iff token_ok_token dest!: in_set_takeD)
  show ?case unfolding lifecycle_metadata_loop.simps
    by (rule 2(1)) (use 2(2) in \<open>auto simp: Let_def token_ok_token list_ok split: pyval.splits
      intro!: enter simp del: lifecycle_value_ok.simps(3)\<close>)
qed simp

lemma required_next_empty_iff:
  "required_next_for_lifecycle status reason agent connect execute = [] \<longleftrightarrow>
     status = FConnected \<and> execute"
  by (cases status) (auto simp: required_next_for_lifecycle_def lifecycle_reason_steps_def
      split: option.splits if_splits)

lemma active_is_connected: "active \<Longrightarrow> normalize_connection_flow_status s active = FConnected"
  by (simp add: normalize_connection_flow_status_def)

lemma decision_status:
  "ld_status (build_connection_lifecycle_decision r) = normalize_connection_flow_status
     (case lr_connection r of
        Some c \<Rightarrow> Some (if lc_state c \<noteq> [] then lc_state c else str_or_empty (lr_status r))
      | None \<Rightarrow> lr_status r) (ld_active (build_connection_lifecycle_decision r))"
  by (simp add: build_connection_lifecycle_decision_def Let_def cong: option.case_cong)

lemma decision_steps:
  "lr_required_next r = None \<Longrightarrow>
   ld_required_next (build_connection_lifecycle_decision r) = required_next_for_lifecycle
     (ld_status (build_connection_lifecycle_decision r)) (ld_reason (build_connection_lifecycle_decision r))
     (lr_agent_ready r) (lr_ready_to_connect r) (lr_ready_to_execute_action r)"
  by (simp add: build_connection_lifecycle_decision_def Let_def cong: option.case_cong)

lemma decision_status_update [simp]:
  "ld_status (build_connection_lifecycle_decision (r\<lparr>lr_required_next := n\<rparr>))
     = ld_status (build_connection_lifecycle_decision r)"
  by (cases "lr_connection r"; cases "lr_active r")
     (simp_all add: build_connection_lifecycle_decision_def Let_def)

section \<open>Properties\<close>

text \<open>A connection state with nothing left to do is exactly one that is connected and ready to
  execute: unless the caller overrides the steps, every other decision names a next step, and an
  active connection is always reported as connected.\<close>

theorem lifecycle_names_next_step:
  "(ld_required_next (build_connection_lifecycle_decision (r\<lparr>lr_required_next := None\<rparr>)) = [])
     = (ld_status (build_connection_lifecycle_decision r) = FConnected \<and> lr_ready_to_execute_action r)
   \<and> (if ld_active (build_connection_lifecycle_decision r)
      then ld_status (build_connection_lifecycle_decision r) = FConnected else True)"
  using decision_status [of r] active_is_connected
  by (auto simp: decision_steps required_next_empty_iff)

text \<open>The public connection lifecycle contract built from arbitrary metadata has only contract keys;
  its texts are non-empty tokens of letters, digits, \<open>_\<close> and \<open>.\<close> of at most 96 characters and its
  lists have at most eight of them.\<close>

theorem lifecycle_metadata_is_public_contract:
  "\<exists>d. sanitize_connection_lifecycle_metadata str_of raw = PDict d \<and>
     list_all (\<lambda>(k, v). k \<in> set lifecycle_allowed_keys \<and> lifecycle_value_ok v) d"
  using lifecycle_loop_ok [of "[]"]
  by (cases raw) (auto simp: sanitize_connection_lifecycle_metadata_def)

end
