(* ===== verification/Connect_Keys.thy ===== *)
theory Connect_Keys
  imports Prelude
begin

text \<open>
  The text normalisers of Wiii Connect and the argument-key policy of
  \<open>app/engine/wiii_connect/argument_key_policy.py\<close>: which provider argument names a model may
  author and which spelling of a key may appear in public audit metadata. The slug
  normalisers interpret the contract \<open>text_normalizer\<close>.
\<close>

section \<open>Normalisers\<close>

definition normalize_provider_slug :: "string \<Rightarrow> string" where
  "normalize_provider_slug value = dash_to_underscore (py_lower (py_strip value))"

definition normalize_action_slug :: "string \<Rightarrow> string" where
  "normalize_action_slug value = dash_to_underscore (py_upper (py_strip value))"

definition policy_provider_slug :: "string \<Rightarrow> string" where
  "policy_provider_slug value = take 80 (dash_to_underscore (py_lower (py_strip value)))"

definition policy_action_slug :: "string \<Rightarrow> string" where
  "policy_action_slug value = take 120 (dash_to_underscore (py_upper (py_strip value)))"

section \<open>The argument-key policy\<close>

definition redacted_sensitive_argument_key :: string where
  "redacted_sensitive_argument_key = ''redacted_sensitive_field''"

definition backend_owned_argument_key :: string where
  "backend_owned_argument_key = ''backend_owned_field''"

definition argument_sensitive_markers :: "string list" where
  "argument_sensitive_markers =
    [''token'', ''secret'', ''password'', ''credential'', ''key'', ''code'', ''authorization'']"

definition backend_owned_argument_keys :: "string list" where
  "backend_owned_argument_keys =
    [''account_id'', ''account_ref'', ''approval_token'', ''connected_account_id'',
     ''connection_id'', ''connection_ref'', ''cursor'', ''external_account_ref'', ''file'',
     ''files'', ''image'', ''image_base64'', ''image_filename'', ''image_media_type'',
     ''image_url'', ''media'', ''page_access_token'', ''page_id'', ''page_ids'', ''photo'',
     ''preview_evidence_id'', ''provider_payload'', ''published'', ''raw_prompt'',
     ''scheduled_publish_time'', ''upload'', ''user_id'', ''vault_key_id'']"

definition model_argument_keys_by_action :: "((string \<times> string) \<times> string list) list" where
  "model_argument_keys_by_action =
    [((''gmail'', ''GMAIL_FETCH_EMAILS''), [''query'', ''max_results'']),
     ((''facebook'', ''FACEBOOK_LIST_MANAGED_PAGES''), [''fields'', ''limit'']),
     ((''facebook'', ''FACEBOOK_CREATE_POST''), [''message'', ''link'']),
     ((''facebook'', ''FACEBOOK_CREATE_PHOTO_POST''), [''message''])]"

definition normalize_argument_key :: "string \<Rightarrow> string" where
  "normalize_argument_key value = take 120 (dash_to_underscore (py_lower (py_strip value)))"

definition is_sensitive_argument_key :: "string \<Rightarrow> bool" where
  "is_sensitive_argument_key value =
     (let key = normalize_argument_key value in
      list_ex (\<lambda>marker. contains marker key) argument_sensitive_markers)"

definition is_backend_owned_argument_key :: "string \<Rightarrow> bool" where
  "is_backend_owned_argument_key value =
     (let key = normalize_argument_key value in key \<in> set backend_owned_argument_keys)"

definition safe_public_argument_key :: "string \<Rightarrow> string" where
  "safe_public_argument_key value =
     (let key = normalize_argument_key value in
      if key = [] then ''empty''
      else if is_sensitive_argument_key key then redacted_sensitive_argument_key
      else if is_backend_owned_argument_key key then backend_owned_argument_key
      else take 80 key)"

text \<open>\<open>_dedupe\<close>: the loop keeps the first spelling of each non-empty item, then cuts to 50.\<close>

fun dedupe_loop :: "string list \<Rightarrow> string list \<Rightarrow> string list" where
  "dedupe_loop result [] = result"
| "dedupe_loop result (value # rest) =
     (let item = py_strip value in
      if item \<noteq> [] \<and> item \<notin> set result then dedupe_loop (result @ [item]) rest
      else dedupe_loop result rest)"

definition dedupe_keys :: "string list \<Rightarrow> string list" where
  "dedupe_keys values = take 50 (dedupe_loop [] values)"

definition safe_public_argument_keys :: "string list \<Rightarrow> string list" where
  "safe_public_argument_keys values = dedupe_keys (map safe_public_argument_key values)"

definition model_visible_argument_keys :: "string \<Rightarrow> string \<Rightarrow> string list \<Rightarrow> string list" where
  "model_visible_argument_keys provider_slug action_slug argument_keys =
     (let provider = policy_provider_slug provider_slug;
          action = policy_action_slug action_slug;
          keys = map normalize_argument_key argument_keys
      in case dict_get model_argument_keys_by_action (provider, action) of
           Some allowed \<Rightarrow> dedupe_keys (filter (\<lambda>key. key \<in> set allowed) keys)
         | None \<Rightarrow> dedupe_keys (map safe_public_argument_key
             (filter (\<lambda>key. key \<noteq> [] \<and> \<not> is_backend_owned_argument_key key) keys)))"

fun visible_arguments_loop ::
  "string list \<Rightarrow> (string, 'v) dict \<Rightarrow> (string, 'v) dict \<Rightarrow> (string, 'v) dict" where
  "visible_arguments_loop allowed result [] = result"
| "visible_arguments_loop allowed result ((key, value) # rest) =
     (let normalized = normalize_argument_key key in
      visible_arguments_loop allowed
        (if normalized \<noteq> [] \<and> normalized \<in> set allowed then dict_set normalized value result
         else result) rest)"

definition model_visible_arguments ::
  "string \<Rightarrow> string \<Rightarrow> (string, 'v) dict option \<Rightarrow> (string, 'v) dict" where
  "model_visible_arguments provider_slug action_slug arguments =
     (case arguments of
        None \<Rightarrow> []
      | Some args \<Rightarrow>
          visible_arguments_loop
            (model_visible_argument_keys provider_slug action_slug (map fst args)) [] args)"

definition hidden_model_argument_key_count :: "string \<Rightarrow> string \<Rightarrow> string list \<Rightarrow> nat" where
  "hidden_model_argument_key_count provider_slug action_slug argument_keys =
     (let provider = policy_provider_slug provider_slug;
          action = policy_action_slug action_slug;
          keys = filter (\<lambda>key. key \<noteq> []) (map normalize_argument_key argument_keys)
      in case dict_get model_argument_keys_by_action (provider, action) of
           Some allowed \<Rightarrow> length (filter (\<lambda>key. key \<notin> set allowed) keys)
         | None \<Rightarrow> length (filter
             (\<lambda>key. is_backend_owned_argument_key key \<or> is_sensitive_argument_key key) keys))"

section \<open>Facts\<close>

interpretation provider_slugs: text_normalizer normalize_provider_slug
  by unfold_locales
     (simp_all add: normalize_provider_slug_def stripped_strip strip_stripped dash_lower_idem)

interpretation action_slugs: text_normalizer normalize_action_slug
  by unfold_locales
     (simp_all add: normalize_action_slug_def stripped_strip strip_stripped dash_upper_idem)

lemma contains_dropWhile:
  "contains m s \<Longrightarrow> m \<noteq> [] \<Longrightarrow> \<forall>c \<in> set m. \<not> P c \<Longrightarrow> contains m (dropWhile P s)"
proof (induction s)
  case (Cons x xs)
  then show ?case by (cases m) auto
qed simp

lemma contains_strip:
  assumes "contains m s" "m \<noteq> []" "\<forall>c \<in> set m. \<not> is_space c"
  shows "contains m (py_strip s)"
proof -
  have "contains (rev m) (rev (dropWhile is_space s))"
    using contains_dropWhile [OF assms] by (simp add: contains_sublist)
  then have "contains (rev m) (dropWhile is_space (rev (dropWhile is_space s)))"
    by (rule contains_dropWhile) (use assms in auto)
  then show ?thesis by (simp add: py_strip_def contains_sublist sublist_rev_left)
qed

lemma contains_sub: "contains m t \<Longrightarrow> sublist t s \<Longrightarrow> contains m s"
  unfolding contains_sublist by (rule sublist_order.order_trans)

lemma sublist_strip: "sublist (py_strip s) s"
  unfolding py_strip_def
  by (metis rev_rev_ident sublist_dropWhile sublist_order.order_trans sublist_rev)

text \<open>The characters a normalised key consists of.\<close>

definition canonical_text :: "string \<Rightarrow> bool" where
  "canonical_text s \<longleftrightarrow> (\<forall>c \<in> set s. lower_char c = c \<and> c \<noteq> CHR ''-'')"

lemma canonical_normalized: "canonical_text (take n (dash_to_underscore (py_lower s)))"
proof -
  have "lower_char c = c \<and> c \<noteq> CHR ''-''" if "c \<in> set (dash_to_underscore (py_lower s))" for c
  proof -
    from that have "\<exists>d. c = (if lower_char d = CHR ''-'' then CHR ''_'' else lower_char d)"
      unfolding dash_to_underscore_def replace_char_def py_lower_def set_map by blast
    then obtain d where "c = (if lower_char d = CHR ''-'' then CHR ''_'' else lower_char d)" ..
    then show ?thesis by (cases "lower_char d = CHR ''-''") simp_all
  qed
  then show ?thesis unfolding canonical_text_def by (meson in_set_takeD)
qed

lemma canonical_sublist: "canonical_text s \<Longrightarrow> sublist t s \<Longrightarrow> canonical_text t"
  by (auto simp: canonical_text_def dest!: set_mono_sublist)

lemma canonical_map: "canonical_text s \<Longrightarrow> dash_to_underscore (py_lower s) = s"
  unfolding canonical_text_def dash_to_underscore_def replace_char_def py_lower_def
  by (induction s) simp_all

lemma normalize_canonical: "canonical_text s \<Longrightarrow> normalize_argument_key s = take 120 (py_strip s)"
  using canonical_map [of "py_strip s"] canonical_sublist sublist_strip
  by (auto simp: normalize_argument_key_def)

lemma marker_no_space:
  "m \<in> set argument_sensitive_markers \<Longrightarrow> m \<noteq> [] \<and> (\<forall>c \<in> set m. \<not> is_space c)"
  by (auto simp: argument_sensitive_markers_def is_space_def code_def)

text \<open>A part of a key that is not sensitive is not sensitive.\<close>

lemma insensitive_part:
  assumes "\<not> is_sensitive_argument_key (normalize_argument_key v)"
    and "sublist k (normalize_argument_key v)"
  shows "\<not> is_sensitive_argument_key k"
proof
  define n where "n = normalize_argument_key v"
  have n: "canonical_text n" "length n \<le> 120"
    by (auto simp: n_def normalize_argument_key_def canonical_normalized)
  have k: "canonical_text k" using canonical_sublist n(1) assms(2) by (simp add: n_def)
  assume "is_sensitive_argument_key k"
  then obtain m where m: "m \<in> set argument_sensitive_markers" "contains m (take 120 (py_strip k))"
    by (auto simp: is_sensitive_argument_key_def normalize_canonical [OF k] list_ex_iff)
  have "sublist (take 120 (py_strip k)) n"
    using assms(2) sublist_strip [of k] sublist_order.order_trans sublist_take
    unfolding n_def by metis
  then have "contains m (py_strip n)"
    using contains_strip contains_sub m marker_no_space by meson
  moreover have "take 120 (py_strip n) = py_strip n"
    using n(2) length_py_strip [of n] by simp
  ultimately have "is_sensitive_argument_key n"
    using m(1) by (auto simp: is_sensitive_argument_key_def normalize_canonical [OF n(1)] list_ex_iff)
  with assms(1) show False by (simp add: n_def)
qed

lemma safe_key_not_sensitive: "\<not> is_sensitive_argument_key (py_strip (safe_public_argument_key v))"
proof -
  have "\<not> is_sensitive_argument_key (py_strip ''empty'')"
    "\<not> is_sensitive_argument_key (py_strip redacted_sensitive_argument_key)"
    "\<not> is_sensitive_argument_key (py_strip backend_owned_argument_key)" by code_simp+
  moreover have "sublist (py_strip (take 80 (normalize_argument_key v))) (normalize_argument_key v)"
    using sublist_order.order_trans sublist_strip sublist_take by blast
  ultimately show ?thesis
    using insensitive_part by (auto simp: safe_public_argument_key_def Let_def)
qed

lemma dedupe_loop_set: "set (dedupe_loop result vs) = set result \<union> (py_strip ` set vs - {[]})"
  by (induction vs arbitrary: result) (auto simp: Let_def)

lemma dedupe_keys_set: "set (dedupe_keys vs) \<subseteq> py_strip ` set vs - {[]}"
  using dedupe_loop_set [of "[]" vs] by (auto simp: dedupe_keys_def dest: in_set_takeD)

lemma distinct_dedupe_loop: "distinct result \<Longrightarrow> distinct (dedupe_loop result vs)"
  by (induction vs arbitrary: result) (auto simp: Let_def)

lemma curated_keys_plain:
  "dict_get model_argument_keys_by_action k = Some allowed \<Longrightarrow>
     \<forall>a \<in> set allowed. py_strip a = a \<and> \<not> is_sensitive_argument_key a \<and> \<not> is_backend_owned_argument_key a"
proof -
  have "list_all (\<lambda>(_, allowed). list_all (\<lambda>a. py_strip a = a \<and> \<not> is_sensitive_argument_key a
      \<and> \<not> is_backend_owned_argument_key a) allowed) model_argument_keys_by_action" by code_simp
  then show "dict_get model_argument_keys_by_action k = Some allowed \<Longrightarrow> ?thesis"
    by (auto simp: list_all_iff dest!: map_of_SomeD)
qed

lemma visible_keys_not_sensitive:
  assumes "k \<in> set (model_visible_argument_keys p a keys)"
  shows "\<not> is_sensitive_argument_key k"
proof (cases "dict_get model_argument_keys_by_action (policy_provider_slug p, policy_action_slug a)")
  case None
  with assms have "k \<in> py_strip ` set (map safe_public_argument_key (filter
      (\<lambda>key. key \<noteq> [] \<and> \<not> is_backend_owned_argument_key key) (map normalize_argument_key keys)))"
    by (simp only: model_visible_argument_keys_def Let_def option.case)
       (meson DiffD1 dedupe_keys_set subsetD)
  then obtain v where "k = py_strip (safe_public_argument_key v)" by auto
  then show ?thesis by (simp add: safe_key_not_sensitive)
next
  case (Some allowed)
  with assms have "\<exists>v \<in> set allowed. k = py_strip v"
    by (auto simp: model_visible_argument_keys_def Let_def dest!: subsetD [OF dedupe_keys_set])
  with curated_keys_plain [OF Some] show ?thesis by auto
qed

lemma visible_loop_keys:
  "fst ` set (visible_arguments_loop allowed result args) \<subseteq> fst ` set result \<union> set allowed"
proof (induction allowed result args rule: visible_arguments_loop.induct)
  case (2 allowed result k v rest)
  show ?case
  proof (cases "normalize_argument_key k \<noteq> [] \<and> normalize_argument_key k \<in> set allowed")
    case True
    with 2 [OF refl] have "fst ` set (visible_arguments_loop allowed result ((k, v) # rest))
        \<subseteq> fst ` set (dict_set (normalize_argument_key k) v result) \<union> set allowed" by (simp add: Let_def)
    with True show ?thesis unfolding fst_set_dict_set by auto
  next
    case False
    then have "visible_arguments_loop allowed result ((k, v) # rest)
        = visible_arguments_loop allowed result rest" by (auto simp: Let_def)
    with 2 [OF refl] False show ?thesis by simp
  qed
qed simp

lemma visible_arguments_keys:
  "fst ` set (model_visible_arguments p a (Some args)) \<subseteq> set (model_visible_argument_keys p a (map fst args))"
  using visible_loop_keys [of "model_visible_argument_keys p a (map fst args)" "[]" args]
  by (simp add: model_visible_arguments_def)

lemma visible_arguments_entry:
  assumes "(k, v) \<in> set (model_visible_arguments p a (Some args))"
  shows "k \<in> set (model_visible_argument_keys p a (map fst args))"
  using visible_arguments_keys [of p a args] imageI [OF assms, of fst] by auto

section \<open>Properties\<close>

text \<open>Whatever the provider's schema calls its arguments, no argument that crosses the model
  boundary has a name with a sensitive marker, on curated and uncurated actions alike.\<close>

theorem visible_arguments_never_sensitive:
  "list_all (\<lambda>(k, v). \<not> is_sensitive_argument_key k) (model_visible_arguments p a args)"
proof (cases args)
  case (Some d)
  then show ?thesis
    by (auto simp: list_all_iff dest!: visible_arguments_entry visible_keys_not_sensitive)
qed (simp add: model_visible_arguments_def)

text \<open>On a curated action the model may author exactly the arguments on the action's list, so no
  backend-owned control (account selectors, approval tokens, media handles) passes.\<close>

theorem curated_arguments_within_allowlist:
  assumes "dict_get model_argument_keys_by_action (policy_provider_slug p, policy_action_slug a)
             = Some allowed"
  shows "list_all (\<lambda>(k, v). k \<in> set allowed \<and> \<not> is_backend_owned_argument_key k)
           (model_visible_arguments p a args)"
proof (cases args)
  case (Some d)
  have "set (model_visible_argument_keys p a (map fst d)) \<subseteq> set allowed"
    using assms curated_keys_plain [OF assms]
    by (auto simp: model_visible_argument_keys_def Let_def dest!: subsetD [OF dedupe_keys_set])
  with curated_keys_plain [OF assms] Some show ?thesis
    by (auto simp: list_all_iff dest!: visible_arguments_entry)
qed (simp add: model_visible_arguments_def)

theorem curated_arguments_within_allowlist_witness:
  "list_all (\<lambda>(k, v). k \<in> set [''message'', ''link''] \<and> \<not> is_backend_owned_argument_key k)
     (model_visible_arguments ''facebook'' ''facebook-create-post''
        (Some [(''message'', 1::nat), (''page_id'', 2)]))"
proof -
  have "dict_get model_argument_keys_by_action
      (policy_provider_slug ''facebook'', policy_action_slug ''facebook-create-post'')
      = Some [''message'', ''link'']" by code_simp
  from curated_arguments_within_allowlist [OF this] show ?thesis .
qed

text \<open>On an uncurated action a backend-owned argument can pass: a second key that starts with the
  owned name and is padded past eighty characters is not recognised as owned, is cut to eighty
  characters and stripped to the owned name, and thereby lets the real argument through.\<close>

theorem padded_key_unlocks_backend_owned_argument:
  "model_visible_arguments ''slack'' ''SLACK_POST''
     (Some [(''page_id'', PStr ''42''), (''page_id'' @ replicate 73 CHR '' '' @ ''x'', PNone)])
   = [(''page_id'', PStr ''42'')]
   \<and> is_backend_owned_argument_key ''page_id''"
  by code_simp

end
