(* ===== verification/Connect_Adapter.thy ===== *)
theory Connect_Adapter
  imports Connect_Keys Connect_Lifecycle
begin

text \<open>
  The policy contract of \<open>app/engine/wiii_connect/adapter_v1.py\<close>: registry entries, connection rows,
  execution requests, and the decision whether one external provider action may run. The SHA-256
  hex digest is the parameter \<open>sha\<close>; \<open>redact\<close>-ing of request ids is the redactor of
  \<open>Payload_Sanitizer\<close>.
\<close>

section \<open>Enumerations\<close>

datatype provider_kind = WiiiNative | Composio | Mcp | CustomOauth | Workflow
datatype auth_mode = NoAuth | Oauth2 | ApiKey | McpAuth | Delegated
datatype connection_state =
  CsDisconnected | CsAuthorizing | CsWaiting | CsConnected | CsExpired | CsError | CsDisabled
datatype scope_name = ScRead | ScPreview | ScWrite | ScApply | ScAdmin
datatype action_mutation = MRead | MPreview | MWrite | MApply | MAdmin

datatype decision_outcome = OutcomeAllowed | OutcomeDenied

datatype deny_reason =
    Allowed
  | ProviderDisabled
  | ProviderNotAgentReady
  | ProviderAdapterMismatch
  | ProviderAdapterNotBound
  | ProviderAdapterNotConfigured
  | ProviderAdapterCannotExecute
  | AuditLedgerNotPersistent
  | ConnectionSelectionRequired
  | ConnectionMissing
  | ConnectionProviderMismatch
  | ConnectionNotConnected
  | PathNotAllowed
  | ActionNotAllowed
  | MissingScope
  | ScopePolicyDenied
  | MissingPreviewEvidence
  | MissingApprovalToken

fun provider_kind_value :: "provider_kind \<Rightarrow> string" where
  "provider_kind_value WiiiNative = ''wiii_native''"
| "provider_kind_value Composio = ''composio''"
| "provider_kind_value Mcp = ''mcp''"
| "provider_kind_value CustomOauth = ''custom_oauth''"
| "provider_kind_value Workflow = ''workflow''"

fun auth_mode_value :: "auth_mode \<Rightarrow> string" where
  "auth_mode_value NoAuth = ''none''"
| "auth_mode_value Oauth2 = ''oauth2''"
| "auth_mode_value ApiKey = ''api_key''"
| "auth_mode_value McpAuth = ''mcp''"
| "auth_mode_value Delegated = ''delegated''"

fun connection_state_value :: "connection_state \<Rightarrow> string" where
  "connection_state_value CsDisconnected = ''disconnected''"
| "connection_state_value CsAuthorizing = ''authorizing''"
| "connection_state_value CsWaiting = ''waiting''"
| "connection_state_value CsConnected = ''connected''"
| "connection_state_value CsExpired = ''expired''"
| "connection_state_value CsError = ''error''"
| "connection_state_value CsDisabled = ''disabled''"

fun scope_value :: "scope_name \<Rightarrow> string" where
  "scope_value ScRead = ''read''"
| "scope_value ScPreview = ''preview''"
| "scope_value ScWrite = ''write''"
| "scope_value ScApply = ''apply''"
| "scope_value ScAdmin = ''admin''"

fun mutation_value :: "action_mutation \<Rightarrow> string" where
  "mutation_value MRead = ''read''"
| "mutation_value MPreview = ''preview''"
| "mutation_value MWrite = ''write''"
| "mutation_value MApply = ''apply''"
| "mutation_value MAdmin = ''admin''"

fun deny_reason_value :: "deny_reason \<Rightarrow> string" where
  "deny_reason_value Allowed = ''allowed''"
| "deny_reason_value ProviderDisabled = ''provider_disabled''"
| "deny_reason_value ProviderNotAgentReady = ''provider_not_agent_ready''"
| "deny_reason_value ProviderAdapterMismatch = ''provider_adapter_mismatch''"
| "deny_reason_value ProviderAdapterNotBound = ''provider_adapter_not_bound''"
| "deny_reason_value ProviderAdapterNotConfigured = ''provider_adapter_not_configured''"
| "deny_reason_value ProviderAdapterCannotExecute = ''provider_adapter_cannot_execute''"
| "deny_reason_value AuditLedgerNotPersistent = ''audit_ledger_not_persistent''"
| "deny_reason_value ConnectionSelectionRequired = ''connection_selection_required''"
| "deny_reason_value ConnectionMissing = ''connection_missing''"
| "deny_reason_value ConnectionProviderMismatch = ''connection_provider_mismatch''"
| "deny_reason_value ConnectionNotConnected = ''connection_not_connected''"
| "deny_reason_value PathNotAllowed = ''path_not_allowed''"
| "deny_reason_value ActionNotAllowed = ''action_not_allowed''"
| "deny_reason_value MissingScope = ''missing_scope''"
| "deny_reason_value ScopePolicyDenied = ''scope_policy_denied''"
| "deny_reason_value MissingPreviewEvidence = ''missing_preview_evidence''"
| "deny_reason_value MissingApprovalToken = ''missing_approval_token''"

fun outcome_value :: "decision_outcome \<Rightarrow> string" where
  "outcome_value OutcomeAllowed = ''allowed''"
| "outcome_value OutcomeDenied = ''denied''"

text \<open>The scopes are ordered by the power they grant, in the order the code lists them.\<close>

fun scope_rank :: "scope_name \<Rightarrow> nat" where
  "scope_rank ScRead = 0"
| "scope_rank ScPreview = 1"
| "scope_rank ScWrite = 2"
| "scope_rank ScApply = 3"
| "scope_rank ScAdmin = 4"

lemma scope_rank_inject: "scope_rank a = scope_rank b \<longleftrightarrow> a = b"
  by (cases a; cases b) simp_all

instantiation scope_name :: linorder
begin

definition less_eq_scope_name :: "scope_name \<Rightarrow> scope_name \<Rightarrow> bool" where
  "less_eq_scope_name a b \<longleftrightarrow> scope_rank a \<le> scope_rank b"

definition less_scope_name :: "scope_name \<Rightarrow> scope_name \<Rightarrow> bool" where
  "less_scope_name a b \<longleftrightarrow> scope_rank a < scope_rank b"

instance
  by standard (auto simp: less_eq_scope_name_def less_scope_name_def scope_rank_inject)

end

section \<open>Records\<close>

record scope_grant =
  sg_read :: bool
  sg_preview :: bool
  sg_write :: bool
  sg_apply :: bool
  sg_admin :: bool

definition no_scopes :: scope_grant where
  "no_scopes = \<lparr>sg_read = False, sg_preview = False, sg_write = False, sg_apply = False,
     sg_admin = False\<rparr>"

fun allows :: "scope_grant \<Rightarrow> scope_name \<Rightarrow> bool" where
  "allows g ScRead = sg_read g"
| "allows g ScPreview = sg_preview g"
| "allows g ScWrite = sg_write g"
| "allows g ScApply = sg_apply g"
| "allows g ScAdmin = sg_admin g"

definition enabled_scopes :: "scope_grant \<Rightarrow> scope_name list" where
  "enabled_scopes g = filter (allows g) [ScRead, ScPreview, ScWrite, ScApply, ScAdmin]"

definition scope_grant_metadata :: "scope_grant \<Rightarrow> pyval" where
  "scope_grant_metadata g = PDict
     [(''read'', PBool (sg_read g)), (''preview'', PBool (sg_preview g)),
      (''write'', PBool (sg_write g)), (''apply'', PBool (sg_apply g)),
      (''admin'', PBool (sg_admin g))]"

record required_field =
  rf_key :: string
  rf_label :: string
  rf_required :: bool
  rf_secret :: bool
  rf_help_text :: string

definition required_field_metadata :: "required_field \<Rightarrow> pyval" where
  "required_field_metadata f = PDict
     [(''key'', PStr (rf_key f)), (''label'', PStr (rf_label f)),
      (''required'', PBool (rf_required f)), (''secret'', PBool (rf_secret f)),
      (''help_text'', PStr (rf_help_text f))]"

record provider_entry =
  pe_slug :: string
  pe_label :: string
  pe_provider_kind :: provider_kind
  pe_auth_mode :: auth_mode
  pe_enabled :: bool
  pe_agent_ready :: bool
  pe_category :: string
  pe_description :: string
  pe_allowed_paths :: "string list"
  pe_action_allowlist :: "string list"
  pe_requirements :: "string list"
  pe_connect_requirements :: "string list"
  pe_agent_ready_requirements :: "string list"
  pe_required_fields :: "required_field list"
  pe_default_scopes :: scope_grant
  pe_source :: string
  pe_warnings :: "string list"

definition connection_requirements :: "provider_entry \<Rightarrow> string list" where
  "connection_requirements e =
     (if pe_connect_requirements e \<noteq> [] then pe_connect_requirements e
      else if pe_agent_ready_requirements e \<noteq> [] then []
      else pe_requirements e)"

definition all_requirements :: "provider_entry \<Rightarrow> string list" where
  "all_requirements e =
     fold (\<lambda>requirement result.
         if requirement \<noteq> [] \<and> requirement \<notin> set result then result @ [requirement] else result)
       (if pe_requirements e \<noteq> [] then pe_requirements e
        else pe_connect_requirements e @ pe_agent_ready_requirements e) []"

fun allowlist_admits :: "string \<Rightarrow> string list \<Rightarrow> bool" where
  "allowlist_admits action [] = False"
| "allowlist_admits action (pattern # rest) =
     (let normalized = py_upper (py_strip pattern) in
      if normalized = [] then allowlist_admits action rest
      else if py_endswith normalized ''*'' then
        (let prefix = butlast normalized in
         if prefix \<noteq> [] \<and> py_startswith action prefix then True else allowlist_admits action rest)
      else if action = normalized then True
      else allowlist_admits action rest)"

definition allows_action :: "provider_entry \<Rightarrow> string \<Rightarrow> bool" where
  "allows_action e action_slug =
     (let action = py_upper (py_strip action_slug) in
      if action = [] then False else allowlist_admits action (pe_action_allowlist e))"

definition adapter_version :: string where
  "adapter_version = ''wiii_connect_adapter.v1''"

definition provider_entry_metadata :: "provider_entry \<Rightarrow> pyval" where
  "provider_entry_metadata e = PDict
     [(''version'', PStr adapter_version),
      (''slug'', PStr (pe_slug e)),
      (''label'', PStr (pe_label e)),
      (''provider_kind'', PStr (provider_kind_value (pe_provider_kind e))),
      (''auth_mode'', PStr (auth_mode_value (pe_auth_mode e))),
      (''enabled'', PBool (pe_enabled e)),
      (''agent_ready'', PBool (pe_agent_ready e)),
      (''category'', PStr (pe_category e)),
      (''description'', PStr (pe_description e)),
      (''allowed_paths'', PList (map PStr (pe_allowed_paths e))),
      (''action_count'', PInt (int (length (pe_action_allowlist e)))),
      (''requirements'', PList (map PStr (all_requirements e))),
      (''connect_requirements'', PList (map PStr (connection_requirements e))),
      (''agent_ready_requirements'', PList (map PStr (pe_agent_ready_requirements e))),
      (''required_fields'', PList (map required_field_metadata (pe_required_fields e))),
      (''default_scopes'', scope_grant_metadata (pe_default_scopes e)),
      (''source'', PStr (pe_source e)),
      (''warnings'', PList (map PStr (pe_warnings e)))]"

record vault_secret_ref =
  vr_provider_slug :: string
  vr_connection_id :: string
  vr_vault_key_id :: string
  vr_secret_version :: string

definition vault_secret_ref_metadata :: "vault_secret_ref \<Rightarrow> pyval" where
  "vault_secret_ref_metadata v = PDict
     [(''provider_slug'', PStr (vr_provider_slug v)),
      (''connection_ref_present'', PBool (vr_connection_id v \<noteq> [])),
      (''vault_ref_present'', PBool (vr_vault_key_id v \<noteq> [])),
      (''secret_version'', PStr (vr_secret_version v))]"

record connection_record =
  cr_connection_id :: string
  cr_provider_slug :: string
  cr_state :: connection_state
  cr_scopes :: scope_grant
  cr_vault_ref :: "vault_secret_ref option"
  cr_account_label :: string
  cr_external_account_ref :: string
  cr_last_checked_at :: "string option"
  cr_reason :: string
  cr_warnings :: "string list"

definition cr_active :: "connection_record \<Rightarrow> bool" where
  "cr_active c \<longleftrightarrow> cr_state c = CsConnected"

definition normalize_connection_state :: "string option \<Rightarrow> connection_state" where
  "normalize_connection_state status =
     (let normalized = py_upper (py_strip (str_or_empty status)) in
      if normalized \<in> {''ACTIVE'', ''CONNECTED''} then CsConnected
      else if normalized \<in> {''AUTHORIZING''} then CsAuthorizing
      else if normalized \<in> {''PENDING'', ''INITIATED'', ''INITIALIZING''} then CsWaiting
      else if normalized = ''EXPIRED'' then CsExpired
      else if normalized \<in> {''FAILED'', ''ERROR''} then CsError
      else if normalized = ''DISABLED'' then CsDisabled
      else CsDisconnected)"

definition public_connection_ref :: "(string \<Rightarrow> string) \<Rightarrow> string \<Rightarrow> string \<Rightarrow> string" where
  "public_connection_ref sha provider_slug connection_id =
     (let provider = dash_to_underscore (py_lower (py_strip provider_slug));
          raw_id = py_strip connection_id
      in if provider = [] \<or> raw_id = [] then []
         else ''wcn_'' @ take 24 (sha (provider @ '':'' @ raw_id)))"

definition connection_ref_matches ::
  "(string \<Rightarrow> string) \<Rightarrow> string \<Rightarrow> string \<Rightarrow> string \<Rightarrow> bool" where
  "connection_ref_matches sha provider_slug connection_id candidate =
     (let normalized_candidate = py_strip candidate in
      if normalized_candidate = [] then False
      else normalized_candidate = public_connection_ref sha provider_slug connection_id)"

definition lifecycle_view :: "connection_record \<Rightarrow> lifecycle_connection" where
  "lifecycle_view c = \<lparr>lc_state = connection_state_value (cr_state c), lc_active = cr_active c,
     lc_reason = cr_reason c\<rparr>"

definition connection_record_metadata :: "(string \<Rightarrow> string) \<Rightarrow> connection_record \<Rightarrow> pyval" where
  "connection_record_metadata sha c =
     (let ref = public_connection_ref sha (cr_provider_slug c) (cr_connection_id c) in PDict
     [(''version'', PStr adapter_version),
      (''connection_ref'', PStr ref),
      (''connection_ref_present'', PBool (ref \<noteq> [])),
      (''provider_slug'', PStr (cr_provider_slug c)),
      (''state'', PStr (connection_state_value (cr_state c))),
      (''active'', PBool (cr_active c)),
      (''scopes'', scope_grant_metadata (cr_scopes c)),
      (''vault_ref_present'', PBool (cr_vault_ref c \<noteq> None)),
      (''account_label'', PStr (cr_account_label c)),
      (''external_account_ref_present'', PBool (cr_external_account_ref c \<noteq> [])),
      (''last_checked_at'', (case cr_last_checked_at c of None \<Rightarrow> PNone | Some t \<Rightarrow> PStr t)),
      (''reason'', PStr (cr_reason c)),
      (''warnings'', PList (map PStr (cr_warnings c))),
      (''connection_lifecycle'', lifecycle_public_metadata
         (build_connection_lifecycle_decision
            (lifecycle_request_for (cr_provider_slug c) (Some (lifecycle_view c)))))])"

record execution_request =
  xr_provider_slug :: string
  xr_action_slug :: string
  xr_path :: string
  xr_mutation :: action_mutation
  xr_approval_token_present :: bool
  xr_preview_evidence_id :: "string option"
  xr_preview_evidence_required :: bool
  xr_argument_keys :: "string list"
  xr_request_id :: string

definition safe_request_id :: "string \<Rightarrow> string" where
  "safe_request_id value =
     take 96 (py_join '' '' (py_split (redact_runtime_secret_text (Some 160) value)))"

definition request_audit_metadata :: "execution_request \<Rightarrow> (string, pyval) dict" where
  "request_audit_metadata r =
     (let metadata =
        [(''provider_slug'', PStr (xr_provider_slug r)),
         (''action_slug'', PStr (xr_action_slug r)),
         (''path'', PStr (xr_path r)),
         (''mutation'', PStr (mutation_value (xr_mutation r))),
         (''approval_token_present'', PBool (xr_approval_token_present r)),
         (''preview_evidence_present'', PBool (str_or_empty (xr_preview_evidence_id r) \<noteq> [])),
         (''argument_keys'',
            PList (map (\<lambda>k. PStr (safe_public_argument_key k)) (xr_argument_keys r)))];
          request_id = safe_request_id (xr_request_id r)
      in if request_id \<noteq> [] then dict_set ''request_id'' (PStr request_id) metadata else metadata)"

record execution_decision =
  xd_outcome :: decision_outcome
  xd_reason :: deny_reason
  xd_provider_slug :: string
  xd_action_slug :: string
  xd_path :: string
  xd_required_scopes :: "scope_name list"
  xd_audit_tags :: "string list"

definition xd_allowed :: "execution_decision \<Rightarrow> bool" where
  "xd_allowed d \<longleftrightarrow> xd_outcome d = OutcomeAllowed"

definition execution_decision_metadata :: "execution_decision \<Rightarrow> pyval" where
  "execution_decision_metadata d = PDict
     [(''version'', PStr adapter_version),
      (''outcome'', PStr (outcome_value (xd_outcome d))),
      (''reason'', PStr (deny_reason_value (xd_reason d))),
      (''provider_slug'', PStr (xd_provider_slug d)),
      (''action_slug'', PStr (xd_action_slug d)),
      (''path'', PStr (xd_path d)),
      (''required_scopes'', PList (map (\<lambda>s. PStr (scope_value s)) (xd_required_scopes d))),
      (''audit_tags'', PList (map PStr (xd_audit_tags d)))]"

section \<open>The decision\<close>

fun required_scope_for_mutation :: "action_mutation \<Rightarrow> scope_name" where
  "required_scope_for_mutation MAdmin = ScAdmin"
| "required_scope_for_mutation MApply = ScApply"
| "required_scope_for_mutation MWrite = ScWrite"
| "required_scope_for_mutation MPreview = ScPreview"
| "required_scope_for_mutation MRead = ScRead"

definition deny ::
  "provider_entry \<Rightarrow> execution_request \<Rightarrow> deny_reason \<Rightarrow> scope_name list \<Rightarrow> execution_decision" where
  "deny entry request reason required_scopes =
     \<lparr>xd_outcome = OutcomeDenied, xd_reason = reason, xd_provider_slug = pe_slug entry,
      xd_action_slug = xr_action_slug request, xd_path = xr_path request,
      xd_required_scopes = required_scopes,
      xd_audit_tags =
        [''provider:'' @ provider_kind_value (pe_provider_kind entry),
         ''auth:'' @ auth_mode_value (pe_auth_mode entry),
         ''deny:'' @ deny_reason_value reason]\<rparr>"

definition is_connection_baseline_ready ::
  "provider_entry \<Rightarrow> connection_record option \<Rightarrow> bool" where
  "is_connection_baseline_ready entry connection =
     (pe_enabled entry \<and> pe_agent_ready entry \<and>
      (case connection of
         None \<Rightarrow> False
       | Some c \<Rightarrow> cr_provider_slug c = pe_slug entry \<and> cr_active c))"

definition decide_external_execution ::
  "provider_entry \<Rightarrow> connection_record option \<Rightarrow> execution_request \<Rightarrow> execution_decision" where
  "decide_external_execution entry connection request =
     (if \<not> pe_enabled entry then deny entry request ProviderDisabled []
      else if \<not> pe_agent_ready entry then deny entry request ProviderNotAgentReady []
      else case connection of
        None \<Rightarrow> deny entry request ConnectionMissing []
      | Some c \<Rightarrow>
          if cr_provider_slug c \<noteq> pe_slug entry \<or> xr_provider_slug request \<noteq> pe_slug entry
          then deny entry request ConnectionProviderMismatch []
          else if \<not> cr_active c then deny entry request ConnectionNotConnected []
          else if xr_path request \<notin> set (pe_allowed_paths entry)
          then deny entry request PathNotAllowed []
          else if \<not> allows_action entry (xr_action_slug request)
          then deny entry request ActionNotAllowed []
          else
            let required_scope = required_scope_for_mutation (xr_mutation request) in
            if \<not> allows (cr_scopes c) required_scope
            then deny entry request MissingScope [required_scope]
            else if xr_preview_evidence_required request
                 \<and> str_or_empty (xr_preview_evidence_id request) = []
            then deny entry request MissingPreviewEvidence []
            else if xr_mutation request = MApply \<and> \<not> xr_approval_token_present request
            then deny entry request MissingApprovalToken [ScApply]
            else
              \<lparr>xd_outcome = OutcomeAllowed, xd_reason = Allowed, xd_provider_slug = pe_slug entry,
               xd_action_slug = xr_action_slug request, xd_path = xr_path request,
               xd_required_scopes = [required_scope],
               xd_audit_tags =
                 [''provider:'' @ provider_kind_value (pe_provider_kind entry),
                  ''auth:'' @ auth_mode_value (pe_auth_mode entry),
                  ''mutation:'' @ mutation_value (xr_mutation request)]\<rparr>)"

section \<open>Facts\<close>

lemma deny_fields [simp]:
  "xd_outcome (deny e r reason scs) = OutcomeDenied" "xd_reason (deny e r reason scs) = reason"
  "xd_required_scopes (deny e r reason scs) = scs" "xd_provider_slug (deny e r reason scs) = pe_slug e"
  by (simp_all add: deny_def)

lemma deny_not_allowed [simp]: "\<not> xd_allowed (deny e r reason scs)"
  by (simp add: xd_allowed_def)

text \<open>What one pattern of an allowlist grants, and the loop as a search for a granting pattern.\<close>

definition pattern_grants :: "string \<Rightarrow> string \<Rightarrow> bool" where
  "pattern_grants action pattern =
     (let p = py_upper (py_strip pattern) in
      p \<noteq> [] \<and>
      (if last p = CHR ''*'' then butlast p \<noteq> [] \<and> prefix (butlast p) action else action = p))"

lemma endswith_star: "p \<noteq> [] \<Longrightarrow> py_endswith p ''*'' \<longleftrightarrow> last p = CHR ''*''"
proof -
  assume "p \<noteq> []"
  then have "p = butlast p @ [last p]" by simp
  then show ?thesis unfolding py_endswith_def
    by (metis append_butlast_last_id last_snoc snoc_suffix_snoc suffix_bot.extremum suffix_def
        last_appendR list.distinct(1) last.simps)
qed

lemma allowlist_admits_Cons:
  "allowlist_admits action (p # ps) \<longleftrightarrow> pattern_grants action p \<or> allowlist_admits action ps"
  by (simp add: Let_def pattern_grants_def endswith_star py_startswith_def del: if_bool_eq_conj)

lemma allowlist_admits_iff: "allowlist_admits action ps \<longleftrightarrow> (\<exists>p \<in> set ps. pattern_grants action p)"
  by (induction ps) (simp_all add: allowlist_admits_Cons del: allowlist_admits.simps(2))

lemma pattern_grants_bare_star: "\<not> pattern_grants action ''*''"
proof -
  have "py_upper (py_strip ''*'') = ''*''" by code_simp
  then show ?thesis by (simp add: pattern_grants_def)
qed

lemma mem_enabled_scopes: "s \<in> set (enabled_scopes g) \<longleftrightarrow> allows g s"
  by (cases s) (simp_all add: enabled_scopes_def)

lemma set_enabled_scopes [simp]: "set (enabled_scopes g) = {s. allows g s}"
  by (rule set_eqI) (simp add: mem_enabled_scopes)

lemma sorted_enabled_scopes: "sorted (enabled_scopes g) \<and> distinct (enabled_scopes g)"
proof -
  have "sorted (map id [ScRead, ScPreview, ScWrite, ScApply, ScAdmin])"
    by (simp add: less_eq_scope_name_def)
  from sorted_filter [OF this, of "allows g"] show ?thesis
    by (simp add: enabled_scopes_def del: filter.simps)
qed

text \<open>The checks of the decision, as one predicate, for the proofs of the gateway.\<close>

definition execution_checks ::
  "provider_entry \<Rightarrow> connection_record \<Rightarrow> execution_request \<Rightarrow> bool" where
  "execution_checks e c r \<longleftrightarrow>
     cr_provider_slug c = pe_slug e \<and> xr_provider_slug r = pe_slug e \<and> cr_active c \<and>
     xr_path r \<in> set (pe_allowed_paths e) \<and> allows_action e (xr_action_slug r) \<and>
     allows (cr_scopes c) (required_scope_for_mutation (xr_mutation r)) \<and>
     (xr_preview_evidence_required r \<longrightarrow> str_or_empty (xr_preview_evidence_id r) \<noteq> []) \<and>
     (xr_mutation r = MApply \<longrightarrow> xr_approval_token_present r)"

lemma decide_allowed_iff:
  "xd_allowed (decide_external_execution e conn r) \<longleftrightarrow>
     pe_enabled e \<and> pe_agent_ready e \<and> (\<exists>c. conn = Some c \<and> execution_checks e c r)"
  by (auto simp: decide_external_execution_def execution_checks_def Let_def xd_allowed_def
      split: option.splits)

lemma decide_reason_allowed_iff:
  "xd_reason (decide_external_execution e conn r) = Allowed \<longleftrightarrow>
   xd_allowed (decide_external_execution e conn r)"
  by (auto simp: decide_external_execution_def Let_def xd_allowed_def split: option.splits)

lemma decide_provider_slug [simp]:
  "xd_provider_slug (decide_external_execution e conn r) = pe_slug e"
  by (auto simp: decide_external_execution_def Let_def split: option.splits)

section \<open>Properties\<close>

text \<open>The execution decision is fail-closed and complete: an action is allowed exactly when the
  provider is enabled and agent-ready, a connection of that provider is active, the request is for
  that provider, its path and its action are on the entry's allowlists, the connection grants the
  scope of the mutation, required preview evidence is there, and an \<open>apply\<close> carries an approval
  token. Nothing else allows an action and nothing else denies one.\<close>

theorem external_execution_allowed_iff:
  "xd_allowed (decide_external_execution e conn r) \<longleftrightarrow>
     pe_enabled e \<and> pe_agent_ready e \<and>
     (\<exists>c. conn = Some c \<and> cr_provider_slug c = pe_slug e \<and> xr_provider_slug r = pe_slug e \<and>
        cr_state c = CsConnected \<and> xr_path r \<in> set (pe_allowed_paths e) \<and>
        (\<exists>p \<in> set (pe_action_allowlist e).
           pattern_grants (py_upper (py_strip (xr_action_slug r))) p) \<and>
        py_strip (xr_action_slug r) \<noteq> [] \<and>
        required_scope_for_mutation (xr_mutation r) \<in> set (enabled_scopes (cr_scopes c)) \<and>
        (xr_preview_evidence_required r \<longrightarrow> str_or_empty (xr_preview_evidence_id r) \<noteq> []) \<and>
        (xr_mutation r = MApply \<longrightarrow> xr_approval_token_present r))"
  unfolding decide_allowed_iff execution_checks_def
  by (auto simp: cr_active_def allows_action_def allowlist_admits_iff py_upper_def)

definition sample_entry :: provider_entry where
  "sample_entry = \<lparr>pe_slug = ''facebook'', pe_label = ''Facebook'', pe_provider_kind = Composio,
     pe_auth_mode = Oauth2, pe_enabled = True, pe_agent_ready = True, pe_category = ''social'',
     pe_description = [], pe_allowed_paths = [''external_app_action''],
     pe_action_allowlist = [''facebook_*''], pe_requirements = [], pe_connect_requirements = [],
     pe_agent_ready_requirements = [], pe_required_fields = [], pe_default_scopes = no_scopes,
     pe_source = ''registry'', pe_warnings = []\<rparr>"

definition sample_connection :: connection_record where
  "sample_connection = \<lparr>cr_connection_id = ''c1'', cr_provider_slug = ''facebook'',
     cr_state = CsConnected, cr_scopes = no_scopes\<lparr>sg_read := True, sg_apply := True\<rparr>,
     cr_vault_ref = None, cr_account_label = [], cr_external_account_ref = ''page-7'',
     cr_last_checked_at = None, cr_reason = [], cr_warnings = []\<rparr>"

definition sample_request :: execution_request where
  "sample_request = \<lparr>xr_provider_slug = ''facebook'', xr_action_slug = ''facebook_create_post'',
     xr_path = ''external_app_action'', xr_mutation = MApply, xr_approval_token_present = True,
     xr_preview_evidence_id = Some ''pv1'', xr_preview_evidence_required = True,
     xr_argument_keys = [''message''], xr_request_id = []\<rparr>"

text \<open>A witness: an approved post passes, the same request without the approval token does not.\<close>

theorem external_execution_allowed_witness:
  "xd_allowed (decide_external_execution sample_entry (Some sample_connection) sample_request) \<and>
   \<not> xd_allowed (decide_external_execution sample_entry (Some sample_connection)
        (sample_request\<lparr>xr_approval_token_present := False\<rparr>))"
proof -
  have g: "pattern_grants (py_upper (py_strip ''facebook_create_post'')) ''facebook_*''"
    by code_simp
  have n: "py_strip ''facebook_create_post'' \<noteq> []" by code_simp
  show ?thesis
    unfolding external_execution_allowed_iff
    using g n
    by (simp add: sample_entry_def sample_connection_def sample_request_def no_scopes_def
        str_or_empty_def)
qed

text \<open>A wildcard alone grants nothing and an empty allowlist grants nothing: an entry whose
  patterns are all blank or a bare star admits no action.\<close>

theorem allowlist_never_grants_everything:
  assumes "\<forall>p \<in> set (pe_action_allowlist e). py_upper (py_strip p) \<in> {[], ''*''}"
  shows "\<not> allows_action e action"
proof -
  have "\<not> pattern_grants a p" if "p \<in> set (pe_action_allowlist e)" for a p
    using assms that by (auto simp: pattern_grants_def Let_def)
  then show ?thesis by (simp add: allows_action_def allowlist_admits_iff Let_def)
qed

text \<open>A witness: an entry that lists only a bare star.\<close>

theorem allowlist_never_grants_everything_witness:
  "\<not> allows_action (sample_entry\<lparr>pe_action_allowlist := ['' * '', []]\<rparr>) ''FACEBOOK_CREATE_POST''"
proof (rule allowlist_never_grants_everything)
  have "py_upper (py_strip '' * '') = ''*''" "py_upper (py_strip []) = []" by code_simp+
  then show "\<forall>p \<in> set (pe_action_allowlist (sample_entry\<lparr>pe_action_allowlist := ['' * '', []]\<rparr>)).
      py_upper (py_strip p) \<in> {[], ''*''}"
    by simp
qed

text \<open>The public projection of a connection row reveals nothing about its credentials: rows that
  differ only in their vault reference, their external account reference (both present) and their
  raw connection id have the same public metadata as soon as the public references of the ids
  agree.\<close>

theorem connection_metadata_hides_credentials:
  assumes "ext \<noteq> []" "ext' \<noteq> []"
    and "public_connection_ref sha (cr_provider_slug c) cid
       = public_connection_ref sha (cr_provider_slug c) cid'"
  shows "connection_record_metadata sha
       (c\<lparr>cr_vault_ref := Some v, cr_external_account_ref := ext, cr_connection_id := cid\<rparr>) =
     connection_record_metadata sha
       (c\<lparr>cr_vault_ref := Some v', cr_external_account_ref := ext', cr_connection_id := cid'\<rparr>)"
  using assms by (simp add: connection_record_metadata_def lifecycle_view_def cr_active_def Let_def)

text \<open>A witness: two rows of one account with different vault keys.\<close>

definition sample_vault_ref :: "string \<Rightarrow> vault_secret_ref" where
  "sample_vault_ref k = \<lparr>vr_provider_slug = ''facebook'', vr_connection_id = ''c1'',
     vr_vault_key_id = k, vr_secret_version = ''pending''\<rparr>"

theorem connection_metadata_hides_credentials_witness:
  "connection_record_metadata (\<lambda>s. s)
     (sample_connection\<lparr>cr_vault_ref := Some (sample_vault_ref ''k1''),
        cr_external_account_ref := ''page-1'', cr_connection_id := ''c1''\<rparr>) =
   connection_record_metadata (\<lambda>s. s)
     (sample_connection\<lparr>cr_vault_ref := Some (sample_vault_ref ''k2''),
        cr_external_account_ref := ''page-2'', cr_connection_id := '' c1 ''\<rparr>)"
proof (rule connection_metadata_hides_credentials)
  have "py_strip ''c1'' = py_strip '' c1 ''" by code_simp
  then show "public_connection_ref (\<lambda>s. s) (cr_provider_slug sample_connection) ''c1'' =
      public_connection_ref (\<lambda>s. s) (cr_provider_slug sample_connection) '' c1 ''"
    by (simp add: public_connection_ref_def)
qed simp_all

end
