(* ===== verification/Connect_Vault.thy ===== *)
theory Connect_Vault
  imports Connect_Adapter
begin

text \<open>
  The vault boundary of \<open>app/engine/wiii_connect/vault.py\<close> and the audit ledger contract of
  \<open>app/engine/wiii_connect/audit_ledger.py\<close>. The vault module never stores a secret: it decides
  whether an adapter may, and names an opaque reference. Timestamps that the code takes from the
  clock are arguments here.
\<close>

section \<open>Metadata keys\<close>

definition control_sensitive_markers :: "string list" where
  "control_sensitive_markers =
    [''token'', ''secret'', ''password'', ''credential'', ''key'', ''code'']"

definition has_control_marker :: "string \<Rightarrow> bool" where
  "has_control_marker key = list_ex (\<lambda>marker. contains marker key) control_sensitive_markers"

definition safe_metadata_key :: "string \<Rightarrow> string" where
  "safe_metadata_key key =
     (let normalized = py_lower (py_strip key) in
      if normalized = [] then ''empty''
      else if has_control_marker normalized then ''redacted_sensitive_field''
      else take 80 normalized)"

section \<open>The vault\<close>

datatype vault_backend = VbDisabled | VbProviderManaged | VbExternalKms
datatype vault_status = VaultBlocked | VaultReady
datatype vault_reason =
    VaultDisabled
  | VaultProviderDisabled
  | MissingSecretMaterial
  | UnsupportedSecretKind
  | SecretMaterialNotAccepted
  | ReadyToStore

fun vault_backend_value :: "vault_backend \<Rightarrow> string" where
  "vault_backend_value VbDisabled = ''disabled''"
| "vault_backend_value VbProviderManaged = ''provider_managed''"
| "vault_backend_value VbExternalKms = ''external_kms''"

fun vault_status_value :: "vault_status \<Rightarrow> string" where
  "vault_status_value VaultBlocked = ''blocked''"
| "vault_status_value VaultReady = ''ready''"

fun vault_reason_value :: "vault_reason \<Rightarrow> string" where
  "vault_reason_value VaultDisabled = ''vault_disabled''"
| "vault_reason_value VaultProviderDisabled = ''provider_disabled''"
| "vault_reason_value MissingSecretMaterial = ''missing_secret_material''"
| "vault_reason_value UnsupportedSecretKind = ''unsupported_secret_kind''"
| "vault_reason_value SecretMaterialNotAccepted = ''secret_material_not_accepted''"
| "vault_reason_value ReadyToStore = ''ready_to_store''"

definition vault_version :: string where
  "vault_version = ''wiii_connect_vault.v1''"

definition supported_secret_kinds :: "string list" where
  "supported_secret_kinds = [''oauth_token'', ''api_key'', ''provider_session'', ''webhook_secret'']"

record vault_capability =
  vc_enabled :: bool
  vc_backend :: vault_backend
  vc_accepts_secret_material :: bool
  vc_provider_managed :: bool
  vc_key_namespace :: string
  vc_reason :: string
  vc_warnings :: "string list"

definition can_store_external_secret :: "vault_capability \<Rightarrow> bool" where
  "can_store_external_secret v = (vc_enabled v \<and> vc_accepts_secret_material v)"

definition vault_capability_metadata :: "vault_capability \<Rightarrow> pyval" where
  "vault_capability_metadata v = PDict
     [(''version'', PStr vault_version),
      (''enabled'', PBool (vc_enabled v)),
      (''backend'', PStr (vault_backend_value (vc_backend v))),
      (''provider_managed'', PBool (vc_provider_managed v)),
      (''can_store_external_secret'', PBool (can_store_external_secret v)),
      (''reason'', PStr (vc_reason v)),
      (''warnings'', PList (map PStr (vc_warnings v)))]"

record vault_write_request =
  vw_provider_slug :: string
  vw_connection_id :: string
  vw_secret_kind :: string
  vw_secret_material_present :: bool
  vw_metadata_keys :: "string list"

definition vault_request_metadata :: "vault_write_request \<Rightarrow> pyval" where
  "vault_request_metadata r = PDict
     [(''provider_slug'', PStr (vw_provider_slug r)),
      (''connection_ref_present'', PBool (vw_connection_id r \<noteq> [])),
      (''secret_kind'', PStr (vw_secret_kind r)),
      (''secret_material_present'', PBool (vw_secret_material_present r)),
      (''metadata_keys'', PList (map (\<lambda>k. PStr (safe_metadata_key k)) (vw_metadata_keys r)))]"

record vault_audit_event =
  va_reason :: vault_reason
  va_request :: vault_write_request
  va_created_at :: string

definition vault_audit_metadata :: "vault_audit_event \<Rightarrow> pyval" where
  "vault_audit_metadata a = PDict
     [(''version'', PStr vault_version),
      (''stage'', PStr ''vault_write_decided''),
      (''reason'', PStr (vault_reason_value (va_reason a))),
      (''created_at'', PStr (va_created_at a)),
      (''request'', vault_request_metadata (va_request a))]"

record vault_write_decision =
  vd_status :: vault_status
  vd_reason :: vault_reason
  vd_provider_slug :: string
  vd_connection_id :: string
  vd_secret_kind :: string
  vd_vault_ref :: "vault_secret_ref option"
  vd_audit_event :: vault_audit_event

definition vd_ready :: "vault_write_decision \<Rightarrow> bool" where
  "vd_ready d \<longleftrightarrow> vd_status d = VaultReady"

definition vault_decision_metadata :: "vault_write_decision \<Rightarrow> pyval" where
  "vault_decision_metadata d = PDict
     [(''version'', PStr vault_version),
      (''status'', PStr (vault_status_value (vd_status d))),
      (''reason'', PStr (vault_reason_value (vd_reason d))),
      (''provider_slug'', PStr (vd_provider_slug d)),
      (''connection_ref_present'', PBool (vd_connection_id d \<noteq> [])),
      (''secret_kind'', PStr (vd_secret_kind d)),
      (''vault_ref'', (case vd_vault_ref d of None \<Rightarrow> PNone | Some v \<Rightarrow> vault_secret_ref_metadata v)),
      (''audit_event'', vault_audit_metadata (vd_audit_event d))]"

definition default_vault_capability :: vault_capability where
  "default_vault_capability =
     \<lparr>vc_enabled = False, vc_backend = VbDisabled, vc_accepts_secret_material = False,
      vc_provider_managed = False, vc_key_namespace = [], vc_reason = ''vault_disabled'',
      vc_warnings = []\<rparr>"

definition vault_decision_reason ::
  "provider_entry \<Rightarrow> vault_write_request \<Rightarrow> vault_capability \<Rightarrow> vault_reason" where
  "vault_decision_reason entry request capability =
     (if \<not> pe_enabled entry then VaultProviderDisabled
      else if \<not> vc_enabled capability then VaultDisabled
      else if vw_secret_kind request \<notin> set supported_secret_kinds then UnsupportedSecretKind
      else if \<not> vw_secret_material_present request then MissingSecretMaterial
      else if \<not> vc_accepts_secret_material capability then SecretMaterialNotAccepted
      else ReadyToStore)"

definition build_vault_ref ::
  "provider_entry \<Rightarrow> vault_write_request \<Rightarrow> vault_capability \<Rightarrow> vault_secret_ref" where
  "build_vault_ref entry request capability =
     (let namespace = (if vc_key_namespace capability \<noteq> [] then vc_key_namespace capability
                       else ''wiii_connect'');
          vault_key_id = namespace @ ''/'' @ provider_kind_value (pe_provider_kind entry) @ ''/''
            @ pe_slug entry @ ''/'' @ vw_connection_id request @ ''/'' @ vw_secret_kind request
      in \<lparr>vr_provider_slug = pe_slug entry, vr_connection_id = vw_connection_id request,
          vr_vault_key_id = vault_key_id, vr_secret_version = ''pending''\<rparr>)"

definition decide_vault_secret_write ::
  "string \<Rightarrow> provider_entry \<Rightarrow> vault_write_request \<Rightarrow> vault_capability option
   \<Rightarrow> vault_write_decision" where
  "decide_vault_secret_write now entry request capability_opt =
     (let capability = (case capability_opt of Some c \<Rightarrow> c | None \<Rightarrow> default_vault_capability);
          reason = vault_decision_reason entry request capability;
          status = (if reason = ReadyToStore then VaultReady else VaultBlocked);
          vault_ref = (if status = VaultReady then Some (build_vault_ref entry request capability)
                       else None)
      in \<lparr>vd_status = status, vd_reason = reason, vd_provider_slug = pe_slug entry,
          vd_connection_id = vw_connection_id request, vd_secret_kind = vw_secret_kind request,
          vd_vault_ref = vault_ref,
          vd_audit_event = \<lparr>va_reason = reason, va_request = request, va_created_at = now\<rparr>\<rparr>)"

section \<open>The audit ledger\<close>

datatype audit_kind = AkSession | AkCallback | AkVault | AkExecution | AkProvider

fun audit_kind_value :: "audit_kind \<Rightarrow> string" where
  "audit_kind_value AkSession = ''session''"
| "audit_kind_value AkCallback = ''callback''"
| "audit_kind_value AkVault = ''vault''"
| "audit_kind_value AkExecution = ''execution''"
| "audit_kind_value AkProvider = ''provider''"

definition ledger_sensitive_markers :: "string list" where
  "ledger_sensitive_markers =
    [''authorization'', ''bearer'', ''connection_id'', ''connection_ref'', ''credential'',
     ''external_account_ref'', ''page_id'', ''password'', ''provider_payload'', ''raw_provider'',
     ''secret'', ''token'', ''vault_ref'']"

definition safe_structural_key_names :: "string list" where
  "safe_structural_key_names =
    [''argument_keys'', ''required_argument_keys'', ''missing_argument_keys'', ''data_keys'']"

definition safe_presence_key_names :: "string list" where
  "safe_presence_key_names =
    [''code_present'', ''connection_id_present'', ''connection_ref_present'',
     ''preview_evidence_present'', ''provider_connection_ref_present'', ''state_present'',
     ''vault_ref_present'']"

definition ledger_redacted :: string where
  "ledger_redacted = ''[redacted]''"

definition is_structural_key_name :: "string \<Rightarrow> bool" where
  "is_structural_key_name key \<longleftrightarrow> py_lower (py_strip key) \<in> set safe_structural_key_names"

definition ledger_is_sensitive_key :: "string \<Rightarrow> bool" where
  "ledger_is_sensitive_key key =
     (let normalized = py_lower (py_strip key) in
      if is_structural_key_name normalized then False
      else if normalized \<in> set safe_presence_key_names then False
      else list_ex (\<lambda>marker. contains marker normalized) ledger_sensitive_markers)"

text \<open>The loop stops as soon as fifty keys are collected.\<close>

fun structural_values_loop :: "string list \<Rightarrow> string list \<Rightarrow> string list" where
  "structural_values_loop result [] = result"
| "structural_values_loop result (item # rest) =
     (let safe_key = safe_public_argument_key item;
          result' = (if safe_key \<notin> set result then result @ [safe_key] else result)
      in if 50 \<le> length result' then result' else structural_values_loop result' rest)"

definition sanitize_structural_key_values :: "(pyval \<Rightarrow> string) \<Rightarrow> pyval \<Rightarrow> pyval" where
  "sanitize_structural_key_values str_of value =
     (let values = (case value of PList items \<Rightarrow> items | v \<Rightarrow> [v])
      in PList (map PStr (structural_values_loop [] (map (py_text str_of) values))))"

text \<open>
  \<open>_sanitize_metadata\<close>. A dictionary's values are sanitised first and then entered by the loop; the
  code interleaves the two, which makes no difference as both are pure.
\<close>

definition ledger_enter ::
  "(pyval \<Rightarrow> string) \<Rightarrow> (string \<times> pyval \<times> pyval) \<Rightarrow> (string, pyval) dict \<Rightarrow> (string, pyval) dict"
  where
  "ledger_enter str_of entry sanitized =
     (let (key, raw_value, safe_value) = entry in
      if ledger_is_sensitive_key key
      then dict_set ''redacted_sensitive_field'' (PStr ledger_redacted) sanitized
      else if is_structural_key_name key
      then dict_set key (sanitize_structural_key_values str_of raw_value) sanitized
      else dict_set key safe_value sanitized)"

fun ledger_sanitize_metadata :: "(pyval \<Rightarrow> string) \<Rightarrow> pyval \<Rightarrow> pyval" where
  "ledger_sanitize_metadata str_of (PDict items) =
     PDict (fold (ledger_enter str_of)
       (map (\<lambda>(key, raw_value). (key, raw_value, ledger_sanitize_metadata str_of raw_value)) items)
       [])"
| "ledger_sanitize_metadata str_of (PList items) = PList (map (ledger_sanitize_metadata str_of) items)"
| "ledger_sanitize_metadata str_of (PStr s) =
     PStr (redact_runtime_secret_text (Some (int max_sanitized_string)) s)"
| "ledger_sanitize_metadata str_of v = v"

definition ledger_safe_public_token :: "string \<Rightarrow> string" where
  "ledger_safe_public_token value =
     take 120 (py_join '' '' (py_split
       (redact_runtime_secret_text (Some (int max_sanitized_string)) value)))"

record ledger_record =
  lg_event_kind :: audit_kind
  lg_provider_slug :: string
  lg_status :: string
  lg_reason :: string
  lg_surface :: string
  lg_metadata :: pyval
  lg_created_at :: string

definition build_audit_ledger_record ::
  "(pyval \<Rightarrow> string) \<Rightarrow> string \<Rightarrow> audit_kind \<Rightarrow> string \<Rightarrow> string \<Rightarrow> string \<Rightarrow> string \<Rightarrow> pyval option
   \<Rightarrow> ledger_record" where
  "build_audit_ledger_record str_of now event_kind provider_slug status reason surface metadata =
     (let safe = ledger_sanitize_metadata str_of (case metadata of None \<Rightarrow> PDict [] | Some m \<Rightarrow> m)
      in \<lparr>lg_event_kind = event_kind, lg_provider_slug = provider_slug, lg_status = status,
          lg_reason = reason, lg_surface = surface,
          lg_metadata = (case safe of PDict d \<Rightarrow> PDict d | _ \<Rightarrow> PDict []),
          lg_created_at = now\<rparr>)"

definition ledger_version :: string where
  "ledger_version = ''wiii_connect_audit_ledger.v1''"

definition ledger_record_metadata :: "(pyval \<Rightarrow> string) \<Rightarrow> ledger_record \<Rightarrow> pyval" where
  "ledger_record_metadata str_of r = PDict
     [(''version'', PStr ledger_version),
      (''event_kind'', PStr (ledger_safe_public_token (audit_kind_value (lg_event_kind r)))),
      (''provider_slug'', PStr (ledger_safe_public_token (lg_provider_slug r))),
      (''status'', PStr (ledger_safe_public_token (lg_status r))),
      (''reason'', PStr (ledger_safe_public_token (lg_reason r))),
      (''surface'', PStr (ledger_safe_public_token (lg_surface r))),
      (''created_at'', PStr (lg_created_at r)),
      (''metadata'', ledger_sanitize_metadata str_of (lg_metadata r))]"

text \<open>The in-memory ledger is the list of its records; \<open>append\<close> returns the record.\<close>

definition ledger_append :: "ledger_record list \<Rightarrow> ledger_record \<Rightarrow> ledger_record \<times> ledger_record list"
  where "ledger_append records r = (r, records @ [r])"

definition recent_public_metadata ::
  "(pyval \<Rightarrow> string) \<Rightarrow> ledger_record list \<Rightarrow> int \<Rightarrow> pyval list" where
  "recent_public_metadata str_of records limit =
     (let safe_limit = max 0 (min limit 200)
      in map (ledger_record_metadata str_of) (py_last_slice (nat safe_limit) records))"

definition audit_ledger_status_metadata :: "bool \<Rightarrow> string \<Rightarrow> (string, pyval) dict" where
  "audit_ledger_status_metadata persistent backend =
     [(''version'', PStr ledger_version),
      (''enabled'', PBool True),
      (''persistent'', PBool persistent),
      (''backend'', PStr backend),
      (''reason'', PStr (if \<not> persistent then ''persistent_store_not_configured'' else ''ready''))]"

section \<open>Facts\<close>

lemma vault_ready_iff:
  "vd_ready (decide_vault_secret_write now e r cap) \<longleftrightarrow>
     pe_enabled e \<and> (\<exists>c. cap = Some c \<and> can_store_external_secret c) \<and>
     vw_secret_kind r \<in> set supported_secret_kinds \<and> vw_secret_material_present r"
  by (auto simp: vd_ready_def decide_vault_secret_write_def vault_decision_reason_def Let_def
      default_vault_capability_def can_store_external_secret_def split: option.splits)

text \<open>A dictionary the ledger has sanitised: no sensitive key at any depth.\<close>

fun ledger_clean :: "pyval \<Rightarrow> bool" where
  "ledger_clean (PDict d) = list_all (\<lambda>(k, v). \<not> ledger_is_sensitive_key k \<and> ledger_clean v) d"
| "ledger_clean (PList xs) = list_all ledger_clean xs"
| "ledger_clean _ = True"

lemma redaction_marker_not_sensitive: "\<not> ledger_is_sensitive_key ''redacted_sensitive_field''"
  by code_simp

lemma structural_not_sensitive: "is_structural_key_name k \<Longrightarrow> \<not> ledger_is_sensitive_key k"
  by (simp add: ledger_is_sensitive_key_def is_structural_key_name_def Let_def)
     (metis is_structural_key_name_def length_map py_lower_def py_lower_idem py_strip_idem
        stripped_map is_space_lower strip_stripped stripped_strip)

lemma structural_values_clean: "ledger_clean (sanitize_structural_key_values str_of v)"
  by (simp add: sanitize_structural_key_values_def list_all_iff)

lemma ledger_enter_clean:
  "ledger_clean (PDict d) \<Longrightarrow> ledger_clean (snd (snd e)) \<Longrightarrow> ledger_clean (PDict (ledger_enter str_of e d))"
  using structural_values_clean [of str_of "fst (snd e)"]
  by (cases e) (auto simp: ledger_enter_def Let_def list_all_iff redaction_marker_not_sensitive
      structural_not_sensitive dest!: set_dict_set)

lemma ledger_fold_clean:
  "\<forall>e \<in> set es. ledger_clean (snd (snd e)) \<Longrightarrow> ledger_clean (PDict d)
   \<Longrightarrow> ledger_clean (PDict (fold (ledger_enter str_of) es d))"
  by (induction es arbitrary: d) (auto simp del: ledger_clean.simps intro: ledger_enter_clean)

lemma ledger_sanitized_clean: "ledger_clean (ledger_sanitize_metadata str_of v)"
proof (induction str_of v rule: ledger_sanitize_metadata.induct)
  case (1 str_of items)
  show ?case unfolding ledger_sanitize_metadata.simps
    by (rule ledger_fold_clean) (use 1 in auto)
qed (auto simp: list_all_iff)

section \<open>Properties\<close>

text \<open>A secret may enter a vault exactly when the provider is enabled, the configured vault is
  enabled and accepts material, the kind of secret is supported and material is present; only then
  is a vault reference issued, and without a configured vault nothing is ever stored.\<close>

theorem vault_reference_only_when_ready:
  "(vd_vault_ref (decide_vault_secret_write now e r cap) \<noteq> None) =
     (pe_enabled e \<and> (\<exists>c. cap = Some c \<and> can_store_external_secret c) \<and>
      vw_secret_kind r \<in> set supported_secret_kinds \<and> vw_secret_material_present r)
   \<and> vd_vault_ref (decide_vault_secret_write now e r None) = None"
proof -
  have "(vd_vault_ref (decide_vault_secret_write now e r k) \<noteq> None)
      = vd_ready (decide_vault_secret_write now e r k)" for k
    by (simp add: decide_vault_secret_write_def vd_ready_def Let_def)
  from this [of cap] this [of None] show ?thesis by (simp add: vault_ready_iff)
qed

text \<open>No record that reaches the audit ledger carries a sensitive metadata key on any level,
  whatever metadata the caller passed in.\<close>

theorem ledger_record_has_no_sensitive_key:
  "ledger_clean (lg_metadata
     (build_audit_ledger_record str_of now kind slug status reason surface metadata))"
  using ledger_sanitized_clean [of str_of]
  by (auto simp: build_audit_ledger_record_def Let_def split: pyval.splits)
     (metis ledger_clean.simps(1) ledger_sanitized_clean)

text \<open>\<open>recent_public_metadata\<close> returns at most 200 records, except that a limit of zero or less
  returns the whole ledger: the code slices with \<open>records[-0:]\<close>, which Python reads as \<open>records[0:]\<close>.\<close>

theorem recent_metadata_limit:
  "length (recent_public_metadata str_of records limit) =
     (if limit \<le> 0 then length records else min (nat (min limit 200)) (length records))"
  by (auto simp: recent_public_metadata_def py_last_slice_def Let_def min_def max_def)

end
