(* ===== verification/Connect_Providers.thy ===== *)
theory Connect_Providers
  imports Connect_Vault
begin

text \<open>
  \<open>app/engine/wiii_connect/provider_adapters.py\<close>, \<open>callback_boundary.py\<close> and
  \<open>connection_sessions.py\<close>: what a provider adapter declares it can do, when it may issue an
  authorization URL, when a session may start, and when an OAuth callback may be accepted. The
  registry lookup by slug is \<open>Connect_Registry\<close>'s; here the entry is given. The clock of the audit
  events is the argument \<open>now\<close>.
\<close>

section \<open>Adapter capabilities\<close>

record adapter_capability =
  ac_provider_kind :: provider_kind
  ac_adapter_name :: string
  ac_bound :: bool
  ac_configured :: bool
  ac_can_create_authorization_url :: bool
  ac_can_exchange_callback :: bool
  ac_can_execute_actions :: bool
  ac_reason :: string
  ac_warnings :: "string list"

definition provider_adapter_version :: string where
  "provider_adapter_version = ''wiii_connect_provider_adapter.v1''"

definition authorization_ready :: "adapter_capability \<Rightarrow> bool" where
  "authorization_ready a \<longleftrightarrow> ac_bound a \<and> ac_configured a \<and> ac_can_create_authorization_url a"

definition adapter_capability_metadata :: "adapter_capability \<Rightarrow> pyval" where
  "adapter_capability_metadata a = PDict
     [(''version'', PStr provider_adapter_version),
      (''provider_kind'', PStr (provider_kind_value (ac_provider_kind a))),
      (''adapter_name'', PStr (if ac_adapter_name a \<noteq> [] then ac_adapter_name a
         else provider_kind_value (ac_provider_kind a) @ ''_adapter'')),
      (''bound'', PBool (ac_bound a)),
      (''configured'', PBool (ac_configured a)),
      (''can_create_authorization_url'', PBool (ac_can_create_authorization_url a)),
      (''can_exchange_callback'', PBool (ac_can_exchange_callback a)),
      (''can_execute_actions'', PBool (ac_can_execute_actions a)),
      (''authorization_ready'', PBool (authorization_ready a)),
      (''reason'', PStr (ac_reason a)),
      (''warnings'', PList (map PStr (ac_warnings a)))]"

definition default_adapter_capability :: "provider_kind \<Rightarrow> adapter_capability" where
  "default_adapter_capability kind =
     \<lparr>ac_provider_kind = kind, ac_adapter_name = provider_kind_value kind @ ''_adapter'',
      ac_bound = False, ac_configured = False, ac_can_create_authorization_url = False,
      ac_can_exchange_callback = False, ac_can_execute_actions = False,
      ac_reason = ''provider_adapter_not_bound'', ac_warnings = []\<rparr>"

definition default_provider_kinds :: "provider_kind list" where
  "default_provider_kinds = [Composio, CustomOauth, Mcp, Workflow]"

definition adapter_status_metadata :: "provider_kind list \<Rightarrow> adapter_capability list \<Rightarrow> pyval" where
  "adapter_status_metadata provider_kinds capabilities =
     (let kinds = (if provider_kinds \<noteq> [] then provider_kinds else default_provider_kinds);
          overrides = fold (\<lambda>c. dict_set (ac_provider_kind c) c) capabilities []
      in PDict [(''version'', PStr provider_adapter_version),
                (''adapters'', PList (map (\<lambda>kind. adapter_capability_metadata
                   (case dict_get overrides kind of
                      Some c \<Rightarrow> c | None \<Rightarrow> default_adapter_capability kind)) kinds))])"

section \<open>Authorization URLs\<close>

datatype authorization_reason =
    ArProviderDisabled
  | ArMissingState
  | ArMissingRedirectUri
  | ArAdapterMismatch
  | ArAdapterNotBound
  | ArAdapterNotConfigured
  | ArAdapterCannotAuthorize
  | ArVaultNotConfigured
  | ArAuditNotPersistent
  | ArUrlMissing
  | ArUrlIssued

fun authorization_reason_value :: "authorization_reason \<Rightarrow> string" where
  "authorization_reason_value ArProviderDisabled = ''provider_disabled''"
| "authorization_reason_value ArMissingState = ''missing_state''"
| "authorization_reason_value ArMissingRedirectUri = ''missing_redirect_uri''"
| "authorization_reason_value ArAdapterMismatch = ''provider_adapter_mismatch''"
| "authorization_reason_value ArAdapterNotBound = ''provider_adapter_not_bound''"
| "authorization_reason_value ArAdapterNotConfigured = ''provider_adapter_not_configured''"
| "authorization_reason_value ArAdapterCannotAuthorize = ''provider_adapter_cannot_authorize''"
| "authorization_reason_value ArVaultNotConfigured = ''vault_not_configured''"
| "authorization_reason_value ArAuditNotPersistent = ''audit_ledger_not_persistent''"
| "authorization_reason_value ArUrlMissing = ''authorization_url_missing''"
| "authorization_reason_value ArUrlIssued = ''authorization_url_issued''"

record authorization_request =
  aq_provider_slug :: string
  aq_surface :: string
  aq_requested_scopes :: scope_grant
  aq_state_present :: bool
  aq_redirect_uri_present :: bool
  aq_metadata_keys :: "string list"

definition authorization_request_metadata :: "authorization_request \<Rightarrow> pyval" where
  "authorization_request_metadata r = PDict
     [(''provider_slug'', PStr (aq_provider_slug r)),
      (''surface'', PStr (aq_surface r)),
      (''requested_scopes'', scope_grant_metadata (aq_requested_scopes r)),
      (''state_present'', PBool (aq_state_present r)),
      (''redirect_uri_present'', PBool (aq_redirect_uri_present r)),
      (''request_metadata_keys'', PList (map (\<lambda>k. PStr (safe_metadata_key k)) (aq_metadata_keys r)))]"

record authorization_audit_event =
  aa_reason :: authorization_reason
  aa_request :: authorization_request
  aa_created_at :: string

definition authorization_audit_metadata :: "authorization_audit_event \<Rightarrow> pyval" where
  "authorization_audit_metadata e = PDict
     [(''version'', PStr provider_adapter_version),
      (''stage'', PStr ''authorization_url_decided''),
      (''reason'', PStr (authorization_reason_value (aa_reason e))),
      (''created_at'', PStr (aa_created_at e)),
      (''request'', authorization_request_metadata (aa_request e))]"

record authorization_decision =
  ad_ready_status :: bool
  ad_reason :: authorization_reason
  ad_provider_slug :: string
  ad_label :: string
  ad_provider_kind :: provider_kind
  ad_auth_mode :: auth_mode
  ad_authorization_url :: string
  ad_adapter :: "adapter_capability option"
  ad_required_next :: "string list"
  ad_audit_event :: "authorization_audit_event option"

text \<open>The two values of \<open>status\<close> are kept as the boolean \<open>ad_ready_status\<close> (\<open>ready\<close> or \<open>blocked\<close>).\<close>

definition ready_status_value :: "bool \<Rightarrow> string" where
  "ready_status_value ready = (if ready then ''ready'' else ''blocked'')"

definition authorization_decision_metadata :: "authorization_decision \<Rightarrow> pyval" where
  "authorization_decision_metadata d = PDict
     [(''version'', PStr provider_adapter_version),
      (''status'', PStr (ready_status_value (ad_ready_status d))),
      (''reason'', PStr (authorization_reason_value (ad_reason d))),
      (''provider_slug'', PStr (ad_provider_slug d)),
      (''label'', PStr (ad_label d)),
      (''provider_kind'', PStr (provider_kind_value (ad_provider_kind d))),
      (''auth_mode'', PStr (auth_mode_value (ad_auth_mode d))),
      (''authorization_url'', PStr (if ad_ready_status d then ad_authorization_url d else [])),
      (''adapter'', (case ad_adapter d of None \<Rightarrow> PNone | Some a \<Rightarrow> adapter_capability_metadata a)),
      (''required_next'', PList (map PStr (ad_required_next d))),
      (''audit_event'',
        (case ad_audit_event d of None \<Rightarrow> PNone | Some e \<Rightarrow> authorization_audit_metadata e))]"

definition ledger_persistent :: "(string, pyval) dict \<Rightarrow> bool" where
  "ledger_persistent metadata =
     (case dict_get metadata ''persistent'' of None \<Rightarrow> False | Some v \<Rightarrow> truthy v)"

definition decide_authorization_reason ::
  "provider_entry \<Rightarrow> authorization_request \<Rightarrow> adapter_capability \<Rightarrow> vault_capability
   \<Rightarrow> (string, pyval) dict \<Rightarrow> string option \<Rightarrow> bool \<Rightarrow> authorization_reason" where
  "decide_authorization_reason entry request adapter vault audit_metadata url require_persistent =
     (if \<not> pe_enabled entry then ArProviderDisabled
      else if \<not> aq_state_present request then ArMissingState
      else if \<not> aq_redirect_uri_present request then ArMissingRedirectUri
      else if ac_provider_kind adapter \<noteq> pe_provider_kind entry then ArAdapterMismatch
      else if \<not> ac_bound adapter then ArAdapterNotBound
      else if \<not> ac_configured adapter then ArAdapterNotConfigured
      else if \<not> ac_can_create_authorization_url adapter then ArAdapterCannotAuthorize
      else if \<not> can_store_external_secret vault then ArVaultNotConfigured
      else if require_persistent \<and> \<not> ledger_persistent audit_metadata then ArAuditNotPersistent
      else if str_or_empty url = [] then ArUrlMissing
      else ArUrlIssued)"

fun authorization_required_next :: "authorization_reason \<Rightarrow> string list" where
  "authorization_required_next ArProviderDisabled = [''enable_provider_registry_entry'']"
| "authorization_required_next ArMissingState = [''create_backend_state_nonce'']"
| "authorization_required_next ArMissingRedirectUri = [''bind_backend_redirect_uri'']"
| "authorization_required_next ArAdapterMismatch = [''bind_matching_provider_adapter'']"
| "authorization_required_next ArAdapterNotBound = [''bind_provider_adapter'']"
| "authorization_required_next ArAdapterNotConfigured = [''configure_provider_adapter'']"
| "authorization_required_next ArAdapterCannotAuthorize = [''implement_authorization_url_provider'']"
| "authorization_required_next ArVaultNotConfigured = [''configure_vault'']"
| "authorization_required_next ArAuditNotPersistent = [''configure_persistent_audit_ledger'']"
| "authorization_required_next ArUrlMissing = [''adapter_return_authorization_url'']"
| "authorization_required_next ArUrlIssued = []"

record authorization_options =
  ao_adapter :: "adapter_capability option"
  ao_vault :: "vault_capability option"
  ao_audit_metadata :: "(string, pyval) dict option"
  ao_authorization_url :: "string option"
  ao_require_persistent_audit :: bool

text \<open>An absent and an empty ledger status both fall back to the default, which is not persistent.\<close>

definition resolve_ledger :: "(string, pyval) dict option \<Rightarrow> (string, pyval) dict" where
  "resolve_ledger metadata =
     (case metadata of
        None \<Rightarrow> audit_ledger_status_metadata False ''memory_contract''
      | Some m \<Rightarrow> if m = [] then audit_ledger_status_metadata False ''memory_contract'' else m)"

definition decide_authorization_url ::
  "string \<Rightarrow> provider_entry \<Rightarrow> authorization_request \<Rightarrow> authorization_options
   \<Rightarrow> authorization_decision" where
  "decide_authorization_url now entry request opts =
     (let adapter = (case ao_adapter opts of
            Some a \<Rightarrow> a | None \<Rightarrow> default_adapter_capability (pe_provider_kind entry));
          vault = (case ao_vault opts of Some v \<Rightarrow> v | None \<Rightarrow> default_vault_capability);
          ledger = resolve_ledger (ao_audit_metadata opts);
          reason = decide_authorization_reason entry request adapter vault ledger
            (ao_authorization_url opts) (ao_require_persistent_audit opts);
          ready = (reason = ArUrlIssued)
      in \<lparr>ad_ready_status = ready, ad_reason = reason, ad_provider_slug = pe_slug entry,
          ad_label = pe_label entry, ad_provider_kind = pe_provider_kind entry,
          ad_auth_mode = pe_auth_mode entry,
          ad_authorization_url = (if ready then str_or_empty (ao_authorization_url opts) else []),
          ad_adapter = Some adapter, ad_required_next = authorization_required_next reason,
          ad_audit_event = Some \<lparr>aa_reason = reason, aa_request = request, aa_created_at = now\<rparr>\<rparr>)"

section \<open>Facts\<close>

lemma authorization_issued_iff:
  "decide_authorization_reason e r a v m url persistent = ArUrlIssued \<longleftrightarrow>
     pe_enabled e \<and> aq_state_present r \<and> aq_redirect_uri_present r \<and>
     ac_provider_kind a = pe_provider_kind e \<and> authorization_ready a \<and>
     can_store_external_secret v \<and> (persistent \<longrightarrow> ledger_persistent m) \<and> str_or_empty url \<noteq> []"
  unfolding decide_authorization_reason_def authorization_ready_def by auto

lemma authorization_steps_empty_iff: "authorization_required_next r = [] \<longleftrightarrow> r = ArUrlIssued"
  by (cases r) auto

lemma default_ledger_not_persistent:
  "\<not> ledger_persistent (audit_ledger_status_metadata False backend)"
  by (simp add: ledger_persistent_def audit_ledger_status_metadata_def)

lemma default_vault_cannot_store: "\<not> can_store_external_secret default_vault_capability"
  by (simp add: can_store_external_secret_def default_vault_capability_def)

lemma default_adapter_cannot [simp]:
  "\<not> authorization_ready (default_adapter_capability k)"
  "\<not> ac_bound (default_adapter_capability k)"
  "ac_provider_kind (default_adapter_capability k) = k"
  by (simp_all add: authorization_ready_def default_adapter_capability_def)

text \<open>What the caller must have configured for a decision to be ready.\<close>

lemma decide_authorization_ready_iff:
  "ad_ready_status (decide_authorization_url now e r opts) \<longleftrightarrow>
     pe_enabled e \<and> aq_state_present r \<and> aq_redirect_uri_present r \<and>
     (\<exists>a. ao_adapter opts = Some a \<and> ac_provider_kind a = pe_provider_kind e \<and> authorization_ready a) \<and>
     (\<exists>v. ao_vault opts = Some v \<and> can_store_external_secret v) \<and>
     (ao_require_persistent_audit opts \<longrightarrow> ledger_persistent (resolve_ledger (ao_audit_metadata opts))) \<and>
     str_or_empty (ao_authorization_url opts) \<noteq> []"
  by (cases "ao_adapter opts"; cases "ao_vault opts")
     (auto simp: decide_authorization_url_def Let_def authorization_issued_iff default_vault_cannot_store)

lemma decide_authorization_fields:
  "ad_reason (decide_authorization_url now e r opts) = ArUrlIssued
     \<longleftrightarrow> ad_ready_status (decide_authorization_url now e r opts)"
  "ad_required_next (decide_authorization_url now e r opts)
     = authorization_required_next (ad_reason (decide_authorization_url now e r opts))"
  "ad_authorization_url (decide_authorization_url now e r opts)
     = (if ad_ready_status (decide_authorization_url now e r opts)
        then str_or_empty (ao_authorization_url opts) else [])"
  unfolding decide_authorization_url_def Let_def by simp_all

section \<open>Properties\<close>

text \<open>An authorization URL leaves the backend exactly when the provider is enabled, a state nonce
  and a redirect URI exist, the caller bound a configured adapter of the provider's own kind that can
  authorize, the vault can store what comes back, the audit ledger persists (when required) and the
  adapter returned a URL; otherwise the URL is empty and the decision names a next step.\<close>

theorem authorization_url_issued_iff:
  "(ad_authorization_url (decide_authorization_url now e r opts) \<noteq> []) =
     (pe_enabled e \<and> aq_state_present r \<and> aq_redirect_uri_present r \<and>
      (\<exists>a. ao_adapter opts = Some a \<and> ac_provider_kind a = pe_provider_kind e \<and> authorization_ready a) \<and>
      (\<exists>v. ao_vault opts = Some v \<and> can_store_external_secret v) \<and>
      (if ao_require_persistent_audit opts then ledger_persistent (resolve_ledger (ao_audit_metadata opts))
       else True) \<and>
      str_or_empty (ao_authorization_url opts) \<noteq> [])
   \<and> (ad_authorization_url (decide_authorization_url now e r opts) = []) =
     (ad_required_next (decide_authorization_url now e r opts) \<noteq> [])"
proof -
  let ?d = "decide_authorization_url now e r opts"
  have "ad_authorization_url ?d \<noteq> [] \<longleftrightarrow> ad_ready_status ?d"
    unfolding decide_authorization_fields(3) by (auto simp: decide_authorization_ready_iff)
  moreover have "ad_required_next ?d = [] \<longleftrightarrow> ad_ready_status ?d"
    unfolding decide_authorization_fields(2) authorization_steps_empty_iff decide_authorization_fields(1) ..
  ultimately show ?thesis unfolding decide_authorization_ready_iff by (auto simp del: not_None_eq)
qed

end
