(* ===== verification/Connect_Sessions.thy ===== *)
theory Connect_Sessions
  imports Connect_Providers
begin

text \<open>
  \<open>app/engine/wiii_connect/connection_sessions.py\<close> (may a connection session start?) and
  \<open>callback_boundary.py\<close> (may an OAuth callback be accepted?).
\<close>

section \<open>Connection sessions\<close>

datatype session_reason =
    SrProviderDisabled
  | SrMissingPrerequisites
  | SrAdapterNotBound
  | SrAdapterMismatch
  | SrAdapterNotConfigured
  | SrAdapterCannotAuthorize
  | SrMissingState
  | SrMissingRedirectUri
  | SrVaultNotConfigured
  | SrAuditNotPersistent
  | SrUrlMissing
  | SrUrlIssued

fun session_reason_value :: "session_reason \<Rightarrow> string" where
  "session_reason_value SrProviderDisabled = ''provider_disabled''"
| "session_reason_value SrMissingPrerequisites = ''missing_connect_prerequisites''"
| "session_reason_value SrAdapterNotBound = ''provider_adapter_not_bound''"
| "session_reason_value SrAdapterMismatch = ''provider_adapter_mismatch''"
| "session_reason_value SrAdapterNotConfigured = ''provider_adapter_not_configured''"
| "session_reason_value SrAdapterCannotAuthorize = ''provider_adapter_cannot_authorize''"
| "session_reason_value SrMissingState = ''missing_state''"
| "session_reason_value SrMissingRedirectUri = ''missing_redirect_uri''"
| "session_reason_value SrVaultNotConfigured = ''vault_not_configured''"
| "session_reason_value SrAuditNotPersistent = ''audit_ledger_not_persistent''"
| "session_reason_value SrUrlMissing = ''authorization_url_missing''"
| "session_reason_value SrUrlIssued = ''authorization_url_issued''"

definition session_version :: string where
  "session_version = ''wiii_connect_session.v1''"

record session_request =
  sq_provider_slug :: string
  sq_surface :: string
  sq_requested_scopes :: scope_grant
  sq_redirect_uri_present :: bool
  sq_metadata_keys :: "string list"

definition session_request_metadata :: "session_request \<Rightarrow> pyval" where
  "session_request_metadata r = PDict
     [(''provider_slug'', PStr (sq_provider_slug r)),
      (''surface'', PStr (sq_surface r)),
      (''requested_scopes'', scope_grant_metadata (sq_requested_scopes r)),
      (''redirect_uri_present'', PBool (sq_redirect_uri_present r)),
      (''request_metadata_keys'', PList (map (\<lambda>k. PStr (safe_metadata_key k)) (sq_metadata_keys r)))]"

datatype session_stage = StatusChecked | StartRequested

fun session_stage_value :: "session_stage \<Rightarrow> string" where
  "session_stage_value StatusChecked = ''status_checked''"
| "session_stage_value StartRequested = ''start_requested''"

record session_audit_event =
  sa_stage :: session_stage
  sa_reason :: session_reason
  sa_request :: session_request
  sa_created_at :: string

definition session_audit_metadata :: "session_audit_event \<Rightarrow> pyval" where
  "session_audit_metadata e = PDict
     [(''version'', PStr session_version),
      (''stage'', PStr (session_stage_value (sa_stage e))),
      (''reason'', PStr (session_reason_value (sa_reason e))),
      (''created_at'', PStr (sa_created_at e)),
      (''request'', session_request_metadata (sa_request e))]"

record connection_status =
  cst_provider_slug :: string
  cst_label :: string
  cst_provider_kind :: provider_kind
  cst_auth_mode :: auth_mode
  cst_enabled :: bool
  cst_agent_ready :: bool
  cst_can_start_authorization :: bool
  cst_reason :: session_reason
  cst_missing_requirements :: "string list"
  cst_warnings :: "string list"

definition connection_status_metadata :: "connection_status \<Rightarrow> pyval" where
  "connection_status_metadata s = PDict
     [(''version'', PStr session_version),
      (''provider_slug'', PStr (cst_provider_slug s)),
      (''label'', PStr (cst_label s)),
      (''provider_kind'', PStr (provider_kind_value (cst_provider_kind s))),
      (''auth_mode'', PStr (auth_mode_value (cst_auth_mode s))),
      (''enabled'', PBool (cst_enabled s)),
      (''agent_ready'', PBool (cst_agent_ready s)),
      (''can_start_authorization'', PBool (cst_can_start_authorization s)),
      (''reason'', PStr (session_reason_value (cst_reason s))),
      (''missing_requirements'', PList (map PStr (cst_missing_requirements s))),
      (''warnings'', PList (map PStr (cst_warnings s)))]"

record session_decision =
  sd_ready_status :: bool
  sd_reason :: session_reason
  sd_provider_slug :: string
  sd_label :: string
  sd_provider_kind :: provider_kind
  sd_auth_mode :: auth_mode
  sd_authorization_url :: string
  sd_required_next :: "string list"
  sd_audit_event :: session_audit_event

definition session_decision_metadata :: "session_decision \<Rightarrow> pyval" where
  "session_decision_metadata d = PDict
     [(''version'', PStr session_version),
      (''status'', PStr (ready_status_value (sd_ready_status d))),
      (''reason'', PStr (session_reason_value (sd_reason d))),
      (''provider_slug'', PStr (sd_provider_slug d)),
      (''label'', PStr (sd_label d)),
      (''provider_kind'', PStr (provider_kind_value (sd_provider_kind d))),
      (''auth_mode'', PStr (auth_mode_value (sd_auth_mode d))),
      (''authorization_url'', PStr (sd_authorization_url d)),
      (''required_next'', PList (map PStr (sd_required_next d))),
      (''audit_event'', session_audit_metadata (sd_audit_event d))]"

definition session_block_reason :: "provider_entry \<Rightarrow> string list \<Rightarrow> session_reason" where
  "session_block_reason entry missing =
     (if \<not> pe_enabled entry then SrProviderDisabled
      else if missing \<noteq> [] then SrMissingPrerequisites else SrUrlIssued)"

fun session_reason_from_authorization :: "authorization_reason \<Rightarrow> session_reason" where
  "session_reason_from_authorization ArProviderDisabled = SrProviderDisabled"
| "session_reason_from_authorization ArAdapterMismatch = SrAdapterMismatch"
| "session_reason_from_authorization ArAdapterNotBound = SrAdapterNotBound"
| "session_reason_from_authorization ArAdapterNotConfigured = SrAdapterNotConfigured"
| "session_reason_from_authorization ArAdapterCannotAuthorize = SrAdapterCannotAuthorize"
| "session_reason_from_authorization ArMissingState = SrMissingState"
| "session_reason_from_authorization ArMissingRedirectUri = SrMissingRedirectUri"
| "session_reason_from_authorization ArVaultNotConfigured = SrVaultNotConfigured"
| "session_reason_from_authorization ArAuditNotPersistent = SrAuditNotPersistent"
| "session_reason_from_authorization ArUrlMissing = SrUrlMissing"
| "session_reason_from_authorization ArUrlIssued = SrAdapterNotBound"

definition connection_status_for_entry :: "provider_entry \<Rightarrow> connection_status" where
  "connection_status_for_entry entry =
     (let missing = connection_requirements entry;
          reason = session_block_reason entry missing;
          reason = (if reason = SrUrlIssued then SrAdapterNotBound else reason)
      in \<lparr>cst_provider_slug = pe_slug entry, cst_label = pe_label entry,
          cst_provider_kind = pe_provider_kind entry, cst_auth_mode = pe_auth_mode entry,
          cst_enabled = pe_enabled entry, cst_agent_ready = pe_agent_ready entry,
          cst_can_start_authorization = False, cst_reason = reason,
          cst_missing_requirements = missing, cst_warnings = pe_warnings entry\<rparr>)"

text \<open>The three variables the branches of \<open>begin_connection_session\<close> assign, in one triple.\<close>

definition session_outcome ::
  "provider_entry \<Rightarrow> authorization_decision option \<Rightarrow> session_reason \<times> string list \<times> string" where
  "session_outcome entry authorization =
     (let missing = connection_requirements entry;
          reason = session_block_reason entry missing
      in if reason = SrUrlIssued then
           (case authorization of
              None \<Rightarrow> (SrAdapterNotBound, [''bind_provider_adapter''], [])
            | Some d \<Rightarrow>
                if \<not> ad_ready_status d
                then (session_reason_from_authorization (ad_reason d), ad_required_next d, [])
                else if ad_authorization_url d = []
                then (SrUrlMissing, [''adapter_return_authorization_url''], [])
                else (reason, missing, ad_authorization_url d))
         else (reason, missing, []))"

definition begin_connection_session ::
  "string \<Rightarrow> provider_entry \<Rightarrow> session_request \<Rightarrow> authorization_decision option \<Rightarrow> session_decision"
  where
  "begin_connection_session now entry request authorization =
     (let (reason, required_next, url) = session_outcome entry authorization;
          ready = (reason = SrUrlIssued \<and> url \<noteq> [])
      in \<lparr>sd_ready_status = ready, sd_reason = reason, sd_provider_slug = pe_slug entry,
          sd_label = pe_label entry, sd_provider_kind = pe_provider_kind entry,
          sd_auth_mode = pe_auth_mode entry,
          sd_authorization_url = (if ready then url else []),
          sd_required_next = required_next,
          sd_audit_event = \<lparr>sa_stage = StartRequested, sa_reason = reason, sa_request = request,
                            sa_created_at = now\<rparr>\<rparr>)"

definition scope_grant_from_mapping :: "(string, pyval) dict option \<Rightarrow> scope_grant" where
  "scope_grant_from_mapping mapping =
     (let scopes = (case mapping of None \<Rightarrow> [] | Some m \<Rightarrow> m);
          flag = (\<lambda>k. case dict_get scopes k of None \<Rightarrow> False | Some v \<Rightarrow> truthy v)
      in \<lparr>sg_read = flag ''read'', sg_preview = flag ''preview'', sg_write = flag ''write'',
          sg_apply = flag ''apply'', sg_admin = flag ''admin''\<rparr>)"

section \<open>The callback boundary\<close>

datatype callback_reason =
    CbProviderDisabled
  | CbProviderError
  | CbMissingState
  | CbInvalidState
  | CbMissingCode
  | CbMissingConnectionRef
  | CbVaultNotConfigured
  | CbAdapterNotBound
  | CbAccepted

fun callback_reason_value :: "callback_reason \<Rightarrow> string" where
  "callback_reason_value CbProviderDisabled = ''provider_disabled''"
| "callback_reason_value CbProviderError = ''provider_error''"
| "callback_reason_value CbMissingState = ''missing_state''"
| "callback_reason_value CbInvalidState = ''invalid_state''"
| "callback_reason_value CbMissingCode = ''missing_code''"
| "callback_reason_value CbMissingConnectionRef = ''missing_connection_ref''"
| "callback_reason_value CbVaultNotConfigured = ''vault_not_configured''"
| "callback_reason_value CbAdapterNotBound = ''provider_adapter_not_bound''"
| "callback_reason_value CbAccepted = ''accepted''"

definition callback_version :: string where
  "callback_version = ''wiii_connect_callback.v1''"

record callback_request =
  cq_provider_slug :: string
  cq_surface :: string
  cq_state_present :: bool
  cq_code_present :: bool
  cq_connection_ref_present :: bool
  cq_error_present :: bool
  cq_state_valid :: bool
  cq_metadata_keys :: "string list"

definition callback_request_metadata :: "callback_request \<Rightarrow> pyval" where
  "callback_request_metadata r = PDict
     [(''provider_slug'', PStr (cq_provider_slug r)),
      (''surface'', PStr (cq_surface r)),
      (''state_present'', PBool (cq_state_present r)),
      (''code_present'', PBool (cq_code_present r)),
      (''connection_ref_present'', PBool (cq_connection_ref_present r)),
      (''error_present'', PBool (cq_error_present r)),
      (''state_valid'', PBool (cq_state_valid r)),
      (''request_metadata_keys'', PList (map (\<lambda>k. PStr (safe_metadata_key k)) (cq_metadata_keys r)))]"

record callback_audit_event =
  ca_reason :: callback_reason
  ca_request :: callback_request
  ca_created_at :: string

definition callback_audit_metadata :: "callback_audit_event \<Rightarrow> pyval" where
  "callback_audit_metadata e = PDict
     [(''version'', PStr callback_version),
      (''stage'', PStr ''callback_received''),
      (''reason'', PStr (callback_reason_value (ca_reason e))),
      (''created_at'', PStr (ca_created_at e)),
      (''request'', callback_request_metadata (ca_request e))]"

record callback_decision =
  cd_accepted :: bool
  cd_reason :: callback_reason
  cd_provider_slug :: string
  cd_label :: string
  cd_provider_kind :: provider_kind
  cd_auth_mode :: auth_mode
  cd_vault_ref_issued :: bool
  cd_connection_ref :: string
  cd_audit_event :: callback_audit_event

definition callback_decision_metadata :: "callback_decision \<Rightarrow> pyval" where
  "callback_decision_metadata d = PDict
     [(''version'', PStr callback_version),
      (''status'', PStr (if cd_accepted d then ''accepted'' else ''blocked'')),
      (''reason'', PStr (callback_reason_value (cd_reason d))),
      (''provider_slug'', PStr (cd_provider_slug d)),
      (''label'', PStr (cd_label d)),
      (''provider_kind'', PStr (provider_kind_value (cd_provider_kind d))),
      (''auth_mode'', PStr (auth_mode_value (cd_auth_mode d))),
      (''vault_ref_issued'', PBool (cd_vault_ref_issued d)),
      (''connection_ref'', PStr (cd_connection_ref d)),
      (''connection_ref_present'', PBool (cd_connection_ref d \<noteq> [])),
      (''audit_event'', callback_audit_metadata (cd_audit_event d))]"

definition decide_callback_reason ::
  "provider_entry \<Rightarrow> callback_request \<Rightarrow> bool \<Rightarrow> bool \<Rightarrow> callback_reason" where
  "decide_callback_reason entry request vault_ready adapter_bound =
     (if \<not> pe_enabled entry then CbProviderDisabled
      else if \<not> cq_state_present request then CbMissingState
      else if \<not> cq_state_valid request then CbInvalidState
      else if cq_error_present request then CbProviderError
      else if \<not> cq_code_present request \<and> \<not> cq_connection_ref_present request then CbMissingCode
      else if \<not> cq_connection_ref_present request then CbMissingConnectionRef
      else if \<not> vault_ready then CbVaultNotConfigured
      else if \<not> adapter_bound then CbAdapterNotBound
      else CbAccepted)"

definition resolved_vault_ready :: "bool \<Rightarrow> vault_capability option \<Rightarrow> bool" where
  "resolved_vault_ready vault_ready capability \<longleftrightarrow>
     vault_ready \<or> (case capability of None \<Rightarrow> False | Some c \<Rightarrow> can_store_external_secret c)"

definition callback_decision_for_entry ::
  "string \<Rightarrow> provider_entry \<Rightarrow> callback_request \<Rightarrow> bool \<Rightarrow> vault_capability option \<Rightarrow> bool
   \<Rightarrow> callback_decision" where
  "callback_decision_for_entry now entry request vault_ready capability adapter_bound =
     (let reason = decide_callback_reason entry request (resolved_vault_ready vault_ready capability)
            adapter_bound;
          accepted = (reason = CbAccepted)
      in \<lparr>cd_accepted = accepted, cd_reason = reason, cd_provider_slug = pe_slug entry,
          cd_label = pe_label entry, cd_provider_kind = pe_provider_kind entry,
          cd_auth_mode = pe_auth_mode entry, cd_vault_ref_issued = accepted,
          cd_connection_ref = (if accepted then ''pending_connection_ref'' else []),
          cd_audit_event = \<lparr>ca_reason = reason, ca_request = request, ca_created_at = now\<rparr>\<rparr>)"

section \<open>Facts\<close>

lemma session_block_issued_iff:
  "session_block_reason e missing = SrUrlIssued \<longleftrightarrow> pe_enabled e \<and> missing = []"
  by (simp add: session_block_reason_def)

lemma session_reason_never_issued [simp]: "session_reason_from_authorization r \<noteq> SrUrlIssued"
  by (cases r) simp_all

text \<open>A session is ready only with a ready authorization decision that carries a URL.\<close>

lemma session_ready_iff:
  "sd_ready_status (begin_connection_session now e q authorization) \<longleftrightarrow>
     pe_enabled e \<and> connection_requirements e = [] \<and>
     (\<exists>d. authorization = Some d \<and> ad_ready_status d \<and> ad_authorization_url d \<noteq> [])"
  by (auto simp: begin_connection_session_def session_outcome_def session_block_issued_iff Let_def
      split: option.splits)

lemma session_url:
  "sd_authorization_url (begin_connection_session now e q authorization) =
     (if sd_ready_status (begin_connection_session now e q authorization)
      then ad_authorization_url (the authorization) else [])"
  by (auto simp: begin_connection_session_def session_outcome_def session_block_issued_iff Let_def
      split: option.splits)

lemma callback_accepted_reason_iff:
  "decide_callback_reason e r vault bound = CbAccepted \<longleftrightarrow>
     pe_enabled e \<and> cq_state_present r \<and> cq_state_valid r \<and> \<not> cq_error_present r \<and>
     cq_connection_ref_present r \<and> vault \<and> bound"
  unfolding decide_callback_reason_def by auto

section \<open>Properties\<close>

text \<open>A session that is started with the adapter layer's own decision is ready exactly when the
  provider has no open connection requirement and that decision is ready; then, and only then, it
  hands out the URL the adapter returned.\<close>

theorem session_starts_with_issued_url:
  "(sd_ready_status (begin_connection_session now e q (Some (decide_authorization_url now' e r opts)))) =
     (connection_requirements e = [] \<and> ad_ready_status (decide_authorization_url now' e r opts))
   \<and> sd_authorization_url (begin_connection_session now e q (Some (decide_authorization_url now' e r opts))) =
     (if connection_requirements e = [] \<and> ad_ready_status (decide_authorization_url now' e r opts)
      then str_or_empty (ao_authorization_url opts) else [])"
proof -
  let ?d = "decide_authorization_url now' e r opts"
  have url: "ad_authorization_url ?d \<noteq> [] \<longleftrightarrow> ad_ready_status ?d"
    unfolding decide_authorization_fields(3) by (auto simp: decide_authorization_ready_iff)
  have en: "ad_ready_status ?d \<Longrightarrow> pe_enabled e"
    by (auto simp: decide_authorization_ready_iff)
  show ?thesis using url en unfolding session_url session_ready_iff
    by (auto simp: decide_authorization_fields(3))
qed

text \<open>A callback is accepted, and a vault reference announced, exactly when the provider is enabled,
  the state is present and valid, the provider reported no error, a connection reference came back,
  the vault is ready and the adapter bound; every other callback issues no reference.\<close>

theorem callback_accepted_iff:
  "cd_vault_ref_issued (callback_decision_for_entry now e r vault_ready capability bound) =
     (pe_enabled e \<and> cq_state_present r \<and> cq_state_valid r \<and> \<not> cq_error_present r \<and>
      cq_connection_ref_present r \<and> resolved_vault_ready vault_ready capability \<and> bound)
   \<and> (cd_connection_ref (callback_decision_for_entry now e r vault_ready capability bound) \<noteq> []) =
     cd_accepted (callback_decision_for_entry now e r vault_ready capability bound)"
  by (simp add: callback_decision_for_entry_def Let_def callback_accepted_reason_iff)

end
