(* ===== verification/Connect_Registry.thy ===== *)
theory Connect_Registry
  imports Connect_Sessions "HOL-Library.Product_Lexorder"
begin

text \<open>
  The two static tables of Wiii Connect: the provider registry
  (\<open>app/engine/wiii_connect/provider_registry.py\<close>) and the curated action catalog
  (\<open>action_catalog.py\<close>), with their lookups by normalised name and their public projections.
\<close>

section \<open>The provider registry\<close>

definition composio_connect_requirements :: "string list" where
  "composio_connect_requirements = [''oauth_or_connect_link'', ''provider_managed_vault_ref'', ''audit_ledger'']"

definition composio_agent_ready_requirements :: "string list" where
  "composio_agent_ready_requirements = [''scope_policy'', ''curated_action_catalog'', ''execution_gateway'']"

definition composio_requirements :: "string list" where
  "composio_requirements = composio_connect_requirements @ composio_agent_ready_requirements"

text \<open>The constructor call each entry repeats, with the defaults of the data class.\<close>

definition composio_entry :: "string \<Rightarrow> string \<Rightarrow> string \<Rightarrow> string \<Rightarrow> provider_entry" where
  "composio_entry slug label category description =
     \<lparr>pe_slug = slug, pe_label = label, pe_provider_kind = Composio, pe_auth_mode = Oauth2,
      pe_enabled = False, pe_agent_ready = False, pe_category = category,
      pe_description = description, pe_allowed_paths = [''external_app_action''],
      pe_action_allowlist = [], pe_requirements = composio_requirements,
      pe_connect_requirements = composio_connect_requirements,
      pe_agent_ready_requirements = composio_agent_ready_requirements, pe_required_fields = [],
      pe_default_scopes = no_scopes, pe_source = ''wiii_connect_registry'',
      pe_warnings = [''adapter_disabled'']\<rparr>"

definition provider_registry :: "provider_entry list" where
  "provider_registry =
    [composio_entry ''facebook'' ''Facebook'' ''social''
       ''Facebook Pages/content via a brokered OAuth adapter.'',
     composio_entry ''gmail'' ''Gmail'' ''productivity''
       ''Gmail read/write actions with explicit scope gates.'',
     composio_entry ''google_calendar'' ''Google Calendar'' ''productivity''
       ''Calendar lookup and event drafting through Composio.'',
     composio_entry ''google_drive'' ''Google Drive'' ''productivity''
       ''Drive file lookup and source reference workflows.'',
     composio_entry ''notion'' ''Notion'' ''productivity''
       ''Notion workspace search and page drafting.'',
     composio_entry ''slack'' ''Slack'' ''chat''
       ''Slack workspace/channel read and message drafting.'',
     composio_entry ''github'' ''GitHub'' ''platform''
       ''GitHub issue, PR, and repository workflows.'',
     composio_entry ''airtable'' ''Airtable'' ''productivity''
       ''Airtable base lookup and record drafting.'',
     composio_entry ''asana'' ''Asana'' ''productivity''
       ''Asana project/task lookup and task drafting.'']"

definition list_provider_registry :: "provider_kind option \<Rightarrow> provider_entry list" where
  "list_provider_registry kind =
     sort_key (\<lambda>e. (provider_kind_value (pe_provider_kind e), pe_slug e))
       (case kind of None \<Rightarrow> provider_registry
        | Some k \<Rightarrow> filter (\<lambda>e. pe_provider_kind e = k) provider_registry)"

definition get_provider_entry :: "string \<Rightarrow> provider_entry option" where
  "get_provider_entry slug =
     (let key = normalize_provider_slug slug in
      if key = [] then None else find (\<lambda>e. pe_slug e = key) provider_registry)"

text \<open>The slug-level operations of the session and callback modules.\<close>

definition provider_connection_status :: "string \<Rightarrow> connection_status option" where
  "provider_connection_status slug = map_option connection_status_for_entry (get_provider_entry slug)"

definition provider_callback_decision ::
  "string \<Rightarrow> string \<Rightarrow> callback_request \<Rightarrow> bool \<Rightarrow> vault_capability option \<Rightarrow> bool
   \<Rightarrow> callback_decision option" where
  "provider_callback_decision now slug request vault_ready capability bound =
     map_option (\<lambda>entry. callback_decision_for_entry now entry request vault_ready capability bound)
       (get_provider_entry slug)"

section \<open>The action catalog\<close>

record curated_action =
  cu_slug :: string
  cu_provider_slug :: string
  cu_provider_kind :: provider_kind
  cu_label :: string
  cu_mutation :: action_mutation
  cu_path :: string
  cu_enabled :: bool
  cu_requires_preview :: bool
  cu_requires_approval :: bool
  cu_required_scopes :: "scope_name list"
  cu_argument_keys :: "string list"
  cu_description :: string
  cu_source :: string
  cu_warnings :: "string list"

definition catalog_version :: string where
  "catalog_version = ''wiii_connect_action_catalog.v1''"

definition argument_policy_version :: string where
  "argument_policy_version = ''wiii_connect_argument_key_policy.v1''"

definition curated_metadata :: "curated_action \<Rightarrow> (string, pyval) dict" where
  "curated_metadata a =
     (let keys = model_visible_argument_keys (cu_provider_slug a) (cu_slug a) (cu_argument_keys a) in
     [(''version'', PStr catalog_version),
      (''slug'', PStr (cu_slug a)),
      (''provider_slug'', PStr (cu_provider_slug a)),
      (''provider_kind'', PStr (provider_kind_value (cu_provider_kind a))),
      (''label'', PStr (cu_label a)),
      (''mutation'', PStr (mutation_value (cu_mutation a))),
      (''path'', PStr (cu_path a)),
      (''enabled'', PBool (cu_enabled a)),
      (''requires_preview'', PBool (cu_requires_preview a)),
      (''requires_approval'', PBool (cu_requires_approval a)),
      (''required_scopes'', PList (map (\<lambda>s. PStr (scope_value s)) (cu_required_scopes a))),
      (''argument_policy_version'', PStr argument_policy_version),
      (''argument_keys'', PList (map PStr keys)),
      (''model_argument_keys'', PList (map PStr keys)),
      (''hidden_argument_count'', PInt (int
         (hidden_model_argument_key_count (cu_provider_slug a) (cu_slug a) (cu_argument_keys a)))),
      (''description'', PStr (cu_description a)),
      (''source'', PStr (cu_source a)),
      (''warnings'', PList (map PStr (cu_warnings a)))])"

definition read_action :: "string \<Rightarrow> string \<Rightarrow> string \<Rightarrow> string list \<Rightarrow> string \<Rightarrow> string list \<Rightarrow> curated_action"
  where
  "read_action slug provider label keys description warnings =
     \<lparr>cu_slug = slug, cu_provider_slug = provider, cu_provider_kind = Composio, cu_label = label,
      cu_mutation = MRead, cu_path = ''external_app_action'', cu_enabled = False,
      cu_requires_preview = False, cu_requires_approval = False, cu_required_scopes = [ScRead],
      cu_argument_keys = keys, cu_description = description,
      cu_source = ''wiii_connect_action_catalog'', cu_warnings = warnings\<rparr>"

definition apply_action :: "string \<Rightarrow> string \<Rightarrow> string \<Rightarrow> string list \<Rightarrow> string \<Rightarrow> string list \<Rightarrow> curated_action"
  where
  "apply_action slug provider label keys description warnings =
     (read_action slug provider label keys description warnings)
       \<lparr>cu_mutation := MApply, cu_requires_preview := True, cu_requires_approval := True,
        cu_required_scopes := [ScApply]\<rparr>"

definition curated_actions :: "curated_action list" where
  "curated_actions =
    [read_action ''GMAIL_FETCH_EMAILS'' ''gmail'' ''Fetch Gmail emails'' [''query'', ''max_results'']
       (''Read-only candidate listed in current Composio Gmail docs. Enable ''
        @ ''only after a real Gmail auth-config and live tool schema are verified.'')
       [''disabled_until_live_gmail_schema_verified''],
     read_action ''FACEBOOK_LIST_MANAGED_PAGES'' ''facebook'' ''List managed Facebook Pages''
       [''fields'', ''limit'', ''after'', ''before'', ''user_id'']
       (''Read-only Facebook Page selector. It may expose Page ids and ''
        @ ''names to the authenticated user, but must not expose Page access ''
        @ ''tokens returned by Facebook/Composio.'')
       [''runtime_enabled_requires_live_facebook_schema_verification''],
     apply_action ''FACEBOOK_CREATE_POST'' ''facebook'' ''Create Facebook Page post''
       [''page_id'', ''message'', ''link'', ''published'', ''scheduled_publish_time'']
       (''Creates a text/link post on a Facebook Page. Wiii may call this ''
        @ ''only after a preview, explicit user approval, selected account, ''
        @ ''scope grant, schema verification, and audit append.'')
       [''external_mutation_requires_preview_and_approval''],
     apply_action ''FACEBOOK_CREATE_PHOTO_POST'' ''facebook'' ''Create Facebook Page photo post''
       [''page_id'', ''message'', ''photo'', ''media'', ''url'', ''published'']
       (''Creates a photo post on a Facebook Page. User-uploaded images ''
        @ ''must stay behind Wiii preview/apply and use controlled Composio ''
        @ ''file staging, never arbitrary local paths from the model.'')
       [''external_mutation_requires_preview_and_approval'']]"

definition list_curated_actions :: "string option \<Rightarrow> bool \<Rightarrow> curated_action list" where
  "list_curated_actions provider_slug include_disabled =
     (let provider = normalize_provider_slug (str_or_empty provider_slug)
      in sort_key (\<lambda>a. (cu_provider_slug a, cu_slug a))
        (filter (\<lambda>a. (provider = [] \<or> cu_provider_slug a = provider) \<and> (include_disabled \<or> cu_enabled a))
          curated_actions))"

definition get_curated_action :: "string \<Rightarrow> string \<Rightarrow> curated_action option" where
  "get_curated_action provider_slug action_slug =
     (let provider = normalize_provider_slug provider_slug;
          action_key = normalize_action_slug action_slug
      in if provider = [] \<or> action_key = [] then None
         else find (\<lambda>a. cu_provider_slug a = provider \<and> cu_slug a = action_key) curated_actions)"

definition normalized_slugs :: "string list \<Rightarrow> string list" where
  "normalized_slugs slugs = filter (\<lambda>s. s \<noteq> []) (map normalize_action_slug slugs)"

definition enabled_action_slugs :: "string \<Rightarrow> string list \<Rightarrow> string list" where
  "enabled_action_slugs provider_slug enabled_slugs =
     (let allowed = normalized_slugs enabled_slugs
      in filter (\<lambda>s. allowed = [] \<or> s \<in> set allowed)
        (map cu_slug (list_curated_actions (Some provider_slug) False)))"

definition configured_action_slugs ::
  "string \<Rightarrow> string list \<Rightarrow> action_mutation list \<Rightarrow> string list" where
  "configured_action_slugs provider_slug enabled_slugs mutations =
     (let allowed = normalized_slugs enabled_slugs
      in if allowed = [] then []
         else map cu_slug (filter (\<lambda>a. cu_slug a \<in> set allowed \<and>
                 (mutations = [] \<or> cu_mutation a \<in> set mutations))
            (list_curated_actions (Some provider_slug) True)))"

definition action_catalog_summary :: "string \<Rightarrow> string list \<Rightarrow> (string, pyval) dict" where
  "action_catalog_summary provider_slug enabled_slugs =
     (let actions = list_curated_actions (Some provider_slug) True;
          runtime_enabled = normalized_slugs enabled_slugs;
          enabled = filter (\<lambda>a. cu_enabled a \<or> cu_slug a \<in> set runtime_enabled) actions;
          read_only = filter (\<lambda>a. cu_mutation a = MRead) actions
      in [(''version'', PStr catalog_version),
          (''provider_slug'', PStr (normalize_provider_slug provider_slug)),
          (''catalog_action_count'', PInt (int (length actions))),
          (''enabled_action_count'', PInt (int (length enabled))),
          (''read_only_action_count'', PInt (int (length read_only))),
          (''write_action_count'', PInt (int (length
             (filter (\<lambda>a. cu_mutation a \<in> {MWrite, MApply, MAdmin}) actions)))),
          (''enabled_action_slugs'', PList (map (\<lambda>a. PStr (cu_slug a)) enabled)),
          (''warnings'', PList (map PStr (sort (remdups (concat (map cu_warnings actions))))))])"

definition runtime_enabled_metadata :: "curated_action \<Rightarrow> bool \<Rightarrow> (string, pyval) dict" where
  "runtime_enabled_metadata a runtime_enabled =
     (let metadata = curated_metadata a
      in if runtime_enabled \<and> \<not> cu_enabled a then
           dict_set ''warnings'' (PList (map PStr (sort (remdups
               (cu_warnings a @ [''runtime_enabled_requires_live_schema_verification''])))))
             (dict_set ''enabled'' (PBool True) metadata)
         else metadata)"

definition action_catalog_metadata :: "string option \<Rightarrow> bool \<Rightarrow> string list \<Rightarrow> (string, pyval) dict" where
  "action_catalog_metadata provider_slug include_disabled enabled_slugs =
     (let enabled = normalized_slugs enabled_slugs;
          provider = normalize_provider_slug (str_or_empty provider_slug);
          all_actions = list_curated_actions provider_slug True;
          actions = (if include_disabled then all_actions
            else filter (\<lambda>a. cu_enabled a \<or> cu_slug a \<in> set enabled) all_actions)
      in [(''version'', PStr catalog_version),
          (''provider_slug'', (if provider = [] then PNone else PStr provider)),
          (''action_count'', PInt (int (length actions))),
          (''enabled_action_count'', PInt (int (length
             (filter (\<lambda>a. cu_enabled a \<or> cu_slug a \<in> set enabled) actions)))),
          (''actions'', PList (map (\<lambda>a.
             PDict (runtime_enabled_metadata a (cu_slug a \<in> set enabled))) actions))])"

section \<open>Facts\<close>

lemma registry_disabled: "e \<in> set provider_registry \<Longrightarrow> \<not> pe_enabled e"
  by (auto simp: provider_registry_def composio_entry_def)

lemma registry_slugs:
  "map pe_slug provider_registry =
    [''facebook'', ''gmail'', ''google_calendar'', ''google_drive'', ''notion'', ''slack'', ''github'',
     ''airtable'', ''asana'']"
  by (simp add: provider_registry_def composio_entry_def)

lemma registry_distinct: "distinct (map pe_slug provider_registry)"
  unfolding registry_slugs by simp

lemma get_provider_entry_member: "get_provider_entry slug = Some e \<Longrightarrow> e \<in> set provider_registry"
  by (auto simp: get_provider_entry_def Let_def split: if_splits dest: provider_slugs.find_canonical)

lemma list_curated_member:
  "a \<in> set (list_curated_actions p d) \<Longrightarrow> a \<in> set curated_actions
     \<and> (normalize_provider_slug (str_or_empty p) = [] \<or> cu_provider_slug a = normalize_provider_slug (str_or_empty p))"
  by (auto simp: list_curated_actions_def Let_def)

lemma curated_mutations:
  "a \<in> set curated_actions \<Longrightarrow>
     cu_mutation a \<in> {MRead, MApply} \<and> \<not> cu_enabled a \<and>
     cu_required_scopes a = [required_scope_for_mutation (cu_mutation a)] \<and>
     cu_requires_preview a = (cu_mutation a = MApply) \<and> cu_requires_approval a = (cu_mutation a = MApply)"
  by (auto simp: curated_actions_def read_action_def apply_action_def)

section \<open>Properties\<close>

text \<open>The static registry grants nothing: under whatever spelling a provider is looked up, its entry
  lets no action execute, no authorization URL leave, no session start and no callback be accepted,
  whatever connection, adapter, vault and ledger the caller brings.\<close>

theorem static_registry_grants_nothing:
  "case get_provider_entry slug of
     None \<Rightarrow> provider_callback_decision now slug cb vault_ready cap bound = None
   | Some e \<Rightarrow>
       xd_reason (decide_external_execution e conn req) = ProviderDisabled \<and>
       \<not> xd_allowed (decide_external_execution e conn req) \<and>
       ad_authorization_url (decide_authorization_url now e areq opts) = [] \<and>
       \<not> sd_ready_status (begin_connection_session now e sreq authorization) \<and>
       \<not> cd_vault_ref_issued (callback_decision_for_entry now e cb vault_ready cap bound)"
proof (cases "get_provider_entry slug")
  case (Some e)
  then have off: "\<not> pe_enabled e" using get_provider_entry_member registry_disabled by blast
  then have "\<not> ad_ready_status (decide_authorization_url now e areq opts)"
    by (simp add: decide_authorization_ready_iff)
  moreover have "\<not> cd_vault_ref_issued (callback_decision_for_entry now e cb vault_ready cap bound)"
    using off by (simp add: callback_decision_for_entry_def Let_def callback_accepted_reason_iff)
  ultimately show ?thesis using Some off
    by (simp add: decide_external_execution_def decide_authorization_fields(3) session_ready_iff)
qed (simp add: provider_callback_decision_def)

text \<open>Every registered provider is found under each spelling of its slug: any mix of case, outer
  white space, and dashes for underscores.\<close>

theorem provider_found_under_any_spelling:
  assumes "e \<in> set provider_registry" "normalize_provider_slug s = pe_slug e"
  shows "get_provider_entry s = Some e"
proof -
  have "pe_slug e \<noteq> []" using assms(1) registry_slugs by (auto simp: provider_registry_def composio_entry_def)
  with provider_slugs.find_registered [OF registry_distinct assms] assms(2) show ?thesis
    by (simp add: get_provider_entry_def)
qed

theorem provider_found_under_any_spelling_witness:
  "get_provider_entry '' Google-Drive'' = Some (provider_registry ! 3)"
  by (rule provider_found_under_any_spelling)
     (simp add: provider_registry_def, code_simp)

text \<open>No curated action can change anything without review: each one that is not read-only demands a
  preview and an approval and the scope of its mutation; the deployment switch, with its default of
  reads only, can enable read actions of the asked provider and nothing else.\<close>

theorem curated_actions_reviewed:
  "list_all (\<lambda>a. cu_required_scopes a = [required_scope_for_mutation (cu_mutation a)] \<and> \<not> cu_enabled a \<and>
      (cu_mutation a = MRead \<or> (cu_requires_preview a \<and> cu_requires_approval a))) curated_actions
   \<and> list_all (\<lambda>s. \<exists>a \<in> set curated_actions. cu_slug a = s \<and> cu_mutation a = MRead \<and>
        s \<in> set (normalized_slugs slugs) \<and>
        (normalize_provider_slug provider = [] \<or> cu_provider_slug a = normalize_provider_slug provider))
      (configured_action_slugs provider slugs [MRead])"
proof
  show "list_all (\<lambda>a. cu_required_scopes a = [required_scope_for_mutation (cu_mutation a)] \<and> \<not> cu_enabled a \<and>
      (cu_mutation a = MRead \<or> (cu_requires_preview a \<and> cu_requires_approval a))) curated_actions"
    using curated_mutations by (fastforce simp: list_all_iff)
  show "list_all (\<lambda>s. \<exists>a \<in> set curated_actions. cu_slug a = s \<and> cu_mutation a = MRead \<and>
        s \<in> set (normalized_slugs slugs) \<and>
        (normalize_provider_slug provider = [] \<or> cu_provider_slug a = normalize_provider_slug provider))
      (configured_action_slugs provider slugs [MRead])"
    by (auto simp: list_all_iff configured_action_slugs_def Let_def str_or_empty_def
        dest!: list_curated_member)
qed

end
