(* ===== verification/Connect_Policy.thy ===== *)
theory Connect_Policy
  imports Connect_Registry
begin

text \<open>
  \<open>app/engine/wiii_connect/action_policy.py\<close>: ranking of the allowlisted curated actions against a prompt
  and the selection of one of them before generic execution. Token sets are lists without
  duplicates; on ASCII text the NFKD folding of \<open>_ascii_fold\<close> is the identity.
\<close>

section \<open>Tokens\<close>

definition policy_stopwords :: "string list" where
  "policy_stopwords =
    [''a'', ''an'', ''and'', ''any'', ''cho'', ''cua'', ''de'', ''di'', ''for'', ''gi'', ''hay'', ''len'',
     ''mot'', ''of'', ''on'', ''the'', ''to'', ''toi'', ''wiii'']"

definition mutation_aliases :: "(action_mutation \<times> string list) list" where
  "mutation_aliases =
    [(MRead, [''check'', ''doc'', ''fetch'', ''get'', ''kiem'', ''list'', ''lay'', ''read'', ''search'',
              ''tim'', ''tra'', ''xem'']),
     (MPreview, [''draft'', ''nhap'', ''preview'', ''soan'', ''xem'']),
     (MWrite, [''create'', ''edit'', ''tao'', ''update'', ''write'']),
     (MApply, [''dang'', ''gui'', ''post'', ''publish'', ''send'']),
     (MAdmin, [''admin'', ''delete'', ''remove'', ''xoa''])]"

text \<open>The maximal runs of characters that satisfy \<open>P\<close>, as \<open>re.findall\<close> of a character class returns them.\<close>

fun char_runs :: "(char \<Rightarrow> bool) \<Rightarrow> string \<Rightarrow> string \<Rightarrow> string list" where
  "char_runs P run [] = (if run = [] then [] else [rev run])"
| "char_runs P run (c # cs) =
     (if P c then char_runs P (c # run) cs
      else if run = [] then char_runs P [] cs else rev run # char_runs P [] cs)"

definition policy_tokens :: "string \<Rightarrow> string list" where
  "policy_tokens value =
     (let normalized = replace_char CHR ''_'' CHR '' '' (py_lower value)
      in remdups (filter (\<lambda>t. t \<noteq> [] \<and> t \<notin> set policy_stopwords)
        (char_runs (\<lambda>c. is_lower c \<or> is_digit c) [] normalized)))"

definition token_hits :: "string list \<Rightarrow> string list \<Rightarrow> nat" where
  "token_hits xs ys = length (filter (\<lambda>t. t \<in> set ys) (remdups xs))"

definition prompt_mutations :: "string list \<Rightarrow> action_mutation list" where
  "prompt_mutations tokens =
     map fst (filter (\<lambda>(_, aliases). list_ex (\<lambda>t. t \<in> set aliases) tokens) mutation_aliases)"

section \<open>Candidates and decisions\<close>

record action_candidate =
  cn_slug :: string
  cn_provider_slug :: string
  cn_mutation :: action_mutation
  cn_label :: string
  cn_score :: int
  cn_rank_reasons :: "string list"
  cn_requires_preview :: bool
  cn_requires_approval :: bool

definition candidate_metadata :: "action_candidate \<Rightarrow> pyval" where
  "candidate_metadata c = PDict
     [(''slug'', PStr (cn_slug c)),
      (''provider_slug'', PStr (cn_provider_slug c)),
      (''mutation'', PStr (mutation_value (cn_mutation c))),
      (''label'', PStr (cn_label c)),
      (''score'', PInt (cn_score c)),
      (''rank_reasons'', PList (map PStr (cn_rank_reasons c))),
      (''requires_preview'', PBool (cn_requires_preview c)),
      (''requires_approval'', PBool (cn_requires_approval c))]"

datatype policy_reason =
    SelectedExplicitAction
  | SelectedSingleReadAction
  | MissingProviderSlug
  | UnknownCuratedAction
  | ActionNotAllowlisted
  | NoEnabledActions
  | ExplicitActionRequired
  | AmbiguousActionSelection

fun policy_reason_value :: "policy_reason \<Rightarrow> string" where
  "policy_reason_value SelectedExplicitAction = ''selected_explicit_action''"
| "policy_reason_value SelectedSingleReadAction = ''selected_single_read_action''"
| "policy_reason_value MissingProviderSlug = ''missing_provider_slug''"
| "policy_reason_value UnknownCuratedAction = ''unknown_curated_action''"
| "policy_reason_value ActionNotAllowlisted = ''action_not_allowlisted''"
| "policy_reason_value NoEnabledActions = ''no_enabled_actions''"
| "policy_reason_value ExplicitActionRequired = ''explicit_action_required_for_mutation''"
| "policy_reason_value AmbiguousActionSelection = ''ambiguous_action_selection''"

record policy_decision =
  pd_selected_status :: bool
  pd_reason :: policy_reason
  pd_provider_slug :: string
  pd_requested_action_slug :: string
  pd_requested_mutation :: action_mutation
  pd_action_slug :: string
  pd_selected_action :: "curated_action option"
  pd_candidates :: "action_candidate list"

definition pd_selected :: "policy_decision \<Rightarrow> bool" where
  "pd_selected d \<longleftrightarrow> pd_selected_status d \<and> pd_selected_action d \<noteq> None"

definition action_policy_version :: string where
  "action_policy_version = ''wiii_connect_action_policy.v1''"

definition policy_decision_metadata :: "policy_decision \<Rightarrow> pyval" where
  "policy_decision_metadata d = PDict
     [(''version'', PStr action_policy_version),
      (''status'', PStr (if pd_selected_status d then ''selected'' else ''blocked'')),
      (''reason'', PStr (policy_reason_value (pd_reason d))),
      (''provider_slug'', PStr (pd_provider_slug d)),
      (''requested_action_slug'', PStr (pd_requested_action_slug d)),
      (''requested_mutation'', PStr (mutation_value (pd_requested_mutation d))),
      (''action_slug'', PStr (pd_action_slug d)),
      (''candidate_count'', PInt (int (length (pd_candidates d)))),
      (''candidates'', PList (map candidate_metadata (pd_candidates d)))]"

definition policy_safe_mutation :: "string \<Rightarrow> action_mutation" where
  "policy_safe_mutation value =
     (let mutation = py_lower (py_strip value) in
      case find (\<lambda>m. mutation_value m = mutation) [MRead, MPreview, MWrite, MApply, MAdmin] of
        Some m \<Rightarrow> m | None \<Rightarrow> MRead)"

definition allowed_action_set :: "string list \<Rightarrow> string list" where
  "allowed_action_set values = remdups (filter (\<lambda>s. s \<noteq> []) (map policy_action_slug values))"

definition score_action ::
  "curated_action \<Rightarrow> string list \<Rightarrow> action_mutation \<Rightarrow> int \<times> string list" where
  "score_action action prompt_tokens preferred =
     (let matched = (cu_mutation action = preferred);
          name_hits = token_hits prompt_tokens (policy_tokens (cu_slug action));
          label_hits = token_hits prompt_tokens (policy_tokens (cu_label action));
          description_hits = token_hits prompt_tokens (policy_tokens (cu_description action));
          verbs = prompt_mutations prompt_tokens;
          verb_match = (cu_mutation action \<in> set verbs)
      in ((if matched then 3 else 0) + 4 * int name_hits + 2 * int label_hits + int description_hits
            + (if verb_match then 5 else if verbs \<noteq> [] then -2 else 0),
          (if matched then [''mutation_match''] else [])
          @ (if name_hits > 0 then [''action_name_overlap''] else [])
          @ (if label_hits > 0 then [''label_overlap''] else [])
          @ (if description_hits > 0 then [''description_overlap''] else [])
          @ (if verb_match then [''verb_match''] else if verbs \<noteq> [] then [''verb_mismatch''] else [])))"

definition rank_action_candidates ::
  "string \<Rightarrow> string list \<Rightarrow> string \<Rightarrow> action_mutation \<Rightarrow> int \<Rightarrow> action_candidate list" where
  "rank_action_candidates provider_slug action_allowlist prompt preferred max_results =
     (let provider = policy_provider_slug provider_slug;
          allowed = allowed_action_set action_allowlist;
          prompt_tokens = policy_tokens prompt;
          ranked = map (\<lambda>action.
              let (score, reasons) = score_action action prompt_tokens preferred
              in \<lparr>cn_slug = cu_slug action, cn_provider_slug = cu_provider_slug action,
                  cn_mutation = cu_mutation action, cn_label = cu_label action, cn_score = score,
                  cn_rank_reasons = reasons, cn_requires_preview = cu_requires_preview action,
                  cn_requires_approval = cu_requires_approval action\<rparr>)
            (filter (\<lambda>action. cu_slug action \<in> set allowed) (list_curated_actions (Some provider) True))
      in take (nat (max 1 max_results))
           (sort_key (\<lambda>c. (- cn_score c, cn_provider_slug c, cn_slug c)) ranked))"

definition select_action ::
  "string \<Rightarrow> string \<Rightarrow> string \<Rightarrow> string list \<Rightarrow> string \<Rightarrow> policy_decision" where
  "select_action provider_slug action_slug mutation action_allowlist prompt =
     (let provider = policy_provider_slug provider_slug;
          requested_action = policy_action_slug action_slug;
          requested_mutation = policy_safe_mutation mutation;
          decision = (\<lambda>selected reason slug action candidates.
            \<lparr>pd_selected_status = selected, pd_reason = reason, pd_provider_slug = provider,
             pd_requested_action_slug = requested_action, pd_requested_mutation = requested_mutation,
             pd_action_slug = slug, pd_selected_action = action, pd_candidates = candidates\<rparr>)
      in if provider = [] then decision False MissingProviderSlug [] None []
      else
        let allowed = allowed_action_set action_allowlist;
            candidates = rank_action_candidates provider allowed prompt requested_mutation 8
        in if allowed = [] then decision False NoEnabledActions [] None candidates
        else if requested_action \<noteq> [] then
          (case get_curated_action provider requested_action of
             None \<Rightarrow> decision False UnknownCuratedAction requested_action None candidates
           | Some action \<Rightarrow>
               if cu_slug action \<notin> set allowed
               then decision False ActionNotAllowlisted (cu_slug action) None candidates
               else decision True SelectedExplicitAction (cu_slug action) (Some action) candidates)
        else
          let mutation_candidates = filter (\<lambda>c. cn_mutation c = requested_mutation) candidates;
              shown = (if mutation_candidates \<noteq> [] then mutation_candidates else candidates)
          in if requested_mutation \<in> {MWrite, MApply, MAdmin} \<or> requested_mutation = MPreview
             then decision False ExplicitActionRequired [] None shown
             else case mutation_candidates of
               [c] \<Rightarrow> decision True SelectedSingleReadAction (cn_slug c)
                        (get_curated_action provider (cn_slug c)) mutation_candidates
             | _ \<Rightarrow> decision False
                      (if mutation_candidates = [] then NoEnabledActions else AmbiguousActionSelection)
                      [] None shown)"

definition enabled_action_slugs_for_providers ::
  "string list \<Rightarrow> (string, string list) dict \<Rightarrow> string list" where
  "enabled_action_slugs_for_providers provider_slugs allowlists =
     sort (remdups (concat (map (\<lambda>provider. if provider = [] then []
         else allowed_action_set (case dict_get allowlists provider of Some l \<Rightarrow> l | None \<Rightarrow> []))
       (remdups (map policy_provider_slug provider_slugs)))))"

section \<open>Facts\<close>

lemma get_curated_member:
  "get_curated_action p s = Some a \<Longrightarrow> a \<in> set curated_actions \<and> cu_provider_slug a = normalize_provider_slug p
     \<and> cu_slug a = normalize_action_slug s"
  by (auto simp: get_curated_action_def Let_def find_Some_iff split: if_splits)

lemma candidate_member:
  assumes "c \<in> set (rank_action_candidates p allowlist prompt m n)"
  shows "cn_slug c \<in> set (allowed_action_set allowlist) \<and>
    (\<exists>a \<in> set curated_actions. cu_slug a = cn_slug c \<and> cu_mutation a = cn_mutation c)"
  using assms unfolding rank_action_candidates_def Let_def
  by (auto dest!: in_set_takeD list_curated_member split: prod.splits) blast+

lemma curated_slug_distinct: "distinct (map cu_slug curated_actions)"
  by (simp add: curated_actions_def read_action_def apply_action_def)

lemma curated_slug_unique:
  "a \<in> set curated_actions \<Longrightarrow> b \<in> set curated_actions \<Longrightarrow> cu_slug a = cu_slug b \<Longrightarrow> a = b"
  using curated_slug_distinct by (auto simp: distinct_map dest: inj_onD)

lemma curated_slug_canonical: "a \<in> set curated_actions \<Longrightarrow> normalize_action_slug (cu_slug a) = cu_slug a"
proof -
  have "list_all (\<lambda>s. normalize_action_slug s = s) (map cu_slug curated_actions)"
    unfolding curated_actions_def read_action_def apply_action_def list.map curated_action.simps
    by code_simp
  then show "a \<in> set curated_actions \<Longrightarrow> ?thesis" by (auto simp: list_all_iff)
qed

text \<open>A single candidate that was chosen without being named is a read.\<close>

lemma single_candidate_reads:
  assumes "filter (\<lambda>c. cn_mutation c = m) (rank_action_candidates p allow prompt m n) = [c]"
    and "m \<notin> {MWrite, MApply, MAdmin, MPreview}" "get_curated_action p (cn_slug c) = Some x"
  shows "cu_slug x \<in> set (allowed_action_set allow) \<and> cu_mutation x = MRead"
proof -
  have c: "c \<in> set (rank_action_candidates p allow prompt m n)" "cn_mutation c = m"
    using arg_cong [OF assms(1), of set] by auto
  obtain a where a: "a \<in> set curated_actions" "cu_slug a = cn_slug c" "cu_mutation a = m"
    and allowed: "cn_slug c \<in> set (allowed_action_set allow)"
    using candidate_member [OF c(1)] c(2) by auto
  have x: "x \<in> set curated_actions" "cu_slug x = normalize_action_slug (cn_slug c)"
    using get_curated_member [OF assms(3)] by auto
  then have "cu_slug x = cu_slug a" using a curated_slug_canonical by metis
  then have "x = a" using curated_slug_unique x(1) a(1) by blast
  moreover have "m = MRead" using assms(2) by (cases m) auto
  ultimately show ?thesis using a allowed by simp
qed

section \<open>Properties\<close>

text \<open>Whatever the model asks for, a selected action is a curated action of the asked provider; when
  it was asked for by name it is that action and on the allowlist, and when no action was named it is
  a read, so a mutation is never chosen implicitly.\<close>

theorem selected_action_is_reviewed:
  "case pd_selected_action (select_action p a m allowlist prompt) of
     None \<Rightarrow> \<not> pd_selected (select_action p a m allowlist prompt)
   | Some x \<Rightarrow> x \<in> set curated_actions \<and>
       cu_provider_slug x = normalize_provider_slug (policy_provider_slug p) \<and>
       (if policy_action_slug a = []
        then cu_mutation x = MRead \<and> cu_slug x \<in> set (allowed_action_set (allowed_action_set allowlist))
        else cu_slug x = normalize_action_slug (policy_action_slug a) \<and>
             cu_slug x \<in> set (allowed_action_set allowlist))"
proof (cases "pd_selected_action (select_action p a m allowlist prompt)")
  case None
  then show ?thesis by (simp add: pd_selected_def)
next
  case (Some x)
  show ?thesis
  proof (cases "policy_action_slug a = []")
    case False
    with Some have "get_curated_action (policy_provider_slug p) (policy_action_slug a) = Some x"
      "cu_slug x \<in> set (allowed_action_set allowlist)"
      by (auto simp: select_action_def Let_def split: if_splits option.splits)
    with False Some get_curated_member show ?thesis by auto
  next
    case True
    let ?c = "rank_action_candidates (policy_provider_slug p) (allowed_action_set allowlist) prompt
      (policy_safe_mutation m) 8"
    from True Some obtain c where
      c: "filter (\<lambda>c. cn_mutation c = policy_safe_mutation m) ?c = [c]"
      and notm: "policy_safe_mutation m \<notin> {MWrite, MApply, MAdmin, MPreview}"
      and x: "get_curated_action (policy_provider_slug p) (cn_slug c) = Some x"
      by (auto simp: select_action_def Let_def split: if_splits option.splits list.splits)
    from single_candidate_reads [OF c notm x] get_curated_member [OF x] Some True
    show ?thesis by simp
  qed
qed

end
