(* ===== verification/Connect_Gateway.thy ===== *)
theory Connect_Gateway
  imports Connect_Registry
begin

text \<open>
  The last policy steps before a third-party action: the product scope policy
  (\<open>app/engine/wiii_connect/scope_policy.py\<close>), the execution gateway (\<open>execution_gateway.py\<close>) that
  composes it with the adapter-level decision, and the trusted authorization of mutations
  (\<open>action_authorization.py\<close>).
\<close>

section \<open>Scope policy\<close>

datatype scope_policy_reason = SpAllowed | SpDenied | SpProviderMismatch

fun scope_policy_reason_value :: "scope_policy_reason \<Rightarrow> string" where
  "scope_policy_reason_value SpAllowed = ''allowed''"
| "scope_policy_reason_value SpDenied = ''scope_policy_denied''"
| "scope_policy_reason_value SpProviderMismatch = ''scope_policy_provider_mismatch''"

definition scope_policy_version :: string where
  "scope_policy_version = ''wiii_connect_scope_policy.v1''"

definition policy_safe_slug :: "string \<Rightarrow> string" where
  "policy_safe_slug value =
     (let t = take 120 (dash_to_underscore (py_lower (py_strip value)))
      in if t = [] then ''unknown'' else t)"

record scope_policy =
  sp_provider_slug :: string
  sp_allowed_scopes :: scope_grant
  sp_source :: string
  sp_warnings :: "string list"

definition scope_policy_metadata :: "scope_policy \<Rightarrow> pyval" where
  "scope_policy_metadata p = PDict
     [(''version'', PStr scope_policy_version),
      (''provider_slug'', PStr (policy_safe_slug (sp_provider_slug p))),
      (''allowed_scopes'', PList (map (\<lambda>s. PStr (scope_value s)) (enabled_scopes (sp_allowed_scopes p)))),
      (''source'', PStr (policy_safe_slug (sp_source p))),
      (''warnings'', PList (map (\<lambda>w. PStr (policy_safe_slug w)) (sp_warnings p)))]"

record scope_decision =
  sc_allowed :: bool
  sc_reason :: scope_policy_reason
  sc_provider_slug :: string
  sc_required_scopes :: "scope_name list"
  sc_allowed_scopes :: "scope_name list"

definition scope_decision_metadata :: "scope_decision \<Rightarrow> pyval" where
  "scope_decision_metadata d = PDict
     [(''version'', PStr scope_policy_version),
      (''status'', PStr (if sc_allowed d then ''allowed'' else ''blocked'')),
      (''reason'', PStr (scope_policy_reason_value (sc_reason d))),
      (''provider_slug'', PStr (policy_safe_slug (sc_provider_slug d))),
      (''required_scopes'', PList (map (\<lambda>s. PStr (scope_value s)) (sc_required_scopes d))),
      (''allowed_scopes'', PList (map (\<lambda>s. PStr (scope_value s)) (sc_allowed_scopes d)))]"

definition scope_policy_for_entry :: "provider_entry \<Rightarrow> scope_policy" where
  "scope_policy_for_entry entry =
     \<lparr>sp_provider_slug = pe_slug entry, sp_allowed_scopes = pe_default_scopes entry,
      sp_source = ''provider_registry_default_scopes'', sp_warnings = []\<rparr>"

definition decide_scope_policy :: "scope_policy \<Rightarrow> execution_request \<Rightarrow> scope_decision" where
  "decide_scope_policy policy request =
     (let required_scope = required_scope_for_mutation (xr_mutation request);
          decision = (\<lambda>allowed reason.
            \<lparr>sc_allowed = allowed, sc_reason = reason, sc_provider_slug = xr_provider_slug request,
             sc_required_scopes = [required_scope],
             sc_allowed_scopes = enabled_scopes (sp_allowed_scopes policy)\<rparr>)
      in if policy_safe_slug (sp_provider_slug policy) \<noteq> policy_safe_slug (xr_provider_slug request)
         then decision False SpProviderMismatch
         else if \<not> allows (sp_allowed_scopes policy) required_scope then decision False SpDenied
         else decision True SpAllowed)"

section \<open>The execution gateway\<close>

record gateway_decision =
  gd_decision :: execution_decision
  gd_adapter :: adapter_capability
  gd_connection_present :: bool
  gd_audit_persistent :: bool
  gd_scope_policy :: "scope_decision option"
  gd_required_next :: "string list"
  gd_metadata :: "(string, pyval) dict"

definition gd_allowed :: "gateway_decision \<Rightarrow> bool" where
  "gd_allowed d \<longleftrightarrow> xd_allowed (gd_decision d)"

definition gateway_version :: string where
  "gateway_version = ''wiii_connect_execution_gateway.v1''"

text \<open>\<open>_safe_metadata\<close>: dictionaries lose every key with a sensitive marker, at every depth.\<close>

fun gateway_safe_metadata :: "pyval \<Rightarrow> pyval" where
  "gateway_safe_metadata (PDict items) =
     PDict (fold (\<lambda>(key, clean) result.
         if has_control_marker (py_lower key)
         then dict_set ''redacted_sensitive_field'' (PStr ''[redacted]'') result
         else dict_set key clean result)
       (map (\<lambda>(key, raw). (key, gateway_safe_metadata raw)) items) [])"
| "gateway_safe_metadata (PList items) = PList (map gateway_safe_metadata items)"
| "gateway_safe_metadata v = v"

definition gateway_decision_metadata :: "gateway_decision \<Rightarrow> pyval" where
  "gateway_decision_metadata d = PDict
     [(''version'', PStr gateway_version),
      (''adapter_version'', PStr provider_adapter_version),
      (''policy_version'', PStr adapter_version),
      (''status'', PStr (if gd_allowed d then ''allowed'' else ''blocked'')),
      (''reason'', PStr (deny_reason_value (xd_reason (gd_decision d)))),
      (''connection_present'', PBool (gd_connection_present d)),
      (''audit_persistent'', PBool (gd_audit_persistent d)),
      (''scope_policy_version'', PStr scope_policy_version),
      (''scope_policy'', (case gd_scope_policy d of None \<Rightarrow> PNone | Some s \<Rightarrow> scope_decision_metadata s)),
      (''decision'', execution_decision_metadata (gd_decision d)),
      (''adapter'', adapter_capability_metadata (gd_adapter d)),
      (''required_next'', PList (map PStr (gd_required_next d))),
      (''metadata'', gateway_safe_metadata (PDict (gd_metadata d)))]"

definition gateway_deny ::
  "provider_entry \<Rightarrow> execution_request \<Rightarrow> deny_reason \<Rightarrow> scope_name list \<Rightarrow> execution_decision" where
  "gateway_deny entry request reason scopes =
     \<lparr>xd_outcome = OutcomeDenied, xd_reason = reason, xd_provider_slug = pe_slug entry,
      xd_action_slug = xr_action_slug request, xd_path = xr_path request,
      xd_required_scopes = scopes,
      xd_audit_tags =
        [''provider:'' @ provider_kind_value (pe_provider_kind entry),
         ''auth:'' @ auth_mode_value (pe_auth_mode entry),
         ''deny:'' @ deny_reason_value reason]\<rparr>"

definition gateway_steps :: "(deny_reason \<times> string list) list" where
  "gateway_steps =
    [(ProviderDisabled, [''enable_provider_registry_entry'']),
     (ProviderNotAgentReady, [''enable_curated_action_catalog'', ''enable_provider_agent_policy'']),
     (ProviderAdapterMismatch, [''bind_matching_provider_adapter'']),
     (ProviderAdapterNotBound, [''bind_provider_adapter'']),
     (ProviderAdapterNotConfigured, [''configure_provider_adapter'']),
     (ProviderAdapterCannotExecute, [''implement_provider_action_adapter'']),
     (AuditLedgerNotPersistent, [''configure_persistent_audit_ledger'']),
     (ConnectionSelectionRequired, [''select_provider_connection'']),
     (ConnectionMissing, [''connect_provider_account'']),
     (ConnectionProviderMismatch, [''select_matching_connection'']),
     (ConnectionNotConnected, [''refresh_or_reconnect_provider_account'']),
     (PathNotAllowed, [''select_allowed_product_path'']),
     (ActionNotAllowed, [''curate_action_for_provider'']),
     (MissingScope, [''grant_required_scope'']),
     (ScopePolicyDenied, [''grant_required_scope_policy'']),
     (MissingPreviewEvidence, [''create_preview_evidence'']),
     (MissingApprovalToken, [''collect_approval_token''])]"

definition gateway_required_next :: "deny_reason \<Rightarrow> string list" where
  "gateway_required_next reason =
     (if reason = Allowed then []
      else case dict_get gateway_steps reason of
        Some steps \<Rightarrow> steps | None \<Rightarrow> [''inspect_execution_policy''])"

definition metadata_for_request ::
  "execution_request \<Rightarrow> scope_decision option \<Rightarrow> (string, pyval) dict" where
  "metadata_for_request request scope =
     (''request'', PDict (request_audit_metadata request))
       # (case scope of None \<Rightarrow> [] | Some s \<Rightarrow> [(''scope_policy'', scope_decision_metadata s)])"

record gateway_options =
  go_adapter :: "adapter_capability option"
  go_audit_metadata :: "(string, pyval) dict option"
  go_require_persistent_audit :: bool
  go_selection_required :: bool
  go_scope_policy :: "scope_policy option"

definition gateway_outcome ::
  "provider_entry \<Rightarrow> connection_record option \<Rightarrow> execution_request \<Rightarrow> gateway_options
   \<Rightarrow> adapter_capability \<Rightarrow> bool \<Rightarrow> scope_decision option \<Rightarrow> execution_decision" where
  "gateway_outcome entry connection request opts adapter audit_persistent scope =
     (let base = (if go_selection_required opts
                  then gateway_deny entry request ConnectionSelectionRequired []
                  else decide_external_execution entry connection request);
          scope_blocks = (case scope of None \<Rightarrow> False | Some s \<Rightarrow> \<not> sc_allowed s)
      in if \<not> xd_allowed base then base
         else if scope_blocks
         then gateway_deny entry request ScopePolicyDenied (sc_required_scopes (the scope))
         else if ac_provider_kind adapter \<noteq> pe_provider_kind entry
         then gateway_deny entry request ProviderAdapterMismatch []
         else if \<not> ac_bound adapter then gateway_deny entry request ProviderAdapterNotBound []
         else if \<not> ac_configured adapter then gateway_deny entry request ProviderAdapterNotConfigured []
         else if \<not> ac_can_execute_actions adapter
         then gateway_deny entry request ProviderAdapterCannotExecute []
         else if go_require_persistent_audit opts \<and> \<not> audit_persistent
         then gateway_deny entry request AuditLedgerNotPersistent []
         else base)"

definition decide_execution_gateway ::
  "provider_entry \<Rightarrow> connection_record option \<Rightarrow> execution_request \<Rightarrow> gateway_options
   \<Rightarrow> gateway_decision" where
  "decide_execution_gateway entry connection request opts =
     (let adapter = (case go_adapter opts of
            Some a \<Rightarrow> a | None \<Rightarrow> default_adapter_capability (pe_provider_kind entry));
          audit_persistent = ledger_persistent (case go_audit_metadata opts of None \<Rightarrow> [] | Some m \<Rightarrow> m);
          scope = map_option (\<lambda>p. decide_scope_policy p request) (go_scope_policy opts);
          decision = gateway_outcome entry connection request opts adapter audit_persistent scope
      in \<lparr>gd_decision = decision, gd_adapter = adapter, gd_connection_present = (connection \<noteq> None),
          gd_audit_persistent = audit_persistent, gd_scope_policy = scope,
          gd_required_next = gateway_required_next (xd_reason decision),
          gd_metadata = metadata_for_request request scope\<rparr>)"

section \<open>Authorization of mutations\<close>

datatype authorization_status = AuthNotRequired | AuthVerified | AuthRequired

fun authorization_status_value :: "authorization_status \<Rightarrow> string" where
  "authorization_status_value AuthNotRequired = ''not_required''"
| "authorization_status_value AuthVerified = ''verified''"
| "authorization_status_value AuthRequired = ''required''"

text \<open>Each status has one reason.\<close>

fun authorization_status_reason :: "authorization_status \<Rightarrow> string" where
  "authorization_status_reason AuthNotRequired = ''non_mutating_action''"
| "authorization_status_reason AuthVerified = ''verified_backend_authorization''"
| "authorization_status_reason AuthRequired = ''backend_verified_authorization_required''"

record action_authorization =
  az_status :: authorization_status
  az_mutation :: action_mutation
  az_trusted_preview_evidence_id :: "string option"
  az_trusted_approval_token_present :: bool
  az_caller_preview_evidence_present :: bool
  az_caller_approval_token_present :: bool
  az_caller_authorization_ignored :: bool

definition authorization_version :: string where
  "authorization_version = ''wiii_connect_action_authorization.v1''"

definition action_authorization_metadata :: "action_authorization \<Rightarrow> pyval" where
  "action_authorization_metadata a = PDict
     [(''version'', PStr authorization_version),
      (''status'', PStr (authorization_status_value (az_status a))),
      (''reason'', PStr (authorization_status_reason (az_status a))),
      (''mutation'', PStr (mutation_value (az_mutation a))),
      (''trusted_preview_evidence_present'', PBool (str_or_empty (az_trusted_preview_evidence_id a) \<noteq> [])),
      (''trusted_approval_present'', PBool (az_trusted_approval_token_present a)),
      (''caller_preview_evidence_present'', PBool (az_caller_preview_evidence_present a)),
      (''caller_approval_present'', PBool (az_caller_approval_token_present a)),
      (''caller_claim_ignored'', PBool (az_caller_authorization_ignored a))]"

definition mutating_actions :: "action_mutation list" where
  "mutating_actions = [MWrite, MApply, MAdmin]"

definition safe_mutation :: "string \<Rightarrow> action_mutation" where
  "safe_mutation value =
     (let mutation = py_lower (py_strip value) in
      case find (\<lambda>m. mutation_value m = mutation) [MRead, MPreview, MWrite, MApply, MAdmin] of
        Some m \<Rightarrow> m | None \<Rightarrow> MRead)"

definition authorization_safe_id :: "string option \<Rightarrow> string option" where
  "authorization_safe_id value =
     (let t = py_strip (str_or_empty value) in
      if t = [] then None
      else if list_ex (\<lambda>marker. contains marker (py_lower t)) [''token'', ''secret'', ''password'']
      then None else Some (take 160 t))"

definition resolve_action_authorization ::
  "string \<Rightarrow> string option \<Rightarrow> bool \<Rightarrow> bool \<Rightarrow> action_authorization" where
  "resolve_action_authorization mutation preview_evidence_id approval_token_present verified =
     (let m = safe_mutation mutation;
          preview = (authorization_safe_id preview_evidence_id \<noteq> None);
          authorization = (\<lambda>status evidence approval ignored.
            \<lparr>az_status = status, az_mutation = m, az_trusted_preview_evidence_id = evidence,
             az_trusted_approval_token_present = approval,
             az_caller_preview_evidence_present = preview,
             az_caller_approval_token_present = approval_token_present,
             az_caller_authorization_ignored = ignored\<rparr>)
      in if m \<notin> set mutating_actions then authorization AuthNotRequired None False False
         else if verified
         then authorization AuthVerified (authorization_safe_id preview_evidence_id)
           approval_token_present False
         else authorization AuthRequired None False (preview \<or> approval_token_present))"

section \<open>Facts\<close>

lemma gateway_deny_not_allowed [simp]:
  "\<not> xd_allowed (gateway_deny e r reason scopes)" "xd_reason (gateway_deny e r reason scopes) = reason"
  by (simp_all add: gateway_deny_def xd_allowed_def)

lemma scope_policy_allows_iff:
  "sc_allowed (decide_scope_policy p r) \<longleftrightarrow>
     policy_safe_slug (sp_provider_slug p) = policy_safe_slug (xr_provider_slug r) \<and>
     allows (sp_allowed_scopes p) (required_scope_for_mutation (xr_mutation r))"
  by (simp add: decide_scope_policy_def Let_def)

lemma gateway_outcome_allowed_iff:
  "xd_allowed (gateway_outcome e conn r opts a persistent scope) \<longleftrightarrow>
     \<not> go_selection_required opts \<and> xd_allowed (decide_external_execution e conn r) \<and>
     (\<forall>s. scope = Some s \<longrightarrow> sc_allowed s) \<and> ac_provider_kind a = pe_provider_kind e \<and>
     ac_bound a \<and> ac_configured a \<and> ac_can_execute_actions a \<and>
     (go_require_persistent_audit opts \<longrightarrow> persistent)"
  by (auto simp: gateway_outcome_def Let_def split: option.splits)

lemma gateway_outcome_reason:
  "xd_reason (gateway_outcome e conn r opts a persistent scope) = Allowed \<longleftrightarrow>
     xd_allowed (gateway_outcome e conn r opts a persistent scope)"
  by (auto simp: gateway_outcome_def Let_def decide_reason_allowed_iff split: option.splits)

lemma gateway_steps_complete:
  "reason \<noteq> Allowed \<Longrightarrow> \<exists>steps. dict_get gateway_steps reason = Some steps \<and> steps \<noteq> []
     \<and> ''inspect_execution_policy'' \<notin> set steps"
  by (cases reason) (simp_all add: gateway_steps_def)

lemma gateway_fields:
  "gd_required_next (decide_execution_gateway e conn r opts)
     = gateway_required_next (xd_reason (gd_decision (decide_execution_gateway e conn r opts)))"
  "xd_reason (gd_decision (decide_execution_gateway e conn r opts)) = Allowed
     \<longleftrightarrow> gd_allowed (decide_execution_gateway e conn r opts)"
  unfolding decide_execution_gateway_def Let_def gd_allowed_def by (simp_all add: gateway_outcome_reason)

text \<open>A payload without sensitive keys, as the gateway reads sensitivity.\<close>

fun gateway_clean :: "pyval \<Rightarrow> bool" where
  "gateway_clean (PDict d) = list_all (\<lambda>(k, v). \<not> has_control_marker (py_lower k) \<and> gateway_clean v) d"
| "gateway_clean (PList xs) = list_all gateway_clean xs"
| "gateway_clean _ = True"

lemma gateway_fold_clean:
  "list_all (\<lambda>(k, v). gateway_clean v) es \<Longrightarrow> gateway_clean (PDict d) \<Longrightarrow>
   gateway_clean (PDict (fold (\<lambda>(key, clean) result.
      if has_control_marker (py_lower key)
      then dict_set ''redacted_sensitive_field'' (PStr ''[redacted]'') result
      else dict_set key clean result) es d))"
proof (induction es arbitrary: d)
  case (Cons e es)
  obtain k v where e: "e = (k, v)" by (cases e)
  have "\<not> has_control_marker (py_lower ''redacted_sensitive_field'')" by code_simp
  then have "gateway_clean (PDict (if has_control_marker (py_lower k)
      then dict_set ''redacted_sensitive_field'' (PStr ''[redacted]'') d else dict_set k v d))"
    using Cons.prems by (auto simp: e list_all_iff dest!: set_dict_set)
  with Cons e show ?case by simp
qed simp

lemma gateway_sanitized_clean: "gateway_clean (gateway_safe_metadata v)"
proof (induction v rule: gateway_safe_metadata.induct)
  case (1 items)
  show ?case unfolding gateway_safe_metadata.simps
    by (rule gateway_fold_clean) (use 1 in \<open>auto simp: list_all_iff\<close>)
qed (auto simp: list_all_iff)

lemma gateway_allowed_fact:
  "gd_allowed (decide_execution_gateway e conn r opts) =
     (\<not> go_selection_required opts \<and>
      xd_allowed (decide_external_execution e conn r) \<and>
      (case go_scope_policy opts of
         None \<Rightarrow> True
       | Some p \<Rightarrow> policy_safe_slug (sp_provider_slug p) = policy_safe_slug (xr_provider_slug r) \<and>
           allows (sp_allowed_scopes p) (required_scope_for_mutation (xr_mutation r))) \<and>
      (case go_adapter opts of
         None \<Rightarrow> False
       | Some a \<Rightarrow> ac_provider_kind a = pe_provider_kind e \<and> ac_bound a \<and> ac_configured a \<and>
           ac_can_execute_actions a) \<and>
      (if go_require_persistent_audit opts
       then ledger_persistent (case go_audit_metadata opts of None \<Rightarrow> [] | Some m \<Rightarrow> m) else True))"
  unfolding gd_allowed_def decide_execution_gateway_def Let_def
  by (auto simp: gateway_outcome_allowed_iff scope_policy_allows_iff split: option.splits)

section \<open>Properties\<close>

text \<open>C35: The gateway lets an action run exactly when no account choice is open, the adapter-level policy
  allows it, the product scope policy (if any) allows it, the adapter is of the provider's kind,
  bound, configured and able to execute, and the audit ledger persists when it must.\<close>

theorem gateway_allowed_iff:
  "gd_allowed (decide_execution_gateway e conn r opts) =
     (\<not> go_selection_required opts \<and>
      xd_allowed (decide_external_execution e conn r) \<and>
      (case go_scope_policy opts of
         None \<Rightarrow> True
       | Some p \<Rightarrow> policy_safe_slug (sp_provider_slug p) = policy_safe_slug (xr_provider_slug r) \<and>
           allows (sp_allowed_scopes p) (required_scope_for_mutation (xr_mutation r))) \<and>
      (case go_adapter opts of
         None \<Rightarrow> False
       | Some a \<Rightarrow> ac_provider_kind a = pe_provider_kind e \<and> ac_bound a \<and> ac_configured a \<and>
           ac_can_execute_actions a) \<and>
      (if go_require_persistent_audit opts
       then ledger_persistent (case go_audit_metadata opts of None \<Rightarrow> [] | Some m \<Rightarrow> m) else True))"
  by (rule gateway_allowed_fact)

text \<open>Every denial of the gateway names a specific next step: the steps are empty exactly for an
  allowed action, and the catch-all \<open>inspect_execution_policy\<close> of the code is never reached.\<close>

theorem gateway_denials_are_actionable:
  "(gd_required_next (decide_execution_gateway e conn r opts) = []) =
     gd_allowed (decide_execution_gateway e conn r opts)
   \<and> ''inspect_execution_policy'' \<notin> set (gd_required_next (decide_execution_gateway e conn r opts))"
proof -
  let ?d = "decide_execution_gateway e conn r opts"
  show ?thesis
  proof (cases "xd_reason (gd_decision ?d) = Allowed")
    case True
    then show ?thesis using gateway_fields(2) [of e conn r opts]
      by (simp add: gateway_fields(1) gateway_required_next_def)
  next
    case False
    with gateway_steps_complete obtain steps where
      "dict_get gateway_steps (xd_reason (gd_decision ?d)) = Some steps" "steps \<noteq> []"
      "''inspect_execution_policy'' \<notin> set steps" by blast
    with False show ?thesis using gateway_fields(2) [of e conn r opts]
      by (simp add: gateway_fields(1) gateway_required_next_def)
  qed
qed

text \<open>The metadata a gateway decision publishes has no key with a sensitive marker at any depth; the
  rule also hits the audit field \<open>argument_keys\<close> of the request, whose name contains \<open>key\<close>: the
  sanitised request never shows it.\<close>

theorem gateway_metadata_redacts_by_name:
  "gateway_clean (gateway_safe_metadata (PDict (gd_metadata (decide_execution_gateway e conn r opts))))
   \<and> has_control_marker ''argument_keys'' \<and> dict_get (request_audit_metadata r) ''argument_keys'' \<noteq> None"
proof (intro conjI)
  show "has_control_marker ''argument_keys''" by code_simp
  show "dict_get (request_audit_metadata r) ''argument_keys'' \<noteq> None"
    by (simp add: request_audit_metadata_def Let_def)
qed (rule gateway_sanitized_clean)

text \<open>Claims of the caller never authorize a mutation: without the backend's own verification the
  resolved authorization trusts neither the preview nor the approval, a mutating action is required
  to be authorized, and it is verified exactly when it mutates and the backend verified it.\<close>

theorem caller_claims_never_authorize:
  "(az_status (resolve_action_authorization m preview approval verified) = AuthVerified) =
     (safe_mutation m \<in> set mutating_actions \<and> verified)
   \<and> (az_status (resolve_action_authorization m preview approval False) = AuthRequired) =
     (safe_mutation m \<in> set mutating_actions)
   \<and> az_trusted_preview_evidence_id (resolve_action_authorization m preview approval False) = None
   \<and> \<not> az_trusted_approval_token_present (resolve_action_authorization m preview approval False)"
  by (simp add: resolve_action_authorization_def Let_def)

text \<open>A mutation class the module does not know is resolved as a read, so it needs no authorization.\<close>

theorem unknown_mutation_is_read:
  "az_status (resolve_action_authorization ''delete'' None False False) = AuthNotRequired
   \<and> az_mutation (resolve_action_authorization ''delete'' None False False) = MRead"
  by code_simp

end
