(* ===== verification/Single_Use.thy ===== *)
theory Single_Use
  imports Prelude
begin

text \<open>
  The contract of a credential that may be redeemed once: approval rows, linking codes, sign-in
  links. \<open>step\<close> performs one operation and says whether it was a successful redemption of
  \<open>target\<close>; \<open>live\<close> says that a credential can still be redeemed; \<open>renews\<close> names the operations that may
  bring one (back) to life. Each store interprets the locale on its own operations.
\<close>

fun run_operations :: "('op \<Rightarrow> 's \<Rightarrow> bool \<times> 's) \<Rightarrow> 'op list \<Rightarrow> 's \<Rightarrow> ('op \<times> bool) list \<times> 's" where
  "run_operations step [] s = ([], s)"
| "run_operations step (p # ps) s =
     (let (ok, s') = step p s; (outcomes, s'') = run_operations step ps s' in ((p, ok) # outcomes, s''))"

definition redemptions :: "('op \<Rightarrow> 'k) \<Rightarrow> 'k \<Rightarrow> ('op \<times> bool) list \<Rightarrow> nat" where
  "redemptions target k outcomes = length (filter (\<lambda>(p, ok). ok \<and> target p = k) outcomes)"

lemma redemptions_Nil [simp]: "redemptions target k [] = 0"
  by (simp add: redemptions_def)

lemma redemptions_Cons [simp]:
  "redemptions target k ((p, ok) # outcomes) = (if ok \<and> target p = k then 1 else 0) + redemptions target k outcomes"
  by (simp add: redemptions_def)

lemma run_operations_Cons:
  "fst (run_operations step (p # ps) s) = (p, fst (step p s)) # fst (run_operations step ps (snd (step p s)))"
  "snd (run_operations step (p # ps) s) = snd (run_operations step ps (snd (step p s)))"
  by (simp_all add: split_beta Let_def)

locale single_use =
  fixes step :: "'op \<Rightarrow> 's \<Rightarrow> bool \<times> 's"
    and target :: "'op \<Rightarrow> 'k"
    and live :: "'k \<Rightarrow> 's \<Rightarrow> bool"
    and renews :: "'op \<Rightarrow> 'k \<Rightarrow> bool"
  assumes redeem_live: "fst (step p s) \<Longrightarrow> live (target p) s"
    and redeem_spends: "fst (step p s) \<Longrightarrow> \<not> live (target p) (snd (step p s))"
    and stays_spent: "\<not> live k s \<Longrightarrow> \<not> renews p k \<Longrightarrow> \<not> live k (snd (step p s))"
begin

lemma spent_never_redeemed:
  "\<not> live k s \<Longrightarrow> \<forall>p \<in> set ps. \<not> renews p k \<Longrightarrow>
   redemptions target k (fst (run_operations step ps s)) = 0"
proof (induction ps arbitrary: s)
  case (Cons p ps)
  have "\<not> live k (snd (step p s))" using Cons.prems stays_spent by simp
  moreover have "\<not> (fst (step p s) \<and> target p = k)" using Cons.prems(1) redeem_live by blast
  ultimately show ?case using Cons.IH Cons.prems(2) by (simp add: run_operations_Cons del: run_operations.simps)
qed simp

lemma redeemed_at_most_once:
  "\<forall>p \<in> set ps. \<not> renews p k \<Longrightarrow> redemptions target k (fst (run_operations step ps s)) \<le> 1"
proof (induction ps arbitrary: s)
  case (Cons p ps)
  show ?case
  proof (cases "fst (step p s) \<and> target p = k")
    case True
    then have "\<not> live k (snd (step p s))" using redeem_spends by blast
    then show ?thesis using spent_never_redeemed [of k _ ps] Cons.prems True
      by (simp add: run_operations_Cons del: run_operations.simps)
  next
    case False
    then have "redemptions target k (fst (run_operations step (p # ps) s))
        = redemptions target k (fst (run_operations step ps (snd (step p s))))"
      by (auto simp: run_operations_Cons simp del: run_operations.simps)
    then show ?thesis using Cons by simp
  qed
qed simp

text \<open>Without any assumption on the operations: every redemption needs a renewal of its own, but for the
  credential that was live at the start.\<close>

lemma redemptions_bounded:
  "redemptions target k (fst (run_operations step ps s))
     \<le> (if live k s then 1 else 0) + length (filter (\<lambda>p. renews p k) ps)"
proof (induction ps arbitrary: s)
  case (Cons p ps)
  have rest: "redemptions target k (fst (run_operations step ps (snd (step p s))))
      \<le> (if live k (snd (step p s)) then 1 else 0) + length (filter (\<lambda>p. renews p k) ps)"
    by (rule Cons.IH)
  show ?case
  proof (cases "fst (step p s) \<and> target p = k")
    case True
    then show ?thesis using rest redeem_live [of p s] redeem_spends [of p s]
      by (auto simp: run_operations_Cons simp del: run_operations.simps)
  next
    case False
    then show ?thesis using rest stays_spent [of k s p]
      by (auto simp: run_operations_Cons simp del: run_operations.simps split: if_splits)
  qed
qed simp

end

end
