(* ===== verification/Json_Text.thy ===== *)
theory Json_Text
  imports Prelude
begin

text \<open>
  \<open>json.dumps\<close> of the flat string dictionaries the service hashes (\<open>ensure_ascii\<close>, given separators):
  a quoted string with Python's escapes, and an object whose keys are already in the order
  \<open>sort_keys\<close> puts them in. The encoding determines what was encoded.
\<close>

definition quote_char :: char where "quote_char = char_of (34::nat)"
definition backslash :: char where "backslash = char_of (92::nat)"

definition hex_digit :: "nat \<Rightarrow> char" where
  "hex_digit n = char_of (if n < 10 then 48 + n else 87 + n)"

definition json_char :: "char \<Rightarrow> string" where
  "json_char c =
     (if c = quote_char then [backslash, quote_char]
      else if c = backslash then [backslash, backslash]
      else if code c = 10 then [backslash, CHR ''n'']
      else if code c = 13 then [backslash, CHR ''r'']
      else if code c = 9 then [backslash, CHR ''t'']
      else if code c = 12 then [backslash, CHR ''f'']
      else if code c = 8 then [backslash, CHR ''b'']
      else if code c < 32 \<or> 128 \<le> code c
      then [backslash, CHR ''u'', CHR ''0'', CHR ''0'', hex_digit (code c div 16), hex_digit (code c mod 16)]
      else [c])"

definition json_string :: "string \<Rightarrow> string" where
  "json_string s = quote_char # concat (map json_char s) @ [quote_char]"

definition json_members :: "(string \<times> string) list \<Rightarrow> string" where
  "json_members kvs = py_join '','' (map (\<lambda>(k, v). json_string k @ '':'' @ json_string v) kvs)"

definition json_object :: "(string \<times> string) list \<Rightarrow> string" where
  "json_object kvs = CHR ''{'' # json_members kvs @ ''}''"

section \<open>The encoding is injective\<close>

text \<open>A reader of one encoded character: it inverts the encoder, whatever follows.\<close>

definition unhex :: "char \<Rightarrow> nat" where
  "unhex h = (if code h < 58 then code h - 48 else code h - 87)"

fun json_read :: "string \<Rightarrow> char \<times> string" where
  "json_read [] = (backslash, [])"
| "json_read [c] = (c, [])"
| "json_read (c # e # r) =
     (if c \<noteq> backslash then (c, e # r)
      else if code e = 110 then (char_of (10::nat), r)
      else if code e = 114 then (char_of (13::nat), r)
      else if code e = 116 then (char_of (9::nat), r)
      else if code e = 102 then (char_of (12::nat), r)
      else if code e = 98 then (char_of (8::nat), r)
      else if code e = 117 then (char_of (16 * unhex (r ! 2) + unhex (r ! 3)), drop 4 r)
      else (e, r))"

lemma unhex_hex_digit: "n < 16 \<Longrightarrow> unhex (hex_digit n) = n"
  by (simp add: unhex_def hex_digit_def)

lemma unhex_code: "16 * unhex (hex_digit (code c div 16)) + unhex (hex_digit (code c mod 16)) = code c"
  by (simp add: unhex_hex_digit less_mult_imp_div_less)

lemma mark_codes [simp]:
  "code (CHR ''n'') = 110" "code (CHR ''r'') = 114" "code (CHR ''t'') = 116" "code (CHR ''f'') = 102"
  "code (CHR ''b'') = 98" "code (CHR ''u'') = 117" "code quote_char = 34" "code backslash = 92"
  by (simp_all add: code_def quote_char_def backslash_def)

lemma code_eqD: "code c = n \<Longrightarrow> char_of n = c"
  by (metis char_of_code)

lemma json_read_plain: "c \<noteq> backslash \<Longrightarrow> json_read (c # x) = (c, x)"
  by (cases x) simp_all

lemma json_read_char: "json_read (json_char c @ x) = (c, x)"
proof (cases "c = quote_char \<or> c = backslash")
  case True
  then show ?thesis by (auto simp: json_char_def)
next
  case plain: False
  show ?thesis
  proof (cases "code c \<in> {10, 13, 9, 12, 8}")
    case True
    with plain show ?thesis by (auto simp: json_char_def intro: code_eqD)
  next
    case False
    with plain show ?thesis
      by (auto simp: json_char_def json_read_plain unhex_code numeral_2_eq_2 numeral_3_eq_3)
  qed
qed

lemma json_char_cancel: "json_char c @ x = json_char d @ y \<Longrightarrow> c = d \<and> x = y"
  by (metis json_read_char Pair_inject)

lemma json_char_not_quote [simp]:
  "json_char c \<noteq> quote_char # x" "quote_char # x \<noteq> json_char c" "json_char c \<noteq> []"
  by (auto simp: json_char_def dest: arg_cong [of _ _ code])

lemma json_chars_cancel:
  "concat (map json_char s) @ quote_char # x = concat (map json_char t) @ quote_char # y \<Longrightarrow>
   s = t \<and> x = y"
proof (induction s arbitrary: t)
  case Nil
  then show ?case
    by (cases t) (auto simp: Cons_eq_append_conv)
next
  case (Cons c s)
  show ?case
  proof (cases t)
    case Nil
    with Cons.prems show ?thesis by (auto simp: append_eq_Cons_conv)
  next
    case (Cons d t')
    with Cons.prems have "c = d \<and> concat (map json_char s) @ quote_char # x
        = concat (map json_char t') @ quote_char # y"
      by (intro json_char_cancel) simp
    with Cons Cons.IH [of t'] show ?thesis by simp
  qed
qed

lemma json_string_cancel: "json_string s @ x = json_string t @ y \<Longrightarrow> s = t \<and> x = y"
  by (rule json_chars_cancel) (simp add: json_string_def)

text \<open>Objects with the same keys are equal when their texts are.\<close>

lemma json_members_inject:
  "map fst kvs = map fst lvs \<Longrightarrow> json_members kvs @ x = json_members lvs @ x \<Longrightarrow> kvs = lvs"
proof (induction kvs arbitrary: lvs)
  case (Cons kv kvs)
  obtain k v where kv: "kv = (k, v)" by (cases kv)
  from Cons.prems(1) kv obtain w lvs' where lvs: "lvs = (k, w) # lvs'" "map fst kvs = map fst lvs'" by auto
  show ?case
  proof (cases kvs)
    case Nil
    with lvs Cons.prems(2) kv show ?thesis
      by (auto simp: json_members_def dest: json_string_cancel [where x = "[]" and y = "[]", simplified])
  next
    case (Cons kv' kvs')
    with lvs obtain kw lvs'' where l: "lvs' = kw # lvs''" by (cases lvs') auto
    have "json_string v @ '','' @ json_members kvs @ x = json_string w @ '','' @ json_members lvs' @ x"
      using Cons.prems(2) by (simp add: kv lvs l Cons json_members_def)
    from json_string_cancel [OF this] have "v = w" "json_members kvs @ x = json_members lvs' @ x"
      by simp_all
    with Cons.IH [of lvs'] lvs kv show ?thesis by simp
  qed
qed simp

lemma json_object_inject:
  "map fst kvs = map fst lvs \<Longrightarrow> json_object kvs = json_object lvs \<Longrightarrow> kvs = lvs"
  by (rule json_members_inject [where x = "''}''"]) (simp_all add: json_object_def)

end
