(* ===== verification/Connect_Approval.thy ===== *)
theory Connect_Approval
  imports Connect_Keys Single_Use Json_Text
begin

text \<open>
  \<open>app/engine/wiii_connect/operation_approval.py\<close> and the operation-approval table of
  \<open>persistent_storage.py\<close>: approval rows, the fingerprint of a previewed operation, recording a
  preview and consuming its approval once. A point in time is an \<open>instant\<close> (microseconds); ISO texts
  of the records are represented by the instants they denote (\<open>None\<close> is the empty text) and rendered
  by the argument \<open>isofmt\<close>. SHA-256 is the argument \<open>sha\<close>. The table is the map from its unique key
  (organisation, user, provider, preview evidence) to its row; the argument \<open>up\<close> says whether the
  database session exists and its statements succeed, since every failure is caught, leaves the
  transaction uncommitted and takes the same branch.
\<close>

type_synonym instant = int

definition second :: instant where
  "second = 1000000"

section \<open>Records\<close>

datatype approval_status = OaPending | OaConsumed | OaExpired | OaUnavailable | OaBlocked

datatype approval_reason =
    PreviewRecorded
  | ApprovalConsumed
  | ApprovalLedgerNotPersistent
  | ApprovalRecordMissing
  | ApprovalRecordExpired
  | ApprovalRecordAlreadyConsumed
  | ApprovalFingerprintMismatch

fun approval_status_value :: "approval_status \<Rightarrow> string" where
  "approval_status_value OaPending = ''pending''"
| "approval_status_value OaConsumed = ''consumed''"
| "approval_status_value OaExpired = ''expired''"
| "approval_status_value OaUnavailable = ''unavailable''"
| "approval_status_value OaBlocked = ''blocked''"

fun approval_reason_value :: "approval_reason \<Rightarrow> string" where
  "approval_reason_value PreviewRecorded = ''preview_recorded''"
| "approval_reason_value ApprovalConsumed = ''approval_consumed''"
| "approval_reason_value ApprovalLedgerNotPersistent = ''approval_ledger_not_persistent''"
| "approval_reason_value ApprovalRecordMissing = ''approval_record_missing''"
| "approval_reason_value ApprovalRecordExpired = ''approval_record_expired''"
| "approval_reason_value ApprovalRecordAlreadyConsumed = ''approval_record_already_consumed''"
| "approval_reason_value ApprovalFingerprintMismatch = ''approval_fingerprint_mismatch''"

record approval_record =
  oa_preview_evidence_id :: string
  oa_provider_slug :: string
  oa_action_slug :: string
  oa_request_fingerprint :: string
  oa_status :: approval_status
  oa_reason :: approval_reason
  oa_issued_at :: "instant option"
  oa_expires_at :: "instant option"
  oa_consumed_at :: "instant option"
  oa_metadata :: "(string, pyval) dict"

record approval_decision =
  od_status :: approval_status
  od_reason :: approval_reason
  od_provider_slug :: string
  od_action_slug :: string
  od_preview_evidence_id_present :: bool
  od_request_fingerprint_present :: bool
  od_persistent :: bool
  od_consumed :: bool
  od_blocked :: bool
  od_metadata :: "(string, pyval) dict"

definition approval_version :: string where
  "approval_version = ''wiii_connect_operation_approval.v1''"

definition approval_allowed_keys :: "string list" where
  "approval_allowed_keys =
    [''selected_connection_present'', ''page_selected'', ''message_length'', ''image_present'',
     ''image_size_bytes'', ''image_url_present'']"

fun is_scalar :: "pyval \<Rightarrow> bool" where
  "is_scalar PNone = True"
| "is_scalar (PBool _) = True"
| "is_scalar (PInt _) = True"
| "is_scalar (PFloat _) = True"
| "is_scalar (PStr _) = True"
| "is_scalar _ = False"

definition approval_safe_metadata :: "(string, pyval) dict \<Rightarrow> (string, pyval) dict" where
  "approval_safe_metadata m = filter (\<lambda>(k, v). k \<in> set approval_allowed_keys \<and> is_scalar v) m"

definition iso_text :: "(instant \<Rightarrow> string) \<Rightarrow> instant option \<Rightarrow> string" where
  "iso_text isofmt t = (case t of None \<Rightarrow> [] | Some i \<Rightarrow> isofmt i)"

definition approval_record_metadata :: "(instant \<Rightarrow> string) \<Rightarrow> approval_record \<Rightarrow> pyval" where
  "approval_record_metadata isofmt r = PDict
     [(''version'', PStr approval_version),
      (''status'', PStr (approval_status_value (oa_status r))),
      (''reason'', PStr (approval_reason_value (oa_reason r))),
      (''provider_slug'', PStr (policy_provider_slug (oa_provider_slug r))),
      (''action_slug'', PStr (policy_action_slug (oa_action_slug r))),
      (''preview_evidence_id_present'', PBool (oa_preview_evidence_id r \<noteq> [])),
      (''request_fingerprint_present'', PBool (oa_request_fingerprint r \<noteq> [])),
      (''issued_at'', PStr (iso_text isofmt (oa_issued_at r))),
      (''expires_at'', PStr (iso_text isofmt (oa_expires_at r))),
      (''consumed_at_present'', PBool (oa_consumed_at r \<noteq> None)),
      (''metadata'', PDict (approval_safe_metadata (oa_metadata r)))]"

definition approval_decision_metadata :: "approval_decision \<Rightarrow> pyval" where
  "approval_decision_metadata d = PDict
     [(''version'', PStr approval_version),
      (''status'', PStr (approval_status_value (od_status d))),
      (''reason'', PStr (approval_reason_value (od_reason d))),
      (''provider_slug'', PStr (policy_provider_slug (od_provider_slug d))),
      (''action_slug'', PStr (policy_action_slug (od_action_slug d))),
      (''preview_evidence_id_present'', PBool (od_preview_evidence_id_present d)),
      (''request_fingerprint_present'', PBool (od_request_fingerprint_present d)),
      (''persistent'', PBool (od_persistent d)),
      (''consumed'', PBool (od_consumed d)),
      (''blocked'', PBool (od_blocked d)),
      (''metadata'', PDict (approval_safe_metadata (od_metadata d)))]"

section \<open>Safe identifiers and fingerprints\<close>

definition approval_safe_public_id :: "string \<Rightarrow> string" where
  "approval_safe_public_id v =
     (let t = py_strip v in
      if list_ex (\<lambda>marker. contains marker (py_lower t)) [''token'', ''secret'', ''password''] then []
      else take 180 t)"

definition approval_safe_connection_ref :: "string \<Rightarrow> string" where
  "approval_safe_connection_ref v =
     (let t = approval_safe_public_id v in if py_startswith t ''wcn_'' then t else [])"

definition approval_safe_url :: "string \<Rightarrow> string" where
  "approval_safe_url v = (let t = py_strip v in if py_startswith t ''https://'' then take 2000 t else [])"

definition is_hex_char :: "char \<Rightarrow> bool" where
  "is_hex_char c \<longleftrightarrow> is_digit c \<or> (97 \<le> code c \<and> code c \<le> 102)"

definition safe_fingerprint :: "string \<Rightarrow> string" where
  "safe_fingerprint v =
     (let t = py_lower (py_strip v) in if length t = 64 \<and> list_all is_hex_char t then t else [])"

definition build_operation_approval_record ::
  "instant \<Rightarrow> string \<Rightarrow> string \<Rightarrow> string \<Rightarrow> string \<Rightarrow> int \<Rightarrow> (string, pyval) dict option
   \<Rightarrow> approval_record" where
  "build_operation_approval_record issued provider_slug action_slug preview_evidence_id
     request_fingerprint ttl_seconds metadata =
     \<lparr>oa_preview_evidence_id = approval_safe_public_id preview_evidence_id,
      oa_provider_slug = policy_provider_slug provider_slug,
      oa_action_slug = policy_action_slug action_slug,
      oa_request_fingerprint = safe_fingerprint request_fingerprint,
      oa_status = OaPending, oa_reason = PreviewRecorded,
      oa_issued_at = Some issued, oa_expires_at = Some (issued + max 60 ttl_seconds * second),
      oa_consumed_at = None,
      oa_metadata = (case metadata of None \<Rightarrow> [] | Some m \<Rightarrow> m)\<rparr>"

text \<open>The payload in the key order of \<open>sort_keys\<close>; the page, message and image texts enter as hashes.\<close>

record operation_request =
  or_provider_slug :: string
  or_action_slug :: string
  or_connection_ref :: string
  or_page_id :: string
  or_message :: string
  or_image_sha256 :: string
  or_image_url :: string

definition fingerprint_payload :: "(string \<Rightarrow> string) \<Rightarrow> operation_request \<Rightarrow> (string \<times> string) list"
  where
  "fingerprint_payload sha r =
     [(''action_slug'', policy_action_slug (or_action_slug r)),
      (''connection_ref_hash'', sha (approval_safe_connection_ref (or_connection_ref r))),
      (''image_hash'', safe_fingerprint (or_image_sha256 r)),
      (''image_url_hash'', sha (approval_safe_url (or_image_url r))),
      (''message_hash'', sha (or_message r)),
      (''page_id_hash'', sha (approval_safe_public_id (or_page_id r))),
      (''provider_slug'', policy_provider_slug (or_provider_slug r))]"

definition build_operation_fingerprint :: "(string \<Rightarrow> string) \<Rightarrow> operation_request \<Rightarrow> string" where
  "build_operation_fingerprint sha r = sha (json_object (fingerprint_payload sha r))"

definition unavailable_approval :: "string \<Rightarrow> string \<Rightarrow> string \<Rightarrow> string \<Rightarrow> approval_decision" where
  "unavailable_approval provider_slug action_slug evidence fingerprint =
     \<lparr>od_status = OaUnavailable, od_reason = ApprovalLedgerNotPersistent,
      od_provider_slug = provider_slug, od_action_slug = action_slug,
      od_preview_evidence_id_present = (evidence \<noteq> []),
      od_request_fingerprint_present = (fingerprint \<noteq> []),
      od_persistent = False, od_consumed = False, od_blocked = False, od_metadata = []\<rparr>"

definition consumed_approval :: "string \<Rightarrow> string \<Rightarrow> string \<Rightarrow> string \<Rightarrow> approval_decision" where
  "consumed_approval provider_slug action_slug evidence fingerprint =
     \<lparr>od_status = OaConsumed, od_reason = ApprovalConsumed,
      od_provider_slug = provider_slug, od_action_slug = action_slug,
      od_preview_evidence_id_present = (evidence \<noteq> []),
      od_request_fingerprint_present = (fingerprint \<noteq> []),
      od_persistent = True, od_consumed = True, od_blocked = False, od_metadata = []\<rparr>"

definition blocked_approval ::
  "string \<Rightarrow> string \<Rightarrow> string \<Rightarrow> string \<Rightarrow> approval_reason \<Rightarrow> approval_decision" where
  "blocked_approval provider_slug action_slug evidence fingerprint reason =
     \<lparr>od_status = OaBlocked, od_reason = reason,
      od_provider_slug = provider_slug, od_action_slug = action_slug,
      od_preview_evidence_id_present = (evidence \<noteq> []),
      od_request_fingerprint_present = (fingerprint \<noteq> []),
      od_persistent = True, od_consumed = False, od_blocked = True, od_metadata = []\<rparr>"

section \<open>The approval table\<close>

record approval_row =
  ar_action_slug :: string
  ar_request_fingerprint :: string
  ar_status :: approval_status
  ar_reason :: approval_reason
  ar_metadata :: "(string, pyval) dict"
  ar_issued_at :: instant
  ar_expires_at :: "instant option"
  ar_consumed_at :: "instant option"
  ar_updated_at :: instant

type_synonym approval_key = "string \<times> string \<times> string \<times> string"
type_synonym approval_table = "(approval_key, approval_row) dict"

definition normalize_owner :: "string \<Rightarrow> string \<Rightarrow> (string \<times> string) option" where
  "normalize_owner organization_id user_id =
     (let org = py_strip organization_id; user = py_strip user_id
      in if org = [] \<or> user = [] then None else Some (org, user))"

text \<open>
  \<open>append_operation_approval_record\<close>: an insert that, on a key conflict, rewrites the row to a fresh
  pending one. A missing time is the time of the call.
\<close>

definition append_operation_approval ::
  "bool \<Rightarrow> instant \<Rightarrow> approval_record \<Rightarrow> string \<Rightarrow> string \<Rightarrow> approval_table \<Rightarrow> bool \<times> approval_table"
  where
  "append_operation_approval up now r organization_id user_id table =
     (case normalize_owner organization_id user_id of
        None \<Rightarrow> (False, table)
      | Some (org, user) \<Rightarrow>
          if oa_preview_evidence_id r = [] \<or> \<not> up then (False, table)
          else
            let key = (org, user, oa_provider_slug r, oa_preview_evidence_id r);
                conflict = (dict_get table key \<noteq> None);
                row = \<lparr>ar_action_slug = oa_action_slug r,
                       ar_request_fingerprint = oa_request_fingerprint r,
                       ar_status = (if conflict then OaPending else oa_status r),
                       ar_reason = oa_reason r,
                       ar_metadata = approval_safe_metadata (oa_metadata r),
                       ar_issued_at = (case oa_issued_at r of Some t \<Rightarrow> t | None \<Rightarrow> now),
                       ar_expires_at = Some (case oa_expires_at r of Some t \<Rightarrow> t | None \<Rightarrow> now),
                       ar_consumed_at = (if conflict then None else oa_consumed_at r),
                       ar_updated_at = now\<rparr>
            in (True, dict_set key row table))"

text \<open>
  \<open>consume_operation_approval_record\<close>: select for update, then check status, expiry and fingerprint in
  this order. The final update repeats \<open>status = 'pending'\<close>, which the row lock keeps true.
\<close>

definition consume_operation_approval ::
  "bool \<Rightarrow> instant \<Rightarrow> string \<Rightarrow> string \<Rightarrow> string \<Rightarrow> string \<Rightarrow> string \<Rightarrow> string \<Rightarrow> approval_table
   \<Rightarrow> approval_decision \<times> approval_table" where
  "consume_operation_approval up now preview_evidence_id request_fingerprint organization_id user_id
     provider_slug action_slug table =
     (case normalize_owner organization_id user_id of
        None \<Rightarrow>
          (unavailable_approval provider_slug action_slug preview_evidence_id request_fingerprint, table)
      | Some (org, user) \<Rightarrow>
          let evidence = py_strip preview_evidence_id;
              fingerprint = py_lower (py_strip request_fingerprint);
              blocked = blocked_approval provider_slug action_slug evidence fingerprint
          in if evidence = [] \<or> fingerprint = [] then (blocked ApprovalRecordMissing, table)
          else if \<not> up then (unavailable_approval provider_slug action_slug evidence fingerprint, table)
          else
            let key = (org, user, normalize_provider_slug provider_slug, evidence)
            in case dict_get table key of
                 None \<Rightarrow> (blocked ApprovalRecordMissing, table)
               | Some row \<Rightarrow>
                   if ar_status row \<noteq> OaPending
                   then (blocked (if ar_status row = OaExpired then ApprovalRecordExpired
                                  else ApprovalRecordAlreadyConsumed), table)
                   else if (case ar_expires_at row of Some t \<Rightarrow> t < now | None \<Rightarrow> False)
                   then (blocked ApprovalRecordExpired,
                         dict_set key (row\<lparr>ar_status := OaExpired, ar_reason := ApprovalRecordExpired,
                           ar_updated_at := now\<rparr>) table)
                   else if py_lower (py_strip (ar_request_fingerprint row)) \<noteq> fingerprint
                   then (blocked ApprovalFingerprintMismatch, table)
                   else (consumed_approval provider_slug action_slug evidence fingerprint,
                         dict_set key (row\<lparr>ar_status := OaConsumed, ar_reason := ApprovalConsumed,
                           ar_consumed_at := Some now, ar_updated_at := now\<rparr>) table))"

section \<open>The table as a store of single-use approvals\<close>

datatype approval_op =
    RecordPreview bool instant approval_record string string
  | ConsumeApproval bool instant string string string string string string

fun approval_step :: "approval_op \<Rightarrow> approval_table \<Rightarrow> bool \<times> approval_table" where
  "approval_step (RecordPreview up now r org user) t = (False, snd (append_operation_approval up now r org user t))"
| "approval_step (ConsumeApproval up now ev fp org user provider action) t =
     (let (d, t') = consume_operation_approval up now ev fp org user provider action t
      in (od_consumed d, t'))"

definition approval_key_of :: "string \<Rightarrow> string \<Rightarrow> string \<Rightarrow> string \<Rightarrow> approval_key option" where
  "approval_key_of org user provider evidence =
     (case normalize_owner org user of None \<Rightarrow> None | Some (o', u') \<Rightarrow> Some (o', u', provider, evidence))"

fun approval_target :: "approval_op \<Rightarrow> approval_key option" where
  "approval_target (RecordPreview up now r org user) =
     approval_key_of org user (oa_provider_slug r) (oa_preview_evidence_id r)"
| "approval_target (ConsumeApproval up now ev fp org user provider action) =
     approval_key_of org user (normalize_provider_slug provider) (py_strip ev)"

fun approval_renews :: "approval_op \<Rightarrow> approval_key option \<Rightarrow> bool" where
  "approval_renews (RecordPreview up now r org user) k \<longleftrightarrow>
     k = approval_key_of org user (oa_provider_slug r) (oa_preview_evidence_id r)"
| "approval_renews (ConsumeApproval up now ev fp org user provider action) k \<longleftrightarrow> False"

definition approval_live :: "approval_key option \<Rightarrow> approval_table \<Rightarrow> bool" where
  "approval_live k t \<longleftrightarrow>
     (case k of None \<Rightarrow> False
      | Some key \<Rightarrow> (case dict_get t key of None \<Rightarrow> False | Some row \<Rightarrow> ar_status row = OaPending))"

section \<open>Facts\<close>

lemma approval_outcomes [simp]:
  "\<not> od_consumed (blocked_approval p a e f reason)" "\<not> od_consumed (unavailable_approval p a e f)"
  "od_consumed (consumed_approval p a e f)"
  by (simp_all add: blocked_approval_def unavailable_approval_def consumed_approval_def)

text \<open>What a successful consumption found and what it leaves behind.\<close>

definition approval_matches :: "instant \<Rightarrow> string \<Rightarrow> approval_row \<Rightarrow> bool" where
  "approval_matches now fingerprint row \<longleftrightarrow>
     ar_status row = OaPending \<and> (case ar_expires_at row of Some t \<Rightarrow> now \<le> t | None \<Rightarrow> True) \<and>
     py_lower (py_strip (ar_request_fingerprint row)) = fingerprint"

lemma consume_succeeds_iff:
  "od_consumed (fst (consume_operation_approval up now ev fp org user provider action t)) \<longleftrightarrow>
     up \<and> py_strip ev \<noteq> [] \<and> py_lower (py_strip fp) \<noteq> [] \<and>
     (\<exists>key row. approval_key_of org user (normalize_provider_slug provider) (py_strip ev) = Some key \<and>
        dict_get t key = Some row \<and> approval_matches now (py_lower (py_strip fp)) row)"
  unfolding consume_operation_approval_def approval_key_of_def approval_matches_def Let_def
  by (auto split: option.splits prod.splits)

lemma consume_table_cases:
  obtains (unchanged) "snd (consume_operation_approval up now ev fp org user provider action t) = t"
      "\<not> od_consumed (fst (consume_operation_approval up now ev fp org user provider action t))"
  | (updated) key row where
      "approval_key_of org user (normalize_provider_slug provider) (py_strip ev) = Some key"
      "snd (consume_operation_approval up now ev fp org user provider action t) = dict_set key row t"
      "ar_status row \<in> {OaConsumed, OaExpired}"
proof -
  have "(snd (consume_operation_approval up now ev fp org user provider action t) = t \<and>
      \<not> od_consumed (fst (consume_operation_approval up now ev fp org user provider action t))) \<or>
    (\<exists>key row. approval_key_of org user (normalize_provider_slug provider) (py_strip ev) = Some key \<and>
      snd (consume_operation_approval up now ev fp org user provider action t) = dict_set key row t \<and>
      ar_status row \<in> {OaConsumed, OaExpired})"
    unfolding consume_operation_approval_def approval_key_of_def Let_def
    by (auto split: option.splits prod.splits)
  with that show thesis by blast
qed

lemma append_table_cases:
  obtains "snd (append_operation_approval up now r org user t) = t"
  | key row where "approval_key_of org user (oa_provider_slug r) (oa_preview_evidence_id r) = Some key"
      "snd (append_operation_approval up now r org user t) = dict_set key row t"
proof -
  have "snd (append_operation_approval up now r org user t) = t \<or>
    (\<exists>key row. approval_key_of org user (oa_provider_slug r) (oa_preview_evidence_id r) = Some key \<and>
      snd (append_operation_approval up now r org user t) = dict_set key row t)"
    unfolding append_operation_approval_def approval_key_of_def Let_def
    by (simp split: option.splits prod.splits) blast
  with that show thesis by blast
qed

lemma approval_live_set:
  "approval_live k (dict_set key row t) \<longleftrightarrow>
     (if k = Some key then ar_status row = OaPending else approval_live k t)"
  by (auto simp: approval_live_def split: option.splits)

interpretation approvals: single_use approval_step approval_target approval_live approval_renews
proof
  fix p s
  assume "fst (approval_step p s)"
  then show "approval_live (approval_target p) s"
    by (cases p) (auto simp: split_beta Let_def consume_succeeds_iff approval_live_def approval_matches_def)
next
  fix p s
  assume ok: "fst (approval_step p s)"
  then show "\<not> approval_live (approval_target p) (snd (approval_step p s))"
  proof (cases p)
    case (ConsumeApproval up now ev fp org user provider action)
    with ok show ?thesis
      by (cases rule: consume_table_cases [of up now ev fp org user provider action s])
         (auto simp: split_beta Let_def approval_live_set)
  qed simp
next
  fix k s p
  assume "\<not> approval_live k s" "\<not> approval_renews p k"
  then show "\<not> approval_live k (snd (approval_step p s))"
  proof (cases p)
    case (RecordPreview up now r org user)
    with \<open>\<not> approval_live k s\<close> \<open>\<not> approval_renews p k\<close> show ?thesis
      by (cases rule: append_table_cases [of up now r org user s]) (auto simp: approval_live_set)
  next
    case (ConsumeApproval up now ev fp org user provider action)
    with \<open>\<not> approval_live k s\<close> show ?thesis
      by (cases rule: consume_table_cases [of up now ev fp org user provider action s])
         (auto simp: split_beta Let_def approval_live_set)
  qed
qed

section \<open>Canonical identifiers\<close>

lemma canonical_evidence: "approval_safe_public_id v = v \<Longrightarrow> py_strip v = v"
proof -
  assume v: "approval_safe_public_id v = v"
  show "py_strip v = v"
  proof (cases "v = []")
    case False
    with v have t: "take 180 (py_strip v) = v"
      by (auto simp: approval_safe_public_id_def Let_def split: if_splits)
    then have "length v \<le> 180" by (metis length_take min.cobounded2 min.commute)
    then show ?thesis using t length_py_strip [of v] by simp
  qed (simp add: py_strip_def)
qed

lemma canonical_fingerprint: "safe_fingerprint v = v \<Longrightarrow> py_lower (py_strip v) = v"
  by (cases "v = []") (auto simp: safe_fingerprint_def Let_def py_strip_def py_lower_def split: if_splits)

lemma canonical_provider: "policy_provider_slug v = v \<Longrightarrow> normalize_provider_slug v = v"
proof -
  assume v: "policy_provider_slug v = v"
  define w where "w = dash_to_underscore (py_lower (py_strip v))"
  have t: "take 80 w = v" using v by (simp add: policy_provider_slug_def w_def)
  then have "length v \<le> 80" by (metis length_take min.cobounded2 min.commute)
  moreover have "length w \<le> length v" by (simp add: w_def dash_to_underscore_def length_py_strip)
  ultimately show ?thesis using t by (simp add: normalize_provider_slug_def w_def)
qed

section \<open>Properties\<close>

text \<open>C4: An approval is spent once. In any sequence of preview recordings and consumptions, at any
  times and by any callers, that does not record the same preview again, at most one consumption of
  its key succeeds.\<close>

theorem approval_consumed_at_most_once:
  assumes "\<forall>p \<in> set ps. \<not> approval_renews p k"
  shows "redemptions approval_target k (fst (run_operations approval_step ps t)) \<le> 1"
  by (rule approvals.redeemed_at_most_once [OF assms])

definition sample_fingerprint :: string where
  "sample_fingerprint = replicate 64 (CHR ''a'')"

definition sample_approvals :: approval_table where
  "sample_approvals = snd (append_operation_approval True 0
     (build_operation_approval_record 0 ''facebook'' ''POST'' ''ev1'' sample_fingerprint 600 None)
     ''org'' ''u1'' [])"

definition sample_consume :: approval_op where
  "sample_consume = ConsumeApproval True 5 ''ev1'' sample_fingerprint ''org'' ''u1'' ''Facebook'' ''POST''"

lemma sample_fingerprint_safe: "safe_fingerprint sample_fingerprint = sample_fingerprint"
proof -
  have a: "\<not> is_space (CHR ''a'')" "lower_char (CHR ''a'') = CHR ''a''" "is_hex_char (CHR ''a'')" by code_simp+
  then have "py_strip sample_fingerprint = sample_fingerprint"
    by (intro strip_nonspace) (simp add: sample_fingerprint_def)
  moreover have "py_lower sample_fingerprint = sample_fingerprint"
    by (simp add: py_lower_def sample_fingerprint_def a)
  moreover have "length sample_fingerprint = 64 \<and> list_all is_hex_char sample_fingerprint"
    by (simp add: sample_fingerprint_def list_all_iff a)
  ultimately show ?thesis by (simp add: safe_fingerprint_def)
qed

theorem approval_consumed_at_most_once_witness:
  "redemptions approval_target (Some (''org'', ''u1'', ''facebook'', ''ev1''))
     (fst (run_operations approval_step [sample_consume, sample_consume] sample_approvals)) \<le> 1"
  using approval_consumed_at_most_once [of "[sample_consume, sample_consume]"
      "Some (''org'', ''u1'', ''facebook'', ''ev1'')" sample_approvals]
  by (simp add: sample_consume_def)

text \<open>A consumption succeeds exactly when storage is up, the owner and both identifiers are not blank,
  and the owner's row for the provider and preview is pending, not past its expiry and carries the
  fingerprint of the apply request.\<close>

theorem approval_consumption_iff:
  "od_consumed (fst (consume_operation_approval up now ev fp org user provider action t)) =
     (up \<and> py_strip ev \<noteq> [] \<and> py_lower (py_strip fp) \<noteq> [] \<and>
      (\<exists>key row. approval_key_of org user (normalize_provider_slug provider) (py_strip ev) = Some key \<and>
         dict_get t key = Some row \<and> approval_matches now (py_lower (py_strip fp)) row))"
  by (rule consume_succeeds_iff)

text \<open>A recorded preview can be consumed: with canonical identifiers, the same owner and the same
  fingerprint, any consumption up to the end of the approval's lifetime (at least a minute) succeeds.\<close>

theorem recorded_approval_is_consumable:
  assumes "approval_safe_public_id ev = ev" "ev \<noteq> []" "safe_fingerprint fp = fp" "fp \<noteq> []"
    and "policy_provider_slug provider = provider" "normalize_owner org user \<noteq> None"
    and "dict_get t (the (approval_key_of org user provider ev)) = None"
    and "now \<le> issued + max 60 ttl * second"
  shows "od_consumed (fst (consume_operation_approval True now ev fp org user provider action
           (snd (append_operation_approval True clock
              (build_operation_approval_record issued provider action ev fp ttl metadata) org user t))))"
proof -
  obtain o' u' where owner: "normalize_owner org user = Some (o', u')" using assms(6) by auto
  have "approval_key_of org user provider ev = Some (o', u', provider, ev)"
    by (simp add: approval_key_of_def owner)
  then show ?thesis using assms canonical_evidence canonical_fingerprint canonical_provider
    by (simp add: approval_consumption_iff build_operation_approval_record_def
        append_operation_approval_def owner Let_def approval_matches_def)
qed

theorem recorded_approval_is_consumable_witness:
  "od_consumed (fst (consume_operation_approval True 600000000 ''ev1'' sample_fingerprint ''org'' ''u1''
     ''facebook'' ''POST'' (snd (append_operation_approval True 3
       (build_operation_approval_record 0 ''facebook'' ''POST'' ''ev1'' sample_fingerprint 600 None)
       ''org'' ''u1'' []))))"
proof (rule recorded_approval_is_consumable)
  show "approval_safe_public_id ''ev1'' = ''ev1''" by code_simp
  show "policy_provider_slug ''facebook'' = ''facebook''" by code_simp
  show "normalize_owner ''org'' ''u1'' \<noteq> None" by code_simp
qed (simp_all add: sample_fingerprint_safe second_def, simp_all add: sample_fingerprint_def)

text \<open>The texts whose digests a fingerprint is made of.\<close>

definition hashed_texts :: "(string \<Rightarrow> string) \<Rightarrow> operation_request \<Rightarrow> string set" where
  "hashed_texts sha r =
     {json_object (fingerprint_payload sha r), approval_safe_connection_ref (or_connection_ref r),
      approval_safe_url (or_image_url r), or_message r, approval_safe_public_id (or_page_id r)}"

text \<open>The fingerprint binds the operation: for a digest without collisions on the texts involved,
  two requests with the same fingerprint agree on provider, action, connection, page, message and
  image, up to the normalisation the code applies to each.\<close>

theorem fingerprint_binds_operation:
  assumes "inj_on sha (hashed_texts sha r \<union> hashed_texts sha q)"
    and "build_operation_fingerprint sha r = build_operation_fingerprint sha q"
  shows "or_message r = or_message q \<and>
    policy_provider_slug (or_provider_slug r) = policy_provider_slug (or_provider_slug q) \<and>
    policy_action_slug (or_action_slug r) = policy_action_slug (or_action_slug q) \<and>
    approval_safe_connection_ref (or_connection_ref r) = approval_safe_connection_ref (or_connection_ref q) \<and>
    approval_safe_public_id (or_page_id r) = approval_safe_public_id (or_page_id q) \<and>
    safe_fingerprint (or_image_sha256 r) = safe_fingerprint (or_image_sha256 q) \<and>
    approval_safe_url (or_image_url r) = approval_safe_url (or_image_url q)"
proof -
  have eqD: "x = y" if "sha x = sha y" "x \<in> hashed_texts sha r" "y \<in> hashed_texts sha q" for x y
    using assms(1) that by (auto dest: inj_onD)
  have "json_object (fingerprint_payload sha r) = json_object (fingerprint_payload sha q)"
    by (rule eqD) (use assms(2) in \<open>simp_all add: build_operation_fingerprint_def hashed_texts_def\<close>)
  then have "fingerprint_payload sha r = fingerprint_payload sha q"
    by (rule json_object_inject [rotated]) (simp add: fingerprint_payload_def)
  then have eqs: "policy_provider_slug (or_provider_slug r) = policy_provider_slug (or_provider_slug q)"
    "policy_action_slug (or_action_slug r) = policy_action_slug (or_action_slug q)"
    "safe_fingerprint (or_image_sha256 r) = safe_fingerprint (or_image_sha256 q)"
    "sha (or_message r) = sha (or_message q)"
    "sha (approval_safe_connection_ref (or_connection_ref r)) = sha (approval_safe_connection_ref (or_connection_ref q))"
    "sha (approval_safe_public_id (or_page_id r)) = sha (approval_safe_public_id (or_page_id q))"
    "sha (approval_safe_url (or_image_url r)) = sha (approval_safe_url (or_image_url q))"
    by (simp_all add: fingerprint_payload_def)
  from eqs(1-3) eqD [OF eqs(4)] eqD [OF eqs(5)] eqD [OF eqs(6)] eqD [OF eqs(7)]
  show ?thesis by (simp add: hashed_texts_def)
qed

definition sample_operation :: "string \<Rightarrow> operation_request" where
  "sample_operation provider =
     \<lparr>or_provider_slug = provider, or_action_slug = ''POST'', or_connection_ref = ''wcn_1'',
      or_page_id = ''42'', or_message = ''hi'', or_image_sha256 = [], or_image_url = []\<rparr>"

theorem fingerprint_binds_operation_witness:
  "policy_provider_slug (or_provider_slug (sample_operation ''facebook''))
     = policy_provider_slug (or_provider_slug (sample_operation '' Facebook''))"
proof -
  have "policy_provider_slug ''facebook'' = policy_provider_slug '' Facebook''" by code_simp
  then have "build_operation_fingerprint id (sample_operation ''facebook'')
      = build_operation_fingerprint id (sample_operation '' Facebook'')"
    by (simp add: build_operation_fingerprint_def fingerprint_payload_def sample_operation_def)
  from fingerprint_binds_operation [OF inj_on_id this] show ?thesis by blast
qed

end
