(* ===== verification/Connect_Store.thy ===== *)
theory Connect_Store
  imports Connect_Adapter Connect_Approval
begin

text \<open>
  The connection table of \<open>app/engine/wiii_connect/persistent_storage.py\<close>: upsert, latest row, list and
  expiry of stale pending rows, each for one owner (organisation and user), and the status probe.
  The table is the map from its primary key \<open>id\<close> to the row, in insertion order; JSON columns hold
  the dictionaries that were written. Rows with the same \<open>updated_at\<close> are ordered by the
  database as it likes; the model keeps insertion order. As in \<open>Connect_Approval\<close>, \<open>up\<close> stands for a
  working session, and \<open>isoparse\<close>/\<open>isofmt\<close> for the ISO reader and writer of \<open>datetime\<close>.
\<close>

section \<open>Status\<close>

record storage_status =
  ps_enabled :: bool
  ps_persistent :: bool
  ps_backend :: string
  ps_connection_table_ready :: bool
  ps_audit_ledger_ready :: bool
  ps_operation_approval_table_ready :: bool
  ps_reason :: string
  ps_warnings :: "string list"

definition storage_version :: string where
  "storage_version = ''wiii_connect_persistent_storage.v1''"

definition storage_status_metadata :: "storage_status \<Rightarrow> (string, pyval) dict" where
  "storage_status_metadata s =
     [(''version'', PStr storage_version),
      (''enabled'', PBool (ps_enabled s)),
      (''persistent'', PBool (ps_persistent s)),
      (''backend'', PStr (ps_backend s)),
      (''connection_table_ready'', PBool (ps_connection_table_ready s)),
      (''audit_ledger_ready'', PBool (ps_audit_ledger_ready s)),
      (''operation_approval_table_ready'', PBool (ps_operation_approval_table_ready s)),
      (''reason'', PStr (ps_reason s)),
      (''warnings'', PList (map PStr (ps_warnings s)))]"

definition default_storage_status :: storage_status where
  "default_storage_status =
     \<lparr>ps_enabled = False, ps_persistent = False, ps_backend = ''postgres'',
      ps_connection_table_ready = False, ps_audit_ledger_ready = False,
      ps_operation_approval_table_ready = False, ps_reason = ''database_probe_not_requested'',
      ps_warnings = []\<rparr>"

text \<open>What the probe finds: no session, a failing query, or the presence of the three tables.\<close>

datatype probe_result = NoSession | ProbeFailed | Tables bool bool bool

definition storage_status_of :: "bool \<Rightarrow> probe_result \<Rightarrow> storage_status" where
  "storage_status_of probe_database result =
     (if \<not> probe_database then default_storage_status
      else case result of
        NoSession \<Rightarrow> default_storage_status\<lparr>ps_reason := ''database_unavailable'',
          ps_warnings := [''session_factory_unavailable'']\<rparr>
      | ProbeFailed \<Rightarrow> default_storage_status\<lparr>ps_reason := ''database_unavailable'',
          ps_warnings := [''status_probe_failed'']\<rparr>
      | Tables connection_ready audit_ready approval_ready \<Rightarrow>
          (let ready = (connection_ready \<and> audit_ready)
           in \<lparr>ps_enabled = ready, ps_persistent = ready, ps_backend = ''postgres'',
               ps_connection_table_ready = connection_ready, ps_audit_ledger_ready = audit_ready,
               ps_operation_approval_table_ready = approval_ready,
               ps_reason = (if ready then ''ready'' else ''migration_not_applied''),
               ps_warnings = (if ready \<and> \<not> approval_ready
                 then [''operation_approval_table_missing''] else [])\<rparr>))"

section \<open>The connection table\<close>

record connection_row =
  cw_organization_id :: string
  cw_user_id :: string
  cw_provider_slug :: string
  cw_provider_kind :: string
  cw_state :: string
  cw_scopes :: "(string, pyval) dict"
  cw_vault_ref :: "(string, pyval) dict"
  cw_account_label :: "string option"
  cw_external_account_ref :: "string option"
  cw_reason :: "string option"
  cw_warnings :: "string list"
  cw_updated_at :: instant
  cw_last_checked_at :: "instant option"
  cw_last_used_at :: "instant option"

type_synonym connection_table = "(string, connection_row) dict"

definition none_if_empty :: "string \<Rightarrow> string option" where
  "none_if_empty s = (if s = [] then None else Some s)"

definition dict_of :: "pyval \<Rightarrow> (string, pyval) dict" where
  "dict_of v = (case v of PDict d \<Rightarrow> d | _ \<Rightarrow> [])"

definition upsert_connection ::
  "(string \<Rightarrow> instant option) \<Rightarrow> bool \<Rightarrow> instant \<Rightarrow> connection_record \<Rightarrow> string \<Rightarrow> string \<Rightarrow> string
   \<Rightarrow> connection_table \<Rightarrow> bool \<times> connection_table" where
  "upsert_connection isoparse up now c organization_id user_id provider_kind table =
     (case normalize_owner organization_id user_id of
        None \<Rightarrow> (False, table)
      | Some (org, user) \<Rightarrow>
          if cr_connection_id c = [] \<or> cr_provider_slug c = [] \<or> \<not> up then (False, table)
          else
            let kind = py_strip (if provider_kind = [] then ''unknown'' else provider_kind);
                row = \<lparr>cw_organization_id = org, cw_user_id = user,
                       cw_provider_slug = cr_provider_slug c,
                       cw_provider_kind = (if kind = [] then ''unknown'' else kind),
                       cw_state = connection_state_value (cr_state c),
                       cw_scopes = dict_of (scope_grant_metadata (cr_scopes c)),
                       cw_vault_ref = (case cr_vault_ref c of
                           None \<Rightarrow> [] | Some v \<Rightarrow> dict_of (vault_secret_ref_metadata v)),
                       cw_account_label = none_if_empty (cr_account_label c),
                       cw_external_account_ref = none_if_empty (cr_external_account_ref c),
                       cw_reason = none_if_empty (cr_reason c),
                       cw_warnings = cr_warnings c,
                       cw_updated_at = now,
                       cw_last_checked_at = (case cr_last_checked_at c of
                           None \<Rightarrow> None
                         | Some s \<Rightarrow> if py_strip s = [] then None else isoparse (py_strip s)),
                       cw_last_used_at = (if cr_active c then Some now else None)\<rparr>
            in (True, dict_set (cr_connection_id c) row table))"

definition row_flag :: "(string, pyval) dict \<Rightarrow> string \<Rightarrow> bool" where
  "row_flag d key = (case dict_get d key of None \<Rightarrow> False | Some v \<Rightarrow> truthy v)"

definition connection_from_row ::
  "(instant \<Rightarrow> string) \<Rightarrow> string \<Rightarrow> string \<times> connection_row \<Rightarrow> connection_record option" where
  "connection_from_row isofmt fallback_provider_slug entry =
     (let (row_id, row) = entry;
          slug = normalize_provider_slug fallback_provider_slug;
          connection_id_value = py_strip row_id;
          provider_slug = py_strip (if cw_provider_slug row = [] then slug else cw_provider_slug row);
          lowered = dash_to_underscore (py_lower provider_slug);
          normalized_provider = (if lowered = [] then slug else lowered);
          text_of = (\<lambda>v. case v of PStr s \<Rightarrow> s | _ \<Rightarrow> [])
      in if connection_id_value = [] then None
         else Some
           \<lparr>cr_connection_id = connection_id_value,
            cr_provider_slug = normalized_provider,
            cr_state = normalize_connection_state (Some (cw_state row)),
            cr_scopes = \<lparr>sg_read = row_flag (cw_scopes row) ''read'',
                         sg_preview = row_flag (cw_scopes row) ''preview'',
                         sg_write = row_flag (cw_scopes row) ''write'',
                         sg_apply = row_flag (cw_scopes row) ''apply'',
                         sg_admin = row_flag (cw_scopes row) ''admin''\<rparr>,
            cr_vault_ref = (if row_flag (cw_vault_ref row) ''vault_ref_present'' then
                Some \<lparr>vr_provider_slug = normalized_provider, vr_connection_id = connection_id_value,
                      vr_vault_key_id = ''stored_opaque_ref'',
                      vr_secret_version = (case dict_get (cw_vault_ref row) ''secret_version'' of
                        None \<Rightarrow> [] | Some v \<Rightarrow> text_of v)\<rparr>
              else None),
            cr_account_label = str_or_empty (cw_account_label row),
            cr_external_account_ref = str_or_empty (cw_external_account_ref row),
            cr_last_checked_at = map_option isofmt (cw_last_checked_at row),
            cr_reason = str_or_empty (cw_reason row),
            cr_warnings = filter (\<lambda>w. py_strip w \<noteq> []) (cw_warnings row)\<rparr>)"

definition row_owned :: "string \<times> string \<Rightarrow> string \<Rightarrow> string \<times> connection_row \<Rightarrow> bool" where
  "row_owned owner slug entry \<longleftrightarrow>
     cw_organization_id (snd entry) = fst owner \<and> cw_user_id (snd entry) = snd owner \<and>
     cw_provider_slug (snd entry) = slug"

definition newest_first :: "(string \<times> connection_row) list \<Rightarrow> (string \<times> connection_row) list" where
  "newest_first = sort_key (\<lambda>entry. - cw_updated_at (snd entry))"

definition get_connection ::
  "(instant \<Rightarrow> string) \<Rightarrow> bool \<Rightarrow> string \<Rightarrow> string \<Rightarrow> string \<Rightarrow> string option \<Rightarrow> connection_table
   \<Rightarrow> connection_record option" where
  "get_connection isofmt up organization_id user_id provider_slug connection_id table =
     (case normalize_owner organization_id user_id of
        None \<Rightarrow> None
      | Some owner \<Rightarrow>
          let slug = normalize_provider_slug provider_slug;
              safe_connection_id = py_strip (str_or_empty connection_id)
          in if slug = [] \<or> \<not> up then None
          else case newest_first (filter (\<lambda>entry. row_owned owner slug entry \<and>
                      (safe_connection_id = [] \<or> fst entry = safe_connection_id)) table) of
              [] \<Rightarrow> None
            | entry # _ \<Rightarrow> connection_from_row isofmt slug entry)"

definition list_connections ::
  "(instant \<Rightarrow> string) \<Rightarrow> bool \<Rightarrow> string \<Rightarrow> string \<Rightarrow> string \<Rightarrow> int \<Rightarrow> connection_table
   \<Rightarrow> connection_record list" where
  "list_connections isofmt up organization_id user_id provider_slug limit table =
     (case normalize_owner organization_id user_id of
        None \<Rightarrow> []
      | Some owner \<Rightarrow>
          let slug = normalize_provider_slug provider_slug;
              safe_limit = max 1 (min (if limit = 0 then 100 else limit) 500)
          in if slug = [] \<or> \<not> up then []
          else List.map_filter (connection_from_row isofmt slug)
            (take (nat safe_limit) (newest_first (filter (row_owned owner slug) table))))"

definition pending_states :: "string list" where
  "pending_states = [''authorizing'', ''waiting'', ''error'']"

definition row_stale :: "string \<times> string \<Rightarrow> string \<Rightarrow> instant \<Rightarrow> string \<times> connection_row \<Rightarrow> bool" where
  "row_stale owner slug expires_before entry \<longleftrightarrow>
     row_owned owner slug entry \<and> cw_state (snd entry) \<in> set pending_states \<and>
     cw_updated_at (snd entry) < expires_before"

text \<open>\<open>expires_before\<close> and \<open>updated_at\<close> are two readings of the clock, \<open>now\<close> first and \<open>later\<close> then.\<close>

definition expire_stale_connections ::
  "bool \<Rightarrow> instant \<Rightarrow> instant \<Rightarrow> string \<Rightarrow> string \<Rightarrow> string \<Rightarrow> int \<Rightarrow> connection_table
   \<Rightarrow> nat \<times> connection_table" where
  "expire_stale_connections up now later organization_id user_id provider_slug ttl_seconds table =
     (case normalize_owner organization_id user_id of
        None \<Rightarrow> (0, table)
      | Some owner \<Rightarrow>
          let slug = normalize_provider_slug provider_slug;
              expires_before = now - max 60 ttl_seconds * second;
              stale = row_stale owner slug expires_before
          in if slug = [] \<or> \<not> up then (0, table)
          else (length (filter stale table),
                map (\<lambda>entry. if stale entry
                  then (fst entry, (snd entry)\<lparr>cw_state := ''expired'',
                    cw_reason := Some ''stale_oauth_connection_expired'',
                    cw_warnings := cw_warnings (snd entry) @ [''expired_by_wiii_connect_cleanup''],
                    cw_updated_at := later\<rparr>)
                  else entry) table))"

section \<open>Facts\<close>

lemma filter_key_dict_set:
  "distinct (map fst t) \<Longrightarrow> filter (\<lambda>e. fst e = k) (dict_set k v t) = [(k, v)]"
proof (induction t)
  case (Cons e t)
  show ?case
  proof (cases "fst e = k")
    case True
    moreover from Cons.prems True have "k \<notin> fst ` set t" by auto
    then have "filter (\<lambda>e. fst e = k) t = []" by (auto simp: filter_empty_conv)
    ultimately show ?thesis by (cases e) auto
  next
    case False
    with Cons show ?thesis by (cases e) auto
  qed
qed simp

lemma filter_conj: "filter (\<lambda>e. P e \<and> Q e) t = filter P (filter Q t)"
  by (simp add: conj_commute)

lemma upper_state_words:
  "map (\<lambda>s. py_upper (py_strip (connection_state_value s)))
     [CsDisconnected, CsAuthorizing, CsWaiting, CsConnected, CsExpired, CsError, CsDisabled]
   = [''DISCONNECTED'', ''AUTHORIZING'', ''WAITING'', ''CONNECTED'', ''EXPIRED'', ''ERROR'', ''DISABLED'']"
  by code_simp

lemma stored_state:
  "normalize_connection_state (Some (connection_state_value s)) = (if s = CsWaiting then CsDisconnected else s)"
  using upper_state_words
  by (cases s) (simp_all add: normalize_connection_state_def str_or_empty_def)

text \<open>What a connection looks like once it has been through the table.\<close>

definition stored_view ::
  "(string \<Rightarrow> instant option) \<Rightarrow> (instant \<Rightarrow> string) \<Rightarrow> connection_record \<Rightarrow> connection_record" where
  "stored_view isoparse isofmt c =
     c\<lparr>cr_state := (if cr_state c = CsWaiting then CsDisconnected else cr_state c),
       cr_vault_ref := (case cr_vault_ref c of
           None \<Rightarrow> None
         | Some v \<Rightarrow> if vr_vault_key_id v = [] then None
             else Some \<lparr>vr_provider_slug = cr_provider_slug c, vr_connection_id = cr_connection_id c,
                        vr_vault_key_id = ''stored_opaque_ref'', vr_secret_version = vr_secret_version v\<rparr>),
       cr_last_checked_at := (case cr_last_checked_at c of
           None \<Rightarrow> None
         | Some s \<Rightarrow> if py_strip s = [] then None else map_option isofmt (isoparse (py_strip s))),
       cr_warnings := filter (\<lambda>w. py_strip w \<noteq> []) (cr_warnings c)\<rparr>"

lemma str_or_none_if_empty [simp]: "str_or_empty (none_if_empty s) = s"
  by (simp add: str_or_empty_def none_if_empty_def)

lemma scopes_stored:
  "row_flag (dict_of (scope_grant_metadata g)) ''read'' = sg_read g"
  "row_flag (dict_of (scope_grant_metadata g)) ''preview'' = sg_preview g"
  "row_flag (dict_of (scope_grant_metadata g)) ''write'' = sg_write g"
  "row_flag (dict_of (scope_grant_metadata g)) ''apply'' = sg_apply g"
  "row_flag (dict_of (scope_grant_metadata g)) ''admin'' = sg_admin g"
  by (simp_all add: row_flag_def dict_of_def scope_grant_metadata_def)

lemma vault_stored:
  "row_flag (dict_of (vault_secret_ref_metadata v)) ''vault_ref_present'' \<longleftrightarrow> vr_vault_key_id v \<noteq> []"
  "dict_get (dict_of (vault_secret_ref_metadata v)) ''secret_version'' = Some (PStr (vr_secret_version v))"
  "\<not> row_flag [] k"
  by (simp_all add: row_flag_def dict_of_def vault_secret_ref_metadata_def)

lemma newest_first_single [simp]: "newest_first [e] = [e]" "newest_first [] = []"
  by (simp_all add: newest_first_def)

lemma expire_pointwise:
  assumes "normalize_owner org user = Some owner"
  shows "list_all2 (\<lambda>e e'. e' = e \<or>
      (row_owned owner (normalize_provider_slug p) e \<and> cw_state (snd e) \<in> set pending_states \<and>
       cw_updated_at (snd e) < now - max 60 ttl * second \<and>
       fst e' = fst e \<and> row_owned owner (normalize_provider_slug p) e' \<and> cw_state (snd e') = ''expired''))
    t (snd (expire_stale_connections up now later org user p ttl t))"
  by (auto simp: expire_stale_connections_def assms Let_def list_all2_map2 row_stale_def row_owned_def
      list_all2_same)

section \<open>Properties\<close>

text \<open>Reads are confined to the tenant: what \<open>get_connection_record\<close> and \<open>list_connection_records\<close>
  return depends only on the rows of the asking organisation and user.\<close>

theorem connection_reads_tenant_confined:
  "get_connection isofmt up org user p cid t = get_connection isofmt up org user p cid
     (filter (\<lambda>e. cw_organization_id (snd e) = py_strip org \<and> cw_user_id (snd e) = py_strip user) t)
   \<and> list_connections isofmt up org user p limit t = list_connections isofmt up org user p limit
     (filter (\<lambda>e. cw_organization_id (snd e) = py_strip org \<and> cw_user_id (snd e) = py_strip user) t)"
proof -
  have "filter (\<lambda>e. row_owned (py_strip org, py_strip user) s e \<and> P e) t
     = filter (\<lambda>e. row_owned (py_strip org, py_strip user) s e \<and> P e)
        (filter (\<lambda>e. cw_organization_id (snd e) = py_strip org \<and> cw_user_id (snd e) = py_strip user) t)"
    for P s by (auto simp: row_owned_def intro: filter_cong)
  from this [of _ "\<lambda>_. True"] this show ?thesis
    by (simp add: get_connection_def list_connections_def normalize_owner_def Let_def)
qed

text \<open>What is written can be read back: after an upsert the owner's lookup by id returns the
  connection with its scopes, labels, reason and account reference; the vault key is replaced by an
  opaque placeholder, and a waiting connection comes back as disconnected.\<close>

theorem upserted_connection_read_back:
  assumes "normalize_owner org user \<noteq> None" "distinct (map fst t)"
    and "py_strip (cr_connection_id c) = cr_connection_id c" "cr_connection_id c \<noteq> []"
    and "normalize_provider_slug (cr_provider_slug c) = cr_provider_slug c" "cr_provider_slug c \<noteq> []"
  shows "get_connection isofmt True org user (cr_provider_slug c) (Some (cr_connection_id c))
      (snd (upsert_connection isoparse True now c org user kind t)) = Some (stored_view isoparse isofmt c)"
proof -
  obtain o' u' where owner: "normalize_owner org user = Some (o', u')" using assms(1) by auto
  obtain row where up: "snd (upsert_connection isoparse True now c org user kind t)
      = dict_set (cr_connection_id c) row t"
    and owned: "row_owned (o', u') (cr_provider_slug c) (cr_connection_id c, row)"
    and read: "connection_from_row isofmt (cr_provider_slug c) (cr_connection_id c, row)
      = Some (stored_view isoparse isofmt c)"
    using assms(3-6) provider_slugs.strip_canonical [OF assms(5)]
    by (auto simp: upsert_connection_def owner Let_def row_owned_def connection_from_row_def
        stored_view_def stored_state scopes_stored vault_stored normalize_provider_slug_def
        split: option.splits)
  show ?thesis
    using assms(3-6) owned read
    by (simp add: get_connection_def owner up filter_conj [where Q = "\<lambda>e. fst e = cr_connection_id c"]
        filter_key_dict_set [OF assms(2)] str_or_empty_def)
qed

definition stored_sample :: connection_record where
  "stored_sample = sample_connection\<lparr>cr_state := CsWaiting\<rparr>"

theorem upserted_connection_read_back_witness:
  "cr_state (the (get_connection (\<lambda>_. ''t'') True ''org'' ''u1'' (cr_provider_slug stored_sample)
     (Some (cr_connection_id stored_sample))
     (snd (upsert_connection (\<lambda>_. None) True 7 stored_sample ''org'' ''u1'' ''composio'' [])))) = CsDisconnected"
proof -
  have "normalize_owner ''org'' ''u1'' \<noteq> None"
    and "py_strip (cr_connection_id stored_sample) = cr_connection_id stored_sample"
    and "cr_connection_id stored_sample \<noteq> []"
    and "normalize_provider_slug (cr_provider_slug stored_sample) = cr_provider_slug stored_sample"
    and "cr_provider_slug stored_sample \<noteq> []" by code_simp+
  then show ?thesis
    by (simp add: upserted_connection_read_back stored_view_def, simp add: stored_sample_def)
qed

text \<open>The state column does not survive a read: a row written as \<open>waiting\<close> is read back as
  \<open>disconnected\<close>, because the reader normalises provider words and does not know the service's own
  word; the other six states are read back as written.\<close>

theorem stored_waiting_reads_disconnected:
  "normalize_connection_state (Some (connection_state_value s)) =
     (if s = CsWaiting then CsDisconnected else s)"
  by (rule stored_state)

text \<open>The table's key is the connection id alone: an upsert by another owner with the same id
  succeeds and takes the row away from its owner, whose lookup then finds nothing.\<close>

theorem upsert_takes_row_from_owner:
  assumes "normalize_owner org user \<noteq> normalize_owner org' user'" "normalize_owner org' user' \<noteq> None"
    and "distinct (map fst t)"
    and "py_strip (cr_connection_id c) = cr_connection_id c" "cr_connection_id c \<noteq> []" "cr_provider_slug c \<noteq> []"
  shows "fst (upsert_connection isoparse True now c org' user' kind t) \<and>
    get_connection isofmt up org user p (Some (cr_connection_id c))
      (snd (upsert_connection isoparse True now c org' user' kind t)) = None"
proof -
  obtain o' u' where owner: "normalize_owner org' user' = Some (o', u')" using assms(2) by auto
  obtain row where up: "upsert_connection isoparse True now c org' user' kind t
      = (True, dict_set (cr_connection_id c) row t)"
    and row: "cw_organization_id row = o'" "cw_user_id row = u'"
    using assms(5,6) by (simp add: upsert_connection_def owner Let_def)
  have "get_connection isofmt up org user p (Some (cr_connection_id c)) (dict_set (cr_connection_id c) row t) = None"
  proof (cases "normalize_owner org user")
    case (Some own)
    then have "\<not> row_owned own s (cr_connection_id c, row)" for s
      using assms(1) row owner by (auto simp: row_owned_def)
    with Some assms(4,5) show ?thesis
      by (simp add: get_connection_def Let_def filter_conj [where Q = "\<lambda>e. fst e = cr_connection_id c"]
          filter_key_dict_set [OF assms(3)] str_or_empty_def)
  qed (simp add: get_connection_def)
  with up show ?thesis by simp
qed

theorem upsert_takes_row_from_owner_witness:
  "get_connection (\<lambda>_. ''t'') True ''org'' ''u1'' ''facebook'' (Some (cr_connection_id sample_connection))
     (snd (upsert_connection (\<lambda>_. None) True 9 sample_connection ''org'' ''u2'' ''composio''
        (snd (upsert_connection (\<lambda>_. None) True 7 sample_connection ''org'' ''u1'' ''composio'' [])))) = None"
proof -
  have "normalize_owner ''org'' ''u1'' \<noteq> normalize_owner ''org'' ''u2''"
    "normalize_owner ''org'' ''u2'' \<noteq> None"
    "py_strip (cr_connection_id sample_connection) = cr_connection_id sample_connection"
    "cr_connection_id sample_connection \<noteq> []" "cr_provider_slug sample_connection \<noteq> []" by code_simp+
  moreover have "distinct (map fst (snd (upsert_connection (\<lambda>_. None) True 7 sample_connection ''org'' ''u1'' ''composio'' [])))"
    by (simp add: upsert_connection_def Let_def split: option.split)
  ultimately show ?thesis using upsert_takes_row_from_owner by blast
qed

text \<open>Expiry only ever touches the owner's rows of that provider that are authorizing, waiting or in
  error and older than the time limit (at least a minute): every other row, every connected one
  included, is unchanged, the count is the number of rows expired, and a second run finds nothing.\<close>

theorem expiry_touches_only_stale_pending_rows:
  assumes "normalize_owner org user = Some owner"
  shows "list_all2 (\<lambda>e e'. e' = e \<or>
      (row_stale owner (normalize_provider_slug p) (now - max 60 ttl * second) e \<and>
       fst e' = fst e \<and> row_owned owner (normalize_provider_slug p) e' \<and> cw_state (snd e') = ''expired''))
    t (snd (expire_stale_connections up now later org user p ttl t))
   \<and> fst (expire_stale_connections up now later org user p ttl
       (snd (expire_stale_connections up now later' org user p ttl t))) = 0
   \<and> (normalize_provider_slug p = [] \<or> \<not> up \<or> fst (expire_stale_connections up now later org user p ttl t)
       = length (filter (row_stale owner (normalize_provider_slug p) (now - max 60 ttl * second)) t))"
proof (intro conjI)
  show "list_all2 (\<lambda>e e'. e' = e \<or>
      (row_stale owner (normalize_provider_slug p) (now - max 60 ttl * second) e \<and>
       fst e' = fst e \<and> row_owned owner (normalize_provider_slug p) e' \<and> cw_state (snd e') = ''expired''))
    t (snd (expire_stale_connections up now later org user p ttl t))"
    using expire_pointwise [OF assms, of p now ttl t up later] by (simp add: row_stale_def conj_assoc)
  have "\<not> row_stale owner s b (fst e, (snd e)\<lparr>cw_state := ''expired'', cw_reason := r,
      cw_warnings := w, cw_updated_at := l\<rparr>)" for s b e r w l
    by (simp add: row_stale_def pending_states_def)
  then show "fst (expire_stale_connections up now later org user p ttl
       (snd (expire_stale_connections up now later' org user p ttl t))) = 0"
    by (simp add: expire_stale_connections_def assms Let_def filter_empty_conv)
qed (simp add: expire_stale_connections_def assms Let_def)

theorem expiry_touches_only_stale_pending_rows_witness:
  "fst (expire_stale_connections True 100 101 ''org'' ''u1'' ''facebook'' 0
     (snd (expire_stale_connections True 100 101 ''org'' ''u1'' ''facebook'' 0 []))) = 0"
  using expiry_touches_only_stale_pending_rows [of "''org''" "''u1''" "(''org'', ''u1'')" "''facebook''"]
  by (simp add: normalize_owner_def strip_nonspace is_space_def code_def)

end
