(* ===== verification/Connect_Composio.thy ===== *)
theory Connect_Composio
  imports Connect_Gateway Connect_Store
begin

text \<open>
  The pure part of \<open>app/engine/wiii_connect/composio_adapter.py\<close>: what a deployment configuration
  enables (adapter capability, vault policy, effective registry entry) and the two calls the executor
  makes (tool schema and tool execution), with the HTTP exchange as the argument of type
  \<open>http_reply\<close>. The operations on accounts, files and pages are in \<open>Connect_Accounts\<close>.
\<close>

section \<open>Configuration\<close>

record composio_config =
  cc_enabled :: bool
  cc_api_key :: string
  cc_api_key_present :: bool
  cc_base_url :: string
  cc_api_version :: string
  cc_auth_config_by_provider :: "(string, string) dict"
  cc_readonly_execute_enabled :: bool
  cc_readonly_allowlist :: "(string, string list) dict"
  cc_apply_execute_enabled :: bool
  cc_apply_allowlist :: "(string, string list) dict"

definition allowlist_count :: "(string, string list) dict \<Rightarrow> nat" where
  "allowlist_count d = sum_list (map (\<lambda>(_, actions). length actions) d)"

definition executable_action_count :: "composio_config \<Rightarrow> nat" where
  "executable_action_count c = allowlist_count (cc_readonly_allowlist c) + allowlist_count (cc_apply_allowlist c)"

definition auth_config_id_for_provider :: "composio_config \<Rightarrow> string \<Rightarrow> string" where
  "auth_config_id_for_provider c provider =
     str_or_empty (dict_get (cc_auth_config_by_provider c) (normalize_provider_slug provider))"

definition readonly_action_slugs :: "composio_config \<Rightarrow> string \<Rightarrow> string list" where
  "readonly_action_slugs c provider_slug =
     (let provider = normalize_provider_slug provider_slug
      in configured_action_slugs provider
        (case dict_get (cc_readonly_allowlist c) provider of Some l \<Rightarrow> l | None \<Rightarrow> []) [MRead])"

definition apply_action_slugs :: "composio_config \<Rightarrow> string \<Rightarrow> string list" where
  "apply_action_slugs c provider_slug =
     (let provider = normalize_provider_slug provider_slug
      in configured_action_slugs provider
        (case dict_get (cc_apply_allowlist c) provider of Some l \<Rightarrow> l | None \<Rightarrow> []) [MApply])"

definition executable_action_slugs :: "composio_config \<Rightarrow> string \<Rightarrow> string list" where
  "executable_action_slugs c provider_slug =
     (let provider = normalize_provider_slug provider_slug
      in sort (remdups
        ((if cc_readonly_execute_enabled c then readonly_action_slugs c provider else [])
         @ (if cc_apply_execute_enabled c then apply_action_slugs c provider else []))))"

definition composio_version :: string where
  "composio_version = ''wiii_connect_composio_adapter.v1''"

definition composio_config_metadata :: "composio_config \<Rightarrow> (string, pyval) dict" where
  "composio_config_metadata c =
     [(''version'', PStr composio_version),
      (''enabled'', PBool (cc_enabled c)),
      (''api_key_present'', PBool (cc_api_key_present c)),
      (''base_url'', PStr (cc_base_url c)),
      (''api_version'', PStr (cc_api_version c)),
      (''auth_config_count'', PInt (int (length (cc_auth_config_by_provider c)))),
      (''provider_slugs'', PList (map PStr (sort (map fst (cc_auth_config_by_provider c))))),
      (''readonly_execute_enabled'', PBool (cc_readonly_execute_enabled c)),
      (''readonly_action_count'', PInt (int (allowlist_count (cc_readonly_allowlist c)))),
      (''readonly_action_provider_slugs'', PList (map PStr (sort (map fst (cc_readonly_allowlist c))))),
      (''apply_execute_enabled'', PBool (cc_apply_execute_enabled c)),
      (''apply_action_count'', PInt (int (allowlist_count (cc_apply_allowlist c)))),
      (''apply_action_provider_slugs'', PList (map PStr (sort (map fst (cc_apply_allowlist c)))))]"

section \<open>What a configuration enables\<close>

definition composio_adapter_capability :: "composio_config \<Rightarrow> adapter_capability" where
  "composio_adapter_capability c =
     (let capability = (\<lambda>configured execute reason warnings.
            \<lparr>ac_provider_kind = Composio, ac_adapter_name = ''composio_adapter'',
             ac_bound = cc_enabled c, ac_configured = configured,
             ac_can_create_authorization_url = configured, ac_can_exchange_callback = configured,
             ac_can_execute_actions = execute, ac_reason = reason, ac_warnings = warnings\<rparr>)
      in if \<not> cc_enabled c
         then capability False False ''provider_adapter_not_bound'' [''composio_disabled'']
         else if \<not> cc_api_key_present c
         then capability False False ''provider_adapter_not_configured'' [''missing_composio_api_key'']
         else
           let can_read = (cc_readonly_execute_enabled c \<and> allowlist_count (cc_readonly_allowlist c) > 0);
               can_apply = (cc_apply_execute_enabled c \<and> allowlist_count (cc_apply_allowlist c) > 0);
               warnings =
                 (if can_read then [''composio_readonly_execution_limited_to_curated_allowlist''] else [])
                 @ (if can_apply then [''composio_apply_execution_requires_preview_and_approval''] else [])
                 @ (if cc_auth_config_by_provider c = []
                    then [''composio_auth_config_will_be_resolved_from_provider''] else [])
           in capability True (can_read \<or> can_apply) ''ready''
                (if warnings = [] then [''execution_disabled_or_no_curated_actions''] else warnings))"

definition composio_vault_capability :: "composio_config \<Rightarrow> vault_capability" where
  "composio_vault_capability c =
     (if \<not> authorization_ready (composio_adapter_capability c) then default_vault_capability
      else \<lparr>vc_enabled = True, vc_backend = VbProviderManaged, vc_accepts_secret_material = True,
            vc_provider_managed = True, vc_key_namespace = ''composio'', vc_reason = ''ready'',
            vc_warnings = [''secrets_remain_provider_managed'']\<rparr>)"

definition append_unique :: "string list \<Rightarrow> string \<Rightarrow> string list" where
  "append_unique values v = (if v \<in> set values then values else values @ [v])"

definition connect_enabled_entry :: "provider_entry \<Rightarrow> composio_config \<Rightarrow> provider_entry" where
  "connect_enabled_entry entry c =
     (if pe_provider_kind entry \<noteq> Composio then entry
      else if \<not> authorization_ready (composio_adapter_capability c) then entry
      else
        let warnings = append_unique (filter (\<lambda>w. w \<noteq> ''adapter_disabled'') (pe_warnings entry))
              ''agent_actions_disabled_until_gateway_ready''
        in entry\<lparr>pe_enabled := True, pe_agent_ready := False,
                 pe_requirements := pe_agent_ready_requirements entry,
                 pe_connect_requirements := [], pe_warnings := warnings\<rparr>)"

definition execution_enabled_entry :: "provider_entry \<Rightarrow> composio_config \<Rightarrow> provider_entry" where
  "execution_enabled_entry entry c =
     (let connect_entry = connect_enabled_entry entry c in
      if pe_provider_kind connect_entry \<noteq> Composio \<or> \<not> pe_enabled connect_entry then connect_entry
      else
        let readonly_actions = (if cc_readonly_execute_enabled c
              then readonly_action_slugs c (pe_slug connect_entry) else []);
            apply_actions = (if cc_apply_execute_enabled c
              then apply_action_slugs c (pe_slug connect_entry) else []);
            allowed_actions = sort (remdups (readonly_actions @ apply_actions))
        in if allowed_actions = [] then connect_entry
           else
             let kept = filter (\<lambda>w. w \<noteq> [] \<and> w \<notin> set
                   [''adapter_disabled'', ''agent_actions_disabled_until_gateway_ready''])
                   (pe_warnings connect_entry);
                 live = append_unique kept ''agent_actions_require_live_schema_verification'';
                 warnings = (if apply_actions \<noteq> [] then append_unique live
                   ''apply_agent_actions_require_preview_approval_and_scope_grant'' else live)
             in connect_entry
                  \<lparr>pe_agent_ready := True, pe_requirements := [], pe_agent_ready_requirements := [],
                   pe_action_allowlist := allowed_actions,
                   pe_default_scopes := \<lparr>sg_read = (readonly_actions \<noteq> [] \<or> apply_actions \<noteq> []),
                     sg_preview = (apply_actions \<noteq> []), sg_write = False,
                     sg_apply = (apply_actions \<noteq> []), sg_admin = False\<rparr>,
                   pe_warnings := warnings\<rparr>)"

definition registry_runtime_entry :: "provider_entry \<Rightarrow> composio_config \<Rightarrow> provider_entry" where
  "registry_runtime_entry entry c =
     (if pe_provider_kind entry \<noteq> Composio then entry else execution_enabled_entry entry c)"

definition provider_registry_version :: string where
  "provider_registry_version = ''wiii_connect_provider_registry.v1''"

definition provider_registry_metadata :: "composio_config \<Rightarrow> (string, pyval) dict" where
  "provider_registry_metadata c =
     [(''version'', PStr provider_registry_version),
      (''adapter_version'', PStr adapter_version),
      (''providers'', PList (map (\<lambda>entry.
          let effective = registry_runtime_entry entry c
          in PDict (dict_set ''action_catalog''
               (PDict (action_catalog_summary (pe_slug effective) (pe_action_allowlist effective)))
               (dict_of (provider_entry_metadata effective))))
        (list_provider_registry None)))]"

section \<open>Tool schemas\<close>

text \<open>One HTTP exchange: a transport error, or a status and the JSON body (\<open>None\<close> when it is not JSON).\<close>

datatype http_reply = TransportError | Reply int "pyval option"

definition mapping_get :: "pyval \<Rightarrow> string \<Rightarrow> pyval" where
  "mapping_get data key =
     (case data of PDict d \<Rightarrow> (case dict_get d key of Some v \<Rightarrow> v | None \<Rightarrow> PNone) | _ \<Rightarrow> PNone)"

fun is_mapping :: "pyval \<Rightarrow> bool" where
  "is_mapping (PDict _) = True"
| "is_mapping _ = False"

text \<open>\<open>a or b or ...\<close>: the first true value, or the last one.\<close>

fun first_truthy :: "pyval list \<Rightarrow> pyval" where
  "first_truthy [] = PNone"
| "first_truthy [v] = v"
| "first_truthy (v # w # vs) = (if truthy v then v else first_truthy (w # vs))"

definition text_or_empty :: "(pyval \<Rightarrow> string) \<Rightarrow> pyval \<Rightarrow> string" where
  "text_or_empty str_of v = (if truthy v then py_text str_of v else [])"

definition extract_toolkit_slug :: "(pyval \<Rightarrow> string) \<Rightarrow> pyval \<Rightarrow> string" where
  "extract_toolkit_slug str_of data =
     (let toolkit = mapping_get data ''toolkit'' in
      if is_mapping toolkit
      then normalize_provider_slug (text_or_empty str_of (first_truthy
        [mapping_get toolkit ''slug'', mapping_get toolkit ''toolkit_slug'', mapping_get toolkit ''name'', PStr []]))
      else normalize_provider_slug (text_or_empty str_of (mapping_get data ''toolkit_slug'')))"

definition extract_input_schema :: "pyval \<Rightarrow> (string, pyval) dict" where
  "extract_input_schema data =
     (case find is_mapping (map (mapping_get data)
        [''input_parameters'', ''input_schema'', ''inputSchema'', ''parameters'', ''args_schema'', ''schema'']) of
        Some v \<Rightarrow> dict_of v | None \<Rightarrow> [])"

definition schema_argument_keys :: "(string, pyval) dict \<Rightarrow> string list" where
  "schema_argument_keys schema =
     (let properties = mapping_get (PDict schema) ''properties'';
          source = (if is_mapping properties then dict_of properties else schema)
      in sort (filter (\<lambda>k. k \<noteq> []) (map fst source)))"

definition str_text :: "(pyval \<Rightarrow> string) \<Rightarrow> pyval \<Rightarrow> string" where
  "str_text str_of v = (case v of PStr s \<Rightarrow> s | POther r \<Rightarrow> r | _ \<Rightarrow> str_of v)"

definition schema_required_keys :: "(pyval \<Rightarrow> string) \<Rightarrow> (string, pyval) dict \<Rightarrow> string list" where
  "schema_required_keys str_of schema =
     (case mapping_get (PDict schema) ''required'' of
        PList items \<Rightarrow> sort (filter (\<lambda>k. k \<noteq> []) (map (str_text str_of) items))
      | _ \<Rightarrow> sort (map fst (filter (\<lambda>(_, v). is_mapping v \<and> truthy (mapping_get v ''required'')) schema)))"

record schema_result =
  sr_ready :: bool
  sr_provider_slug :: string
  sr_action_slug :: string
  sr_reason :: string
  sr_request_id :: string
  sr_schema_present :: bool
  sr_argument_keys :: "string list"
  sr_required_argument_keys :: "string list"

definition schema_reasons :: "string list" where
  "schema_reasons =
    [''ready'', ''not_requested'', ''action_not_curated'', ''action_not_allowlisted'',
     ''provider_adapter_not_configured'', ''provider_transport_error'', ''provider_response_rejected'',
     ''provider_response_invalid'', ''tool_schema_not_found'', ''tool_schema_missing_arguments'']"

definition safe_tool_schema_reason :: "string \<Rightarrow> string" where
  "safe_tool_schema_reason v =
     (let reason = py_strip v in if reason \<in> set schema_reasons then reason else ''provider_response_unavailable'')"

definition schema_result_metadata :: "schema_result \<Rightarrow> (string, pyval) dict" where
  "schema_result_metadata r =
     (let metadata =
        [(''version'', PStr ''wiii_connect_composio_tool_schema.v1''),
         (''status'', PStr (if sr_ready r then ''ready'' else ''blocked'')),
         (''reason'', PStr (safe_tool_schema_reason (sr_reason r))),
         (''provider_slug'', PStr (normalize_provider_slug (sr_provider_slug r))),
         (''action_slug'', PStr (normalize_action_slug (sr_action_slug r))),
         (''schema_present'', PBool (sr_schema_present r)),
         (''argument_policy_version'', PStr argument_policy_version),
         (''argument_keys'', PList (map PStr (safe_public_argument_keys (sr_argument_keys r)))),
         (''required_argument_keys'', PList (map PStr (safe_public_argument_keys (sr_required_argument_keys r)))),
         (''hidden_argument_count'', PInt (int (hidden_model_argument_key_count
            (sr_provider_slug r) (sr_action_slug r) (sr_argument_keys r))))];
          request_id = safe_request_id (sr_request_id r)
      in if request_id \<noteq> [] then dict_set ''request_id'' (PStr request_id) metadata else metadata)"

text \<open>Whether the schema is asked for at all: the checks before the HTTP request.\<close>

definition schema_refusal :: "composio_config \<Rightarrow> string \<Rightarrow> string \<Rightarrow> string option" where
  "schema_refusal config provider action =
     (if get_curated_action provider action = None then Some ''action_not_curated''
      else if action \<notin> set (executable_action_slugs config provider) then Some ''action_not_allowlisted''
      else if \<not> cc_enabled config \<or> \<not> cc_api_key_present config
      then Some ''provider_adapter_not_configured''
      else None)"

definition verify_tool_schema ::
  "(pyval \<Rightarrow> string) \<Rightarrow> composio_config \<Rightarrow> string \<Rightarrow> string \<Rightarrow> string \<Rightarrow> http_reply \<Rightarrow> schema_result" where
  "verify_tool_schema str_of config provider_slug action_slug request_id reply =
     (let provider = normalize_provider_slug provider_slug;
          action = normalize_action_slug action_slug;
          result = (\<lambda>ready reason present keys required.
            \<lparr>sr_ready = ready, sr_provider_slug = provider, sr_action_slug = action, sr_reason = reason,
             sr_request_id = safe_request_id request_id, sr_schema_present = present,
             sr_argument_keys = keys, sr_required_argument_keys = required\<rparr>);
          blocked = (\<lambda>reason. result False reason False [] [])
      in case schema_refusal config provider action of
           Some reason \<Rightarrow> blocked reason
         | None \<Rightarrow>
         (case reply of
           TransportError \<Rightarrow> blocked ''provider_transport_error''
         | Reply status body \<Rightarrow>
             if status < 200 \<or> 300 \<le> status then blocked ''provider_response_rejected''
             else case body of
               None \<Rightarrow> blocked ''provider_response_invalid''
             | Some data \<Rightarrow>
                 if \<not> is_mapping data then blocked ''provider_response_invalid''
                 else
                   let schema_action = normalize_action_slug (text_or_empty str_of (first_truthy
                         [mapping_get data ''slug'', mapping_get data ''tool_slug'',
                          mapping_get data ''toolSlug'', mapping_get data ''name'', PStr action]));
                       toolkit = extract_toolkit_slug str_of data;
                       schema = extract_input_schema data;
                       keys = schema_argument_keys schema
                   in if schema_action \<noteq> action then blocked ''tool_schema_not_found''
                      else if toolkit \<noteq> [] \<and> toolkit \<noteq> provider then blocked ''tool_schema_not_found''
                      else if schema = [] \<or> keys = []
                      then result False ''tool_schema_missing_arguments'' (schema \<noteq> []) [] []
                      else result True ''ready'' True keys (schema_required_keys str_of schema)))"

section \<open>Tool execution\<close>

record tool_result =
  tr_ready :: bool
  tr_provider_slug :: string
  tr_action_slug :: string
  tr_reason :: string
  tr_request_id :: string
  tr_successful :: bool
  tr_status_code :: int
  tr_data_keys :: "string list"
  tr_error_present :: bool
  tr_session_info_present :: bool
  tr_log_id_present :: bool

definition tool_status :: "tool_result \<Rightarrow> string" where
  "tool_status r = (if tr_ready r \<and> tr_successful r then ''succeeded''
     else if tr_ready r then ''failed'' else ''blocked'')"

definition execute_reasons :: "string list" where
  "execute_reasons =
    [''ready'', ''not_requested'', ''provider_adapter_not_configured'', ''action_not_allowlisted'',
     ''missing_user_or_connection'', ''missing_file'', ''provider_transport_error'',
     ''provider_response_rejected'', ''provider_response_invalid'', ''provider_execution_failed'']"

definition safe_execute_reason :: "string \<Rightarrow> string" where
  "safe_execute_reason v =
     (let reason = py_strip v in if reason \<in> set execute_reasons then reason else ''provider_response_unavailable'')"

definition tool_result_metadata :: "tool_result \<Rightarrow> (string, pyval) dict" where
  "tool_result_metadata r =
     (let metadata =
        [(''version'', PStr ''wiii_connect_composio_execution.v1''),
         (''status'', PStr (tool_status r)),
         (''reason'', PStr (safe_execute_reason (tr_reason r))),
         (''provider_slug'', PStr (normalize_provider_slug (tr_provider_slug r))),
         (''action_slug'', PStr (normalize_action_slug (tr_action_slug r))),
         (''successful'', PBool (tr_successful r)),
         (''status_code'', PInt (tr_status_code r)),
         (''data_keys'', PList (map (\<lambda>k. PStr (safe_metadata_key k)) (tr_data_keys r))),
         (''error_present'', PBool (tr_error_present r)),
         (''session_info_present'', PBool (tr_session_info_present r)),
         (''log_id_present'', PBool (tr_log_id_present r))];
          request_id = safe_request_id (tr_request_id r)
      in if request_id \<noteq> [] then dict_set ''request_id'' (PStr request_id) metadata else metadata)"

text \<open>Why a tool call is refused before anything is sent.\<close>

definition execute_refusal :: "composio_config \<Rightarrow> string \<Rightarrow> string \<Rightarrow> string \<Rightarrow> string \<Rightarrow> string option" where
  "execute_refusal config provider action user_id connected_account_id =
     (if \<not> cc_enabled config \<or> \<not> cc_api_key_present config then Some ''provider_adapter_not_configured''
      else if action \<notin> set (executable_action_slugs config provider) then Some ''action_not_allowlisted''
      else if user_id = [] \<or> connected_account_id = [] then Some ''missing_user_or_connection''
      else None)"

definition execute_tool ::
  "composio_config \<Rightarrow> string \<Rightarrow> string \<Rightarrow> string \<Rightarrow> string \<Rightarrow> string \<Rightarrow> http_reply \<Rightarrow> tool_result" where
  "execute_tool config provider_slug action_slug user_id connected_account_id request_id reply =
     (let provider = normalize_provider_slug provider_slug;
          action = normalize_action_slug action_slug;
          blocked = (\<lambda>reason status.
            \<lparr>tr_ready = False, tr_provider_slug = provider, tr_action_slug = action, tr_reason = reason,
             tr_request_id = safe_request_id request_id, tr_successful = False, tr_status_code = status,
             tr_data_keys = [], tr_error_present = False, tr_session_info_present = False,
             tr_log_id_present = False\<rparr>)
      in case execute_refusal config provider action user_id connected_account_id of
           Some reason \<Rightarrow> blocked reason 0
         | None \<Rightarrow>
           (case reply of
              TransportError \<Rightarrow> blocked ''provider_transport_error'' 0
            | Reply status body \<Rightarrow>
                if status < 200 \<or> 300 \<le> status then blocked ''provider_response_rejected'' status
                else case body of
                  None \<Rightarrow> blocked ''provider_response_invalid'' status
                | Some data \<Rightarrow>
                    if \<not> is_mapping data then blocked ''provider_response_invalid'' status
                    else
                      let successful = truthy (mapping_get data ''successful'');
                          shape = mapping_get data ''data''
                      in (blocked (if successful then ''ready'' else ''provider_execution_failed'') status)
                           \<lparr>tr_ready := True, tr_successful := successful,
                            tr_data_keys := (if is_mapping shape then sort (map fst (dict_of shape)) else []),
                            tr_error_present := truthy (mapping_get data ''error''),
                            tr_session_info_present := truthy (mapping_get data ''session_info''),
                            tr_log_id_present := truthy (mapping_get data ''log_id'')\<rparr>))"

section \<open>Facts about enabled entries\<close>

lemma connect_enabled_fields [simp]:
  "pe_slug (connect_enabled_entry e c) = pe_slug e"
  "pe_provider_kind (connect_enabled_entry e c) = pe_provider_kind e"
  "pe_allowed_paths (connect_enabled_entry e c) = pe_allowed_paths e"
  "pe_action_allowlist (connect_enabled_entry e c) = pe_action_allowlist e"
  "pe_default_scopes (connect_enabled_entry e c) = pe_default_scopes e"
  by (simp_all add: connect_enabled_entry_def Let_def)

lemma registry_entry_fields:
  assumes "e \<in> set provider_registry"
  shows "pe_provider_kind e = Composio" "\<not> pe_enabled e" "\<not> pe_agent_ready e"
    "pe_allowed_paths e = [''external_app_action'']" "pe_action_allowlist e = []"
    "pe_default_scopes e = no_scopes" "normalize_provider_slug (pe_slug e) = pe_slug e"
proof -
  have "list_all (\<lambda>s. normalize_provider_slug s = s) (map pe_slug provider_registry)"
    unfolding registry_slugs by code_simp
  with assms show "normalize_provider_slug (pe_slug e) = pe_slug e" by (simp add: list_all_iff)
  have "list_all (\<lambda>e. pe_provider_kind e = Composio \<and> \<not> pe_enabled e \<and> \<not> pe_agent_ready e \<and>
      pe_allowed_paths e = [''external_app_action''] \<and> pe_action_allowlist e = [] \<and>
      pe_default_scopes e = no_scopes) provider_registry"
    by (simp add: provider_registry_def composio_entry_def)
  with assms show "pe_provider_kind e = Composio" "\<not> pe_enabled e" "\<not> pe_agent_ready e"
    "pe_allowed_paths e = [''external_app_action'']" "pe_action_allowlist e = []"
    "pe_default_scopes e = no_scopes" by (simp_all add: list_all_iff)
qed

lemma connect_enabled_flags:
  assumes "e \<in> set provider_registry"
  shows "pe_enabled (connect_enabled_entry e c) = authorization_ready (composio_adapter_capability c)"
    "\<not> pe_agent_ready (connect_enabled_entry e c)"
  using registry_entry_fields [OF assms] by (simp_all add: connect_enabled_entry_def Let_def)

lemma enabled_entry_empty:
  assumes "e \<in> set provider_registry"
    and "\<not> authorization_ready (composio_adapter_capability c) \<or> executable_action_slugs c (pe_slug e) = []"
  shows "execution_enabled_entry e c = connect_enabled_entry e c"
proof (cases "authorization_ready (composio_adapter_capability c)")
  case True
  with assms(2) have "sort (remdups ((if cc_readonly_execute_enabled c then readonly_action_slugs c (pe_slug e) else [])
      @ (if cc_apply_execute_enabled c then apply_action_slugs c (pe_slug e) else []))) = []"
    unfolding executable_action_slugs_def Let_def registry_entry_fields(7) [OF assms(1)] by blast
  then show ?thesis by (simp only: execution_enabled_entry_def Let_def connect_enabled_fields simp_thms if_True if_cancel)
next
  case False
  then show ?thesis
    using connect_enabled_flags(1) [OF assms(1), of c] by (simp only: execution_enabled_entry_def Let_def) simp
qed

lemma enabled_entry_fields:
  fixes c e
  defines "x \<equiv> execution_enabled_entry e c"
  assumes "e \<in> set provider_registry" and "authorization_ready (composio_adapter_capability c)"
    and "executable_action_slugs c (pe_slug e) \<noteq> []"
  shows "pe_slug x = pe_slug e" "pe_provider_kind x = Composio" "pe_allowed_paths x = [''external_app_action'']"
    "pe_enabled x" "pe_agent_ready x" "pe_action_allowlist x = executable_action_slugs c (pe_slug e)"
    "pe_default_scopes x = \<lparr>sg_read = True,
       sg_preview = (cc_apply_execute_enabled c \<and> apply_action_slugs c (pe_slug e) \<noteq> []), sg_write = False,
       sg_apply = (cc_apply_execute_enabled c \<and> apply_action_slugs c (pe_slug e) \<noteq> []), sg_admin = False\<rparr>"
proof -
  note entry = registry_entry_fields [OF assms(2)] connect_enabled_flags [OF assms(2), of c]
  let ?reads = "if cc_readonly_execute_enabled c then readonly_action_slugs c (pe_slug e) else []"
  let ?applies = "if cc_apply_execute_enabled c then apply_action_slugs c (pe_slug e) else []"
  have allowed: "executable_action_slugs c (pe_slug e) = sort (remdups (?reads @ ?applies))"
    by (simp only: executable_action_slugs_def Let_def entry)
  then have some: "sort (remdups (?reads @ ?applies)) \<noteq> []" using assms(4) by simp
  then have any: "?reads \<noteq> [] \<or> ?applies \<noteq> []" by fastforce
  have x: "x = (let connect_entry = connect_enabled_entry e c in connect_entry
      \<lparr>pe_agent_ready := True, pe_requirements := [], pe_agent_ready_requirements := [],
       pe_action_allowlist := sort (remdups (?reads @ ?applies)),
       pe_default_scopes := \<lparr>sg_read = (?reads \<noteq> [] \<or> ?applies \<noteq> []), sg_preview = (?applies \<noteq> []),
         sg_write = False, sg_apply = (?applies \<noteq> []), sg_admin = False\<rparr>,
       pe_warnings := pe_warnings x\<rparr>)"
    using some assms(3) entry
    unfolding x_def execution_enabled_entry_def Let_def connect_enabled_fields by (simp only: if_False if_True) simp
  have applies: "(?applies \<noteq> []) = (cc_apply_execute_enabled c \<and> apply_action_slugs c (pe_slug e) \<noteq> [])" by simp
  show "pe_slug x = pe_slug e" "pe_provider_kind x = Composio" "pe_allowed_paths x = [''external_app_action'']"
    "pe_enabled x" "pe_agent_ready x" "pe_action_allowlist x = executable_action_slugs c (pe_slug e)"
    "pe_default_scopes x = \<lparr>sg_read = True,
       sg_preview = (cc_apply_execute_enabled c \<and> apply_action_slugs c (pe_slug e) \<noteq> []), sg_write = False,
       sg_apply = (cc_apply_execute_enabled c \<and> apply_action_slugs c (pe_slug e) \<noteq> []), sg_admin = False\<rparr>"
    unfolding allowed applies [symmetric]
    by (subst x, use any entry assms(3) in \<open>simp add: Let_def del: if_split\<close>)+
qed

lemma configured_slugs_curated:
  "normalize_provider_slug p \<noteq> [] \<Longrightarrow> s \<in> set (configured_action_slugs p l [m]) \<Longrightarrow>
     \<exists>a \<in> set curated_actions. cu_slug a = s \<and> cu_provider_slug a = normalize_provider_slug p \<and> cu_mutation a = m"
  by (auto simp: configured_action_slugs_def Let_def str_or_empty_def split: if_splits dest!: list_curated_member)

lemma executable_slugs_curated:
  assumes "e \<in> set provider_registry" "s \<in> set (executable_action_slugs c (pe_slug e))"
  shows "\<exists>a \<in> set curated_actions. cu_slug a = s \<and> cu_provider_slug a = pe_slug e \<and>
     (cu_mutation a = MRead \<and> cc_readonly_execute_enabled c \<or> cu_mutation a = MApply \<and> cc_apply_execute_enabled c)"
proof -
  have "pe_slug e \<noteq> []" using assms(1) registry_slugs by (auto simp: provider_registry_def composio_entry_def)
  then have p: "normalize_provider_slug (pe_slug e) \<noteq> []" using registry_entry_fields(7) [OF assms(1)] by simp
  have "cc_readonly_execute_enabled c \<and> s \<in> set (readonly_action_slugs c (pe_slug e))
      \<or> cc_apply_execute_enabled c \<and> s \<in> set (apply_action_slugs c (pe_slug e))"
    using assms(2) registry_entry_fields(7) [OF assms(1)]
    by (auto simp: executable_action_slugs_def Let_def split: if_splits)
  then show ?thesis
    using configured_slugs_curated [OF p, of s] registry_entry_fields(7) [OF assms(1)]
    unfolding readonly_action_slugs_def apply_action_slugs_def Let_def by (metis (no_types))
qed

lemma executable_slugs_empty:
  assumes "e \<in> set provider_registry" "executable_action_slugs c (pe_slug e) = []" "cc_apply_execute_enabled c"
  shows "apply_action_slugs c (pe_slug e) = []"
proof -
  from assms(2) have "set (executable_action_slugs c (pe_slug e)) = {}" by simp
  then show ?thesis using assms(3)
    by (simp add: executable_action_slugs_def Let_def registry_entry_fields(7) [OF assms(1)])
qed

text \<open>Configuration bounds the effective registry entry. A provider becomes usable exactly when the
  adapter is ready to authorize; its allowlist is then exactly the configured slugs, each a
  reviewed action of that provider whose class (read or apply) is switched on; it is agent-ready exactly when that list is non-empty, its default scopes are
  never write or admin, and they include apply only when apply execution is switched on and an apply
  action is configured.\<close>

theorem configuration_bounds_effective_entry:
  "list_all (\<lambda>e. let x = execution_enabled_entry e c; ready = authorization_ready (composio_adapter_capability c) in
      pe_slug x = pe_slug e \<and> pe_provider_kind x = Composio
      \<and> pe_allowed_paths x = [''external_app_action''] \<and> pe_enabled x = ready
      \<and> pe_action_allowlist x = (if ready then executable_action_slugs c (pe_slug e) else [])
      \<and> list_all (\<lambda>s. list_ex (\<lambda>a. cu_slug a = s \<and> cu_provider_slug a = pe_slug e \<and>
            (cu_mutation a = MRead \<and> cc_readonly_execute_enabled c
             \<or> cu_mutation a = MApply \<and> cc_apply_execute_enabled c)) curated_actions) (pe_action_allowlist x)
      \<and> pe_agent_ready x = (pe_action_allowlist x \<noteq> [])
      \<and> \<not> sg_write (pe_default_scopes x) \<and> \<not> sg_admin (pe_default_scopes x)
      \<and> sg_apply (pe_default_scopes x)
          = (ready \<and> cc_apply_execute_enabled c \<and> apply_action_slugs c (pe_slug e) \<noteq> []))
    provider_registry"
proof -
  have "let x = execution_enabled_entry e c; ready = authorization_ready (composio_adapter_capability c) in
      pe_slug x = pe_slug e \<and> pe_provider_kind x = Composio
      \<and> pe_allowed_paths x = [''external_app_action''] \<and> pe_enabled x = ready
      \<and> pe_action_allowlist x = (if ready then executable_action_slugs c (pe_slug e) else [])
      \<and> list_all (\<lambda>s. list_ex (\<lambda>a. cu_slug a = s \<and> cu_provider_slug a = pe_slug e \<and>
            (cu_mutation a = MRead \<and> cc_readonly_execute_enabled c
             \<or> cu_mutation a = MApply \<and> cc_apply_execute_enabled c)) curated_actions) (pe_action_allowlist x)
      \<and> pe_agent_ready x = (pe_action_allowlist x \<noteq> [])
      \<and> \<not> sg_write (pe_default_scopes x) \<and> \<not> sg_admin (pe_default_scopes x)
      \<and> sg_apply (pe_default_scopes x)
          = (ready \<and> cc_apply_execute_enabled c \<and> apply_action_slugs c (pe_slug e) \<noteq> [])"
    if e: "e \<in> set provider_registry" for e
  proof (cases "authorization_ready (composio_adapter_capability c) \<and> executable_action_slugs c (pe_slug e) \<noteq> []")
    case True
    then show ?thesis using enabled_entry_fields [OF e, of c] executable_slugs_curated [OF e, of _ c]
      by (simp add: Let_def list_all_iff list_ex_iff)
  next
    case False
    then have "\<not> (authorization_ready (composio_adapter_capability c)
        \<and> cc_apply_execute_enabled c \<and> apply_action_slugs c (pe_slug e) \<noteq> [])"
      using executable_slugs_empty [OF e, of c] by blast
    with False enabled_entry_empty [OF e, of c] connect_enabled_flags [OF e, of c] registry_entry_fields [OF e]
    show ?thesis by (auto simp: Let_def no_scopes_def)
  qed
  then show ?thesis by (simp add: list_all_iff)
qed

end
