(* ===== verification/Connect_Executor.thy ===== *)
theory Connect_Executor
  imports Connect_Composio Connect_Policy
begin

text \<open>
  \<open>app/engine/wiii_connect/backend_action_executor.py\<close>: from a planned provider action through request,
  gateway, schema check, argument check and audit to the provider call. The replies of the
  provider's HTTP interface are arguments in \<open>executor_env\<close>; the observable effects of a run (audit
  records handed to storage, requests sent to the provider) are the list of \<open>executor_event\<close>s in the
  order they happen. The two callers, the API endpoint and the agent tool, are modelled as far as they
  build the plan and run it.
\<close>

section \<open>Plans and results\<close>

record auth_user =
  au_user_id :: string
  au_organization_id :: "string option"

record action_plan =
  ap_entry :: provider_entry
  ap_config :: composio_config
  ap_user :: auth_user
  ap_connection :: "connection_record option"
  ap_storage :: "(string, pyval) dict"
  ap_action_slug :: string
  ap_mutation :: string
  ap_arguments :: "(string, pyval) dict"
  ap_argument_keys :: "string list"
  ap_path :: string
  ap_approval_token_present :: bool
  ap_preview_evidence_id :: "string option"
  ap_preview_evidence_required :: bool
  ap_selection_required :: bool
  ap_surface :: string
  ap_stage :: string
  ap_request_id :: "string option"
  ap_audit_metadata :: "(string, pyval) dict"

record action_result =
  ax_status :: string
  ax_reason :: string
  ax_request :: execution_request
  ax_gateway :: gateway_decision
  ax_schema :: "schema_result option"
  ax_execution :: "tool_result option"
  ax_missing_argument_keys :: "string list"

definition executor_version :: string where
  "executor_version = ''wiii_connect_backend_action_executor.v1''"

definition action_result_metadata :: "action_result \<Rightarrow> pyval" where
  "action_result_metadata r = PDict
     [(''version'', PStr executor_version),
      (''status'', PStr (ax_status r)),
      (''reason'', PStr (ax_reason r)),
      (''request'', PDict (request_audit_metadata (ax_request r))),
      (''gateway'', gateway_decision_metadata (ax_gateway r)),
      (''schema'', (case ax_schema r of None \<Rightarrow> PNone | Some s \<Rightarrow> PDict (schema_result_metadata s))),
      (''execution'', (case ax_execution r of None \<Rightarrow> PNone | Some e \<Rightarrow> PDict (tool_result_metadata e))),
      (''missing_argument_keys'', PList (map PStr (ax_missing_argument_keys r)))]"

section \<open>Storage and owner\<close>

definition connection_storage_ready :: "(string, pyval) dict \<Rightarrow> bool" where
  "connection_storage_ready storage \<longleftrightarrow>
     row_flag storage ''persistent'' \<and> row_flag storage ''connection_table_ready'' \<and>
     row_flag storage ''audit_ledger_ready''"

definition audit_persistent :: "(string, pyval) dict \<Rightarrow> bool" where
  "audit_persistent storage \<longleftrightarrow> row_flag storage ''persistent'' \<and> row_flag storage ''audit_ledger_ready''"

definition external_user_id :: "(string \<Rightarrow> string) \<Rightarrow> string option \<Rightarrow> string \<Rightarrow> string" where
  "external_user_id sha organization_id user_id =
     (let org = str_or_empty organization_id
      in ''wiii_'' @ take 32 (sha ((if org = [] then ''personal'' else org) @ '':'' @ user_id)))"

definition owner_organization_id :: "(string \<Rightarrow> string) \<Rightarrow> auth_user \<Rightarrow> string" where
  "owner_organization_id sha user =
     (if str_or_empty (au_organization_id user) \<noteq> [] then str_or_empty (au_organization_id user)
      else external_user_id sha None (au_user_id user))"

definition safe_public_connection_ref :: "string \<Rightarrow> string" where
  "safe_public_connection_ref v =
     (let t = py_strip v in if py_startswith t ''wcn_'' then take 160 t else [])"

definition select_connection ::
  "(string \<Rightarrow> string) \<Rightarrow> (instant \<Rightarrow> string) \<Rightarrow> bool \<Rightarrow> string \<Rightarrow> auth_user \<Rightarrow> (string, pyval) dict
   \<Rightarrow> string \<Rightarrow> connection_table \<Rightarrow> connection_record option" where
  "select_connection sha isofmt up provider_slug user storage connection_ref table =
     (if \<not> connection_storage_ready storage then None
      else
        let provider = policy_provider_slug provider_slug;
            records = filter (\<lambda>r. policy_provider_slug (cr_provider_slug r) = provider)
              (list_connections isofmt up (owner_organization_id sha user) (au_user_id user) provider 100 table);
            safe_ref = safe_public_connection_ref connection_ref
        in if safe_ref \<noteq> []
           then find (\<lambda>r. connection_ref_matches sha (cr_provider_slug r) (cr_connection_id r) safe_ref) records
           else case find cr_active records of
                  Some r \<Rightarrow> Some r
                | None \<Rightarrow> (case records of [] \<Rightarrow> None | r # _ \<Rightarrow> Some r))"

section \<open>Requests\<close>

definition request_mutation :: "string \<Rightarrow> action_mutation" where
  "request_mutation mutation =
     (case find (\<lambda>m. mutation_value m = mutation) [MRead, MPreview, MWrite, MApply, MAdmin] of
        Some m \<Rightarrow> m | None \<Rightarrow> MRead)"

definition build_execution_request :: "action_plan \<Rightarrow> execution_request" where
  "build_execution_request plan =
     \<lparr>xr_provider_slug = policy_provider_slug (pe_slug (ap_entry plan)),
      xr_action_slug = policy_action_slug (ap_action_slug plan),
      xr_path = take 120 (if ap_path plan = [] then ''external_app_action'' else ap_path plan),
      xr_mutation = request_mutation (ap_mutation plan),
      xr_approval_token_present = ap_approval_token_present plan,
      xr_preview_evidence_id = ap_preview_evidence_id plan,
      xr_preview_evidence_required = ap_preview_evidence_required plan,
      xr_argument_keys = (if ap_argument_keys plan \<noteq> [] then ap_argument_keys plan
                          else map fst (ap_arguments plan)),
      xr_request_id = str_or_empty (ap_request_id plan)\<rparr>"

definition safe_surface :: "string \<Rightarrow> string" where
  "safe_surface v =
     (let t = take 80 (dash_to_underscore (py_lower (py_strip v))) in if t = [] then ''backend'' else t)"

definition missing_required_argument_keys :: "string list \<Rightarrow> (string, pyval) dict \<Rightarrow> string list" where
  "missing_required_argument_keys required_keys arguments =
     (let provided = map (\<lambda>(k, _). py_strip k) arguments
      in take 50 (map safe_public_argument_key
           (filter (\<lambda>key. key \<noteq> [] \<and> key \<notin> set provided) (map py_strip required_keys))))"

section \<open>Execution\<close>

datatype executor_event =
    AuditAppended ledger_record
  | SchemaRequested string string
  | ProviderCalled string string string "(string, pyval) dict"

record executor_env =
  ee_now :: string
  ee_str_of :: "pyval \<Rightarrow> string"
  ee_sha :: "string \<Rightarrow> string"
  ee_schema_reply :: "string \<Rightarrow> string \<Rightarrow> http_reply"
  ee_execute_reply :: "string \<Rightarrow> string \<Rightarrow> string \<Rightarrow> (string, pyval) dict \<Rightarrow> http_reply"

definition dict_merge :: "('k, 'v) dict \<Rightarrow> ('k, 'v) dict \<Rightarrow> ('k, 'v) dict" where
  "dict_merge d e = fold (\<lambda>(k, v). dict_set k v) e d"

definition append_execution_stage_audit ::
  "executor_env \<Rightarrow> gateway_decision \<Rightarrow> execution_request \<Rightarrow> (string, pyval) dict \<Rightarrow> string \<Rightarrow> string
   \<Rightarrow> (string, pyval) dict \<Rightarrow> executor_event list" where
  "append_execution_stage_audit env gateway request storage status reason metadata =
     (if \<not> audit_persistent storage then []
      else
        let surface = (case dict_get metadata ''surface'' of
              Some v \<Rightarrow> if truthy v then py_text (ee_str_of env) v else ''backend'' | None \<Rightarrow> ''backend'')
        in [AuditAppended (build_audit_ledger_record (ee_str_of env) (ee_now env) AkExecution
              (xd_provider_slug (gd_decision gateway)) (safe_surface status) (safe_surface reason)
              (safe_surface surface)
              (Some (PDict (dict_merge
                 [(''request'', PDict (request_audit_metadata request)),
                  (''decision'', execution_decision_metadata (gd_decision gateway))] metadata))))])"

definition append_execution_audit ::
  "executor_env \<Rightarrow> gateway_decision \<Rightarrow> execution_request \<Rightarrow> (string, pyval) dict
   \<Rightarrow> (string, pyval) dict \<Rightarrow> executor_event list" where
  "append_execution_audit env gateway request storage metadata =
     append_execution_stage_audit env gateway request storage
       (if gd_allowed gateway then ''allowed'' else ''blocked'')
       (deny_reason_value (xd_reason (gd_decision gateway))) metadata"

definition audit_base :: "action_plan \<Rightarrow> (string, pyval) dict" where
  "audit_base plan = dict_merge
     [(''surface'', PStr (safe_surface (ap_surface plan))), (''stage'', PStr (safe_surface (ap_stage plan)))]
     (ap_audit_metadata plan)"

definition plan_gateway :: "action_plan \<Rightarrow> gateway_decision" where
  "plan_gateway plan =
     decide_execution_gateway (ap_entry plan) (ap_connection plan) (build_execution_request plan)
       \<lparr>go_adapter = Some (composio_adapter_capability (ap_config plan)),
        go_audit_metadata = Some [(''persistent'', PBool (audit_persistent (ap_storage plan)))],
        go_require_persistent_audit = True,
        go_selection_required = ap_selection_required plan,
        go_scope_policy = Some (scope_policy_for_entry (ap_entry plan))\<rparr>"

definition blocked_result ::
  "string \<Rightarrow> execution_request \<Rightarrow> gateway_decision \<Rightarrow> schema_result option \<Rightarrow> string list
   \<Rightarrow> action_result" where
  "blocked_result reason request gateway schema missing =
     \<lparr>ax_status = ''blocked'', ax_reason = reason, ax_request = request, ax_gateway = gateway,
      ax_schema = schema, ax_execution = None, ax_missing_argument_keys = missing\<rparr>"

definition preflight_backend_action ::
  "executor_env \<Rightarrow> action_plan \<Rightarrow> action_result \<times> executor_event list" where
  "preflight_backend_action env plan =
     (let request = build_execution_request plan;
          gateway = plan_gateway plan
      in if \<not> gd_allowed gateway
         then (blocked_result (deny_reason_value (xd_reason (gd_decision gateway))) request gateway None [],
               append_execution_audit env gateway request (ap_storage plan) (audit_base plan))
         else
           let slug = pe_slug (ap_entry plan);
               action = xr_action_slug request;
               schema = verify_tool_schema (ee_str_of env) (ap_config plan) slug action
                 (xr_request_id request) (ee_schema_reply env slug action);
               asked = (if schema_refusal (ap_config plan) (normalize_provider_slug slug)
                           (normalize_action_slug action) = None
                        then [SchemaRequested slug action] else [])
           in if \<not> sr_ready schema
              then (blocked_result (sr_reason schema) request gateway (Some schema) [],
                    asked @ append_execution_stage_audit env gateway request (ap_storage plan)
                      ''blocked'' (sr_reason schema)
                      (dict_merge (audit_base plan)
                         [(''stage'', PStr ''schema''), (''schema'', PDict (schema_result_metadata schema))]))
              else (\<lparr>ax_status = ''ready'', ax_reason = ''ready'', ax_request = request,
                     ax_gateway = gateway, ax_schema = Some schema, ax_execution = None,
                     ax_missing_argument_keys = []\<rparr>, asked))"

definition run_tool ::
  "executor_env \<Rightarrow> action_plan \<Rightarrow> execution_request \<Rightarrow> gateway_decision \<Rightarrow> schema_result
   \<Rightarrow> action_result \<times> executor_event list" where
  "run_tool env plan request gateway schema =
     (let account = (case ap_connection plan of Some c \<Rightarrow> cr_connection_id c | None \<Rightarrow> []);
          slug = pe_slug (ap_entry plan);
          action = xr_action_slug request;
          user = external_user_id (ee_sha env) (au_organization_id (ap_user plan)) (au_user_id (ap_user plan));
          execution = execute_tool (ap_config plan) slug action user account (xr_request_id request)
            (ee_execute_reply env slug action account (ap_arguments plan));
          called = (if execute_refusal (ap_config plan) (normalize_provider_slug slug)
                         (normalize_action_slug action) user account = None
                    then [ProviderCalled slug action account (ap_arguments plan)] else []);
          audit = append_execution_stage_audit env gateway request (ap_storage plan)
      in (\<lparr>ax_status = tool_status execution, ax_reason = tr_reason execution, ax_request = request,
           ax_gateway = gateway, ax_schema = Some schema, ax_execution = Some execution,
           ax_missing_argument_keys = []\<rparr>,
          audit ''started'' ''provider_execution_started''
             (dict_merge (audit_base plan) [(''stage'', PStr ''execute'')])
          @ called @ audit (tool_status execution) (tr_reason execution)
             (dict_merge (audit_base plan) [(''stage'', PStr ''execute_result''),
                (''schema'', PDict (schema_result_metadata schema)), (''execution'', PDict (tool_result_metadata execution))])))"

definition execute_backend_action ::
  "executor_env \<Rightarrow> action_plan \<Rightarrow> action_result option \<Rightarrow> action_result \<times> executor_event list" where
  "execute_backend_action env plan preflight =
     (let (result, events) = (case preflight of
            Some r \<Rightarrow> (r, []) | None \<Rightarrow> preflight_backend_action env plan)
      in if ax_status result \<noteq> ''ready'' then (result, events)
         else case ax_schema result of
           None \<Rightarrow> (blocked_result ''missing_schema_preflight'' (ax_request result) (ax_gateway result)
                      None [], events)
         | Some schema \<Rightarrow>
             let missing = missing_required_argument_keys (sr_required_argument_keys schema)
                   (ap_arguments plan)
             in if missing \<noteq> [] then
                  (blocked_result ''missing_required_arguments'' (ax_request result) (ax_gateway result)
                     (Some schema) missing,
                   events @ append_execution_stage_audit env (ax_gateway result) (ax_request result)
                     (ap_storage plan) ''blocked'' ''missing_required_arguments''
                     (dict_merge (audit_base plan) [(''stage'', PStr ''argument_validation''),
                        (''missing_argument_keys'', PList (map PStr missing))]))
                else
                  let (final, more) = run_tool env plan (ax_request result) (ax_gateway result) schema
                  in (final, events @ more))"

section \<open>The API endpoint and the agent tool\<close>

text \<open>
  Both callers run the preflight first and hand its result to the execution. The tool changes only the
  stage and the audit metadata between the two plans, so one plan with two stages describes them.
\<close>

definition run_action_plan ::
  "executor_env \<Rightarrow> action_plan \<Rightarrow> string \<Rightarrow> (string, pyval) dict \<Rightarrow> action_result \<times> executor_event list"
  where
  "run_action_plan env plan execute_stage execute_metadata =
     (let (preflight, events) = preflight_backend_action env plan
      in if ax_status preflight \<noteq> ''ready'' then (preflight, events)
         else
           let (result, more) = execute_backend_action env
                 (plan\<lparr>ap_stage := execute_stage, ap_audit_metadata := execute_metadata\<rparr>) (Some preflight)
           in (result, events @ more))"

definition argument_policy_metadata ::
  "string \<Rightarrow> string \<Rightarrow> (string, pyval) dict \<Rightarrow> (string, pyval) dict \<Rightarrow> pyval" where
  "argument_policy_metadata provider_slug action_slug raw_arguments safe_arguments = PDict
     [(''version'', PStr ''wiii_connect_argument_filter.v1''),
      (''provider_slug'', PStr (policy_provider_slug provider_slug)),
      (''action_slug'', PStr (policy_action_slug action_slug)),
      (''provided_argument_count'', PInt (int (length raw_arguments))),
      (''accepted_argument_count'', PInt (int (length safe_arguments))),
      (''accepted_argument_keys'',
        PList (map PStr (sort (safe_public_argument_keys (map fst safe_arguments))))),
      (''hidden_argument_count'', PInt (max 0 (int (length raw_arguments) - int (length safe_arguments))))]"

text \<open>The request body of \<open>POST /providers/{slug}/execute\<close>.\<close>

record api_body =
  ab_surface :: string
  ab_connection_id :: "string option"
  ab_connection_ref :: "string option"
  ab_action_slug :: string
  ab_path :: string
  ab_mutation :: string
  ab_preview_evidence_required :: bool
  ab_preview_evidence_id :: "string option"
  ab_approval_token_present :: bool
  ab_arguments :: "(string, pyval) dict"

definition api_selected_ref :: "api_body \<Rightarrow> string" where
  "api_selected_ref body =
     (let raw = (if str_or_empty (ab_connection_ref body) \<noteq> [] then str_or_empty (ab_connection_ref body)
                 else str_or_empty (ab_connection_id body));
          candidate = str_or_empty (authorization_safe_id (Some raw))
      in if py_startswith candidate ''wcn_'' then candidate else [])"

definition api_plan ::
  "composio_config \<Rightarrow> provider_entry \<Rightarrow> auth_user \<Rightarrow> (string, pyval) dict \<Rightarrow> connection_record option
   \<Rightarrow> string option \<Rightarrow> api_body \<Rightarrow> action_plan" where
  "api_plan config entry user storage connection request_id body =
     (let effective = execution_enabled_entry entry config;
          action_slug = policy_action_slug (ab_action_slug body);
          mutation = safe_mutation (ab_mutation body);
          arguments = model_visible_arguments (pe_slug effective) action_slug (Some (ab_arguments body));
          authorization = resolve_action_authorization (mutation_value mutation)
            (authorization_safe_id (ab_preview_evidence_id body)) (ab_approval_token_present body) False;
          selected_ref = api_selected_ref body
      in \<lparr>ap_entry = effective, ap_config = config, ap_user = user, ap_connection = connection,
          ap_storage = storage, ap_action_slug = action_slug, ap_mutation = mutation_value mutation,
          ap_arguments = arguments,
          ap_argument_keys = safe_public_argument_keys (take 50 (map fst arguments)),
          ap_path = take 120 (dash_to_underscore (py_lower (py_strip (ab_path body)))),
          ap_approval_token_present = az_trusted_approval_token_present authorization,
          ap_preview_evidence_id = az_trusted_preview_evidence_id authorization,
          ap_preview_evidence_required = ab_preview_evidence_required body,
          ap_selection_required = (selected_ref = []),
          ap_surface = ab_surface body, ap_stage = ''api_execute'', ap_request_id = request_id,
          ap_audit_metadata =
            [(''connection_ref_present'', PBool (selected_ref \<noteq> [])),
             (''connection_found'', PBool (connection \<noteq> None)),
             (''operation_policy'', action_authorization_metadata authorization),
             (''argument_policy'', argument_policy_metadata (pe_slug effective) action_slug
                (ab_arguments body) arguments),
             (''storage'', PDict storage)]\<rparr>)"

text \<open>The endpoint, given the connection table after its expiry step; \<open>None\<close> is the 404 of an unknown slug.\<close>

definition api_execute ::
  "executor_env \<Rightarrow> (instant \<Rightarrow> string) \<Rightarrow> bool \<Rightarrow> composio_config \<Rightarrow> string \<Rightarrow> auth_user
   \<Rightarrow> (string, pyval) dict \<Rightarrow> string option \<Rightarrow> api_body \<Rightarrow> connection_table
   \<Rightarrow> (action_result \<times> executor_event list) option" where
  "api_execute env isofmt up config slug user storage request_id body table =
     (case get_provider_entry slug of
        None \<Rightarrow> None
      | Some entry \<Rightarrow>
          let ref = api_selected_ref body;
              connection = (if ref = [] then None
                else select_connection (ee_sha env) isofmt up (pe_slug entry) user storage ref table);
              plan = api_plan config entry user storage connection request_id body
          in Some (run_action_plan env plan (ap_stage plan) (ap_audit_metadata plan)))"

definition generic_tool_details ::
  "provider_entry \<Rightarrow> policy_decision \<Rightarrow> action_authorization \<Rightarrow> curated_action \<Rightarrow> (string, pyval) dict
   \<Rightarrow> (string, pyval) dict" where
  "generic_tool_details effective policy authorization action arguments =
     [(''action_policy'', policy_decision_metadata policy),
      (''operation_policy'', action_authorization_metadata authorization),
      (''argument_policy'', argument_policy_metadata (pe_slug effective) (cu_slug action) arguments
         (model_visible_arguments (pe_slug effective) (cu_slug action) (Some arguments))),
      (''catalog_action'', PDict (curated_metadata action))]"

definition generic_tool_plan ::
  "composio_config \<Rightarrow> provider_entry \<Rightarrow> auth_user \<Rightarrow> (string, pyval) dict \<Rightarrow> connection_record option
   \<Rightarrow> string \<Rightarrow> string option \<Rightarrow> curated_action \<Rightarrow> action_authorization \<Rightarrow> (string, pyval) dict
   \<Rightarrow> (string, pyval) dict \<Rightarrow> action_plan" where
  "generic_tool_plan config effective user storage connection connection_ref request_id action
     authorization arguments details =
     (let safe_arguments = model_visible_arguments (pe_slug effective) (cu_slug action) (Some arguments)
      in \<lparr>ap_entry = effective, ap_config = config, ap_user = user,
          ap_connection = connection, ap_storage = storage, ap_action_slug = cu_slug action,
          ap_mutation = mutation_value (cu_mutation action), ap_arguments = safe_arguments,
          ap_argument_keys = safe_public_argument_keys (map fst safe_arguments),
          ap_path = ''external_app_action'',
          ap_approval_token_present = az_trusted_approval_token_present authorization,
          ap_preview_evidence_id = az_trusted_preview_evidence_id authorization,
          ap_preview_evidence_required = cu_requires_preview action,
          ap_selection_required = False, ap_surface = ''direct_tool'',
          ap_stage = ''generic_preflight'', ap_request_id = request_id,
          ap_audit_metadata =
            [(''connection_ref_present'', PBool (connection_ref \<noteq> [])),
             (''connection_found'', PBool (connection \<noteq> None))] @ details\<rparr>)"

text \<open>
  The generic agent tool: action policy, authorization, plan gate, connection, preflight, execution.
  \<open>gate\<close> is the refusal of the turn's plan and lane, consulted only under a provider allowlist; the
  result is the refusal's reason or the executor's result.
\<close>

definition generic_tool_execute ::
  "executor_env \<Rightarrow> (instant \<Rightarrow> string) \<Rightarrow> bool \<Rightarrow> composio_config \<Rightarrow> (string \<Rightarrow> string option) \<Rightarrow> string list
   \<Rightarrow> string \<Rightarrow> string \<Rightarrow> string \<Rightarrow> string \<Rightarrow> (string, pyval) dict \<Rightarrow> string \<Rightarrow> bool \<Rightarrow> bool \<Rightarrow> string
   \<Rightarrow> auth_user \<Rightarrow> (string, pyval) dict \<Rightarrow> string option \<Rightarrow> connection_table
   \<Rightarrow> (string + action_result) \<times> executor_event list" where
  "generic_tool_execute env isofmt up config gate allowed_provider_slugs provider_slug action_slug
     connection_ref mutation arguments preview_evidence_id approval_token_present verified prompt
     user storage request_id table =
     (let provider = policy_provider_slug provider_slug;
          allowed_providers = filter (\<lambda>p. p \<noteq> []) (map policy_provider_slug allowed_provider_slugs)
      in if provider = [] then (Inl ''missing_provider_slug'', [])
      else if allowed_providers \<noteq> [] \<and> provider \<notin> set allowed_providers
      then (Inl ''provider_not_agent_ready'', [])
      else case get_provider_entry provider of
        None \<Rightarrow> (Inl ''unknown_wiii_connect_provider'', [])
      | Some entry \<Rightarrow>
          let effective = execution_enabled_entry entry config;
              policy = select_action (pe_slug effective) action_slug mutation
                (pe_action_allowlist effective) prompt
          in case (if pd_selected_status policy then pd_selected_action policy else None) of
            None \<Rightarrow> (Inl (policy_reason_value (pd_reason policy)), [])
          | Some action \<Rightarrow>
              let authorization = resolve_action_authorization (mutation_value (cu_mutation action))
                    (Some preview_evidence_id) approval_token_present verified;
                  refusal = (if allowed_providers \<noteq> [] then gate (cu_slug action) else None)
              in case refusal of
                Some reason \<Rightarrow> (Inl reason, [])
              | None \<Rightarrow>
                  let connection = select_connection (ee_sha env) isofmt up (pe_slug effective) user storage
                        connection_ref table;
                      details = generic_tool_details effective policy authorization action arguments;
                      plan = generic_tool_plan config effective user storage connection connection_ref
                        request_id action authorization arguments details;
                      (result, events) = run_action_plan env plan ''generic_execute'' details
                  in (Inr result, events))"

section \<open>Facts\<close>

fun is_provider_call :: "executor_event \<Rightarrow> bool" where
  "is_provider_call (ProviderCalled _ _ _ _) = True"
| "is_provider_call _ = False"

datatype effect_kind = TagAudit | TagSchema | TagProvider

fun event_tag :: "executor_event \<Rightarrow> effect_kind" where
  "event_tag (AuditAppended _) = TagAudit"
| "event_tag (SchemaRequested _ _) = TagSchema"
| "event_tag (ProviderCalled _ _ _ _) = TagProvider"

lemma stage_audit_events:
  "map event_tag (append_execution_stage_audit env g r storage s reason m)
     = (if audit_persistent storage then [TagAudit] else [])"
  "list_all (\<lambda>e. \<not> is_provider_call e) (append_execution_stage_audit env g r storage s reason m)"
  by (simp_all add: append_execution_stage_audit_def Let_def)

lemma gateway_needs_persistence: "gd_allowed (plan_gateway plan) \<Longrightarrow> audit_persistent (ap_storage plan)"
  by (simp add: plan_gateway_def gateway_allowed_fact ledger_persistent_def)

lemma gateway_needs_active_connection:
  "gd_allowed (plan_gateway plan) \<Longrightarrow> \<exists>c. ap_connection plan = Some c \<and> cr_active c"
  by (auto simp: plan_gateway_def gateway_allowed_fact decide_allowed_iff execution_checks_def)

lemma gateway_needs_approval:
  "gd_allowed (plan_gateway plan) \<Longrightarrow> request_mutation (ap_mutation plan) = MApply
     \<Longrightarrow> ap_approval_token_present plan"
  by (auto simp: plan_gateway_def gateway_allowed_fact decide_allowed_iff execution_checks_def
      build_execution_request_def)

lemma schema_ready_asked:
  "sr_ready (verify_tool_schema str_of config p a rid reply) \<Longrightarrow>
     schema_refusal config (normalize_provider_slug p) (normalize_action_slug a) = None"
  by (auto simp: verify_tool_schema_def Let_def split: option.splits)

lemma preflight_cases:
  obtains (denied) "\<not> gd_allowed (plan_gateway plan)"
      "ax_status (fst (preflight_backend_action env plan)) = ''blocked''"
      "map event_tag (snd (preflight_backend_action env plan))
        = (if audit_persistent (ap_storage plan) then [TagAudit] else [])"
  | (unready) "gd_allowed (plan_gateway plan)"
      "ax_status (fst (preflight_backend_action env plan)) = ''blocked''"
      "map event_tag (snd (preflight_backend_action env plan)) \<in> {[TagAudit], [TagSchema, TagAudit]}"
  | (ready) schema where "gd_allowed (plan_gateway plan)"
      "ax_status (fst (preflight_backend_action env plan)) = ''ready''"
      "map event_tag (snd (preflight_backend_action env plan)) = [TagSchema]"
      "ax_request (fst (preflight_backend_action env plan)) = build_execution_request plan"
      "ax_schema (fst (preflight_backend_action env plan)) = Some schema"
proof -
  let ?s = "verify_tool_schema (ee_str_of env) (ap_config plan) (pe_slug (ap_entry plan))
    (xr_action_slug (build_execution_request plan)) (xr_request_id (build_execution_request plan))
    (ee_schema_reply env (pe_slug (ap_entry plan)) (xr_action_slug (build_execution_request plan)))"
  consider "\<not> gd_allowed (plan_gateway plan)"
    | "gd_allowed (plan_gateway plan)" "\<not> sr_ready ?s" | "gd_allowed (plan_gateway plan)" "sr_ready ?s"
    by blast
  then show thesis
  proof cases
    case 1
    then show thesis by (intro denied)
      (simp_all add: preflight_backend_action_def Let_def blocked_result_def append_execution_audit_def stage_audit_events)
  next
    case 2
    then show thesis using gateway_needs_persistence [OF 2(1)] by (intro unready)
      (simp_all add: preflight_backend_action_def Let_def blocked_result_def stage_audit_events)
  next
    case 3
    then show thesis using schema_ready_asked [OF 3(2)]
      by (intro ready) (simp_all add: preflight_backend_action_def Let_def)
  qed
qed

text \<open>What one execution does after a ready preflight.\<close>

lemma execute_ready_tags:
  assumes "ax_status r = ''ready''" "ax_schema r = Some schema" "audit_persistent (ap_storage plan)"
  shows "map event_tag (snd (execute_backend_action env plan (Some r)))
    \<in> {[TagAudit], [TagAudit, TagAudit], [TagAudit, TagProvider, TagAudit]}"
  using assms(3)
  by (simp add: execute_backend_action_def assms(1,2) Let_def run_tool_def stage_audit_events split_beta)

lemma execute_call_event:
  assumes "ax_status r = ''ready''" "ev \<in> set (snd (execute_backend_action env plan (Some r)))"
    "is_provider_call ev"
  shows "\<exists>user account. ev = ProviderCalled (pe_slug (ap_entry plan)) (xr_action_slug (ax_request r)) account
      (ap_arguments plan) \<and>
    account = (case ap_connection plan of Some c \<Rightarrow> cr_connection_id c | None \<Rightarrow> []) \<and>
    execute_refusal (ap_config plan) (normalize_provider_slug (pe_slug (ap_entry plan)))
      (normalize_action_slug (xr_action_slug (ax_request r))) user account = None"
proof -
  have no: "\<not> is_provider_call e" if "e \<in> set (append_execution_stage_audit env g q storage s reason m)"
    for e g q storage s reason m
    using stage_audit_events(2) [of env g q storage s reason m] that by (auto simp: list_all_iff)
  from assms no show ?thesis
    by (auto simp: execute_backend_action_def Let_def run_tool_def split_beta
        split: option.splits if_splits)
qed

lemma no_call_by_tags: "TagProvider \<notin> set (map event_tag es) \<Longrightarrow> e \<in> set es \<Longrightarrow> \<not> is_provider_call e"
  by (cases e) force+

lemma run_plan_calls:
  assumes "ev \<in> set (snd (run_action_plan env plan stage details))" "is_provider_call ev"
  shows "gd_allowed (plan_gateway plan) \<and>
    (\<exists>user account. ev = ProviderCalled (pe_slug (ap_entry plan)) (xr_action_slug (build_execution_request plan))
        account (ap_arguments plan) \<and>
      account = (case ap_connection plan of Some c \<Rightarrow> cr_connection_id c | None \<Rightarrow> []) \<and>
      execute_refusal (ap_config plan) (normalize_provider_slug (pe_slug (ap_entry plan)))
        (normalize_action_slug (xr_action_slug (build_execution_request plan))) user account = None)"
proof (cases rule: preflight_cases [of plan env])
  case denied
  then have "\<not> is_provider_call e" if "e \<in> set (snd (preflight_backend_action env plan))" for e
    by (intro no_call_by_tags [OF _ that]) auto
  with assms denied(2) show ?thesis by (simp add: run_action_plan_def split_beta Let_def)
next
  case unready
  then have "\<not> is_provider_call e" if "e \<in> set (snd (preflight_backend_action env plan))" for e
    by (intro no_call_by_tags [OF _ that]) auto
  with assms unready(2) show ?thesis by (simp add: run_action_plan_def split_beta Let_def)
next
  case (ready schema)
  then have "\<not> is_provider_call e" if "e \<in> set (snd (preflight_backend_action env plan))" for e
    by (intro no_call_by_tags [OF _ that]) auto
  with assms ready(2) have "ev \<in> set (snd (execute_backend_action env
      (plan\<lparr>ap_stage := stage, ap_audit_metadata := details\<rparr>) (Some (fst (preflight_backend_action env plan)))))"
    by (auto simp: run_action_plan_def split_beta Let_def)
  from execute_call_event [OF ready(2) this assms(2)] ready(1,4) show ?thesis by simp
qed

lemma execute_refusal_None:
  "execute_refusal config p a user account = None \<longleftrightarrow>
     cc_enabled config \<and> cc_api_key_present config \<and> a \<in> set (executable_action_slugs config p) \<and>
     user \<noteq> [] \<and> account \<noteq> []"
  by (auto simp: execute_refusal_def)

section \<open>Properties\<close>

text \<open>C1: Nothing reaches a provider except through the gateway: whatever plan a caller runs, a tool
  request is sent only if the gateway allows the plan, with the plan's own provider, action and
  arguments, for an active connection that the plan carries, an action the deployment enabled, and a
  persistent audit ledger.\<close>

theorem provider_reached_only_behind_gateway:
  "list_all (\<lambda>ev. case ev of
      ProviderCalled slug action account args \<Rightarrow>
        gd_allowed (plan_gateway plan) \<and> slug = pe_slug (ap_entry plan) \<and>
        action = policy_action_slug (ap_action_slug plan) \<and> args = ap_arguments plan \<and>
        (\<exists>c. ap_connection plan = Some c \<and> cr_active c \<and> account = cr_connection_id c) \<and>
        normalize_action_slug action \<in> set (executable_action_slugs (ap_config plan) (normalize_provider_slug slug)) \<and>
        audit_persistent (ap_storage plan)
    | _ \<Rightarrow> True) (snd (run_action_plan env plan stage details))"
proof -
  have "case ev of
      ProviderCalled slug action account args \<Rightarrow>
        gd_allowed (plan_gateway plan) \<and> slug = pe_slug (ap_entry plan) \<and>
        action = policy_action_slug (ap_action_slug plan) \<and> args = ap_arguments plan \<and>
        (\<exists>c. ap_connection plan = Some c \<and> cr_active c \<and> account = cr_connection_id c) \<and>
        normalize_action_slug action \<in> set (executable_action_slugs (ap_config plan) (normalize_provider_slug slug)) \<and>
        audit_persistent (ap_storage plan)
    | _ \<Rightarrow> True" if "ev \<in> set (snd (run_action_plan env plan stage details))" for ev
  proof (cases ev)
    case (ProviderCalled slug action account args)
    with run_plan_calls [OF that] have g: "gd_allowed (plan_gateway plan)" by simp
    from gateway_needs_active_connection [OF this] obtain c where
      "ap_connection plan = Some c" "cr_active c" by blast
    with ProviderCalled run_plan_calls [OF that] g gateway_needs_persistence [OF g]
    show ?thesis by (auto simp: execute_refusal_None build_execution_request_def)
  qed simp_all
  then show ?thesis by (simp add: list_all_iff)
qed

text \<open>The order of effects of a run is fixed: the schema is asked for first, a \<open>started\<close> record goes to
  the audit ledger before the provider is called, and the outcome is recorded right after it; a run
  that stops early records why.\<close>

theorem provider_call_is_bracketed_by_audit:
  "map event_tag (snd (run_action_plan env plan stage details)) \<in>
     {[], [TagAudit], [TagSchema, TagAudit], [TagSchema, TagAudit, TagAudit],
      [TagSchema, TagAudit, TagProvider, TagAudit]}
   \<and> (snd (run_action_plan env plan stage details) = []) =
      (\<not> gd_allowed (plan_gateway plan) \<and> \<not> audit_persistent (ap_storage plan))"
proof (cases rule: preflight_cases [of plan env])
  case denied
  then show ?thesis by (auto simp: run_action_plan_def split_beta Let_def)
next
  case unready
  then show ?thesis by (auto simp: run_action_plan_def split_beta Let_def)
next
  case (ready schema)
  have "map event_tag (snd (execute_backend_action env
      (plan\<lparr>ap_stage := stage, ap_audit_metadata := details\<rparr>) (Some (fst (preflight_backend_action env plan)))))
    \<in> {[TagAudit], [TagAudit, TagAudit], [TagAudit, TagProvider, TagAudit]}"
    by (rule execute_ready_tags [OF ready(2,5)]) (simp add: gateway_needs_persistence [OF ready(1)])
  with ready(1,2,3) show ?thesis by (auto simp: run_action_plan_def split_beta Let_def)
qed

lemma curated_slug_policy: "a \<in> set curated_actions \<Longrightarrow> policy_action_slug (cu_slug a) = cu_slug a"
proof -
  have "list_all (\<lambda>s. policy_action_slug s = s) (map cu_slug curated_actions)"
    unfolding curated_actions_def read_action_def apply_action_def list.map curated_action.simps
    by code_simp
  then show "a \<in> set curated_actions \<Longrightarrow> ?thesis" by (auto simp: list_all_iff)
qed

lemma mutation_words: "request_mutation (mutation_value m) = m" "safe_mutation (mutation_value m) = m"
proof -
  have "list_all (\<lambda>m. request_mutation (mutation_value m) = m \<and> safe_mutation (mutation_value m) = m)
    [MRead, MPreview, MWrite, MApply, MAdmin]" by code_simp
  then show "request_mutation (mutation_value m) = m" "safe_mutation (mutation_value m) = m"
    by (cases m; simp)+
qed

text \<open>The action a policy selects is curated.\<close>

lemma selected_action_curated:
  "pd_selected_action (select_action p a m allow prompt) = Some x \<Longrightarrow> x \<in> set curated_actions"
  by (auto simp: select_action_def Let_def dest: get_curated_member split: if_splits option.splits list.splits)

lemma untrusted_approval:
  "az_trusted_approval_token_present (resolve_action_authorization m ev tok False) = False"
  by (simp add: resolve_action_authorization_def Let_def)

lemma unapproved_plan_reads:
  assumes "ev \<in> set (snd (run_action_plan env plan stage details))" "is_provider_call ev"
    and "x \<in> set curated_actions" "ap_action_slug plan = cu_slug x"
    and "ap_mutation plan = mutation_value (cu_mutation x)" "\<not> ap_approval_token_present plan"
  shows "\<exists>slug account args. ev = ProviderCalled slug (cu_slug x) account args \<and> cu_mutation x = MRead"
proof -
  from run_plan_calls [OF assms(1,2)] have "gd_allowed (plan_gateway plan)" by simp
  from gateway_needs_approval [OF this] assms(6) have "cu_mutation x \<noteq> MApply"
    unfolding assms(5) mutation_words by blast
  with curated_mutations [OF assms(3)] have "cu_mutation x = MRead" by auto
  with run_plan_calls [OF assms(1,2)] show ?thesis
    by (auto simp: build_execution_request_def assms(4) curated_slug_policy [OF assms(3)])
qed

lemma tool_execute_runs:
  assumes "ev \<in> set (snd (generic_tool_execute env isofmt up config gate allowed p a ref m arguments evidence
       approval False prompt user storage rid table))"
  obtains x config' effective connection auth details where "x \<in> set curated_actions"
    "\<not> az_trusted_approval_token_present auth"
    "ev \<in> set (snd (run_action_plan env (generic_tool_plan config' effective user storage connection
        ref rid x auth arguments details) ''generic_execute'' details))"
proof (cases "get_provider_entry (policy_provider_slug p)")
  case None
  with assms that show thesis by (simp add: generic_tool_execute_def Let_def split: if_splits)
next
  case (Some entry)
  let ?eff = "execution_enabled_entry entry config"
  let ?policy = "select_action (pe_slug ?eff) a m (pe_action_allowlist ?eff) prompt"
  show thesis
  proof (cases "if pd_selected_status ?policy then pd_selected_action ?policy else None")
    case None
    with assms Some that show thesis by (simp add: generic_tool_execute_def Let_def split: if_splits)
  next
    case sel: (Some x)
    then have "x \<in> set curated_actions" by (auto intro: selected_action_curated split: if_splits)
    with assms Some sel show thesis
      by (auto intro!: that simp: generic_tool_execute_def Let_def untrusted_approval split_beta
          split: if_splits option.splits)
  qed
qed

text \<open>C32: The agent tool cannot change anything on its own: without the backend's verification, whatever
  the model claims about previews and approvals, the only actions it can make reach a provider are
  curated reads.\<close>

theorem unverified_tool_only_reads:
  "list_all (\<lambda>ev. case ev of
      ProviderCalled slug action account args \<Rightarrow>
        list_ex (\<lambda>x. cu_slug x = action \<and> cu_mutation x = MRead) curated_actions
    | _ \<Rightarrow> True)
    (snd (generic_tool_execute env isofmt up config gate allowed p a ref m arguments evidence approval False
       prompt user storage rid table))"
proof -
  have "case ev of
      ProviderCalled slug action account args \<Rightarrow>
        list_ex (\<lambda>x. cu_slug x = action \<and> cu_mutation x = MRead) curated_actions
    | _ \<Rightarrow> True"
    if ev: "ev \<in> set (snd (generic_tool_execute env isofmt up config gate allowed p a ref m arguments evidence
       approval False prompt user storage rid table))" for ev
  proof (cases "is_provider_call ev")
    case True
    from ev obtain x config' effective connection auth details where x: "x \<in> set curated_actions"
      and auth: "\<not> az_trusted_approval_token_present auth"
      and run: "ev \<in> set (snd (run_action_plan env (generic_tool_plan config' effective user storage connection
          ref rid x auth arguments details) ''generic_execute'' details))"
      by (rule tool_execute_runs)
    have plan: "ap_action_slug (generic_tool_plan config' effective user storage connection ref rid x auth
          arguments details) = cu_slug x"
      "ap_mutation (generic_tool_plan config' effective user storage connection ref rid x auth
          arguments details) = mutation_value (cu_mutation x)"
      "\<not> ap_approval_token_present (generic_tool_plan config' effective user storage connection ref rid x auth
          arguments details)" by (simp_all add: generic_tool_plan_def Let_def auth)
    from unapproved_plan_reads [OF run True x plan] x show ?thesis by (auto simp: list_ex_iff)
  qed (cases ev; simp)
  then show ?thesis by (simp add: list_all_iff)
qed

section \<open>A mutation declared as a read\<close>

definition apply_config :: composio_config where
  "apply_config =
     \<lparr>cc_enabled = True, cc_api_key = ''k'', cc_api_key_present = True, cc_base_url = ''u'',
      cc_api_version = ''v3'', cc_auth_config_by_provider = [], cc_readonly_execute_enabled = False,
      cc_readonly_allowlist = [], cc_apply_execute_enabled = True,
      cc_apply_allowlist = [(''facebook'', [''FACEBOOK_CREATE_POST''])]\<rparr>"

definition ready_storage :: "(string, pyval) dict" where
  "ready_storage = [(''persistent'', PBool True), (''connection_table_ready'', PBool True),
     (''audit_ledger_ready'', PBool True)]"

definition reader_connection :: connection_record where
  "reader_connection = sample_connection\<lparr>cr_scopes := no_scopes\<lparr>sg_read := True\<rparr>\<rparr>"

text \<open>A post, declared as a read, with no preview and no approval.\<close>

definition declared_read_body :: api_body where
  "declared_read_body =
     \<lparr>ab_surface = ''desktop'', ab_connection_id = None, ab_connection_ref = Some ''wcn_1'',
      ab_action_slug = ''FACEBOOK_CREATE_POST'', ab_path = ''external_app_action'', ab_mutation = ''read'',
      ab_preview_evidence_required = False, ab_preview_evidence_id = None,
      ab_approval_token_present = False, ab_arguments = [(''message'', PStr ''hi'')]\<rparr>"

definition declared_read_plan :: action_plan where
  "declared_read_plan = api_plan apply_config (the (get_provider_entry ''facebook''))
     \<lparr>au_user_id = ''u1'', au_organization_id = Some ''org''\<rparr> ready_storage (Some reader_connection) None
     declared_read_body"

definition post_schema_reply :: http_reply where
  "post_schema_reply = Reply 200 (Some (PDict [(''slug'', PStr ''FACEBOOK_CREATE_POST''),
     (''schema'', PDict [(''properties'', PDict [(''message'', PNone)]), (''required'', PList [PStr ''message''])])]))"

lemma facebook_entry: "get_provider_entry ''facebook'' = Some (provider_registry ! 0)"
proof -
  have "normalize_provider_slug ''facebook'' = ''facebook''" by code_simp
  then show ?thesis by (simp add: get_provider_entry_def provider_registry_def composio_entry_def)
qed

lemma apply_config_slugs: "apply_action_slugs apply_config ''facebook'' = [''FACEBOOK_CREATE_POST'']"
  by code_simp

lemma apply_config_execution: "\<not> cc_readonly_execute_enabled apply_config" "cc_apply_execute_enabled apply_config"
  by (simp_all add: apply_config_def)

lemma apply_config_capability:
  "ac_provider_kind (composio_adapter_capability apply_config) = Composio"
  "ac_bound (composio_adapter_capability apply_config)"
  "ac_configured (composio_adapter_capability apply_config)"
  "ac_can_execute_actions (composio_adapter_capability apply_config)"
  "authorization_ready (composio_adapter_capability apply_config)"
  by (simp_all add: composio_adapter_capability_def apply_config_def allowlist_count_def authorization_ready_def)

lemma facebook_registered: "provider_registry ! 0 \<in> set provider_registry" "pe_slug (provider_registry ! 0) = ''facebook''"
  by (simp_all add: provider_registry_def composio_entry_def)

lemma apply_entry:
  assumes "e = execution_enabled_entry (provider_registry ! 0) apply_config"
  shows "pe_slug e = ''facebook''" "pe_provider_kind e = Composio" "pe_allowed_paths e = [''external_app_action'']"
    "pe_enabled e" "pe_agent_ready e" "pe_action_allowlist e = [''FACEBOOK_CREATE_POST'']"
    "sg_read (pe_default_scopes e)"
proof -
  have slug: "normalize_provider_slug ''facebook'' = ''facebook''"
    using registry_entry_fields(7) [OF facebook_registered(1)] facebook_registered(2) by simp
  have "executable_action_slugs apply_config (pe_slug (provider_registry ! 0)) = [''FACEBOOK_CREATE_POST'']"
    by (simp add: executable_action_slugs_def facebook_registered slug apply_config_slugs apply_config_execution)
  with enabled_entry_fields [OF facebook_registered(1) apply_config_capability(5)]
  show "pe_slug e = ''facebook''" "pe_provider_kind e = Composio" "pe_allowed_paths e = [''external_app_action'']"
    "pe_enabled e" "pe_agent_ready e" "pe_action_allowlist e = [''FACEBOOK_CREATE_POST'']"
    "sg_read (pe_default_scopes e)" by (simp_all add: assms facebook_registered)
qed

lemma post_words:
  "policy_action_slug ''FACEBOOK_CREATE_POST'' = ''FACEBOOK_CREATE_POST''"
  "policy_provider_slug ''facebook'' = ''facebook''" "policy_safe_slug ''facebook'' = ''facebook''"
  "safe_mutation ''read'' = MRead" "mutation_value MRead = ''read''" "request_mutation ''read'' = MRead"
  "take 120 (dash_to_underscore (py_lower (py_strip ''external_app_action''))) = ''external_app_action''"
  "api_selected_ref declared_read_body = ''wcn_1''"
  "authorization_safe_id None = None"
  by code_simp+

lemma declared_read_fields:
  "pe_slug (ap_entry declared_read_plan) = ''facebook''"
  "ap_config declared_read_plan = apply_config" "ap_storage declared_read_plan = ready_storage"
  "ap_connection declared_read_plan = Some reader_connection"
  "ap_entry declared_read_plan = execution_enabled_entry (provider_registry ! 0) apply_config"
  "ap_action_slug declared_read_plan = ''FACEBOOK_CREATE_POST''"
  "ap_mutation declared_read_plan = ''read''" "ap_path declared_read_plan = ''external_app_action''"
  "ap_request_id declared_read_plan = None" "\<not> ap_selection_required declared_read_plan"
  "\<not> ap_preview_evidence_required declared_read_plan"
  "\<not> ap_approval_token_present declared_read_plan" "ap_preview_evidence_id declared_read_plan = None"
  "ap_arguments declared_read_plan
     = model_visible_arguments ''facebook'' ''FACEBOOK_CREATE_POST'' (Some [(''message'', PStr ''hi'')])"
  using apply_entry [OF refl] post_words
  by (simp_all add: declared_read_plan_def api_plan_def facebook_entry Let_def,
      simp_all add: declared_read_body_def resolve_action_authorization_def mutating_actions_def)

lemma declared_read_gateway: "gd_allowed (plan_gateway declared_read_plan)"
proof -
  have "audit_persistent ready_storage"
    by (simp add: audit_persistent_def ready_storage_def row_flag_def)
  moreover have "allows_action e ''FACEBOOK_CREATE_POST''"
    if "pe_action_allowlist e = [''FACEBOOK_CREATE_POST'']" for e
    by (simp add: allows_action_def that) code_simp
  moreover have "cr_provider_slug reader_connection = ''facebook''" "cr_active reader_connection"
    "allows (cr_scopes reader_connection) ScRead"
    by (simp_all add: reader_connection_def sample_connection_def cr_active_def)
  ultimately show ?thesis using apply_entry [OF refl] post_words
    by (simp add: plan_gateway_def gateway_allowed_fact decide_allowed_iff execution_checks_def
        declared_read_fields build_execution_request_def apply_config_capability
        scope_policy_for_entry_def ledger_persistent_def)
qed

lemma run_plan_sends:
  assumes "gd_allowed (plan_gateway plan)" "slug = pe_slug (ap_entry plan)"
    and "action = xr_action_slug (build_execution_request plan)"
    and "sr = verify_tool_schema (ee_str_of env) (ap_config plan) slug action
      (xr_request_id (build_execution_request plan)) (ee_schema_reply env slug action)"
    and "sr_ready sr" "missing_required_argument_keys (sr_required_argument_keys sr) (ap_arguments plan) = []"
    and "ap_connection plan = Some c" "cr_connection_id c \<noteq> []"
  shows "ProviderCalled slug action (cr_connection_id c) (ap_arguments plan)
    \<in> set (snd (run_action_plan env plan stage details))"
proof -
  have refusal: "schema_refusal (ap_config plan) (normalize_provider_slug slug) (normalize_action_slug action) = None"
    using assms(4,5) schema_ready_asked by blast
  then have sent: "execute_refusal (ap_config plan) (normalize_provider_slug slug) (normalize_action_slug action)
      (external_user_id sha org user) (cr_connection_id c) = None" for sha org user
    using assms(8) by (auto simp: schema_refusal_def execute_refusal_None external_user_id_def Let_def split: if_splits)
  have pre: "fst (preflight_backend_action env plan) = \<lparr>ax_status = ''ready'', ax_reason = ''ready'',
      ax_request = build_execution_request plan, ax_gateway = plan_gateway plan, ax_schema = Some sr,
      ax_execution = None, ax_missing_argument_keys = []\<rparr>"
    using assms(1,5) by (simp add: preflight_backend_action_def Let_def assms(2-4))
  show ?thesis
    using sent assms(6,7)
    by (simp add: run_action_plan_def split_beta Let_def pre execute_backend_action_def run_tool_def assms(2,3))
qed

text \<open>The API endpoint takes the mutation class from the request body: a deployment that enables the
  reviewed post action lets a client that declares the post as a \<open>read\<close> send it without preview and
  without approval, on a connection that was granted no more than reading.\<close>

theorem declared_read_sends_unapproved_post:
  assumes "ee_schema_reply env ''facebook'' ''FACEBOOK_CREATE_POST'' = post_schema_reply"
  shows "ProviderCalled ''facebook'' ''FACEBOOK_CREATE_POST'' ''c1'' [(''message'', PStr ''hi'')]
      \<in> set (snd (run_action_plan env declared_read_plan stage details))
    \<and> \<not> ap_approval_token_present declared_read_plan \<and> ap_preview_evidence_id declared_read_plan = None"
proof
  have args: "ap_arguments declared_read_plan = [(''message'', PStr ''hi'')]"
    unfolding declared_read_fields by code_simp
  have request: "xr_action_slug (build_execution_request declared_read_plan) = ''FACEBOOK_CREATE_POST''"
    "xr_request_id (build_execution_request declared_read_plan) = []"
    by (simp_all add: build_execution_request_def declared_read_fields post_words str_or_empty_def)
  have c: "cr_connection_id reader_connection = ''c1''"
    by (simp add: reader_connection_def sample_connection_def)
  let ?sr = "verify_tool_schema (ee_str_of env) apply_config ''facebook'' ''FACEBOOK_CREATE_POST'' [] post_schema_reply"
  have sr: "sr_ready ?sr" "missing_required_argument_keys (sr_required_argument_keys ?sr) [(''message'', PStr ''hi'')] = []"
    by code_simp+
  from run_plan_sends [OF declared_read_gateway refl refl refl, of env reader_connection stage details] sr
  show "ProviderCalled ''facebook'' ''FACEBOOK_CREATE_POST'' ''c1'' [(''message'', PStr ''hi'')]
      \<in> set (snd (run_action_plan env declared_read_plan stage details))"
    by (simp add: declared_read_fields(1-4) args request c assms)
  show "\<not> ap_approval_token_present declared_read_plan \<and> ap_preview_evidence_id declared_read_plan = None"
    by (simp add: declared_read_fields)
qed

definition sample_env :: executor_env where
  "sample_env = \<lparr>ee_now = ''2026-01-01'', ee_str_of = (\<lambda>_. ''x''), ee_sha = id,
     ee_schema_reply = (\<lambda>_ _. post_schema_reply), ee_execute_reply = (\<lambda>_ _ _ _. TransportError)\<rparr>"

theorem declared_read_sends_unapproved_post_witness:
  "ProviderCalled ''facebook'' ''FACEBOOK_CREATE_POST'' ''c1'' [(''message'', PStr ''hi'')]
     \<in> set (snd (run_action_plan sample_env declared_read_plan ''api_execute'' []))"
  using declared_read_sends_unapproved_post [of sample_env "''api_execute''" "[]"]
  by (simp add: sample_env_def)

end
