(* ===== verification/Failure_Gate.thy ===== *)
theory Failure_Gate
  imports Prelude
begin

text \<open>
  The contract of a circuit breaker, whatever its states are called: calls are refused only after a
  number of failures without a success in between, and only while the last one is \<open>recent\<close>.
  \<open>ask\<close> is the state change of asking for permission, \<open>blocked\<close> the refusal. The three breakers of
  the service interpret the locale.
\<close>

datatype gate_event = Asked pyfloat | Failed pyfloat | Succeeded pyfloat

text \<open>Failures since the last success, and the time of the last failure, read off a history.\<close>

fun trailing_failures :: "gate_event list \<Rightarrow> nat" where
  "trailing_failures [] = 0"
| "trailing_failures (Succeeded _ # es) = trailing_failures es"
| "trailing_failures (Asked _ # es) = trailing_failures es"
| "trailing_failures (Failed _ # es) =
     (if \<exists>t. Succeeded t \<in> set es then trailing_failures es else Suc (trailing_failures es))"

fun last_failure_in :: "pyfloat \<Rightarrow> gate_event list \<Rightarrow> pyfloat" where
  "last_failure_in t [] = t"
| "last_failure_in t (Failed u # es) = last_failure_in u es"
| "last_failure_in t (_ # es) = last_failure_in t es"

lemma trailing_failures_snoc [simp]:
  "trailing_failures (es @ [Failed t]) = Suc (trailing_failures es)"
  "trailing_failures (es @ [Asked t]) = trailing_failures es"
  "trailing_failures (es @ [Succeeded t]) = 0"
  by (induction es rule: trailing_failures.induct) auto

lemma last_failure_in_snoc [simp]:
  "last_failure_in u (es @ [Failed t]) = t"
  "last_failure_in u (es @ [Asked t]) = last_failure_in u es"
  "last_failure_in u (es @ [Succeeded t]) = last_failure_in u es"
  by (induction u es rule: last_failure_in.induct) simp_all

primrec gate_step ::
  "(pyfloat \<Rightarrow> 's \<Rightarrow> 's) \<Rightarrow> (pyfloat \<Rightarrow> 's \<Rightarrow> 's) \<Rightarrow> (pyfloat \<Rightarrow> 's \<Rightarrow> 's) \<Rightarrow> gate_event \<Rightarrow> 's \<Rightarrow> 's"
where
  "gate_step ask fail succeed (Asked t) s = ask t s"
| "gate_step ask fail succeed (Failed t) s = fail t s"
| "gate_step ask fail succeed (Succeeded t) s = succeed t s"

definition gate_run ::
  "(pyfloat \<Rightarrow> 's \<Rightarrow> 's) \<Rightarrow> (pyfloat \<Rightarrow> 's \<Rightarrow> 's) \<Rightarrow> (pyfloat \<Rightarrow> 's \<Rightarrow> 's) \<Rightarrow> gate_event list \<Rightarrow> 's \<Rightarrow> 's"
where
  "gate_run ask fail succeed es s = fold (gate_step ask fail succeed) es s"

lemma gate_run_simps [simp]:
  "gate_run ask fail succeed [] s = s"
  "gate_run ask fail succeed (es @ [e]) s = gate_step ask fail succeed e (gate_run ask fail succeed es s)"
  by (simp_all add: gate_run_def)

locale failure_gate =
  fixes threshold :: int and recent :: "pyfloat \<Rightarrow> bool"
    and blocked :: "pyfloat \<Rightarrow> 's \<Rightarrow> bool"
    and ask :: "pyfloat \<Rightarrow> 's \<Rightarrow> 's"
    and fail :: "pyfloat \<Rightarrow> 's \<Rightarrow> 's"
    and succeed :: "pyfloat \<Rightarrow> 's \<Rightarrow> 's"
    and failures :: "'s \<Rightarrow> nat"
    and last_failure :: "'s \<Rightarrow> pyfloat"
    and invar :: "'s \<Rightarrow> bool"
  assumes blocked_justified:
      "invar s \<Longrightarrow> blocked now s \<Longrightarrow> threshold \<le> int (failures s) \<and> recent (now - last_failure s)"
    and failures_fail: "invar s \<Longrightarrow> failures (fail t s) = Suc (failures s)"
    and last_failure_fail: "invar s \<Longrightarrow> last_failure (fail t s) = t"
    and failures_succeed: "invar s \<Longrightarrow> failures (succeed t s) = 0"
    and last_failure_succeed: "invar s \<Longrightarrow> last_failure (succeed t s) = last_failure s"
    and failures_ask: "invar s \<Longrightarrow> failures (ask t s) \<le> failures s"
    and last_failure_ask: "invar s \<Longrightarrow> last_failure (ask t s) = last_failure s"
    and invar_fail: "invar s \<Longrightarrow> invar (fail t s)"
    and invar_succeed: "invar s \<Longrightarrow> invar (succeed t s)"
    and invar_ask: "invar s \<Longrightarrow> invar (ask t s)"
    and fail_blocks:
      "invar s \<Longrightarrow> threshold \<le> int (Suc (failures s)) \<Longrightarrow> recent (now - t) \<Longrightarrow> blocked now (fail t s)"
begin

lemma gate_run_invar: "invar s \<Longrightarrow> invar (gate_run ask fail succeed es s)"
proof (induction es rule: rev_induct)
  case (snoc e es)
  then show ?case by (cases e) (simp_all add: invar_fail invar_succeed invar_ask)
qed simp

lemma gate_run_history:
  "invar s \<Longrightarrow> failures s = 0 \<Longrightarrow>
   failures (gate_run ask fail succeed es s) \<le> trailing_failures es \<and>
   last_failure (gate_run ask fail succeed es s) = last_failure_in (last_failure s) es"
proof (induction es rule: rev_induct)
  case (snoc e es)
  note i = gate_run_invar [OF snoc.prems(1), of es]
  show ?case
  proof (cases e)
    case (Asked t)
    then show ?thesis
      using snoc failures_ask [OF i, of t] last_failure_ask [OF i, of t] by simp
  next
    case (Failed t)
    then show ?thesis
      using snoc failures_fail [OF i, of t] last_failure_fail [OF i, of t] by simp
  next
    case (Succeeded t)
    then show ?thesis
      using snoc failures_succeed [OF i, of t] last_failure_succeed [OF i, of t] by simp
  qed
qed simp

text \<open>A refusal is always explained by the history.\<close>

lemma refusal_explained:
  assumes "invar s" "failures s = 0" "blocked now (gate_run ask fail succeed es s)"
  shows "threshold \<le> int (trailing_failures es) \<and> recent (now - last_failure_in (last_failure s) es)"
  using gate_run_history [OF assms(1,2), of es] blocked_justified [OF gate_run_invar [OF assms(1)] assms(3)]
  by auto

text \<open>Enough failures in a row do refuse calls, until the time is over.\<close>

lemma failures_in_row:
  "invar s \<Longrightarrow> failures (gate_run ask fail succeed (map Failed ts) s) = failures s + length ts"
proof (induction ts rule: rev_induct)
  case (snoc t ts)
  then show ?case
    using failures_fail [OF gate_run_invar [OF snoc.prems], of t] by simp
qed simp

lemma refuses_after_failures:
  assumes "invar s" "threshold \<le> int (Suc (length ts))" "recent (now - t)"
  shows "blocked now (gate_run ask fail succeed (map Failed (ts @ [t])) s)"
proof -
  have "blocked now (fail t (gate_run ask fail succeed (map Failed ts) s))"
    by (rule fail_blocks [OF gate_run_invar [OF assms(1)] _ assms(3)])
      (use failures_in_row [OF assms(1)] assms(2) in simp)
  then show ?thesis by simp
qed

end

end
