(* ===== verification/Resilience.thy ===== *)
theory Resilience
  imports Failure_Gate
begin

text \<open>
  \<open>app/core/resilience.py\<close>: the circuit breaker of external services with its two call wrappers and
  registry, and the retry wrapper. \<open>time.time()\<close> is an argument; the lock makes each transition one
  step, calls in flight between two transitions interleave freely (\<open>cb_step\<close>). Logging and the
  rounded statistics are left out.
\<close>

section \<open>The breaker\<close>

datatype circuit_state = CircuitClosed | CircuitOpen | CircuitHalfOpen

fun circuit_state_value :: "circuit_state \<Rightarrow> string" where
  "circuit_state_value CircuitClosed = ''closed''"
| "circuit_state_value CircuitOpen = ''open''"
| "circuit_state_value CircuitHalfOpen = ''half_open''"

record circuit_breaker =
  cb_name :: string
  cb_failure_threshold :: int
  cb_recovery_timeout :: pyfloat
  cb_state :: circuit_state
  cb_failure_count :: nat
  cb_success_count :: nat
  cb_last_failure_time :: pyfloat
  cb_last_state_change :: pyfloat

definition new_circuit_breaker :: "pyfloat \<Rightarrow> string \<Rightarrow> int \<Rightarrow> pyfloat \<Rightarrow> circuit_breaker" where
  "new_circuit_breaker now name failure_threshold recovery_timeout =
     \<lparr>cb_name = name, cb_failure_threshold = failure_threshold,
      cb_recovery_timeout = recovery_timeout, cb_state = CircuitClosed, cb_failure_count = 0,
      cb_success_count = 0, cb_last_failure_time = 0, cb_last_state_change = now\<rparr>"

definition cb_is_available :: "pyfloat \<Rightarrow> circuit_breaker \<Rightarrow> bool" where
  "cb_is_available now b =
     (case cb_state b of
        CircuitClosed \<Rightarrow> True
      | CircuitOpen \<Rightarrow> now - cb_last_failure_time b \<ge> cb_recovery_timeout b
      | CircuitHalfOpen \<Rightarrow> True)"

definition cb_retry_after :: "pyfloat \<Rightarrow> circuit_breaker \<Rightarrow> pyfloat" where
  "cb_retry_after now b =
     (if cb_state b \<noteq> CircuitOpen then 0
      else max 0 (cb_recovery_timeout b - (now - cb_last_failure_time b)))"

definition cb_record_success :: "pyfloat \<Rightarrow> circuit_breaker \<Rightarrow> circuit_breaker" where
  "cb_record_success now b =
     (let b' = b\<lparr>cb_failure_count := 0, cb_success_count := Suc (cb_success_count b)\<rparr>
      in if cb_state b \<noteq> CircuitClosed
         then b'\<lparr>cb_state := CircuitClosed, cb_last_state_change := now\<rparr> else b')"

definition cb_record_failure :: "pyfloat \<Rightarrow> circuit_breaker \<Rightarrow> circuit_breaker" where
  "cb_record_failure now b =
     (let b' = b\<lparr>cb_failure_count := Suc (cb_failure_count b), cb_last_failure_time := now\<rparr>
      in if cb_state b = CircuitHalfOpen
         then b'\<lparr>cb_state := CircuitOpen, cb_last_state_change := now\<rparr>
         else if cb_state b = CircuitClosed \<and> int (cb_failure_count b') \<ge> cb_failure_threshold b
         then b'\<lparr>cb_state := CircuitOpen, cb_last_state_change := now\<rparr>
         else b')"

text \<open>\<open>_check_and_acquire\<close>: the error carries the seconds until a retry makes sense.\<close>

definition cb_check_and_acquire :: "pyfloat \<Rightarrow> circuit_breaker \<Rightarrow> pyfloat + circuit_breaker" where
  "cb_check_and_acquire now b =
     (case cb_state b of
        CircuitClosed \<Rightarrow> Inr b
      | CircuitOpen \<Rightarrow>
          let elapsed = now - cb_last_failure_time b
          in if elapsed \<ge> cb_recovery_timeout b
             then Inr (b\<lparr>cb_state := CircuitHalfOpen, cb_last_state_change := now\<rparr>)
             else Inl (cb_recovery_timeout b - elapsed)
      | CircuitHalfOpen \<Rightarrow> Inr b)"

text \<open>
  How a protected call ends. The context manager records every exception as a failure; the decorators
  catch \<open>Exception\<close> only, so a cancellation leaves the breaker as it is.
\<close>

datatype call_end = CallReturned | CallRaised | CallCancelled

fun cb_exit :: "pyfloat \<Rightarrow> call_end \<Rightarrow> circuit_breaker \<Rightarrow> circuit_breaker" where
  "cb_exit now CallReturned b = cb_record_success now b"
| "cb_exit now _ b = cb_record_failure now b"

fun cb_protect_end :: "pyfloat \<Rightarrow> call_end \<Rightarrow> circuit_breaker \<Rightarrow> circuit_breaker" where
  "cb_protect_end now CallReturned b = cb_record_success now b"
| "cb_protect_end now CallRaised b = cb_record_failure now b"
| "cb_protect_end now CallCancelled b = b"

section \<open>The registry\<close>

type_synonym breaker_registry = "(string, circuit_breaker) dict"

definition get_circuit_breaker ::
  "pyfloat \<Rightarrow> string \<Rightarrow> int \<Rightarrow> pyfloat \<Rightarrow> breaker_registry \<Rightarrow> circuit_breaker \<times> breaker_registry" where
  "get_circuit_breaker now name failure_threshold recovery_timeout registry =
     (case dict_get registry name of
        Some b \<Rightarrow> (b, registry)
      | None \<Rightarrow>
          let b = new_circuit_breaker now name failure_threshold recovery_timeout
          in (b, dict_set name b registry))"

section \<open>Retries\<close>

record raised_error =
  re_class :: string
  re_transient_type :: bool
  re_status_code :: "int option"
  re_status :: "int option"

definition transient_http_codes :: "int list" where
  "transient_http_codes = [429, 502, 503, 504]"

definition is_transient :: "raised_error \<Rightarrow> bool" where
  "is_transient e =
     (if re_transient_type e then True
      else
        let status = (case re_status_code e of
              Some c \<Rightarrow> if c \<noteq> 0 then Some c else re_status e | None \<Rightarrow> re_status e)
        in if (case status of Some c \<Rightarrow> c \<noteq> 0 \<and> c \<in> set transient_http_codes | None \<Rightarrow> False) then True
           else re_class e \<in> set [''ResourceExhausted'', ''RateLimitError'', ''ServiceUnavailable''])"

record retry_config =
  rc_max_attempts :: int
  rc_base_delay :: pyfloat
  rc_max_delay :: pyfloat
  rc_jitter :: bool

text \<open>The result of the wrapper: a value, the re-raised error, or \<open>raise None\<close> when no attempt is made.\<close>

datatype 'r retry_result = RetryReturned 'r | RetryRaised raised_error | RetryNoAttempt

definition retry_delay :: "retry_config \<Rightarrow> pyfloat \<Rightarrow> nat \<Rightarrow> pyfloat" where
  "retry_delay c u attempt =
     (let delay = min (rc_base_delay c * 2 ^ (attempt - 1)) (rc_max_delay c)
      in if rc_jitter c then delay * (1 / 2 + u) else delay)"

text \<open>
  The loop from an attempt on: the result and the sleeps in order. \<open>call n\<close> is the outcome of attempt
  \<open>n\<close>, \<open>random n\<close> its draw of \<open>random()\<close>.
\<close>

function retry_from ::
  "retry_config \<Rightarrow> (nat \<Rightarrow> raised_error + 'r) \<Rightarrow> (nat \<Rightarrow> pyfloat) \<Rightarrow> nat \<Rightarrow> 'r retry_result \<times> pyfloat list"
where
  "retry_from c call random attempt =
     (if int attempt > rc_max_attempts c then (RetryNoAttempt, [])
      else case call attempt of
        Inr r \<Rightarrow> (RetryReturned r, [])
      | Inl e \<Rightarrow>
          if \<not> is_transient e \<or> int attempt = rc_max_attempts c then (RetryRaised e, [])
          else let (result, sleeps) = retry_from c call random (Suc attempt)
               in (result, retry_delay c (random attempt) attempt # sleeps))"
  by pat_completeness auto
termination
  by (relation "measure (\<lambda>(c, call, random, attempt). nat (rc_max_attempts c + 1 - int attempt))") auto

declare retry_from.simps [simp del]

definition retry_on_transient ::
  "retry_config \<Rightarrow> (nat \<Rightarrow> raised_error + 'r) \<Rightarrow> (nat \<Rightarrow> pyfloat) \<Rightarrow> 'r retry_result \<times> pyfloat list" where
  "retry_on_transient c call random = retry_from c call random 1"

section \<open>The breaker keeps the contract\<close>

definition cb_configured :: "int \<Rightarrow> pyfloat \<Rightarrow> circuit_breaker \<Rightarrow> bool" where
  "cb_configured threshold timeout b \<longleftrightarrow>
     cb_failure_threshold b = threshold \<and> cb_recovery_timeout b = timeout"

definition cb_invar :: "int \<Rightarrow> pyfloat \<Rightarrow> circuit_breaker \<Rightarrow> bool" where
  "cb_invar threshold timeout b \<longleftrightarrow> cb_configured threshold timeout b \<and>
     (cb_state b = CircuitClosed \<or> threshold \<le> int (cb_failure_count b))"

definition cb_blocked :: "pyfloat \<Rightarrow> circuit_breaker \<Rightarrow> bool" where
  "cb_blocked now b \<longleftrightarrow> isl (cb_check_and_acquire now b)"

definition cb_ask :: "pyfloat \<Rightarrow> circuit_breaker \<Rightarrow> circuit_breaker" where
  "cb_ask now b = (case cb_check_and_acquire now b of Inl _ \<Rightarrow> b | Inr b' \<Rightarrow> b')"

lemma cb_blocked_iff:
  "cb_blocked now b \<longleftrightarrow> cb_state b = CircuitOpen \<and> now - cb_last_failure_time b < cb_recovery_timeout b"
  by (auto simp: cb_blocked_def cb_check_and_acquire_def Let_def isl_def split: circuit_state.splits)

lemma cb_ask_fields [simp]:
  "cb_failure_count (cb_ask t b) = cb_failure_count b"
  "cb_last_failure_time (cb_ask t b) = cb_last_failure_time b"
  "cb_failure_threshold (cb_ask t b) = cb_failure_threshold b"
  "cb_recovery_timeout (cb_ask t b) = cb_recovery_timeout b"
  "cb_state b = CircuitClosed \<Longrightarrow> cb_state (cb_ask t b) = CircuitClosed"
  by (auto simp: cb_ask_def cb_check_and_acquire_def Let_def split: circuit_state.splits)

lemma cb_record_fields [simp]:
  "cb_failure_count (cb_record_success t b) = 0" "cb_state (cb_record_success t b) = CircuitClosed"
  "cb_last_failure_time (cb_record_success t b) = cb_last_failure_time b"
  "cb_failure_threshold (cb_record_success t b) = cb_failure_threshold b"
  "cb_recovery_timeout (cb_record_success t b) = cb_recovery_timeout b"
  "cb_failure_count (cb_record_failure t b) = Suc (cb_failure_count b)"
  "cb_last_failure_time (cb_record_failure t b) = t"
  "cb_failure_threshold (cb_record_failure t b) = cb_failure_threshold b"
  "cb_recovery_timeout (cb_record_failure t b) = cb_recovery_timeout b"
  "cb_state (cb_record_failure t b) =
     (if cb_state b = CircuitClosed \<and> int (Suc (cb_failure_count b)) < cb_failure_threshold b
      then CircuitClosed else CircuitOpen)"
  by (cases "cb_state b"; auto simp: cb_record_success_def cb_record_failure_def Let_def)+

interpretation breaker_gate: failure_gate threshold "\<lambda>d. d < timeout" cb_blocked cb_ask cb_record_failure
    cb_record_success cb_failure_count cb_last_failure_time "cb_invar threshold timeout"
  for threshold timeout
  by unfold_locales
    (auto simp: cb_invar_def cb_configured_def cb_blocked_iff split: if_splits)

section \<open>Calls in flight\<close>

text \<open>
  A breaker shared by any number of concurrent calls: a call is admitted, or one of the calls in flight
  ends, through the context manager or through a decorator.
\<close>

record cb_system =
  sy_breaker :: circuit_breaker
  sy_in_flight :: nat

inductive cb_step :: "cb_system \<Rightarrow> cb_system \<Rightarrow> bool" where
  cb_admit: "cb_check_and_acquire now (sy_breaker s) = Inr b \<Longrightarrow>
     cb_step s \<lparr>sy_breaker = b, sy_in_flight = Suc (sy_in_flight s)\<rparr>"
| cb_end_context: "sy_in_flight s = Suc n \<Longrightarrow>
     cb_step s \<lparr>sy_breaker = cb_exit now e (sy_breaker s), sy_in_flight = n\<rparr>"
| cb_end_protected: "sy_in_flight s = Suc n \<Longrightarrow>
     cb_step s \<lparr>sy_breaker = cb_protect_end now e (sy_breaker s), sy_in_flight = n\<rparr>"

inductive_cases cb_stepE: "cb_step s t"

inductive cb_reachable :: "circuit_breaker \<Rightarrow> cb_system \<Rightarrow> bool" for b0 where
  cb_start: "cb_reachable b0 \<lparr>sy_breaker = b0, sy_in_flight = 0\<rparr>"
| cb_next: "cb_reachable b0 s \<Longrightarrow> cb_step s t \<Longrightarrow> cb_reachable b0 t"

lemma cb_end_invar [intro]:
  "cb_invar thr tmo b \<Longrightarrow> cb_invar thr tmo (cb_exit t e b)"
  "cb_invar thr tmo b \<Longrightarrow> cb_invar thr tmo (cb_protect_end t e b)"
  by (cases e; simp add: breaker_gate.invar_fail breaker_gate.invar_succeed)+

lemma cb_acquire_ask: "cb_check_and_acquire t b = Inr b' \<Longrightarrow> b' = cb_ask t b"
  by (simp add: cb_ask_def)

lemma cb_step_invar: "cb_step s t \<Longrightarrow> cb_invar thr tmo (sy_breaker s) \<Longrightarrow> cb_invar thr tmo (sy_breaker t)"
  by (auto elim!: cb_stepE dest!: cb_acquire_ask intro: breaker_gate.invar_ask)

lemma cb_new_invar: "cb_invar thr tmo (new_circuit_breaker now name thr tmo)"
  by (simp add: cb_invar_def cb_configured_def new_circuit_breaker_def)

lemma cb_reachable_invar:
  "cb_reachable (new_circuit_breaker now name thr tmo) s \<Longrightarrow> cb_invar thr tmo (sy_breaker s)"
  by (induction rule: cb_reachable.induct) (auto simp: cb_new_invar intro: cb_step_invar)

section \<open>Facts about retries\<close>

lemma retry_from_trace:
  "retry_from c call random a = (result, sleeps) \<Longrightarrow>
   (case result of
      RetryReturned r \<Rightarrow> call (a + length sleeps) = Inr r
    | RetryRaised e \<Rightarrow> call (a + length sleeps) = Inl e
        \<and> (is_transient e \<longrightarrow> int (a + length sleeps) = rc_max_attempts c)
    | RetryNoAttempt \<Rightarrow> sleeps = [] \<and> int a > rc_max_attempts c)
   \<and> (result \<noteq> RetryNoAttempt \<longrightarrow> int (a + length sleeps) \<le> rc_max_attempts c)
   \<and> sleeps = map (\<lambda>n. retry_delay c (random n) n) [a ..< a + length sleeps]
   \<and> (\<forall>n. a \<le> n \<and> n < a + length sleeps \<longrightarrow> (\<exists>e. call n = Inl e \<and> is_transient e))"
proof (induction c call random a arbitrary: result sleeps rule: retry_from.induct)
  case (1 c call random a)
  show ?case
  proof (cases "int a > rc_max_attempts c")
    case True
    then show ?thesis using "1.prems" by (auto simp: retry_from.simps [of c call random a])
  next
    case within: False
    show ?thesis
    proof (cases "call a")
      case (Inr r)
      then show ?thesis using "1.prems" within by (auto simp: retry_from.simps [of c call random a])
    next
      case (Inl e)
      show ?thesis
      proof (cases "\<not> is_transient e \<or> int a = rc_max_attempts c")
        case True
        then show ?thesis using "1.prems" within Inl by (auto simp: retry_from.simps [of c call random a])
      next
        case False
        obtain result' sleeps' where rec: "retry_from c call random (Suc a) = (result', sleeps')"
          by (cases "retry_from c call random (Suc a)")
        then have eq: "result = result'" "sleeps = retry_delay c (random a) a # sleeps'"
          using "1.prems" within Inl False by (auto simp: retry_from.simps [of c call random a])
        have tail: "result' \<noteq> RetryNoAttempt"
          using "1.IH" [OF within Inl False rec] False within by (auto split: retry_result.splits)
        have range: "[a ..< a + length sleeps] = a # [Suc a ..< Suc a + length sleeps']"
          by (simp add: eq upt_conv_Cons del: upt_Suc)
        have calls: "\<exists>e. call n = Inl e \<and> is_transient e" if "a \<le> n" "n < a + length sleeps" for n
          using "1.IH" [OF within Inl False rec] that Inl False by (cases "n = a") (auto simp: eq)
        show ?thesis
          using "1.IH" [OF within Inl False rec] tail calls unfolding range
          by (auto simp: eq simp del: upt_Suc split: retry_result.splits)
      qed
    qed
  qed
qed

lemma retry_delay_bound:
  assumes "0 \<le> u" "u \<le> 1" "0 \<le> rc_max_delay c"
  shows "retry_delay c u n \<le> 3 / 2 * rc_max_delay c"
proof -
  let ?d = "min (rc_base_delay c * 2 ^ (n - 1)) (rc_max_delay c)"
  have "?d * (1 / 2 + u) \<le> rc_max_delay c * (3 / 2)"
  proof (cases "0 \<le> ?d")
    case True
    show ?thesis by (rule mult_mono) (use assms in auto)
  next
    case False
    then have "?d * (1 / 2 + u) \<le> 0" using assms by (simp add: mult_nonpos_nonneg)
    also have "0 \<le> rc_max_delay c * (3 / 2)" using assms by simp
    finally show ?thesis .
  qed
  then show ?thesis using assms by (auto simp: retry_delay_def Let_def)
qed

section \<open>Properties\<close>

text \<open>The breaker refuses a call only for a reason: whatever failures, successes and requests it has
  seen, when it refuses, at least the configured number of failures followed the last success and the
  last one is more recent than the recovery time; and that many failures in a row do make it refuse
  until the recovery time is over.\<close>

theorem breaker_refuses_exactly_after_failures:
  "(if cb_blocked now (gate_run cb_ask cb_record_failure cb_record_success es
         (new_circuit_breaker t0 name threshold timeout))
    then threshold \<le> int (trailing_failures es) \<and> now - last_failure_in 0 es < timeout else True)
   \<and> (if threshold \<le> int (Suc (length ts)) \<and> now - t < timeout
      then cb_blocked now (gate_run cb_ask cb_record_failure cb_record_success (map Failed (ts @ [t]))
             (new_circuit_breaker t0 name threshold timeout)) else True)"
  using breaker_gate.refusal_explained [OF cb_new_invar, where es = es and now1 = t0 and name1 = name]
    breaker_gate.refuses_after_failures [OF cb_new_invar, where ts = ts and t = t and now1 = t0 and name1 = name]
  by (auto simp: new_circuit_breaker_def)

text \<open>Under any interleaving of concurrent calls the breaker stays well formed: it keeps its configuration,
  and it is open or half-open only with at least the threshold of failures on record.\<close>

theorem breaker_invariant_under_concurrency:
  assumes "cb_reachable (new_circuit_breaker t0 name threshold timeout) s"
  shows "cb_failure_threshold (sy_breaker s) = threshold \<and> cb_recovery_timeout (sy_breaker s) = timeout
    \<and> (cb_state (sy_breaker s) = CircuitClosed \<or> threshold \<le> int (cb_failure_count (sy_breaker s)))"
  using cb_reachable_invar [OF assms] by (simp add: cb_invar_def cb_configured_def)

definition sample_breaker :: circuit_breaker where
  "sample_breaker = new_circuit_breaker 0 ''gemini'' 1 60"

definition half_open_with :: "nat \<Rightarrow> cb_system" where
  "half_open_with n =
     \<lparr>sy_breaker = sample_breaker\<lparr>cb_state := CircuitHalfOpen, cb_failure_count := 1,
        cb_last_failure_time := 1, cb_last_state_change := 61\<rparr>, sy_in_flight = n\<rparr>"

lemma half_open_reached: "cb_reachable sample_breaker (half_open_with (Suc n))"
proof (induction n)
  case 0
  let ?open = "cb_record_failure 1 sample_breaker"
  have "cb_reachable sample_breaker \<lparr>sy_breaker = sample_breaker, sy_in_flight = Suc 0\<rparr>"
    using cb_next [OF cb_start cb_admit [where now = 0]]
    by (simp add: cb_check_and_acquire_def sample_breaker_def new_circuit_breaker_def)
  from cb_next [OF this cb_end_protected [where now = 1 and e = CallRaised and n = 0]]
  have "cb_reachable sample_breaker \<lparr>sy_breaker = ?open, sy_in_flight = 0\<rparr>" by simp
  from cb_next [OF this cb_admit [where now = 61]] show ?case
    by (simp add: cb_check_and_acquire_def half_open_with_def sample_breaker_def new_circuit_breaker_def
        cb_record_failure_def Let_def)
next
  case (Suc n)
  from cb_next [OF Suc cb_admit [where now = 61]] show ?case
    by (simp add: cb_check_and_acquire_def half_open_with_def)
qed

text \<open>Half-open does not mean one test request: the class documents that a single request is let
  through, but the half-open breaker admits every caller, so for every number there is a run with
  that many test requests in flight at once.\<close>

theorem half_open_admits_any_number:
  "\<exists>s. cb_reachable sample_breaker s \<and> cb_state (sy_breaker s) = CircuitHalfOpen \<and> sy_in_flight s = Suc n"
  using half_open_reached [of n] by (intro exI [of _ "half_open_with (Suc n)"]) (simp add: half_open_with_def)

theorem breaker_invariant_under_concurrency_witness:
  "cb_failure_threshold (sy_breaker (half_open_with 2)) = 1 \<and> 1 \<le> int (cb_failure_count (sy_breaker (half_open_with 2)))"
  using breaker_invariant_under_concurrency [OF half_open_reached [unfolded sample_breaker_def], of 1]
  by (simp add: half_open_with_def numeral_2_eq_2)

text \<open>The retry wrapper always ends: it makes at most the configured number of attempts, every attempt
  but the last one failed with a transient error, the result is that of the last attempt, a transient
  error is only raised when the attempts are used up, and it sleeps once between two attempts. With
  no attempt configured the function is not called and the wrapper raises \<open>None\<close>.\<close>

theorem retries_end_with_last_outcome:
  "case retry_on_transient c call random of (result, sleeps) \<Rightarrow>
     (case result of
        RetryReturned r \<Rightarrow> call (Suc (length sleeps)) = Inr r
      | RetryRaised e \<Rightarrow> call (Suc (length sleeps)) = Inl e
          \<and> (if is_transient e then int (Suc (length sleeps)) = rc_max_attempts c else True)
      | RetryNoAttempt \<Rightarrow> sleeps = [] \<and> rc_max_attempts c < 1)
     \<and> int (length sleeps) \<le> max 0 (rc_max_attempts c - 1)
     \<and> sleeps = map (\<lambda>n. retry_delay c (random n) n) [1 ..< Suc (length sleeps)]
     \<and> list_all (\<lambda>n. case call n of Inl e \<Rightarrow> is_transient e | Inr _ \<Rightarrow> False) [1 ..< Suc (length sleeps)]"
proof -
  obtain result sleeps where r: "retry_from c call random 1 = (result, sleeps)"
    by (cases "retry_from c call random 1")
  note trace = retry_from_trace [OF r]
  have "list_all (\<lambda>n. case call n of Inl e \<Rightarrow> is_transient e | Inr _ \<Rightarrow> False) [1 ..< Suc (length sleeps)]"
    unfolding list_all_iff using trace by fastforce
  moreover have "int (length sleeps) \<le> max 0 (rc_max_attempts c - 1)"
    using trace by (cases result) auto
  moreover have "case result of
        RetryReturned r \<Rightarrow> call (Suc (length sleeps)) = Inr r
      | RetryRaised e \<Rightarrow> call (Suc (length sleeps)) = Inl e
          \<and> (if is_transient e then int (Suc (length sleeps)) = rc_max_attempts c else True)
      | RetryNoAttempt \<Rightarrow> sleeps = [] \<and> rc_max_attempts c < 1"
    using conjunct1 [OF trace] by (cases result) auto
  moreover have "sleeps = map (\<lambda>n. retry_delay c (random n) n) [1 ..< Suc (length sleeps)]"
    using trace by (metis plus_1_eq_Suc)
  ultimately show ?thesis by (simp only: retry_on_transient_def r prod.case simp_thms)
qed

end
