(* ===== verification/Search_Chain.thy ===== *)
theory Search_Chain
  imports Failure_Gate
begin

text \<open>
  Product search over several backends: the per-platform circuit breaker
  (\<open>app/engine/search_platforms/circuit_breaker.py\<close>) and the fallback chain of \<open>chained_adapter.py\<close>.
  A backend is its configuration and the outcome of its search; the clock is an argument; the metric
  updates of the chain are the list of their events (the strategy manager is not called back).
\<close>

section \<open>The per-platform breaker\<close>

record platform_state =
  pf_failures :: nat
  pf_last_failure :: pyfloat

record platform_breaker =
  pb_threshold :: int
  pb_recovery_seconds :: pyfloat
  pb_states :: "(string, platform_state) dict"

definition new_platform_breaker :: "int \<Rightarrow> pyfloat \<Rightarrow> platform_breaker" where
  "new_platform_breaker threshold recovery_seconds =
     \<lparr>pb_threshold = threshold, pb_recovery_seconds = recovery_seconds, pb_states = []\<rparr>"

definition pb_is_open :: "pyfloat \<Rightarrow> string \<Rightarrow> platform_breaker \<Rightarrow> bool \<times> platform_breaker" where
  "pb_is_open now platform_id b =
     (case dict_get (pb_states b) platform_id of
        None \<Rightarrow> (False, b)
      | Some st \<Rightarrow>
          if int (pf_failures st) \<ge> pb_threshold b
          then if now - pf_last_failure st < pb_recovery_seconds b then (True, b)
               else (False, b\<lparr>pb_states := dict_set platform_id (st\<lparr>pf_failures := 0\<rparr>) (pb_states b)\<rparr>)
          else (False, b))"

definition pb_record_failure :: "pyfloat \<Rightarrow> string \<Rightarrow> platform_breaker \<Rightarrow> platform_breaker" where
  "pb_record_failure now platform_id b =
     (let st = (case dict_get (pb_states b) platform_id of
            Some st \<Rightarrow> st | None \<Rightarrow> \<lparr>pf_failures = 0, pf_last_failure = 0\<rparr>)
      in b\<lparr>pb_states := dict_set platform_id
             \<lparr>pf_failures = Suc (pf_failures st), pf_last_failure = now\<rparr> (pb_states b)\<rparr>)"

definition pb_record_success :: "string \<Rightarrow> platform_breaker \<Rightarrow> platform_breaker" where
  "pb_record_success platform_id b =
     (case dict_get (pb_states b) platform_id of
        None \<Rightarrow> b
      | Some st \<Rightarrow> b\<lparr>pb_states := dict_set platform_id (st\<lparr>pf_failures := 0\<rparr>) (pb_states b)\<rparr>)"

definition pb_reset :: "string option \<Rightarrow> platform_breaker \<Rightarrow> platform_breaker" where
  "pb_reset platform_id b =
     (case platform_id of
        None \<Rightarrow> b\<lparr>pb_states := []\<rparr>
      | Some p \<Rightarrow> b\<lparr>pb_states := dict_del p (pb_states b)\<rparr>)"

definition pb_failure_count :: "string \<Rightarrow> platform_breaker \<Rightarrow> nat" where
  "pb_failure_count platform_id b =
     (case dict_get (pb_states b) platform_id of Some st \<Rightarrow> pf_failures st | None \<Rightarrow> 0)"

section \<open>The chain\<close>

record 'r search_adapter =
  ad_backend :: string
  ad_priority :: int
  ad_search :: "string \<Rightarrow> int \<Rightarrow> int \<Rightarrow> 'r list option"

text \<open>\<open>ad_search\<close> returns \<open>None\<close> when the backend raises.\<close>

definition backend_key :: "string \<Rightarrow> 'r search_adapter \<Rightarrow> string" where
  "backend_key platform_id a = platform_id @ ''_'' @ ad_backend a"

datatype metric_event = MetricUpdated string bool

definition ordered_adapters :: "'r search_adapter list \<Rightarrow> 'r search_adapter list" where
  "ordered_adapters adapters = sort_key ad_priority adapters"

definition get_backend_keys :: "string \<Rightarrow> 'r search_adapter list \<Rightarrow> string list" where
  "get_backend_keys platform_id adapters = map (backend_key platform_id) (ordered_adapters adapters)"

text \<open>The loop of \<open>search_sync\<close>; \<open>clock n\<close> is the time of the \<open>n\<close>th reading of the breaker's clock.\<close>

fun chain_loop ::
  "(nat \<Rightarrow> pyfloat) \<Rightarrow> string \<Rightarrow> ('r search_adapter \<Rightarrow> 'r list option) \<Rightarrow> nat \<Rightarrow> 'r search_adapter list
   \<Rightarrow> platform_breaker \<Rightarrow> 'r list \<times> platform_breaker \<times> metric_event list"
where
  "chain_loop clock platform_id call n [] b = ([], b, [])"
| "chain_loop clock platform_id call n (a # rest) b =
     (let key = backend_key platform_id a; (is_open, b') = pb_is_open (clock n) key b
      in if is_open then chain_loop clock platform_id call (Suc n) rest b'
         else case call a of
           Some (r # rs) \<Rightarrow>
             (r # rs, pb_record_success key b', [MetricUpdated (ad_backend a) True])
         | _ \<Rightarrow>
             let (results, b'', events) = chain_loop clock platform_id call (Suc (Suc n)) rest
                   (pb_record_failure (clock (Suc n)) key b')
             in (results, b'', MetricUpdated (ad_backend a) False # events))"

definition search_sync ::
  "(nat \<Rightarrow> pyfloat) \<Rightarrow> string \<Rightarrow> 'r search_adapter list \<Rightarrow> string \<Rightarrow> int \<Rightarrow> int
   \<Rightarrow> platform_breaker \<Rightarrow> 'r list \<times> platform_breaker \<times> metric_event list" where
  "search_sync clock platform_id adapters query max_results page b =
     chain_loop clock platform_id (\<lambda>a. ad_search a query max_results page) 0 (ordered_adapters adapters) b"

section \<open>One key of the breaker keeps the contract\<close>

definition pb_last_failure :: "string \<Rightarrow> platform_breaker \<Rightarrow> pyfloat" where
  "pb_last_failure platform_id b =
     (case dict_get (pb_states b) platform_id of Some st \<Rightarrow> pf_last_failure st | None \<Rightarrow> 0)"

definition pb_invar :: "int \<Rightarrow> pyfloat \<Rightarrow> platform_breaker \<Rightarrow> bool" where
  "pb_invar threshold recovery b \<longleftrightarrow> pb_threshold b = threshold \<and> pb_recovery_seconds b = recovery"

lemma pb_is_open_fst:
  "fst (pb_is_open now k b) \<longleftrightarrow> dict_get (pb_states b) k \<noteq> None \<and>
     int (pb_failure_count k b) \<ge> pb_threshold b \<and> now - pb_last_failure k b < pb_recovery_seconds b"
  by (auto simp: pb_is_open_def pb_failure_count_def pb_last_failure_def split: option.splits)

lemma pb_snd_fields [simp]:
  "pb_threshold (snd (pb_is_open now k b)) = pb_threshold b"
  "pb_recovery_seconds (snd (pb_is_open now k b)) = pb_recovery_seconds b"
  "pb_threshold (pb_record_failure now k b) = pb_threshold b"
  "pb_recovery_seconds (pb_record_failure now k b) = pb_recovery_seconds b"
  "pb_threshold (pb_record_success k b) = pb_threshold b"
  "pb_recovery_seconds (pb_record_success k b) = pb_recovery_seconds b"
  by (auto simp: pb_is_open_def pb_record_failure_def pb_record_success_def Let_def split: option.splits)

lemma pb_isolated [simp]:
  "k' \<noteq> k \<Longrightarrow> dict_get (pb_states (snd (pb_is_open now k b))) k' = dict_get (pb_states b) k'"
  "k' \<noteq> k \<Longrightarrow> dict_get (pb_states (pb_record_failure now k b)) k' = dict_get (pb_states b) k'"
  "k' \<noteq> k \<Longrightarrow> dict_get (pb_states (pb_record_success k b)) k' = dict_get (pb_states b) k'"
  by (auto simp: pb_is_open_def pb_record_failure_def pb_record_success_def Let_def split: option.splits)

interpretation platform_gate: failure_gate threshold "\<lambda>d. d < recovery"
    "\<lambda>now b. fst (pb_is_open now k b)" "\<lambda>now b. snd (pb_is_open now k b)"
    "\<lambda>now. pb_record_failure now k" "\<lambda>now. pb_record_success k" "pb_failure_count k" "pb_last_failure k"
    "pb_invar threshold recovery"
  for threshold recovery k
  by unfold_locales
    (auto simp: pb_invar_def pb_is_open_fst pb_failure_count_def pb_last_failure_def pb_record_failure_def
      pb_record_success_def pb_is_open_def Let_def split: option.splits if_splits)

section \<open>Facts about the chain\<close>

text \<open>A backend is tried when its circuit lets it; it delivers when it then returns something.\<close>

definition delivers :: "pyfloat \<Rightarrow> string \<Rightarrow> ('r search_adapter \<Rightarrow> 'r list option) \<Rightarrow> platform_breaker
    \<Rightarrow> 'r search_adapter \<Rightarrow> bool" where
  "delivers now platform_id call b a \<longleftrightarrow>
     \<not> fst (pb_is_open now (backend_key platform_id a) b) \<and> call a \<notin> {None, Some []}"

lemma chain_untouched:
  "k \<notin> backend_key p ` set as \<Longrightarrow>
   dict_get (pb_states (fst (snd (chain_loop clock p call n as b)))) k = dict_get (pb_states b) k"
proof (induction as arbitrary: n b)
  case (Cons a as)
  have "k \<noteq> backend_key p a" "k \<notin> backend_key p ` set as" using Cons.prems by auto
  then show ?case
    using Cons.IH by (auto simp: Let_def split_beta split: option.split list.split)
qed simp

lemma is_open_cong:
  "dict_get (pb_states b) k = dict_get (pb_states b') k \<Longrightarrow> pb_threshold b = pb_threshold b' \<Longrightarrow>
   pb_recovery_seconds b = pb_recovery_seconds b' \<Longrightarrow> fst (pb_is_open t k b) = fst (pb_is_open t k b')"
  by (auto simp: pb_is_open_def split: option.splits)

lemma chain_source:
  "fst (chain_loop clock p call n as b) = results \<Longrightarrow> results \<noteq> [] \<Longrightarrow>
   \<exists>a \<in> set as. call a = Some results"
proof (induction as arbitrary: n b)
  case (Cons a as)
  show ?case
  proof (cases "fst (pb_is_open (clock n) (backend_key p a) b)")
    case True
    with Cons.prems have "fst (chain_loop clock p call (Suc n) as (snd (pb_is_open (clock n) (backend_key p a) b))) = results"
      by (simp add: Let_def split_beta)
    with Cons.IH Cons.prems(2) show ?thesis by auto
  next
    case False
    show ?thesis
    proof (cases "call a \<in> {None, Some []}")
      case True
      with False Cons.prems have "fst (chain_loop clock p call (Suc (Suc n)) as
          (pb_record_failure (clock (Suc n)) (backend_key p a) (snd (pb_is_open (clock n) (backend_key p a) b)))) = results"
        by (auto simp: Let_def split_beta)
      with Cons.IH Cons.prems(2) show ?thesis by auto
    next
      case delivered: False
      then obtain r rs where "call a = Some (r # rs)" by (cases "call a") (auto simp: neq_Nil_conv)
      with False Cons.prems show ?thesis by (auto simp: Let_def split_beta)
    qed
  qed
qed simp

lemma chain_equals_find:
  assumes "distinct (map (backend_key p) as)"
    and "\<And>a m. a \<in> set as \<Longrightarrow> fst (pb_is_open (clock m) (backend_key p a) b) = fst (pb_is_open t (backend_key p a) b)"
  shows "fst (chain_loop clock p call n as b) =
    (case find (delivers t p call b) as of Some a \<Rightarrow> the (call a) | None \<Rightarrow> [])"
  using assms
proof (induction as arbitrary: n b)
  case (Cons a as)
  let ?k = "backend_key p a"
  let ?b = "snd (pb_is_open (clock n) ?k b)"
  have rest: "fst (chain_loop clock p call m as b') = (case find (delivers t p call b) as of Some a \<Rightarrow> the (call a) | None \<Rightarrow> [])"
    if b': "b' \<in> {?b, pb_record_failure u ?k ?b}" for m b' u
  proof -
    have same: "fst (pb_is_open s (backend_key p a') b') = fst (pb_is_open s (backend_key p a') b)" if "a' \<in> set as" for a' s
    proof (rule is_open_cong)
      have "backend_key p a' \<noteq> ?k" using Cons.prems(1) that by (auto simp: image_iff)
      then show "dict_get (pb_states b') (backend_key p a') = dict_get (pb_states b) (backend_key p a')"
        using b' by auto
    qed (use b' in auto)
    have "fst (chain_loop clock p call m as b') = (case find (delivers t p call b') as of Some a \<Rightarrow> the (call a) | None \<Rightarrow> [])"
      by (rule Cons.IH) (use Cons.prems same in auto)
    also have "find (delivers t p call b') as = find (delivers t p call b) as"
      by (rule find_cong) (simp_all add: delivers_def same)
    finally show ?thesis .
  qed
  have head: "delivers t p call b a \<longleftrightarrow> \<not> fst (pb_is_open t ?k b) \<and> call a \<notin> {None, Some []}"
    by (simp add: delivers_def)
  show ?case
  proof (cases "fst (pb_is_open t ?k b)")
    case True
    then show ?thesis using rest [OF insertI1, where m = "Suc n"] Cons.prems(2) [of a n] by (simp add: head Let_def split_beta)
  next
    case closed: False
    show ?thesis
    proof (cases "call a \<in> {None, Some []}")
      case True
      then show ?thesis
        using closed rest [OF insertI2 [OF singletonI], where u = "clock (Suc n)" and m = "Suc (Suc n)"] Cons.prems(2) [of a n]
        by (auto simp: head Let_def split_beta)
    next
      case False
      then obtain r rs where "call a = Some (r # rs)" by (cases "call a") (auto simp: neq_Nil_conv)
      then show ?thesis using closed Cons.prems(2) [of a n] by (simp add: head Let_def split_beta)
    qed
  qed
qed simp

section \<open>Properties\<close>

text \<open>The breaker of one platform keeps the contract of a circuit breaker: it refuses only after its
  threshold of failures without a success in between and for its recovery time only, that many
  failures in a row do make it refuse, and nothing recorded for one platform changes the answer for
  another.\<close>

theorem platform_breaker_contract:
  "(if fst (pb_is_open now k (gate_run (\<lambda>now b. snd (pb_is_open now k b)) (\<lambda>now. pb_record_failure now k)
          (\<lambda>now. pb_record_success k) es (new_platform_breaker threshold recovery)))
    then threshold \<le> int (trailing_failures es) \<and> now - last_failure_in 0 es < recovery else True)
   \<and> (if threshold \<le> int (Suc (length ts)) \<and> now - t < recovery
      then fst (pb_is_open now k (gate_run (\<lambda>now b. snd (pb_is_open now k b)) (\<lambda>now. pb_record_failure now k)
          (\<lambda>now. pb_record_success k) (map Failed (ts @ [t])) (new_platform_breaker threshold recovery)))
      else True)
   \<and> (if k' \<noteq> k then fst (pb_is_open now k' (pb_record_failure t k b)) = fst (pb_is_open now k' b)
        \<and> fst (pb_is_open now k' (pb_record_success k b)) = fst (pb_is_open now k' b) else True)"
proof -
  have start: "pb_invar threshold recovery (new_platform_breaker threshold recovery)"
    "pb_failure_count k (new_platform_breaker threshold recovery) = 0"
    "pb_last_failure k (new_platform_breaker threshold recovery) = 0"
    by (simp_all add: pb_invar_def new_platform_breaker_def pb_failure_count_def pb_last_failure_def)
  have "fst (pb_is_open now k' (pb_record_failure t k b)) = fst (pb_is_open now k' b)"
    "fst (pb_is_open now k' (pb_record_success k b)) = fst (pb_is_open now k' b)" if "k' \<noteq> k"
    by (rule is_open_cong; simp add: that)+
  then show ?thesis
    using platform_gate.refusal_explained [OF start(1,2), of now es]
      platform_gate.refuses_after_failures [OF start(1), of ts now t] by (simp add: start(3))
qed


definition sample_adapter :: "string \<Rightarrow> int \<Rightarrow> nat list option \<Rightarrow> nat search_adapter" where
  "sample_adapter backend priority outcome =
     \<lparr>ad_backend = backend, ad_priority = priority, ad_search = (\<lambda>_ _ _. outcome)\<rparr>"


end
