(* ===== verification/Stream_Smoother.thy ===== *)
theory Stream_Smoother
  imports Prelude
begin

text \<open>
  \<open>app/engine/runtime/stream_smoother.py\<close>: provider chunks are buffered and released at punctuation, at
  a maximal length, or when the last release is too long ago. \<open>time.monotonic\<close> is an argument, in
  milliseconds.
\<close>

section \<open>Model\<close>

definition hard_flush_chars :: string where
  "hard_flush_chars = ''.!?'' @ [CHR 0x0A]"

definition soft_flush_chars :: string where
  "soft_flush_chars = '',;:''"

definition min_soft_flush_chars :: nat where
  "min_soft_flush_chars = 18"

definition max_buffer_chars :: nat where
  "max_buffer_chars = 60"

definition max_flush_interval_ms :: pyfloat where
  "max_flush_interval_ms = 200"

record stream_smoother =
  sm_buffer :: string
  sm_last_flush_at_ms :: pyfloat

definition new_smoother :: stream_smoother where
  "new_smoother = \<lparr>sm_buffer = [], sm_last_flush_at_ms = 0\<rparr>"

definition should_flush_after_char :: "string \<Rightarrow> char \<Rightarrow> bool" where
  "should_flush_after_char buffer ch =
     (if ch \<in> set hard_flush_chars then True
      else if length buffer \<ge> max_buffer_chars then True
      else ch \<in> set soft_flush_chars \<and> length buffer \<ge> min_soft_flush_chars)"

text \<open>The character loop of \<open>feed\<close>.\<close>

fun feed_chars :: "pyfloat \<Rightarrow> string \<Rightarrow> stream_smoother \<Rightarrow> string list \<times> stream_smoother" where
  "feed_chars now_ms [] s = ([], s)"
| "feed_chars now_ms (ch # chunk) s =
     (let buffer = sm_buffer s @ [ch]
      in if should_flush_after_char buffer ch
         then let (flushes, s') = feed_chars now_ms chunk \<lparr>sm_buffer = [], sm_last_flush_at_ms = now_ms\<rparr>
              in (buffer # flushes, s')
         else feed_chars now_ms chunk (s\<lparr>sm_buffer := buffer\<rparr>))"

definition smoother_feed :: "pyfloat \<Rightarrow> string \<Rightarrow> stream_smoother \<Rightarrow> string list \<times> stream_smoother" where
  "smoother_feed now_ms chunk s =
     (if chunk = [] then ([], s)
      else
        let s0 = (if sm_last_flush_at_ms s = 0 then s\<lparr>sm_last_flush_at_ms := now_ms\<rparr> else s);
            (flushes, s1) = feed_chars now_ms chunk s0
        in if sm_buffer s1 \<noteq> [] \<and> now_ms - sm_last_flush_at_ms s1 \<ge> max_flush_interval_ms
           then (flushes @ [sm_buffer s1], \<lparr>sm_buffer = [], sm_last_flush_at_ms = now_ms\<rparr>)
           else (flushes, s1))"

definition flush_remaining :: "pyfloat \<Rightarrow> stream_smoother \<Rightarrow> string \<times> stream_smoother" where
  "flush_remaining now_ms s =
     (if sm_buffer s = [] then ([], s)
      else (sm_buffer s, \<lparr>sm_buffer = [], sm_last_flush_at_ms = now_ms\<rparr>))"

text \<open>A whole stream: timed chunks, then the end of the stream.\<close>

fun smoother_run :: "(pyfloat \<times> string) list \<Rightarrow> stream_smoother \<Rightarrow> string list \<times> stream_smoother" where
  "smoother_run [] s = ([], s)"
| "smoother_run ((now_ms, chunk) # rest) s =
     (let (flushes, s') = smoother_feed now_ms chunk s; (more, s'') = smoother_run rest s'
      in (flushes @ more, s''))"

section \<open>Facts\<close>

lemma feed_chars_lossless:
  "concat (fst (feed_chars t cs s)) @ sm_buffer (snd (feed_chars t cs s)) = sm_buffer s @ cs"
  by (induction cs arbitrary: s) (simp_all add: Let_def split_beta)

lemma feed_lossless:
  "concat (fst (smoother_feed t cs s)) @ sm_buffer (snd (smoother_feed t cs s)) = sm_buffer s @ cs"
  using feed_chars_lossless [of t cs "if sm_last_flush_at_ms s = 0 then s\<lparr>sm_last_flush_at_ms := t\<rparr> else s"]
  by (auto simp: smoother_feed_def Let_def split_beta split: if_splits)

lemma run_lossless:
  "concat (fst (smoother_run cs s)) @ sm_buffer (snd (smoother_run cs s)) = sm_buffer s @ concat (map snd cs)"
proof (induction cs arbitrary: s)
  case (Cons c cs)
  obtain t chunk where c: "c = (t, chunk)" by (cases c)
  let ?s = "snd (smoother_feed t chunk s)"
  have "concat (fst (smoother_run (c # cs) s)) @ sm_buffer (snd (smoother_run (c # cs) s))
      = concat (fst (smoother_feed t chunk s)) @ sm_buffer ?s @ concat (map snd cs)"
    using Cons.IH [of ?s] by (simp add: c Let_def split_beta)
  also have "\<dots> = sm_buffer s @ chunk @ concat (map snd cs)"
    using feed_lossless [of t chunk s] by (metis append.assoc)
  finally show ?case by (simp add: c)
qed simp

text \<open>The buffer always stays below its ceiling, so what is released is never longer.\<close>

definition smoother_ok :: "stream_smoother \<Rightarrow> bool" where
  "smoother_ok s \<longleftrightarrow> length (sm_buffer s) < max_buffer_chars"

definition flush_ok :: "string \<Rightarrow> bool" where
  "flush_ok f \<longleftrightarrow> f \<noteq> [] \<and> length f \<le> max_buffer_chars"

lemma feed_chars_ok:
  "smoother_ok s \<Longrightarrow> smoother_ok (snd (feed_chars t cs s)) \<and> list_all flush_ok (fst (feed_chars t cs s))"
proof (induction cs arbitrary: s)
  case (Cons c cs)
  show ?case
  proof (cases "should_flush_after_char (sm_buffer s @ [c]) c")
    case True
    then show ?thesis using Cons by (simp add: Let_def split_beta smoother_ok_def flush_ok_def max_buffer_chars_def)
  next
    case False
    then have "smoother_ok (s\<lparr>sm_buffer := sm_buffer s @ [c]\<rparr>)"
      by (auto simp: should_flush_after_char_def smoother_ok_def split: if_splits)
    with Cons.IH False show ?thesis by (simp add: Let_def)
  qed
qed simp

lemma feed_ok:
  assumes "smoother_ok s"
  shows "smoother_ok (snd (smoother_feed t cs s)) \<and> list_all flush_ok (fst (smoother_feed t cs s))"
proof -
  let ?s = "if sm_last_flush_at_ms s = 0 then s\<lparr>sm_last_flush_at_ms := t\<rparr> else s"
  have "smoother_ok ?s" using assms by (simp add: smoother_ok_def)
  from feed_chars_ok [OF this, of t cs] assms show ?thesis
    by (auto simp: smoother_feed_def Let_def split_beta flush_ok_def smoother_ok_def max_buffer_chars_def)
qed

lemma run_ok:
  "smoother_ok s \<Longrightarrow> smoother_ok (snd (smoother_run cs s)) \<and> list_all flush_ok (fst (smoother_run cs s))"
proof (induction cs arbitrary: s)
  case (Cons c cs)
  obtain t chunk where c: "c = (t, chunk)" by (cases c)
  then show ?case
    using feed_ok [OF Cons.prems, of t chunk] Cons.IH [of "snd (smoother_feed t chunk s)"]
    by (simp add: Let_def split_beta)
qed simp

lemma new_smoother_ok [simp]: "smoother_ok new_smoother"
  by (simp add: smoother_ok_def new_smoother_def max_buffer_chars_def)

section \<open>Properties\<close>

text \<open>Smoothing loses and invents nothing: the released pieces of any stream, with the rest released at
  its end, are exactly the text of its chunks.\<close>

theorem smoothing_is_lossless:
  "concat (fst (smoother_run chunks new_smoother))
     @ fst (flush_remaining t (snd (smoother_run chunks new_smoother))) = concat (map snd chunks)"
  using run_lossless [of chunks new_smoother]
  by (cases "sm_buffer (snd (smoother_run chunks new_smoother)) = []")
    (simp_all add: flush_remaining_def, simp_all add: new_smoother_def)

text \<open>Whatever the provider sends, every released piece is non-empty and at most sixty characters
  long, at most fifty-nine characters wait, and text that waits after a chunk has waited for less than
  the flush interval.\<close>

theorem smoothing_is_bounded:
  "list_all (\<lambda>f. f \<noteq> [] \<and> length f \<le> 60) (fst (smoother_run chunks new_smoother))
   \<and> length (sm_buffer (snd (smoother_run chunks new_smoother))) < 60
   \<and> (let s = snd (smoother_feed t (c # cs) s0) in
      if sm_buffer s \<noteq> [] then t - sm_last_flush_at_ms s < max_flush_interval_ms else True)"
  using run_ok [OF new_smoother_ok, of chunks]
  by (auto simp: smoother_ok_def flush_ok_def [abs_def] max_buffer_chars_def smoother_feed_def Let_def split_beta)

text \<open>A burst is cut right after the punctuation: the documented example releases \<open>Hello.\<close> and then
  \<open> World!\<close> with the blank in front, not \<open>Hello. \<close> and \<open>World!\<close> as its comment says.\<close>

theorem burst_is_cut_before_blank:
  "fst (smoother_feed 1 ''Hello. World!'' new_smoother) = [''Hello.'', '' World!'']"
  by code_simp

end
