(* ===== verification/Path_Grants.thy ===== *)
theory Path_Grants
  imports Prelude
begin

text \<open>
  \<open>app/sandbox/path_grants.py\<close>: path grants of sandbox workloads and their merge. A label is an optional
  text; the bucket of the merge is an insertion-ordered dictionary.
\<close>

section \<open>Model\<close>

datatype path_mode = PmRead | PmWrite | PmReadwrite

fun path_mode_value :: "path_mode \<Rightarrow> string" where
  "path_mode_value PmRead = ''read''"
| "path_mode_value PmWrite = ''write''"
| "path_mode_value PmReadwrite = ''readwrite''"

record path_grant =
  gt_path :: string
  gt_mode :: path_mode
  gt_recursive :: bool
  gt_label :: "string option"

fun mode_token :: "path_mode \<Rightarrow> string" where
  "mode_token PmRead = ''ro''"
| "mode_token PmWrite = ''rw''"
| "mode_token PmReadwrite = ''rw''"

definition to_mount_string :: "path_grant \<Rightarrow> string" where
  "to_mount_string g = gt_path g @ '':'' @ gt_path g @ '':'' @ mode_token (gt_mode g)"

fun mode_rank :: "path_mode \<Rightarrow> nat" where
  "mode_rank PmRead = 0"
| "mode_rank PmWrite = 1"
| "mode_rank PmReadwrite = 2"

text \<open>\<open>sorted({l for l in (a, b) if l})\<close>.\<close>

definition merge_labels :: "string option \<Rightarrow> string option \<Rightarrow> string option" where
  "merge_labels a b =
     (let labels = sort (remdups (filter (\<lambda>l. l \<noteq> []) [str_or_empty a, str_or_empty b]))
      in if labels = [] then None else Some (py_join '','' labels))"

definition combine_grants :: "path_grant \<Rightarrow> path_grant \<Rightarrow> path_grant" where
  "combine_grants existing grant =
     \<lparr>gt_path = gt_path grant,
      gt_mode = (if mode_rank (gt_mode grant) > mode_rank (gt_mode existing)
                 then gt_mode grant else gt_mode existing),
      gt_recursive = (gt_recursive existing \<or> gt_recursive grant),
      gt_label = merge_labels (gt_label existing) (gt_label grant)\<rparr>"

definition bucket_step :: "path_grant \<Rightarrow> (string, path_grant) dict \<Rightarrow> (string, path_grant) dict" where
  "bucket_step grant bucket =
     (case dict_get bucket (gt_path grant) of
        None \<Rightarrow> dict_set (gt_path grant) grant bucket
      | Some existing \<Rightarrow> dict_set (gt_path grant) (combine_grants existing grant) bucket)"

definition merge_grants :: "path_grant list \<Rightarrow> path_grant list" where
  "merge_grants grants = sort_key gt_path (map snd (fold bucket_step grants []))"

section \<open>Facts\<close>

instantiation path_mode :: linorder
begin

definition less_eq_path_mode :: "path_mode \<Rightarrow> path_mode \<Rightarrow> bool" where
  "less_eq_path_mode a b \<longleftrightarrow> mode_rank a \<le> mode_rank b"

definition less_path_mode :: "path_mode \<Rightarrow> path_mode \<Rightarrow> bool" where
  "less_path_mode a b \<longleftrightarrow> mode_rank a < mode_rank b"

instance
proof
  fix a b :: path_mode
  show "a \<le> b \<Longrightarrow> b \<le> a \<Longrightarrow> a = b"
    by (cases a; cases b; simp add: less_eq_path_mode_def)
qed (auto simp: less_eq_path_mode_def less_path_mode_def)

end

lemma stronger_mode: "(if mode_rank b > mode_rank a then b else a) = max a (b :: path_mode)"
  by (auto simp: max_def less_eq_path_mode_def) (cases a; cases b; simp)+

text \<open>What a bucket holds for a path: the strongest mode and the union of the recursion flags seen so far.\<close>

definition granted :: "path_grant list \<Rightarrow> string \<Rightarrow> path_grant list" where
  "granted grants p = filter (\<lambda>g. gt_path g = p) grants"

definition entry_sound :: "path_grant list \<Rightarrow> string \<Rightarrow> path_grant option \<Rightarrow> bool" where
  "entry_sound grants p entry =
     (case entry of
        None \<Rightarrow> granted grants p = []
      | Some g \<Rightarrow> granted grants p \<noteq> [] \<and> gt_path g = p \<and>
          gt_mode g = Max (gt_mode ` set (granted grants p)) \<and>
          gt_recursive g = list_ex gt_recursive (granted grants p))"

definition bucket_sound :: "path_grant list \<Rightarrow> (string, path_grant) dict \<Rightarrow> bool" where
  "bucket_sound grants bucket \<longleftrightarrow> distinct (map fst bucket) \<and> (\<forall>p. entry_sound grants p (dict_get bucket p))"

lemma granted_snoc: "granted (grants @ [g]) p = granted grants p @ (if gt_path g = p then [g] else [])"
  by (simp add: granted_def)

lemma dict_get_bucket_step:
  "dict_get (bucket_step g bucket) p =
     (if p = gt_path g then Some (case dict_get bucket p of None \<Rightarrow> g | Some h \<Rightarrow> combine_grants h g)
      else dict_get bucket p)"
  by (auto simp: bucket_step_def split: option.split)

lemma entry_sound_combine:
  assumes "entry_sound grants (gt_path g) (Some h)"
  shows "entry_sound (grants @ [g]) (gt_path g) (Some (combine_grants h g))"
proof -
  have "gt_mode (combine_grants h g) = max (gt_mode h) (gt_mode g)"
    by (simp add: combine_grants_def stronger_mode)
  then show ?thesis
    using assms by (auto simp: entry_sound_def granted_snoc combine_grants_def max.commute)
qed

lemma bucket_step_sound:
  assumes "bucket_sound grants bucket"
  shows "bucket_sound (grants @ [g]) (bucket_step g bucket)"
proof -
  have keys: "distinct (map fst (bucket_step g bucket))"
    using assms by (simp add: bucket_sound_def bucket_step_def distinct_update split: option.split)
  have "entry_sound (grants @ [g]) p (dict_get (bucket_step g bucket) p)" for p
  proof -
    have "entry_sound grants p (dict_get bucket p)" using assms by (simp add: bucket_sound_def)
    then show ?thesis
      using entry_sound_combine
      by (cases "dict_get bucket p")
        (auto simp: dict_get_bucket_step, auto simp: entry_sound_def granted_snoc split: option.split)
  qed
  with keys show ?thesis by (simp add: bucket_sound_def)
qed

lemma bucket_sound_fold: "bucket_sound grants (fold bucket_step grants [])"
proof (induction grants rule: rev_induct)
  case Nil
  show ?case by (simp add: bucket_sound_def entry_sound_def granted_def)
next
  case (snoc g grants)
  then show ?case using bucket_step_sound by simp
qed

lemma bucket_keys_own:
  "(k, m) \<in> set (fold bucket_step grants []) \<Longrightarrow> gt_path m = k"
proof -
  assume "(k, m) \<in> set (fold bucket_step grants [])"
  moreover have "distinct (map fst (fold bucket_step grants []))"
    "entry_sound grants k (dict_get (fold bucket_step grants []) k)"
    using bucket_sound_fold [of grants] by (simp_all add: bucket_sound_def)
  ultimately show "gt_path m = k" by (simp add: entry_sound_def)
qed

lemma merged_sound: "m \<in> set (merge_grants grants) \<Longrightarrow> entry_sound grants (gt_path m) (Some m)"
proof -
  assume "m \<in> set (merge_grants grants)"
  then obtain k where k: "(k, m) \<in> set (fold bucket_step grants [])" by (auto simp: merge_grants_def)
  with bucket_keys_own have "(gt_path m, m) \<in> set (fold bucket_step grants [])" by blast
  moreover have "distinct (map fst (fold bucket_step grants []))"
    and "entry_sound grants (gt_path m) (dict_get (fold bucket_step grants []) (gt_path m))"
    using bucket_sound_fold [of grants] by (simp_all add: bucket_sound_def)
  ultimately show ?thesis by simp
qed

lemma merged_complete: "g \<in> set grants \<Longrightarrow> gt_path g \<in> gt_path ` set (merge_grants grants)"
proof -
  assume "g \<in> set grants"
  then have "granted grants (gt_path g) \<noteq> []" by (auto simp: granted_def filter_empty_conv)
  moreover have "entry_sound grants (gt_path g) (dict_get (fold bucket_step grants []) (gt_path g))"
    using bucket_sound_fold [of grants] by (simp add: bucket_sound_def)
  ultimately obtain m where m: "dict_get (fold bucket_step grants []) (gt_path g) = Some m" "gt_path m = gt_path g"
    by (auto simp: entry_sound_def split: option.splits)
  then have "m \<in> set (merge_grants grants)" by (auto simp: merge_grants_def dest: map_of_SomeD intro: rev_image_eqI)
  with m(2) show ?thesis by (metis imageI)
qed

lemma merged_paths_distinct: "distinct (map gt_path (merge_grants grants))"
proof -
  let ?b = "fold bucket_step grants []"
  have "map (gt_path \<circ> snd) ?b = map fst ?b" using bucket_keys_own by (auto simp: map_eq_conv)
  moreover have "distinct (map fst ?b)" using bucket_sound_fold [of grants] by (simp add: bucket_sound_def)
  ultimately have "distinct (map gt_path (map snd ?b))" by (metis map_map)
  then show ?thesis unfolding merge_grants_def distinct_map [of gt_path] by (simp add: distinct_map del: map_map)
qed

lemma merged_paths:
  "gt_path ` set (merge_grants grants) = gt_path ` set grants"
proof -
  have "gt_path m \<in> gt_path ` set grants" if "m \<in> set (merge_grants grants)" for m
    using merged_sound [OF that] by (auto simp: entry_sound_def granted_def filter_empty_conv intro: rev_image_eqI)
  then show ?thesis using merged_complete by blast
qed

section \<open>Properties\<close>

text \<open>Merging grants neither widens nor narrows access: the result names every granted path once, in
  order, with exactly the strongest mode and the recursion of the grants for it.\<close>

theorem merged_grants_exact:
  "sorted (map gt_path (merge_grants grants)) \<and> distinct (map gt_path (merge_grants grants))
   \<and> gt_path ` set (merge_grants grants) = gt_path ` set grants
   \<and> list_all (\<lambda>m. gt_mode m = Max (gt_mode ` set (granted grants (gt_path m)))
       \<and> gt_recursive m = list_ex gt_recursive (granted grants (gt_path m))) (merge_grants grants)"
proof -
  have "sorted (map gt_path (merge_grants grants))" by (simp add: merge_grants_def)
  then show ?thesis
    using merged_paths_distinct merged_paths merged_sound by (simp add: list_all_iff entry_sound_def)
qed

text \<open>The mounts a workload gets do not depend on the order or the repetition of its grants.\<close>

theorem mounts_depend_on_grant_set:
  assumes "set grants = set grants'"
  shows "map to_mount_string (merge_grants grants) = map to_mount_string (merge_grants grants')"
proof -
  define mount where "mount gs p = p @ '':'' @ p @ '':'' @ mode_token (Max (gt_mode ` set (granted gs p)))"
    for gs :: "path_grant list" and p
  have mounts: "map to_mount_string (merge_grants gs) = map (mount gs) (map gt_path (merge_grants gs))" for gs
    using merged_sound by (auto simp: to_mount_string_def mount_def entry_sound_def)
  have "map gt_path (merge_grants grants) = map gt_path (merge_grants grants')"
    by (rule sorted_distinct_set_unique)
      (simp_all add: merged_paths_distinct merged_paths assms del: set_map distinct_map add: set_map,
       simp_all add: merge_grants_def)
  moreover have "mount grants = mount grants'" by (rule ext) (simp add: mount_def granted_def assms)
  ultimately show ?thesis by (simp only: mounts)
qed

definition sample_grant :: "path_mode \<Rightarrow> string option \<Rightarrow> path_grant" where
  "sample_grant mode label = \<lparr>gt_path = ''/data'', gt_mode = mode, gt_recursive = True, gt_label = label\<rparr>"

theorem mounts_depend_on_grant_set_witness:
  "map to_mount_string (merge_grants [sample_grant PmRead None, sample_grant PmWrite None])
   = map to_mount_string (merge_grants [sample_grant PmWrite None, sample_grant PmRead None, sample_grant PmRead None])"
  by (rule mounts_depend_on_grant_set) auto

text \<open>Labels are not merged as documented: each provenance should be kept once, but a label that was
  already joined is not recognised, so the same grants in another order repeat it.\<close>

theorem merge_order_shows_in_labels:
  "map gt_label (merge_grants (map (sample_grant PmRead) [Some ''a'', Some ''b'', Some ''a''])) = [Some ''a,a,b'']
   \<and> map gt_label (merge_grants (map (sample_grant PmRead) [Some ''a'', Some ''a'', Some ''b''])) = [Some ''a,b'']"
  by code_simp

end
