(* ===== verification/Tool_Guardrails.thy ===== *)
theory Tool_Guardrails
  imports Prelude
begin

text \<open>
  \<open>app/engine/runtime/tool_guardrails.py\<close>: guardrails at the tool boundary and their composition. A check
  returns its result or the text of the exception it raised; reasons are constructors instead of
  sentences. Sets and tuples of the context are lists.
\<close>

section \<open>Results\<close>

record tool_call =
  tc_id :: string
  tc_name :: string
  tc_arguments :: "(string, pyval) dict"

datatype guard_decision = GuardAllow | GuardDeny | GuardModify

fun guard_decision_value :: "guard_decision \<Rightarrow> string" where
  "guard_decision_value GuardAllow = ''allow''"
| "guard_decision_value GuardDeny = ''deny''"
| "guard_decision_value GuardModify = ''modify''"

datatype guard_reason =
    NoReason | MissingArgs "string list" | CapabilityNotGranted string | RedactedSubstrings
  | GuardCrashed string

record guard_result =
  gr_decision :: guard_decision
  gr_tool_call :: tool_call
  gr_reason :: guard_reason
  gr_metadata :: "(string, pyval) dict"

definition allow_call :: "tool_call \<Rightarrow> guard_result" where
  "allow_call call =
     \<lparr>gr_decision = GuardAllow, gr_tool_call = call, gr_reason = NoReason, gr_metadata = []\<rparr>"

type_synonym guard_context = "(string, pyval) dict"
type_synonym guard_check = "tool_call \<Rightarrow> guard_context \<Rightarrow> string + guard_result"

record guardrail =
  gl_name :: string
  gl_check :: guard_check

section \<open>Built-in guardrails\<close>

definition required_args_check :: "(string, string list) dict \<Rightarrow> guard_check" where
  "required_args_check required_by_tool call context =
     (case dict_get required_by_tool (tc_name call) of
        None \<Rightarrow> Inr (allow_call call)
      | Some required \<Rightarrow>
          if required = [] then Inr (allow_call call)
          else
            let missing = filter (\<lambda>a. a \<notin> fst ` set (tc_arguments call)) required
            in if missing = [] then Inr (allow_call call)
               else Inr \<lparr>gr_decision = GuardDeny, gr_tool_call = call,
                         gr_reason = MissingArgs (sort (remdups missing)),
                         gr_metadata = [(''guardrail'', PStr ''RequiredArgsGuardrail''),
                                        (''tool'', PStr (tc_name call))]\<rparr>)"

text \<open>\<open>x in granted\<close> for whatever the context carries; anything that is no container raises.\<close>

fun member_of :: "string \<Rightarrow> pyval \<Rightarrow> bool option" where
  "member_of x (PList vs) = Some (PStr x \<in> set vs)"
| "member_of x (PStr s) = Some (contains x s)"
| "member_of x (PDict d) = Some (x \<in> fst ` set d)"
| "member_of x _ = None"

definition capability_check :: "(string, string) dict \<Rightarrow> guard_check" where
  "capability_check required_by_tool call context =
     (case dict_get required_by_tool (tc_name call) of
        None \<Rightarrow> Inr (allow_call call)
      | Some required \<Rightarrow>
          let found = (case dict_get context ''granted_capabilities'' of Some v \<Rightarrow> v | None \<Rightarrow> PNone);
              granted = (if truthy found then found else PList [])
          in case member_of required granted of
               None \<Rightarrow> Inl ''TypeError''
             | Some True \<Rightarrow> Inr (allow_call call)
             | Some False \<Rightarrow>
                 Inr \<lparr>gr_decision = GuardDeny, gr_tool_call = call,
                      gr_reason = CapabilityNotGranted required,
                      gr_metadata = [(''guardrail'', PStr ''CapabilityGuardrail''),
                        (''tool'', PStr (tc_name call)), (''required_capability'', PStr required)]\<rparr>)"

text \<open>\<open>str.find(sub, start)\<close>.\<close>

definition py_find :: "string \<Rightarrow> string \<Rightarrow> nat \<Rightarrow> nat option" where
  "py_find s sub start = List.find (\<lambda>i. prefix sub (drop i s)) [start ..< Suc (length s)]"

function replace_loop :: "string \<Rightarrow> string \<Rightarrow> string \<Rightarrow> nat \<Rightarrow> string list" where
  "replace_loop haystack needle_lower replacement cursor =
     (if cursor < length haystack \<and> needle_lower \<noteq> []
      then case py_find (py_lower haystack) needle_lower cursor of
             None \<Rightarrow> [drop cursor haystack]
           | Some idx \<Rightarrow>
               take (idx - cursor) (drop cursor haystack) # replacement #
                 replace_loop haystack needle_lower replacement (idx + length needle_lower)
      else [])"
  by pat_completeness auto
termination
proof (relation "measure (\<lambda>(h, n, r, c). length h - c)", simp, goal_cases)
  case (1 h n r c i)
  then have "c \<le> i"
    by (auto simp: py_find_def find_Some_iff simp del: upt_Suc)
  moreover have "0 < length n" "c < length h" using 1 by simp_all
  ultimately show ?case by (simp, linarith)
qed

declare replace_loop.simps [simp del]

definition case_insensitive_replace :: "string \<Rightarrow> string \<Rightarrow> string \<Rightarrow> string" where
  "case_insensitive_replace haystack needle replacement =
     (if needle = [] then haystack
      else concat (replace_loop haystack (py_lower needle) replacement 0))"

definition redact_with :: "string \<Rightarrow> string \<Rightarrow> string \<times> bool \<Rightarrow> string \<times> bool" where
  "redact_with replacement pattern st =
     (if contains (py_lower pattern) (py_lower (fst st))
      then (case_insensitive_replace (fst st) pattern replacement, True) else st)"

definition redact_argument :: "string list \<Rightarrow> string \<Rightarrow> string \<times> pyval \<Rightarrow> (string \<times> pyval) \<times> bool" where
  "redact_argument patterns replacement entry =
     (case snd entry of
        PStr v \<Rightarrow> (let (redacted, modified) = fold (redact_with replacement) patterns (v, False)
                   in ((fst entry, PStr redacted), modified))
      | _ \<Rightarrow> (entry, False))"

definition redaction_check :: "string list \<Rightarrow> string \<Rightarrow> guard_check" where
  "redaction_check patterns replacement call context =
     (let used = filter (\<lambda>p. p \<noteq> []) patterns in
      if used = [] then Inr (allow_call call)
      else
        let results = map (redact_argument used replacement) (tc_arguments call)
        in if \<not> list_ex snd results then Inr (allow_call call)
           else Inr \<lparr>gr_decision = GuardModify,
                     gr_tool_call = \<lparr>tc_id = tc_id call, tc_name = tc_name call,
                                     tc_arguments = map fst results\<rparr>,
                     gr_reason = RedactedSubstrings,
                     gr_metadata = [(''guardrail'', PStr ''StringRedactionGuardrail'')]\<rparr>)"

section \<open>Composition\<close>

fun compose_from :: "guardrail list \<Rightarrow> guard_result \<Rightarrow> tool_call \<Rightarrow> guard_context \<Rightarrow> guard_result" where
  "compose_from [] prev current context = prev"
| "compose_from (g # gs) prev current context =
     (case gl_check g current context of
        Inl error \<Rightarrow> \<lparr>gr_decision = GuardDeny, gr_tool_call = current, gr_reason = GuardCrashed (gl_name g),
                      gr_metadata = [(''error'', PStr error)]\<rparr>
      | Inr result \<Rightarrow>
          if gr_decision result = GuardDeny then result
          else compose_from gs result
                 (if gr_decision result = GuardModify then gr_tool_call result else current) context)"

definition compose :: "guardrail list \<Rightarrow> tool_call \<Rightarrow> guard_context \<Rightarrow> guard_result" where
  "compose gs call context = compose_from gs (allow_call call) call context"

datatype builtin =
    RequiredArgs "(string, string list) dict"
  | Capability "(string, string) dict"
  | Redaction "string list" string

fun builtin_check :: "builtin \<Rightarrow> guard_check" where
  "builtin_check (RequiredArgs required) = required_args_check required"
| "builtin_check (Capability required) = capability_check required"
| "builtin_check (Redaction patterns replacement) = redaction_check patterns replacement"

fun builtin_name :: "builtin \<Rightarrow> string" where
  "builtin_name (RequiredArgs _) = ''RequiredArgsGuardrail''"
| "builtin_name (Capability _) = ''CapabilityGuardrail''"
| "builtin_name (Redaction _ _) = ''StringRedactionGuardrail''"

definition builtin_guardrail :: "builtin \<Rightarrow> guardrail" where
  "builtin_guardrail b = \<lparr>gl_name = builtin_name b, gl_check = builtin_check b\<rparr>"

section \<open>The contract of a guardrail\<close>

text \<open>
  A guardrail may rewrite argument values, never which tool is called, under which id, with which
  argument names; unless it says that it modified the call, it hands back the call it was given.
\<close>

locale guard_contract =
  fixes check :: guard_check
  assumes keeps_shape: "check call context = Inr r \<Longrightarrow>
      tc_id (gr_tool_call r) = tc_id call \<and> tc_name (gr_tool_call r) = tc_name call
      \<and> map fst (tc_arguments (gr_tool_call r)) = map fst (tc_arguments call)"
    and unmodified: "check call context = Inr r \<Longrightarrow> gr_decision r \<noteq> GuardModify \<Longrightarrow> gr_tool_call r = call"

lemma redact_argument_key [simp]: "fst (fst (redact_argument ps rep e)) = fst e"
  by (simp add: redact_argument_def split_beta Let_def split: pyval.split)

interpretation required_args: guard_contract "required_args_check required" for required
  by unfold_locales (auto simp: required_args_check_def allow_call_def Let_def split: option.splits if_splits)

interpretation capability: guard_contract "capability_check required" for required
  by unfold_locales
    (auto simp: capability_check_def allow_call_def Let_def split: option.splits if_splits bool.splits)

interpretation redaction: guard_contract "redaction_check patterns replacement" for patterns replacement
  by unfold_locales (auto simp: redaction_check_def allow_call_def Let_def split: if_splits)

interpretation builtin: guard_contract "builtin_check b" for b
proof unfold_locales
  fix call ctx r
  assume "builtin_check b call ctx = Inr r"
  then show "tc_id (gr_tool_call r) = tc_id call \<and> tc_name (gr_tool_call r) = tc_name call
      \<and> map fst (tc_arguments (gr_tool_call r)) = map fst (tc_arguments call)"
    and "gr_decision r \<noteq> GuardModify \<Longrightarrow> gr_tool_call r = call"
    using required_args.keeps_shape capability.keeps_shape redaction.keeps_shape
      required_args.unmodified capability.unmodified redaction.unmodified
    by (cases b; simp)+
qed

section \<open>Facts about composition\<close>

text \<open>Every guardrail of a chain, on the call that reaches it, answers and does not deny.\<close>

fun chain_passes :: "guard_context \<Rightarrow> guardrail list \<Rightarrow> tool_call \<Rightarrow> bool" where
  "chain_passes context [] call = True"
| "chain_passes context (g # gs) call =
     (case gl_check g call context of
        Inl _ \<Rightarrow> False
      | Inr r \<Rightarrow> gr_decision r \<noteq> GuardDeny \<and> chain_passes context gs (gr_tool_call r))"

definition same_shape :: "tool_call \<Rightarrow> tool_call \<Rightarrow> bool" where
  "same_shape c d \<longleftrightarrow> tc_id c = tc_id d \<and> tc_name c = tc_name d
     \<and> map fst (tc_arguments c) = map fst (tc_arguments d)"

definition contracts :: "guardrail list \<Rightarrow> bool" where
  "contracts gs \<longleftrightarrow> (\<forall>g \<in> set gs. guard_contract (gl_check g))"

lemma contracts_Cons [simp]: "contracts (g # gs) \<longleftrightarrow> guard_contract (gl_check g) \<and> contracts gs"
  by (auto simp: contracts_def)

lemma contracts_builtin: "contracts (map builtin_guardrail bs)"
  by (auto simp: contracts_def builtin_guardrail_def builtin.guard_contract_axioms)

lemma compose_from_step:
  assumes "guard_contract (gl_check g)" "gl_check g current ctx = Inr r" "gr_decision r \<noteq> GuardDeny"
  shows "compose_from (g # gs) prev current ctx = compose_from gs r (gr_tool_call r) ctx"
  using assms(2,3) guard_contract.unmodified [OF assms(1,2)] by auto

lemma compose_from_denies_iff:
  "contracts gs \<Longrightarrow> gr_decision prev \<noteq> GuardDeny \<Longrightarrow>
   gr_decision (compose_from gs prev current ctx) = GuardDeny \<longleftrightarrow> \<not> chain_passes ctx gs current"
proof (induction gs arbitrary: prev current)
  case (Cons g gs)
  show ?case
  proof (cases "gl_check g current ctx")
    case (Inr r)
    show ?thesis
    proof (cases "gr_decision r = GuardDeny")
      case False
      then show ?thesis
        using Cons compose_from_step [of g current ctx r gs prev] Inr by (simp del: compose_from.simps)
    qed (simp add: Inr)
  qed simp
qed simp

lemma compose_from_shape:
  "contracts gs \<Longrightarrow> chain_passes ctx gs current \<Longrightarrow> gr_tool_call prev = current \<Longrightarrow>
   same_shape (gr_tool_call (compose_from gs prev current ctx)) current"
proof (induction gs arbitrary: prev current)
  case (Cons g gs)
  then obtain r where r: "gl_check g current ctx = Inr r" "gr_decision r \<noteq> GuardDeny"
    "chain_passes ctx gs (gr_tool_call r)" by (auto split: sum.splits)
  have "same_shape (gr_tool_call r) current"
    using guard_contract.keeps_shape [of "gl_check g"] Cons.prems(1) r(1) by (simp add: same_shape_def)
  moreover have "same_shape (gr_tool_call (compose_from gs r (gr_tool_call r) ctx)) (gr_tool_call r)"
    by (rule Cons.IH) (use Cons.prems r in simp_all)
  ultimately show ?case
    using compose_from_step [of g current ctx r gs prev] Cons.prems r
    by (simp add: same_shape_def del: compose_from.simps)
qed (simp add: same_shape_def)

lemma chain_passes_member:
  "contracts gs \<Longrightarrow> chain_passes ctx gs call \<Longrightarrow> g \<in> set gs \<Longrightarrow>
   \<exists>c r. same_shape c call \<and> gl_check g c ctx = Inr r \<and> gr_decision r \<noteq> GuardDeny"
proof (induction gs arbitrary: call)
  case (Cons h gs)
  then obtain r where r: "gl_check h call ctx = Inr r" "gr_decision r \<noteq> GuardDeny"
    "chain_passes ctx gs (gr_tool_call r)" by (auto split: sum.splits)
  have shape: "same_shape (gr_tool_call r) call"
    using guard_contract.keeps_shape [of "gl_check h"] Cons.prems(1) r(1) by (simp add: same_shape_def)
  show ?case
  proof (cases "g = h")
    case True
    then show ?thesis using r by (auto simp: same_shape_def intro!: exI [of _ call])
  next
    case False
    then obtain c r' where "same_shape c (gr_tool_call r)" "gl_check g c ctx = Inr r'" "gr_decision r' \<noteq> GuardDeny"
      using Cons.IH [of "gr_tool_call r"] Cons.prems r(3) by auto
    then show ?thesis using shape by (auto simp: same_shape_def)
  qed
qed simp

text \<open>What a guardrail that lets a call through has established about its name and argument names.\<close>

definition capability_granted :: "guard_context \<Rightarrow> string \<Rightarrow> bool" where
  "capability_granted context capability =
     (case dict_get context ''granted_capabilities'' of
        None \<Rightarrow> False | Some v \<Rightarrow> truthy v \<and> member_of capability v = Some True)"

fun establishes :: "guard_context \<Rightarrow> tool_call \<Rightarrow> builtin \<Rightarrow> bool" where
  "establishes context call (RequiredArgs required) =
     (case dict_get required (tc_name call) of
        None \<Rightarrow> True | Some args \<Rightarrow> set args \<subseteq> fst ` set (tc_arguments call))"
| "establishes context call (Capability required) =
     (case dict_get required (tc_name call) of
        None \<Rightarrow> True | Some capability \<Rightarrow> capability_granted context capability)"
| "establishes context call (Redaction patterns replacement) = True"

lemma passed_establishes:
  assumes "builtin_check b call ctx = Inr r" "gr_decision r \<noteq> GuardDeny"
  shows "establishes ctx call b"
proof (cases b)
  case (RequiredArgs required)
  then show ?thesis
    using assms by (auto simp: required_args_check_def Let_def filter_empty_conv split: option.splits if_splits)
next
  case (Capability required)
  then show ?thesis
    using assms by (auto simp: capability_check_def Let_def capability_granted_def
        split: option.splits if_splits bool.splits)
qed simp

lemma establishes_shape: "same_shape c d \<Longrightarrow> establishes ctx c b = establishes ctx d b"
proof (cases b)
  case (RequiredArgs required)
  assume "same_shape c d"
  then have "tc_name c = tc_name d" "fst ` set (tc_arguments c) = fst ` set (tc_arguments d)"
    by (auto simp: same_shape_def simp flip: set_map)
  then show ?thesis by (simp add: RequiredArgs split: option.split)
qed (simp_all add: same_shape_def)

section \<open>Facts about replacement\<close>

text \<open>The reference: read from the left, replacing each occurrence where it starts.\<close>

function replace_all :: "string \<Rightarrow> string \<Rightarrow> string \<Rightarrow> string" where
  "replace_all needle_lower replacement [] = []"
| "replace_all needle_lower replacement (c # cs) =
     (if needle_lower \<noteq> [] \<and> prefix needle_lower (py_lower (c # cs))
      then replacement @ replace_all needle_lower replacement (drop (length needle_lower) (c # cs))
      else c # replace_all needle_lower replacement cs)"
  by pat_completeness auto
termination
  by (relation "measure (\<lambda>(n, r, s). length s)") (auto simp: neq_Nil_conv)

lemma replace_all_skip:
  "\<forall>j < k. \<not> prefix n (py_lower (drop j s)) \<Longrightarrow> k \<le> length s \<Longrightarrow>
   replace_all n r s = take k s @ replace_all n r (drop k s)"
proof (induction k arbitrary: s)
  case (Suc k)
  then obtain c cs where s: "s = c # cs" by (cases s) auto
  have "\<not> prefix n (py_lower s)" using Suc.prems(1) by (metis drop0 zero_less_Suc)
  moreover have "\<forall>j < k. \<not> prefix n (py_lower (drop j cs))"
    using Suc.prems(1) by (metis Suc_less_eq drop_Suc_Cons s)
  ultimately show ?case using Suc.IH [of cs] Suc.prems(2) by (simp add: s)
qed simp

lemma py_find_Some:
  assumes "py_find s sub start = Some i"
  shows "start \<le> i \<and> i \<le> length s \<and> prefix sub (drop i s) \<and> (\<forall>j. start \<le> j \<and> j < i \<longrightarrow> \<not> prefix sub (drop j s))"
proof -
  from assms obtain k where k: "k < Suc (length s) - start" "i = start + k" "prefix sub (drop i s)"
    and before: "\<And>j. j < k \<Longrightarrow> \<not> prefix sub (drop (start + j) s)"
    unfolding py_find_def find_Some_iff by (auto simp del: upt_Suc)
  have "\<not> prefix sub (drop j s)" if "start \<le> j" "j < i" for j
    using before [of "j - start"] that k(2) by simp
  with k show ?thesis by auto
qed

lemma py_find_None:
  "py_find s sub start = None \<Longrightarrow> start \<le> j \<Longrightarrow> j \<le> length s \<Longrightarrow> \<not> prefix sub (drop j s)"
  by (auto simp: py_find_def find_None_iff simp del: upt_Suc)

lemma lower_drop: "py_lower (drop k s) = drop k (py_lower s)"
  by (simp add: py_lower_def drop_map)

lemma replace_loop_reference:
  "n \<noteq> [] \<Longrightarrow> concat (replace_loop s n r cursor) = replace_all n r (drop cursor s)"
proof (induction s n r cursor rule: replace_loop.induct)
  case (1 s n r cursor)
  show ?case
  proof (cases "cursor < length s")
    case False
    then show ?thesis by (subst replace_loop.simps) simp
  next
    case within: True
    show ?thesis
    proof (cases "py_find (py_lower s) n cursor")
      case None
      have "\<forall>j < length (drop cursor s). \<not> prefix n (py_lower (drop j (drop cursor s)))"
        using py_find_None [OF None] by (simp add: lower_drop)
      from replace_all_skip [OF this] within "1.prems" None show ?thesis
        by (subst replace_loop.simps) simp
    next
      case (Some i)
      note found = py_find_Some [OF Some]
      have "i + length n \<le> length s" "i < length s"
        using found "1.prems" by (auto dest!: prefix_length_le simp: neq_Nil_conv)
      then have skip: "replace_all n r (drop cursor s)
          = take (i - cursor) (drop cursor s) @ replace_all n r (drop i s)"
        using replace_all_skip [of "i - cursor" n "drop cursor s" r] found
        by (simp add: lower_drop)
      obtain c cs where "drop i s = c # cs" using \<open>i < length s\<close> by (cases "drop i s") auto
      then have "replace_all n r (drop i s) = r @ replace_all n r (drop (i + length n) s)"
        using found "1.prems" by (simp add: lower_drop add.commute flip: drop_drop)
          (metis drop_drop lower_drop add.commute)
      with skip "1.IH" [OF _ Some] within "1.prems" Some show ?thesis
        by (subst replace_loop.simps) simp
    qed
  qed
qed

text \<open>A pattern that shares no character with the replacement can only occur where it occurred before.\<close>

definition apart :: "string \<Rightarrow> string \<Rightarrow> bool" where
  "apart p r \<longleftrightarrow> p \<noteq> [] \<and> r \<noteq> [] \<and> set p \<inter> set (py_lower r) = {}"

lemma prefix_apart:
  assumes "apart p r"
  shows "\<not> prefix p (py_lower r @ t)"
  using assms by (cases p; cases r) (auto simp: apart_def py_lower_def)

lemma prefix_replace_all:
  "set q \<inter> set (py_lower r) = {} \<Longrightarrow> r \<noteq> [] \<Longrightarrow> prefix q (py_lower (replace_all n r s)) \<Longrightarrow> prefix q (py_lower s)"
proof (induction n r s arbitrary: q rule: replace_all.induct)
  case (2 n r c cs)
  show ?case
  proof (cases "n \<noteq> [] \<and> prefix n (py_lower (c # cs))")
    case True
    then show ?thesis
      using "2.prems" prefix_apart [of q r "py_lower (replace_all n r (drop (length n) (c # cs)))"]
      by (cases "q = []") (simp_all add: apart_def py_lower_def)
  next
    case False
    then show ?thesis
      using "2.prems" "2.IH"(2) [OF False, of "tl q"]
      by (cases q) (auto simp: py_lower_def)
  qed
qed simp

lemma contains_append_apart:
  assumes "apart p r" "contains p (py_lower r @ t)"
  shows "contains p t"
proof -
  have "contains p t" if "contains p (py_lower u @ t)" "set u \<subseteq> set r" for u
    using that
  proof (induction u)
    case (Cons c u)
    have "lower_char c \<in> set (py_lower r)" using Cons.prems(2) by (auto simp: py_lower_def)
    then have "\<not> prefix p (lower_char c # py_lower u @ t)"
      using assms(1) by (cases p) (auto simp: apart_def)
    then show ?case using Cons by (simp add: py_lower_def)
  qed (simp add: py_lower_def)
  then show ?thesis using assms(2) by blast
qed

lemma contains_replace_all:
  "apart p r \<Longrightarrow> contains p (py_lower (replace_all n r s)) \<Longrightarrow> contains p (py_lower s)"
proof (induction n r s rule: replace_all.induct)
  case (2 n r c cs)
  show ?case
  proof (cases "n \<noteq> [] \<and> prefix n (py_lower (c # cs))")
    case True
    then have "contains p (py_lower (drop (length n) (c # cs)))"
      using "2.IH"(1) [OF True] "2.prems" contains_append_apart [OF "2.prems"(1)]
      by (simp add: py_lower_def)
    then have "contains p (drop (length n) (py_lower (c # cs)))" by (simp only: lower_drop)
    then show ?thesis by (metis append_take_drop_id contains_append append_Nil2)
  next
    case False
    have "prefix p (py_lower (c # cs))" if "prefix p (py_lower (c # replace_all n r cs))"
    proof -
      have "prefix (tl p) (py_lower cs)"
        by (rule prefix_replace_all [of _ r n])
          (use that "2.prems"(1) in \<open>cases p; auto simp: apart_def py_lower_def\<close>)+
      then show ?thesis using that by (cases p) (auto simp: py_lower_def)
    qed
    then show ?thesis
      using False "2.prems" "2.IH"(2) [OF False "2.prems"(1)] by (auto simp: py_lower_def)
  qed
qed simp

lemma replace_all_removes: "apart n r \<Longrightarrow> \<not> contains n (py_lower (replace_all n r s))"
proof (induction n r s rule: replace_all.induct)
  case (1 n r)
  then show ?case by (simp add: apart_def py_lower_def)
next
  case (2 n r c cs)
  show ?case
  proof (cases "n \<noteq> [] \<and> prefix n (py_lower (c # cs))")
    case True
    then show ?thesis
      using "2.IH"(1) [OF True] "2.prems" contains_append_apart [OF "2.prems"] by (auto simp: py_lower_def)
  next
    case False
    have "\<not> prefix n (py_lower (c # replace_all n r cs))"
    proof
      assume p: "prefix n (py_lower (c # replace_all n r cs))"
      have "prefix (tl n) (py_lower cs)"
        by (rule prefix_replace_all [of _ r n])
          (use p "2.prems" in \<open>cases n; auto simp: apart_def py_lower_def\<close>)+
      with p False "2.prems" show False by (cases n) (auto simp: apart_def py_lower_def)
    qed
    then show ?thesis using False "2.IH"(2) [OF False "2.prems"] by (auto simp: py_lower_def)
  qed
qed

lemma redact_removes:
  assumes "\<forall>p \<in> set ps. apart (py_lower p) r"
  shows "\<forall>p \<in> set ps. \<not> contains (py_lower p) (py_lower (fst (fold (redact_with r) ps (v, m))))"
  using assms
proof (induction ps rule: rev_induct)
  case (snoc q ps)
  let ?v = "fst (fold (redact_with r) ps (v, m))"
  have q: "apart (py_lower q) r" "q \<noteq> []" using snoc.prems by (auto simp: apart_def py_lower_def)
  have new: "fst (redact_with r q (fold (redact_with r) ps (v, m)))
      = (if contains (py_lower q) (py_lower ?v) then replace_all (py_lower q) r ?v else ?v)"
    using q(2) replace_loop_reference [of "py_lower q" ?v r 0]
    by (simp add: redact_with_def case_insensitive_replace_def py_lower_def)
  have old: "\<not> contains (py_lower p) (py_lower ?v)" if "p \<in> set ps" for p using snoc that by auto
  moreover have "fst (fold (redact_with r) (ps @ [q]) (v, m))
      = (if contains (py_lower q) (py_lower ?v) then replace_all (py_lower q) r ?v else ?v)"
    using new by simp
  moreover have "\<not> contains (py_lower p) (py_lower (replace_all (py_lower q) r ?v))" if "p \<in> set ps" for p
    using old [OF that] contains_replace_all [of "py_lower p" r "py_lower q" ?v] snoc.prems that by auto
  ultimately show ?case using old replace_all_removes [OF q(1)] by auto
qed simp

section \<open>Properties\<close>

text \<open>A call is dispatched only as the guardrails left it: a chain of built-in guardrails denies exactly
  when one of them denies or raises on the call that reaches it, and a call it lets through has the
  tool, the id and the argument names the model asked for, every argument the chain requires and
  every capability the chain demands for that tool.\<close>

theorem guardrail_chain_is_safe:
  "(gr_decision (compose (map builtin_guardrail bs) call context) = GuardDeny
      \<longleftrightarrow> \<not> chain_passes context (map builtin_guardrail bs) call)
   \<and> (if gr_decision (compose (map builtin_guardrail bs) call context) = GuardDeny then True
      else same_shape (gr_tool_call (compose (map builtin_guardrail bs) call context)) call
        \<and> list_all (establishes context call) bs)"
proof -
  let ?gs = "map builtin_guardrail bs"
  have iff: "gr_decision (compose ?gs call context) = GuardDeny \<longleftrightarrow> \<not> chain_passes context ?gs call"
    unfolding compose_def by (rule compose_from_denies_iff [OF contracts_builtin]) (simp add: allow_call_def)
  moreover have "same_shape (gr_tool_call (compose ?gs call context)) call" if "chain_passes context ?gs call"
    unfolding compose_def by (rule compose_from_shape [OF contracts_builtin that]) (simp add: allow_call_def)
  moreover have "establishes context call b" if passes: "chain_passes context ?gs call" and "b \<in> set bs" for b
  proof -
    have "builtin_guardrail b \<in> set ?gs" using \<open>b \<in> set bs\<close> by simp
    then obtain c r where "same_shape c call" "builtin_check b c context = Inr r" "gr_decision r \<noteq> GuardDeny"
      using chain_passes_member [OF contracts_builtin passes, of "builtin_guardrail b"]
      by (auto simp: builtin_guardrail_def)
    then show ?thesis using passed_establishes establishes_shape by blast
  qed
  ultimately show ?thesis by (simp add: list_all_iff)
qed

text \<open>The scanning replacement is the reference replacement: cursor and search agree with replacing,
  from the left, each occurrence of the pattern in any spelling where it starts.\<close>

theorem replacement_matches_reference:
  "case_insensitive_replace haystack needle replacement =
     (if needle = [] then haystack else replace_all (py_lower needle) replacement haystack)"
  using replace_loop_reference [of "py_lower needle" haystack replacement 0]
  by (simp add: case_insensitive_replace_def py_lower_def)

text \<open>After the redaction guardrail no text argument of the call contains a pattern in any spelling,
  as long as no pattern shares a character with the replacement.\<close>

theorem redacted_call_has_no_pattern:
  assumes "redaction_check patterns replacement call context = Inr r"
    and "\<forall>p \<in> set patterns. p \<noteq> [] \<longrightarrow> apart (py_lower p) replacement"
    and "(k, PStr v) \<in> set (tc_arguments (gr_tool_call r))" and "p \<in> set patterns" and "p \<noteq> []"
  shows "\<not> contains (py_lower p) (py_lower v)"
proof -
  let ?used = "filter (\<lambda>p. p \<noteq> []) patterns"
  have redact: "\<not> contains (py_lower p) (py_lower (fst (fold (redact_with replacement) ?used (w, False))))" for w
    using redact_removes [of ?used replacement w False] assms(2,4,5) by auto
  have unhit: "fold (redact_with replacement) ps (w, False) = (w, False)"
    if "\<not> snd (fold (redact_with replacement) ps (w, False))" for ps w
    using that
  proof (induction ps rule: rev_induct)
    case (snoc q ps)
    then show ?case by (auto simp: redact_with_def split: if_splits)
  qed simp
  have used: "?used \<noteq> []" using assms(4,5) by (auto simp: filter_empty_conv)
  let ?results = "map (redact_argument ?used replacement) (tc_arguments call)"
  show ?thesis
  proof (cases "list_ex snd ?results")
    case True
    then have "(k, PStr v) \<in> fst ` set ?results"
      using assms(1,3) used by (auto simp: redaction_check_def Let_def)
    then obtain e where "fst (redact_argument ?used replacement e) = (k, PStr v)" by auto
    then obtain w where "v = fst (fold (redact_with replacement) ?used (w, False))"
      by (auto simp: redact_argument_def Let_def split_beta split: pyval.splits)
    then show ?thesis using redact by simp
  next
    case False
    then have same: "gr_tool_call r = call"
      using assms(1) used by (auto simp: redaction_check_def Let_def allow_call_def)
    then have "\<not> snd (redact_argument ?used replacement (k, PStr v))"
      using False assms(3) by (auto simp: list_ex_iff)
    then have "fold (redact_with replacement) ?used (v, False) = (v, False)"
      by (intro unhit) (simp add: redact_argument_def split_beta Let_def)
    then show ?thesis using redact [of v] by simp
  qed
qed

definition sample_call :: tool_call where
  "sample_call = \<lparr>tc_id = ''1'', tc_name = ''http'', tc_arguments = [(''q'', PStr ''XykyK'')]\<rparr>"

theorem redacted_call_has_no_pattern_witness:
  "\<not> contains (py_lower ''yk'') (py_lower ''X[][]'')"
proof (rule redacted_call_has_no_pattern)
  show "redaction_check [''yk''] ''[]'' sample_call [] = Inr \<lparr>gr_decision = GuardModify,
      gr_tool_call = \<lparr>tc_id = ''1'', tc_name = ''http'', tc_arguments = [(''q'', PStr ''X[][]'')]\<rparr>,
      gr_reason = RedactedSubstrings, gr_metadata = [(''guardrail'', PStr ''StringRedactionGuardrail'')]\<rparr>"
    by code_simp
  show "\<forall>p \<in> set [''yk'']. p \<noteq> [] \<longrightarrow> apart (py_lower p) ''[]''" by code_simp
qed simp_all

end
