(* ===== verification/Run_State.thy ===== *)
theory Run_State
  imports Payload_Sanitizer
begin

text \<open>
  \<open>app/engine/runtime/run_state.py\<close>: the lifecycle of one chat run. Listeners are names; what they are
  told is the list of notifications a transition returns (their exceptions never reach it). The
  monotonic clock and the digest of the sanitizer are arguments.
\<close>

section \<open>States and policy\<close>

datatype run_state =
  RunPending | RunDispatching | RunRunning | RunCompleting | RunSucceeded | RunFailed | RunRetrying

fun run_state_value :: "run_state \<Rightarrow> string" where
  "run_state_value RunPending = ''pending''"
| "run_state_value RunDispatching = ''dispatching''"
| "run_state_value RunRunning = ''running''"
| "run_state_value RunCompleting = ''completing''"
| "run_state_value RunSucceeded = ''succeeded''"
| "run_state_value RunFailed = ''failed''"
| "run_state_value RunRetrying = ''retrying''"

fun valid_transitions :: "run_state \<Rightarrow> run_state list" where
  "valid_transitions RunPending = [RunDispatching, RunFailed]"
| "valid_transitions RunDispatching = [RunRunning, RunRetrying, RunFailed]"
| "valid_transitions RunRunning = [RunCompleting, RunRetrying, RunFailed]"
| "valid_transitions RunCompleting = [RunSucceeded, RunFailed]"
| "valid_transitions RunRetrying = [RunDispatching, RunFailed]"
| "valid_transitions RunSucceeded = []"
| "valid_transitions RunFailed = []"

record run_retry_policy =
  rp_max_attempts :: int
  rp_backoff_base_seconds :: pyfloat

definition default_retry_policy :: run_retry_policy where
  "default_retry_policy = \<lparr>rp_max_attempts = 3, rp_backoff_base_seconds = 1 / 2\<rparr>"

definition should_retry :: "run_retry_policy \<Rightarrow> int \<Rightarrow> bool" where
  "should_retry p attempt \<longleftrightarrow> attempt < rp_max_attempts p"

definition backoff_for :: "run_retry_policy \<Rightarrow> int \<Rightarrow> pyfloat" where
  "backoff_for p attempt = rp_backoff_base_seconds p * 2 ^ nat (max 0 (attempt - 1))"

section \<open>The machine\<close>

record run_machine =
  rm_run_id :: string
  rm_retry_policy :: run_retry_policy
  rm_metadata :: "(string, pyval) dict"
  rm_state :: run_state
  rm_attempt :: int
  rm_error :: "string option"
  rm_started_at :: pyfloat
  rm_last_transition_at :: pyfloat
  rm_listeners :: "string list"

definition run_safe_metadata :: "sanitizer_lib \<Rightarrow> (string, pyval) dict option \<Rightarrow> (string, pyval) dict" where
  "run_safe_metadata lib value =
     (case sanitize_runtime_payload lib 0 (PDict (case value of Some d \<Rightarrow> d | None \<Rightarrow> [])) of
        PDict d \<Rightarrow> d | _ \<Rightarrow> [])"

definition new_run_machine ::
  "sanitizer_lib \<Rightarrow> pyfloat \<Rightarrow> string \<Rightarrow> run_retry_policy option \<Rightarrow> (string, pyval) dict option \<Rightarrow> run_machine" where
  "new_run_machine lib now run_id retry_policy metadata =
     \<lparr>rm_run_id = run_id,
      rm_retry_policy = (case retry_policy of Some p \<Rightarrow> p | None \<Rightarrow> default_retry_policy),
      rm_metadata = run_safe_metadata lib metadata, rm_state = RunPending, rm_attempt = 1,
      rm_error = None, rm_started_at = now, rm_last_transition_at = now, rm_listeners = []\<rparr>"

definition run_is_terminal :: "run_machine \<Rightarrow> bool" where
  "run_is_terminal m \<longleftrightarrow> rm_state m \<in> {RunSucceeded, RunFailed}"

definition add_listener :: "string \<Rightarrow> run_machine \<Rightarrow> run_machine" where
  "add_listener l m = (if l \<in> set (rm_listeners m) then m else m\<lparr>rm_listeners := rm_listeners m @ [l]\<rparr>)"

definition remove_listener :: "string \<Rightarrow> run_machine \<Rightarrow> run_machine" where
  "remove_listener l m = m\<lparr>rm_listeners := remove1 l (rm_listeners m)\<rparr>"

text \<open>An illegal transition is the error of its two states; a legal one notifies the listeners in order.\<close>

definition transition_to ::
  "pyfloat \<Rightarrow> run_state \<Rightarrow> string option \<Rightarrow> run_machine
   \<Rightarrow> (run_state \<times> run_state) + (run_machine \<times> (string \<times> run_state \<times> run_state) list)" where
  "transition_to now target error m =
     (let prev = rm_state m
      in if target \<notin> set (valid_transitions prev) then Inl (prev, target)
         else
           let m1 = m\<lparr>rm_state := target, rm_last_transition_at := now\<rparr>;
               m2 = (if str_or_empty error \<noteq> []
                     then m1\<lparr>rm_error := Some (redact_runtime_secret_text (Some (int max_sanitized_string)) (str_or_empty error))\<rparr> else m1);
               m3 = (if target = RunRetrying then m2\<lparr>rm_attempt := rm_attempt m2 + 1, rm_error := None\<rparr> else m2)
           in Inr (m3, map (\<lambda>l. (l, prev, target)) (rm_listeners m3)))"

record run_snapshot =
  sn_run_id :: string
  sn_state :: run_state
  sn_attempt :: int
  sn_started_at :: pyfloat
  sn_last_transition_at :: pyfloat
  sn_error :: "string option"
  sn_metadata :: "(string, pyval) dict"

definition snapshot :: "sanitizer_lib \<Rightarrow> run_machine \<Rightarrow> run_snapshot" where
  "snapshot lib m =
     \<lparr>sn_run_id = rm_run_id m, sn_state = rm_state m, sn_attempt = rm_attempt m,
      sn_started_at = rm_started_at m, sn_last_transition_at = rm_last_transition_at m,
      sn_error = rm_error m, sn_metadata = run_safe_metadata lib (Some (rm_metadata m))\<rparr>"

section \<open>Runs\<close>

text \<open>
  One legal transition, labelled with its target. \<open>policed_step\<close> is the step of a caller that follows
  the documented use: it asks the retry policy before it retries.
\<close>

inductive run_step :: "run_machine \<Rightarrow> run_state \<Rightarrow> run_machine \<Rightarrow> bool" where
  run_stepI: "transition_to now target error m = Inr (m', notified) \<Longrightarrow> run_step m target m'"

inductive_cases run_stepE: "run_step m target m'"

definition policed_step :: "run_machine \<Rightarrow> run_state \<Rightarrow> run_machine \<Rightarrow> bool" where
  "policed_step m target m' \<longleftrightarrow> run_step m target m' \<and>
     (target = RunRetrying \<longrightarrow> should_retry (rm_retry_policy m) (rm_attempt m))"

inductive run_path :: "(run_machine \<Rightarrow> run_state \<Rightarrow> run_machine \<Rightarrow> bool) \<Rightarrow> run_machine \<Rightarrow> run_state list \<Rightarrow> run_machine \<Rightarrow> bool"
  for step where
  path_done: "run_path step m [] m"
| path_step: "run_path step m ts m' \<Longrightarrow> step m' t m'' \<Longrightarrow> run_path step m (ts @ [t]) m''"

inductive_cases run_path_snocE: "run_path step m (ts @ [t]) m'"

lemma run_step_fields:
  "run_step m t m' \<Longrightarrow> t \<in> set (valid_transitions (rm_state m)) \<and> rm_state m' = t
     \<and> rm_retry_policy m' = rm_retry_policy m \<and> rm_run_id m' = rm_run_id m
     \<and> rm_attempt m' = rm_attempt m + (if t = RunRetrying then 1 else 0)
     \<and> (t = RunRetrying \<longrightarrow> rm_error m' = None)"
  by (erule run_stepE) (auto simp: transition_to_def Let_def split: if_splits)

lemma run_step_exists:
  "t \<in> set (valid_transitions (rm_state m)) \<Longrightarrow> \<exists>m'. run_step m t m'"
  by (rule exI, rule run_stepI [where now = 0 and error = None]) (simp add: transition_to_def Let_def)

lemma policed_is_run: "run_path policed_step m ts m' \<Longrightarrow> run_path run_step m ts m'"
  by (induction rule: run_path.induct) (auto simp: policed_step_def intro: run_path.intros)

text \<open>What a path that starts a run has done: its attempts, its last states, its policy.\<close>

lemma run_path_trace:
  "run_path run_step m ts m' \<Longrightarrow> rm_state m = RunPending \<Longrightarrow>
   rm_state m' = last (RunPending # ts) \<and> rm_retry_policy m' = rm_retry_policy m
   \<and> rm_attempt m' = rm_attempt m + int (count_list ts RunRetrying)
   \<and> (rm_state m' = RunRunning \<longrightarrow> suffix [RunDispatching, RunRunning] ts)
   \<and> (rm_state m' = RunCompleting \<longrightarrow> suffix [RunDispatching, RunRunning, RunCompleting] ts)
   \<and> (rm_state m' = RunSucceeded \<longrightarrow> suffix [RunDispatching, RunRunning, RunCompleting, RunSucceeded] ts)
   \<and> (rm_state m' = RunDispatching \<longrightarrow> suffix [RunDispatching] ts)"
proof (induction rule: run_path.induct)
  case (path_step m ts m' t m'')
  note s = run_step_fields [OF path_step.hyps(2)] and i = path_step.IH [OF path_step.prems]
  have "rm_state m' \<noteq> RunPending \<or> t \<in> {RunDispatching, RunFailed}" using s by auto
  then show ?case using s i by (cases "rm_state m'") (auto simp: suffix_def)
qed simp

text \<open>
  The work left under a retry policy: every attempt takes at most three transitions, the last one four.
\<close>

fun stage_left :: "run_state \<Rightarrow> nat" where
  "stage_left RunPending = 5"
| "stage_left RunRetrying = 5"
| "stage_left RunDispatching = 4"
| "stage_left RunRunning = 3"
| "stage_left RunCompleting = 2"
| "stage_left RunSucceeded = 0"
| "stage_left RunFailed = 0"

definition work_left :: "run_machine \<Rightarrow> nat" where
  "work_left m = 3 * nat (rp_max_attempts (rm_retry_policy m) - rm_attempt m) + stage_left (rm_state m)"

lemma policed_step_decreases: "policed_step m t m' \<Longrightarrow> work_left m' < work_left m"
proof -
  assume p: "policed_step m t m'"
  then have s: "run_step m t m'" by (simp add: policed_step_def)
  show ?thesis
  proof (cases "t = RunRetrying")
    case True
    then have "rm_attempt m < rp_max_attempts (rm_retry_policy m)"
      using p by (simp add: policed_step_def should_retry_def)
    then show ?thesis
      using run_step_fields [OF s] True by (cases "rm_state m") (auto simp: work_left_def nat_diff_distrib')
  next
    case False
    then show ?thesis using run_step_fields [OF s] by (cases "rm_state m"; cases t) (auto simp: work_left_def)
  qed
qed

lemma policed_path_work: "run_path policed_step m ts m' \<Longrightarrow> length ts + work_left m' \<le> work_left m"
proof (induction rule: run_path.induct)
  case (path_step m ts m' t m'')
  then show ?case using policed_step_decreases [of m' t m''] by simp
qed simp

section \<open>Properties\<close>

text \<open>A run only succeeds through every stage: whatever transitions are requested, a succeeded run went
  through dispatching, running, completing and succeeded in this order at its end, its attempt counter
  is one more than its retries, and a finished run never moves again.\<close>

theorem success_passes_every_stage:
  assumes "run_path run_step (new_run_machine lib now run_id policy metadata) ts m"
  shows "rm_attempt m = 1 + int (count_list ts RunRetrying)
    \<and> (if rm_state m = RunSucceeded
       then suffix [RunDispatching, RunRunning, RunCompleting, RunSucceeded] ts else True)
    \<and> (if run_is_terminal m then \<not> run_step m t m' else True)"
proof -
  have "rm_state (new_run_machine lib now run_id policy metadata) = RunPending"
    "rm_attempt (new_run_machine lib now run_id policy metadata) = 1" by (simp_all add: new_run_machine_def)
  then show ?thesis
    using run_path_trace [OF assms] run_step_fields [of m t m'] by (auto simp: run_is_terminal_def)
qed

text \<open>A caller that asks the retry policy before each retry always finishes: a run makes at most two
  transitions more than three for each allowed attempt, whatever fails on the way.\<close>

theorem policed_run_terminates:
  assumes "run_path policed_step (new_run_machine lib now run_id (Some policy) metadata) ts m"
    and "1 \<le> rp_max_attempts policy"
  shows "int (length ts) \<le> 3 * rp_max_attempts policy + 2"
proof -
  have "work_left (new_run_machine lib now run_id (Some policy) metadata) = 3 * nat (rp_max_attempts policy - 1) + 5"
    by (simp add: work_left_def new_run_machine_def)
  with policed_path_work [OF assms(1)] assms(2) show ?thesis by linarith
qed

definition sample_machine :: run_machine where
  "sample_machine = \<lparr>rm_run_id = ''run_1'', rm_retry_policy = default_retry_policy, rm_metadata = [],
     rm_state = RunPending, rm_attempt = 1, rm_error = None, rm_started_at = 0,
     rm_last_transition_at = 0, rm_listeners = []\<rparr>"

definition sample_run_lib :: sanitizer_lib where
  "sample_run_lib = \<lparr>lib_blake = id, lib_json_loads = (\<lambda>_. None), lib_str = (\<lambda>_. [])\<rparr>"

lemma sample_machine_new: "new_run_machine sample_run_lib 0 ''run_1'' (Some default_retry_policy) None = sample_machine"
  by (simp add: new_run_machine_def sample_machine_def run_safe_metadata_def sanitize_runtime_payload.simps add_redacted_count_def)

lemma sample_path:
  "run_path policed_step sample_machine [RunDispatching, RunFailed]
     (sample_machine\<lparr>rm_state := RunFailed\<rparr>)"
proof -
  have "run_step sample_machine RunDispatching (sample_machine\<lparr>rm_state := RunDispatching\<rparr>)"
    "run_step (sample_machine\<lparr>rm_state := RunDispatching\<rparr>) RunFailed (sample_machine\<lparr>rm_state := RunFailed\<rparr>)"
    by (rule run_stepI [where now = 0 and error = None and notified = "[]"];
        simp add: transition_to_def Let_def sample_machine_def str_or_empty_def)+
  then show ?thesis
    using path_step [OF path_step [OF path_done [of policed_step sample_machine]], of RunDispatching _ RunFailed]
    by (simp add: policed_step_def)
qed

theorem success_passes_every_stage_witness:
  "\<not> run_step (sample_machine\<lparr>rm_state := RunFailed\<rparr>) RunRunning sample_machine"
  using success_passes_every_stage [OF policed_is_run [OF sample_path [folded sample_machine_new]],
      of RunRunning sample_machine]
  by (simp add: run_is_terminal_def sample_machine_new)

theorem policed_run_terminates_witness: "int (length [RunDispatching, RunFailed]) \<le> 3 * rp_max_attempts default_retry_policy + 2"
  by (rule policed_run_terminates [OF sample_path [folded sample_machine_new]]) (simp add: default_retry_policy_def)

lemma retry_cycle:
  assumes "rm_state m = RunDispatching"
  shows "\<exists>m'. run_path run_step m [RunRetrying, RunDispatching] m' \<and> rm_state m' = RunDispatching
    \<and> rm_attempt m' = rm_attempt m + 1 \<and> rm_retry_policy m' = rm_retry_policy m"
proof -
  obtain m1 where 1: "run_step m RunRetrying m1" using run_step_exists [of RunRetrying m] assms by auto
  obtain m2 where 2: "run_step m1 RunDispatching m2"
    using run_step_exists [of RunDispatching m1] run_step_fields [OF 1] by auto
  have "run_path run_step m ([] @ [RunRetrying]) m1" by (rule path_step [OF path_done]) (rule 1)
  then have "run_path run_step m (([] @ [RunRetrying]) @ [RunDispatching]) m2" by (rule path_step) (rule 2)
  then have "run_path run_step m [RunRetrying, RunDispatching] m2" by simp
  then show ?thesis using run_step_fields [OF 1] run_step_fields [OF 2] by auto
qed

lemma run_path_append:
  "run_path step m' us m'' \<Longrightarrow> run_path step m ts m' \<Longrightarrow> run_path step m (ts @ us) m''"
  by (induction rule: run_path.induct) (auto simp flip: append_assoc intro: run_path.intros)

lemma unpoliced_attempts:
  "\<exists>ts m. run_path run_step sample_machine ts m \<and> rm_state m = RunDispatching
     \<and> rm_attempt m = 1 + int n \<and> rm_retry_policy m = default_retry_policy"
proof (induction n)
  case 0
  obtain m where 1: "run_step sample_machine RunDispatching m"
    using run_step_exists [of RunDispatching sample_machine] by (auto simp: sample_machine_def)
  have "run_path run_step sample_machine ([] @ [RunDispatching]) m" by (rule path_step [OF path_done]) (rule 1)
  then show ?case using run_step_fields [OF 1] by (auto simp: sample_machine_def)
next
  case (Suc n)
  then obtain ts m where m: "run_path run_step sample_machine ts m" "rm_state m = RunDispatching"
    "rm_attempt m = 1 + int n" "rm_retry_policy m = default_retry_policy" by auto
  from retry_cycle [OF m(2)] obtain m' where m': "run_path run_step m [RunRetrying, RunDispatching] m'"
    "rm_state m' = RunDispatching" "rm_attempt m' = rm_attempt m + 1" "rm_retry_policy m' = rm_retry_policy m" by auto
  then show ?case using run_path_append [OF m'(1) m(1)] m by fastforce
qed

text \<open>The machine itself does not enforce its retry policy: with the default policy of three attempts
  there are legal runs with any number of attempts.\<close>

theorem retry_policy_not_enforced:
  "\<exists>ts m. run_path run_step sample_machine ts m \<and> rp_max_attempts (rm_retry_policy m) = 3
     \<and> rm_attempt m = 1 + int n"
proof -
  obtain ts m where "run_path run_step sample_machine ts m" "rm_attempt m = 1 + int n"
    "rm_retry_policy m = default_retry_policy" using unpoliced_attempts [of n] by blast
  then have "run_path run_step sample_machine ts m \<and> rp_max_attempts (rm_retry_policy m) = 3 \<and> rm_attempt m = 1 + int n"
    by (simp add: default_retry_policy_def)
  then show ?thesis by blast
qed

end
