(* ===== verification/Event_Log.thy ===== *)
theory Event_Log
  imports Payload_Sanitizer "HOL-Library.Product_Lexorder"
begin

text \<open>
  \<open>app/engine/runtime/session_event_log.py\<close>: the append-only log of a chat session with its two
  backends, the process-local dictionary and the table \<open>session_events\<close>. Both are interpreted as the
  interface \<open>session_log\<close>. A point in time is an \<^typ>\<open>int\<close> of microseconds in UTC. The JSON codec and the
  \<open>jsonb\<close> column are functions of \<open>event_db\<close>; the logs of the pool are not modelled.
\<close>

section \<open>Events\<close>

record session_event =
  se_session_id :: string
  se_event_type :: string
  se_payload :: "(string, pyval) dict"
  se_seq :: int
  se_org_id :: "string option"
  se_created_at :: "int option"

record append_call =
  ap_session_id :: string
  ap_event_type :: string
  ap_payload :: pyval
  ap_org_id :: "string option"
  ap_now :: int

definition safe_payload_dict :: "sanitizer_lib \<Rightarrow> pyval \<Rightarrow> (string, pyval) dict" where
  "safe_payload_dict lib payload =
     (case sanitize_runtime_payload lib 0 payload of PDict d \<Rightarrow> d | _ \<Rightarrow> [])"

definition bounded_recent_limit :: "pyval \<Rightarrow> nat" where
  "bounded_recent_limit limit = (case limit of PInt n \<Rightarrow> nat (min (max n 1) 500) | _ \<Rightarrow> 50)"

definition event_created_before :: "session_event \<Rightarrow> int \<Rightarrow> bool" where
  "event_created_before e cutoff \<longleftrightarrow> (case se_created_at e of None \<Rightarrow> False | Some t \<Rightarrow> t < cutoff)"

text \<open>An optional filter argument: \<open>None\<close> accepts everything.\<close>

definition accepts :: "'a option \<Rightarrow> 'a option \<Rightarrow> bool" where
  "accepts wanted v \<longleftrightarrow> wanted = None \<or> v = wanted"

lemma accepts_None [simp]: "accepts None v"
  by (simp add: accepts_def)

section \<open>The in-memory backend\<close>

record session_state =
  ss_seq :: int
  ss_events :: "session_event list"

record memory_log =
  ml_sessions :: "(string, session_state) dict"
  ml_events :: "session_event list"

definition empty_memory_log :: memory_log where
  "empty_memory_log = \<lparr>ml_sessions = [], ml_events = []\<rparr>"

definition mem_append :: "sanitizer_lib \<Rightarrow> append_call \<Rightarrow> memory_log \<Rightarrow> session_event \<times> memory_log" where
  "mem_append lib c L =
     (let st = (case dict_get (ml_sessions L) (ap_session_id c) of
                  Some st \<Rightarrow> st | None \<Rightarrow> \<lparr>ss_seq = 0, ss_events = []\<rparr>);
          e = \<lparr>se_session_id = ap_session_id c, se_event_type = ap_event_type c,
               se_payload = safe_payload_dict lib (ap_payload c), se_seq = ss_seq st + 1,
               se_org_id = ap_org_id c, se_created_at = Some (ap_now c)\<rparr>
      in (e, \<lparr>ml_sessions = dict_set (ap_session_id c)
                 \<lparr>ss_seq = ss_seq st + 1, ss_events = ss_events st @ [e]\<rparr> (ml_sessions L),
              ml_events = ml_events L @ [e]\<rparr>))"

definition mem_get_events ::
  "memory_log \<Rightarrow> string \<Rightarrow> string option \<Rightarrow> int option \<Rightarrow> session_event list" where
  "mem_get_events L sid org since =
     (case dict_get (ml_sessions L) sid of
        None \<Rightarrow> []
      | Some st \<Rightarrow>
          (let events = ss_events st;
               events = (if org \<noteq> None then filter (\<lambda>e. se_org_id e = org) events else events)
           in case since of Some n \<Rightarrow> filter (\<lambda>e. n < se_seq e) events | None \<Rightarrow> events))"

definition mem_latest_seq :: "memory_log \<Rightarrow> string \<Rightarrow> string option \<Rightarrow> int" where
  "mem_latest_seq L sid org =
     (case dict_get (ml_sessions L) sid of
        None \<Rightarrow> 0
      | Some st \<Rightarrow>
          if org = None then ss_seq st
          else case find (\<lambda>e. se_org_id e = org) (rev (ss_events st)) of
                 Some e \<Rightarrow> se_seq e | None \<Rightarrow> 0)"

fun collect_recent :: "(session_event \<Rightarrow> bool) \<Rightarrow> nat \<Rightarrow> session_event list \<Rightarrow> session_event list \<Rightarrow> session_event list" where
  "collect_recent ok limit acc [] = acc"
| "collect_recent ok limit acc (e # es) =
     (if \<not> ok e then collect_recent ok limit acc es
      else if limit \<le> length (acc @ [e]) then acc @ [e]
      else collect_recent ok limit (acc @ [e]) es)"

definition mem_get_recent_events ::
  "memory_log \<Rightarrow> string option \<Rightarrow> string option \<Rightarrow> pyval \<Rightarrow> session_event list" where
  "mem_get_recent_events L org event_type limit =
     collect_recent (\<lambda>e. accepts org (se_org_id e) \<and> accepts event_type (Some (se_event_type e)))
       (bounded_recent_limit limit) [] (rev (ml_events L))"

definition prune_matches :: "int \<Rightarrow> string option \<Rightarrow> string option \<Rightarrow> session_event \<Rightarrow> bool" where
  "prune_matches cutoff org event_type e \<longleftrightarrow>
     accepts org (se_org_id e) \<and> accepts event_type (Some (se_event_type e)) \<and> event_created_before e cutoff"

fun prune_sessions :: "(session_event \<Rightarrow> bool) \<Rightarrow> (string, session_state) dict \<Rightarrow> (string, session_state) dict" where
  "prune_sessions gone [] = []"
| "prune_sessions gone ((k, st) # d) =
     (let events = filter (\<lambda>e. \<not> gone e) (ss_events st)
      in if events = [] then prune_sessions gone d
         else (k, st\<lparr>ss_events := events\<rparr>) # prune_sessions gone d)"

definition mem_prune_older_than ::
  "int \<Rightarrow> string option \<Rightarrow> string option \<Rightarrow> bool \<Rightarrow> memory_log \<Rightarrow> int \<times> memory_log" where
  "mem_prune_older_than cutoff org event_type dry_run L =
     (let gone = prune_matches cutoff org event_type;
          removed_count = int (length (filter gone (ml_events L)))
      in if dry_run \<or> removed_count = 0 then (removed_count, L)
         else (removed_count,
               \<lparr>ml_sessions = prune_sessions gone (ml_sessions L),
                ml_events = filter (\<lambda>e. \<not> gone e) (ml_events L)\<rparr>))"

section \<open>The Postgres backend\<close>

record event_row =
  er_id :: int
  er_session_id :: string
  er_org_id :: "string option"
  er_event_type :: string
  er_payload :: string
  er_seq :: int
  er_created_at :: int

record event_table =
  et_rows :: "event_row list"
  et_next_id :: int

definition empty_event_table :: event_table where
  "empty_event_table = \<lparr>et_rows = [], et_next_id = 1\<rparr>"

record event_db =
  db_json_dumps :: "(string, pyval) dict \<Rightarrow> string"
  db_jsonb :: "string \<Rightarrow> string"

definition coalesce_max :: "int list \<Rightarrow> int" where
  "coalesce_max ns = (if ns = [] then 0 else Max (set ns))"

definition row_to_event :: "sanitizer_lib \<Rightarrow> event_row \<Rightarrow> session_event" where
  "row_to_event lib r =
     \<lparr>se_session_id = er_session_id r, se_event_type = er_event_type r,
      se_payload = safe_payload_dict lib
        (case lib_json_loads lib (er_payload r) of Some v \<Rightarrow> v | None \<Rightarrow> PDict []),
      se_seq = er_seq r, se_org_id = er_org_id r, se_created_at = Some (er_created_at r)\<rparr>"

text \<open>
  The \<open>INSERT\<close> statement. The sub-select reads the snapshot of the statement, the unique constraint on
  session and \<open>seq\<close> is checked on the table at commit; \<open>None\<close> is the unique violation.
\<close>

definition pg_insert ::
  "sanitizer_lib \<Rightarrow> event_db \<Rightarrow> append_call \<Rightarrow> event_row list \<Rightarrow> event_table \<Rightarrow> (event_row \<times> event_table) option" where
  "pg_insert lib db c seen T =
     (let seq = coalesce_max (map er_seq (filter (\<lambda>r. er_session_id r = ap_session_id c) seen)) + 1;
          row = \<lparr>er_id = et_next_id T, er_session_id = ap_session_id c, er_org_id = ap_org_id c,
                 er_event_type = ap_event_type c,
                 er_payload = db_jsonb db (db_json_dumps db (safe_payload_dict lib (ap_payload c))),
                 er_seq = seq, er_created_at = ap_now c\<rparr>
      in if \<exists>r \<in> set (et_rows T). er_session_id r = ap_session_id c \<and> er_seq r = seq then None
         else Some (row, \<lparr>et_rows = et_rows T @ [row], et_next_id = et_next_id T + 1\<rparr>))"

definition max_append_retries :: nat where "max_append_retries = 3"

text \<open>
  The retry loop: each attempt meets a snapshot and a table, as the other writers left them.
  \<open>None\<close> is the \<open>RuntimeError\<close> after the last attempt.
\<close>

fun pg_append_attempts ::
  "sanitizer_lib \<Rightarrow> event_db \<Rightarrow> append_call \<Rightarrow> nat \<Rightarrow> (event_row list \<times> event_table) list
   \<Rightarrow> (session_event \<times> event_table) option" where
  "pg_append_attempts lib db c (Suc n) ((seen, T) # views) =
     (case pg_insert lib db c seen T of
        Some (row, T') \<Rightarrow> Some (row_to_event lib row, T')
      | None \<Rightarrow> pg_append_attempts lib db c n views)"
| "pg_append_attempts lib db c _ _ = None"

definition pg_append ::
  "sanitizer_lib \<Rightarrow> event_db \<Rightarrow> append_call \<Rightarrow> (event_row list \<times> event_table) list
   \<Rightarrow> (session_event \<times> event_table) option" where
  "pg_append lib db c views = pg_append_attempts lib db c max_append_retries views"

definition pg_get_events ::
  "sanitizer_lib \<Rightarrow> event_table \<Rightarrow> string \<Rightarrow> string option \<Rightarrow> int option \<Rightarrow> session_event list" where
  "pg_get_events lib T sid org since =
     map (row_to_event lib)
       (sort_key er_seq
         (filter (\<lambda>r. er_session_id r = sid \<and> accepts org (er_org_id r)
                     \<and> (case since of Some n \<Rightarrow> n < er_seq r | None \<Rightarrow> True)) (et_rows T)))"

definition pg_latest_seq :: "event_table \<Rightarrow> string \<Rightarrow> string option \<Rightarrow> int" where
  "pg_latest_seq T sid org =
     coalesce_max (map er_seq (filter (\<lambda>r. er_session_id r = sid \<and> accepts org (er_org_id r)) (et_rows T)))"

definition pg_get_recent_events ::
  "sanitizer_lib \<Rightarrow> event_table \<Rightarrow> string option \<Rightarrow> string option \<Rightarrow> pyval \<Rightarrow> session_event list" where
  "pg_get_recent_events lib T org event_type limit =
     map (row_to_event lib)
       (take (bounded_recent_limit limit)
         (rev (sort_key (\<lambda>r. (er_created_at r, er_id r))
           (filter (\<lambda>r. accepts org (er_org_id r) \<and> accepts event_type (Some (er_event_type r))) (et_rows T)))))"

definition pg_prune_older_than ::
  "int \<Rightarrow> string option \<Rightarrow> string option \<Rightarrow> bool \<Rightarrow> event_table \<Rightarrow> int \<times> event_table" where
  "pg_prune_older_than cutoff org event_type dry_run T =
     (let gone = (\<lambda>r. er_created_at r < cutoff \<and> accepts org (er_org_id r)
                       \<and> accepts event_type (Some (er_event_type r)));
          count = int (length (filter gone (et_rows T)))
      in if dry_run then (count, T)
         else (count, T\<lparr>et_rows := filter (\<lambda>r. \<not> gone r) (et_rows T)\<rparr>))"

section \<open>The interface\<close>

text \<open>
  What a reader sees of an entry besides its payload: number, type and organisation. The contract says
  how \<open>append\<close> extends the log of its session and what the two queries return of it.
\<close>

type_synonym entry_view = "int \<times> string \<times> string option"

definition view :: "session_event \<Rightarrow> entry_view" where
  "view e = (se_seq e, se_event_type e, se_org_id e)"

definition wanted :: "string option \<Rightarrow> int option \<Rightarrow> entry_view \<Rightarrow> bool" where
  "wanted org since v \<longleftrightarrow> accepts org (snd (snd v)) \<and> (case since of Some n \<Rightarrow> n < fst v | None \<Rightarrow> True)"

definition latest_of :: "entry_view list \<Rightarrow> int" where
  "latest_of vs = (if vs = [] then 0 else fst (last vs))"

text \<open>The specification: the calls of a session in order, numbered from one.\<close>

primrec number_from :: "int \<Rightarrow> 'a list \<Rightarrow> (int \<times> 'a) list" where
  "number_from n [] = []"
| "number_from n (x # xs) = (n, x) # number_from (n + 1) xs"

definition spec_log :: "string \<Rightarrow> append_call list \<Rightarrow> entry_view list" where
  "spec_log sid cs =
     number_from 1 (map (\<lambda>c. (ap_event_type c, ap_org_id c)) (filter (\<lambda>c. ap_session_id c = sid) cs))"

lemma length_number_from [simp]: "length (number_from n xs) = length xs"
  by (induction xs arbitrary: n) simp_all

lemma number_from_append: "number_from n (xs @ ys) = number_from n xs @ number_from (n + int (length xs)) ys"
  by (induction xs arbitrary: n) (simp_all add: add.assoc)

lemma number_from_bounds: "v \<in> set (number_from n xs) \<Longrightarrow> n \<le> fst v \<and> fst v < n + int (length xs)"
  by (induction xs arbitrary: n) fastforce+

lemma number_from_sorted: "sorted_wrt (<) (map fst (number_from n xs))"
  by (induction xs arbitrary: n) (auto dest: number_from_bounds)

lemma wanted_old: "m + int (length xs) \<le> n + 1 \<Longrightarrow> filter (wanted None (Some n)) (number_from m xs) = []"
  by (rule filter_False) (auto simp: wanted_def dest!: number_from_bounds)

lemma wanted_new: "n < m \<Longrightarrow> filter (wanted None (Some n)) (number_from m xs) = number_from m xs"
  by (rule filter_True) (auto simp: wanted_def dest!: number_from_bounds)

lemma spec_log_Nil [simp]: "spec_log sid [] = []"
  by (simp add: spec_log_def)

lemma spec_log_append:
  "spec_log sid (cs @ ds) = spec_log sid cs @
     number_from (1 + int (length (spec_log sid cs)))
       (map (\<lambda>c. (ap_event_type c, ap_org_id c)) (filter (\<lambda>c. ap_session_id c = sid) ds))"
  by (simp add: spec_log_def number_from_append)

lemma spec_log_snoc:
  "spec_log sid (cs @ [c]) =
     (if ap_session_id c = sid
      then spec_log sid cs @ [(int (length (spec_log sid cs)) + 1, ap_event_type c, ap_org_id c)]
      else spec_log sid cs)"
  by (simp add: spec_log_append add.commute)

lemma spec_log_bounds: "v \<in> set (spec_log sid cs) \<Longrightarrow> 1 \<le> fst v \<and> fst v \<le> int (length (spec_log sid cs))"
  unfolding spec_log_def by (drule number_from_bounds) simp

lemma spec_log_last: "latest_of (spec_log sid cs) = int (length (spec_log sid cs))"
  by (induction cs rule: rev_induct) (auto simp: latest_of_def spec_log_snoc)

definition run_appends :: "(append_call \<Rightarrow> 's \<Rightarrow> 's) \<Rightarrow> append_call list \<Rightarrow> 's \<Rightarrow> 's" where
  "run_appends put cs s = fold put cs s"

lemma run_appends_simps [simp]:
  "run_appends put [] s = s"
  "run_appends put (cs @ [c]) s = put c (run_appends put cs s)"
  "run_appends put (cs @ ds) s = run_appends put ds (run_appends put cs s)"
  by (simp_all add: run_appends_def)

locale session_log =
  fixes init :: 's
    and put :: "append_call \<Rightarrow> 's \<Rightarrow> 's"
    and events :: "'s \<Rightarrow> string \<Rightarrow> string option \<Rightarrow> int option \<Rightarrow> entry_view list"
    and latest :: "'s \<Rightarrow> string \<Rightarrow> string option \<Rightarrow> int"
    and entries :: "string \<Rightarrow> 's \<Rightarrow> entry_view list"
    and invar :: "'s \<Rightarrow> bool"
  assumes invar_init: "invar init"
    and log_init: "entries sid init = []"
    and invar_append: "invar s \<Longrightarrow> invar (put c s)"
    and log_append: "invar s \<Longrightarrow> entries sid (put c s) =
      (if ap_session_id c = sid
       then entries sid s @ [(int (length (entries sid s)) + 1, ap_event_type c, ap_org_id c)] else entries sid s)"
    and events_log: "invar s \<Longrightarrow> events s sid org since = filter (wanted org since) (entries sid s)"
    and latest_log: "invar s \<Longrightarrow> latest s sid org = latest_of (filter (wanted org None) (entries sid s))"
begin

lemma run_refines: "invar (run_appends put cs init) \<and> entries sid (run_appends put cs init) = spec_log sid cs"
proof (induction cs rule: rev_induct)
  case (snoc c cs)
  then show ?case by (simp add: invar_append log_append spec_log_snoc del: run_appends_simps(3))
qed (simp add: invar_init log_init)

lemma events_refine:
  "events (run_appends put cs init) sid org since = filter (wanted org since) (spec_log sid cs)"
  using run_refines [of cs] by (simp add: events_log)

lemma latest_refine:
  "latest (run_appends put cs init) sid org = latest_of (filter (wanted org None) (spec_log sid cs))"
  using run_refines [of cs] by (simp add: latest_log)

lemma latest_all: "latest (run_appends put cs init) sid None = int (length (spec_log sid cs))"
proof -
  have "filter (wanted None None) (spec_log sid cs) = spec_log sid cs"
    by (simp add: wanted_def filter_True)
  then show ?thesis by (simp add: latest_refine spec_log_last)
qed

text \<open>A reader that remembers the latest number gets exactly what was appended since.\<close>

lemma cursor_reads_the_rest:
  "events (run_appends put (cs @ ds) init) sid None (Some (latest (run_appends put cs init) sid None))
     = drop (length (spec_log sid cs)) (spec_log sid (cs @ ds))"
proof -
  have "filter (wanted None (Some (int (length (spec_log sid cs))))) (spec_log sid cs) = []"
    by (simp add: spec_log_def wanted_old)
  then show ?thesis by (simp add: latest_all events_refine spec_log_append wanted_new del: run_appends_simps)
qed

end

section \<open>Both backends keep the interface\<close>

definition numbered :: "entry_view list \<Rightarrow> bool" where
  "numbered vs \<longleftrightarrow> vs = number_from 1 (map snd vs)"

lemma numbered_Nil [simp]: "numbered []"
  by (simp add: numbered_def)

lemma numbered_snoc [simp]: "numbered (vs @ [v]) \<longleftrightarrow> numbered vs \<and> fst v = int (length vs) + 1"
  by (cases v) (auto simp: numbered_def number_from_append)

lemma numbered_latest: "numbered vs \<Longrightarrow> latest_of vs = int (length vs)"
  by (cases vs rule: rev_cases) (auto simp: latest_of_def)

lemma numbered_sorted: "numbered vs \<Longrightarrow> sorted_wrt (<) (map fst vs)"
  unfolding numbered_def by (metis number_from_sorted)

lemma view_simps [simp]: "fst (view e) = se_seq e" "snd (snd (view e)) = se_org_id e"
  by (simp_all add: view_def)

lemma filter_wanted_view: "filter (wanted org since) (map view es) = map view (filter
    (\<lambda>e. accepts org (se_org_id e) \<and> (case since of Some n \<Rightarrow> n < se_seq e | None \<Rightarrow> True)) es)"
  by (cases since) (simp_all add: filter_map comp_def wanted_def)

definition mem_put :: "sanitizer_lib \<Rightarrow> append_call \<Rightarrow> memory_log \<Rightarrow> memory_log" where
  "mem_put lib c L = snd (mem_append lib c L)"

definition mem_view :: "string \<Rightarrow> memory_log \<Rightarrow> entry_view list" where
  "mem_view sid L =
     (case dict_get (ml_sessions L) sid of Some st \<Rightarrow> map view (ss_events st) | None \<Rightarrow> [])"

definition mem_ok :: "memory_log \<Rightarrow> bool" where
  "mem_ok L \<longleftrightarrow> (\<forall>sid st. dict_get (ml_sessions L) sid = Some st \<longrightarrow>
     numbered (map view (ss_events st)) \<and> ss_seq st = int (length (ss_events st)))"

lemma mem_get_view:
  "map view (mem_get_events L sid org since) = filter (wanted org since) (mem_view sid L)"
  by (cases org; cases since)
    (auto simp: mem_get_events_def mem_view_def filter_wanted_view accepts_def Let_def split: option.split)

lemma find_rev_last: "find P (rev es) = (case filter P es of [] \<Rightarrow> None | _ \<Rightarrow> Some (last (filter P es)))"
  by (induction es rule: rev_induct) (auto split: list.split)

lemma mem_latest_view:
  assumes "mem_ok L"
  shows "mem_latest_seq L sid org = latest_of (filter (wanted org None) (mem_view sid L))"
proof (cases "dict_get (ml_sessions L) sid")
  case None
  then show ?thesis by (simp add: mem_latest_seq_def mem_view_def latest_of_def)
next
  case (Some st)
  then have "numbered (map view (ss_events st))" "ss_seq st = int (length (ss_events st))"
    using assms by (auto simp: mem_ok_def)
  then show ?thesis
    using Some numbered_latest [of "map view (ss_events st)"]
    by (cases org)
      (auto simp: mem_latest_seq_def mem_view_def wanted_def filter_wanted_view find_rev_last accepts_def
        latest_of_def last_map split: list.split)
qed

interpretation memory: session_log
  empty_memory_log "mem_put lib" "\<lambda>L sid org since. map view (mem_get_events L sid org since)"
  mem_latest_seq mem_view mem_ok
proof
  fix L c sid assume "mem_ok L"
  then show "mem_ok (mem_put lib c L)"
    by (auto simp: mem_ok_def mem_put_def mem_append_def Let_def view_def split: option.split)
  show "mem_view sid (mem_put lib c L) = (if ap_session_id c = sid
      then mem_view sid L @ [(int (length (mem_view sid L)) + 1, ap_event_type c, ap_org_id c)] else mem_view sid L)"
    using \<open>mem_ok L\<close> by (auto simp: mem_ok_def mem_view_def mem_put_def mem_append_def Let_def view_def split: option.split)
qed (simp_all add: mem_ok_def mem_view_def empty_memory_log_def mem_get_view mem_latest_view)

section \<open>The table\<close>

text \<open>A writer that no other writer disturbs: its first attempt sees the table it inserts into.\<close>

definition pg_put :: "sanitizer_lib \<Rightarrow> event_db \<Rightarrow> append_call \<Rightarrow> event_table \<Rightarrow> event_table" where
  "pg_put lib db c T =
     (case pg_append lib db c [(et_rows T, T)] of Some (e, T') \<Rightarrow> T' | None \<Rightarrow> T)"

definition row_view :: "event_row \<Rightarrow> entry_view" where
  "row_view r = (er_seq r, er_event_type r, er_org_id r)"

definition rows_of :: "string \<Rightarrow> event_row list \<Rightarrow> event_row list" where
  "rows_of sid rs = filter (\<lambda>r. er_session_id r = sid) rs"

definition pg_view :: "string \<Rightarrow> event_table \<Rightarrow> entry_view list" where
  "pg_view sid T = map row_view (rows_of sid (et_rows T))"

definition pg_ok :: "event_table \<Rightarrow> bool" where
  "pg_ok T \<longleftrightarrow> (\<forall>sid. numbered (pg_view sid T))"

lemma row_view_simps [simp]: "fst (row_view r) = er_seq r" "snd (snd (row_view r)) = er_org_id r"
  by (simp_all add: row_view_def)

lemma view_row_to_event [simp]: "view (row_to_event lib r) = row_view r"
  by (simp add: view_def row_to_event_def row_view_def)

lemma coalesce_sorted: "sorted_wrt (<) ns \<Longrightarrow> coalesce_max ns = (if ns = [] then 0 else last ns)"
proof (cases ns rule: rev_cases)
  case (snoc ms m)
  moreover assume "sorted_wrt (<) ns"
  ultimately have "Max (set ns) = m" by (intro Max_eqI) (auto simp: sorted_wrt_append)
  with snoc show ?thesis by (simp add: coalesce_max_def)
qed (simp add: coalesce_max_def)

lemma pg_rows_sorted: "pg_ok T \<Longrightarrow> sorted_wrt (<) (map er_seq (filter P (rows_of sid (et_rows T))))"
proof -
  assume "pg_ok T"
  then have "sorted_wrt (<) (map fst (pg_view sid T))" by (simp add: pg_ok_def numbered_sorted)
  then have "sorted_wrt (<) (map er_seq (rows_of sid (et_rows T)))" by (simp add: pg_view_def comp_def)
  then show ?thesis by (simp add: sorted_wrt_map sorted_wrt_filter)
qed

lemma pg_next_seq: "pg_ok T \<Longrightarrow> coalesce_max (map er_seq (rows_of sid (et_rows T))) = int (length (pg_view sid T))"
proof -
  assume ok: "pg_ok T"
  have "coalesce_max (map er_seq (rows_of sid (et_rows T))) = latest_of (pg_view sid T)"
    using coalesce_sorted [OF pg_rows_sorted [OF ok, where P = "\<lambda>_. True"]]
    by (simp add: latest_of_def pg_view_def last_map)
  then show ?thesis using ok by (simp add: pg_ok_def numbered_latest)
qed

text \<open>Seen from any earlier state of its session, an insert either collides or takes the next number.\<close>

lemma pg_insert_next:
  assumes "pg_ok T" "pg_insert lib db c seen T = Some (row, T')"
    and "prefix (rows_of (ap_session_id c) seen) (rows_of (ap_session_id c) (et_rows T))"
  shows "er_seq row = int (length (pg_view (ap_session_id c) T)) + 1"
    and "et_rows T' = et_rows T @ [row]"
    and "row_view row = (er_seq row, ap_event_type c, ap_org_id c)" "er_session_id row = ap_session_id c"
proof -
  let ?rs = "rows_of (ap_session_id c) (et_rows T)"
  obtain rest where rest: "?rs = rows_of (ap_session_id c) seen @ rest"
    using assms(3) by (auto simp: prefix_def)
  have sorted: "sorted_wrt (<) (map er_seq ?rs)" using pg_rows_sorted [OF assms(1), where P = "\<lambda>_. True"] by simp
  have numbers: "map er_seq ?rs = map fst (number_from 1 (map snd (map row_view ?rs)))"
    using assms(1) unfolding pg_ok_def numbered_def pg_view_def
    by (metis (no_types, lifting) comp_def list.map_comp map_eq_conv row_view_simps(1))
  show "et_rows T' = et_rows T @ [row]" "row_view row = (er_seq row, ap_event_type c, ap_org_id c)"
    "er_session_id row = ap_session_id c"
    using assms(2) by (auto simp: pg_insert_def Let_def row_view_def split: if_splits)
  have free: "er_seq row \<notin> set (map er_seq ?rs)"
    using assms(2) by (auto simp: pg_insert_def Let_def rows_of_def split: if_splits)
  have seq: "er_seq row = coalesce_max (map er_seq (rows_of (ap_session_id c) seen)) + 1"
    using assms(2) by (auto simp: pg_insert_def Let_def rows_of_def split: if_splits)
  have seen_numbers: "map er_seq (rows_of (ap_session_id c) seen)
      = map fst (number_from 1 (map snd (map row_view (rows_of (ap_session_id c) seen))))"
    using numbers unfolding rest by (simp add: number_from_append)
  have seen_max: "coalesce_max (map er_seq (rows_of (ap_session_id c) seen)) = int (length (rows_of (ap_session_id c) seen))"
  proof (cases "rows_of (ap_session_id c) seen" rule: rev_cases)
    case (snoc rs r)
    then show ?thesis
      using coalesce_sorted [of "map er_seq (rows_of (ap_session_id c) seen)"] sorted seen_numbers
      unfolding rest by (simp add: sorted_wrt_append number_from_append)
  qed (simp add: coalesce_max_def)
  have "rest = []"
  proof (rule ccontr)
    assume "rest \<noteq> []"
    then obtain r rs where "rest = r # rs" by (cases rest) auto
    then have "er_seq r = int (length (rows_of (ap_session_id c) seen)) + 1"
      using numbers unfolding rest by (simp add: number_from_append)
    then show False using free seq seen_max rest \<open>rest = r # rs\<close> by simp
  qed
  then show "er_seq row = int (length (pg_view (ap_session_id c) T)) + 1"
    using seq seen_max rest by (simp add: pg_view_def)
qed

lemma pg_insert_fresh: "pg_ok T \<Longrightarrow> pg_insert lib db c (et_rows T) T \<noteq> None"
proof -
  assume ok: "pg_ok T"
  let ?sid = "ap_session_id c"
  have "er_seq r \<le> coalesce_max (map er_seq (rows_of ?sid (et_rows T)))" if "r \<in> set (rows_of ?sid (et_rows T))" for r
    using that by (auto simp: coalesce_max_def)
  then show ?thesis by (fastforce simp: pg_insert_def Let_def rows_of_def)
qed

lemma pg_insert_view:
  assumes "pg_ok T" "pg_insert lib db c seen T = Some (row, T')"
    and "prefix (rows_of (ap_session_id c) seen) (rows_of (ap_session_id c) (et_rows T))"
  shows "pg_ok T'"
    and "pg_view sid T' = (if ap_session_id c = sid
       then pg_view sid T @ [(int (length (pg_view sid T)) + 1, ap_event_type c, ap_org_id c)] else pg_view sid T)"
proof -
  note i = pg_insert_next [OF assms]
  show v: "pg_view sid T' = (if ap_session_id c = sid
       then pg_view sid T @ [(int (length (pg_view sid T)) + 1, ap_event_type c, ap_org_id c)] else pg_view sid T)" for sid
    using i by (auto simp: pg_view_def rows_of_def)
  show "pg_ok T'" using assms(1) by (auto simp: pg_ok_def v)
qed

lemma pg_put_insert:
  assumes "pg_ok T"
  obtains row T' where "pg_insert lib db c (et_rows T) T = Some (row, T')" "pg_put lib db c T = T'"
  using pg_insert_fresh [OF assms, of lib db c]
  by (auto simp: pg_put_def pg_append_def max_append_retries_def numeral_3_eq_3)

lemma pg_get_view:
  assumes "pg_ok T"
  shows "map view (pg_get_events lib T sid org since) = filter (wanted org since) (pg_view sid T)"
proof -
  let ?P = "\<lambda>r. accepts org (er_org_id r) \<and> (case since of Some n \<Rightarrow> n < er_seq r | None \<Rightarrow> True)"
  have eq: "filter (\<lambda>r. er_session_id r = sid \<and> ?P r) (et_rows T) = filter ?P (rows_of sid (et_rows T))"
    by (simp add: rows_of_def conj_commute)
  have "sorted (map er_seq (filter ?P (rows_of sid (et_rows T))))"
    using pg_rows_sorted [OF assms] by (rule strict_sorted_imp_sorted)
  then have "sort_key er_seq (filter ?P (rows_of sid (et_rows T))) = filter ?P (rows_of sid (et_rows T))"
    by (rule sort_key_id_if_sorted)
  then have "pg_get_events lib T sid org since = map (row_to_event lib) (filter ?P (rows_of sid (et_rows T)))"
    by (simp only: pg_get_events_def eq)
  then show ?thesis by (cases since) (simp_all add: pg_view_def filter_map comp_def wanted_def)
qed

lemma pg_latest_view:
  assumes "pg_ok T"
  shows "pg_latest_seq T sid org = latest_of (filter (wanted org None) (pg_view sid T))"
proof -
  have "filter (\<lambda>r. er_session_id r = sid \<and> accepts org (er_org_id r)) (et_rows T)
      = filter (\<lambda>r. accepts org (er_org_id r)) (rows_of sid (et_rows T))"
    by (simp add: rows_of_def conj_commute)
  then show ?thesis
    using coalesce_sorted [OF pg_rows_sorted [OF assms]]
    by (simp add: pg_latest_seq_def pg_view_def filter_map comp_def wanted_def latest_of_def last_map)
qed

interpretation postgres: session_log
  empty_event_table "pg_put lib db" "\<lambda>T sid org since. map view (pg_get_events lib T sid org since)"
  pg_latest_seq pg_view pg_ok
proof
  fix T c sid assume ok: "pg_ok T"
  obtain row T' where ins: "pg_insert lib db c (et_rows T) T = Some (row, T')" "pg_put lib db c T = T'"
    by (rule pg_put_insert [OF ok])
  show "pg_ok (pg_put lib db c T)" using pg_insert_view(1) [OF ok ins(1)] ins(2) by simp
  show "pg_view sid (pg_put lib db c T) = (if ap_session_id c = sid
      then pg_view sid T @ [(int (length (pg_view sid T)) + 1, ap_event_type c, ap_org_id c)] else pg_view sid T)"
    using pg_insert_view(2) [OF ok ins(1)] ins(2) by simp
qed (simp_all add: pg_ok_def pg_view_def rows_of_def empty_event_table_def pg_get_view pg_latest_view)

section \<open>Concurrent writers\<close>

text \<open>
  The committed states of the table, oldest first. An insert reads the snapshot of any state so far and
  commits on the newest one; a unique violation changes nothing.
\<close>

inductive pg_history :: "sanitizer_lib \<Rightarrow> event_db \<Rightarrow> event_table list \<Rightarrow> bool" for lib db where
  history_start: "pg_history lib db [empty_event_table]"
| history_insert:
    "pg_history lib db Ts \<Longrightarrow> seen \<in> set Ts
     \<Longrightarrow> pg_insert lib db c (et_rows seen) (last Ts) = Some (row, T') \<Longrightarrow> pg_history lib db (Ts @ [T'])"

lemma pg_insert_rows: "pg_insert lib db c seen T = Some (row, T') \<Longrightarrow> et_rows T' = et_rows T @ [row]"
  by (auto simp: pg_insert_def Let_def split: if_splits)

lemma rows_of_prefix: "prefix rs rs' \<Longrightarrow> prefix (rows_of sid rs) (rows_of sid rs')"
  by (auto simp: prefix_def rows_of_def)

lemma pg_history_invariant:
  "pg_history lib db Ts \<Longrightarrow>
   Ts \<noteq> [] \<and> (\<forall>T \<in> set Ts. pg_ok T \<and> prefix (et_rows T) (et_rows (last Ts)))"
proof (induction rule: pg_history.induct)
  case history_start
  then show ?case by (simp add: pg_ok_def pg_view_def rows_of_def empty_event_table_def)
next
  case (history_insert Ts seen c row T')
  note rows = pg_insert_rows [OF history_insert.hyps(3)]
  have seen: "prefix (rows_of (ap_session_id c) (et_rows seen)) (rows_of (ap_session_id c) (et_rows (last Ts)))"
    using history_insert by (auto intro: rows_of_prefix)
  have "pg_ok T'"
    by (rule pg_insert_view(1) [OF _ history_insert.hyps(3) seen]) (use history_insert.IH in simp)
  moreover have "prefix (et_rows T) (et_rows T')" if "T \<in> set Ts" for T
    using history_insert.IH that by (simp add: rows)
  ultimately show ?case using history_insert.IH by auto
qed

lemma number_from_map: "number_from n (map f xs) = map (map_prod id f) (number_from n xs)"
  by (induction xs arbitrary: n) simp_all

lemma numbered_rows: "pg_ok T \<Longrightarrow> map er_seq (rows_of sid (et_rows T)) = map fst (number_from 1 (rows_of sid (et_rows T)))"
proof -
  assume "pg_ok T"
  then have "map fst (pg_view sid T) = map fst (number_from 1 (map snd (pg_view sid T)))"
    by (simp add: pg_ok_def numbered_def)
  then show ?thesis by (simp add: pg_view_def comp_def number_from_map)
qed

section \<open>Both backends at once\<close>

definition event_head :: "session_event \<Rightarrow> string \<times> entry_view \<times> int option" where
  "event_head e = (se_session_id e, view e, se_created_at e)"

lemma collect_recent_take:
  "1 \<le> limit \<Longrightarrow> length acc < limit \<Longrightarrow>
   collect_recent ok limit acc es = acc @ take (limit - length acc) (filter ok es)"
proof (induction es arbitrary: acc)
  case (Cons e es)
  have n: "limit - length acc = Suc (limit - Suc (length acc))" using Cons.prems by simp
  show ?case
  proof (cases "ok e \<and> Suc (length acc) < limit")
    case True
    then show ?thesis using Cons.prems Cons.IH [of "acc @ [e]"] by (simp add: n)
  next
    case False
    then show ?thesis using Cons.prems Cons.IH [of acc] by (cases "ok e") (simp_all add: n)
  qed
qed simp

lemma bounded_recent_limit_bounds: "1 \<le> bounded_recent_limit n \<and> bounded_recent_limit n \<le> 500"
  by (cases n) (auto simp: bounded_recent_limit_def)

lemma mem_recent_take:
  "mem_get_recent_events L org ty limit = take (bounded_recent_limit limit)
     (rev (filter (\<lambda>e. accepts org (se_org_id e) \<and> accepts ty (Some (se_event_type e))) (ml_events L)))"
  using bounded_recent_limit_bounds [of limit]
  by (simp add: mem_get_recent_events_def collect_recent_take rev_filter)

lemma runs_agree:
  fixes lib lib' :: sanitizer_lib and db :: event_db
  assumes "sorted (map ap_now cs)"
  defines "L \<equiv> run_appends (mem_put lib) cs empty_memory_log"
    and "T \<equiv> run_appends (pg_put lib' db) cs empty_event_table"
  shows "map event_head (ml_events L) = map (event_head \<circ> row_to_event lib') (et_rows T)
    \<and> sorted_wrt (<) (map (\<lambda>r. (er_created_at r, er_id r)) (et_rows T))
    \<and> (\<forall>r \<in> set (et_rows T). er_id r < et_next_id T \<and> (\<exists>c \<in> set cs. er_created_at r = ap_now c))"
  using assms(1) unfolding L_def T_def
proof (induction cs rule: rev_induct)
  case (snoc c cs)
  let ?L = "run_appends (mem_put lib) cs empty_memory_log" and ?T = "run_appends (pg_put lib' db) cs empty_event_table"
  have sorted: "sorted (map ap_now cs)" and le: "\<forall>d \<in> set cs. ap_now d \<le> ap_now c"
    using snoc.prems by (auto simp: sorted_append)
  note IH = snoc.IH [OF sorted]
  have ok: "pg_ok ?T" "mem_ok ?L" using postgres.run_refines memory.run_refines by auto
  have views: "mem_view (ap_session_id c) ?L = pg_view (ap_session_id c) ?T"
    using postgres.run_refines memory.run_refines by metis
  obtain row T' where ins: "pg_insert lib' db c (et_rows ?T) ?T = Some (row, T')" "pg_put lib' db c ?T = T'"
    by (rule pg_put_insert [OF ok(1)])
  note row = pg_insert_next [OF ok(1) ins(1) prefix_order.refl]
  have fields: "er_id row = et_next_id ?T" "er_created_at row = ap_now c" "et_next_id T' = et_next_id ?T + 1"
    using ins(1) by (auto simp: pg_insert_def Let_def split: if_splits)
  have "length (mem_view (ap_session_id c) ?L) = length (pg_view (ap_session_id c) ?T)" by (simp only: views)
  then have number: "ss_seq (case dict_get (ml_sessions ?L) (ap_session_id c) of
      Some st \<Rightarrow> st | None \<Rightarrow> \<lparr>ss_seq = 0, ss_events = []\<rparr>) = int (length (pg_view (ap_session_id c) ?T))"
    using ok(2) by (auto simp: mem_ok_def mem_view_def split: option.splits)
  have "event_head (fst (mem_append lib c ?L)) = event_head (row_to_event lib' row)"
    using row fields number
    by (auto simp: event_head_def mem_append_def Let_def row_to_event_def view_def row_view_def)
  moreover have "ml_events (mem_put lib c ?L) = ml_events ?L @ [fst (mem_append lib c ?L)]"
    by (simp add: mem_put_def mem_append_def Let_def)
  moreover have "sorted_wrt (<) (map (\<lambda>r. (er_created_at r, er_id r)) (et_rows T'))"
    using IH le by (fastforce simp: row(2) sorted_wrt_append fields)
  ultimately show ?case using IH ins(2) by (auto simp: row(2) fields simp del: run_appends_simps(3))
qed (simp add: empty_memory_log_def empty_event_table_def)

section \<open>Properties\<close>

text \<open>C28: The two backends of the event log agree: after any appends, on any sessions, they return the same
  entries (number, type, organisation) for every session, organisation filter and cursor, the same
  latest numbers, and these are the appends of the session in order, numbered from one.\<close>

theorem backends_agree:
  "map view (mem_get_events (run_appends (mem_put lib) cs empty_memory_log) sid org since)
     = map view (pg_get_events lib' (run_appends (pg_put lib' db) cs empty_event_table) sid org since)
   \<and> map view (mem_get_events (run_appends (mem_put lib) cs empty_memory_log) sid org since)
     = filter (wanted org since) (spec_log sid cs)
   \<and> mem_latest_seq (run_appends (mem_put lib) cs empty_memory_log) sid org
     = pg_latest_seq (run_appends (pg_put lib' db) cs empty_event_table) sid org"
  by (simp add: memory.events_refine postgres.events_refine memory.latest_refine postgres.latest_refine)

text \<open>The admin feed of recent events is the same on both backends when the clock does not run backwards:
  newest first, by the same filters, never more than the bounded limit.\<close>

theorem recent_events_agree:
  assumes "sorted (map ap_now cs)"
  shows "map event_head (mem_get_recent_events (run_appends (mem_put lib) cs empty_memory_log) org ty limit)
      = map event_head (pg_get_recent_events lib' (run_appends (pg_put lib' db) cs empty_event_table) org ty limit)
    \<and> length (mem_get_recent_events (run_appends (mem_put lib) cs empty_memory_log) org ty limit) \<le> 500"
proof -
  let ?L = "run_appends (mem_put lib) cs empty_memory_log" and ?T = "run_appends (pg_put lib' db) cs empty_event_table"
  let ?P = "\<lambda>h :: string \<times> entry_view \<times> int option. accepts org (snd (snd (fst (snd h)))) \<and> accepts ty (Some (fst (snd (fst (snd h)))))"
  let ?n = "bounded_recent_limit limit"
  note agree = runs_agree [OF assms, of lib lib' db]
  have heads: "map event_head (filter (\<lambda>e. accepts org (se_org_id e) \<and> accepts ty (Some (se_event_type e))) es)
      = filter ?P (map event_head es)" for es
    by (simp add: filter_map comp_def event_head_def view_def)
  have rows: "map (event_head \<circ> row_to_event lib')
        (filter (\<lambda>r. accepts org (er_org_id r) \<and> accepts ty (Some (er_event_type r))) rs)
      = filter ?P (map (event_head \<circ> row_to_event lib') rs)" for rs
    by (simp add: filter_map comp_def event_head_def row_view_def)
  have "sorted (map (\<lambda>r. (er_created_at r, er_id r)) (filter P (et_rows ?T)))" for P
    using agree by (intro strict_sorted_imp_sorted) (auto simp: sorted_wrt_map sorted_wrt_filter)
  then have "sort_key (\<lambda>r. (er_created_at r, er_id r)) (filter P (et_rows ?T)) = filter P (et_rows ?T)" for P
    by (rule sort_key_id_if_sorted)
  then have "map event_head (pg_get_recent_events lib' ?T org ty limit)
      = take ?n (rev (filter ?P (map (event_head \<circ> row_to_event lib') (et_rows ?T))))"
    by (simp only: pg_get_recent_events_def map_map take_map [symmetric] rev_map [symmetric] rows)
  moreover have "map event_head (mem_get_recent_events ?L org ty limit)
      = take ?n (rev (filter ?P (map event_head (ml_events ?L))))"
    by (simp only: mem_recent_take take_map [symmetric] rev_map [symmetric] heads)
  moreover have "length (mem_get_recent_events ?L org ty limit) \<le> 500"
    using bounded_recent_limit_bounds [of limit] by (simp add: mem_recent_take min.coboundedI2)
  ultimately show ?thesis using agree by simp
qed

definition sample_append :: append_call where
  "sample_append = \<lparr>ap_session_id = ''s1'', ap_event_type = ''turn'', ap_payload = PDict [], ap_org_id = None, ap_now = 7\<rparr>"

definition sample_event_lib :: sanitizer_lib where
  "sample_event_lib = \<lparr>lib_blake = id, lib_json_loads = (\<lambda>_. None), lib_str = (\<lambda>_. [])\<rparr>"

definition sample_event_db :: event_db where
  "sample_event_db = \<lparr>db_json_dumps = (\<lambda>_. ''{}''), db_jsonb = id\<rparr>"

theorem recent_events_agree_witness:
  "length (mem_get_recent_events (run_appends (mem_put sample_event_lib) [sample_append] empty_memory_log) None None (PInt 9)) \<le> 500"
  using recent_events_agree [of "[sample_append]" sample_event_lib None None "PInt 9"] by simp

text \<open>C26: However many writers append to the same sessions at once, each reading whatever earlier state of the
  table its statement saw, the entries of every session are numbered 1, 2, 3 in commit order, an
  append that meets the newest state succeeds at once, and a reader that remembers the latest number
  of an earlier state later gets exactly the entries committed since.\<close>

theorem concurrent_appends_numbered:
  assumes "pg_history lib db Ts" and "T0 \<in> set Ts"
  shows "map er_seq (rows_of sid (et_rows (last Ts))) = map fst (number_from 1 (rows_of sid (et_rows (last Ts))))
    \<and> pg_append lib db c ((et_rows (last Ts), last Ts) # views) \<noteq> None
    \<and> map view (pg_get_events lib (last Ts) sid None (Some (pg_latest_seq T0 sid None)))
      = drop (length (rows_of sid (et_rows T0))) (map row_view (rows_of sid (et_rows (last Ts))))"
proof -
  let ?T = "last Ts" and ?n = "length (rows_of sid (et_rows T0))"
  have ok: "pg_ok ?T" "pg_ok T0" and pre: "prefix (rows_of sid (et_rows T0)) (rows_of sid (et_rows ?T))"
    using pg_history_invariant [OF assms(1)] assms(2) by (auto intro: rows_of_prefix)
  obtain rest where rest: "pg_view sid ?T = pg_view sid T0 @ rest"
    using pre by (auto simp: prefix_def pg_view_def)
  have n: "numbered (pg_view sid ?T)" using ok by (simp add: pg_ok_def)
  have cursor: "pg_latest_seq T0 sid None = int ?n"
    using ok(2) by (simp add: pg_latest_view wanted_def filter_True pg_ok_def numbered_latest) (simp add: pg_view_def)
  have "pg_view sid T0 = number_from 1 (map snd (pg_view sid T0))"
    using ok(2) unfolding pg_ok_def numbered_def by blast
  moreover have len: "length (pg_view sid T0) = ?n" by (simp add: pg_view_def)
  ultimately have "filter (wanted None (Some (int ?n))) (pg_view sid T0) = []"
    using wanted_old [of 1 "map snd (pg_view sid T0)" "int ?n"] by simp
  moreover have "rest = number_from (1 + int ?n) (map snd rest)"
    using n len by (simp add: rest numbered_def number_from_append)
  then have "filter (wanted None (Some (int ?n))) rest = rest"
    using wanted_new [of "int ?n" "1 + int ?n" "map snd rest"] by simp
  ultimately have "filter (wanted None (Some (int ?n))) (pg_view sid ?T) = drop ?n (pg_view sid ?T)"
    by (simp add: rest len)
  moreover have "pg_append lib db c ((et_rows ?T, ?T) # views) \<noteq> None"
    using pg_insert_fresh [OF ok(1), of lib db c]
    by (auto simp: pg_append_def max_append_retries_def numeral_3_eq_3)
  ultimately show ?thesis
    using numbered_rows [OF ok(1)] by (simp add: pg_get_view [OF ok(1)] cursor) (simp add: pg_view_def)
qed

definition sample_tables :: "event_table list" where
  "sample_tables = [empty_event_table, pg_put sample_event_lib sample_event_db sample_append empty_event_table]"

lemma sample_history: "pg_history sample_event_lib sample_event_db sample_tables"
proof -
  obtain row T' where ins: "pg_insert sample_event_lib sample_event_db sample_append (et_rows empty_event_table)
      empty_event_table = Some (row, T')" "pg_put sample_event_lib sample_event_db sample_append empty_event_table = T'"
    by (rule pg_put_insert [of empty_event_table]) (simp add: postgres.invar_init)
  have "pg_history sample_event_lib sample_event_db ([empty_event_table] @ [T'])"
    by (rule history_insert [OF history_start, of empty_event_table]) (use ins(1) in simp_all)
  then show ?thesis using ins(2) by (simp add: sample_tables_def)
qed

theorem concurrent_appends_numbered_witness:
  "pg_append sample_event_lib sample_event_db sample_append [(et_rows (last sample_tables), last sample_tables)] \<noteq> None"
  using concurrent_appends_numbered [OF sample_history, of empty_event_table "''s1''" sample_append "[]"]
  by (simp add: sample_tables_def)

definition sample_two :: "append_call list" where
  "sample_two = [sample_append\<lparr>ap_now := 1\<rparr>, sample_append\<lparr>ap_event_type := ''probe'', ap_now := 2\<rparr>]"

definition sample_third :: append_call where
  "sample_third = sample_append\<lparr>ap_now := 9\<rparr>"

definition sample_row :: "sanitizer_lib \<Rightarrow> event_db \<Rightarrow> int \<Rightarrow> string \<Rightarrow> int \<Rightarrow> int \<Rightarrow> event_row" where
  "sample_row lib db i ty seq t =
     \<lparr>er_id = i, er_session_id = ''s1'', er_org_id = None, er_event_type = ty,
      er_payload = db_jsonb db (db_json_dumps db (safe_payload_dict lib (PDict []))), er_seq = seq, er_created_at = t\<rparr>"

definition sample_event :: "sanitizer_lib \<Rightarrow> string \<Rightarrow> int \<Rightarrow> int \<Rightarrow> session_event" where
  "sample_event lib ty seq t =
     \<lparr>se_session_id = ''s1'', se_event_type = ty, se_payload = safe_payload_dict lib (PDict []),
      se_seq = seq, se_org_id = None, se_created_at = Some t\<rparr>"

lemma sample_fields [simp]:
  "er_session_id (sample_row lib db i ty seq t) = ''s1''" "er_org_id (sample_row lib db i ty seq t) = None"
  "er_event_type (sample_row lib db i ty seq t) = ty" "er_seq (sample_row lib db i ty seq t) = seq"
  "er_created_at (sample_row lib db i ty seq t) = t"
  "se_org_id (sample_event lib ty seq t) = None" "se_event_type (sample_event lib ty seq t) = ty"
  "se_seq (sample_event lib ty seq t) = seq" "se_created_at (sample_event lib ty seq t) = Some t"
  by (simp_all add: sample_row_def sample_event_def)

lemma sample_put:
  "\<forall>r \<in> set rs. er_session_id r = ''s1'' \<and> er_seq r < seq \<Longrightarrow> coalesce_max (map er_seq rs) + 1 = seq \<Longrightarrow>
   pg_put lib db (sample_append\<lparr>ap_event_type := ty, ap_now := t\<rparr>) \<lparr>et_rows = rs, et_next_id = i\<rparr>
     = \<lparr>et_rows = rs @ [sample_row lib db i ty seq t], et_next_id = i + 1\<rparr>"
  "mem_put lib (sample_append\<lparr>ap_event_type := ty, ap_now := t\<rparr>)
     \<lparr>ml_sessions = [(''s1'', \<lparr>ss_seq = n, ss_events = es\<rparr>)], ml_events = es'\<rparr>
   = \<lparr>ml_sessions = [(''s1'', \<lparr>ss_seq = n + 1, ss_events = es @ [sample_event lib ty (n + 1) t]\<rparr>)],
      ml_events = es' @ [sample_event lib ty (n + 1) t]\<rparr>"
proof -
  assume rs: "\<forall>r \<in> set rs. er_session_id r = ''s1'' \<and> er_seq r < seq" and seq: "coalesce_max (map er_seq rs) + 1 = seq"
  have "filter (\<lambda>r. er_session_id r = ''s1'') rs = rs" using rs by (simp add: filter_True)
  then show "pg_put lib db (sample_append\<lparr>ap_event_type := ty, ap_now := t\<rparr>) \<lparr>et_rows = rs, et_next_id = i\<rparr>
     = \<lparr>et_rows = rs @ [sample_row lib db i ty seq t], et_next_id = i + 1\<rparr>"
    using rs seq by (auto simp: pg_put_def pg_append_def max_append_retries_def numeral_3_eq_3 pg_insert_def
        sample_append_def sample_row_def Let_def)
qed (simp add: mem_put_def mem_append_def sample_append_def sample_event_def Let_def)

lemma sample_append_type: "sample_append\<lparr>ap_now := t\<rparr> = sample_append\<lparr>ap_event_type := ''turn'', ap_now := t\<rparr>"
  by (simp add: sample_append_def)

lemma sample_table_run:
  "run_appends (pg_put lib db) sample_two empty_event_table =
     \<lparr>et_rows = [sample_row lib db 1 ''turn'' 1 1, sample_row lib db 2 ''probe'' 2 2], et_next_id = 3\<rparr>"
  by (simp add: sample_two_def run_appends_def empty_event_table_def coalesce_max_def
      sample_put(1) [where seq = 1] sample_put(1) [where seq = 2] sample_append_type [of 1])

lemma sample_memory_run:
  "run_appends (mem_put lib) sample_two empty_memory_log =
     \<lparr>ml_sessions = [(''s1'', \<lparr>ss_seq = 2, ss_events = [sample_event lib ''turn'' 1 1, sample_event lib ''probe'' 2 2]\<rparr>)],
      ml_events = [sample_event lib ''turn'' 1 1, sample_event lib ''probe'' 2 2]\<rparr>"
proof -
  have "mem_put lib (sample_append\<lparr>ap_now := 1\<rparr>) empty_memory_log =
    \<lparr>ml_sessions = [(''s1'', \<lparr>ss_seq = 1, ss_events = [sample_event lib ''turn'' 1 1]\<rparr>)],
     ml_events = [sample_event lib ''turn'' 1 1]\<rparr>"
    by (simp add: mem_put_def mem_append_def sample_append_def sample_event_def empty_memory_log_def Let_def)
  then show ?thesis by (simp add: sample_two_def run_appends_def sample_put(2))
qed

text \<open>Pruning breaks the cursor contract on Postgres, and the backends part: when the newest entry of a
  session is pruned, the table hands its number out again, so a reader that had seen it misses the
  next entry for good; the in-memory log goes on counting.\<close>

theorem pruning_reuses_numbers:
  "let T = run_appends (pg_put lib db) sample_two empty_event_table;
       T' = pg_put lib db sample_third (snd (pg_prune_older_than 5 None (Some ''probe'') False T));
       L = run_appends (mem_put lib) sample_two empty_memory_log;
       L' = mem_put lib sample_third (snd (mem_prune_older_than 5 None (Some ''probe'') False L))
   in pg_get_events lib T' ''s1'' None (Some (pg_latest_seq T ''s1'' None)) = []
     \<and> pg_latest_seq T' ''s1'' None = 2
     \<and> map view (mem_get_events L' ''s1'' None (Some (mem_latest_seq L ''s1'' None))) = [(3, ''turn'', None)]"
proof -
  let ?T = "run_appends (pg_put lib db) sample_two empty_event_table"
  let ?L = "run_appends (mem_put lib) sample_two empty_memory_log"
  let ?T' = "pg_put lib db sample_third (snd (pg_prune_older_than 5 None (Some ''probe'') False ?T))"
  let ?L' = "mem_put lib sample_third (snd (mem_prune_older_than 5 None (Some ''probe'') False ?L))"
  note T = sample_table_run [of lib db] and L = sample_memory_run [of lib]
  have T': "et_rows ?T' = [sample_row lib db 1 ''turn'' 1 1, sample_row lib db 3 ''turn'' 2 9]"
    by (simp add: T pg_prune_older_than_def accepts_def sample_third_def sample_append_type sample_put(1) [where seq = 2] coalesce_max_def)
  have 1: "pg_latest_seq ?T ''s1'' None = 2" by (simp add: T pg_latest_seq_def coalesce_max_def)
  have 2: "pg_latest_seq ?T' ''s1'' None = 2" by (simp add: T' pg_latest_seq_def coalesce_max_def)
  have 3: "pg_get_events lib ?T' ''s1'' None (Some 2) = []" by (simp add: T' pg_get_events_def)
  have 4: "mem_latest_seq ?L ''s1'' None = 2" by (simp add: L mem_latest_seq_def)
  have 5: "map view (mem_get_events ?L' ''s1'' None (Some 2)) = [(3, ''turn'', None)]"
    by (simp add: L mem_prune_older_than_def prune_matches_def event_created_before_def accepts_def
        sample_third_def sample_append_type sample_put(2) mem_get_events_def view_def)
  show ?thesis by (simp only: Let_def 1 2 3 4 5 simp_thms)
qed

end
