(* ===== verification/Token_Service.thy ===== *)
theory Token_Service
  imports Payload_Sanitizer Single_Use
begin

text \<open>
  \<open>app/auth/token_service.py\<close>: access tokens, the denylist of revoked token ids, and refresh tokens with
  rotation and replay detection. Parameters are the JWT library, SHA-256, the JSON driver and pydantic's reading
  of a date; a point in time is an \<^typ>\<open>int\<close> of seconds. What the environment decides (random values, which
  SQL statement fails) is an argument of each operation. Logging and audit events are not modelled.
\<close>

section \<open>The denylist of token ids\<close>

type_synonym denylist = "(string, int) dict"

record token_settings =
  ts_jwt_expire_minutes :: int
  ts_jwt_refresh_expire_days :: int
  ts_jwt_audience :: string
  ts_enable_jti_denylist :: bool
  ts_enable_multi_tenant :: bool
  ts_enable_dev_login :: bool
  ts_environment :: string

definition deny_jti :: "token_settings \<Rightarrow> int \<Rightarrow> string \<Rightarrow> int option \<Rightarrow> denylist \<Rightarrow> denylist" where
  "deny_jti st now jti ttl_seconds L =
     (if jti = [] then L
      else
        let ttl = (case ttl_seconds of Some n \<Rightarrow> n | None \<Rightarrow> ts_jwt_expire_minutes st * 60);
            L1 = dict_set jti (now + ttl) L
        in filter (\<lambda>(k, v). \<not> v < now) L1)"

definition is_jti_denied :: "int \<Rightarrow> string \<Rightarrow> denylist \<Rightarrow> bool \<times> denylist" where
  "is_jti_denied now jti L =
     (case dict_get L jti of
        None \<Rightarrow> (False, L)
      | Some expiry \<Rightarrow> if expiry < now then (False, dict_del jti L) else (True, L))"

section \<open>Claims\<close>

record token_identity =
  ti_user_id :: pyval
  ti_email :: pyval
  ti_name :: pyval
  ti_role :: pyval
  ti_platform_role :: pyval
  ti_organization_role :: pyval
  ti_host_role :: pyval
  ti_role_source :: pyval
  ti_active_organization_id :: pyval
  ti_connector_id :: pyval
  ti_identity_version :: pyval
  ti_auth_method :: pyval

record token_lib =
  tl_jwt_encode :: "(string, pyval) dict \<Rightarrow> string"
  tl_jwt_decode :: "bool \<Rightarrow> int \<Rightarrow> string \<Rightarrow> (string, pyval) dict option"
  tl_sha256 :: "string \<Rightarrow> string"
  tl_json_loads :: "string \<Rightarrow> pyval option"
  tl_jsonb :: "(string, pyval) dict \<Rightarrow> pyval"
  tl_datetime :: "pyval \<Rightarrow> int option"

record fresh_values =
  fv_jti :: string
  fv_stateless_jti :: string
  fv_refresh_token :: string
  fv_token_id :: string
  fv_family_id :: string

definition present_claims :: "(string, pyval) dict \<Rightarrow> (string, pyval) dict" where
  "present_claims d = filter (\<lambda>(k, v). v \<noteq> PNone) d"

definition claim :: "(string, pyval) dict \<Rightarrow> string \<Rightarrow> pyval" where
  "claim d k = (case dict_get d k of Some v \<Rightarrow> v | None \<Rightarrow> PNone)"

definition identity_claims :: "token_identity \<Rightarrow> (string, pyval) dict" where
  "identity_claims i =
     [(''sub'', ti_user_id i), (''email'', ti_email i), (''name'', ti_name i), (''role'', ti_role i),
      (''platform_role'', ti_platform_role i), (''organization_role'', ti_organization_role i),
      (''host_role'', ti_host_role i), (''role_source'', ti_role_source i),
      (''active_organization_id'', ti_active_organization_id i), (''connector_id'', ti_connector_id i),
      (''identity_version'', ti_identity_version i), (''auth_method'', ti_auth_method i)]"

definition access_claims ::
  "token_settings \<Rightarrow> int \<Rightarrow> string \<Rightarrow> token_identity \<Rightarrow> int option \<Rightarrow> (string, pyval) dict" where
  "access_claims st now jti i expires_delta =
     (let delta = (case expires_delta of
            Some d \<Rightarrow> if d \<noteq> 0 then d else ts_jwt_expire_minutes st * 60
          | None \<Rightarrow> ts_jwt_expire_minutes st * 60)
      in present_claims (identity_claims i @
           [(''type'', PStr ''access''), (''iss'', PStr ''wiii''), (''aud'', PStr (ts_jwt_audience st)),
            (''iat'', PInt now), (''exp'', PInt (now + delta)), (''jti'', PStr jti)]))"

definition create_access_token ::
  "token_lib \<Rightarrow> token_settings \<Rightarrow> int \<Rightarrow> string \<Rightarrow> token_identity \<Rightarrow> int option \<Rightarrow> string" where
  "create_access_token lib st now jti i expires_delta =
     tl_jwt_encode lib (access_claims st now jti i expires_delta)"

definition stateless_claims ::
  "token_settings \<Rightarrow> int \<Rightarrow> string \<Rightarrow> token_identity \<Rightarrow> (string, pyval) dict" where
  "stateless_claims st now jti i =
     present_claims (identity_claims i @
       [(''type'', PStr ''refresh''), (''stateless'', PBool True), (''iss'', PStr ''wiii''),
        (''aud'', PStr (ts_jwt_audience st)), (''iat'', PInt now),
        (''exp'', PInt (now + ts_jwt_refresh_expire_days st * 86400)), (''jti'', PStr jti)])"

definition create_stateless_refresh_token ::
  "token_lib \<Rightarrow> token_settings \<Rightarrow> int \<Rightarrow> string \<Rightarrow> token_identity \<Rightarrow> string" where
  "create_stateless_refresh_token lib st now jti i = tl_jwt_encode lib (stateless_claims st now jti i)"

section \<open>Decoding\<close>

text \<open>\<open>tl_jwt_decode True\<close> checks the audience, \<open>tl_jwt_decode False\<close> is the call with \<open>verify_aud\<close> off.\<close>

definition jwt_decode_any :: "token_lib \<Rightarrow> int \<Rightarrow> string \<Rightarrow> (string, pyval) dict option" where
  "jwt_decode_any lib now token =
     (case tl_jwt_decode lib True now token of Some c \<Rightarrow> Some c | None \<Rightarrow> tl_jwt_decode lib False now token)"

definition decode_stateless_refresh_payload ::
  "token_lib \<Rightarrow> int \<Rightarrow> string \<Rightarrow> (string, pyval) dict option" where
  "decode_stateless_refresh_payload lib now token =
     (case jwt_decode_any lib now token of
        None \<Rightarrow> None
      | Some payload \<Rightarrow>
          if claim payload ''type'' \<noteq> PStr ''refresh'' \<or> claim payload ''stateless'' \<noteq> PBool True then None
          else Some payload)"

datatype token_error = JwtInvalid | JwtRevoked | PayloadInvalid

definition decode_jwt_payload ::
  "token_lib \<Rightarrow> token_settings \<Rightarrow> int \<Rightarrow> string \<Rightarrow> denylist
   \<Rightarrow> (token_error + (string, pyval) dict) \<times> denylist" where
  "decode_jwt_payload lib st now token L =
     (case jwt_decode_any lib now token of
        None \<Rightarrow> (Inl JwtInvalid, L)
      | Some payload \<Rightarrow>
          (case claim payload ''jti'' of
             PStr jti \<Rightarrow>
               if ts_enable_jti_denylist st \<and> jti \<noteq> [] then
                 (let (denied, L') = is_jti_denied now jti L
                  in (if denied then Inl JwtRevoked else Inr payload, L'))
               else (Inr payload, L)
           | _ \<Rightarrow> (Inr payload, L)))"

record access_payload =
  at_sub :: string
  at_email :: "string option"
  at_name :: "string option"
  at_role :: string
  at_platform_role :: "string option"
  at_organization_role :: "string option"
  at_host_role :: "string option"
  at_role_source :: "string option"
  at_active_organization_id :: "string option"
  at_connector_id :: "string option"
  at_identity_version :: "string option"
  at_auth_method :: string
  at_type :: string
  at_exp :: int
  at_iat :: int
  at_iss :: string
  at_jti :: "string option"

text \<open>A text field with a default, and an optional text field; \<open>None\<close> is the validation error.\<close>

definition text_field :: "(string, pyval) dict \<Rightarrow> string \<Rightarrow> string option \<Rightarrow> string option" where
  "text_field d k missing =
     (case dict_get d k of None \<Rightarrow> missing | Some (PStr s) \<Rightarrow> Some s | Some _ \<Rightarrow> None)"

definition optional_text_field :: "(string, pyval) dict \<Rightarrow> string \<Rightarrow> string option option" where
  "optional_text_field d k =
     (case dict_get d k of None \<Rightarrow> Some None | Some PNone \<Rightarrow> Some None | Some (PStr s) \<Rightarrow> Some (Some s) | Some _ \<Rightarrow> None)"

definition access_token_payload :: "token_lib \<Rightarrow> (string, pyval) dict \<Rightarrow> access_payload option" where
  "access_token_payload lib d =
     (case (text_field d ''sub'' None, text_field d ''role'' (Some ''student''),
            text_field d ''auth_method'' (Some ''google''), text_field d ''type'' (Some ''access''),
            text_field d ''iss'' (Some ''wiii''),
            tl_datetime lib (claim d ''exp''), tl_datetime lib (claim d ''iat''),
            map (optional_text_field d)
              [''email'', ''name'', ''platform_role'', ''organization_role'', ''host_role'', ''role_source'',
               ''active_organization_id'', ''connector_id'', ''identity_version'', ''jti'']) of
        (Some sub, Some role, Some auth, Some ty, Some iss, Some expires, Some issued,
         [Some email, Some name, Some prole, Some orole, Some hrole, Some source, Some org, Some conn, Some ver, Some jti]) \<Rightarrow>
          Some \<lparr>at_sub = sub, at_email = email, at_name = name, at_role = role, at_platform_role = prole,
                at_organization_role = orole, at_host_role = hrole, at_role_source = source,
                at_active_organization_id = org, at_connector_id = conn, at_identity_version = ver,
                at_auth_method = auth, at_type = ty, at_exp = expires, at_iat = issued, at_iss = iss, at_jti = jti\<rparr>
      | _ \<Rightarrow> None)"

definition verify_access_token ::
  "token_lib \<Rightarrow> token_settings \<Rightarrow> int \<Rightarrow> string \<Rightarrow> denylist \<Rightarrow> (token_error + access_payload) \<times> denylist" where
  "verify_access_token lib st now token L =
     (case decode_jwt_payload lib st now token L of
        (Inl e, L') \<Rightarrow> (Inl e, L')
      | (Inr d, L') \<Rightarrow>
          ((case access_token_payload lib d of Some p \<Rightarrow> Inr p | None \<Rightarrow> Inl PayloadInvalid), L'))"

section \<open>The table of refresh tokens\<close>

record refresh_row =
  rr_id :: string
  rr_user_id :: string
  rr_token_hash :: string
  rr_auth_method :: pyval
  rr_expires_at :: int
  rr_revoked_at :: "int option"
  rr_family_id :: "string option"
  rr_organization_id :: pyval
  rr_identity_snapshot :: pyval

record user_row =
  ur_email :: pyval
  ur_name :: pyval
  ur_role :: pyval
  ur_platform_role :: pyval

record token_db =
  td_tokens :: "refresh_row list"
  td_users :: "(string, user_row) dict"
  td_marked_unavailable :: bool

text \<open>
  How the statements of one request end: \<open>SchemaError\<close> is the exception naming the columns of
  identity version 2, \<open>OtherError\<close> any other. \<open>te_degraded\<close> is the cooldown of the shared database.
\<close>

datatype statement_end = StatementOk | SchemaError | OtherError

record token_env =
  te_degraded :: bool
  te_select :: statement_end
  te_legacy_select_ok :: bool
  te_update_ok :: bool
  te_insert :: statement_end
  te_legacy_insert_ok :: bool

record token_pair =
  tp_access_token :: string
  tp_refresh_token :: string
  tp_token_type :: string
  tp_expires_in :: int

definition build_identity_snapshot :: "token_identity \<Rightarrow> (string, pyval) dict" where
  "build_identity_snapshot i = present_claims
     [(''role'', ti_role i), (''platform_role'', ti_platform_role i),
      (''organization_role'', ti_organization_role i), (''host_role'', ti_host_role i),
      (''role_source'', ti_role_source i), (''active_organization_id'', ti_active_organization_id i),
      (''connector_id'', ti_connector_id i), (''identity_version'', ti_identity_version i)]"

definition coerce_identity_snapshot :: "token_lib \<Rightarrow> pyval \<Rightarrow> (string, pyval) dict" where
  "coerce_identity_snapshot lib raw =
     (case raw of
        PDict d \<Rightarrow> d
      | PStr s \<Rightarrow> (case tl_json_loads lib s of Some (PDict d) \<Rightarrow> d | _ \<Rightarrow> [])
      | _ \<Rightarrow> [])"

definition is_strict_refresh_identity_mode :: "token_settings \<Rightarrow> bool" where
  "is_strict_refresh_identity_mode st \<longleftrightarrow>
     ts_enable_multi_tenant st \<and> ts_environment st \<in> {''production'', ''staging''}"

definition stateless_refresh_allowed :: "token_settings \<Rightarrow> bool \<Rightarrow> (string, pyval) dict \<Rightarrow> bool" where
  "stateless_refresh_allowed st degraded payload \<longleftrightarrow>
     (if claim payload ''auth_method'' = PStr ''dev'' \<and> ts_enable_dev_login st \<and> ts_environment st \<noteq> ''production''
      then True else degraded)"

definition token_pair_of :: "token_settings \<Rightarrow> string \<Rightarrow> string \<Rightarrow> token_pair" where
  "token_pair_of st access refresh =
     \<lparr>tp_access_token = access, tp_refresh_token = refresh, tp_token_type = ''bearer'',
      tp_expires_in = ts_jwt_expire_minutes st * 60\<rparr>"

definition create_token_pair ::
  "token_lib \<Rightarrow> token_settings \<Rightarrow> int \<Rightarrow> fresh_values \<Rightarrow> token_env \<Rightarrow> token_identity \<Rightarrow> string option
   \<Rightarrow> token_db \<Rightarrow> token_pair \<times> token_db" where
  "create_token_pair lib st now fv env i family_id db =
     (let access = create_access_token lib st now (fv_jti fv) i None;
          stateless = token_pair_of st access
            (create_stateless_refresh_token lib st now (fv_stateless_jti fv) i);
          stored = token_pair_of st access (fv_refresh_token fv);
          family = (if str_or_empty family_id \<noteq> [] then str_or_empty family_id else fv_family_id fv);
          row = \<lparr>rr_id = fv_token_id fv, rr_user_id = py_text (\<lambda>_. []) (ti_user_id i),
                 rr_token_hash = tl_sha256 lib (fv_refresh_token fv), rr_auth_method = ti_auth_method i,
                 rr_expires_at = now + ts_jwt_refresh_expire_days st * 86400, rr_revoked_at = None,
                 rr_family_id = Some family, rr_organization_id = ti_active_organization_id i,
                 rr_identity_snapshot = tl_jsonb lib (build_identity_snapshot i)\<rparr>;
          failed = (stateless, db\<lparr>td_marked_unavailable := True\<rparr>)
      in if te_degraded env then (stateless, db)
         else case te_insert env of
             StatementOk \<Rightarrow> (stored, db\<lparr>td_tokens := td_tokens db @ [row]\<rparr>)
           | OtherError \<Rightarrow> failed
           | SchemaError \<Rightarrow>
               if is_strict_refresh_identity_mode st \<and> truthy (ti_active_organization_id i) then failed
               else if te_legacy_insert_ok env
               then (stored, db\<lparr>td_tokens := td_tokens db @
                       [row\<lparr>rr_organization_id := PNone, rr_identity_snapshot := PNone\<rparr>]\<rparr>)
               else failed)"

section \<open>Refreshing\<close>

datatype refresh_result = RefreshPair token_pair | RefreshNone | RefreshRaises

text \<open>The claims of a stateless refresh token, carried over into the next pair.\<close>

definition or_default :: "pyval \<Rightarrow> string \<Rightarrow> pyval" where
  "or_default v d = (if truthy v then v else PStr d)"

definition stateless_identity :: "(string, pyval) dict \<Rightarrow> token_identity" where
  "stateless_identity p =
     \<lparr>ti_user_id = claim p ''sub'', ti_email = claim p ''email'', ti_name = claim p ''name'',
      ti_role = (case dict_get p ''role'' of Some v \<Rightarrow> v | None \<Rightarrow> PStr ''student''),
      ti_platform_role = claim p ''platform_role'', ti_organization_role = claim p ''organization_role'',
      ti_host_role = claim p ''host_role'', ti_role_source = claim p ''role_source'',
      ti_active_organization_id = claim p ''active_organization_id'', ti_connector_id = claim p ''connector_id'',
      ti_identity_version = claim p ''identity_version'',
      ti_auth_method = or_default (claim p ''auth_method'') ''google''\<rparr>"

text \<open>
  The statements up to the decision: the row joined with its user, the replay check with the purge of
  the family, the expiry check. \<open>legacy\<close> says that the row was read without the identity columns.
\<close>

datatype refresh_decision = Rejected token_db | Rotate refresh_row user_row bool

definition find_refresh_row :: "string \<Rightarrow> token_db \<Rightarrow> (refresh_row \<times> user_row) option" where
  "find_refresh_row h db =
     (case find (\<lambda>r. rr_token_hash r = h \<and> dict_get (td_users db) (rr_user_id r) \<noteq> None) (td_tokens db) of
        None \<Rightarrow> None
      | Some r \<Rightarrow> map_option (Pair r) (dict_get (td_users db) (rr_user_id r)))"

definition revoke_where :: "(refresh_row \<Rightarrow> bool) \<Rightarrow> int \<Rightarrow> token_db \<Rightarrow> token_db" where
  "revoke_where P now db =
     db\<lparr>td_tokens := map (\<lambda>r. if P r then r\<lparr>rr_revoked_at := Some now\<rparr> else r) (td_tokens db)\<rparr>"

definition active_in_family :: "string option \<Rightarrow> refresh_row \<Rightarrow> bool" where
  "active_in_family f r \<longleftrightarrow> rr_family_id r = f \<and> rr_revoked_at r = None"

definition judge_row :: "int \<Rightarrow> token_env \<Rightarrow> string \<Rightarrow> bool \<Rightarrow> token_db \<Rightarrow> refresh_decision" where
  "judge_row now env h legacy db =
     (case find_refresh_row h db of
        None \<Rightarrow> Rejected db
      | Some (r, u) \<Rightarrow>
          if rr_revoked_at r \<noteq> None then
            (if str_or_empty (rr_family_id r) \<noteq> []
                \<and> 0 < length (filter (active_in_family (rr_family_id r)) (td_tokens db)) \<and> te_update_ok env
             then Rejected (revoke_where (active_in_family (rr_family_id r)) now db)
             else Rejected db)
          else if rr_expires_at r < now then Rejected db
          else Rotate r u legacy)"

definition refresh_lookup ::
  "token_settings \<Rightarrow> int \<Rightarrow> token_env \<Rightarrow> string \<Rightarrow> token_db \<Rightarrow> refresh_decision" where
  "refresh_lookup st now env h db =
     (case te_select env of
        StatementOk \<Rightarrow> judge_row now env h False db
      | OtherError \<Rightarrow> Rejected db
      | SchemaError \<Rightarrow>
          if is_strict_refresh_identity_mode st then Rejected db
          else if te_legacy_select_ok env then judge_row now env h True db else Rejected db)"

definition rotated_identity :: "token_lib \<Rightarrow> refresh_row \<Rightarrow> user_row \<Rightarrow> bool \<Rightarrow> token_identity" where
  "rotated_identity lib r u legacy =
     (let sn = coerce_identity_snapshot lib (if legacy then PNone else rr_identity_snapshot r);
          get = (\<lambda>k d. case dict_get sn k of Some v \<Rightarrow> v | None \<Rightarrow> d)
      in \<lparr>ti_user_id = PStr (rr_user_id r), ti_email = ur_email u, ti_name = ur_name u,
          ti_role = get ''role'' (ur_role u),
          ti_platform_role = get ''platform_role'' (if legacy then PNone else ur_platform_role u),
          ti_organization_role = get ''organization_role'' PNone, ti_host_role = get ''host_role'' PNone,
          ti_role_source = get ''role_source'' PNone,
          ti_active_organization_id = get ''active_organization_id'' (if legacy then PNone else rr_organization_id r),
          ti_connector_id = get ''connector_id'' PNone, ti_identity_version = get ''identity_version'' PNone,
          ti_auth_method = or_default (rr_auth_method r) ''google''\<rparr>)"

text \<open>The statements after the decision: revoke the old row by its id, then issue the next pair.\<close>

definition refresh_rotate ::
  "token_lib \<Rightarrow> token_settings \<Rightarrow> int \<Rightarrow> fresh_values \<Rightarrow> token_env \<Rightarrow> refresh_row \<Rightarrow> user_row \<Rightarrow> bool
   \<Rightarrow> token_db \<Rightarrow> refresh_result \<times> token_db" where
  "refresh_rotate lib st now fv env r u legacy db =
     (if \<not> te_update_ok env then (RefreshNone, db)
      else
        let db1 = revoke_where (\<lambda>r'. rr_id r' = rr_id r) now db;
            (pair, db2) = create_token_pair lib st now fv env (rotated_identity lib r u legacy) (rr_family_id r) db1
        in (RefreshPair pair, db2))"

definition refresh_access_token ::
  "token_lib \<Rightarrow> token_settings \<Rightarrow> int \<Rightarrow> fresh_values \<Rightarrow> token_env \<Rightarrow> string \<Rightarrow> token_db
   \<Rightarrow> refresh_result \<times> token_db" where
  "refresh_access_token lib st now fv env token db =
     (case decode_stateless_refresh_payload lib now token of
        Some payload \<Rightarrow>
          if \<not> stateless_refresh_allowed st (te_degraded env) payload then (RefreshNone, db)
          else if dict_get payload ''sub'' = None then (RefreshRaises, db)
          else
            (RefreshPair (token_pair_of st
               (create_access_token lib st now (fv_jti fv) (stateless_identity payload) None)
               (create_stateless_refresh_token lib st now (fv_stateless_jti fv) (stateless_identity payload))), db)
      | None \<Rightarrow>
          (case refresh_lookup st now env (tl_sha256 lib token) db of
             Rejected db' \<Rightarrow> (RefreshNone, db')
           | Rotate r u legacy \<Rightarrow> refresh_rotate lib st now fv env r u legacy db))"

definition revoke_user_tokens :: "int \<Rightarrow> bool \<Rightarrow> string \<Rightarrow> token_db \<Rightarrow> int \<times> token_db" where
  "revoke_user_tokens now update_ok user_id db =
     (let P = (\<lambda>r. rr_user_id r = user_id \<and> rr_revoked_at r = None)
      in if update_ok then (int (length (filter P (td_tokens db))), revoke_where P now db) else (0, db))"

section \<open>Sequences of requests\<close>

datatype token_op =
    Login int fresh_values token_env token_identity
  | Refresh int fresh_values token_env string
  | RevokeAll int bool string

fun token_step :: "token_lib \<Rightarrow> token_settings \<Rightarrow> token_op \<Rightarrow> token_db \<Rightarrow> bool \<times> token_db" where
  "token_step lib st (Login now fv env i) db = (False, snd (create_token_pair lib st now fv env i None db))"
| "token_step lib st (Refresh now fv env token) db =
     (let (r, db') = refresh_access_token lib st now fv env token db
      in (decode_stateless_refresh_payload lib now token = None \<and> r \<noteq> RefreshNone, db'))"
| "token_step lib st (RevokeAll now update_ok user_id) db =
     (False, snd (revoke_user_tokens now update_ok user_id db))"

fun presented_hash :: "token_lib \<Rightarrow> token_op \<Rightarrow> string" where
  "presented_hash lib (Refresh now fv env token) = tl_sha256 lib token"
| "presented_hash lib _ = []"

fun fresh_of :: "token_op \<Rightarrow> fresh_values option" where
  "fresh_of (Login now fv env i) = Some fv"
| "fresh_of (Refresh now fv env token) = Some fv"
| "fresh_of (RevokeAll now update_ok user_id) = None"

definition issues_hash :: "token_lib \<Rightarrow> token_op \<Rightarrow> string \<Rightarrow> bool" where
  "issues_hash lib p h \<longleftrightarrow>
     (case fresh_of p of Some fv \<Rightarrow> tl_sha256 lib (fv_refresh_token fv) = h | None \<Rightarrow> False)"

definition token_live :: "string \<Rightarrow> token_db \<Rightarrow> bool" where
  "token_live h db \<longleftrightarrow> (case find_refresh_row h db of Some (r, u) \<Rightarrow> rr_revoked_at r = None | None \<Rightarrow> False)"

lemma find_map_same:
  "(\<And>x. P (f x) = P x) \<Longrightarrow> find P (map f xs) = map_option f (find P xs)"
  by (induction xs) auto

lemma find_snoc: "find P (xs @ ys) = (case find P xs of Some x \<Rightarrow> Some x | None \<Rightarrow> find P ys)"
  by (induction xs) auto

lemma find_row_revoke:
  "find_refresh_row h (revoke_where P now db) =
     map_option (\<lambda>(r, u). (if P r then r\<lparr>rr_revoked_at := Some now\<rparr> else r, u)) (find_refresh_row h db)"
proof -
  let ?f = "\<lambda>r. if P r then r\<lparr>rr_revoked_at := Some now\<rparr> else r"
  let ?Q = "\<lambda>r. rr_token_hash r = h \<and> dict_get (td_users db) (rr_user_id r) \<noteq> None"
  have "find ?Q (map ?f (td_tokens db)) = map_option ?f (find ?Q (td_tokens db))"
    by (rule find_map_same) simp
  then show ?thesis
    by (cases "find ?Q (td_tokens db)") (auto simp: find_refresh_row_def revoke_where_def option.map_comp comp_def)
qed

lemma token_live_revoke:
  "token_live h (revoke_where P now db) \<longleftrightarrow>
     token_live h db \<and> (case find_refresh_row h db of Some (r, u) \<Rightarrow> \<not> P r | None \<Rightarrow> True)"
  by (auto simp: token_live_def find_row_revoke split: option.splits)

lemma create_pair_rows:
  "\<exists>rows. td_tokens (snd (create_token_pair lib st now fv env i f db)) = td_tokens db @ rows
     \<and> td_users (snd (create_token_pair lib st now fv env i f db)) = td_users db
     \<and> list_all (\<lambda>r. rr_token_hash r = tl_sha256 lib (fv_refresh_token fv)
         \<and> rr_family_id r = Some (if str_or_empty f \<noteq> [] then str_or_empty f else fv_family_id fv)) rows"
  by (auto simp: create_token_pair_def Let_def split: statement_end.split)

lemma token_live_create:
  assumes "tl_sha256 lib (fv_refresh_token fv) \<noteq> h"
  shows "token_live h (snd (create_token_pair lib st now fv env i f db)) = token_live h db"
proof -
  obtain rows where rows: "td_tokens (snd (create_token_pair lib st now fv env i f db)) = td_tokens db @ rows"
    "td_users (snd (create_token_pair lib st now fv env i f db)) = td_users db"
    "list_all (\<lambda>r. rr_token_hash r = tl_sha256 lib (fv_refresh_token fv)
         \<and> rr_family_id r = Some (if str_or_empty f \<noteq> [] then str_or_empty f else fv_family_id fv)) rows"
    using create_pair_rows by blast
  let ?P = "\<lambda>r. rr_token_hash r = h \<and> dict_get (td_users db) (rr_user_id r) \<noteq> None"
  have "find ?P rows = None"
    using rows(3) assms by (auto simp: find_None_iff list_all_iff)
  then have "find ?P (td_tokens db @ rows) = find ?P (td_tokens db)"
    by (simp only: find_snoc) (simp split: option.split)
  then have "find_refresh_row h (snd (create_token_pair lib st now fv env i f db)) = find_refresh_row h db"
    by (simp only: find_refresh_row_def rows(1,2))
  then show ?thesis by (simp add: token_live_def)
qed

lemma find_row_create:
  "find_refresh_row h db = Some ru \<Longrightarrow>
   find_refresh_row h (snd (create_token_pair lib st now fv env i f db)) = Some ru"
proof -
  obtain rows where "td_tokens (snd (create_token_pair lib st now fv env i f db)) = td_tokens db @ rows"
    "td_users (snd (create_token_pair lib st now fv env i f db)) = td_users db"
    using create_pair_rows by blast
  then show "find_refresh_row h db = Some ru \<Longrightarrow> ?thesis"
    by (auto simp: find_refresh_row_def find_snoc split: option.splits)
qed

lemma revoke_where_none: "revoke_where (\<lambda>_. False) now db = db"
  by (simp add: revoke_where_def)

lemma judge_row_cases:
  "(\<exists>P. judge_row now env h legacy db = Rejected (revoke_where P now db)) \<or>
   (\<exists>r u. judge_row now env h legacy db = Rotate r u legacy \<and> find_refresh_row h db = Some (r, u)
      \<and> rr_revoked_at r = None \<and> now \<le> rr_expires_at r)"
proof (cases "find_refresh_row h db")
  case None
  then show ?thesis
    by (intro disjI1 exI [of _ "\<lambda>_. False"]) (simp add: judge_row_def revoke_where_none)
next
  case (Some ru)
  obtain r u where ru: "ru = (r, u)" by (cases ru)
  have "rr_revoked_at r \<noteq> None \<Longrightarrow> judge_row now env h legacy db
      \<in> {Rejected (revoke_where (active_in_family (rr_family_id r)) now db), Rejected db}"
    by (simp add: judge_row_def Some ru)
  moreover have "rr_revoked_at r = None \<Longrightarrow> \<not> now \<le> rr_expires_at r \<Longrightarrow> judge_row now env h legacy db = Rejected db"
    by (simp add: judge_row_def Some ru)
  ultimately consider "rr_revoked_at r = None" "now \<le> rr_expires_at r"
    | "judge_row now env h legacy db = Rejected (revoke_where (active_in_family (rr_family_id r)) now db)"
    | "judge_row now env h legacy db = Rejected db"
    by blast
  then show ?thesis
  proof cases
    case 1
    then show ?thesis using Some ru by (simp add: judge_row_def)
  next
    case 2
    then show ?thesis by blast
  next
    case 3
    then show ?thesis by (intro disjI1 exI [of _ "\<lambda>_. False"]) (simp add: revoke_where_none)
  qed
qed

lemma refresh_lookup_cases:
  obtains (rejected) P where "refresh_lookup st now env h db = Rejected (revoke_where P now db)"
  | (rotate) r u legacy where "refresh_lookup st now env h db = Rotate r u legacy"
      "find_refresh_row h db = Some (r, u)" "rr_revoked_at r = None" "now \<le> rr_expires_at r"
proof (cases "\<exists>legacy. refresh_lookup st now env h db = judge_row now env h legacy db")
  case True
  then show thesis using judge_row_cases [of now env h _ db] rejected rotate by metis
next
  case False
  then have "refresh_lookup st now env h db = Rejected db"
    by (auto simp: refresh_lookup_def split: statement_end.splits if_splits)
  then show thesis using rejected [of "\<lambda>_. False"] by (simp add: revoke_where_none)
qed

text \<open>What one refresh through the table does: it purges rows, or spends its row and issues the next.\<close>

lemma refresh_cases:
  assumes "decode_stateless_refresh_payload lib now token = None"
  obtains (rejected) P where
      "refresh_access_token lib st now fv env token db = (RefreshNone, revoke_where P now db)"
  | (rotated) r u legacy where "find_refresh_row (tl_sha256 lib token) db = Some (r, u)"
      "rr_revoked_at r = None" "now \<le> rr_expires_at r"
      "refresh_access_token lib st now fv env token db =
        (let (pair, db') = create_token_pair lib st now fv env (rotated_identity lib r u legacy) (rr_family_id r)
           (revoke_where (\<lambda>r'. rr_id r' = rr_id r) now db) in (RefreshPair pair, db'))"
proof (cases rule: refresh_lookup_cases [of st now env "tl_sha256 lib token" db])
  case (rejected P)
  then show thesis using that(1) assms by (simp add: refresh_access_token_def)
next
  case (rotate r u legacy)
  then show thesis
    using that(1) [of "\<lambda>_. False"] that(2) [of r u legacy] assms
    by (cases "te_update_ok env") (auto simp: refresh_access_token_def refresh_rotate_def revoke_where_none)
qed

lemma token_step_stays_spent:
  assumes "\<not> token_live h db" "\<not> issues_hash lib p h"
  shows "\<not> token_live h (snd (token_step lib st p db))"
proof (cases p)
  case (Login now fv env i)
  then show ?thesis using assms by (simp add: issues_hash_def token_live_create)
next
  case (RevokeAll now ok uid)
  then show ?thesis using assms(1) by (simp add: revoke_user_tokens_def token_live_revoke Let_def)
next
  case (Refresh now fv env token)
  then have fresh: "tl_sha256 lib (fv_refresh_token fv) \<noteq> h" using assms(2) by (simp add: issues_hash_def)
  show ?thesis
  proof (cases "decode_stateless_refresh_payload lib now token")
    case None
    then show ?thesis
      by (cases rule: refresh_cases [of lib now token st fv env db])
        (use Refresh assms(1) token_live_create [OF fresh] in \<open>auto simp: token_live_revoke split_beta Let_def\<close>)
  next
    case (Some payload)
    then show ?thesis using Refresh assms(1) by (simp add: refresh_access_token_def)
  qed
qed

lemma token_step_redeems:
  assumes "fst (token_step lib st p db)"
  shows "token_live (presented_hash lib p) db" "\<not> token_live (presented_hash lib p) (snd (token_step lib st p db))"
proof -
  obtain now fv env token where p: "p = Refresh now fv env token" and none: "decode_stateless_refresh_payload lib now token = None"
    and res: "fst (refresh_access_token lib st now fv env token db) \<noteq> RefreshNone"
    using assms by (cases p) (auto simp: split_beta Let_def)
  let ?h = "tl_sha256 lib token"
  obtain r u legacy where rot: "find_refresh_row ?h db = Some (r, u)" "rr_revoked_at r = None"
    "refresh_access_token lib st now fv env token db =
        (let (pair, db') = create_token_pair lib st now fv env (rotated_identity lib r u legacy) (rr_family_id r)
           (revoke_where (\<lambda>r'. rr_id r' = rr_id r) now db) in (RefreshPair pair, db'))"
    using res by (cases rule: refresh_cases [OF none, of st fv env db]) auto
  let ?db1 = "revoke_where (\<lambda>r'. rr_id r' = rr_id r) now db"
  have "find_refresh_row ?h ?db1 = Some (r\<lparr>rr_revoked_at := Some now\<rparr>, u)"
    using rot(1) by (simp add: find_row_revoke)
  then have "find_refresh_row ?h (snd (create_token_pair lib st now fv env (rotated_identity lib r u legacy) (rr_family_id r) ?db1))
    = Some (r\<lparr>rr_revoked_at := Some now\<rparr>, u)" by (rule find_row_create)
  then show "\<not> token_live (presented_hash lib p) (snd (token_step lib st p db))"
    using p rot(3) by (simp add: token_live_def split_beta Let_def)
  show "token_live (presented_hash lib p) db" using p rot(1,2) by (simp add: token_live_def)
qed

interpretation refresh: single_use "token_step lib st" "presented_hash lib" token_live "issues_hash lib"
  by unfold_locales (simp_all add: token_step_redeems token_step_stays_spent)

section \<open>Token families\<close>

definition family_dead :: "string \<Rightarrow> token_db \<Rightarrow> bool" where
  "family_dead f db \<longleftrightarrow> list_all (\<lambda>r. rr_family_id r \<noteq> Some f \<or> rr_revoked_at r \<noteq> None) (td_tokens db)"

definition starts_family :: "token_op \<Rightarrow> string \<Rightarrow> bool" where
  "starts_family p f \<longleftrightarrow> (case fresh_of p of Some fv \<Rightarrow> fv_family_id fv = f | None \<Rightarrow> False)"

lemma family_dead_revoke: "family_dead f db \<Longrightarrow> family_dead f (revoke_where P now db)"
  by (auto simp: family_dead_def revoke_where_def list_all_iff)

lemma family_dead_create:
  "family_dead f db \<Longrightarrow> fv_family_id fv \<noteq> f \<Longrightarrow> str_or_empty g \<noteq> f \<or> g = None \<or> f = [] \<Longrightarrow>
   family_dead f (snd (create_token_pair lib st now fv env i g db))"
  using create_pair_rows [of lib st now fv env i g db]
  by (auto simp: family_dead_def list_all_iff str_or_empty_def split: if_splits option.splits)

lemma find_row_member: "find_refresh_row h db = Some (r, u) \<Longrightarrow> r \<in> set (td_tokens db) \<and> rr_token_hash r = h"
  by (auto simp: find_refresh_row_def find_Some_iff split: option.splits)

lemma family_dead_step:
  assumes "family_dead f db" "\<not> starts_family p f"
  shows "family_dead f (snd (token_step lib st p db))"
proof (cases p)
  case (Login now fv env i)
  then show ?thesis using assms by (simp add: starts_family_def family_dead_create)
next
  case (RevokeAll now ok uid)
  then show ?thesis using assms(1) by (simp add: revoke_user_tokens_def family_dead_revoke Let_def)
next
  case (Refresh now fv env token)
  then have fresh: "fv_family_id fv \<noteq> f" using assms(2) by (simp add: starts_family_def)
  show ?thesis
  proof (cases "decode_stateless_refresh_payload lib now token")
    case None
    then show ?thesis
    proof (cases rule: refresh_cases [of lib now token st fv env db])
      case (rejected P)
      then show ?thesis using Refresh assms(1) by (simp add: family_dead_revoke Let_def)
    next
      case (rotated r u legacy)
      then have "rr_family_id r \<noteq> Some f"
        using assms(1) find_row_member [OF rotated(1)] by (auto simp: family_dead_def list_all_iff)
      then have "str_or_empty (rr_family_id r) \<noteq> f \<or> rr_family_id r = None \<or> f = []"
        by (auto simp: str_or_empty_def split: option.splits)
      then show ?thesis
        using Refresh rotated(4) family_dead_create [OF family_dead_revoke [OF assms(1)] fresh]
        by (simp add: split_beta Let_def)
    qed
  next
    case (Some payload)
    then show ?thesis using Refresh assms(1) by (simp add: refresh_access_token_def)
  qed
qed

lemma family_dead_run:
  "family_dead f db \<Longrightarrow> list_all (\<lambda>p. \<not> starts_family p f) ps \<Longrightarrow>
   family_dead f (snd (run_operations (token_step lib st) ps db))"
  by (induction ps arbitrary: db) (simp_all add: run_operations_Cons family_dead_step del: run_operations.simps(2))

section \<open>Two requests at once\<close>

text \<open>
  Requests advance one stage at a time, in the order of a schedule: first the statements up to the decision,
  then the statements that follow from it. Nothing locks the row in between.
\<close>

record refresh_request =
  rq_token :: string
  rq_now :: int
  rq_fresh :: fresh_values
  rq_env :: token_env

datatype request_status = Waiting | Decided refresh_row user_row bool | Answered refresh_result

definition refresh_tick ::
  "token_lib \<Rightarrow> token_settings \<Rightarrow> refresh_request \<Rightarrow> request_status \<Rightarrow> token_db \<Rightarrow> request_status \<times> token_db" where
  "refresh_tick lib st q s db =
     (case s of
        Waiting \<Rightarrow>
          (case refresh_lookup st (rq_now q) (rq_env q) (tl_sha256 lib (rq_token q)) db of
             Rejected db' \<Rightarrow> (Answered RefreshNone, db')
           | Rotate r u legacy \<Rightarrow> (Decided r u legacy, db))
      | Decided r u legacy \<Rightarrow>
          (let (res, db') = refresh_rotate lib st (rq_now q) (rq_fresh q) (rq_env q) r u legacy db
           in (Answered res, db'))
      | Answered res \<Rightarrow> (Answered res, db))"

fun run_schedule ::
  "token_lib \<Rightarrow> token_settings \<Rightarrow> refresh_request list \<Rightarrow> nat list \<Rightarrow> request_status list \<Rightarrow> token_db
   \<Rightarrow> request_status list \<times> token_db" where
  "run_schedule lib st qs [] ss db = (ss, db)"
| "run_schedule lib st qs (i # is) ss db =
     (let (s', db') = refresh_tick lib st (qs ! i) (ss ! i) db in run_schedule lib st qs is (ss[i := s']) db')"

text \<open>A request that runs alone is the sequential operation.\<close>

lemma schedule_alone:
  "decode_stateless_refresh_payload lib (rq_now q) (rq_token q) = None \<Longrightarrow>
   run_schedule lib st [q] [0, 0] [Waiting] db =
     (let (res, db') = refresh_access_token lib st (rq_now q) (rq_fresh q) (rq_env q) (rq_token q) db
      in ([Answered res], db'))"
  by (simp add: refresh_tick_def refresh_access_token_def split: refresh_decision.split prod.split)

section \<open>The denylist as a set\<close>

text \<open>The specification: the last denial of an id decides, until its expiry.\<close>

record denial =
  dn_now :: int
  dn_jti :: string
  dn_ttl :: "int option"

definition denial_expiry :: "token_settings \<Rightarrow> denial \<Rightarrow> int" where
  "denial_expiry st d = dn_now d + (case dn_ttl d of Some n \<Rightarrow> n | None \<Rightarrow> ts_jwt_expire_minutes st * 60)"

fun denied_until :: "token_settings \<Rightarrow> string \<Rightarrow> denial list \<Rightarrow> int option" where
  "denied_until st jti [] = None"
| "denied_until st jti (d # ds) =
     (case denied_until st jti ds of
        Some e \<Rightarrow> Some e
      | None \<Rightarrow> if dn_jti d = jti \<and> jti \<noteq> [] then Some (denial_expiry st d) else None)"

lemma denied_until_snoc:
  "denied_until st jti (ds @ [d]) =
     (if dn_jti d = jti \<and> jti \<noteq> [] then Some (denial_expiry st d) else denied_until st jti ds)"
  by (induction ds) (auto split: option.splits)

definition run_denials :: "token_settings \<Rightarrow> denial list \<Rightarrow> denylist \<Rightarrow> denylist" where
  "run_denials st ds L = fold (\<lambda>d L. deny_jti st (dn_now d) (dn_jti d) (dn_ttl d) L) ds L"

lemma run_denials_simps [simp]:
  "run_denials st [] L = L"
  "run_denials st (ds @ [d]) L = deny_jti st (dn_now d) (dn_jti d) (dn_ttl d) (run_denials st ds L)"
  by (simp_all add: run_denials_def)

lemma dict_get_filter: "distinct (map fst L) \<Longrightarrow>
   dict_get (filter (\<lambda>(k, v). P v) L) k = (case dict_get L k of Some v \<Rightarrow> if P v then Some v else None | None \<Rightarrow> None)"
proof (induction L)
  case (Cons kv L)
  have "dict_get (filter (\<lambda>(k, v). P v) L) (fst kv) = None"
    using Cons.prems by (auto simp: map_of_eq_None_iff)
  then show ?case using Cons by (cases kv) auto
qed simp

lemma deny_distinct: "distinct (map fst L) \<Longrightarrow> distinct (map fst (deny_jti st now jti ttl L))"
  by (simp add: deny_jti_def Let_def distinct_map_filter distinct_update)

lemma deny_get:
  assumes "distinct (map fst L)"
  shows "dict_get (deny_jti st (dn_now d) (dn_jti d) (dn_ttl d) L) k =
    (if dn_jti d = [] then dict_get L k
     else case (if k = dn_jti d then Some (denial_expiry st d) else dict_get L k) of
            Some v \<Rightarrow> if v < dn_now d then None else Some v | None \<Rightarrow> None)"
proof -
  have "distinct (map fst (dict_set (dn_jti d) (denial_expiry st d) L))" using assms by (simp add: distinct_update)
  from dict_get_filter [OF this, of "\<lambda>v. \<not> v < dn_now d" k]
  have eq: "dict_get (filter (\<lambda>(k, v). \<not> v < dn_now d) (dict_set (dn_jti d) (denial_expiry st d) L)) k =
      (case (if k = dn_jti d then Some (denial_expiry st d) else dict_get L k) of
            Some v \<Rightarrow> if v < dn_now d then None else Some v | None \<Rightarrow> None)"
    by (simp split: option.split)
  show ?thesis by (cases "dn_jti d = []") (simp_all only: deny_jti_def Let_def denial_expiry_def [symmetric] eq if_True if_False simp_thms)
qed

text \<open>What is stored of an id: its expiry, unless it lies in the past already.\<close>

definition stored_expiry :: "int \<Rightarrow> int option \<Rightarrow> int option \<Rightarrow> bool" where
  "stored_expiry now stored spec \<longleftrightarrow>
     (case stored of Some e \<Rightarrow> spec = Some e
      | None \<Rightarrow> (case spec of Some e \<Rightarrow> e < now | None \<Rightarrow> True))"

text \<open>Cleaning up only drops entries that have expired.\<close>

lemma denylist_refines:
  assumes "sorted (map dn_now ds)" "list_all (\<lambda>d. dn_now d \<le> now) ds"
  shows "distinct (map fst (run_denials st ds [])) \<and>
    stored_expiry now (dict_get (run_denials st ds []) jti) (denied_until st jti ds)"
  using assms
proof (induction ds arbitrary: now rule: rev_induct)
  case (snoc d ds)
  have IH: "distinct (map fst (run_denials st ds []))"
    "stored_expiry (dn_now d) (dict_get (run_denials st ds []) jti) (denied_until st jti ds)"
    using snoc.IH [of "dn_now d"] snoc.prems by (auto simp: sorted_append list_all_iff)
  have le: "dn_now d \<le> now" using snoc.prems by simp
  show ?case unfolding run_denials_simps denied_until_snoc deny_get [OF IH(1)]
    using IH(2) le deny_distinct [OF IH(1)]
    by (cases "dict_get (run_denials st ds []) jti"; cases "denied_until st jti ds"; cases "dn_jti d = jti"; cases "dn_jti d = []")
      (auto simp: stored_expiry_def)
qed (simp add: stored_expiry_def)

section \<open>Properties\<close>


text \<open>C3: Replaying a spent refresh token kills its family: the replay is refused, every token of the family
  is revoked, and no later sequence of requests brings one back, unless a login draws the same family id.\<close>

theorem replay_kills_family:
  assumes "decode_stateless_refresh_payload lib now token = None"
    and "find_refresh_row (tl_sha256 lib token) db = Some (r, u)"
    and "rr_revoked_at r \<noteq> None" and "rr_family_id r = Some f" and "f \<noteq> []"
    and "te_select env = StatementOk" and "te_update_ok env"
    and "list_all (\<lambda>p. \<not> starts_family p f) ps"
  shows "fst (refresh_access_token lib st now fv env token db) = RefreshNone
    \<and> family_dead f (snd (run_operations (token_step lib st) ps
        (snd (refresh_access_token lib st now fv env token db))))"
proof -
  let ?res = "refresh_access_token lib st now fv env token db"
  have lookup: "refresh_lookup st now env (tl_sha256 lib token) db =
      (if 0 < length (filter (active_in_family (Some f)) (td_tokens db))
       then Rejected (revoke_where (active_in_family (Some f)) now db) else Rejected db)"
    using assms(2-7) by (simp add: refresh_lookup_def judge_row_def str_or_empty_def)
  have "family_dead f (revoke_where (active_in_family (Some f)) now db)"
    by (auto simp: family_dead_def revoke_where_def active_in_family_def list_all_iff)
  moreover have "family_dead f db" if "filter (active_in_family (Some f)) (td_tokens db) = []"
    using that by (auto simp: family_dead_def active_in_family_def list_all_iff filter_empty_conv)
  ultimately have "fst ?res = RefreshNone \<and> family_dead f (snd ?res)"
    using assms(1) lookup by (cases "filter (active_in_family (Some f)) (td_tokens db) = []")
      (simp_all add: refresh_access_token_def)
  then show ?thesis using family_dead_run [OF _ assms(8)] by blast
qed

text \<open>Two requests with the same refresh token can both be answered with a new pair: when both read the
  row before either has revoked it, the second revocation finds nothing wrong. Run one after the other,
  the second request is refused.\<close>

theorem refresh_race_redeems_twice:
  assumes "refresh_lookup st (rq_now a) (rq_env a) (tl_sha256 lib (rq_token a)) db = Rotate r u l"
    and "refresh_lookup st (rq_now b) (rq_env b) (tl_sha256 lib (rq_token b)) db = Rotate r' u' l'"
    and "te_update_ok (rq_env a)" and "te_update_ok (rq_env b)"
    and "rq_token b = rq_token a"
  shows "(\<exists>p q. fst (run_schedule lib st [a, b] [0, 1, 0, 1] [Waiting, Waiting] db)
        = [Answered (RefreshPair p), Answered (RefreshPair q)])
    \<and> fst (run_schedule lib st [a, b] [0, 0, 1, 1] [Waiting, Waiting] db) ! 1 = Answered RefreshNone"
proof -
  let ?h = "tl_sha256 lib (rq_token a)" and ?P = "\<lambda>r'. rr_id r' = rr_id r"
  obtain p db1 where rot: "refresh_rotate lib st (rq_now a) (rq_fresh a) (rq_env a) r u l db = (RefreshPair p, db1)"
    "db1 = snd (create_token_pair lib st (rq_now a) (rq_fresh a) (rq_env a) (rotated_identity lib r u l)
       (rr_family_id r) (revoke_where ?P (rq_now a) db))"
    using assms(3) by (simp add: refresh_rotate_def split_beta Let_def)
  obtain q db2 where rot2: "refresh_rotate lib st (rq_now b) (rq_fresh b) (rq_env b) r' u' l' db1 = (RefreshPair q, db2)"
    using assms(4) by (simp add: refresh_rotate_def split_beta Let_def)
  have "find_refresh_row ?h db = Some (r, u)"
    using assms(1) by (cases rule: refresh_lookup_cases [of st "rq_now a" "rq_env a" ?h db]) auto
  then have "find_refresh_row ?h db1 = Some (r\<lparr>rr_revoked_at := Some (rq_now a)\<rparr>, u)"
    unfolding rot(2) by (intro find_row_create) (simp add: find_row_revoke)
  then obtain db3 where "refresh_lookup st (rq_now b) (rq_env b) (tl_sha256 lib (rq_token b)) db1 = Rejected db3"
    using assms(5) by (cases rule: refresh_lookup_cases [of st "rq_now b" "rq_env b" ?h db1]) auto
  then show ?thesis using assms rot rot2 by (simp add: refresh_tick_def)
qed

text \<open>The denylist decides by the last denial of an id: after any denials in the order of time, an id is
  denied exactly while its last denial has not expired; the clean-up on the way never forgets a
  denial that still counts.\<close>

theorem denylist_is_last_denial:
  assumes "sorted (map dn_now ds)" and "list_all (\<lambda>d. dn_now d \<le> now) ds"
  shows "fst (is_jti_denied now jti (run_denials st ds []))
    = (case denied_until st jti ds of Some e \<Rightarrow> now \<le> e | None \<Rightarrow> False)"
  using denylist_refines [OF assms, of st jti]
  by (cases "dict_get (run_denials st ds []) jti"; cases "denied_until st jti ds")
    (auto simp: is_jti_denied_def stored_expiry_def)

section \<open>Examples\<close>

definition sample_token_lib :: token_lib where
  "sample_token_lib = \<lparr>tl_jwt_encode = (\<lambda>_. ''jwt''), tl_jwt_decode = (\<lambda>_ _ _. None), tl_sha256 = id,
     tl_json_loads = (\<lambda>_. None), tl_jsonb = PDict, tl_datetime = (\<lambda>v. case v of PInt n \<Rightarrow> Some n | _ \<Rightarrow> None)\<rparr>"

definition sample_token_settings :: token_settings where
  "sample_token_settings = \<lparr>ts_jwt_expire_minutes = 15, ts_jwt_refresh_expire_days = 30,
     ts_jwt_audience = ''wiii'', ts_enable_jti_denylist = True, ts_enable_multi_tenant = False,
     ts_enable_dev_login = False, ts_environment = ''production''\<rparr>"

definition sample_token_env :: token_env where
  "sample_token_env = \<lparr>te_degraded = False, te_select = StatementOk, te_legacy_select_ok = True,
     te_update_ok = True, te_insert = StatementOk, te_legacy_insert_ok = True\<rparr>"

definition sample_token_row :: "int option \<Rightarrow> refresh_row" where
  "sample_token_row revoked = \<lparr>rr_id = ''1'', rr_user_id = ''u'', rr_token_hash = ''old'', rr_auth_method = PStr ''google'',
     rr_expires_at = 1000, rr_revoked_at = revoked, rr_family_id = Some ''fam'', rr_organization_id = PNone,
     rr_identity_snapshot = PNone\<rparr>"

definition sample_user :: user_row where
  "sample_user = \<lparr>ur_email = PNone, ur_name = PNone, ur_role = PStr ''student'', ur_platform_role = PNone\<rparr>"

definition sample_db :: "int option \<Rightarrow> token_db" where
  "sample_db revoked = \<lparr>td_tokens = [sample_token_row revoked], td_users = [(''u'', sample_user)],
     td_marked_unavailable = False\<rparr>"

definition sample_fresh :: fresh_values where
  "sample_fresh = \<lparr>fv_jti = ''j'', fv_stateless_jti = ''k'', fv_refresh_token = ''new'', fv_token_id = ''2'', fv_family_id = ''g''\<rparr>"

definition sample_refresh_request :: refresh_request where
  "sample_refresh_request = \<lparr>rq_token = ''old'', rq_now = 10, rq_fresh = sample_fresh, rq_env = sample_token_env\<rparr>"

lemma sample_find: "find_refresh_row ''old'' (sample_db v) = Some (sample_token_row v, sample_user)"
  by (simp add: find_refresh_row_def sample_db_def sample_token_row_def)

lemma sample_lookup: "refresh_lookup sample_token_settings 10 sample_token_env ''old'' (sample_db None)
    = Rotate (sample_token_row None) sample_user False"
  by (simp add: refresh_lookup_def judge_row_def sample_find sample_token_env_def) (simp add: sample_token_row_def)


theorem replay_kills_family_witness:
  "family_dead ''fam'' (snd (run_operations (token_step sample_token_lib sample_token_settings) []
     (snd (refresh_access_token sample_token_lib sample_token_settings 10 sample_fresh sample_token_env ''old'' (sample_db (Some 5))))))"
  using replay_kills_family [of sample_token_lib 10 "''old''" "sample_db (Some 5)" "sample_token_row (Some 5)"
      sample_user "''fam''" sample_token_env "[]" sample_token_settings sample_fresh] sample_find [of "Some 5"]
  by (simp add: decode_stateless_refresh_payload_def jwt_decode_any_def sample_token_lib_def sample_token_env_def)
    (simp add: sample_token_row_def)

theorem refresh_race_redeems_twice_witness:
  "\<exists>p q. fst (run_schedule sample_token_lib sample_token_settings [sample_refresh_request, sample_refresh_request] [0, 1, 0, 1]
     [Waiting, Waiting] (sample_db None)) = [Answered (RefreshPair p), Answered (RefreshPair q)]"
  using refresh_race_redeems_twice [of sample_token_settings sample_refresh_request sample_token_lib "sample_db None"
      "sample_token_row None" sample_user False sample_refresh_request "sample_token_row None" sample_user False]
    sample_lookup
  by (simp add: sample_refresh_request_def sample_token_lib_def sample_token_env_def)

theorem denylist_is_last_denial_witness:
  "fst (is_jti_denied 5 ''a'' (run_denials sample_token_settings [\<lparr>dn_now = 1, dn_jti = ''a'', dn_ttl = Some 9\<rparr>] []))"
  by (subst denylist_is_last_denial) (simp_all add: denial_expiry_def)

section \<open>Refresh tokens as access tokens\<close>

definition optional_text :: "pyval \<Rightarrow> bool" where
  "optional_text v \<longleftrightarrow> (case v of PNone \<Rightarrow> True | PStr _ \<Rightarrow> True | _ \<Rightarrow> False)"

definition text_identity :: "token_identity \<Rightarrow> bool" where
  "text_identity i \<longleftrightarrow> (\<exists>u. ti_user_id i = PStr u) \<and>
     list_all optional_text
       [ti_email i, ti_name i, ti_role i, ti_platform_role i, ti_organization_role i, ti_host_role i, ti_role_source i,
        ti_active_organization_id i, ti_connector_id i, ti_identity_version i, ti_auth_method i]"

lemma present_claims_get:
  "distinct (map fst d) \<Longrightarrow> dict_get (present_claims d) k =
     (case dict_get d k of Some v \<Rightarrow> if v = PNone then None else Some v | None \<Rightarrow> None)"
  unfolding present_claims_def using dict_get_filter [of d "\<lambda>v. v \<noteq> PNone" k] by (auto split: option.split)

lemma text_field_present: "optional_text v \<Longrightarrow> dict_get d k = (if v = PNone then None else Some v) \<Longrightarrow>
    (text_field d k (Some s) \<noteq> None) \<and> optional_text_field d k \<noteq> None"
  by (auto simp: optional_text_def text_field_def optional_text_field_def split: pyval.splits)

text \<open>A signed refresh token is accepted where an access token is expected: neither the audience nor the
  \<open>type\<close> claim tells them apart, so the thirty-day token of the degraded mode opens every endpoint until
  it expires, unless its id is denied.\<close>

theorem stateless_token_passes_as_access:
  assumes "tl_jwt_decode lib True now (create_stateless_refresh_token lib st issued jti i)
      = Some (stateless_claims st issued jti i)"
    and "tl_datetime lib = tl_datetime sample_token_lib"
    and "text_identity i" and "dict_get L jti = None"
  shows "case fst (verify_access_token lib st now (create_stateless_refresh_token lib st issued jti i) L) of
       Inr p \<Rightarrow> at_type p = ''refresh'' \<and> at_exp p = issued + ts_jwt_refresh_expire_days st * 86400
     | Inl e \<Rightarrow> False"
proof -
  let ?d = "stateless_claims st issued jti i"
  have dist: "distinct (map fst (identity_claims i @ [(''type'', PStr ''refresh''), (''stateless'', PBool True), (''iss'', PStr ''wiii''),
        (''aud'', PStr (ts_jwt_audience st)), (''iat'', PInt issued),
        (''exp'', PInt (issued + ts_jwt_refresh_expire_days st * 86400)), (''jti'', PStr jti)]))"
    by (simp add: identity_claims_def)
  note get = present_claims_get [OF dist, folded stateless_claims_def]
  obtain u where u: "ti_user_id i = PStr u" using assms(3) by (auto simp: text_identity_def)
  have fixed: "text_field ?d ''sub'' None = Some u" "text_field ?d ''type'' (Some ''access'') = Some ''refresh''"
    "text_field ?d ''iss'' (Some ''wiii'') = Some ''wiii''" "claim ?d ''iat'' = PInt issued"
    "claim ?d ''exp'' = PInt (issued + ts_jwt_refresh_expire_days st * 86400)" "claim ?d ''jti'' = PStr jti"
    "optional_text_field ?d ''jti'' = Some (Some jti)"
    by (simp_all add: get identity_claims_def text_field_def optional_text_field_def claim_def u)
  have texts: "text_field ?d ''role'' (Some ''student'') \<noteq> None" "text_field ?d ''auth_method'' (Some ''google'') \<noteq> None"
    "optional_text_field ?d ''email'' \<noteq> None" "optional_text_field ?d ''name'' \<noteq> None"
    "optional_text_field ?d ''platform_role'' \<noteq> None" "optional_text_field ?d ''organization_role'' \<noteq> None"
    "optional_text_field ?d ''host_role'' \<noteq> None" "optional_text_field ?d ''role_source'' \<noteq> None"
    "optional_text_field ?d ''active_organization_id'' \<noteq> None" "optional_text_field ?d ''connector_id'' \<noteq> None"
    "optional_text_field ?d ''identity_version'' \<noteq> None"
    using assms(3) text_field_present [of "ti_role i" ?d "''role''"] text_field_present [of "ti_auth_method i" ?d "''auth_method''"]
      text_field_present [of "ti_email i" ?d "''email''"] text_field_present [of "ti_name i" ?d "''name''"]
      text_field_present [of "ti_platform_role i" ?d "''platform_role''"]
      text_field_present [of "ti_organization_role i" ?d "''organization_role''"]
      text_field_present [of "ti_host_role i" ?d "''host_role''"] text_field_present [of "ti_role_source i" ?d "''role_source''"]
      text_field_present [of "ti_active_organization_id i" ?d "''active_organization_id''"]
      text_field_present [of "ti_connector_id i" ?d "''connector_id''"]
      text_field_present [of "ti_identity_version i" ?d "''identity_version''"]
    by (simp_all add: get identity_claims_def text_identity_def)
  have "decode_jwt_payload lib st now (create_stateless_refresh_token lib st issued jti i) L = (Inr ?d, L)"
    using assms(1,4) fixed(6) by (simp add: decode_jwt_payload_def jwt_decode_any_def is_jti_denied_def)
  moreover have "\<exists>p. access_token_payload lib ?d = Some p \<and> at_type p = ''refresh''
      \<and> at_exp p = issued + ts_jwt_refresh_expire_days st * 86400"
    using fixed texts assms(2) by (auto simp: access_token_payload_def sample_token_lib_def)
  ultimately show ?thesis by (auto simp: verify_access_token_def)
qed

definition sample_identity :: token_identity where
  "sample_identity = \<lparr>ti_user_id = PStr ''u'', ti_email = PNone, ti_name = PNone, ti_role = PStr ''student'',
     ti_platform_role = PNone, ti_organization_role = PNone, ti_host_role = PNone, ti_role_source = PNone,
     ti_active_organization_id = PNone, ti_connector_id = PNone, ti_identity_version = PNone, ti_auth_method = PStr ''dev''\<rparr>"

theorem stateless_token_passes_as_access_witness:
  "fst (verify_access_token
     (sample_token_lib\<lparr>tl_jwt_decode := \<lambda>_ _ _. Some (stateless_claims sample_token_settings 10 ''k'' sample_identity)\<rparr>)
     sample_token_settings 20
     (create_stateless_refresh_token sample_token_lib sample_token_settings 10 ''k'' sample_identity) []) \<noteq> Inl JwtInvalid"
  using stateless_token_passes_as_access [of
      "sample_token_lib\<lparr>tl_jwt_decode := \<lambda>_ _ _. Some (stateless_claims sample_token_settings 10 ''k'' sample_identity)\<rparr>"
      20 sample_token_settings 10 "''k''" sample_identity "[]"]
  by (auto simp: text_identity_def sample_identity_def optional_text_def create_stateless_refresh_token_def sample_token_lib_def
      split: sum.splits)

end
