(* ===== verification/Auth_Gate.thy ===== *)
theory Auth_Gate
  imports Token_Service
begin

text \<open>
  \<open>app/core/security.py\<close>, \<open>security_roles.py\<close> and \<open>security_models.py\<close>: roles, and the authentication of
  a request by API key, service token or JWT. Headers that are no text are \<open>None\<close>; the table of
  organisation members is a function, \<open>None\<close> when its query fails. Logging and audit events are not modelled.
\<close>

section \<open>Roles\<close>

definition default_legacy_role :: string where "default_legacy_role = ''student''"
definition default_platform_role :: string where "default_platform_role = ''user''"
definition platform_admin_role :: string where "platform_admin_role = ''platform_admin''"

definition host_role_aliases :: "(string, string) dict" where
  "host_role_aliases =
     [(''student'', ''student''), (''learner'', ''student''), (''pupil'', ''student''),
      (''teacher'', ''teacher''), (''instructor'', ''teacher''), (''professor'', ''teacher''),
      (''lecturer'', ''teacher''), (''ta'', ''teacher''), (''teaching_assistant'', ''teacher''),
      (''admin'', ''admin''), (''administrator'', ''admin''), (''manager'', ''admin''),
      (''org_admin'', ''org_admin''), (''organization_admin'', ''org_admin''), (''owner'', ''org_admin'')]"

definition platform_role_aliases :: "(string, string) dict" where
  "platform_role_aliases =
     [(''admin'', platform_admin_role), (''platform_admin'', platform_admin_role),
      (''system_admin'', platform_admin_role), (''user'', default_platform_role), (''member'', default_platform_role)]"

definition normalize_role_source :: "string option \<Rightarrow> string option" where
  "normalize_role_source v =
     (case v of None \<Rightarrow> None
      | Some s \<Rightarrow> let n = py_lower (py_strip s) in if n = [] then None else Some n)"

definition normalize_platform_role :: "string option \<Rightarrow> string" where
  "normalize_platform_role v =
     (case v of None \<Rightarrow> default_platform_role
      | Some s \<Rightarrow> (case dict_get platform_role_aliases (py_lower (py_strip s)) of
            Some r \<Rightarrow> r | None \<Rightarrow> default_platform_role))"

definition normalize_host_role :: "string option \<Rightarrow> string option" where
  "normalize_host_role v =
     (case v of None \<Rightarrow> None
      | Some s \<Rightarrow> let n = py_lower (py_strip s) in if n = [] then None else dict_get host_role_aliases n)"

definition normalize_legacy_role :: "string option \<Rightarrow> string option" where
  "normalize_legacy_role v =
     (case v of None \<Rightarrow> None
      | Some s \<Rightarrow> let n = py_lower (py_strip s)
                   in if n \<in> {''student'', ''teacher'', ''admin''} then Some n else None)"

definition map_host_role_to_legacy_role :: "string option \<Rightarrow> string" where
  "map_host_role_to_legacy_role host_role =
     (if normalize_host_role host_role \<in> {Some ''teacher'', Some ''admin'', Some ''org_admin''}
      then ''teacher'' else default_legacy_role)"

definition derive_platform_role_from_legacy_role :: "string option \<Rightarrow> string option \<Rightarrow> string option \<Rightarrow> string" where
  "derive_platform_role_from_legacy_role legacy_role auth_method role_source =
     (if normalize_role_source role_source = Some ''lms_host''
         \<or> auth_method \<in> {Some ''lms'', Some ''lms_service''} then default_platform_role
      else case legacy_role of
          Some s \<Rightarrow> if py_lower (py_strip s) = ''admin'' then platform_admin_role else default_platform_role
        | None \<Rightarrow> default_platform_role)"

record authenticated_user =
  au_user_id :: string
  au_auth_method :: string
  au_role :: string
  au_platform_role :: string
  au_organization_role :: "string option"
  au_host_role :: "string option"
  au_role_source :: "string option"
  au_session_id :: "string option"
  au_organization_id :: "string option"
  au_connector_id :: "string option"
  au_identity_version :: "string option"

definition resolve_interaction_role :: "authenticated_user option \<Rightarrow> string \<Rightarrow> string" where
  "resolve_interaction_role auth missing =
     (case auth of
        None \<Rightarrow> missing
      | Some u \<Rightarrow>
          (case normalize_host_role (au_host_role u) of
             Some h \<Rightarrow> map_host_role_to_legacy_role (Some h)
           | None \<Rightarrow>
               (case normalize_legacy_role (Some (au_role u)) of
                  Some r \<Rightarrow>
                    if au_auth_method u \<in> {''api_key'', ''lms'', ''lms_service''}
                       \<or> normalize_role_source (au_role_source u)
                          \<in> {Some ''api_key'', Some ''lms_host'', Some ''host'', Some ''workspace''}
                    then r else missing
                | None \<Rightarrow> missing)))"

definition is_platform_admin :: "authenticated_user option \<Rightarrow> bool" where
  "is_platform_admin auth =
     (case auth of
        None \<Rightarrow> False
      | Some u \<Rightarrow>
          if normalize_platform_role (Some (au_platform_role u)) = platform_admin_role then True
          else derive_platform_role_from_legacy_role (Some (au_role u)) (Some (au_auth_method u)) (au_role_source u)
                 = platform_admin_role)"

section \<open>Credentials\<close>

record auth_settings =
  as_api_key :: "string option"
  as_lms_service_token :: "string option"
  as_environment :: string
  as_enable_multi_tenant :: bool
  as_enforce_api_key_role_restriction :: bool
  as_enable_org_membership_check :: bool

datatype http_error = HttpError int string

definition normalize_optional_header :: "string option \<Rightarrow> string option" where
  "normalize_optional_header v =
     (case v of None \<Rightarrow> None | Some s \<Rightarrow> let n = py_strip s in if n = [] then None else Some n)"

definition get_configured_secret :: "string option \<Rightarrow> string option" where
  "get_configured_secret v =
     (case v of None \<Rightarrow> None | Some s \<Rightarrow> let n = py_strip s in if n = [] then None else Some n)"

definition verify_api_key :: "auth_settings \<Rightarrow> string \<Rightarrow> bool" where
  "verify_api_key cfg api_key =
     (if api_key = [] then False
      else case get_configured_secret (as_api_key cfg) of
          None \<Rightarrow> as_environment cfg \<noteq> ''production''
        | Some configured \<Rightarrow> api_key = configured)"

definition verify_lms_service_token :: "auth_settings \<Rightarrow> string \<Rightarrow> bool" where
  "verify_lms_service_token cfg service_token =
     (if service_token = [] then False
      else case get_configured_secret (as_lms_service_token cfg) of
          None \<Rightarrow> False | Some configured \<Rightarrow> service_token = configured)"

definition is_strict_identity_org_mode :: "auth_settings \<Rightarrow> bool" where
  "is_strict_identity_org_mode cfg \<longleftrightarrow>
     as_enable_multi_tenant cfg \<and> as_environment cfg \<in> {''production'', ''staging''}"

definition or_else :: "string option \<Rightarrow> string option \<Rightarrow> string option" where
  "or_else a b = (if str_or_empty a \<noteq> [] then a else b)"

definition resolve_token_authenticated_org_id ::
  "auth_settings \<Rightarrow> string option \<Rightarrow> string option \<Rightarrow> http_error + string option" where
  "resolve_token_authenticated_org_id cfg header_org token_org =
     (let h = normalize_optional_header header_org; t = normalize_optional_header token_org
      in if \<not> is_strict_identity_org_mode cfg then Inr (or_else h t)
         else case (t, h) of
             (Some t', _) \<Rightarrow>
               if h \<noteq> None \<and> h \<noteq> Some t'
               then Inl (HttpError 403 ''Active organization does not match authenticated organization.'')
               else Inr (Some t')
           | (None, Some _) \<Rightarrow> Inl (HttpError 403
               (''Authenticated token does not carry an active organization; ''
                @ ''X-Organization-ID cannot establish tenant context.''))
           | (None, None) \<Rightarrow> Inr None)"

record token_payload =
  pl_sub :: string
  pl_exp :: int
  pl_iat :: int
  pl_type :: string
  pl_role :: "string option"
  pl_platform_role :: "string option"
  pl_organization_role :: "string option"
  pl_host_role :: "string option"
  pl_role_source :: "string option"
  pl_active_organization_id :: "string option"
  pl_connector_id :: "string option"
  pl_identity_version :: "string option"
  pl_email :: "string option"
  pl_name :: "string option"
  pl_auth_method :: "string option"
  pl_iss :: "string option"
  pl_jti :: "string option"

definition token_payload_of :: "token_lib \<Rightarrow> (string, pyval) dict \<Rightarrow> token_payload option" where
  "token_payload_of lib d =
     (case (text_field d ''sub'' None, text_field d ''type'' (Some ''access''),
            tl_datetime lib (claim d ''exp''), tl_datetime lib (claim d ''iat''),
            map (optional_text_field d)
              [''role'', ''platform_role'', ''organization_role'', ''host_role'', ''role_source'',
               ''active_organization_id'', ''connector_id'', ''identity_version'', ''email'', ''name'',
               ''auth_method'', ''iss'', ''jti'']) of
        (Some sub, Some ty, Some expires, Some issued,
         [Some role, Some prole, Some orole, Some hrole, Some source, Some org, Some conn, Some ver, Some email,
          Some name, Some auth, Some iss, Some jti]) \<Rightarrow>
          Some \<lparr>pl_sub = sub, pl_exp = expires, pl_iat = issued, pl_type = ty, pl_role = role, pl_platform_role = prole,
                pl_organization_role = orole, pl_host_role = hrole, pl_role_source = source,
                pl_active_organization_id = org, pl_connector_id = conn, pl_identity_version = ver, pl_email = email,
                pl_name = name, pl_auth_method = auth, pl_iss = iss, pl_jti = jti\<rparr>
      | _ \<Rightarrow> None)"

definition verify_jwt_token ::
  "token_lib \<Rightarrow> token_settings \<Rightarrow> int \<Rightarrow> string \<Rightarrow> denylist \<Rightarrow> (http_error + token_payload) \<times> denylist" where
  "verify_jwt_token lib st now token L =
     (case decode_jwt_payload lib st now token L of
        (Inl JwtRevoked, L') \<Rightarrow> (Inl (HttpError 401 ''Token has been revoked''), L')
      | (Inl _, L') \<Rightarrow> (Inl (HttpError 401 ''Invalid or expired token''), L')
      | (Inr d, L') \<Rightarrow>
          ((case token_payload_of lib d of
              Some p \<Rightarrow> Inr p | None \<Rightarrow> Inl (HttpError 401 ''Invalid or expired token'')), L'))"

definition validate_org_membership ::
  "(string \<Rightarrow> string \<Rightarrow> bool option) \<Rightarrow> string \<Rightarrow> string \<Rightarrow> string \<Rightarrow> string option \<Rightarrow> bool" where
  "validate_org_membership members user_id org_id role platform_role =
     (if normalize_platform_role platform_role = platform_admin_role
         \<or> derive_platform_role_from_legacy_role (Some role) None None = platform_admin_role then True
      else case members user_id org_id of Some found \<Rightarrow> found | None \<Rightarrow> False)"

section \<open>Authentication\<close>

record auth_request =
  ar_api_key :: "string option"
  ar_credentials :: "string option"
  ar_user_id :: "string option"
  ar_role :: "string option"
  ar_session_id :: "string option"
  ar_org_id :: "string option"
  ar_host_role :: "string option"

definition clean_request :: "auth_request \<Rightarrow> auth_request" where
  "clean_request q =
     \<lparr>ar_api_key = normalize_optional_header (ar_api_key q), ar_credentials = ar_credentials q,
      ar_user_id = normalize_optional_header (ar_user_id q), ar_role = normalize_optional_header (ar_role q),
      ar_session_id = normalize_optional_header (ar_session_id q), ar_org_id = normalize_optional_header (ar_org_id q),
      ar_host_role = normalize_optional_header (ar_host_role q)\<rparr>"

definition restrict_role :: "auth_settings \<Rightarrow> string \<Rightarrow> string" where
  "restrict_role cfg role =
     (if as_enforce_api_key_role_restriction cfg \<and> as_environment cfg = ''production''
         \<and> role \<notin> {''student'', ''teacher''} then ''student'' else role)"

definition check_member ::
  "auth_settings \<Rightarrow> (string \<Rightarrow> string \<Rightarrow> bool option) \<Rightarrow> string option \<Rightarrow> authenticated_user
   \<Rightarrow> http_error + authenticated_user" where
  "check_member cfg members org u =
     (case org of
        Some o' \<Rightarrow>
          if o' \<noteq> [] \<and> as_enable_org_membership_check cfg
             \<and> \<not> validate_org_membership members (au_user_id u) o' (au_role u) (Some (au_platform_role u))
          then Inl (HttpError 403 (''User is not a member of organization '' @ [CHR 0x27] @ o' @ [CHR 0x27]))
          else Inr u
      | None \<Rightarrow> Inr u)"

definition api_key_user ::
  "auth_settings \<Rightarrow> (string \<Rightarrow> string \<Rightarrow> bool option) \<Rightarrow> auth_request \<Rightarrow> http_error + authenticated_user" where
  "api_key_user cfg members q =
     (let host_role = normalize_host_role (or_else (ar_host_role q) (ar_role q));
          role = restrict_role cfg
            (if ar_role q \<in> {Some ''student'', Some ''teacher'', Some ''admin''} then str_or_empty (ar_role q)
             else map_host_role_to_legacy_role host_role);
          user_id = (if as_environment cfg = ''production'' then ''api-client''
                     else case ar_user_id q of Some u \<Rightarrow> u | None \<Rightarrow> ''anonymous'')
      in check_member cfg members (ar_org_id q)
           \<lparr>au_user_id = user_id, au_auth_method = ''api_key'', au_role = role,
            au_platform_role = derive_platform_role_from_legacy_role (Some role) (Some ''api_key'') (Some ''api_key''),
            au_organization_role = None, au_host_role = host_role, au_role_source = Some ''api_key'',
            au_session_id = ar_session_id q, au_organization_id = ar_org_id q, au_connector_id = None,
            au_identity_version = Some ''2''\<rparr>)"

text \<open>The service token, with the payload of an accompanying JWT if there is one.\<close>

definition lms_identity ::
  "auth_settings \<Rightarrow> auth_request \<Rightarrow> token_payload option \<Rightarrow> string option \<Rightarrow> authenticated_user" where
  "lms_identity cfg q payload org =
     (let get = (\<lambda>f. case payload of Some p \<Rightarrow> f p | None \<Rightarrow> None);
          host_role = (if str_or_empty (get pl_host_role) \<noteq> [] then normalize_host_role (get pl_host_role)
                       else normalize_host_role (or_else (ar_host_role q) (ar_role q)))
      in \<lparr>au_user_id = (case payload of Some p \<Rightarrow> pl_sub p | None \<Rightarrow> str_or_empty (ar_user_id q)),
          au_auth_method = ''lms_service'',
          au_role = restrict_role cfg
            (if get pl_role \<in> {Some ''student'', Some ''teacher''} then str_or_empty (get pl_role)
             else map_host_role_to_legacy_role host_role),
          au_platform_role = (if str_or_empty (get pl_platform_role) \<noteq> []
             then normalize_platform_role (get pl_platform_role) else default_platform_role),
          au_organization_role = get pl_organization_role, au_host_role = host_role,
          au_role_source = or_else (get pl_role_source) (Some ''lms_host''),
          au_session_id = ar_session_id q, au_organization_id = org, au_connector_id = get pl_connector_id,
          au_identity_version = or_else (get pl_identity_version) (Some ''2'')\<rparr>)"

definition lms_user ::
  "auth_settings \<Rightarrow> (string \<Rightarrow> string \<Rightarrow> bool option) \<Rightarrow> auth_request \<Rightarrow> token_payload option
   \<Rightarrow> http_error + authenticated_user" where
  "lms_user cfg members q payload =
     (case (case payload of
              Some p \<Rightarrow> resolve_token_authenticated_org_id cfg (ar_org_id q) (pl_active_organization_id p)
            | None \<Rightarrow> Inr (ar_org_id q)) of
        Inl e \<Rightarrow> Inl e
      | Inr org \<Rightarrow> check_member cfg members org (lms_identity cfg q payload org))"

definition jwt_identity :: "auth_request \<Rightarrow> token_payload \<Rightarrow> string option \<Rightarrow> authenticated_user" where
  "jwt_identity q p org =
     (let auth_method = str_or_empty (or_else (pl_auth_method p) (Some ''jwt''));
          platform_role = (if str_or_empty (pl_platform_role p) \<noteq> [] then normalize_platform_role (pl_platform_role p)
             else derive_platform_role_from_legacy_role (pl_role p) (Some auth_method) (pl_role_source p))
      in \<lparr>au_user_id = pl_sub p, au_auth_method = auth_method,
          au_role = str_or_empty (or_else (pl_role p) (Some default_legacy_role)), au_platform_role = platform_role,
          au_organization_role = pl_organization_role p, au_host_role = normalize_host_role (pl_host_role p),
          au_role_source = or_else (pl_role_source p)
            (Some (if platform_role = platform_admin_role then ''platform'' else ''jwt'')),
          au_session_id = ar_session_id q, au_organization_id = org, au_connector_id = pl_connector_id p,
          au_identity_version = pl_identity_version p\<rparr>)"

definition jwt_user ::
  "auth_settings \<Rightarrow> (string \<Rightarrow> string \<Rightarrow> bool option) \<Rightarrow> auth_request \<Rightarrow> token_payload
   \<Rightarrow> http_error + authenticated_user" where
  "jwt_user cfg members q p =
     (case resolve_token_authenticated_org_id cfg (ar_org_id q) (pl_active_organization_id p) of
        Inl e \<Rightarrow> Inl e
      | Inr org \<Rightarrow> check_member cfg members org (jwt_identity q p org))"

definition require_auth ::
  "token_lib \<Rightarrow> token_settings \<Rightarrow> auth_settings \<Rightarrow> (string \<Rightarrow> string \<Rightarrow> bool option) \<Rightarrow> int \<Rightarrow> auth_request
   \<Rightarrow> denylist \<Rightarrow> (http_error + authenticated_user) \<times> denylist" where
  "require_auth lib st cfg members now request L =
     (let q = clean_request request;
          key = str_or_empty (ar_api_key q)
      in if key \<noteq> [] \<and> verify_api_key cfg key then (api_key_user cfg members q, L)
         else if key \<noteq> [] \<and> verify_lms_service_token cfg key then
           (case ar_credentials q of
              None \<Rightarrow>
                if ar_user_id q = None
                then (Inl (HttpError 401 ''LMS service authentication requires X-User-ID header.''), L)
                else (lms_user cfg members q None, L)
            | Some token \<Rightarrow>
                (case verify_jwt_token lib st now token L of
                   (Inl e, L') \<Rightarrow> (Inl e, L')
                 | (Inr p, L') \<Rightarrow>
                     if ar_user_id q \<noteq> None \<and> ar_user_id q \<noteq> Some (pl_sub p)
                     then (Inl (HttpError 401 ''LMS service identity mismatch between JWT and X-User-ID''), L')
                     else (lms_user cfg members q (Some p), L')))
         else
           (case ar_credentials q of
              Some token \<Rightarrow>
                (case verify_jwt_token lib st now token L of
                   (Inl e, L') \<Rightarrow> (Inl e, L')
                 | (Inr p, L') \<Rightarrow> (jwt_user cfg members q p, L'))
            | None \<Rightarrow>
                (Inl (HttpError 401 (if key \<noteq> [] then ''Invalid API key''
                   else ''Authentication required. Provide X-API-Key header or Bearer token.'')), L)))"

definition optional_auth ::
  "token_lib \<Rightarrow> token_settings \<Rightarrow> auth_settings \<Rightarrow> (string \<Rightarrow> string \<Rightarrow> bool option) \<Rightarrow> int \<Rightarrow> auth_request
   \<Rightarrow> denylist \<Rightarrow> (http_error + authenticated_user option) \<times> denylist" where
  "optional_auth lib st cfg members now request L =
     (case require_auth lib st cfg members now request L of
        (Inr u, L') \<Rightarrow> (Inr (Some u), L')
      | (Inl e, L') \<Rightarrow>
          (if normalize_optional_header (ar_api_key request) \<noteq> None \<or> ar_credentials request \<noteq> None
           then Inl e else Inr None, L'))"

section \<open>Lemmas\<close>

lemma header_cases: "normalize_optional_header v = None \<or> (\<exists>s. normalize_optional_header v = Some s \<and> s \<noteq> [])"
  by (cases v) (auto simp: normalize_optional_header_def Let_def)

lemma header_idem [simp]: "normalize_optional_header (normalize_optional_header v) = normalize_optional_header v"
  by (cases v) (auto simp: normalize_optional_header_def Let_def)

lemma check_member_ok: "check_member cfg members org u = Inr v \<Longrightarrow> v = u"
  by (auto simp: check_member_def split: option.splits if_splits)

lemma check_member_error: "check_member cfg members org u = Inl (HttpError c d) \<Longrightarrow> c = 403"
  by (auto simp: check_member_def split: option.splits if_splits)

lemma check_member_checked:
  assumes "check_member cfg members (Some org) u = Inr v" "org \<noteq> []" "as_enable_org_membership_check cfg"
  shows "validate_org_membership members (au_user_id u) org (au_role u) (Some (au_platform_role u))"
  using assms by (simp add: check_member_def split: if_splits)

lemma resolve_org_error:
  "resolve_token_authenticated_org_id cfg h t = Inl (HttpError c d) \<Longrightarrow> c = 403"
  by (auto simp: resolve_token_authenticated_org_id_def Let_def split: option.splits if_splits)

lemma resolve_org_strict:
  "is_strict_identity_org_mode cfg \<Longrightarrow> resolve_token_authenticated_org_id cfg h t = Inr org \<Longrightarrow>
   org = normalize_optional_header t"
  by (auto simp: resolve_token_authenticated_org_id_def Let_def split: option.splits if_splits)

lemma map_host_roles: "map_host_role_to_legacy_role h \<in> {''student'', ''teacher''}"
  by (simp add: map_host_role_to_legacy_role_def default_legacy_role_def)

lemma restrict_role_strict:
  "as_enforce_api_key_role_restriction cfg \<Longrightarrow> as_environment cfg = ''production'' \<Longrightarrow>
   restrict_role cfg r \<in> {''student'', ''teacher''}"
  by (simp add: restrict_role_def)

lemma restrict_role_idle: "r \<in> {''student'', ''teacher''} \<Longrightarrow> restrict_role cfg r = r"
  by (auto simp: restrict_role_def)

lemma lower_strip_legacy: "py_lower (py_strip ''student'') = ''student''" "py_lower (py_strip ''teacher'') = ''teacher''"
  by code_simp+

lemma derive_restricted: "r \<in> {''student'', ''teacher''} \<Longrightarrow>
    derive_platform_role_from_legacy_role (Some r) m s = default_platform_role"
  by (auto simp: derive_platform_role_from_legacy_role_def lower_strip_legacy)

lemma lms_identity_fields [simp]:
  "au_organization_id (lms_identity cfg q payload org) = org"
  "au_auth_method (lms_identity cfg q payload org) = ''lms_service''"
  "au_user_id (lms_identity cfg q (Some p) org) = pl_sub p"
  "au_platform_role (lms_identity cfg q None org) = default_platform_role"
  by (simp_all add: lms_identity_def Let_def str_or_empty_def)

lemma lms_identity_role: "au_role (lms_identity cfg q payload org) \<in> {''student'', ''teacher''}"
proof -
  have "restrict_role cfg (if r \<in> {Some ''student'', Some ''teacher''} then str_or_empty r
      else map_host_role_to_legacy_role h) \<in> {''student'', ''teacher''}" for r h
    using map_host_roles [of h] by (auto simp: restrict_role_idle str_or_empty_def)
  then show ?thesis by (simp add: lms_identity_def Let_def)
qed

lemma lms_user_ok:
  "lms_user cfg members q payload = Inr u \<Longrightarrow>
   \<exists>org. u = lms_identity cfg q payload org \<and> check_member cfg members org u = Inr u
     \<and> (case payload of Some p \<Rightarrow> resolve_token_authenticated_org_id cfg (ar_org_id q) (pl_active_organization_id p) = Inr org
        | None \<Rightarrow> org = ar_org_id q)"
  using check_member_ok by (fastforce simp: lms_user_def split: sum.splits option.splits)

lemma jwt_identity_fields [simp]:
  "au_organization_id (jwt_identity q p org) = org" "au_user_id (jwt_identity q p org) = pl_sub p"
  "jwt_identity (q\<lparr>ar_api_key := k\<rparr>) p org = jwt_identity q p org"
  by (simp_all add: jwt_identity_def Let_def)

lemma jwt_user_ok:
  "jwt_user cfg members q p = Inr u \<Longrightarrow>
   \<exists>org. u = jwt_identity q p org \<and> check_member cfg members org u = Inr u
     \<and> resolve_token_authenticated_org_id cfg (ar_org_id q) (pl_active_organization_id p) = Inr org"
  using check_member_ok by (fastforce simp: jwt_user_def split: sum.splits)

lemma api_key_user_fields:
  assumes "api_key_user cfg members q = Inr u"
  shows "check_member cfg members (ar_org_id q) u = Inr u \<and> au_organization_id u = ar_org_id q
    \<and> au_auth_method u = ''api_key''
    \<and> (as_environment cfg = ''production'' \<longrightarrow> au_user_id u = ''api-client'')
    \<and> (as_enforce_api_key_role_restriction cfg \<and> as_environment cfg = ''production'' \<longrightarrow> au_role u \<in> {''student'', ''teacher''})
    \<and> au_platform_role u = derive_platform_role_from_legacy_role (Some (au_role u)) (Some ''api_key'') (Some ''api_key'')"
proof -
  obtain v where v: "check_member cfg members (ar_org_id q) v = Inr u" "au_organization_id v = ar_org_id q"
    "au_auth_method v = ''api_key''" "as_environment cfg = ''production'' \<longrightarrow> au_user_id v = ''api-client''"
    "au_platform_role v = derive_platform_role_from_legacy_role (Some (au_role v)) (Some ''api_key'') (Some ''api_key'')"
    "\<exists>r. au_role v = restrict_role cfg r"
    using assms by (force simp: api_key_user_def Let_def)
  from v(6) obtain r where "au_role v = restrict_role cfg r" by blast
  with check_member_ok [OF v(1)] v show ?thesis using restrict_role_strict [of cfg r] by simp
qed

lemma verify_jwt_error: "fst (verify_jwt_token lib st now t L) = Inl e \<Longrightarrow> \<exists>d. e = HttpError 401 d"
  by (auto simp: verify_jwt_token_def split: prod.splits sum.splits token_error.splits option.splits)

lemma jwt_user_api_key [simp]: "jwt_user cfg members (q\<lparr>ar_api_key := k\<rparr>) p = jwt_user cfg members q p"
  by (cases "resolve_token_authenticated_org_id cfg (ar_org_id q) (pl_active_organization_id p)")
    (simp_all add: jwt_user_def)

text \<open>The ways through: a request is refused with 401, or answered by one of the three constructors.\<close>

lemma require_auth_cases:
  obtains (refused) d where "fst (require_auth lib st cfg members now request L) = Inl (HttpError 401 d)"
  | (api) "fst (require_auth lib st cfg members now request L) = api_key_user cfg members (clean_request request)"
      "verify_api_key cfg (str_or_empty (ar_api_key (clean_request request)))"
  | (service) "fst (require_auth lib st cfg members now request L) = lms_user cfg members (clean_request request) None"
      "ar_credentials request = None"
  | (lms) t p where "fst (require_auth lib st cfg members now request L) = lms_user cfg members (clean_request request) (Some p)"
      "ar_credentials request = Some t" "fst (verify_jwt_token lib st now t L) = Inr p"
  | (jwt) t p where "fst (require_auth lib st cfg members now request L) = jwt_user cfg members (clean_request request) p"
      "ar_credentials request = Some t" "fst (verify_jwt_token lib st now t L) = Inr p"
proof -
  let ?q = "clean_request request"
  let ?key = "str_or_empty (ar_api_key ?q)"
  have cred: "ar_credentials ?q = ar_credentials request" by (simp add: clean_request_def)
  consider (a) "?key \<noteq> []" "verify_api_key cfg ?key"
    | (b) "\<not> (?key \<noteq> [] \<and> verify_api_key cfg ?key)" "?key \<noteq> [] \<and> verify_lms_service_token cfg ?key"
    | (c) "\<not> (?key \<noteq> [] \<and> verify_api_key cfg ?key)" "\<not> (?key \<noteq> [] \<and> verify_lms_service_token cfg ?key)" by blast
  then show thesis
  proof cases
    case a
    then show thesis using api by (simp add: require_auth_def Let_def)
  next
    case b
    show thesis
    proof (cases "ar_credentials request")
      case None
      then show thesis using b cred refused service
        by (cases "ar_user_id ?q = None") (simp_all add: require_auth_def Let_def)
    next
      case t: (Some t)
      show thesis
      proof (cases "fst (verify_jwt_token lib st now t L)")
        case (Inl e)
        then show thesis using t b cred refused verify_jwt_error [OF Inl]
          by (cases "verify_jwt_token lib st now t L") (auto simp: require_auth_def Let_def)
      next
        case (Inr p)
        then show thesis using t b cred refused lms [OF _ t Inr]
          by (cases "verify_jwt_token lib st now t L";
              cases "ar_user_id ?q"; cases "ar_user_id ?q = Some (pl_sub p)")
            (simp_all add: require_auth_def Let_def)
      qed
    qed
  next
    case c
    have eq: "require_auth lib st cfg members now request L =
      (case ar_credentials ?q of
         Some token \<Rightarrow>
           (case verify_jwt_token lib st now token L of
              (Inl e, L') \<Rightarrow> (Inl e, L')
            | (Inr p, L') \<Rightarrow> (jwt_user cfg members ?q p, L'))
       | None \<Rightarrow>
           (Inl (HttpError 401 (if ?key \<noteq> [] then ''Invalid API key''
              else ''Authentication required. Provide X-API-Key header or Bearer token.'')), L))"
      by (simp only: require_auth_def Let_def c if_False)
    show thesis
    proof (cases "ar_credentials request")
      case None
      then show thesis using eq cred refused by simp
    next
      case (Some t)
      then show thesis
        using eq cred refused jwt [of _ t] verify_jwt_error [of lib st now t L]
        by (cases "verify_jwt_token lib st now t L"; cases "fst (verify_jwt_token lib st now t L)") auto
    qed
  qed
qed

section \<open>Properties\<close>

text \<open>C30: Service credentials carry no platform authority in production: with the role restriction on, a request
  without a JWT, whatever headers it sends, is at most a teacher and never a platform user beyond \<open>user\<close>;
  with the API key it is never anyone but \<open>api-client\<close>.\<close>

theorem service_credentials_stay_low:
  assumes "as_environment cfg = ''production''" and "as_enforce_api_key_role_restriction cfg"
    and "ar_credentials request = None"
    and "fst (require_auth lib st cfg members now request L) = Inr u"
  shows "au_role u \<in> {''student'', ''teacher''} \<and> au_platform_role u = ''user'' \<and> \<not> is_platform_admin (Some u)
    \<and> (if au_auth_method u = ''api_key'' then au_user_id u = ''api-client'' else au_auth_method u = ''lms_service'')"
proof -
  have user: "au_role u \<in> {''student'', ''teacher''} \<and> au_platform_role u = default_platform_role
    \<and> (if au_auth_method u = ''api_key'' then au_user_id u = ''api-client'' else au_auth_method u = ''lms_service'')"
  proof (cases rule: require_auth_cases [of lib st cfg members now request L])
    case api
    then show ?thesis using api_key_user_fields [of cfg members "clean_request request" u] assms
      by (simp add: derive_restricted)
  next
    case service
    then obtain org where "u = lms_identity cfg (clean_request request) None org"
      using lms_user_ok [of cfg members "clean_request request" None u] assms(4) by auto
    then show ?thesis using lms_identity_role [of cfg "clean_request request" None org] by simp
  qed (use assms(3,4) in simp_all)
  have "normalize_platform_role (Some default_platform_role) = default_platform_role" by code_simp
  moreover have "default_platform_role \<noteq> platform_admin_role" by code_simp
  ultimately show ?thesis
    using user derive_restricted [of "au_role u"] by (simp add: is_platform_admin_def) (simp add: default_platform_role_def)
qed

text \<open>C2: In strict multi-tenant mode the tenant of a signed-in user comes from the token alone: whatever
  organisation header is sent, the authenticated organisation is the one the token carries, and a header
  that names another one, or names one where the token has none, is refused.\<close>

theorem tenant_comes_from_token:
  assumes "is_strict_identity_org_mode cfg" and "ar_credentials request = Some t"
    and "fst (verify_jwt_token lib st now t L) = Inr p"
    and "\<not> verify_api_key cfg (str_or_empty (normalize_optional_header (ar_api_key request)))"
    and "fst (require_auth lib st cfg members now request L) = Inr u"
  shows "au_organization_id u = normalize_optional_header (pl_active_organization_id p) \<and> au_user_id u = pl_sub p
    \<and> (if ar_org_id (clean_request request) = None then True
       else ar_org_id (clean_request request) = au_organization_id u)"
proof -
  let ?h = "ar_org_id (clean_request request)"
  have h: "normalize_optional_header ?h = ?h" by (simp add: clean_request_def)
  obtain org where r: "resolve_token_authenticated_org_id cfg ?h (pl_active_organization_id p) = Inr org"
    "au_organization_id u = org" "au_user_id u = pl_sub p"
  proof (cases rule: require_auth_cases [of lib st cfg members now request L])
    case api
    then show thesis using assms(4) by (simp add: clean_request_def)
  next
    case (lms t' p')
    then show thesis
      using that lms_user_ok [of cfg members "clean_request request" "Some p'" u] assms(2,3,5) by auto
  next
    case (jwt t' p')
    then show thesis using that jwt_user_ok [of cfg members "clean_request request" p' u] assms(2,3,5) by auto
  qed (use assms(2,5) in simp_all)
  then show ?thesis
    using resolve_org_strict [OF assms(1) r(1)] assms(1) h
    by (cases "normalize_optional_header (pl_active_organization_id p)"; cases ?h)
      (auto simp: resolve_token_authenticated_org_id_def Let_def split: if_splits)
qed

text \<open>C31: With the membership check on, nobody acts in an organisation without belonging to it: an accepted
  request that has an organisation is from a member (a failing query counts as no member), from a platform
  admin, or carries the legacy role admin.\<close>

theorem organisation_needs_membership:
  assumes "as_enable_org_membership_check cfg"
    and "fst (require_auth lib st cfg members now request L) = Inr u"
    and "au_organization_id u = Some org" and "org \<noteq> []"
  shows "members (au_user_id u) org = Some True
    \<or> normalize_platform_role (Some (au_platform_role u)) = platform_admin_role
    \<or> py_lower (py_strip (au_role u)) = ''admin''"
proof -
  have "check_member cfg members (Some org) u = Inr u"
  proof (cases rule: require_auth_cases [of lib st cfg members now request L])
    case api
    then show ?thesis using api_key_user_fields [of cfg members "clean_request request" u] assms(2,3) by simp
  next
    case service
    then show ?thesis using lms_user_ok [of cfg members "clean_request request" None u] assms(2,3) by auto
  next
    case (lms t p)
    then show ?thesis using lms_user_ok [of cfg members "clean_request request" "Some p" u] assms(2,3) by auto
  next
    case (jwt t p)
    then show ?thesis using jwt_user_ok [of cfg members "clean_request request" p u] assms(2,3) by auto
  qed (use assms(2) in simp)
  then have "validate_org_membership members (au_user_id u) org (au_role u) (Some (au_platform_role u))"
    using check_member_checked assms(1,4) by blast
  then show ?thesis
    by (auto simp: validate_org_membership_def derive_platform_role_from_legacy_role_def default_platform_role_def
        platform_admin_role_def split: option.splits if_splits)
qed

text \<open>The membership check trusts the legacy role of a host system: a token that an LMS issued for its own
  admin, who is no platform admin, is accepted for an organisation he does not belong to.\<close>

theorem host_admin_skips_membership:
  assumes "fst (verify_jwt_token lib st now t L) = Inr p" and "ar_credentials request = Some t"
    and "ar_api_key request = None"
    and "pl_role p = Some ''admin''" and "pl_platform_role p = None" and "pl_role_source p = Some ''lms_host''"
    and "ar_org_id request = None" and "pl_active_organization_id p = Some ''other-org''"
  shows "case fst (require_auth lib st cfg (\<lambda>_ _. Some False) now request L) of
      Inr u \<Rightarrow> au_organization_id u = Some ''other-org'' \<and> \<not> is_platform_admin (Some u)
    | Inl e \<Rightarrow> False"
proof -
  let ?u = "jwt_identity (clean_request request) p (Some ''other-org'')"
  have names: "py_lower (py_strip ''admin'') = ''admin''" "normalize_role_source (Some ''lms_host'') = Some ''lms_host''"
    "normalize_platform_role (Some default_platform_role) = default_platform_role"
    "normalize_optional_header (Some ''other-org'') = Some ''other-org''" "normalize_optional_header None = None"
    "normalize_role_source None = None" "default_platform_role \<noteq> platform_admin_role"
    by code_simp+
  have org: "resolve_token_authenticated_org_id cfg None (Some ''other-org'') = Inr (Some ''other-org'')"
    by (simp add: resolve_token_authenticated_org_id_def names or_else_def str_or_empty_def Let_def)
  have u: "au_role ?u = ''admin''" "au_platform_role ?u = default_platform_role" "au_role_source ?u = Some ''lms_host''"
    using assms(4-6)
    by (simp_all add: jwt_identity_def Let_def or_else_def str_or_empty_def derive_platform_role_from_legacy_role_def names)
  have member: "check_member cfg (\<lambda>_ _. Some False) (Some ''other-org'') ?u = Inr ?u"
    by (simp add: check_member_def validate_org_membership_def u names derive_platform_role_from_legacy_role_def)
  have "\<not> is_platform_admin (Some ?u)"
    by (simp add: is_platform_admin_def u names derive_platform_role_from_legacy_role_def)
  moreover have "jwt_user cfg (\<lambda>_ _. Some False) (clean_request request) p = Inr ?u"
    using assms(7,8) org member by (simp add: jwt_user_def) (simp add: clean_request_def names)
  moreover have "ar_api_key (clean_request request) = None" "ar_credentials (clean_request request) = Some t"
    using assms(2,3) by (simp_all add: clean_request_def names)
  ultimately show ?thesis
    using assms(1) by (cases "verify_jwt_token lib st now t L") (simp add: require_auth_def Let_def str_or_empty_def)
qed

text \<open>A stale API key does not spoil a good token: a request whose key matches neither secret is treated
  exactly like the same request without a key.\<close>

theorem stale_key_is_ignored:
  assumes "\<not> verify_api_key cfg (str_or_empty (normalize_optional_header (ar_api_key request)))"
    and "\<not> verify_lms_service_token cfg (str_or_empty (normalize_optional_header (ar_api_key request)))"
    and "ar_credentials request \<noteq> None"
  shows "require_auth lib st cfg members now request L
    = require_auth lib st cfg members now (request\<lparr>ar_api_key := None\<rparr>) L"
proof -
  have clean: "clean_request (request\<lparr>ar_api_key := None\<rparr>) = (clean_request request)\<lparr>ar_api_key := None\<rparr>"
    by (simp add: clean_request_def normalize_optional_header_def)
  obtain t where t: "ar_credentials (clean_request request) = Some t"
    using assms(3) by (auto simp: clean_request_def)
  have key: "ar_api_key (clean_request request) = normalize_optional_header (ar_api_key request)"
    by (simp add: clean_request_def)
  show ?thesis
    using assms(1,2)
    by (cases "verify_jwt_token lib st now t L"; cases "fst (verify_jwt_token lib st now t L)")
      (simp_all add: require_auth_def Let_def clean t key str_or_empty_def)
qed

text \<open>Every refusal is a 401 or a 403, and optional authentication answers anonymously only when no
  credential was sent: a credential that fails is refused, never downgraded.\<close>

theorem refusals_are_final:
  "(case fst (require_auth lib st cfg members now request L) of Inl (HttpError c d) \<Rightarrow> c = 401 \<or> c = 403 | Inr u \<Rightarrow> True)
   \<and> (case fst (optional_auth lib st cfg members now request L) of
        Inr None \<Rightarrow> normalize_optional_header (ar_api_key request) = None \<and> ar_credentials request = None
      | Inr (Some u) \<Rightarrow> fst (require_auth lib st cfg members now request L) = Inr u
      | Inl e \<Rightarrow> fst (require_auth lib st cfg members now request L) = Inl e)"
proof -
  have users: "c = 403" if "api_key_user cfg members q = Inl (HttpError c d) \<or> lms_user cfg members q payload = Inl (HttpError c d)
      \<or> jwt_user cfg members q p = Inl (HttpError c d)" for q payload p c d
    using that by (auto simp: api_key_user_def lms_user_def jwt_user_def Let_def
        dest!: check_member_error resolve_org_error split: sum.splits option.splits)
  have "c = 401 \<or> c = 403" if "fst (require_auth lib st cfg members now request L) = Inl (HttpError c d)" for c d
    using that users
    by (cases rule: require_auth_cases [of lib st cfg members now request L]) (auto, metis+)
  then show ?thesis
    by (auto simp: optional_auth_def split: sum.splits prod.splits http_error.splits if_splits)
qed

section \<open>Examples\<close>

definition sample_cfg :: auth_settings where
  "sample_cfg = \<lparr>as_api_key = Some ''k'', as_lms_service_token = Some ''s'', as_environment = ''production'',
     as_enable_multi_tenant = True, as_enforce_api_key_role_restriction = True, as_enable_org_membership_check = True\<rparr>"

definition sample_auth_request :: auth_request where
  "sample_auth_request = \<lparr>ar_api_key = Some ''k'', ar_credentials = None, ar_user_id = Some ''eve'', ar_role = Some ''admin'',
     ar_session_id = None, ar_org_id = None, ar_host_role = None\<rparr>"

definition sample_claims :: "(string, pyval) dict" where
  "sample_claims = [(''sub'', PStr ''ann''), (''exp'', PInt 99), (''iat'', PInt 1), (''role'', PStr ''admin''),
     (''role_source'', PStr ''lms_host''), (''active_organization_id'', PStr ''other-org'')]"

definition sample_jwt_lib :: token_lib where
  "sample_jwt_lib = sample_token_lib\<lparr>tl_jwt_decode := \<lambda>_ _ _. Some sample_claims\<rparr>"

definition sample_payload :: token_payload where
  "sample_payload = \<lparr>pl_sub = ''ann'', pl_exp = 99, pl_iat = 1, pl_type = ''access'', pl_role = Some ''admin'',
     pl_platform_role = None, pl_organization_role = None, pl_host_role = None, pl_role_source = Some ''lms_host'',
     pl_active_organization_id = Some ''other-org'', pl_connector_id = None, pl_identity_version = None,
     pl_email = None, pl_name = None, pl_auth_method = None, pl_iss = None, pl_jti = None\<rparr>"

definition sample_jwt_request :: auth_request where
  "sample_jwt_request = \<lparr>ar_api_key = None, ar_credentials = Some ''t'', ar_user_id = None, ar_role = None,
     ar_session_id = None, ar_org_id = None, ar_host_role = None\<rparr>"

lemma sample_verify: "fst (verify_jwt_token sample_jwt_lib st now t L) = Inr sample_payload"
  by (simp add: verify_jwt_token_def decode_jwt_payload_def jwt_decode_any_def sample_jwt_lib_def sample_token_lib_def
      token_payload_of_def sample_claims_def text_field_def optional_text_field_def claim_def sample_payload_def)

lemma sample_key_auth: "\<exists>u. fst (require_auth lib st sample_cfg members now sample_auth_request L) = Inr u"
proof -
  have "verify_api_key sample_cfg ''k''" by code_simp
  moreover have "str_or_empty (ar_api_key (clean_request sample_auth_request)) = ''k''"
    "ar_org_id (clean_request sample_auth_request) = None" by code_simp+
  ultimately show ?thesis by (simp add: require_auth_def Let_def api_key_user_def check_member_def)
qed

lemma sample_jwt_auth:
  "\<exists>u. fst (require_auth sample_jwt_lib st sample_cfg (\<lambda>_ _. Some True) now sample_jwt_request L) = Inr u
     \<and> au_organization_id u = Some ''other-org''"
proof -
  have "ar_credentials (clean_request sample_jwt_request) = Some ''t''" "str_or_empty (ar_api_key (clean_request sample_jwt_request)) = []"
    "resolve_token_authenticated_org_id sample_cfg (ar_org_id (clean_request sample_jwt_request))
       (pl_active_organization_id sample_payload) = Inr (Some ''other-org'')"
    by code_simp+
  then show ?thesis using sample_verify [of st now "''t''" L]
    by (cases "verify_jwt_token sample_jwt_lib st now ''t'' L")
      (simp add: require_auth_def Let_def jwt_user_def check_member_def validate_org_membership_def)
qed

theorem service_credentials_stay_low_witness:
  "\<exists>u. fst (require_auth sample_token_lib sample_token_settings sample_cfg (\<lambda>_ _. None) 5 sample_auth_request []) = Inr u
     \<and> au_role u \<in> {''student'', ''teacher''}"
proof -
  obtain u where u: "fst (require_auth sample_token_lib sample_token_settings sample_cfg (\<lambda>_ _. None) 5 sample_auth_request []) = Inr u"
    using sample_key_auth by blast
  then show ?thesis
    using service_credentials_stay_low [OF _ _ _ u] by (simp add: sample_cfg_def sample_auth_request_def)
qed

theorem tenant_comes_from_token_witness:
  "\<exists>u. fst (require_auth sample_jwt_lib sample_token_settings sample_cfg (\<lambda>_ _. Some True) 5 sample_jwt_request []) = Inr u
     \<and> au_user_id u = ''ann''"
proof -
  obtain u where u: "fst (require_auth sample_jwt_lib sample_token_settings sample_cfg (\<lambda>_ _. Some True) 5 sample_jwt_request []) = Inr u"
    using sample_jwt_auth by blast
  have "is_strict_identity_org_mode sample_cfg" "\<not> verify_api_key sample_cfg (str_or_empty (normalize_optional_header (ar_api_key sample_jwt_request)))"
    by code_simp+
  then show ?thesis
    using tenant_comes_from_token [OF _ _ sample_verify _ u, of "''t''"] u
    by (simp add: sample_jwt_request_def sample_payload_def)
qed

theorem organisation_needs_membership_witness:
  "\<exists>u. fst (require_auth sample_jwt_lib sample_token_settings sample_cfg (\<lambda>_ _. Some True) 5 sample_jwt_request []) = Inr u
     \<and> ((\<lambda>_ _. Some True) (au_user_id u) ''other-org'' = Some True
       \<or> normalize_platform_role (Some (au_platform_role u)) = platform_admin_role
       \<or> py_lower (py_strip (au_role u)) = ''admin'')"
proof -
  obtain u where u: "fst (require_auth sample_jwt_lib sample_token_settings sample_cfg (\<lambda>_ _. Some True) 5 sample_jwt_request []) = Inr u"
    "au_organization_id u = Some ''other-org''"
    using sample_jwt_auth by blast
  have "as_enable_org_membership_check sample_cfg" by (simp add: sample_cfg_def)
  with organisation_needs_membership [OF _ u(1) u(2)] u(1) show ?thesis by blast
qed

theorem host_admin_skips_membership_witness:
  "case fst (require_auth sample_jwt_lib sample_token_settings sample_cfg (\<lambda>_ _. Some False) 5 sample_jwt_request []) of
     Inr u \<Rightarrow> au_organization_id u = Some ''other-org'' \<and> \<not> is_platform_admin (Some u) | Inl e \<Rightarrow> False"
  by (rule host_admin_skips_membership [OF sample_verify, of _ "''t''"])
    (simp_all add: sample_jwt_request_def sample_payload_def)

theorem stale_key_is_ignored_witness:
  "require_auth sample_jwt_lib sample_token_settings sample_cfg (\<lambda>_ _. None) 5 (sample_jwt_request\<lparr>ar_api_key := Some ''old''\<rparr>) []
   = require_auth sample_jwt_lib sample_token_settings sample_cfg (\<lambda>_ _. None) 5 (sample_jwt_request\<lparr>ar_api_key := None\<rparr>) []"
proof -
  have "\<not> verify_api_key sample_cfg (str_or_empty (normalize_optional_header (Some ''old'')))"
    "\<not> verify_lms_service_token sample_cfg (str_or_empty (normalize_optional_header (Some ''old'')))" by code_simp+
  then show ?thesis
    using stale_key_is_ignored [of sample_cfg "sample_jwt_request\<lparr>ar_api_key := Some ''old''\<rparr>"]
    by (simp add: sample_jwt_request_def)
qed

end
