(* ===== verification/Otp_Linking.thy ===== *)
theory Otp_Linking
  imports Single_Use
begin

text \<open>
  \<open>app/auth/otp_linking.py\<close>: the six-digit codes that link a messenger account to a user, kept in the
  table \<open>otp_link_codes\<close>. A point in time is an \<^typ>\<open>int\<close> of microseconds. Random choices (the code, whether to
  clean up) are arguments; linking the identity is a request the operation returns. The merge of
  memories after linking and logging are not modelled.
\<close>

section \<open>State\<close>

record otp_settings =
  os_expiry_seconds :: int
  os_generate_window_minutes :: int
  os_max_generate_per_window :: int
  os_max_verify_attempts :: int

record otp_row =
  ot_code :: string
  ot_user_id :: string
  ot_channel_type :: string
  ot_created_at :: int
  ot_expires_at :: int
  ot_used_at :: "int option"
  ot_failed_attempts :: "int option"
  ot_updated_at :: "int option"
  ot_linked_sender :: "string option"

definition otp_second :: int where "otp_second = 1000000"

section \<open>Operations\<close>

datatype generate_result = LinkCode string | RateLimited | CodeTaken

definition generate_link_code ::
  "otp_settings \<Rightarrow> int \<Rightarrow> bool \<Rightarrow> string \<Rightarrow> string \<Rightarrow> string \<Rightarrow> otp_row list \<Rightarrow> generate_result \<times> otp_row list" where
  "generate_link_code st now cleanup otp user_id channel rows =
     (let rows1 = (if cleanup then filter (\<lambda>r. \<not> ot_expires_at r < now) rows else rows);
          window_start = now - os_generate_window_minutes st * 60 * otp_second;
          recent_count = int (length (filter (\<lambda>r. ot_user_id r = user_id \<and> window_start \<le> ot_created_at r) rows1))
      in if os_max_generate_per_window st \<le> recent_count then (RateLimited, rows1)
         else
           let rows2 = filter (\<lambda>r. \<not> (ot_user_id r = user_id \<and> ot_channel_type r = channel \<and> ot_used_at r = None)) rows1
           in if \<exists>r \<in> set rows2. ot_code r = otp then (CodeTaken, rows2)
              else (LinkCode otp, rows2 @
                [\<lparr>ot_code = otp, ot_user_id = user_id, ot_channel_type = channel, ot_created_at = now,
                  ot_expires_at = now + os_expiry_seconds st * otp_second, ot_used_at = None,
                  ot_failed_attempts = Some 0, ot_updated_at = Some now, ot_linked_sender = None\<rparr>]))"

definition update_code :: "string \<Rightarrow> (otp_row \<Rightarrow> otp_row) \<Rightarrow> otp_row list \<Rightarrow> otp_row list" where
  "update_code otp f rows = map (\<lambda>r. if ot_code r = otp then f r else r) rows"

definition attempts :: "otp_row \<Rightarrow> int" where
  "attempts r = (case ot_failed_attempts r of Some n \<Rightarrow> n | None \<Rightarrow> 0)"

definition cooldown_active :: "int \<Rightarrow> otp_row \<Rightarrow> bool" where
  "cooldown_active now r =
     (case ot_updated_at r of
        Some t \<Rightarrow> 0 < attempts r \<and> now - t < min (2 ^ nat (attempts r - 1)) 60 * otp_second
      | None \<Rightarrow> False)"

text \<open>The identity to link is the third component: user, provider and the provider's name for him.\<close>

definition verify_and_link ::
  "otp_settings \<Rightarrow> int \<Rightarrow> string \<Rightarrow> string \<Rightarrow> string \<Rightarrow> otp_row list
   \<Rightarrow> (bool \<times> string \<times> (string \<times> string \<times> string) option) \<times> otp_row list" where
  "verify_and_link st now otp channel sender rows =
     (case find (\<lambda>r. ot_code r = otp) rows of
        None \<Rightarrow> ((False, [], None), rows)
      | Some r \<Rightarrow>
          if ot_channel_type r \<noteq> channel then
            ((False, [], None),
             update_code otp (\<lambda>r. r\<lparr>ot_failed_attempts := Some (attempts r + 1), ot_updated_at := Some now\<rparr>) rows)
          else if ot_used_at r \<noteq> None then ((False, [], None), rows)
          else if os_max_verify_attempts st \<le> attempts r then
            ((False, ''locked'', None), update_code otp (\<lambda>r. r\<lparr>ot_used_at := Some now\<rparr>) rows)
          else if cooldown_active now r then ((False, ''rate_limited'', None), rows)
          else if ot_expires_at r < now then
            ((False, ''expired'', None), update_code otp (\<lambda>r. r\<lparr>ot_used_at := Some now\<rparr>) rows)
          else
            ((True, ot_user_id r, Some (ot_user_id r, channel, sender)),
             update_code otp (\<lambda>r. r\<lparr>ot_used_at := Some now, ot_linked_sender := Some sender\<rparr>) rows))"

section \<open>Sequences of requests\<close>

datatype otp_op =
    Generate int bool string string string
  | Verify int string string string

fun otp_step :: "otp_settings \<Rightarrow> otp_op \<Rightarrow> otp_row list \<Rightarrow> bool \<times> otp_row list" where
  "otp_step st (Generate now cleanup otp user channel) rows =
     (False, snd (generate_link_code st now cleanup otp user channel rows))"
| "otp_step st (Verify now otp channel sender) rows =
     (let (res, rows') = verify_and_link st now otp channel sender rows in (fst res, rows'))"

fun otp_code :: "otp_op \<Rightarrow> string" where
  "otp_code (Generate now cleanup otp user channel) = otp"
| "otp_code (Verify now otp channel sender) = otp"

definition draws_code :: "otp_op \<Rightarrow> string \<Rightarrow> bool" where
  "draws_code p k = (case p of Generate now cleanup otp user channel \<Rightarrow> otp = k | _ \<Rightarrow> False)"

text \<open>A code can still link an account: it is unused and not locked.\<close>

definition otp_live :: "otp_settings \<Rightarrow> string \<Rightarrow> otp_row list \<Rightarrow> bool" where
  "otp_live st k rows \<longleftrightarrow>
     list_ex (\<lambda>r. ot_code r = k \<and> ot_used_at r = None \<and> attempts r < os_max_verify_attempts st) rows"

lemma otp_live_update:
  assumes same: "\<And>r. ot_code (f r) = ot_code r"
    and keep: "\<And>r. ot_used_at (f r) = None \<Longrightarrow> attempts (f r) < os_max_verify_attempts st \<Longrightarrow>
      ot_used_at r = None \<and> attempts r < os_max_verify_attempts st"
    and live: "otp_live st k (update_code otp f rows)"
  shows "otp_live st k rows"
proof -
  obtain r where r: "r \<in> set rows" and ok: "ot_code (if ot_code r = otp then f r else r) = k"
    "ot_used_at (if ot_code r = otp then f r else r) = None"
    "attempts (if ot_code r = otp then f r else r) < os_max_verify_attempts st"
    using live by (auto simp: otp_live_def update_code_def list_ex_iff)
  have "ot_code r = k \<and> ot_used_at r = None \<and> attempts r < os_max_verify_attempts st"
    using ok same [of r] keep [of r] by (cases "ot_code r = otp") simp_all
  then show ?thesis using r by (auto simp: otp_live_def list_ex_iff)
qed

lemma otp_live_spend:
  assumes "\<And>r. ot_code (f r) = ot_code r" and "\<And>r. ot_used_at (f r) \<noteq> None"
  shows "\<not> otp_live st k (update_code k f rows)"
proof -
  have "\<not> (ot_code (if ot_code r = k then f r else r) = k \<and> ot_used_at (if ot_code r = k then f r else r) = None)" for r
    using assms [of r] by (cases "ot_code r = k") simp_all
  then show ?thesis unfolding otp_live_def update_code_def list_ex_iff set_map by blast
qed

lemma otp_live_filter: "otp_live st k (filter P rows) \<Longrightarrow> otp_live st k rows"
  by (auto simp: otp_live_def list_ex_iff)

lemma generate_live:
  "otp_live st k (snd (generate_link_code st now cleanup otp user channel rows)) \<Longrightarrow> otp = k \<or> otp_live st k rows"
  by (auto simp: generate_link_code_def Let_def otp_live_def list_ex_iff split: if_splits)

lemma verify_live:
  "otp_live st k (snd (verify_and_link st now otp channel sender rows)) \<Longrightarrow> otp_live st k rows"
proof (cases "find (\<lambda>r. ot_code r = otp) rows")
  case (Some r)
  have "otp_live st k (update_code otp (\<lambda>r. r\<lparr>ot_failed_attempts := Some (attempts r + 1), ot_updated_at := Some now\<rparr>) rows)
      \<Longrightarrow> otp_live st k rows"
    by (erule otp_live_update [rotated 2]) (simp_all add: attempts_def split: option.splits)
  moreover have "otp_live st k (update_code otp (\<lambda>r. r\<lparr>ot_used_at := Some now\<rparr>) rows) \<Longrightarrow> otp_live st k rows"
    "otp_live st k (update_code otp (\<lambda>r. r\<lparr>ot_used_at := Some now, ot_linked_sender := Some sender\<rparr>) rows) \<Longrightarrow> otp_live st k rows"
    by (erule otp_live_update [rotated 2]; simp)+
  ultimately show "otp_live st k (snd (verify_and_link st now otp channel sender rows)) \<Longrightarrow> otp_live st k rows"
    using Some by (simp add: verify_and_link_def split: if_splits)
qed (simp add: verify_and_link_def)

lemma verify_links:
  assumes "fst (fst (verify_and_link st now otp channel sender rows))"
  shows "otp_live st otp rows" "\<not> otp_live st otp (snd (verify_and_link st now otp channel sender rows))"
proof -
  obtain r where r: "find (\<lambda>r. ot_code r = otp) rows = Some r"
    and ok: "ot_channel_type r = channel" "ot_used_at r = None" "\<not> os_max_verify_attempts st \<le> attempts r"
      "\<not> cooldown_active now r" "\<not> ot_expires_at r < now"
    using assms by (auto simp: verify_and_link_def split: option.splits if_splits)
  then show "otp_live st otp rows" by (auto simp: otp_live_def list_ex_iff find_Some_iff)
  show "\<not> otp_live st otp (snd (verify_and_link st now otp channel sender rows))"
    using r ok by (simp add: verify_and_link_def otp_live_spend)
qed

interpretation otp: single_use "otp_step st" otp_code "otp_live st" draws_code
proof
  fix p :: otp_op and s k
  show "\<not> otp_live st k s \<Longrightarrow> \<not> draws_code p k \<Longrightarrow> \<not> otp_live st k (snd (otp_step st p s))"
    by (cases p) (auto simp: draws_code_def split_beta Let_def dest: generate_live verify_live)
  assume "fst (otp_step st p s)"
  then show "otp_live st (otp_code p) s" "\<not> otp_live st (otp_code p) (snd (otp_step st p s))"
    by (cases p; simp add: verify_links split_beta Let_def)+
qed

fun generate_all ::
  "otp_settings \<Rightarrow> string \<Rightarrow> string \<Rightarrow> (int \<times> bool \<times> string) list \<Rightarrow> otp_row list \<Rightarrow> generate_result list" where
  "generate_all st user channel [] rows = []"
| "generate_all st user channel ((now, cleanup, otp) # ds) rows =
     (let (res, rows') = generate_link_code st now cleanup otp user channel rows
      in res # generate_all st user channel ds rows')"

lemma generate_one_channel:
  assumes "list_all (\<lambda>r. ot_user_id r = user \<and> ot_channel_type r = channel \<and> ot_used_at r = None) rows"
    and "length rows \<le> 1" and "2 \<le> os_max_generate_per_window st"
  obtains rows' where "generate_link_code st now cleanup otp user channel rows = (LinkCode otp, rows')"
    "list_all (\<lambda>r. ot_user_id r = user \<and> ot_channel_type r = channel \<and> ot_used_at r = None) rows'" "length rows' \<le> 1"
proof -
  let ?rows1 = "if cleanup then filter (\<lambda>r. \<not> ot_expires_at r < now) rows else rows"
  have all: "filter (\<lambda>r. \<not> (ot_user_id r = user \<and> ot_channel_type r = channel \<and> ot_used_at r = None)) ?rows1 = []"
    using assms(1) by (auto simp: list_all_iff filter_empty_conv)
  have len: "length ?rows1 \<le> 1" 
    using order_trans [OF length_filter_le assms(2)] assms(2) by simp
  have "\<not> os_max_generate_per_window st \<le> int (length (filter P ?rows1))" for P
    using length_filter_le [of P ?rows1] len assms(3) by linarith
  then show thesis
    using that unfolding generate_link_code_def Let_def all by simp
qed

section \<open>Properties\<close>

text \<open>A linking code links at most one account, and a locked code links none: over any sequence of
  generated codes and verifications, a code succeeds at most once as long as it is not drawn again, and
  not at all once it has been used or has collected the allowed number of failures.\<close>

theorem code_links_at_most_once:
  assumes "list_all (\<lambda>p. \<not> draws_code p k) ps"
  shows "redemptions otp_code k (fst (run_operations (otp_step st) ps rows))
    \<le> (if otp_live st k rows then 1 else 0)"
  using otp.redeemed_at_most_once [of ps k st rows] otp.spent_never_redeemed [of st k rows ps] assms
  by (auto simp: list_all_iff)

text \<open>Guessing is not what the lock-out counts: a guess that matches no code leaves no trace, so after any
  number of them the table is what it was and the right code still links; failures are only counted on
  the row that was guessed right, for the wrong channel.\<close>

theorem guesses_leave_no_trace:
  assumes "list_all (\<lambda>p. case p of Verify now otp channel sender \<Rightarrow> \<not> list_ex (\<lambda>r. ot_code r = otp) rows | _ \<Rightarrow> False) ps"
  shows "snd (run_operations (otp_step st) ps rows) = rows"
proof -
  have one: "snd (otp_step st p rows) = rows"
    if "case p of Verify now otp channel sender \<Rightarrow> \<not> list_ex (\<lambda>r. ot_code r = otp) rows | _ \<Rightarrow> False" for p
  proof (cases p)
    case (Verify now otp channel sender)
    then have "find (\<lambda>r. ot_code r = otp) rows = None" using that by (auto simp: find_None_iff list_ex_iff)
    then show ?thesis by (simp add: Verify verify_and_link_def)
  qed (use that in simp)
  show ?thesis using assms
    by (induction ps) (simp_all add: run_operations_Cons one del: run_operations.simps(2))
qed

text \<open>The limit on generated codes does not bite: asking again for the same account deletes the unused code
  before the next count, so with a limit of two or more any number of codes is handed out in a window.\<close>

theorem generate_limit_never_reached:
  assumes "2 \<le> os_max_generate_per_window st"
  shows "generate_all st user channel draws [] = map (\<lambda>(now, cleanup, otp). LinkCode otp) draws"
proof -
  have "list_all (\<lambda>r. ot_user_id r = user \<and> ot_channel_type r = channel \<and> ot_used_at r = None) rows \<Longrightarrow> length rows \<le> 1 \<Longrightarrow>
      generate_all st user channel draws rows = map (\<lambda>(now, cleanup, otp). LinkCode otp) draws" for rows
  proof (induction draws arbitrary: rows)
    case (Cons d draws)
    obtain now cleanup otp where d: "d = (now, cleanup, otp)" by (cases d)
    obtain rows' where "generate_link_code st now cleanup otp user channel rows = (LinkCode otp, rows')"
      "list_all (\<lambda>r. ot_user_id r = user \<and> ot_channel_type r = channel \<and> ot_used_at r = None) rows'" "length rows' \<le> 1"
      by (rule generate_one_channel [OF Cons.prems assms])
    then show ?case using Cons.IH d by simp
  qed simp
  then show ?thesis by simp
qed

definition sample_otp_settings :: otp_settings where
  "sample_otp_settings = \<lparr>os_expiry_seconds = 300, os_generate_window_minutes = 15, os_max_generate_per_window = 5, os_max_verify_attempts = 5\<rparr>"

definition sample_otp_row :: otp_row where
  "sample_otp_row = \<lparr>ot_code = ''123456'', ot_user_id = ''u'', ot_channel_type = ''zalo'', ot_created_at = 0,
     ot_expires_at = 300000000, ot_used_at = None, ot_failed_attempts = Some 0, ot_updated_at = Some 0, ot_linked_sender = None\<rparr>"

theorem code_links_at_most_once_witness:
  "redemptions otp_code ''123456'' (fst (run_operations (otp_step sample_otp_settings)
     [Verify 1 ''123456'' ''zalo'' ''a'', Verify 2 ''123456'' ''zalo'' ''b''] [sample_otp_row])) \<le> 1"
  using code_links_at_most_once [of "''123456''" "[Verify 1 ''123456'' ''zalo'' ''a'', Verify 2 ''123456'' ''zalo'' ''b'']"
      sample_otp_settings "[sample_otp_row]"]
  by (simp add: draws_code_def split: if_splits)

theorem guesses_leave_no_trace_witness:
  "snd (run_operations (otp_step sample_otp_settings) [Verify 1 ''000000'' ''zalo'' ''a''] [sample_otp_row]) = [sample_otp_row]"
  by (rule guesses_leave_no_trace) (simp add: sample_otp_row_def)

theorem generate_limit_never_reached_witness:
  "generate_all sample_otp_settings ''u'' ''zalo'' (replicate 9 (0, False, ''123456'')) [] = replicate 9 (LinkCode ''123456'')"
  by (subst generate_limit_never_reached) (simp_all add: sample_otp_settings_def)

end
