(* ===== verification/Callback_State.thy ===== *)
theory Callback_State
  imports Payload_Sanitizer Json_Text
begin

text \<open>
  \<open>app/engine/wiii_connect/callback_state.py\<close>: the signed state that travels through a provider's OAuth
  redirect. Base64 and the JSON text are written out; HMAC-SHA256, the JSON parser and \<open>str\<close> of a value that is no
  text are functions of \<open>state_lib\<close>. Attaching the state to a URL is in \<open>Connect_Api\<close>.
\<close>

section \<open>URL-safe base64 without padding\<close>

definition sextet_char :: "nat \<Rightarrow> char" where
  "sextet_char n = char_of
     (if n < 26 then 65 + n else if n < 52 then 71 + n else if n < 62 then n - 4 else if n = 62 then 45 else (95::nat))"

definition char_sextet :: "char \<Rightarrow> nat option" where
  "char_sextet c =
     (if is_upper c then Some (code c - 65) else if is_lower c then Some (code c - 71)
      else if is_digit c then Some (code c + 4) else if code c = 45 then Some 62
      else if code c = 95 then Some 63 else None)"

fun to_sextets :: "nat list \<Rightarrow> nat list" where
  "to_sextets [] = []"
| "to_sextets [a] = [a div 4, (a mod 4) * 16]"
| "to_sextets [a, b] = [a div 4, (a mod 4) * 16 + b div 16, (b mod 16) * 4]"
| "to_sextets (a # b # c # xs) =
     a div 4 # ((a mod 4) * 16 + b div 16) # ((b mod 16) * 4 + c div 64) # (c mod 64) # to_sextets xs"

fun from_sextets :: "nat list \<Rightarrow> nat list option" where
  "from_sextets [] = Some []"
| "from_sextets [x] = None"
| "from_sextets [x, y] = Some [x * 4 + y div 16]"
| "from_sextets [x, y, z] = Some [x * 4 + y div 16, (y mod 16) * 16 + z div 4]"
| "from_sextets (x # y # z # w # xs) =
     map_option (\<lambda>bs. (x * 4 + y div 16) # ((y mod 16) * 16 + z div 4) # ((z mod 4) * 64 + w) # bs) (from_sextets xs)"

definition b64encode :: "string \<Rightarrow> string" where
  "b64encode value = map sextet_char (to_sextets (map code value))"

text \<open>
  Text outside the alphabet is left to \<open>other\<close>: the library skips such characters. A single
  left-over character is the decoding error.
\<close>

definition b64decode :: "(string \<Rightarrow> string option) \<Rightarrow> string \<Rightarrow> string option" where
  "b64decode other value =
     (if list_all (\<lambda>c. char_sextet c \<noteq> None) value
      then map_option (map char_of) (from_sextets (map (the \<circ> char_sextet) value))
      else other value)"

lemma sextet_round:
  assumes "n < 64"
  shows "char_sextet (sextet_char n) = Some n" "sextet_char n \<noteq> CHR ''.''" "\<not> is_space (sextet_char n)"
proof -
  have c: "code (sextet_char n) =
      (if n < 26 then 65 + n else if n < 52 then 71 + n else if n < 62 then n - 4 else if n = 62 then 45 else 95)"
    unfolding sextet_char_def by (rule code_char_of) (use assms in auto)
  consider "n < 26" | "26 \<le> n" "n < 52" | "52 \<le> n" "n < 62" | "n = 62" | "n = 63" using assms by linarith
  then show "char_sextet (sextet_char n) = Some n"
    using c by cases (auto simp: char_sextet_def is_upper_def is_lower_def is_digit_def)
  have "code (CHR ''.'') = 46" by code_simp
  then have "code (sextet_char n) \<noteq> code (CHR ''.'')" using assms c by auto
  then show "sextet_char n \<noteq> CHR ''.''" by metis
  show "\<not> is_space (sextet_char n)" using assms c by (auto simp: is_space_def)
qed

lemma to_sextets_bound: "list_all (\<lambda>b. b < 256) bs \<Longrightarrow> list_all (\<lambda>n. n < 64) (to_sextets bs)"
  by (induction bs rule: to_sextets.induct) auto

lemma from_to_sextets: "list_all (\<lambda>b. b < 256) bs \<Longrightarrow> from_sextets (to_sextets bs) = Some bs"
  by (induction bs rule: to_sextets.induct) auto

lemma code_bound: "code c < 256"
  by (simp add: code_def)

lemma b64decode_encode [simp]: "b64decode other (b64encode s) = Some s"
proof -
  let ?ns = "to_sextets (map code s)"
  have bytes: "list_all (\<lambda>b. b < 256) (map code s)" by (simp add: list_all_iff code_bound)
  have ns: "list_all (\<lambda>n. n < 64) ?ns" by (rule to_sextets_bound [OF bytes])
  then have "map (the \<circ> char_sextet \<circ> sextet_char) ?ns = ?ns"
    by (intro map_idI) (simp add: list_all_iff sextet_round)
  moreover have "list_all (\<lambda>c. char_sextet c \<noteq> None) (b64encode s)"
    using ns by (auto simp: b64encode_def list_all_iff sextet_round)
  moreover have "map (char_of \<circ> code) s = s" by (simp add: code_def comp_def)
  ultimately show ?thesis
    using from_to_sextets [OF bytes] by (simp add: b64decode_def) (simp add: b64encode_def)
qed

lemma b64encode_inject: "b64encode s = b64encode t \<longleftrightarrow> s = t"
  by (metis b64decode_encode option.inject)

lemma b64encode_chars: "c \<in> set (b64encode s) \<Longrightarrow> c \<noteq> CHR ''.'' \<and> \<not> is_space c"
  using to_sextets_bound [of "map code s"] sextet_round
  by (auto simp: b64encode_def list_all_iff code_bound)

section \<open>The state\<close>

record state_lib =
  sl_hmac :: "string \<Rightarrow> string \<Rightarrow> string"
  sl_json_loads :: "string \<Rightarrow> (string, pyval) dict option"
  sl_b64_other :: "string \<Rightarrow> string option"
  sl_str :: "pyval \<Rightarrow> string"

record callback_claims =
  cc_valid :: bool
  cc_reason :: string
  cc_provider_slug :: string
  cc_organization_id :: string
  cc_user_id :: string
  cc_issued_at :: int

definition max_state_age_seconds :: int where "max_state_age_seconds = 30 * 60"

definition callback_normalize_slug :: "string \<Rightarrow> string" where
  "callback_normalize_slug value = dash_to_underscore (py_lower (py_strip value))"

fun nat_digits :: "nat \<Rightarrow> string" where
  "nat_digits n = (if n < 10 then [hex_digit n] else nat_digits (n div 10) @ [hex_digit (n mod 10)])"

declare nat_digits.simps [simp del]

definition int_text :: "int \<Rightarrow> string" where
  "int_text i = (if i < 0 then CHR ''-'' # nat_digits (nat (- i)) else nat_digits (nat i))"

record state_payload =
  sp_provider :: string
  sp_organization :: string
  sp_user :: string
  sp_issued_at :: int
  sp_nonce :: string

text \<open>\<open>json.dumps(payload, sort_keys=True)\<close> with compact separators.\<close>

definition payload_text :: "state_payload \<Rightarrow> string" where
  "payload_text p = CHR ''{'' # py_join '',''
     [json_string ''iat'' @ '':'' @ int_text (sp_issued_at p), json_string ''n'' @ '':'' @ json_string (sp_nonce p),
      json_string ''o'' @ '':'' @ json_string (sp_organization p), json_string ''p'' @ '':'' @ json_string (sp_provider p),
      json_string ''u'' @ '':'' @ json_string (sp_user p), json_string ''v'' @ '':'' @ int_text 1] @ ''}''"

definition payload_dict :: "state_payload \<Rightarrow> (string, pyval) dict" where
  "payload_dict p = [(''iat'', PInt (sp_issued_at p)), (''n'', PStr (sp_nonce p)), (''o'', PStr (sp_organization p)),
     (''p'', PStr (sp_provider p)), (''u'', PStr (sp_user p)), (''v'', PInt 1)]"

definition callback_sign :: "state_lib \<Rightarrow> string \<Rightarrow> string \<Rightarrow> string" where
  "callback_sign lib payload_b64 secret = b64encode (sl_hmac lib secret payload_b64)"

definition callback_payload :: "string \<Rightarrow> string \<Rightarrow> string \<Rightarrow> int \<Rightarrow> string \<Rightarrow> state_payload" where
  "callback_payload provider_slug organization_id user_id issued_at nonce =
     \<lparr>sp_provider = callback_normalize_slug provider_slug, sp_organization = py_strip organization_id,
      sp_user = py_strip user_id, sp_issued_at = issued_at, sp_nonce = nonce\<rparr>"

definition build_wiii_connect_callback_state ::
  "state_lib \<Rightarrow> string \<Rightarrow> string \<Rightarrow> string \<Rightarrow> string \<Rightarrow> int \<Rightarrow> string \<Rightarrow> string" where
  "build_wiii_connect_callback_state lib provider_slug organization_id user_id secret issued_at nonce =
     (let p = callback_payload provider_slug organization_id user_id issued_at nonce
      in if secret = [] then []
         else if sp_provider p = [] \<or> sp_user p = [] then []
         else let payload_b64 = b64encode (payload_text p)
              in payload_b64 @ ''.'' @ callback_sign lib payload_b64 secret)"

definition rejected_claims :: "string \<Rightarrow> string \<Rightarrow> int \<Rightarrow> callback_claims" where
  "rejected_claims reason provider issued_at =
     \<lparr>cc_valid = False, cc_reason = reason, cc_provider_slug = provider, cc_organization_id = [],
      cc_user_id = [], cc_issued_at = issued_at\<rparr>"

definition payload_get :: "(string, pyval) dict \<Rightarrow> string \<Rightarrow> pyval" where
  "payload_get d k = (case dict_get d k of Some v \<Rightarrow> v | None \<Rightarrow> PNone)"

definition callback_safe_int :: "pyval \<Rightarrow> int" where
  "callback_safe_int v = (case py_int v of Some i \<Rightarrow> i | None \<Rightarrow> 0)"

definition judge_payload :: "state_lib \<Rightarrow> string \<Rightarrow> int \<Rightarrow> int \<Rightarrow> (string, pyval) dict \<Rightarrow> callback_claims" where
  "judge_payload lib provider_slug now max_age payload =
     (let provider = callback_normalize_slug (py_text (sl_str lib) (payload_get payload ''p''));
          issued_at = callback_safe_int (payload_get payload ''iat'');
          user_id = py_strip (py_text (sl_str lib) (payload_get payload ''u''))
      in if provider \<noteq> callback_normalize_slug provider_slug then rejected_claims ''state_provider_mismatch'' provider 0
         else if issued_at = 0 \<or> now + 60 < issued_at then rejected_claims ''invalid_state_time'' provider 0
         else if max_age < now - issued_at then rejected_claims ''state_expired'' provider issued_at
         else if user_id = [] then rejected_claims ''state_user_missing'' provider issued_at
         else \<lparr>cc_valid = True, cc_reason = ''valid'', cc_provider_slug = provider,
               cc_organization_id = py_strip (py_text (sl_str lib) (payload_get payload ''o'')),
               cc_user_id = user_id, cc_issued_at = issued_at\<rparr>)"

definition verify_wiii_connect_callback_state ::
  "state_lib \<Rightarrow> string option \<Rightarrow> string \<Rightarrow> string \<Rightarrow> int \<Rightarrow> int \<Rightarrow> callback_claims" where
  "verify_wiii_connect_callback_state lib state provider_slug secret now max_age =
     (let text = py_strip (str_or_empty state);
          payload_b64 = takeWhile (\<lambda>c. c \<noteq> CHR ''.'') text;
          rest = dropWhile (\<lambda>c. c \<noteq> CHR ''.'') text
      in if text = [] then rejected_claims ''missing_state'' [] 0
         else if secret = [] then rejected_claims ''state_secret_missing'' [] 0
         else case rest of
             [] \<Rightarrow> rejected_claims ''invalid_state_format'' [] 0
           | _ # signature \<Rightarrow>
               if signature \<noteq> callback_sign lib payload_b64 secret
               then rejected_claims ''invalid_state_signature'' [] 0
               else case Option.bind (b64decode (sl_b64_other lib) payload_b64) (sl_json_loads lib) of
                   None \<Rightarrow> rejected_claims ''invalid_state_payload'' [] 0
                 | Some payload \<Rightarrow> judge_payload lib provider_slug now max_age payload)"

definition to_audit_metadata :: "callback_claims \<Rightarrow> (string, pyval) dict" where
  "to_audit_metadata c =
     [(''version'', PStr ''wiii_connect_callback_state.v1''), (''valid'', PBool (cc_valid c)),
      (''reason'', PStr (cc_reason c)), (''provider_slug'', PStr (cc_provider_slug c)),
      (''organization_id_present'', PBool (cc_organization_id c \<noteq> [])),
      (''user_id_present'', PBool (cc_user_id c \<noteq> [])), (''issued_at_present'', PBool (cc_issued_at c \<noteq> 0))]"

section \<open>Properties\<close>

lemma split_state:
  "takeWhile (\<lambda>c. c \<noteq> CHR ''.'') (b64encode s @ ''.'' @ t) = b64encode s"
  "dropWhile (\<lambda>c. c \<noteq> CHR ''.'') (b64encode s @ ''.'' @ t) = CHR ''.'' # t"
  using b64encode_chars [of _ s] by (simp_all add: takeWhile_append2 dropWhile_append2)

lemma strip_state: "py_strip (b64encode s @ ''.'' @ b64encode t) = b64encode s @ ''.'' @ b64encode t"
proof (rule strip_nonspace, rule ballI)
  have "\<not> is_space (CHR ''.'')" by code_simp
  then show "\<not> is_space c" if "c \<in> set (b64encode s @ ''.'' @ b64encode t)" for c
    using that b64encode_chars [of c s] b64encode_chars [of c t] by auto
qed

lemma verify_signed:
  assumes "secret \<noteq> []"
  shows "verify_wiii_connect_callback_state lib
     (Some (b64encode s @ ''.'' @ b64encode sig)) provider_slug secret now max_age =
     (if sig \<noteq> sl_hmac lib secret (b64encode s) then rejected_claims ''invalid_state_signature'' [] 0
      else case sl_json_loads lib s of None \<Rightarrow> rejected_claims ''invalid_state_payload'' [] 0
         | Some payload \<Rightarrow> judge_payload lib provider_slug now max_age payload)"
  using assms
  by (simp add: verify_wiii_connect_callback_state_def str_or_empty_def strip_state callback_sign_def
      b64encode_inject Let_def split_state del: append_Cons)

lemma normalize_slug_stripped: "stripped (callback_normalize_slug s)"
  by (simp add: callback_normalize_slug_def stripped_strip)

lemma normalize_slug_idem [simp]: "callback_normalize_slug (callback_normalize_slug s) = callback_normalize_slug s"
proof -
  have "py_strip (callback_normalize_slug s) = callback_normalize_slug s"
    by (rule strip_stripped [OF normalize_slug_stripped])
  then show ?thesis by (simp add: callback_normalize_slug_def dash_lower_idem)
qed


text \<open>Only signed, fresh states are accepted: whatever text comes back in the redirect, if it is accepted then
  what follows its first dot is the signature of what precedes it under the secret, it names the provider
  of the callback and a user, and it is neither older than the limit nor more than a minute ahead.\<close>

theorem accepted_state_is_signed:
  assumes "cc_valid (verify_wiii_connect_callback_state lib state slug secret now max_age)"
  shows "let text = py_strip (str_or_empty state);
             signed = takeWhile (\<lambda>c. c \<noteq> CHR ''.'') text;
             claims = verify_wiii_connect_callback_state lib state slug secret now max_age
         in text = signed @ ''.'' @ callback_sign lib signed secret \<and> secret \<noteq> []
          \<and> cc_provider_slug claims = callback_normalize_slug slug \<and> cc_user_id claims \<noteq> []
          \<and> now - cc_issued_at claims \<le> max_age \<and> cc_issued_at claims \<le> now + 60"
proof -
  let ?text = "py_strip (str_or_empty state)"
  let ?signed = "takeWhile (\<lambda>c. c \<noteq> CHR ''.'') ?text" and ?rest = "dropWhile (\<lambda>c. c \<noteq> CHR ''.'') ?text"
  have judge: "cc_valid (judge_payload lib slug now max_age d) \<Longrightarrow>
      cc_provider_slug (judge_payload lib slug now max_age d) = callback_normalize_slug slug
      \<and> cc_user_id (judge_payload lib slug now max_age d) \<noteq> []
      \<and> now - cc_issued_at (judge_payload lib slug now max_age d) \<le> max_age
      \<and> cc_issued_at (judge_payload lib slug now max_age d) \<le> now + 60" for d
    by (auto simp: judge_payload_def rejected_claims_def Let_def split: if_splits)
  obtain c signature d where parts: "secret \<noteq> []" "?rest = c # signature" "signature = callback_sign lib ?signed secret"
    "verify_wiii_connect_callback_state lib state slug secret now max_age = judge_payload lib slug now max_age d"
    using assms
    by (auto simp: verify_wiii_connect_callback_state_def rejected_claims_def Let_def
        split: if_splits list.splits option.splits)
  have "c = CHR ''.''" using hd_dropWhile [of "\<lambda>c. c \<noteq> CHR ''.''" ?text] parts(2) by simp
  then have "?text = ?signed @ ''.'' @ callback_sign lib ?signed secret"
    using takeWhile_dropWhile_id [of "\<lambda>c. c \<noteq> CHR ''.''" ?text] parts(2,3) by simp
  then show ?thesis using judge [of d] assms parts(1,4) by (simp add: Let_def)
qed

definition sample_state_lib :: state_lib where
  "sample_state_lib = \<lparr>sl_hmac = (\<lambda>k s. rev (k @ s)),
     sl_json_loads = (\<lambda>_. Some (payload_dict (callback_payload ''Gmail'' ''org'' ''ann'' 100 ''n''))),
     sl_b64_other = (\<lambda>_. None), sl_str = (\<lambda>_. [])\<rparr>"


theorem accepted_state_is_signed_witness:
  "cc_provider_slug (verify_wiii_connect_callback_state sample_state_lib
     (Some (build_wiii_connect_callback_state sample_state_lib ''Gmail'' ''org'' ''ann'' ''key'' 100 ''n'')) ''gmail'' ''key'' 120
     1800) = ''gmail''"
proof -
  let ?v = "verify_wiii_connect_callback_state sample_state_lib
     (Some (build_wiii_connect_callback_state sample_state_lib ''Gmail'' ''org'' ''ann'' ''key'' 100 ''n'')) ''gmail'' ''key'' 120 1800"
  have norms: "callback_normalize_slug ''Gmail'' = ''gmail''" "callback_normalize_slug ''gmail'' = ''gmail''"
    "py_strip ''ann'' = ''ann''" by code_simp+
  let ?p = "callback_payload ''Gmail'' ''org'' ''ann'' 100 ''n''"
  have state: "build_wiii_connect_callback_state sample_state_lib ''Gmail'' ''org'' ''ann'' ''key'' 100 ''n''
    = b64encode (payload_text ?p) @ ''.'' @ b64encode (sl_hmac sample_state_lib ''key'' (b64encode (payload_text ?p)))"
    using norms by (simp add: build_wiii_connect_callback_state_def callback_sign_def Let_def)
      (simp add: callback_payload_def)
  have loads: "sl_json_loads sample_state_lib s = Some (payload_dict ?p)" for s by (simp add: sample_state_lib_def)
  have "cc_valid ?v"
    using norms unfolding state
    by (subst verify_signed) (simp_all add: loads Let_def judge_payload_def payload_dict_def payload_get_def
        callback_safe_int_def py_text_def callback_payload_def)
  from accepted_state_is_signed [OF this] show ?thesis by (simp add: Let_def norms)
qed

end
