(* ===== verification/Magic_Link.thy ===== *)
theory Magic_Link
  imports Single_Use
begin

text \<open>
  \<open>app/auth/magic_link_session_store.py\<close> and the helpers of \<open>magic_link_service.py\<close>: how the tokens of a magic link
  reach the web socket that waits for them, in one process and across workers through Valkey. A socket is
  a number, a payload its JSON text; the broker is its keys and its subscriptions, and its commands succeed.
  Choosing the store at start-up, closing it and logging are not modelled.
\<close>

section \<open>Tokens\<close>

definition is_token_expired :: "int \<Rightarrow> int \<Rightarrow> bool" where
  "is_token_expired now expires_at \<longleftrightarrow> expires_at \<le> now"

definition is_token_used :: "int option \<Rightarrow> bool" where
  "is_token_used used_at \<longleftrightarrow> used_at \<noteq> None"

text \<open>The clean-up of expired rows, here their expiry times in seconds.\<close>

definition cleanup_expired_tokens :: "int \<Rightarrow> int \<Rightarrow> int list \<Rightarrow> int \<times> int list" where
  "cleanup_expired_tokens now grace_period_hours rows =
     (let grace = (if grace_period_hours < 0 then 0 else grace_period_hours);
          old = (\<lambda>expires_at. expires_at < now - grace * 3600)
      in (int (length (filter old rows)), filter (\<lambda>e. \<not> old e) rows))"

section \<open>The store of one process\<close>

type_synonym socket = nat

record socket_entry =
  se_websocket :: socket
  se_opened_at :: pyfloat

type_synonym session_map = "(string, socket_entry) dict"

definition mem_register :: "pyfloat \<Rightarrow> string \<Rightarrow> socket \<Rightarrow> session_map \<Rightarrow> session_map" where
  "mem_register now sid ws S = dict_set sid \<lparr>se_websocket = ws, se_opened_at = now\<rparr> S"

text \<open>The second component is the message that is sent, the flag says whether the socket takes it.\<close>

definition mem_push_tokens ::
  "bool \<Rightarrow> string \<Rightarrow> string \<Rightarrow> session_map \<Rightarrow> bool \<times> (socket \<times> string) list \<times> session_map" where
  "mem_push_tokens send_ok sid payload S =
     (case dict_get S sid of
        None \<Rightarrow> (False, [], S)
      | Some e \<Rightarrow> if send_ok then (True, [(se_websocket e, payload)], dict_del sid S) else (False, [], dict_del sid S))"

definition mem_remove :: "string \<Rightarrow> session_map \<Rightarrow> session_map" where
  "mem_remove sid S = dict_del sid S"

definition mem_reap_stale :: "pyfloat \<Rightarrow> pyfloat \<Rightarrow> session_map \<Rightarrow> int \<times> session_map" where
  "mem_reap_stale now max_age S =
     (if max_age \<le> 0 then (0, S)
      else let stale = (\<lambda>(sid, e). max_age < now - se_opened_at e)
           in (int (length (filter stale S)), filter (\<lambda>x. \<not> stale x) S))"

datatype mem_op =
    MemRegister pyfloat string socket
  | MemPush bool string string
  | MemRemove string
  | MemReap pyfloat pyfloat

fun mem_session_step :: "mem_op \<Rightarrow> session_map \<Rightarrow> bool \<times> session_map" where
  "mem_session_step (MemRegister now sid ws) S = (False, mem_register now sid ws S)"
| "mem_session_step (MemPush send_ok sid payload) S =
     (let (ok, sent, S') = mem_push_tokens send_ok sid payload S in (ok, S'))"
| "mem_session_step (MemRemove sid) S = (False, mem_remove sid S)"
| "mem_session_step (MemReap now max_age) S = (False, snd (mem_reap_stale now max_age S))"

fun mem_target :: "mem_op \<Rightarrow> string" where
  "mem_target (MemRegister now sid ws) = sid"
| "mem_target (MemPush send_ok sid payload) = sid"
| "mem_target (MemRemove sid) = sid"
| "mem_target (MemReap now max_age) = []"

definition registers :: "mem_op \<Rightarrow> string \<Rightarrow> bool" where
  "registers p sid = (case p of MemRegister now s ws \<Rightarrow> s = sid | _ \<Rightarrow> False)"

definition waiting :: "string \<Rightarrow> session_map \<Rightarrow> bool" where
  "waiting sid S \<longleftrightarrow> dict_get S sid \<noteq> None"

lemma waiting_del: "waiting sid (dict_del sid' S) \<longleftrightarrow> sid \<noteq> sid' \<and> waiting sid S"
  by (simp add: waiting_def delete_conv')

lemma waiting_filter: "waiting sid (filter P S) \<Longrightarrow> waiting sid S"
  by (auto simp: waiting_def map_of_eq_None_iff)

interpretation socket_wait: single_use mem_session_step mem_target waiting registers
proof
  fix p :: mem_op and s :: session_map and k
  show "\<not> waiting k s \<Longrightarrow> \<not> registers p k \<Longrightarrow> \<not> waiting k (snd (mem_session_step p s))"
    by (cases p) (auto simp: registers_def mem_register_def mem_push_tokens_def mem_remove_def mem_reap_stale_def
        waiting_del waiting_def [of _ "dict_set _ _ _"] waiting_def [of k s] Let_def
        dest!: waiting_filter split: option.splits if_splits)
  assume "fst (mem_session_step p s)"
  then show "waiting (mem_target p) s" "\<not> waiting (mem_target p) (snd (mem_session_step p s))"
    by (cases p; auto simp: mem_push_tokens_def waiting_def delete_conv' split: option.splits if_splits)+
qed

section \<open>The store across workers\<close>

text \<open>
  A subscriber task subscribes, checks the cached key, then listens; \<open>Subscribed\<close> and \<open>Listening\<close> carry the
  messages the broker has queued for it.
\<close>

datatype task_phase = Starting | Subscribed "string list" | Listening "string list" | Finished

record push_task =
  pt_worker :: nat
  pt_session :: string
  pt_phase :: task_phase

record valkey_system =
  vk_sessions :: "nat \<Rightarrow> session_map"
  vk_task_of :: "nat \<Rightarrow> (string, nat) dict"
  vk_tasks :: "push_task list"
  vk_keys :: "(string, string) dict"
  vk_publishing :: "(string \<times> string) list"
  vk_delivered :: "(socket \<times> string) list"

definition empty_valkey :: valkey_system where
  "empty_valkey = \<lparr>vk_sessions = (\<lambda>_. []), vk_task_of = (\<lambda>_. []), vk_tasks = [], vk_keys = [],
     vk_publishing = [], vk_delivered = []\<rparr>"

definition set_phase :: "nat \<Rightarrow> task_phase \<Rightarrow> valkey_system \<Rightarrow> valkey_system" where
  "set_phase i ph S = S\<lparr>vk_tasks := (vk_tasks S)[i := (vk_tasks S ! i)\<lparr>pt_phase := ph\<rparr>]\<rparr>"

definition vk_register :: "nat \<Rightarrow> pyfloat \<Rightarrow> string \<Rightarrow> socket \<Rightarrow> valkey_system \<Rightarrow> valkey_system" where
  "vk_register w now sid ws S =
     S\<lparr>vk_sessions := (vk_sessions S)(w := dict_set sid \<lparr>se_websocket = ws, se_opened_at = now\<rparr> (vk_sessions S w)),
       vk_task_of := (vk_task_of S)(w := dict_set sid (length (vk_tasks S)) (vk_task_of S w)),
       vk_tasks := vk_tasks S @ [\<lparr>pt_worker = w, pt_session = sid, pt_phase = Starting\<rparr>]\<rparr>"

text \<open>Drop the task of a session: \<open>task.cancel()\<close> on one that is done changes nothing.\<close>

definition cancel_task :: "nat \<Rightarrow> string \<Rightarrow> valkey_system \<Rightarrow> valkey_system" where
  "cancel_task w sid S =
     (case dict_get (vk_task_of S w) sid of
        None \<Rightarrow> S
      | Some i \<Rightarrow> set_phase i Finished (S\<lparr>vk_task_of := (vk_task_of S)(w := dict_del sid (vk_task_of S w))\<rparr>))"

text \<open>Pop the session of a worker and send it the payload.\<close>

definition vk_deliver :: "bool \<Rightarrow> nat \<Rightarrow> string \<Rightarrow> string \<Rightarrow> valkey_system \<Rightarrow> valkey_system" where
  "vk_deliver send_ok w sid body S =
     (case dict_get (vk_sessions S w) sid of
        None \<Rightarrow> S
      | Some e \<Rightarrow>
          S\<lparr>vk_sessions := (vk_sessions S)(w := dict_del sid (vk_sessions S w)),
            vk_delivered := vk_delivered S @ (if send_ok then [(se_websocket e, body)] else [])\<rparr>)"

text \<open>\<open>push_tokens\<close>: the local delivery, or the key is set and the message is still to be published.\<close>

definition vk_push :: "bool \<Rightarrow> nat \<Rightarrow> string \<Rightarrow> string \<Rightarrow> valkey_system \<Rightarrow> valkey_system" where
  "vk_push send_ok w sid body S =
     (if dict_get (vk_sessions S w) sid \<noteq> None
      then cancel_task w sid (vk_deliver send_ok w sid body S)
      else S\<lparr>vk_keys := dict_set sid body (vk_keys S), vk_publishing := vk_publishing S @ [(sid, body)]\<rparr>)"

fun queue_message :: "string \<Rightarrow> task_phase \<Rightarrow> task_phase" where
  "queue_message body (Subscribed ms) = Subscribed (ms @ [body])"
| "queue_message body (Listening ms) = Listening (ms @ [body])"
| "queue_message body ph = ph"

definition vk_publish :: "string \<times> string \<Rightarrow> valkey_system \<Rightarrow> valkey_system" where
  "vk_publish m S =
     S\<lparr>vk_publishing := remove1 m (vk_publishing S),
       vk_tasks := map (\<lambda>t. if pt_session t = fst m then t\<lparr>pt_phase := queue_message (snd m) (pt_phase t)\<rparr> else t)
         (vk_tasks S)\<rparr>"

text \<open>One await of a subscriber task.\<close>

definition vk_task_step :: "bool \<Rightarrow> nat \<Rightarrow> valkey_system \<Rightarrow> valkey_system" where
  "vk_task_step send_ok i S =
     (let t = vk_tasks S ! i
      in case pt_phase t of
           Starting \<Rightarrow> set_phase i (Subscribed []) S
         | Subscribed ms \<Rightarrow>
             (case dict_get (vk_keys S) (pt_session t) of
                Some body \<Rightarrow> set_phase i Finished (vk_deliver send_ok (pt_worker t) (pt_session t) body S)
              | None \<Rightarrow> set_phase i (Listening ms) S)
         | Listening (body # ms) \<Rightarrow>
             set_phase i Finished (vk_deliver send_ok (pt_worker t) (pt_session t) body S)
         | _ \<Rightarrow> S)"

definition vk_remove :: "nat \<Rightarrow> string \<Rightarrow> valkey_system \<Rightarrow> valkey_system" where
  "vk_remove w sid S =
     cancel_task w sid (S\<lparr>vk_sessions := (vk_sessions S)(w := dict_del sid (vk_sessions S w))\<rparr>)"

definition vk_reap_stale :: "nat \<Rightarrow> pyfloat \<Rightarrow> pyfloat \<Rightarrow> valkey_system \<Rightarrow> valkey_system" where
  "vk_reap_stale w now max_age S =
     (if max_age \<le> 0 then S
      else fold (vk_remove w) (map fst (filter (\<lambda>(sid, e). max_age < now - se_opened_at e) (vk_sessions S w))) S)"

definition vk_expire :: "string \<Rightarrow> valkey_system \<Rightarrow> valkey_system" where
  "vk_expire sid S = S\<lparr>vk_keys := dict_del sid (vk_keys S)\<rparr>"

inductive vk_step :: "valkey_system \<Rightarrow> valkey_system \<Rightarrow> bool" where
  step_register: "vk_step S (vk_register w now sid ws S)"
| step_push: "vk_step S (vk_push send_ok w sid body S)"
| step_publish: "m \<in> set (vk_publishing S) \<Longrightarrow> vk_step S (vk_publish m S)"
| step_task: "i < length (vk_tasks S) \<Longrightarrow> vk_step S (vk_task_step send_ok i S)"
| step_remove: "vk_step S (vk_remove w sid S)"
| step_reap: "vk_step S (vk_reap_stale w now max_age S)"
| step_expire: "vk_step S (vk_expire sid S)"

inductive vk_reachable :: "valkey_system \<Rightarrow> bool" where
  reach_start: "vk_reachable empty_valkey"
| reach_step: "vk_reachable S \<Longrightarrow> vk_step S S' \<Longrightarrow> vk_reachable S'"

inductive_cases vk_stepE: "vk_step S S'"

section \<open>No push is lost\<close>

text \<open>A task that sleeps has missed nothing: its key is absent, or the message is still to be published.\<close>

definition no_lost_push :: "valkey_system \<Rightarrow> bool" where
  "no_lost_push S \<longleftrightarrow> (\<forall>t \<in> set (vk_tasks S). pt_phase t = Listening [] \<longrightarrow>
     dict_get (vk_keys S) (pt_session t) = None \<or> pt_session t \<in> fst ` set (vk_publishing S))"

lemma deliver_keeps [simp]:
  "vk_tasks (vk_deliver ok w sid b S) = vk_tasks S" "vk_keys (vk_deliver ok w sid b S) = vk_keys S"
  "vk_publishing (vk_deliver ok w sid b S) = vk_publishing S"
  by (simp_all add: vk_deliver_def split: option.split)

lemma set_phase_keeps [simp]:
  "vk_keys (set_phase i ph S) = vk_keys S" "vk_publishing (set_phase i ph S) = vk_publishing S"
  "vk_sessions (set_phase i ph S) = vk_sessions S" "vk_delivered (set_phase i ph S) = vk_delivered S"
  by (simp_all add: set_phase_def)

lemma no_lost_push_set_phase:
  assumes "no_lost_push S"
    and "ph \<noteq> Listening [] \<or> dict_get (vk_keys S) (pt_session (vk_tasks S ! i)) = None"
  shows "no_lost_push (set_phase i ph S)"
  using assms by (auto simp: no_lost_push_def set_phase_def dest!: set_update_subset_insert [THEN subsetD])

lemma no_lost_push_same:
  "no_lost_push S \<Longrightarrow> vk_tasks S' = vk_tasks S \<Longrightarrow> vk_keys S' = vk_keys S \<Longrightarrow> vk_publishing S' = vk_publishing S
   \<Longrightarrow> no_lost_push S'"
  by (simp add: no_lost_push_def)

lemma no_lost_push_cancel: "no_lost_push S \<Longrightarrow> no_lost_push (cancel_task w sid S)"
  by (auto simp: cancel_task_def split: option.split
      intro!: no_lost_push_set_phase elim: no_lost_push_same)

lemma no_lost_push_remove: "no_lost_push S \<Longrightarrow> no_lost_push (vk_remove w sid S)"
  unfolding vk_remove_def by (rule no_lost_push_cancel) (erule no_lost_push_same, simp_all)

lemma no_lost_push_task_step: "no_lost_push S \<Longrightarrow> no_lost_push (vk_task_step ok i S)"
  by (auto simp: vk_task_step_def Let_def split: task_phase.split list.split option.split
      intro!: no_lost_push_set_phase elim: no_lost_push_same)

lemma no_lost_push_publish:
  assumes "no_lost_push S"
  shows "no_lost_push (vk_publish m S)"
  unfolding no_lost_push_def
proof (intro ballI impI)
  fix t assume t: "t \<in> set (vk_tasks (vk_publish m S))" "pt_phase t = Listening []"
  then obtain u where u: "u \<in> set (vk_tasks S)"
    "t = (if pt_session u = fst m then u\<lparr>pt_phase := queue_message (snd m) (pt_phase u)\<rparr> else u)"
    by (auto simp: vk_publish_def)
  then have other: "pt_session u \<noteq> fst m" "t = u" using t(2) by (auto split: if_splits elim: queue_message.elims)
  then have "dict_get (vk_keys S) (pt_session u) = None \<or> pt_session u \<in> fst ` set (vk_publishing S)"
    using assms u(1) t(2) by (simp add: no_lost_push_def)
  then show "dict_get (vk_keys (vk_publish m S)) (pt_session t) = None
      \<or> pt_session t \<in> fst ` set (vk_publishing (vk_publish m S))"
    using other by (force simp: vk_publish_def image_iff intro: in_set_remove1 [THEN iffD2])
qed

lemma no_lost_push_step: "vk_step S S' \<Longrightarrow> no_lost_push S \<Longrightarrow> no_lost_push S'"
proof (induction rule: vk_step.induct)
  case (step_push S send_ok w sid body)
  have "no_lost_push (vk_deliver send_ok w sid body S)" by (rule no_lost_push_same [OF step_push]) simp_all
  then show ?case using step_push no_lost_push_cancel
    by (auto simp: vk_push_def no_lost_push_def image_Un)
next
  case (step_reap S w now max_age)
  have "no_lost_push S \<Longrightarrow> no_lost_push (fold (vk_remove w) sids S)" for sids
    by (induction sids arbitrary: S) (simp_all add: no_lost_push_remove)
  then show ?case using step_reap by (simp add: vk_reap_stale_def)
next
  case (step_publish m S)
  then show ?case by (simp add: no_lost_push_publish)
next
  case (step_task i S send_ok)
  then show ?case by (simp add: no_lost_push_task_step)
next
  case (step_remove S w sid)
  then show ?case by (simp add: no_lost_push_remove)
qed (auto simp: vk_register_def vk_expire_def delete_conv' no_lost_push_def split: if_splits)

lemma reachable_no_lost_push: "vk_reachable S \<Longrightarrow> no_lost_push S"
  by (induction rule: vk_reachable.induct) (auto simp: no_lost_push_step, simp add: no_lost_push_def empty_valkey_def)

section \<open>Properties\<close>

text \<open>In one process the tokens of a sign-in link reach at most one socket per registration: whatever pushes,
  removals and reaping happen, at most one push for a session succeeds until somebody registers again.\<close>

theorem session_served_once:
  assumes "list_all (\<lambda>p. \<not> registers p sid) ps"
  shows "redemptions mem_target sid (fst (run_operations mem_session_step ps S)) \<le> (if waiting sid S then 1 else 0)"
  using socket_wait.redeemed_at_most_once [of ps sid S] socket_wait.spent_never_redeemed [of sid S ps] assms
  by (auto simp: list_all_iff)


text \<open>Across workers the tokens are handed out again: the key outlives the delivery, so a second socket that
  registers for the same session before it expires receives the same tokens as the first.\<close>

theorem tokens_delivered_twice:
  "\<exists>S. vk_reachable S \<and> vk_delivered S = [(1, body), (2, body)]"
proof -
  define S1 where "S1 = vk_register 0 0 ''s'' 1 empty_valkey"
  define S2 where "S2 = vk_push True 1 ''s'' body S1"
  define S3 where "S3 = vk_publish (''s'', body) S2"
  define S4 where "S4 = vk_task_step True 0 S3"
  define S5 where "S5 = vk_task_step True 0 S4"
  define S6 where "S6 = vk_register 0 9 ''s'' 2 S5"
  define S7 where "S7 = vk_task_step True 1 S6"
  define S8 where "S8 = vk_task_step True 1 S7"
  have 2: "vk_reachable S2" unfolding S2_def S1_def by (intro reach_step [OF _ step_push] reach_step [OF reach_start step_register])
  have v3: "vk_sessions S3 0 = [(''s'', \<lparr>se_websocket = 1, se_opened_at = 0\<rparr>)]" "vk_keys S3 = [(''s'', body)]"
    "vk_tasks S3 = [\<lparr>pt_worker = 0, pt_session = ''s'', pt_phase = Starting\<rparr>]" "vk_delivered S3 = []"
    "vk_publishing S2 = [(''s'', body)]"
    by (simp_all add: S3_def S2_def S1_def vk_publish_def vk_push_def vk_register_def empty_valkey_def)
  have 3: "vk_reachable S3" unfolding S3_def by (rule reach_step [OF 2 step_publish]) (simp add: v3)
  have v5: "vk_sessions S5 0 = []" "vk_keys S5 = [(''s'', body)]"
    "vk_tasks S5 = [\<lparr>pt_worker = 0, pt_session = ''s'', pt_phase = Finished\<rparr>]" "vk_delivered S5 = [(1, body)]"
    by (simp_all add: S5_def S4_def vk_task_step_def set_phase_def vk_deliver_def v3)
  have 4: "vk_reachable S4" unfolding S4_def by (rule reach_step [OF 3 step_task]) (simp add: v3)
  have 5: "vk_reachable S5" unfolding S5_def
    by (rule reach_step [OF 4 step_task]) (simp add: S4_def vk_task_step_def set_phase_def v3)
  have 6: "vk_reachable S6" unfolding S6_def by (rule reach_step [OF 5 step_register])
  have v6: "vk_tasks S6 = [\<lparr>pt_worker = 0, pt_session = ''s'', pt_phase = Finished\<rparr>,
      \<lparr>pt_worker = 0, pt_session = ''s'', pt_phase = Starting\<rparr>]" "vk_keys S6 = [(''s'', body)]"
    "vk_sessions S6 0 = [(''s'', \<lparr>se_websocket = 2, se_opened_at = 9\<rparr>)]" "vk_delivered S6 = [(1, body)]"
    by (simp_all add: S6_def vk_register_def v5)
  have 7: "vk_reachable S7" unfolding S7_def by (rule reach_step [OF 6 step_task]) (simp add: v6)
  have 8: "vk_reachable S8" unfolding S8_def
    by (rule reach_step [OF 7 step_task]) (simp add: S7_def vk_task_step_def set_phase_def v6)
  have "vk_delivered S8 = [(1, body), (2, body)]"
    by (simp add: S8_def S7_def vk_task_step_def set_phase_def vk_deliver_def v6)
  then show ?thesis using 8 by blast
qed

theorem session_served_once_witness:
  "redemptions mem_target ''s'' (fst (run_operations mem_session_step
     [MemPush True ''s'' ''a'', MemPush True ''s'' ''b''] [(''s'', \<lparr>se_websocket = 1, se_opened_at = 0\<rparr>)])) \<le> 1"
  using session_served_once [of "''s''" "[MemPush True ''s'' ''a'', MemPush True ''s'' ''b'']"
      "[(''s'', \<lparr>se_websocket = 1, se_opened_at = 0\<rparr>)]"]
  by (simp add: registers_def waiting_def)

definition sample_pushed :: valkey_system where
  "sample_pushed = vk_publish (''s'', ''tokens'') (vk_push True 1 ''s'' ''tokens'' (vk_register 0 0 ''s'' 7 empty_valkey))"


end
