(* ===== verification/Connect_Accounts.thy ===== *)
theory Connect_Accounts
  imports Connect_Composio
begin

text \<open>
  The account side of \<open>app/engine/wiii_connect/composio_adapter.py\<close>: looking up the provider's auth
  configuration, issuing a connect link, listing and deleting connected accounts, staging a file and
  listing Facebook pages. Each HTTP exchange is an argument; a function that makes a second request
  takes a second reply. What the code raises is a value: \<open>create_composio_connect_link\<close> assumes that a
  JSON body is an object.
\<close>

section \<open>Auth configurations\<close>

definition not_configured :: "composio_config \<Rightarrow> bool" where
  "not_configured c \<longleftrightarrow> \<not> cc_enabled c \<or> \<not> cc_api_key_present c"

definition accepted_status :: "int \<Rightarrow> bool" where
  "accepted_status s \<longleftrightarrow> 200 \<le> s \<and> s < 300"

definition stripped_text :: "(pyval \<Rightarrow> string) \<Rightarrow> pyval list \<Rightarrow> string" where
  "stripped_text str_of values = py_strip (text_or_empty str_of (first_truthy values))"

fun first_list_value :: "string list \<Rightarrow> pyval \<Rightarrow> pyval list" where
  "first_list_value [] data = []"
| "first_list_value (key # keys) data =
     (case mapping_get data key of PList items \<Rightarrow> items | _ \<Rightarrow> first_list_value keys data)"

definition extract_auth_config_items :: "pyval \<Rightarrow> pyval list" where
  "extract_auth_config_items data =
     filter is_mapping
       (case data of
          PList items \<Rightarrow> items
        | PDict _ \<Rightarrow> first_list_value
            [''items'', ''data'', ''auth_configs'', ''authConfigs'', ''configs''] data
        | _ \<Rightarrow> [])"

definition auth_config_enabled :: "(pyval \<Rightarrow> string) \<Rightarrow> pyval \<Rightarrow> bool" where
  "auth_config_enabled str_of item =
     (case mapping_get item ''enabled'' of
        PBool b \<Rightarrow> b
      | _ \<Rightarrow> py_lower (stripped_text str_of [mapping_get item ''status'', mapping_get item ''state''])
             \<in> {''active'', ''enabled'', ''connected'', ''ready''})"

definition safe_auth_config_id :: "(pyval \<Rightarrow> string) \<Rightarrow> pyval \<Rightarrow> string" where
  "safe_auth_config_id str_of item =
     stripped_text str_of (map (mapping_get item)
       [''id'', ''nanoid'', ''nanoId'', ''auth_config_id'', ''authConfigId''])"

record auth_config_lookup =
  lk_ready :: bool
  lk_auth_config_id :: string
  lk_reason :: string

definition lookup_failed :: "string \<Rightarrow> auth_config_lookup" where
  "lookup_failed reason = \<lparr>lk_ready = False, lk_auth_config_id = [], lk_reason = reason\<rparr>"

definition resolve_auth_config_id ::
  "(pyval \<Rightarrow> string) \<Rightarrow> composio_config \<Rightarrow> string \<Rightarrow> http_reply \<Rightarrow> auth_config_lookup" where
  "resolve_auth_config_id str_of config provider_slug reply =
     (let provider = normalize_provider_slug provider_slug;
          configured = auth_config_id_for_provider config provider
      in if configured \<noteq> []
         then \<lparr>lk_ready = True, lk_auth_config_id = configured, lk_reason = ''configured''\<rparr>
         else if not_configured config then lookup_failed ''provider_adapter_not_configured''
         else if provider = [] then lookup_failed ''missing_provider''
         else case reply of
             TransportError \<Rightarrow> lookup_failed ''provider_transport_error''
           | Reply status body \<Rightarrow>
               if \<not> accepted_status status then lookup_failed ''provider_response_rejected''
               else case body of
                   None \<Rightarrow> lookup_failed ''provider_response_invalid''
                 | Some data \<Rightarrow>
                     (case extract_auth_config_items data of
                        [] \<Rightarrow> lookup_failed ''provider_auth_config_missing''
                      | item # items \<Rightarrow>
                          let preferred = (case find (auth_config_enabled str_of) (item # items) of
                                Some i \<Rightarrow> i | None \<Rightarrow> item);
                              auth_config_id = safe_auth_config_id str_of preferred
                          in if auth_config_id = [] then lookup_failed ''provider_response_invalid''
                             else \<lparr>lk_ready = True, lk_auth_config_id = auth_config_id,
                                   lk_reason = ''provider_lookup''\<rparr>))"

section \<open>Connect links\<close>

record connect_link =
  ln_ready :: bool
  ln_redirect_url :: string
  ln_connected_account_id :: string
  ln_expires_at :: string
  ln_connected_account_ref_present :: bool
  ln_reason :: string

definition connect_link_reasons :: "string list" where
  "connect_link_reasons =
    [''ready'', ''not_requested'', ''provider_adapter_not_configured'', ''missing_user_or_callback'',
     ''missing_provider'', ''provider_auth_config_missing'', ''provider_transport_error'',
     ''provider_response_rejected'', ''provider_response_invalid'', ''provider_response_missing_redirect'']"

definition safe_connect_link_reason :: "string \<Rightarrow> string" where
  "safe_connect_link_reason value =
     (let reason = py_strip value
      in if reason \<in> set connect_link_reasons then reason else ''provider_response_unavailable'')"

definition connect_link_audit_metadata :: "connect_link \<Rightarrow> (string, pyval) dict" where
  "connect_link_audit_metadata l =
     [(''ready'', PBool (ln_ready l)),
      (''redirect_url_present'', PBool (ln_redirect_url l \<noteq> [])),
      (''expires_at_present'', PBool (ln_expires_at l \<noteq> [])),
      (''connected_account_ref_present'', PBool (ln_connected_account_ref_present l)),
      (''reason'', PStr (safe_connect_link_reason (ln_reason l)))]"

definition link_failed :: "string \<Rightarrow> connect_link" where
  "link_failed reason =
     \<lparr>ln_ready = False, ln_redirect_url = [], ln_connected_account_id = [], ln_expires_at = [],
      ln_connected_account_ref_present = False, ln_reason = reason\<rparr>"

datatype adapter_error = AttributeError

definition link_from_body :: "(pyval \<Rightarrow> string) \<Rightarrow> pyval \<Rightarrow> connect_link" where
  "link_from_body str_of data =
     (let redirect_url = stripped_text str_of (map (mapping_get data) [''redirect_url'', ''redirectUrl'']);
          account = stripped_text str_of
            (map (mapping_get data) [''connected_account_id'', ''connectedAccountId''])
      in if redirect_url = [] then link_failed ''provider_response_missing_redirect''
         else \<lparr>ln_ready = True, ln_redirect_url = redirect_url, ln_connected_account_id = account,
               ln_expires_at = stripped_text str_of (map (mapping_get data) [''expires_at'', ''expiresAt'']),
               ln_connected_account_ref_present = (account \<noteq> []), ln_reason = ''ready''\<rparr>)"

definition create_connect_link ::
  "(pyval \<Rightarrow> string) \<Rightarrow> composio_config \<Rightarrow> string \<Rightarrow> string \<Rightarrow> string \<Rightarrow> http_reply \<Rightarrow> http_reply
   \<Rightarrow> adapter_error + connect_link" where
  "create_connect_link str_of config provider_slug user_id callback_url lookup_reply reply =
     (if not_configured config then Inr (link_failed ''provider_adapter_not_configured'')
      else if user_id = [] \<or> callback_url = [] then Inr (link_failed ''missing_user_or_callback'')
      else
        let auth_config = resolve_auth_config_id str_of config provider_slug lookup_reply
        in if \<not> lk_ready auth_config then Inr (link_failed (lk_reason auth_config))
           else case reply of
               TransportError \<Rightarrow> Inr (link_failed ''provider_transport_error'')
             | Reply status body \<Rightarrow>
                 if \<not> accepted_status status then Inr (link_failed ''provider_response_rejected'')
                 else case body of
                     None \<Rightarrow> Inr (link_failed ''provider_response_invalid'')
                   | Some data \<Rightarrow>
                       if is_mapping data then Inr (link_from_body str_of data) else Inl AttributeError)"

section \<open>Connected accounts\<close>

definition provider_managed_ref :: "string \<Rightarrow> string \<Rightarrow> vault_secret_ref" where
  "provider_managed_ref provider_slug connection_id =
     \<lparr>vr_provider_slug = provider_slug, vr_connection_id = connection_id,
      vr_vault_key_id = ''provider-managed://composio/'' @ connection_id,
      vr_secret_version = ''provider_managed''\<rparr>"

definition connection_from_account ::
  "(pyval \<Rightarrow> string) \<Rightarrow> string \<Rightarrow> pyval \<Rightarrow> connection_record option" where
  "connection_from_account str_of provider_slug account =
     (let connection_id = stripped_text str_of (map (mapping_get account)
            [''id'', ''nanoid'', ''nanoId'', ''connected_account_id'', ''connectedAccountId'']);
          state = normalize_connection_state (Some (stripped_text str_of [mapping_get account ''status'']));
          provider = normalize_provider_slug provider_slug
      in if \<not> is_mapping account \<or> connection_id = [] then None
         else Some
           \<lparr>cr_connection_id = connection_id, cr_provider_slug = provider, cr_state = state,
            cr_scopes = no_scopes\<lparr>sg_read := (state = CsConnected)\<rparr>,
            cr_vault_ref = Some (provider_managed_ref provider connection_id),
            cr_account_label = [], cr_external_account_ref = [], cr_last_checked_at = None,
            cr_reason = ''provider_connection_list'',
            cr_warnings = (if state = CsConnected then [] else [''provider_status_not_active''])\<rparr>)"

definition extract_connection_items :: "pyval \<Rightarrow> pyval list" where
  "extract_connection_items data =
     (case data of
        PList items \<Rightarrow> items
      | PDict _ \<Rightarrow> first_list_value
          [''items'', ''data'', ''connected_accounts'', ''connectedAccounts'', ''connections''] data
      | _ \<Rightarrow> [])"

record connection_list =
  cl_ready :: bool
  cl_reason :: string
  cl_connections :: "connection_record list"
  cl_cursor :: string

definition connection_list_reasons :: "string list" where
  "connection_list_reasons =
    [''ready'', ''not_requested'', ''provider_adapter_not_configured'', ''missing_user'',
     ''missing_provider'', ''provider_auth_config_missing'', ''provider_transport_error'',
     ''provider_response_rejected'', ''provider_response_invalid'']"

definition safe_connection_list_reason :: "string \<Rightarrow> string" where
  "safe_connection_list_reason value =
     (let reason = py_strip value
      in if reason \<in> set connection_list_reasons then reason else ''provider_response_unavailable'')"

definition connection_list_metadata :: "(string \<Rightarrow> string) \<Rightarrow> connection_list \<Rightarrow> pyval" where
  "connection_list_metadata sha l = PDict
     [(''version'', PStr ''wiii_connect_composio_connections.v1''),
      (''status'', PStr (if cl_ready l then ''ready'' else ''blocked'')),
      (''reason'', PStr (safe_connection_list_reason (cl_reason l))),
      (''connection_count'', PInt (int (length (cl_connections l)))),
      (''cursor_present'', PBool (cl_cursor l \<noteq> [])),
      (''connections'', PList (map (connection_record_metadata sha) (cl_connections l)))]"

definition list_failed :: "string \<Rightarrow> connection_list" where
  "list_failed reason = \<lparr>cl_ready = False, cl_reason = reason, cl_connections = [], cl_cursor = []\<rparr>"

definition list_connected_accounts ::
  "(pyval \<Rightarrow> string) \<Rightarrow> composio_config \<Rightarrow> string \<Rightarrow> string \<Rightarrow> http_reply \<Rightarrow> http_reply \<Rightarrow> connection_list"
where
  "list_connected_accounts str_of config provider_slug user_id lookup_reply reply =
     (if not_configured config then list_failed ''provider_adapter_not_configured''
      else if user_id = [] then list_failed ''missing_user''
      else
        let auth_config = resolve_auth_config_id str_of config provider_slug lookup_reply
        in if \<not> lk_ready auth_config then list_failed (lk_reason auth_config)
           else case reply of
               TransportError \<Rightarrow> list_failed ''provider_transport_error''
             | Reply status body \<Rightarrow>
                 if \<not> accepted_status status then list_failed ''provider_response_rejected''
                 else case body of
                     None \<Rightarrow> list_failed ''provider_response_invalid''
                   | Some data \<Rightarrow>
                       \<lparr>cl_ready = True, cl_reason = ''ready'',
                        cl_connections = List.map_filter (connection_from_account str_of provider_slug)
                          (extract_connection_items data),
                        cl_cursor = (if is_mapping data then stripped_text str_of
                          (map (mapping_get data) [''cursor'', ''next_cursor'']) else [])\<rparr>)"

section \<open>Disconnecting\<close>

text \<open>The reply to a \<open>DELETE\<close>: its body may be empty, not JSON, or a value.\<close>

datatype delete_reply = DeleteTransportError | DeleteReply int "pyval option option"

record disconnect_result =
  dr_ready :: bool
  dr_provider_slug :: string
  dr_reason :: string
  dr_status_code :: int
  dr_connection_ref_present :: bool
  dr_provider_success :: bool

definition disconnect_status :: "disconnect_result \<Rightarrow> string" where
  "disconnect_status r =
     (if dr_ready r \<and> dr_provider_success r then ''succeeded''
      else if dr_ready r then ''failed'' else ''blocked'')"

definition disconnect_reasons :: "string list" where
  "disconnect_reasons =
    [''ready'', ''not_requested'', ''provider_adapter_not_configured'', ''missing_connection'',
     ''missing_provider'', ''provider_auth_config_missing'', ''provider_transport_error'',
     ''provider_response_rejected'', ''provider_response_invalid'', ''provider_disconnect_failed'']"

definition safe_disconnect_reason :: "string \<Rightarrow> string" where
  "safe_disconnect_reason value =
     (let reason = py_strip value
      in if reason \<in> set disconnect_reasons then reason else ''provider_response_unavailable'')"

definition disconnect_result_metadata :: "disconnect_result \<Rightarrow> pyval" where
  "disconnect_result_metadata r = PDict
     [(''version'', PStr ''wiii_connect_composio_disconnect.v1''),
      (''status'', PStr (disconnect_status r)),
      (''reason'', PStr (safe_disconnect_reason (dr_reason r))),
      (''provider_slug'', PStr (normalize_provider_slug (dr_provider_slug r))),
      (''status_code'', PInt (dr_status_code r)),
      (''connection_ref_present'', PBool (dr_connection_ref_present r)),
      (''provider_success'', PBool (dr_provider_success r))]"

definition disconnect_connected_account ::
  "(pyval \<Rightarrow> string) \<Rightarrow> composio_config \<Rightarrow> string \<Rightarrow> string \<Rightarrow> http_reply \<Rightarrow> delete_reply \<Rightarrow> disconnect_result"
where
  "disconnect_connected_account str_of config provider_slug connected_account_id lookup_reply reply =
     (let provider = normalize_provider_slug provider_slug;
          connection_id = py_strip connected_account_id;
          failed = (\<lambda>reason status present.
            \<lparr>dr_ready = False, dr_provider_slug = provider, dr_reason = reason, dr_status_code = status,
             dr_connection_ref_present = present, dr_provider_success = False\<rparr>)
      in if not_configured config
         then failed ''provider_adapter_not_configured'' 0 (connection_id \<noteq> [])
         else if connection_id = [] then failed ''missing_connection'' 0 False
         else
           let auth_config = resolve_auth_config_id str_of config provider lookup_reply
           in if \<not> lk_ready auth_config then failed (lk_reason auth_config) 0 True
              else case reply of
                  DeleteTransportError \<Rightarrow> failed ''provider_transport_error'' 0 True
                | DeleteReply status content \<Rightarrow>
                    if \<not> accepted_status status then failed ''provider_response_rejected'' status True
                    else
                      let finished = (\<lambda>success.
                            \<lparr>dr_ready = True, dr_provider_slug = provider,
                             dr_reason = (if success then ''ready'' else ''provider_disconnect_failed''),
                             dr_status_code = status, dr_connection_ref_present = True,
                             dr_provider_success = success\<rparr>)
                      in case content of
                          None \<Rightarrow> finished True
                        | Some None \<Rightarrow> failed ''provider_response_invalid'' status True
                        | Some (Some data) \<Rightarrow>
                            finished (case data of
                                PDict d \<Rightarrow> (case dict_get d ''success'' of Some v \<Rightarrow> truthy v | None \<Rightarrow> True)
                              | _ \<Rightarrow> True))"

section \<open>File staging\<close>

definition strip_chars :: "string \<Rightarrow> string \<Rightarrow> string" where
  "strip_chars cs s = rev (dropWhile (\<lambda>c. c \<in> set cs) (rev (dropWhile (\<lambda>c. c \<in> set cs) s)))"

text \<open>\<open>text.replace(backslash, "/").rsplit("/", 1)[-1]\<close>.\<close>

definition base_name :: "string \<Rightarrow> string" where
  "base_name s = rev (takeWhile (\<lambda>c. c \<noteq> CHR ''/'') (rev (replace_char (char_of (92::nat)) CHR ''/'' s)))"

definition safe_filename :: "string \<Rightarrow> string" where
  "safe_filename value =
     (let t = py_strip (base_name value)
      in if t = [] \<or> has_control_marker (py_lower t) then ''wiii-upload''
         else
           let result = strip_chars '' .'' (filter (\<lambda>c. is_alnum c \<or> c \<in> set '' ._-'') (take 120 t))
           in if result = [] then ''wiii-upload'' else result)"

definition safe_mimetype :: "string \<Rightarrow> string" where
  "safe_mimetype value =
     (let t = py_lower (py_strip value)
      in if CHR ''/'' \<notin> set t \<or> has_control_marker t then [] else take 80 t)"

record upload_result =
  ur_ready :: bool
  ur_provider_slug :: string
  ur_action_slug :: string
  ur_reason :: string
  ur_request_id :: string
  ur_status_code :: int
  ur_file_descriptor :: "(string, pyval) dict"
  ur_file_ref_present :: bool
  ur_upload_url_present :: bool
  ur_size_bytes :: nat

definition upload_result_metadata :: "upload_result \<Rightarrow> (string, pyval) dict" where
  "upload_result_metadata r =
     (let metadata =
        [(''version'', PStr ''wiii_connect_composio_file_upload.v1''),
         (''status'', PStr (if ur_ready r then ''ready'' else ''blocked'')),
         (''reason'', PStr (safe_execute_reason (ur_reason r))),
         (''provider_slug'', PStr (normalize_provider_slug (ur_provider_slug r))),
         (''action_slug'', PStr (normalize_action_slug (ur_action_slug r))),
         (''file_ref_present'', PBool (ur_file_ref_present r)),
         (''upload_url_present'', PBool (ur_upload_url_present r)),
         (''size_bytes'', PInt (int (ur_size_bytes r))),
         (''status_code'', PInt (ur_status_code r))];
          request_id = safe_request_id (ur_request_id r)
      in if request_id \<noteq> [] then dict_set ''request_id'' (PStr request_id) metadata else metadata)"

text \<open>\<open>reply\<close> answers the request for an upload slot, \<open>put_reply\<close> the upload itself.\<close>

definition stage_file_upload ::
  "(pyval \<Rightarrow> string) \<Rightarrow> composio_config \<Rightarrow> string \<Rightarrow> string \<Rightarrow> string \<Rightarrow> string \<Rightarrow> string \<Rightarrow> string
   \<Rightarrow> http_reply \<Rightarrow> http_reply \<Rightarrow> upload_result" where
  "stage_file_upload str_of config provider_slug action_slug filename mimetype content request_id reply put_reply =
     (let provider = normalize_provider_slug provider_slug;
          action = normalize_action_slug action_slug;
          safe_name = safe_filename filename;
          safe_type = safe_mimetype mimetype;
          blocked = (\<lambda>reason status size ref.
            \<lparr>ur_ready = False, ur_provider_slug = provider, ur_action_slug = action, ur_reason = reason,
             ur_request_id = safe_request_id request_id, ur_status_code = status, ur_file_descriptor = [],
             ur_file_ref_present = ref, ur_upload_url_present = ref, ur_size_bytes = size\<rparr>);
          size = length content
      in if not_configured config then blocked ''provider_adapter_not_configured'' 0 0 False
         else if action \<notin> set (executable_action_slugs config provider)
         then blocked ''action_not_allowlisted'' 0 0 False
         else if content = [] \<or> safe_name = [] \<or> safe_type = [] then blocked ''missing_file'' 0 0 False
         else case reply of
             TransportError \<Rightarrow> blocked ''provider_transport_error'' 0 size False
           | Reply status body \<Rightarrow>
               if \<not> accepted_status status then blocked ''provider_response_rejected'' status size False
               else case body of
                   None \<Rightarrow> blocked ''provider_response_invalid'' status size False
                 | Some data \<Rightarrow>
                     if \<not> is_mapping data then blocked ''provider_response_invalid'' status size False
                     else
                       let s3key = stripped_text str_of (map (mapping_get data) [''key'', ''s3key'', ''s3Key'']);
                           upload_url = stripped_text str_of (map (mapping_get data)
                             [''new_presigned_url'', ''newPresignedUrl'', ''presigned_url'', ''presignedUrl'']);
                           staged = (blocked ''ready'' status size True)
                             \<lparr>ur_ready := True,
                              ur_file_descriptor := [(''name'', PStr safe_name), (''mimetype'', PStr safe_type),
                                (''s3key'', PStr s3key)],
                              ur_upload_url_present := (upload_url \<noteq> [])\<rparr>
                       in if s3key = [] then blocked ''provider_response_invalid'' status size False
                          else if upload_url = [] then staged
                          else case put_reply of
                              TransportError \<Rightarrow> blocked ''provider_transport_error'' status size True
                            | Reply put_status _ \<Rightarrow>
                                if \<not> accepted_status put_status
                                then blocked ''provider_response_rejected'' put_status size True
                                else staged)"

section \<open>Facebook pages\<close>

definition page_list_keys :: "string list" where
  "page_list_keys = [''data'', ''pages'', ''items'', ''accounts'']"

fun first_some :: "'a option list \<Rightarrow> 'a option" where
  "first_some [] = None"
| "first_some (Some x # xs) = Some x"
| "first_some (None # xs) = first_some xs"

lemma dict_get_size: "dict_get d k = Some v \<Longrightarrow> size v < size (PDict d)"
  by (induction d) (auto split: if_splits)

function (sequential) extract_page_items :: "pyval \<Rightarrow> pyval list" where
  "extract_page_items (PList items) = items"
| "extract_page_items (PDict d) =
     (case first_some (map (\<lambda>key.
          case dict_get d key of
            Some (PList items) \<Rightarrow> Some items
          | Some (PDict e) \<Rightarrow>
              (let nested = extract_page_items (PDict e) in if nested \<noteq> [] then Some nested else None)
          | _ \<Rightarrow> None) page_list_keys) of
        Some items \<Rightarrow> items
      | None \<Rightarrow> (case dict_get d ''data'' of Some (PDict e) \<Rightarrow> extract_page_items (PDict e) | _ \<Rightarrow> []))"
| "extract_page_items v = []"
  by pat_completeness auto
termination
  by (relation "measure size") (auto dest: dict_get_size)

definition safe_page_id :: "string \<Rightarrow> string" where
  "safe_page_id value = filter (\<lambda>c. is_alnum c \<or> c \<in> set ''_-:'') (take 120 (py_strip value))"

definition safe_page_text :: "string \<Rightarrow> string" where
  "safe_page_text value =
     (let t = py_join '' '' (py_split (py_strip value))
      in if has_control_marker (py_lower t) then ''redacted_sensitive_value'' else take 160 t)"

definition safe_page_link :: "string \<Rightarrow> string" where
  "safe_page_link value =
     (let t = py_strip value
      in if \<not> py_startswith t ''https://'' \<and> \<not> py_startswith t ''http://'' then []
         else if has_control_marker (py_lower t) then [] else take 240 t)"

definition adapter_safe_public_key :: "string \<Rightarrow> string" where
  "adapter_safe_public_key value =
     (let normalized = py_lower (py_strip value)
      in if normalized = [] then ''empty''
         else if has_control_marker normalized then ''redacted_sensitive_field'' else take 80 normalized)"

record page_option =
  po_page_id :: string
  po_name :: string
  po_category :: string
  po_link :: string

definition page_option_metadata :: "page_option \<Rightarrow> pyval" where
  "page_option_metadata p = PDict
     [(''page_id'', PStr (adapter_safe_public_key (po_page_id p))),
      (''name'', PStr (safe_page_text (po_name p))),
      (''category'', PStr (safe_page_text (po_category p))),
      (''link'', PStr (safe_page_link (po_link p)))]"

definition page_option_from_item :: "(pyval \<Rightarrow> string) \<Rightarrow> pyval \<Rightarrow> page_option option" where
  "page_option_from_item str_of item =
     (let text = (\<lambda>keys. text_or_empty str_of (first_truthy (map (mapping_get item) keys)));
          page_id = safe_page_id (text [''id'', ''page_id''])
      in if \<not> is_mapping item \<or> page_id = [] then None
         else Some \<lparr>po_page_id = page_id, po_name = safe_page_text (text [''name'']),
                    po_category = safe_page_text (text [''category'']),
                    po_link = safe_page_link (text [''link'', ''url''])\<rparr>)"

record page_list =
  pl_ready :: bool
  pl_reason :: string
  pl_request_id :: string
  pl_status_code :: int
  pl_pages :: "page_option list"
  pl_error_present :: bool

definition page_list_metadata :: "page_list \<Rightarrow> (string, pyval) dict" where
  "page_list_metadata l =
     (let metadata =
        [(''version'', PStr ''wiii_connect_facebook_pages.v1''),
         (''status'', PStr (if pl_ready l then ''ready'' else ''blocked'')),
         (''reason'', PStr (safe_execute_reason (pl_reason l))),
         (''provider_slug'', PStr (normalize_provider_slug ''facebook'')),
         (''action_slug'', PStr (normalize_action_slug ''FACEBOOK_LIST_MANAGED_PAGES'')),
         (''status_code'', PInt (pl_status_code l)),
         (''page_count'', PInt (int (length (pl_pages l)))),
         (''error_present'', PBool (pl_error_present l)),
         (''pages'', PList (map page_option_metadata (pl_pages l)))];
          request_id = safe_request_id (pl_request_id l)
      in if request_id \<noteq> [] then dict_set ''request_id'' (PStr request_id) metadata else metadata)"

definition list_facebook_pages ::
  "(pyval \<Rightarrow> string) \<Rightarrow> composio_config \<Rightarrow> string \<Rightarrow> string \<Rightarrow> string \<Rightarrow> http_reply \<Rightarrow> page_list" where
  "list_facebook_pages str_of config user_id connected_account_id request_id reply =
     (let blocked = (\<lambda>reason status.
            \<lparr>pl_ready = False, pl_reason = reason, pl_request_id = safe_request_id request_id,
             pl_status_code = status, pl_pages = [], pl_error_present = False\<rparr>)
      in if not_configured config then blocked ''provider_adapter_not_configured'' 0
         else if ''FACEBOOK_LIST_MANAGED_PAGES'' \<notin> set (executable_action_slugs config ''facebook'')
         then blocked ''action_not_allowlisted'' 0
         else if user_id = [] \<or> connected_account_id = [] then blocked ''missing_user_or_connection'' 0
         else case reply of
             TransportError \<Rightarrow> blocked ''provider_transport_error'' 0
           | Reply status body \<Rightarrow>
               if \<not> accepted_status status then blocked ''provider_response_rejected'' status
               else case body of
                   Some (PDict d) \<Rightarrow>
                     let successful = (case dict_get d ''successful'' of Some v \<Rightarrow> truthy v | None \<Rightarrow> True)
                     in \<lparr>pl_ready = successful,
                         pl_reason = (if successful then ''ready'' else ''provider_execution_failed''),
                         pl_request_id = safe_request_id request_id, pl_status_code = status,
                         pl_pages = List.map_filter (page_option_from_item str_of)
                           (extract_page_items (PDict d)),
                         pl_error_present = truthy (mapping_get (PDict d) ''error'')\<rparr>
                 | _ \<Rightarrow> blocked ''provider_response_invalid'' status)"

section \<open>Properties\<close>

lemma lookup_ready_id:
  "lk_ready (resolve_auth_config_id str_of config p reply) \<Longrightarrow>
     lk_auth_config_id (resolve_auth_config_id str_of config p reply) \<noteq> []"
  by (auto simp: resolve_auth_config_id_def lookup_failed_def Let_def
      split: if_splits http_reply.splits option.splits list.splits)

lemma list_all_map_filter: "(\<And>a b. f a = Some b \<Longrightarrow> P b) \<Longrightarrow> list_all P (List.map_filter f xs)"
  by (induction xs) (auto simp: List.map_filter_simps split: option.splits)

text \<open>A connect link is ready only with a redirect target: a configured adapter, a user, a callback
  address and an auth configuration are there, the provider accepted the request and its object named the
  URL.\<close>

theorem ready_link_has_target:
  assumes "create_connect_link str_of config p user callback_url lookup_reply reply = Inr l" "ln_ready l"
  shows "ln_redirect_url l \<noteq> [] \<and> ln_reason l = ''ready'' \<and> \<not> not_configured config \<and> user \<noteq> []
    \<and> callback_url \<noteq> [] \<and> lk_auth_config_id (resolve_auth_config_id str_of config p lookup_reply) \<noteq> []
    \<and> (\<exists>status d. reply = Reply status (Some (PDict d)) \<and> accepted_status status)"
proof -
  have "is_mapping v \<Longrightarrow> \<exists>d. v = PDict d" for v by (cases v) auto
  moreover have "ln_ready (link_from_body str_of v) \<Longrightarrow>
      ln_redirect_url (link_from_body str_of v) \<noteq> [] \<and> ln_reason (link_from_body str_of v) = ''ready''" for v
    by (auto simp: link_from_body_def link_failed_def Let_def split: if_splits)
  ultimately show ?thesis
    using assms lookup_ready_id [of str_of config p lookup_reply]
    by (auto simp: create_connect_link_def link_failed_def Let_def
        split: if_splits http_reply.splits option.splits)
qed

definition linked_config :: composio_config where
  "linked_config =
     \<lparr>cc_enabled = True, cc_api_key = ''k'', cc_api_key_present = True, cc_base_url = ''https://c'',
      cc_api_version = ''v3'', cc_auth_config_by_provider = [(''gmail'', ''ac1'')],
      cc_readonly_execute_enabled = False, cc_readonly_allowlist = [],
      cc_apply_execute_enabled = False, cc_apply_allowlist = []\<rparr>"

theorem ready_link_has_target_witness:
  "case create_connect_link (\<lambda>_. []) linked_config ''gmail'' ''u'' ''https://w'' TransportError
      (Reply 201 (Some (PDict [(''redirectUrl'', PStr '' https://auth '')]))) of
     Inl _ \<Rightarrow> False | Inr l \<Rightarrow> ln_redirect_url l \<noteq> []"
proof -
  let ?r = "Reply 201 (Some (PDict [(''redirectUrl'', PStr '' https://auth '')]))"
  have "\<exists>l. create_connect_link (\<lambda>_. []) linked_config ''gmail'' ''u'' ''https://w'' TransportError ?r = Inr l
      \<and> ln_ready l"
  proof -
    have "\<not> not_configured linked_config" "auth_config_id_for_provider linked_config ''gmail'' = ''ac1''"
      "normalize_provider_slug ''gmail'' = ''gmail''"
      "ln_ready (link_from_body (\<lambda>_. []) (PDict [(''redirectUrl'', PStr '' https://auth '')]))"
      by code_simp+
    then show ?thesis
      by (simp add: create_connect_link_def resolve_auth_config_id_def accepted_status_def Let_def)
  qed
  then show ?thesis using ready_link_has_target by (fastforce split: sum.splits)
qed

text \<open>The only way a link request raises: everything is in order, the provider accepts, and the body is
  JSON but no object, on which the code calls \<open>get\<close>.\<close>

theorem link_raises_iff:
  "isl (create_connect_link str_of config p user callback_url lookup_reply reply) =
     (\<not> not_configured config \<and> user \<noteq> [] \<and> callback_url \<noteq> []
      \<and> lk_ready (resolve_auth_config_id str_of config p lookup_reply)
      \<and> (case reply of
           Reply status (Some data) \<Rightarrow> accepted_status status \<and> \<not> is_mapping data
         | _ \<Rightarrow> False))"
  by (auto simp: create_connect_link_def Let_def split: http_reply.splits option.splits)

lemma listed_from_accounts:
  "\<exists>items. cl_connections (list_connected_accounts str_of config p user lookup_reply reply)
     = List.map_filter (connection_from_account str_of p) items"
  by (auto simp: list_connected_accounts_def list_failed_def Let_def map_filter_simps(2)
      intro: exI [of _ "[]"] split: http_reply.split option.split)

text \<open>What the provider lists can only grant reading: each listed account belongs to the provider that
  was asked for, has an id, and its record grants no scope but read, and that only when the provider calls
  the account connected; its warning says so otherwise.\<close>

theorem listed_accounts_grant_at_most_read:
  "list_all (\<lambda>c. cr_provider_slug c = normalize_provider_slug p \<and> cr_connection_id c \<noteq> []
       \<and> enabled_scopes (cr_scopes c) = (if cr_active c then [ScRead] else [])
       \<and> (cr_warnings c = []) = cr_active c
       \<and> map_option vr_connection_id (cr_vault_ref c) = Some (cr_connection_id c))
     (cl_connections (list_connected_accounts str_of config p user lookup_reply reply))"
  (is "list_all ?ok _")
proof -
  have one: "connection_from_account str_of p a = Some c \<Longrightarrow> ?ok c" for a c
    by (auto simp: connection_from_account_def Let_def enabled_scopes_def no_scopes_def cr_active_def
        provider_managed_ref_def split: if_splits)
  obtain items where items: "cl_connections (list_connected_accounts str_of config p user lookup_reply reply)
      = List.map_filter (connection_from_account str_of p) items"
    using listed_from_accounts by blast
  show ?thesis unfolding items by (rule list_all_map_filter) (rule one)
qed

lemma strip_chars_subset: "set (strip_chars cs s) \<subseteq> set s"
  by (auto simp: strip_chars_def dest!: set_dropWhileD)

lemma strip_chars_length: "length (strip_chars cs s) \<le> length s"
  by (metis strip_chars_def length_dropWhile_le length_rev order_trans)

lemma strip_chars_hd: "strip_chars cs s \<noteq> [] \<Longrightarrow> hd (strip_chars cs s) \<notin> set cs"
proof -
  assume ne: "strip_chars cs s \<noteq> []"
  obtain ys where "dropWhile (\<lambda>c. c \<in> set cs) s = strip_chars cs s @ ys"
    using takeWhile_dropWhile_id [of "\<lambda>c. c \<in> set cs" "rev (dropWhile (\<lambda>c. c \<in> set cs) s)"]
    unfolding strip_chars_def by (metis rev_append rev_rev_ident)
  then have "hd (dropWhile (\<lambda>c. c \<in> set cs) s) = hd (strip_chars cs s)" "dropWhile (\<lambda>c. c \<in> set cs) s \<noteq> []"
    using ne by auto
  then show ?thesis using hd_dropWhile [of "\<lambda>c. c \<in> set cs" s] by simp
qed

text \<open>The file name sent to the provider is a plain name: at most 120 characters, letters, digits,
  blanks, dots, underscores and dashes only, so without any path separator, not starting with a dot, and
  never empty.\<close>

theorem staged_filename_is_plain:
  "safe_filename value \<noteq> [] \<and> length (safe_filename value) \<le> 120
   \<and> list_all (\<lambda>c. is_alnum c \<or> c \<in> set '' ._-'') (safe_filename value)
   \<and> hd (safe_filename value) \<notin> set '' .''"
proof -
  have d: "''wiii-upload'' \<noteq> [] \<and> length ''wiii-upload'' \<le> 120
    \<and> list_all (\<lambda>c. is_alnum c \<or> c \<in> set '' ._-'') ''wiii-upload'' \<and> hd ''wiii-upload'' \<notin> set '' .''"
    by code_simp
  let ?r = "\<lambda>t. strip_chars '' .'' (filter (\<lambda>c. is_alnum c \<or> c \<in> set '' ._-'') (take 120 t))"
  have "?r t \<noteq> [] \<Longrightarrow> length (?r t) \<le> 120 \<and> list_all (\<lambda>c. is_alnum c \<or> c \<in> set '' ._-'') (?r t)
      \<and> hd (?r t) \<notin> set '' .''" for t
    using strip_chars_subset [of "'' .''" "filter (\<lambda>c. is_alnum c \<or> c \<in> set '' ._-'') (take 120 t)"]
      strip_chars_length [of "'' .''" "filter (\<lambda>c. is_alnum c \<or> c \<in> set '' ._-'') (take 120 t)"]
      length_filter_le [of "\<lambda>c. is_alnum c \<or> c \<in> set '' ._-''" "take 120 t"]
      strip_chars_hd [of "'' .''" "filter (\<lambda>c. is_alnum c \<or> c \<in> set '' ._-'') (take 120 t)"]
    by (auto simp: list_all_iff)
  then show ?thesis using d unfolding safe_filename_def Let_def by (simp split: if_split)
qed

end
