(* ===== verification/Connect_Inventory.thy ===== *)
theory Connect_Inventory
  imports Connect_Gateway Connect_Registry
begin

text \<open>
  \<open>app/engine/wiii_connect/action_inventory.py\<close>: which curated actions of a provider an agent may see and
  which could run now, worked out before any tool schema is exposed. Every action is put to the execution
  gateway with a request that carries neither preview evidence nor an approval; an action that only
  lacks one of those is guarded, not blocked.
\<close>

section \<open>Data\<close>

datatype stage_status = StageReady | StagePending | StageBlocked
datatype inventory_status = InvReady | InvGuarded | InvBlocked

fun stage_status_value :: "stage_status \<Rightarrow> string" where
  "stage_status_value StageReady = ''ready''"
| "stage_status_value StagePending = ''pending''"
| "stage_status_value StageBlocked = ''blocked''"

fun inventory_status_value :: "inventory_status \<Rightarrow> string" where
  "inventory_status_value InvReady = ''ready''"
| "inventory_status_value InvGuarded = ''guarded''"
| "inventory_status_value InvBlocked = ''blocked''"

definition inventory_version :: string where
  "inventory_version = ''wiii_connect_action_inventory.v1''"

definition gateway_guarded_reasons :: "deny_reason list" where
  "gateway_guarded_reasons = [MissingPreviewEvidence, MissingApprovalToken]"

record action_stage =
  as_key :: string
  as_status :: stage_status
  as_reason :: string
  as_required_next :: "string list"

definition action_stage_metadata :: "action_stage \<Rightarrow> pyval" where
  "action_stage_metadata s = PDict
     [(''key'', PStr (as_key s)),
      (''status'', PStr (stage_status_value (as_status s))),
      (''reason'', PStr (as_reason s)),
      (''required_next'', PList (map PStr (as_required_next s)))]"

record action_row =
  iw_slug :: string
  iw_provider_slug :: string
  iw_label :: string
  iw_mutation :: action_mutation
  iw_path :: string
  iw_status :: inventory_status
  iw_reason :: string
  iw_runtime_enabled :: bool
  iw_visible_to_agent :: bool
  iw_executable_now :: bool
  iw_requires_preview :: bool
  iw_requires_approval :: bool
  iw_required_scopes :: "scope_name list"
  iw_argument_keys :: "string list"
  iw_hidden_argument_count :: nat
  iw_stages :: "action_stage list"
  iw_gateway :: "gateway_decision option"
  iw_warnings :: "string list"

definition action_row_metadata :: "action_row \<Rightarrow> pyval" where
  "action_row_metadata a = PDict
     [(''version'', PStr inventory_version),
      (''slug'', PStr (iw_slug a)),
      (''provider_slug'', PStr (iw_provider_slug a)),
      (''label'', PStr (iw_label a)),
      (''mutation'', PStr (mutation_value (iw_mutation a))),
      (''path'', PStr (iw_path a)),
      (''status'', PStr (inventory_status_value (iw_status a))),
      (''reason'', PStr (iw_reason a)),
      (''runtime_enabled'', PBool (iw_runtime_enabled a)),
      (''visible_to_agent'', PBool (iw_visible_to_agent a)),
      (''executable_now'', PBool (iw_executable_now a)),
      (''requires_preview'', PBool (iw_requires_preview a)),
      (''requires_approval'', PBool (iw_requires_approval a)),
      (''required_scopes'', PList (map (\<lambda>s. PStr (scope_value s)) (iw_required_scopes a))),
      (''argument_policy_version'', PStr argument_policy_version),
      (''argument_keys'', PList (map PStr (iw_argument_keys a))),
      (''model_argument_keys'', PList (map PStr (iw_argument_keys a))),
      (''hidden_argument_count'', PInt (int (iw_hidden_argument_count a))),
      (''stages'', PList (map action_stage_metadata (iw_stages a))),
      (''gateway'', (case iw_gateway a of Some g \<Rightarrow> gateway_decision_metadata g | None \<Rightarrow> PNone)),
      (''warnings'', PList (map PStr (iw_warnings a)))]"

record action_inventory =
  ai_provider_slug :: string
  ai_provider_kind :: provider_kind
  ai_status :: inventory_status
  ai_reason :: string
  ai_connection_ref_present :: bool
  ai_connection_present :: bool
  ai_connection_active :: bool
  ai_selected_connection_required :: bool
  ai_catalog_action_count :: nat
  ai_runtime_enabled_action_count :: nat
  ai_visible_action_count :: nat
  ai_executable_action_count :: nat
  ai_actions :: "action_row list"
  ai_storage :: "(string, pyval) dict option"

definition inventory_storage_keys :: "string list" where
  "inventory_storage_keys =
    [''version'', ''enabled'', ''persistent'', ''connection_table_ready'', ''audit_ledger_ready'',
     ''backend'', ''reason'']"

fun is_scalar_value :: "pyval \<Rightarrow> bool" where
  "is_scalar_value (PList _) = False"
| "is_scalar_value (PDict _) = False"
| "is_scalar_value (POther _) = False"
| "is_scalar_value _ = True"

definition inventory_storage_metadata :: "(string, pyval) dict \<Rightarrow> (string, pyval) dict" where
  "inventory_storage_metadata storage =
     filter (\<lambda>(key, value). key \<in> set inventory_storage_keys \<and> is_scalar_value value) storage"

definition action_inventory_metadata :: "action_inventory \<Rightarrow> pyval" where
  "action_inventory_metadata i = PDict
     [(''version'', PStr inventory_version),
      (''provider_slug'', PStr (ai_provider_slug i)),
      (''provider_kind'', PStr (provider_kind_value (ai_provider_kind i))),
      (''status'', PStr (inventory_status_value (ai_status i))),
      (''reason'', PStr (ai_reason i)),
      (''connection_ref_present'', PBool (ai_connection_ref_present i)),
      (''connection_present'', PBool (ai_connection_present i)),
      (''connection_active'', PBool (ai_connection_active i)),
      (''selected_connection_required'', PBool (ai_selected_connection_required i)),
      (''catalog_action_count'', PInt (int (ai_catalog_action_count i))),
      (''runtime_enabled_action_count'', PInt (int (ai_runtime_enabled_action_count i))),
      (''visible_action_count'', PInt (int (ai_visible_action_count i))),
      (''executable_action_count'', PInt (int (ai_executable_action_count i))),
      (''actions'', PList (map action_row_metadata (ai_actions i))),
      (''storage'', PDict (inventory_storage_metadata
         (case ai_storage i of Some s \<Rightarrow> s | None \<Rightarrow> [])))]"

section \<open>Operations\<close>

definition action_slug_set :: "string list \<Rightarrow> string set" where
  "action_slug_set values =
     set (map (\<lambda>value. dash_to_underscore (py_upper (py_strip value)))
       (filter (\<lambda>value. py_strip value \<noteq> []) values))"

definition required_scope_granted :: "curated_action \<Rightarrow> connection_record option \<Rightarrow> bool" where
  "required_scope_granted action connection =
     (case connection of
        None \<Rightarrow> False
      | Some c \<Rightarrow>
          list_all (allows (cr_scopes c))
            (if cu_required_scopes action \<noteq> [] then cu_required_scopes action else [ScRead]))"

definition action_block_reason :: "bool \<Rightarrow> deny_reason \<Rightarrow> string" where
  "action_block_reason runtime_enabled gateway_reason =
     (if \<not> runtime_enabled then ''action_not_runtime_enabled''
      else if deny_reason_value gateway_reason \<noteq> [] then deny_reason_value gateway_reason
      else ''blocked'')"

definition connection_live :: "connection_record option \<Rightarrow> bool" where
  "connection_live connection = (case connection of None \<Rightarrow> False | Some c \<Rightarrow> cr_active c)"

definition action_stages ::
  "bool \<Rightarrow> provider_entry \<Rightarrow> connection_record option \<Rightarrow> bool \<Rightarrow> gateway_decision \<Rightarrow> action_stage list"
where
  "action_stages runtime_enabled entry connection scope_visible gateway =
     (let live = connection_live connection;
          agent = (pe_enabled entry \<and> pe_agent_ready entry);
          reason = xd_reason (gd_decision gateway)
      in [\<lparr>as_key = ''catalog'', as_status = StageReady, as_reason = ''curated'', as_required_next = []\<rparr>,
          \<lparr>as_key = ''runtime_enablement'',
           as_status = (if runtime_enabled then StageReady else StageBlocked),
           as_reason = (if runtime_enabled then ''enabled'' else ''action_not_runtime_enabled''),
           as_required_next = (if runtime_enabled then [] else [''enable_action_runtime_allowlist''])\<rparr>,
          \<lparr>as_key = ''account'',
           as_status = (if live then StageReady
             else if connection \<noteq> None then StagePending else StageBlocked),
           as_reason = (if live then ''connected''
             else if connection \<noteq> None then ''connection_not_connected'' else ''connection_missing''),
           as_required_next = (if live then []
             else if connection \<noteq> None then [''refresh_or_reconnect_provider_account'']
             else [''connect_provider_account''])\<rparr>,
          \<lparr>as_key = ''agent_policy'',
           as_status = (if agent \<and> scope_visible then StageReady else StageBlocked),
           as_reason = (if agent \<and> scope_visible then ''agent_ready''
             else if agent then ''missing_scope'' else ''provider_not_agent_ready''),
           as_required_next = (if agent \<and> scope_visible then []
             else if agent then [''grant_required_scope''] else [''enable_provider_agent_policy''])\<rparr>,
          \<lparr>as_key = ''gateway'',
           as_status = (if gd_allowed gateway then StageReady
             else if reason \<in> set gateway_guarded_reasons then StagePending else StageBlocked),
           as_reason = deny_reason_value reason,
           as_required_next = gd_required_next gateway\<rparr>])"

text \<open>The arguments every action of an inventory shares.\<close>

record inventory_inputs =
  ii_entry :: provider_entry
  ii_connection :: "connection_record option"
  ii_adapter :: adapter_capability
  ii_enabled_slugs :: "string list"
  ii_audit_metadata :: "(string, pyval) dict option"
  ii_connection_ref_present :: bool
  ii_selection_required :: bool
  ii_storage :: "(string, pyval) dict option"
  ii_scope_policy :: "scope_policy option"

definition action_request :: "inventory_inputs \<Rightarrow> curated_action \<Rightarrow> execution_request" where
  "action_request i action =
     \<lparr>xr_provider_slug = pe_slug (ii_entry i), xr_action_slug = cu_slug action, xr_path = cu_path action,
      xr_mutation = cu_mutation action, xr_approval_token_present = False,
      xr_preview_evidence_id = None, xr_preview_evidence_required = cu_requires_preview action,
      xr_argument_keys = cu_argument_keys action, xr_request_id = []\<rparr>"

definition action_gateway :: "inventory_inputs \<Rightarrow> scope_policy \<Rightarrow> curated_action \<Rightarrow> gateway_decision" where
  "action_gateway i policy action =
     decide_execution_gateway (ii_entry i) (ii_connection i) (action_request i action)
       \<lparr>go_adapter = Some (ii_adapter i),
        go_audit_metadata = Some (case ii_audit_metadata i of Some m \<Rightarrow> m | None \<Rightarrow> []),
        go_require_persistent_audit = True, go_selection_required = ii_selection_required i,
        go_scope_policy = Some policy\<rparr>"

definition effective_action_row ::
  "inventory_inputs \<Rightarrow> scope_policy \<Rightarrow> bool \<Rightarrow> curated_action \<Rightarrow> action_row" where
  "effective_action_row i policy runtime_enabled action =
     (let gateway = action_gateway i policy action;
          reason = xd_reason (gd_decision gateway);
          scope_visible = required_scope_granted action (ii_connection i);
          visible = (runtime_enabled \<and> pe_enabled (ii_entry i) \<and> pe_agent_ready (ii_entry i)
            \<and> connection_live (ii_connection i) \<and> scope_visible);
          executable = (runtime_enabled \<and> gd_allowed gateway);
          guarded = (visible \<and> reason \<in> set gateway_guarded_reasons)
      in \<lparr>iw_slug = cu_slug action, iw_provider_slug = cu_provider_slug action,
          iw_label = cu_label action, iw_mutation = cu_mutation action, iw_path = cu_path action,
          iw_status = (if executable then InvReady else if guarded then InvGuarded else InvBlocked),
          iw_reason = (if executable then ''ready''
            else if guarded then deny_reason_value reason
            else action_block_reason runtime_enabled reason),
          iw_runtime_enabled = runtime_enabled, iw_visible_to_agent = visible,
          iw_executable_now = executable, iw_requires_preview = cu_requires_preview action,
          iw_requires_approval = cu_requires_approval action,
          iw_required_scopes = cu_required_scopes action,
          iw_argument_keys = model_visible_argument_keys (cu_provider_slug action) (cu_slug action)
            (cu_argument_keys action),
          iw_hidden_argument_count = hidden_model_argument_key_count (cu_provider_slug action)
            (cu_slug action) (cu_argument_keys action),
          iw_stages = action_stages runtime_enabled (ii_entry i) (ii_connection i) scope_visible gateway,
          iw_gateway = Some gateway, iw_warnings = cu_warnings action\<rparr>)"

definition inventory_block_reason ::
  "provider_entry \<Rightarrow> connection_record option \<Rightarrow> bool \<Rightarrow> action_row list \<Rightarrow> string" where
  "inventory_block_reason entry connection selection_required actions =
     (if \<not> pe_enabled entry \<or> \<not> pe_agent_ready entry then ''provider_not_agent_ready''
      else if selection_required then ''connection_selection_required''
      else if connection = None then ''connection_missing''
      else if \<not> connection_live connection then ''connection_not_connected''
      else if actions \<noteq> [] \<and> list_all (\<lambda>a. \<not> iw_runtime_enabled a) actions
      then ''no_runtime_enabled_actions''
      else if actions \<noteq> [] \<and> list_all (\<lambda>a. iw_reason a = ''missing_scope'') actions
      then ''missing_scope''
      else case actions of a # _ \<Rightarrow> iw_reason a | [] \<Rightarrow> ''no_curated_actions'')"

definition inventory_rows :: "inventory_inputs \<Rightarrow> action_row list" where
  "inventory_rows i =
     (let enabled = action_slug_set (ii_enabled_slugs i);
          policy = (case ii_scope_policy i of
             Some p \<Rightarrow> p | None \<Rightarrow> scope_policy_for_entry (ii_entry i))
      in map (\<lambda>action. effective_action_row i policy (cu_slug action \<in> enabled) action)
           (list_curated_actions (Some (pe_slug (ii_entry i))) True))"

definition build_action_inventory :: "inventory_inputs \<Rightarrow> action_inventory" where
  "build_action_inventory i =
     (let actions = inventory_rows i;
          visible = length (filter iw_visible_to_agent actions);
          executable = length (filter iw_executable_now actions)
      in \<lparr>ai_provider_slug = pe_slug (ii_entry i), ai_provider_kind = pe_provider_kind (ii_entry i),
          ai_status = (if executable > 0 then InvReady else if visible > 0 then InvGuarded else InvBlocked),
          ai_reason = (if executable > 0 then ''ready''
            else if visible > 0 then ''preview_or_approval_required''
            else inventory_block_reason (ii_entry i) (ii_connection i) (ii_selection_required i) actions),
          ai_connection_ref_present = ii_connection_ref_present i,
          ai_connection_present = (ii_connection i \<noteq> None),
          ai_connection_active = connection_live (ii_connection i),
          ai_selected_connection_required = ii_selection_required i,
          ai_catalog_action_count = length actions,
          ai_runtime_enabled_action_count = length (filter iw_runtime_enabled actions),
          ai_visible_action_count = visible, ai_executable_action_count = executable,
          ai_actions = actions, ai_storage = ii_storage i\<rparr>)"

section \<open>Facts\<close>

lemma catalog_shape:
  "a \<in> set (list_curated_actions p d) \<Longrightarrow>
     cu_required_scopes a = [required_scope_for_mutation (cu_mutation a)]
     \<and> cu_requires_preview a = (cu_mutation a \<noteq> MRead) \<and> cu_mutation a \<in> {MRead, MApply}"
  by (drule list_curated_member) (auto simp: curated_actions_def read_action_def apply_action_def)

lemma inventory_rows_member:
  "r \<in> set (inventory_rows i) \<Longrightarrow>
     \<exists>a policy. a \<in> set (list_curated_actions (Some (pe_slug (ii_entry i))) True)
       \<and> r = effective_action_row i policy (cu_slug a \<in> action_slug_set (ii_enabled_slugs i)) a"
  unfolding inventory_rows_def Let_def by auto

lemma row_fields:
  "iw_executable_now (effective_action_row i policy enabled a)
     = (enabled \<and> gd_allowed (action_gateway i policy a))"
  "iw_runtime_enabled (effective_action_row i policy enabled a) = enabled"
  "iw_visible_to_agent (effective_action_row i policy enabled a)
     = (enabled \<and> pe_enabled (ii_entry i) \<and> pe_agent_ready (ii_entry i)
        \<and> connection_live (ii_connection i) \<and> required_scope_granted a (ii_connection i))"
  "iw_mutation (effective_action_row i policy enabled a) = cu_mutation a"
  "iw_slug (effective_action_row i policy enabled a) = cu_slug a"
  "iw_gateway (effective_action_row i policy enabled a) = Some (action_gateway i policy a)"
  "iw_stages (effective_action_row i policy enabled a)
     = action_stages enabled (ii_entry i) (ii_connection i)
         (required_scope_granted a (ii_connection i)) (action_gateway i policy a)"
  by (simp_all add: effective_action_row_def Let_def)

lemma row_status:
  "iw_status (effective_action_row i policy enabled a) = InvReady
     \<longleftrightarrow> iw_executable_now (effective_action_row i policy enabled a)"
  "iw_status (effective_action_row i policy enabled a) = InvGuarded
     \<longleftrightarrow> \<not> iw_executable_now (effective_action_row i policy enabled a)
       \<and> iw_visible_to_agent (effective_action_row i policy enabled a)
       \<and> xd_reason (gd_decision (action_gateway i policy a)) \<in> set gateway_guarded_reasons"
  by (auto simp: effective_action_row_def Let_def)

text \<open>What the gateway's approval of an action's bare request says.\<close>

lemma action_gateway_allows:
  assumes "gd_allowed (action_gateway i policy a)"
  shows "pe_enabled (ii_entry i)" "pe_agent_ready (ii_entry i)" "connection_live (ii_connection i)"
    "\<not> ii_selection_required i" "\<not> cu_requires_preview a" "cu_mutation a \<noteq> MApply"
    "\<exists>c. ii_connection i = Some c \<and> allows (cr_scopes c) (required_scope_for_mutation (cu_mutation a))"
  using assms unfolding action_gateway_def gateway_allowed_fact decide_allowed_iff execution_checks_def
  by (auto simp: action_request_def connection_live_def str_or_empty_def)

lemma executable_row:
  assumes "a \<in> set (list_curated_actions p d)"
    and "iw_executable_now (effective_action_row i policy enabled a)"
  shows "iw_visible_to_agent (effective_action_row i policy enabled a) \<and> cu_mutation a = MRead"
proof -
  have g: "gd_allowed (action_gateway i policy a)" and e: enabled
    using assms(2) by (simp_all add: row_fields)
  obtain c where "ii_connection i = Some c" "allows (cr_scopes c) (required_scope_for_mutation (cu_mutation a))"
    using action_gateway_allows(7) [OF g] by blast
  with catalog_shape [OF assms(1)] action_gateway_allows [OF g] e show ?thesis
    by (auto simp: row_fields required_scope_granted_def)
qed

lemma stages_ready_iff:
  "list_all (\<lambda>s. as_status s = StageReady) (action_stages enabled entry connection visible gateway)
     = (enabled \<and> connection_live connection \<and> pe_enabled entry \<and> pe_agent_ready entry \<and> visible
        \<and> gd_allowed gateway)"
  by (auto simp: action_stages_def Let_def)

section \<open>Properties\<close>

text \<open>The inventory never advertises a write as executable: in the inventory of any provider, under
  any configuration, an action that is executable now only reads, was switched on at run time, is visible
  to the agent, has the gateway's approval, and its row says ready; a row says ready for nothing else.\<close>

theorem advertised_actions_only_read:
  "list_all (\<lambda>a. (iw_status a = InvReady) = iw_executable_now a
      \<and> (if iw_executable_now a
         then iw_mutation a = MRead \<and> iw_runtime_enabled a \<and> iw_visible_to_agent a
           \<and> (case iw_gateway a of Some g \<Rightarrow> gd_allowed g | None \<Rightarrow> False)
         else True)) (inventory_rows i)"
  unfolding list_all_iff
proof (intro ballI)
  fix r assume "r \<in> set (inventory_rows i)"
  then obtain a policy
    where a: "a \<in> set (list_curated_actions (Some (pe_slug (ii_entry i))) True)"
      and r: "r = effective_action_row i policy (cu_slug a \<in> action_slug_set (ii_enabled_slugs i)) a"
    using inventory_rows_member by blast
  show "(iw_status r = InvReady) = iw_executable_now r
      \<and> (if iw_executable_now r
         then iw_mutation r = MRead \<and> iw_runtime_enabled r \<and> iw_visible_to_agent r
           \<and> (case iw_gateway r of Some g \<Rightarrow> gd_allowed g | None \<Rightarrow> False)
         else True)"
    using executable_row [OF a] unfolding r by (auto simp: row_status row_fields)
qed

text \<open>The stages explain the verdict: an action is executable now exactly when all five stages of its
  row are ready. A row that is not executable therefore shows the stage that stops it.\<close>

theorem executable_iff_all_stages_ready:
  "list_all (\<lambda>a. length (iw_stages a) = 5
      \<and> iw_executable_now a = list_all (\<lambda>s. as_status s = StageReady) (iw_stages a)) (inventory_rows i)"
  unfolding list_all_iff [of _ "inventory_rows i"]
proof (intro ballI)
  fix r assume "r \<in> set (inventory_rows i)"
  then obtain a policy
    where a: "a \<in> set (list_curated_actions (Some (pe_slug (ii_entry i))) True)"
      and r: "r = effective_action_row i policy (cu_slug a \<in> action_slug_set (ii_enabled_slugs i)) a"
    using inventory_rows_member by blast
  show "length (iw_stages r) = 5
      \<and> iw_executable_now r = list_all (\<lambda>s. as_status s = StageReady) (iw_stages r)"
    using executable_row [OF a, of i policy "cu_slug a \<in> action_slug_set (ii_enabled_slugs i)"]
    unfolding r row_fields stages_ready_iff by (auto simp: row_fields action_stages_def Let_def)
qed

text \<open>The counts of an inventory are consistent: executable actions are visible, visible ones are
  enabled, enabled ones are in the catalog; the status is ready exactly when something can run, and
  blocked exactly when the agent can see nothing.\<close>

theorem inventory_counts_nest:
  "let v = build_action_inventory i in
     ai_executable_action_count v \<le> ai_visible_action_count v
     \<and> ai_visible_action_count v \<le> ai_runtime_enabled_action_count v
     \<and> ai_runtime_enabled_action_count v \<le> ai_catalog_action_count v
     \<and> (ai_status v = InvReady) = list_ex iw_executable_now (ai_actions v)
     \<and> (ai_status v = InvBlocked) = list_all (\<lambda>a. \<not> iw_visible_to_agent a) (ai_actions v)"
proof -
  let ?rows = "inventory_rows i"
  have rows: "r \<in> set ?rows \<Longrightarrow> (iw_executable_now r \<longrightarrow> iw_visible_to_agent r)
      \<and> (iw_visible_to_agent r \<longrightarrow> iw_runtime_enabled r)" for r
    using inventory_rows_member [of r i] executable_row by (fastforce simp: row_fields)
  have le: "length (filter P xs) \<le> length (filter Q xs)" if "\<And>x. x \<in> set xs \<Longrightarrow> P x \<longrightarrow> Q x"
    for P Q :: "action_row \<Rightarrow> bool" and xs
    using that by (induction xs) (auto intro: le_SucI)
  have "length (filter iw_executable_now ?rows) \<le> length (filter iw_visible_to_agent ?rows)"
    "length (filter iw_visible_to_agent ?rows) \<le> length (filter iw_runtime_enabled ?rows)"
    using rows by (blast intro: le)+
  moreover have "(0 < length (filter P xs)) = list_ex P xs" for P and xs :: "action_row list"
    by (induction xs) auto
  moreover have "list_all (\<lambda>a. \<not> iw_visible_to_agent a) ?rows = (\<not> list_ex iw_visible_to_agent ?rows)"
    by (auto simp: list_all_iff list_ex_iff)
  moreover have "list_ex iw_executable_now ?rows \<Longrightarrow> list_ex iw_visible_to_agent ?rows"
    using rows by (auto simp: list_ex_iff)
  ultimately show ?thesis
    by (auto simp: build_action_inventory_def Let_def)
qed

definition unbound_inputs :: inventory_inputs where
  "unbound_inputs =
     \<lparr>ii_entry = sample_entry\<lparr>pe_slug := ''gmail'', pe_action_allowlist := [''gmail_*''],
        pe_default_scopes := no_scopes\<lparr>sg_read := True\<rparr>\<rparr>,
      ii_connection = Some (sample_connection\<lparr>cr_provider_slug := ''gmail''\<rparr>), ii_adapter = default_adapter_capability Composio,
      ii_enabled_slugs = [''gmail-fetch-emails''], ii_audit_metadata = None,
      ii_connection_ref_present = True, ii_selection_required = False, ii_storage = None,
      ii_scope_policy = None\<rparr>"

lemma gmail_catalog: "list_curated_actions (Some ''gmail'') True = [hd curated_actions]"
proof -
  have n: "normalize_provider_slug ''gmail'' = ''gmail''" by code_simp
  show ?thesis
    by (simp add: list_curated_actions_def n str_or_empty_def curated_actions_def read_action_def
        apply_action_def)
qed

lemma unbound_rows:
  "inventory_rows unbound_inputs =
     [effective_action_row unbound_inputs (scope_policy_for_entry (ii_entry unbound_inputs)) True
        (hd curated_actions)]"
proof -
  have "cu_slug (hd curated_actions) \<in> action_slug_set [''gmail-fetch-emails'']" by code_simp
  moreover have "pe_slug (ii_entry unbound_inputs) = ''gmail''"
    "ii_enabled_slugs unbound_inputs = [''gmail-fetch-emails'']" "ii_scope_policy unbound_inputs = None"
    by (simp_all add: unbound_inputs_def)
  ultimately show ?thesis by (simp add: inventory_rows_def gmail_catalog)
qed

text \<open>A status the rows do not bear out: with the provider's adapter not bound, nothing in the
  inventory is guarded, every row is blocked, and still the inventory says that a preview or an approval
  is what is missing.\<close>

theorem guarded_without_guarded_rows:
  "let v = build_action_inventory unbound_inputs in
     ai_status v = InvGuarded \<and> ai_reason v = ''preview_or_approval_required''
     \<and> list_all (\<lambda>a. iw_status a = InvBlocked) (ai_actions v)
     \<and> list_ex (\<lambda>a. iw_reason a = ''provider_adapter_not_bound'') (ai_actions v)"
proof -
  let ?p = "scope_policy_for_entry (ii_entry unbound_inputs)" and ?a = "hd curated_actions"
  have reason: "xd_reason (gd_decision (action_gateway unbound_inputs ?p ?a)) = ProviderAdapterNotBound"
    by code_simp
  then have "\<not> gd_allowed (action_gateway unbound_inputs ?p ?a)"
    unfolding action_gateway_def by (subst gateway_fields(2) [symmetric]) simp
  with reason have "iw_status (effective_action_row unbound_inputs ?p True ?a) = InvBlocked"
    "iw_reason (effective_action_row unbound_inputs ?p True ?a) = ''provider_adapter_not_bound''"
    "\<not> iw_executable_now (effective_action_row unbound_inputs ?p True ?a)"
    by (simp_all add: effective_action_row_def gateway_guarded_reasons_def action_block_reason_def Let_def)
  moreover have "iw_visible_to_agent (effective_action_row unbound_inputs ?p True ?a)"
    unfolding row_fields by code_simp
  ultimately show ?thesis by (simp add: build_action_inventory_def unbound_rows)
qed

end
