(* ===== verification/Connect_Readiness.thy ===== *)
theory Connect_Readiness
  imports Connect_Inventory
begin

text \<open>
  \<open>app/engine/wiii_connect/activation_readiness.py\<close>: the gates of a provider put side by side into one
  projection for operators, with the metadata filter of that projection. Reasons are text here, as in
  the code, since they come from several subsystems and from the storage status.
\<close>

section \<open>The metadata filter\<close>

definition activation_sensitive_markers :: "string list" where
  "activation_sensitive_markers =
    [''token'', ''secret'', ''password'', ''credential'', ''api_key'', ''client_key'', ''private_key'',
     ''authorization_code'', ''oauth_code'']"

definition has_activation_marker :: "string \<Rightarrow> bool" where
  "has_activation_marker t = list_ex (\<lambda>marker. contains marker t) activation_sensitive_markers"

definition activation_safe_key :: "string \<Rightarrow> string" where
  "activation_safe_key value =
     (let t = take 120 (dash_to_underscore (py_lower (py_strip value)))
      in if t = [] then ''unknown'' else t)"

definition activation_safe_reason :: "string \<Rightarrow> string" where
  "activation_safe_reason value =
     (let t = dash_to_underscore (py_lower (py_strip value))
      in if has_activation_marker t then ''redacted_sensitive_value''
         else if take 160 t = [] then ''ready'' else take 160 t)"

definition activation_safe_text :: "string \<Rightarrow> string" where
  "activation_safe_text value =
     (let t = py_strip value
      in if has_activation_marker (py_lower t) then ''redacted_sensitive_value'' else take 240 t)"

fun activation_safe_metadata :: "pyval \<Rightarrow> pyval" where
  "activation_safe_metadata (PDict items) =
     PDict (fold (\<lambda>(raw_key, clean) result.
         let key = activation_safe_key raw_key in
         if has_activation_marker (py_lower key)
         then dict_set ''redacted_sensitive_field'' (PStr ''[redacted]'') result
         else dict_set key clean result)
       (map (\<lambda>(raw_key, raw_value). (raw_key, activation_safe_metadata raw_value)) items) [])"
| "activation_safe_metadata (PList items) = PList (map activation_safe_metadata items)"
| "activation_safe_metadata (PStr s) = PStr (activation_safe_text s)"
| "activation_safe_metadata v = v"

section \<open>Gates\<close>

record activation_gate =
  gt_key :: string
  gt_ready :: bool
  gt_reason :: string
  gt_required_next :: "string list"
  gt_metadata :: "(string, pyval) dict"

definition activation_gate_metadata :: "activation_gate \<Rightarrow> pyval" where
  "activation_gate_metadata g = PDict
     [(''key'', PStr (activation_safe_key (gt_key g))),
      (''ready'', PBool (gt_ready g)),
      (''reason'', PStr (activation_safe_reason (gt_reason g))),
      (''required_next'', PList (map (\<lambda>v. PStr (activation_safe_key v)) (gt_required_next g))),
      (''metadata'', activation_safe_metadata (PDict (gt_metadata g)))]"

definition storage_flag :: "(string, pyval) dict \<Rightarrow> string \<Rightarrow> bool" where
  "storage_flag storage key = (case dict_get storage key of None \<Rightarrow> False | Some v \<Rightarrow> truthy v)"

definition activation_storage_ready :: "(string, pyval) dict \<Rightarrow> bool" where
  "activation_storage_ready storage =
     (storage_flag storage ''persistent'' \<and> storage_flag storage ''connection_table_ready''
      \<and> storage_flag storage ''audit_ledger_ready'')"

definition storage_reason_or :: "(pyval \<Rightarrow> string) \<Rightarrow> (string, pyval) dict \<Rightarrow> string \<Rightarrow> string" where
  "storage_reason_or str_of storage fallback =
     (case dict_get storage ''reason'' of
        None \<Rightarrow> fallback
      | Some v \<Rightarrow> if truthy v then py_text str_of v else fallback)"

definition provider_gate :: "provider_entry option \<Rightarrow> activation_gate" where
  "provider_gate entry =
     (case entry of
        None \<Rightarrow> \<lparr>gt_key = ''provider_registered'', gt_ready = False, gt_reason = ''unknown_provider'',
          gt_required_next = [''register_provider''], gt_metadata = []\<rparr>
      | Some e \<Rightarrow>
          let metadata = [(''provider_kind'', PStr (provider_kind_value (pe_provider_kind e)))] in
          if pe_provider_kind e \<noteq> Composio
          then \<lparr>gt_key = ''provider_registered'', gt_ready = False,
            gt_reason = ''provider_kind_not_composio'', gt_required_next = [''select_composio_provider''],
            gt_metadata = metadata\<rparr>
          else \<lparr>gt_key = ''provider_registered'', gt_ready = True, gt_reason = ''ready'',
            gt_required_next = [], gt_metadata = metadata\<rparr>)"

definition adapter_gate :: "adapter_capability \<Rightarrow> activation_gate" where
  "adapter_gate c =
     \<lparr>gt_key = ''provider_adapter'', gt_ready = authorization_ready c, gt_reason = ac_reason c,
      gt_required_next = (if authorization_ready c then [] else [''configure_composio_adapter'']),
      gt_metadata =
        [(''bound'', PBool (ac_bound c)), (''configured'', PBool (ac_configured c)),
         (''can_create_authorization_url'', PBool (ac_can_create_authorization_url c)),
         (''can_execute_actions'', PBool (ac_can_execute_actions c))]\<rparr>"

definition vault_gate :: "vault_capability \<Rightarrow> activation_gate" where
  "vault_gate c =
     \<lparr>gt_key = ''vault'', gt_ready = can_store_external_secret c, gt_reason = vc_reason c,
      gt_required_next =
        (if can_store_external_secret c then [] else [''configure_provider_managed_vault'']),
      gt_metadata =
        [(''backend'', PStr (vault_backend_value (vc_backend c))),
         (''provider_managed'', PBool (vc_provider_managed c))]\<rparr>"

definition storage_gate :: "(pyval \<Rightarrow> string) \<Rightarrow> (string, pyval) dict \<Rightarrow> activation_gate" where
  "storage_gate str_of storage =
     (let ready = activation_storage_ready storage in
      \<lparr>gt_key = ''persistent_storage'', gt_ready = ready,
       gt_reason = storage_reason_or str_of storage (if ready then ''ready'' else ''storage_not_ready''),
       gt_required_next = (if ready then [] else [''apply_wiii_connect_storage_migration'']),
       gt_metadata = map (\<lambda>key. (key, PBool (storage_flag storage key)))
         [''persistent'', ''connection_table_ready'', ''audit_ledger_ready'']\<rparr>)"

definition audit_ready :: "(string, pyval) dict \<Rightarrow> bool" where
  "audit_ready storage = (storage_flag storage ''persistent'' \<and> storage_flag storage ''audit_ledger_ready'')"

definition audit_gate :: "(pyval \<Rightarrow> string) \<Rightarrow> (string, pyval) dict \<Rightarrow> activation_gate" where
  "audit_gate str_of storage =
     \<lparr>gt_key = ''audit_ledger'', gt_ready = audit_ready storage,
      gt_reason = storage_reason_or str_of storage
        (if audit_ready storage then ''ready'' else ''audit_not_ready''),
      gt_required_next = (if audit_ready storage then [] else [''configure_persistent_audit_ledger'']),
      gt_metadata = map (\<lambda>key. (key, PBool (storage_flag storage key)))
        [''persistent'', ''audit_ledger_ready'']\<rparr>"

definition connect_policy_gate :: "provider_entry option \<Rightarrow> activation_gate" where
  "connect_policy_gate entry =
     (let ready = (case entry of Some e \<Rightarrow> pe_enabled e | None \<Rightarrow> False) in
      \<lparr>gt_key = ''connect_policy'', gt_ready = ready,
       gt_reason = (if ready then ''ready'' else ''provider_disabled''),
       gt_required_next = (if ready then [] else [''enable_connect_policy'']),
       gt_metadata =
         [(''agent_ready'', PBool (case entry of Some e \<Rightarrow> pe_agent_ready e | None \<Rightarrow> False)),
          (''connect_requirements'', PList (map PStr
             (case entry of Some e \<Rightarrow> connection_requirements e | None \<Rightarrow> []))),
          (''agent_ready_requirements'', PList (map PStr
             (case entry of Some e \<Rightarrow> pe_agent_ready_requirements e | None \<Rightarrow> [])))]\<rparr>)"

definition curated_action_gate :: "curated_action option \<Rightarrow> bool \<Rightarrow> activation_gate" where
  "curated_action_gate action runtime_enabled =
     (case action of
        None \<Rightarrow> \<lparr>gt_key = ''curated_action'', gt_ready = False, gt_reason = ''action_not_curated'',
          gt_required_next = [''curate_action''], gt_metadata = []\<rparr>
      | Some a \<Rightarrow>
          \<lparr>gt_key = (if cu_mutation a = MRead then ''curated_readonly_action'' else ''curated_action''),
           gt_ready = runtime_enabled,
           gt_reason = (if runtime_enabled then ''ready'' else ''action_not_runtime_enabled''),
           gt_required_next = (if runtime_enabled then [] else [''enable_action_allowlist'']),
           gt_metadata =
             [(''action_slug'', PStr (cu_slug a)), (''mutation'', PStr (mutation_value (cu_mutation a))),
              (''runtime_enabled'', PBool runtime_enabled),
              (''requires_preview'', PBool (cu_requires_preview a)),
              (''requires_approval'', PBool (cu_requires_approval a))]\<rparr>)"

definition activation_connection_metadata :: "connection_record option \<Rightarrow> (string, pyval) dict" where
  "activation_connection_metadata connection =
     (case connection of
        None \<Rightarrow>
          [(''present'', PBool False), (''state'', PStr ''missing''), (''active'', PBool False),
           (''vault_ref_present'', PBool False), (''scopes'', PDict []),
           (''reason'', PStr ''connection_missing''), (''warnings'', PList [])]
      | Some c \<Rightarrow>
          [(''present'', PBool True),
           (''provider_slug'', PStr (activation_safe_key (cr_provider_slug c))),
           (''state'', PStr (connection_state_value (cr_state c))),
           (''active'', PBool (cr_active c)),
           (''scopes'', scope_grant_metadata (cr_scopes c)),
           (''vault_ref_present'', PBool (cr_vault_ref c \<noteq> None)),
           (''account_label_present'', PBool (cr_account_label c \<noteq> [])),
           (''external_account_ref_present'', PBool (cr_external_account_ref c \<noteq> [])),
           (''last_checked_at_present'', PBool (str_or_empty (cr_last_checked_at c) \<noteq> [])),
           (''reason'', PStr (activation_safe_reason (cr_reason c))),
           (''warnings'', PList (map (\<lambda>w. PStr (activation_safe_reason w)) (cr_warnings c)))])"

definition connection_gate :: "connection_record option \<Rightarrow> activation_gate" where
  "connection_gate connection =
     (case connection of
        None \<Rightarrow> \<lparr>gt_key = ''local_connection'', gt_ready = False, gt_reason = ''connection_missing'',
          gt_required_next = [''complete_provider_oauth''], gt_metadata = []\<rparr>
      | Some c \<Rightarrow>
          \<lparr>gt_key = ''local_connection'', gt_ready = cr_active c,
           gt_reason = (if cr_active c then ''ready'' else ''connection_not_connected''),
           gt_required_next = (if cr_active c then [] else [''refresh_or_reconnect_provider_account'']),
           gt_metadata = activation_connection_metadata connection\<rparr>)"

definition execution_gateway_gate :: "gateway_decision option \<Rightarrow> activation_gate" where
  "execution_gateway_gate gateway =
     (case gateway of
        None \<Rightarrow> \<lparr>gt_key = ''execution_gateway'', gt_ready = False, gt_reason = ''gateway_not_evaluated'',
          gt_required_next = [''evaluate_execution_gateway''], gt_metadata = []\<rparr>
      | Some g \<Rightarrow>
          \<lparr>gt_key = ''execution_gateway'', gt_ready = gd_allowed g,
           gt_reason = deny_reason_value (xd_reason (gd_decision g)),
           gt_required_next = gd_required_next g,
           gt_metadata =
             [(''connection_present'', PBool (gd_connection_present g)),
              (''audit_persistent'', PBool (gd_audit_persistent g))]\<rparr>)"

section \<open>The projection\<close>

record readiness_inputs =
  ri_provider_slug :: string
  ri_connect_entry :: "provider_entry option"
  ri_execution_entry :: "provider_entry option"
  ri_adapter :: adapter_capability
  ri_vault :: vault_capability
  ri_storage :: "(string, pyval) dict"
  ri_action :: "curated_action option"
  ri_action_runtime_enabled :: bool
  ri_connection :: "connection_record option"
  ri_gateway :: "gateway_decision option"

definition ready_to_connect :: "readiness_inputs \<Rightarrow> bool" where
  "ready_to_connect r =
     ((case ri_connect_entry r of Some e \<Rightarrow> pe_enabled e | None \<Rightarrow> False)
      \<and> authorization_ready (ri_adapter r) \<and> can_store_external_secret (ri_vault r)
      \<and> activation_storage_ready (ri_storage r) \<and> audit_ready (ri_storage r))"

definition ready_to_execute_action :: "readiness_inputs \<Rightarrow> bool" where
  "ready_to_execute_action r =
     (ready_to_connect r \<and> ri_action r \<noteq> None \<and> ri_action_runtime_enabled r
      \<and> connection_live (ri_connection r)
      \<and> (case ri_gateway r of Some g \<Rightarrow> gd_allowed g | None \<Rightarrow> False))"

definition ready_to_execute_readonly :: "readiness_inputs \<Rightarrow> bool" where
  "ready_to_execute_readonly r =
     (ready_to_execute_action r
      \<and> (case ri_action r of Some a \<Rightarrow> cu_mutation a = MRead | None \<Rightarrow> False))"

definition activation_gates :: "(pyval \<Rightarrow> string) \<Rightarrow> readiness_inputs \<Rightarrow> activation_gate list" where
  "activation_gates str_of r =
     [provider_gate (ri_connect_entry r), adapter_gate (ri_adapter r), vault_gate (ri_vault r),
      storage_gate str_of (ri_storage r), audit_gate str_of (ri_storage r),
      connect_policy_gate (ri_connect_entry r),
      curated_action_gate (ri_action r) (ri_action_runtime_enabled r),
      connection_gate (ri_connection r), execution_gateway_gate (ri_gateway r)]"

fun first_blocked_gate_reason :: "activation_gate list \<Rightarrow> string" where
  "first_blocked_gate_reason [] = ''connected''"
| "first_blocked_gate_reason (g # gs) =
     (if \<not> gt_ready g then gt_reason g else first_blocked_gate_reason gs)"

definition readiness_lifecycle :: "(pyval \<Rightarrow> string) \<Rightarrow> readiness_inputs \<Rightarrow> lifecycle_decision" where
  "readiness_lifecycle str_of r =
     (let reason = (case ri_connection r of
            Some c \<Rightarrow> if cr_reason c \<noteq> [] then activation_safe_reason (cr_reason c)
                      else first_blocked_gate_reason (activation_gates str_of r)
          | None \<Rightarrow> first_blocked_gate_reason (activation_gates str_of r))
      in build_connection_lifecycle_decision
        ((lifecycle_request_for (ri_provider_slug r) (map_option lifecycle_view (ri_connection r)))
          \<lparr>lr_reason := reason,
           lr_agent_ready := (case ri_execution_entry r of Some e \<Rightarrow> pe_agent_ready e | None \<Rightarrow> False),
           lr_ready_to_connect := ready_to_connect r,
           lr_ready_to_execute_action := ready_to_execute_action r\<rparr>))"

definition activation_storage_keys :: "string list" where
  "activation_storage_keys =
    [''version'', ''enabled'', ''persistent'', ''backend'', ''connection_table_ready'',
     ''audit_ledger_ready'', ''reason'', ''warnings'']"

definition activation_storage_metadata :: "(string, pyval) dict \<Rightarrow> (string, pyval) dict" where
  "activation_storage_metadata storage =
     map (\<lambda>(key, value). (key, activation_safe_metadata value))
       (filter (\<lambda>(key, _). key \<in> set activation_storage_keys) storage)"

definition activation_action_metadata :: "curated_action option \<Rightarrow> bool \<Rightarrow> pyval" where
  "activation_action_metadata action runtime_enabled =
     (case action of
        None \<Rightarrow> PNone
      | Some a \<Rightarrow> activation_safe_metadata
          (PDict (dict_set ''runtime_enabled'' (PBool runtime_enabled) (curated_metadata a))))"

definition activation_readiness_version :: string where
  "activation_readiness_version = ''wiii_connect_activation_readiness.v1''"

definition build_activation_readiness_metadata ::
  "(pyval \<Rightarrow> string) \<Rightarrow> readiness_inputs \<Rightarrow> (string, pyval) dict" where
  "build_activation_readiness_metadata str_of r =
     (let entry_metadata = (\<lambda>e. case e of Some e \<Rightarrow> provider_entry_metadata e | None \<Rightarrow> PNone) in
     [(''version'', PStr activation_readiness_version),
      (''status'', PStr (if ready_to_execute_action r then ''ready'' else ''blocked'')),
      (''provider_slug'', PStr (activation_safe_key (ri_provider_slug r))),
      (''provider_kind'', PStr (provider_kind_value (case ri_connect_entry r of
          Some e \<Rightarrow> pe_provider_kind e | None \<Rightarrow> ac_provider_kind (ri_adapter r)))),
      (''ready_to_connect'', PBool (ready_to_connect r)),
      (''ready_to_execute_action'', PBool (ready_to_execute_action r)),
      (''ready_to_execute_readonly'', PBool (ready_to_execute_readonly r)),
      (''gates'', PList (map activation_gate_metadata (activation_gates str_of r))),
      (''provider'', entry_metadata (ri_connect_entry r)),
      (''execution_provider'', entry_metadata (ri_execution_entry r)),
      (''adapter'', adapter_capability_metadata (ri_adapter r)),
      (''vault'', vault_capability_metadata (ri_vault r)),
      (''storage'', PDict (activation_storage_metadata (ri_storage r))),
      (''action'', activation_action_metadata (ri_action r) (ri_action_runtime_enabled r)),
      (''connection'', PDict (activation_connection_metadata (ri_connection r))),
      (''connection_lifecycle'', lifecycle_public_metadata (readiness_lifecycle str_of r)),
      (''execution_gateway'', (case ri_gateway r of
          Some g \<Rightarrow> gateway_decision_metadata g | None \<Rightarrow> PNone))])"

section \<open>Facts\<close>

fun activation_clean :: "pyval \<Rightarrow> bool" where
  "activation_clean (PDict d) =
     list_all (\<lambda>(k, v). \<not> has_activation_marker (py_lower k) \<and> activation_clean v) d"
| "activation_clean (PList xs) = list_all activation_clean xs"
| "activation_clean (PStr s) = (\<not> has_activation_marker (py_lower s) \<and> length s \<le> 240)"
| "activation_clean _ = True"

lemma marker_take: "has_activation_marker (take n t) \<Longrightarrow> has_activation_marker t"
  unfolding has_activation_marker_def list_ex_iff
  by (blast intro: contains_sub sublist_take)

lemma activation_text_clean: "activation_clean (PStr (activation_safe_text s))"
proof -
  have "\<not> has_activation_marker (py_lower ''redacted_sensitive_value'')" by code_simp
  moreover have "py_lower (take n t) = take n (py_lower t)" for n t by (simp add: py_lower_def take_map)
  ultimately show ?thesis
    by (auto simp: activation_safe_text_def Let_def dest: marker_take)
qed

lemma activation_fold_clean:
  "list_all (\<lambda>(k, v). activation_clean v) es \<Longrightarrow> activation_clean (PDict d) \<Longrightarrow>
   activation_clean (PDict (fold (\<lambda>(raw_key, clean) result.
      let key = activation_safe_key raw_key in
      if has_activation_marker (py_lower key)
      then dict_set ''redacted_sensitive_field'' (PStr ''[redacted]'') result
      else dict_set key clean result) es d))"
proof (induction es arbitrary: d)
  case (Cons e es)
  obtain k v where e: "e = (k, v)" by force
  have r: "\<not> has_activation_marker (py_lower ''redacted_sensitive_field'')"
    "\<not> has_activation_marker (py_lower ''[redacted]'')" by code_simp+
  have upd: "activation_clean (PDict d) \<Longrightarrow> \<not> has_activation_marker (py_lower key) \<Longrightarrow> activation_clean w
      \<Longrightarrow> activation_clean (PDict (dict_set key w d))" for key w and d :: "(string, pyval) dict"
    by (induction d) auto
  show ?case unfolding e fold_Cons comp_apply case_prod_conv Let_def
    by (rule Cons.IH [unfolded Let_def]) (use Cons.prems e upd r in auto)
qed simp

lemma activation_metadata_clean: "activation_clean (activation_safe_metadata v)"
proof (induction v rule: activation_safe_metadata.induct)
  case (1 items)
  show ?case unfolding activation_safe_metadata.simps
    by (rule activation_fold_clean) (use 1 in \<open>auto simp: list_all_iff\<close>)
qed (auto simp: list_all_iff activation_text_clean simp del: activation_clean.simps(3))

section \<open>Properties\<close>

text \<open>The gates add up: a provider's action is ready to run exactly when every gate of the projection
  is ready, but for the first, which also asks for the provider kind; a provider of another kind is
  reported as ready while its first gate is not.\<close>

theorem readiness_is_the_conjunction_of_gates:
  "list_all gt_ready (activation_gates str_of r) =
     (ready_to_execute_action r
      \<and> (case ri_connect_entry r of Some e \<Rightarrow> pe_provider_kind e = Composio | None \<Rightarrow> False))
   \<and> (ready_to_execute_action r
      = (ri_connect_entry r \<noteq> None \<and> list_all gt_ready (tl (activation_gates str_of r))))"
  by (cases "ri_connect_entry r"; cases "ri_action r"; cases "ri_connection r"; cases "ri_gateway r")
     (auto simp: activation_gates_def ready_to_execute_action_def ready_to_connect_def
      provider_gate_def adapter_gate_def vault_gate_def storage_gate_def audit_gate_def
      connect_policy_gate_def curated_action_gate_def connection_gate_def execution_gateway_gate_def
      connection_live_def Let_def)

text \<open>Published gate metadata holds no sensitive key and no text with a sensitive marker, at any depth,
  whatever the subsystems put into it; texts are at most 240 characters long.\<close>

theorem gate_metadata_is_clean:
  "list_all (\<lambda>g. activation_clean (activation_safe_metadata (PDict (gt_metadata g)))
       \<and> length (activation_safe_key (gt_key g)) \<le> 120
       \<and> length (activation_safe_reason (gt_reason g)) \<le> 160) gates
   \<and> activation_clean (activation_action_metadata action enabled)
   \<and> list_all (\<lambda>(_, v). activation_clean v) (activation_storage_metadata storage)"
proof -
  have "length (activation_safe_key k) \<le> 120" "length (activation_safe_reason t) \<le> 160" for k t
    by (simp_all add: activation_safe_key_def activation_safe_reason_def Let_def)
  moreover have "activation_clean (activation_action_metadata action enabled)"
    by (cases action) (simp_all add: activation_action_metadata_def activation_metadata_clean
        del: activation_safe_metadata.simps)
  ultimately show ?thesis
    by (auto simp: list_all_iff activation_metadata_clean activation_storage_metadata_def
        simp del: activation_safe_metadata.simps activation_clean.simps)
qed

text \<open>The filter eats one of the gateway's own reasons: every refusal of the gateway is published under
  its name, except the missing approval, whose name holds the word token and comes out redacted, so the
  operator is not told why the gate is shut.\<close>

theorem one_refusal_is_redacted:
  "(activation_safe_reason (gt_reason (execution_gateway_gate (Some g)))
      = deny_reason_value (xd_reason (gd_decision g)))
     = (xd_reason (gd_decision g) \<noteq> MissingApprovalToken)"
proof -
  have "(activation_safe_reason (deny_reason_value reason) = deny_reason_value reason)
      = (reason \<noteq> MissingApprovalToken)" for reason
    by (cases reason; hypsubst; code_simp)
  then show ?thesis by (simp add: execution_gateway_gate_def)
qed

end
