(* ===== verification/Connect_Api.thy ===== *)
theory Connect_Api
  imports Connect_Executor Connect_Accounts Connect_Readiness Callback_State
begin

text \<open>
  The connection endpoints of \<open>app/api/v1/wiii_connect.py\<close>: issue an authorization link, receive the
  provider's callback, list, disconnect, grant scopes, and the two projections of readiness. An endpoint
  takes the connection table and returns its JSON answer, the table afterwards and what it did in
  between, in order: audit rows and calls of the provider adapter. The database probe, the provider's
  replies, the clock and the URL library are in \<open>api_env\<close>; a request for an unknown provider is
  answered 404 before any of this, so the registry entry is given.
\<close>

section \<open>Requests\<close>

record api_env =
  ev_config :: composio_config
  ev_probe :: probe_result
  ev_up :: bool
  ev_created_at :: string
  ev_now :: instant
  ev_later :: instant
  ev_str_of :: "pyval \<Rightarrow> string"
  ev_sha :: "string \<Rightarrow> string"
  ev_isoparse :: "string \<Rightarrow> instant option"
  ev_isofmt :: "instant \<Rightarrow> string"
  ev_lib :: state_lib
  ev_secret :: string
  ev_epoch :: int
  ev_nonce :: string
  ev_add_query :: "string \<Rightarrow> string \<Rightarrow> string"
  ev_lookup_reply :: http_reply
  ev_link_reply :: http_reply
  ev_accounts_reply :: http_reply
  ev_delete_reply :: delete_reply

datatype api_event =
    ApiAudit string string ledger_record
  | LinkAsked string
  | AccountsAsked string
  | DeleteAsked string

type_synonym api_answer = "(string, pyval) dict"

definition api_storage :: "api_env \<Rightarrow> bool \<Rightarrow> (string, pyval) dict" where
  "api_storage env probe_database = storage_status_metadata (storage_status_of probe_database (ev_probe env))"

definition safe_redirect_uri :: "string option \<Rightarrow> string" where
  "safe_redirect_uri value =
     (let t = py_strip (str_or_empty value)
      in if py_startswith t ''https://'' \<or> py_startswith t ''http://'' then t else [])"

definition has_secret_word :: "string \<Rightarrow> bool" where
  "has_secret_word t = list_ex (\<lambda>marker. contains marker (py_lower t)) [''token'', ''secret'', ''password'']"

definition safe_provider_connection_id :: "string option \<Rightarrow> string" where
  "safe_provider_connection_id value =
     (let t = py_strip (str_or_empty value) in if has_secret_word t then [] else take 160 t)"

definition api_connection_ref :: "string option \<Rightarrow> string" where
  "api_connection_ref value =
     (let candidate = safe_provider_connection_id value
      in if py_startswith candidate ''wcn_'' then candidate else [])"

definition connection_listing_storage_ready :: "(string, pyval) dict \<Rightarrow> bool" where
  "connection_listing_storage_ready storage \<longleftrightarrow>
     row_flag storage ''persistent'' \<and> row_flag storage ''connection_table_ready''"

definition api_lists ::
  "api_env \<Rightarrow> auth_user \<Rightarrow> string \<Rightarrow> connection_table \<Rightarrow> connection_record list" where
  "api_lists env user provider_slug table =
     list_connections (ev_isofmt env) (ev_up env) (owner_organization_id (ev_sha env) user)
       (au_user_id user) provider_slug 100 table"

definition api_get ::
  "api_env \<Rightarrow> auth_user \<Rightarrow> string \<Rightarrow> string \<Rightarrow> connection_table \<Rightarrow> connection_record option" where
  "api_get env user provider_slug connection_id table =
     get_connection (ev_isofmt env) (ev_up env) (owner_organization_id (ev_sha env) user)
       (au_user_id user) provider_slug (Some connection_id) table"

definition api_upsert ::
  "api_env \<Rightarrow> auth_user \<Rightarrow> provider_entry \<Rightarrow> connection_record \<Rightarrow> connection_table \<Rightarrow> bool \<times> connection_table"
where
  "api_upsert env user entry c table =
     upsert_connection (ev_isoparse env) (ev_up env) (ev_now env) c
       (owner_organization_id (ev_sha env) user) (au_user_id user)
       (provider_kind_value (pe_provider_kind entry)) table"

definition stored_connections ::
  "api_env \<Rightarrow> (string, pyval) dict \<Rightarrow> auth_user \<Rightarrow> string \<Rightarrow> connection_table \<Rightarrow> connection_record list" where
  "stored_connections env storage user provider_slug table =
     (if \<not> connection_listing_storage_ready storage then [] else api_lists env user provider_slug table)"

definition resolve_provider_connection_id ::
  "api_env \<Rightarrow> (string, pyval) dict \<Rightarrow> auth_user \<Rightarrow> string \<Rightarrow> string \<Rightarrow> connection_table \<Rightarrow> string" where
  "resolve_provider_connection_id env storage user provider_slug connection_ref table =
     (let candidate = safe_provider_connection_id (Some connection_ref)
      in if candidate = [] \<or> \<not> py_startswith candidate ''wcn_'' then []
         else if \<not> connection_storage_ready storage then candidate
         else case find (\<lambda>c. connection_ref_matches (ev_sha env) (cr_provider_slug c) (cr_connection_id c) candidate)
                (api_lists env user provider_slug table) of
             Some c \<Rightarrow> cr_connection_id c
           | None \<Rightarrow> candidate)"

definition stale_ttl_seconds :: int where
  "stale_ttl_seconds = 30 * 60"

definition api_expire ::
  "api_env \<Rightarrow> (string, pyval) dict \<Rightarrow> auth_user \<Rightarrow> string \<Rightarrow> connection_table \<Rightarrow> nat \<times> connection_table" where
  "api_expire env storage user provider_slug table =
     (if \<not> connection_storage_ready storage then (0, table)
      else expire_stale_connections (ev_up env) (ev_now env) (ev_later env)
        (owner_organization_id (ev_sha env) user) (au_user_id user) provider_slug stale_ttl_seconds table)"

section \<open>Audit rows\<close>

definition api_audit ::
  "(string, pyval) dict \<Rightarrow> string \<Rightarrow> string \<Rightarrow> ledger_record \<Rightarrow> api_event list" where
  "api_audit storage organization_id user_id r =
     (if \<not> audit_persistent storage then [] else [ApiAudit organization_id user_id r])"

definition user_audit ::
  "api_env \<Rightarrow> (string, pyval) dict \<Rightarrow> auth_user \<Rightarrow> ledger_record \<Rightarrow> api_event list" where
  "user_audit env storage user = api_audit storage (owner_organization_id (ev_sha env) user) (au_user_id user)"

definition append_authorization_audit ::
  "api_env \<Rightarrow> authorization_decision \<Rightarrow> (string, pyval) dict \<Rightarrow> auth_user \<Rightarrow> (string, pyval) dict
   \<Rightarrow> api_event list" where
  "append_authorization_audit env d storage user metadata =
     user_audit env storage user
       (build_audit_ledger_record (ev_str_of env) (ev_created_at env) AkProvider (ad_provider_slug d)
         (ready_status_value (ad_ready_status d)) (authorization_reason_value (ad_reason d))
         (case ad_audit_event d of Some e \<Rightarrow> aq_surface (aa_request e) | None \<Rightarrow> ''backend'')
         (Some (PDict (dict_merge
           [(''request'', (case ad_audit_event d of
               Some e \<Rightarrow> authorization_request_metadata (aa_request e) | None \<Rightarrow> PDict []))] metadata))))"

definition append_lifecycle_audit ::
  "api_env \<Rightarrow> string \<Rightarrow> (string, pyval) dict \<Rightarrow> auth_user \<Rightarrow> string \<Rightarrow> string \<Rightarrow> string
   \<Rightarrow> (string, pyval) dict \<Rightarrow> api_event list" where
  "append_lifecycle_audit env provider_slug storage user status reason surface metadata =
     user_audit env storage user
       (build_audit_ledger_record (ev_str_of env) (ev_created_at env) AkProvider provider_slug
         (safe_surface status) (safe_surface reason) (safe_surface surface) (Some (PDict metadata)))"

definition append_callback_audit ::
  "api_env \<Rightarrow> callback_decision \<Rightarrow> (string, pyval) dict \<Rightarrow> callback_claims \<Rightarrow> (string, pyval) dict
   \<Rightarrow> api_event list" where
  "append_callback_audit env d storage claims metadata =
     (if \<not> cc_valid claims then []
      else api_audit storage (cc_organization_id claims) (cc_user_id claims)
        (build_audit_ledger_record (ev_str_of env) (ev_created_at env) AkCallback (cd_provider_slug d)
          (if cd_accepted d then ''accepted'' else ''blocked'') (callback_reason_value (cd_reason d))
          (cq_surface (ca_request (cd_audit_event d)))
          (Some (PDict (dict_merge
            [(''request'', callback_request_metadata (ca_request (cd_audit_event d)))] metadata)))))"

section \<open>Authorization links\<close>

record session_body =
  sb_surface :: string
  sb_redirect_uri :: "string option"
  sb_probe_database :: bool
  sb_requested_scopes :: "(string, pyval) dict"
  sb_metadata_keys :: "string list"

definition append_callback_state :: "(string \<Rightarrow> string \<Rightarrow> string) \<Rightarrow> string \<Rightarrow> string \<Rightarrow> string" where
  "append_callback_state add_query callback_url state =
     (let t = py_strip callback_url; state_text = py_strip state
      in if t = [] \<or> state_text = [] then t else add_query t state_text)"

definition upsert_authorizing_connection ::
  "api_env \<Rightarrow> auth_user \<Rightarrow> provider_entry \<Rightarrow> authorization_request \<Rightarrow> (string, pyval) dict \<Rightarrow> connect_link
   \<Rightarrow> connection_table \<Rightarrow> connection_table" where
  "upsert_authorizing_connection env user entry request storage link table =
     (let connection_id = safe_provider_connection_id (Some (ln_connected_account_id link))
      in if connection_id = [] \<or> \<not> connection_storage_ready storage then table
         else snd (api_upsert env user entry
           \<lparr>cr_connection_id = connection_id, cr_provider_slug = pe_slug entry, cr_state = CsAuthorizing,
            cr_scopes = aq_requested_scopes request,
            cr_vault_ref = Some (provider_managed_ref (pe_slug entry) connection_id),
            cr_account_label = [], cr_external_account_ref = [], cr_last_checked_at = None,
            cr_reason = ''connect_link_issued'', cr_warnings = [''awaiting_provider_callback_or_poll'']\<rparr>
           table))"

definition api_authorization_url ::
  "api_env \<Rightarrow> auth_user \<Rightarrow> provider_entry \<Rightarrow> session_body \<Rightarrow> connection_table
   \<Rightarrow> (adapter_error + pyval) \<times> connection_table \<times> api_event list" where
  "api_authorization_url env user entry body table =
     (let config = ev_config env;
          effective = connect_enabled_entry entry config;
          state = build_wiii_connect_callback_state (ev_lib env) (pe_slug effective)
            (owner_organization_id (ev_sha env) user) (au_user_id user) (ev_secret env) (ev_epoch env) (ev_nonce env);
          callback_url = append_callback_state (ev_add_query env) (safe_redirect_uri (sb_redirect_uri body)) state;
          request = \<lparr>aq_provider_slug = pe_slug effective, aq_surface = sb_surface body,
            aq_requested_scopes = scope_grant_from_mapping (Some (sb_requested_scopes body)),
            aq_state_present = (state \<noteq> []), aq_redirect_uri_present = (callback_url \<noteq> []),
            aq_metadata_keys = sb_metadata_keys body\<rparr>;
          storage = api_storage env (sb_probe_database body);
          (expired, table1) = api_expire env storage user (pe_slug effective) table;
          decide = (\<lambda>url. decide_authorization_url (ev_created_at env) effective request
            \<lparr>ao_adapter = Some (composio_adapter_capability config),
             ao_vault = Some (composio_vault_capability config),
             ao_audit_metadata = Some [(''persistent'', PBool (audit_persistent storage))],
             ao_authorization_url = Some url, ao_require_persistent_audit = True\<rparr>);
          preflight = decide ''wiii-connect://preflight''
      in if \<not> ad_ready_status preflight
         then (Inr (authorization_decision_metadata preflight), table1,
               append_authorization_audit env preflight storage user
                 [(''stage'', PStr ''preflight''), (''stale_pending_expired'', PInt (int expired))])
         else case create_connect_link (ev_str_of env) config (pe_slug effective)
                (external_user_id (ev_sha env) (au_organization_id user) (au_user_id user)) callback_url
                (ev_lookup_reply env) (ev_link_reply env) of
             Inl e \<Rightarrow> (Inl e, table1, [LinkAsked (pe_slug effective)])
           | Inr link \<Rightarrow>
               let decision = decide (if ln_ready link then ln_redirect_url link else [])
               in (Inr (authorization_decision_metadata decision),
                   (if ad_ready_status decision
                    then upsert_authorizing_connection env user effective request storage link table1
                    else table1),
                   LinkAsked (pe_slug effective)
                   # append_authorization_audit env decision storage user
                       [(''stage'', PStr ''connect_link''),
                        (''connect_link'', PDict (connect_link_audit_metadata link)),
                        (''stale_pending_expired'', PInt (int expired))]))"

section \<open>The provider's callback\<close>

record callback_query =
  qy_state :: "string option"
  qy_wiii_state :: "string option"
  qy_code :: "string option"
  qy_error :: "string option"
  qy_connected_account_id :: "string option"
  qy_connection_id :: "string option"
  qy_connectedAccountId :: "string option"
  qy_id :: "string option"
  qy_status :: "string option"
  qy_surface :: string
  qy_keys :: "string list"

fun first_nonempty :: "string option list \<Rightarrow> string option" where
  "first_nonempty [] = None"
| "first_nonempty [v] = v"
| "first_nonempty (v # w # vs) = (if str_or_empty v \<noteq> [] then v else first_nonempty (w # vs))"

definition callback_connection ::
  "string \<Rightarrow> string option \<Rightarrow> provider_entry \<Rightarrow> callback_request \<Rightarrow> connection_record" where
  "callback_connection connection_id provider_status entry request =
     (let provider_state = (if str_or_empty provider_status \<noteq> [] then str_or_empty provider_status
            else ''PENDING'');
          state = normalize_connection_state (Some provider_state)
      in \<lparr>cr_connection_id = connection_id, cr_provider_slug = pe_slug entry, cr_state = state,
          cr_scopes = scope_grant_from_mapping (Some [(''read'', PBool True)]),
          cr_vault_ref = Some (provider_managed_ref (pe_slug entry) connection_id),
          cr_account_label = [], cr_external_account_ref = [], cr_last_checked_at = None,
          cr_reason = ''callback_'' @ cq_surface request,
          cr_warnings = (if state = CsConnected then [] else [''awaiting_connection_poll''])\<rparr>)"

definition upsert_callback_connection ::
  "api_env \<Rightarrow> string \<Rightarrow> string option \<Rightarrow> provider_entry \<Rightarrow> callback_request \<Rightarrow> callback_claims
   \<Rightarrow> (string, pyval) dict \<Rightarrow> connection_table \<Rightarrow> connection_table" where
  "upsert_callback_connection env connection_id provider_status entry request claims storage table =
     (if connection_id = [] \<or> \<not> connection_storage_ready storage then table
      else snd (upsert_connection (ev_isoparse env) (ev_up env) (ev_now env)
        (callback_connection connection_id provider_status entry request)
        (cc_organization_id claims) (cc_user_id claims) (provider_kind_value (pe_provider_kind entry)) table))"

definition query_connection_id :: "callback_query \<Rightarrow> string" where
  "query_connection_id q = safe_provider_connection_id (first_nonempty
     [qy_connected_account_id q, qy_connection_id q, qy_connectedAccountId q, qy_id q])"

definition callback_claims_of :: "api_env \<Rightarrow> string \<Rightarrow> callback_query \<Rightarrow> callback_claims" where
  "callback_claims_of env slug q =
     verify_wiii_connect_callback_state (ev_lib env) (first_nonempty [qy_state q, qy_wiii_state q]) slug
       (ev_secret env) (ev_epoch env) max_state_age_seconds"

definition callback_request_of :: "string \<Rightarrow> callback_query \<Rightarrow> callback_claims \<Rightarrow> callback_request" where
  "callback_request_of slug q claims =
     \<lparr>cq_provider_slug = slug, cq_surface = qy_surface q,
      cq_state_present = (str_or_empty (first_nonempty [qy_state q, qy_wiii_state q]) \<noteq> []),
      cq_code_present = (str_or_empty (qy_code q) \<noteq> []),
      cq_connection_ref_present = (query_connection_id q \<noteq> []),
      cq_error_present = (str_or_empty (qy_error q) \<noteq> []), cq_state_valid = cc_valid claims,
      cq_metadata_keys = qy_keys q\<rparr>"

definition callback_decision_of :: "api_env \<Rightarrow> provider_entry \<Rightarrow> callback_request \<Rightarrow> callback_decision" where
  "callback_decision_of env entry request =
     callback_decision_for_entry (ev_created_at env) entry request False
       (Some (composio_vault_capability (ev_config env))) (ac_bound (composio_adapter_capability (ev_config env)))"

definition api_callback ::
  "api_env \<Rightarrow> provider_entry \<Rightarrow> callback_query \<Rightarrow> connection_table
   \<Rightarrow> pyval \<times> connection_table \<times> api_event list" where
  "api_callback env entry q table =
     (let effective = connect_enabled_entry entry (ev_config env);
          claims = callback_claims_of env (pe_slug effective) q;
          request = callback_request_of (pe_slug effective) q claims;
          decision = callback_decision_of env effective request;
          storage = api_storage env True
      in (callback_decision_metadata decision,
          (if cd_accepted decision
           then upsert_callback_connection env (query_connection_id q) (qy_status q) effective request claims
             storage table
           else table),
          append_callback_audit env decision storage claims
            [(''state'', PDict (to_audit_metadata claims)),
             (''provider_status_present'', PBool (str_or_empty (qy_status q) \<noteq> [])),
             (''provider_connection_ref_present'', PBool (query_connection_id q \<noteq> []))]))"

section \<open>Listing\<close>

definition merge_scope_grants :: "scope_grant \<Rightarrow> scope_grant \<Rightarrow> scope_grant" where
  "merge_scope_grants base granted =
     \<lparr>sg_read = (sg_read base \<or> sg_read granted), sg_preview = (sg_preview base \<or> sg_preview granted),
      sg_write = (sg_write base \<or> sg_write granted), sg_apply = (sg_apply base \<or> sg_apply granted),
      sg_admin = False\<rparr>"

definition sorted_set :: "string list \<Rightarrow> string list" where
  "sorted_set xs = sort (remdups xs)"

definition poll_would_reanimate ::
  "api_env \<Rightarrow> auth_user \<Rightarrow> connection_record \<Rightarrow> connection_table \<Rightarrow> bool" where
  "poll_would_reanimate env user c table =
     (case api_get env user (cr_provider_slug c) (cr_connection_id c) table of
        None \<Rightarrow> False
      | Some existing \<Rightarrow>
          cr_state existing = CsDisabled \<and> cr_reason existing = ''user_disconnect_requested'' \<and> cr_active c)"

definition with_preserved_scopes ::
  "api_env \<Rightarrow> auth_user \<Rightarrow> connection_record \<Rightarrow> connection_table \<Rightarrow> connection_record" where
  "with_preserved_scopes env user c table =
     (case api_get env user (cr_provider_slug c) (cr_connection_id c) table of
        None \<Rightarrow> c
      | Some existing \<Rightarrow>
          c\<lparr>cr_scopes := merge_scope_grants (cr_scopes c) (cr_scopes existing),
            cr_warnings := sorted_set (cr_warnings c @ cr_warnings existing)\<rparr>)"

definition save_listed ::
  "api_env \<Rightarrow> auth_user \<Rightarrow> provider_entry \<Rightarrow> connection_record \<Rightarrow> connection_table \<Rightarrow> connection_table" where
  "save_listed env user entry c table =
     (if poll_would_reanimate env user c table then table
      else snd (api_upsert env user entry (with_preserved_scopes env user c table) table))"

definition upsert_listed_connections ::
  "api_env \<Rightarrow> auth_user \<Rightarrow> provider_entry \<Rightarrow> (string, pyval) dict \<Rightarrow> connection_record list
   \<Rightarrow> connection_table \<Rightarrow> connection_table" where
  "upsert_listed_connections env user entry storage connections table =
     (if \<not> connection_storage_ready storage then table
      else fold (save_listed env user entry) connections table)"

definition connection_list_answer ::
  "api_env \<Rightarrow> provider_entry \<Rightarrow> string \<Rightarrow> string \<Rightarrow> connection_record list \<Rightarrow> lifecycle_decision
   \<Rightarrow> pyval \<Rightarrow> (string, pyval) dict \<Rightarrow> api_answer" where
  "connection_list_answer env entry status reason connections lifecycle provider storage =
     [(''version'', PStr ''wiii_connect_connection_list.v1''), (''status'', PStr status),
      (''reason'', PStr reason), (''provider_slug'', PStr (pe_slug entry)),
      (''provider_kind'', PStr (provider_kind_value (pe_provider_kind entry))),
      (''connection_count'', PInt (int (length connections))),
      (''connections'', PList (map (connection_record_metadata (ev_sha env)) connections)),
      (''connection_lifecycle'', lifecycle_public_metadata lifecycle),
      (''provider'', provider), (''storage'', PDict storage)]"

definition first_of :: "'a list \<Rightarrow> 'a option" where
  "first_of xs = (case xs of [] \<Rightarrow> None | x # _ \<Rightarrow> Some x)"

definition list_lifecycle ::
  "provider_entry \<Rightarrow> connection_record option \<Rightarrow> string \<Rightarrow> bool \<Rightarrow> lifecycle_decision" where
  "list_lifecycle entry connection reason can_connect =
     build_connection_lifecycle_decision
       ((lifecycle_request_for (pe_slug entry) (map_option lifecycle_view connection))
         \<lparr>lr_reason := reason, lr_ready_to_connect := can_connect\<rparr>)"

definition api_connections ::
  "api_env \<Rightarrow> auth_user \<Rightarrow> provider_entry \<Rightarrow> bool \<Rightarrow> connection_table
   \<Rightarrow> api_answer \<times> connection_table \<times> api_event list" where
  "api_connections env user entry probe_database table =
     (let config = ev_config env;
          effective = connect_enabled_entry entry config;
          adapter = composio_adapter_capability config;
          storage = api_storage env probe_database;
          stored = stored_connections env storage user (pe_slug effective) table
      in if \<not> pe_enabled effective \<or> \<not> authorization_ready adapter
         then
           let reason = (if \<not> pe_enabled effective then ''provider_disabled'' else ac_reason adapter)
           in (connection_list_answer env effective ''blocked'' reason stored
                 (list_lifecycle effective (first_of stored) reason False) PNone storage, table, [])
         else
           let table1 = snd (api_expire env storage user (pe_slug effective) table);
               result = list_connected_accounts (ev_str_of env) config (pe_slug effective)
                 (external_user_id (ev_sha env) (au_organization_id user) (au_user_id user))
                 (ev_lookup_reply env) (ev_accounts_reply env);
               table2 = (if cl_ready result
                 then upsert_listed_connections env user effective storage (cl_connections result) table1
                 else table1);
               shown = (if cl_connections result \<noteq> [] then first_of (cl_connections result)
                 else first_of stored)
           in (connection_list_answer env effective (if cl_ready result then ''ready'' else ''blocked'')
                 (cl_reason result) (cl_connections result)
                 (list_lifecycle effective shown
                   (if cl_connections result \<noteq> [] then cl_reason result else []) True)
                 (connection_list_metadata (ev_sha env) result) storage,
               table2, [AccountsAsked (pe_slug effective)]))"

section \<open>Disconnecting\<close>

definition disabled_connection :: "connection_record \<Rightarrow> string \<Rightarrow> connection_record" where
  "disabled_connection c reason =
     c\<lparr>cr_state := CsDisabled, cr_scopes := scope_grant_from_mapping (Some []), cr_reason := reason,
       cr_warnings := sorted_set (cr_warnings c @ [''disconnected_by_user''])\<rparr>"

definition disconnect_answer ::
  "provider_entry \<Rightarrow> string \<Rightarrow> string \<Rightarrow> (string, pyval) dict \<Rightarrow> bool \<Rightarrow> bool \<Rightarrow> pyval \<Rightarrow> api_answer" where
  "disconnect_answer entry status reason storage connection_present local_disabled provider =
     [(''version'', PStr ''wiii_connect_disconnect.v1''), (''status'', PStr (safe_surface status)),
      (''reason'', PStr (safe_surface reason)), (''provider_slug'', PStr (pe_slug entry)),
      (''provider_kind'', PStr (provider_kind_value (pe_provider_kind entry))),
      (''connection_present'', PBool connection_present), (''local_disabled'', PBool local_disabled),
      (''provider'', provider), (''storage'', PDict storage)]"

definition api_disconnect ::
  "api_env \<Rightarrow> auth_user \<Rightarrow> provider_entry \<Rightarrow> string \<Rightarrow> string \<Rightarrow> connection_table
   \<Rightarrow> api_answer \<times> connection_table \<times> api_event list" where
  "api_disconnect env user entry connection_ref surface table =
     (let config = ev_config env;
          effective = connect_enabled_entry entry config;
          slug = pe_slug effective;
          adapter = composio_adapter_capability config;
          storage = api_storage env True;
          selected = api_connection_ref (Some connection_ref);
          connection_id = resolve_provider_connection_id env storage user slug selected table;
          audit = append_lifecycle_audit env slug storage user;
          blocked = (\<lambda>reason present.
            let payload = disconnect_answer effective ''blocked'' reason storage present False PNone
            in (payload, table, audit ''blocked'' reason surface payload))
      in if \<not> connection_storage_ready storage then blocked ''storage_not_ready'' False
         else case (if connection_id = [] then None else api_get env user slug connection_id table) of
             None \<Rightarrow> blocked ''connection_missing'' False
           | Some connection \<Rightarrow>
               if cr_provider_slug connection \<noteq> slug then blocked ''connection_provider_mismatch'' True
               else if \<not> pe_enabled effective \<or> \<not> authorization_ready adapter
               then blocked (if \<not> pe_enabled effective then ''provider_disabled'' else ac_reason adapter) True
               else
                 let (local_disabled, table1) = api_upsert env user effective
                       (disabled_connection connection ''user_disconnect_requested'') table
                 in if \<not> local_disabled then blocked ''local_state_update_failed'' True
                    else
                      let result = disconnect_connected_account (ev_str_of env) config slug
                            (cr_connection_id connection) (ev_lookup_reply env) (ev_delete_reply env);
                          payload = disconnect_answer effective (disconnect_status result) (dr_reason result)
                            storage True True (disconnect_result_metadata result)
                      in (payload, table1,
                          audit ''started'' ''provider_disconnect_started'' surface
                            [(''connection_present'', PBool True), (''local_disabled'', PBool True),
                             (''provider_slug'', PStr slug)]
                          @ DeleteAsked (cr_connection_id connection)
                          # audit (disconnect_status result) (dr_reason result) surface payload))"

section \<open>Granting scopes\<close>

definition limited_to_policy :: "scope_grant \<Rightarrow> scope_grant \<Rightarrow> scope_grant" where
  "limited_to_policy requested allowed =
     \<lparr>sg_read = (sg_read requested \<and> sg_read allowed), sg_preview = (sg_preview requested \<and> sg_preview allowed),
      sg_write = (sg_write requested \<and> sg_write allowed), sg_apply = (sg_apply requested \<and> sg_apply allowed),
      sg_admin = False\<rparr>"

definition scope_grant_answer ::
  "api_env \<Rightarrow> provider_entry \<Rightarrow> string \<Rightarrow> string \<Rightarrow> (string, pyval) dict \<Rightarrow> connection_record option \<Rightarrow> api_answer"
where
  "scope_grant_answer env entry status reason storage connection =
     [(''version'', PStr ''wiii_connect_scope_grant.v1''), (''status'', PStr (safe_surface status)),
      (''reason'', PStr (safe_surface reason)), (''provider_slug'', PStr (pe_slug entry)),
      (''provider_kind'', PStr (provider_kind_value (pe_provider_kind entry))),
      (''connection'', (case connection of
          Some c \<Rightarrow> connection_record_metadata (ev_sha env) c | None \<Rightarrow> PNone)),
      (''storage'', PDict storage)]"

definition granted_connection :: "connection_record \<Rightarrow> scope_grant \<Rightarrow> connection_record" where
  "granted_connection c scopes =
     c\<lparr>cr_scopes := scopes, cr_reason := ''user_scope_grant_updated'',
       cr_warnings := sorted_set (cr_warnings c @
         [if sg_apply scopes then ''user_enabled_external_apply_scope'' else ''user_scope_grant_updated''])\<rparr>"

definition selected_connection ::
  "api_env \<Rightarrow> auth_user \<Rightarrow> provider_entry \<Rightarrow> (string, pyval) dict \<Rightarrow> string \<Rightarrow> connection_table
   \<Rightarrow> connection_table \<Rightarrow> connection_record option" where
  "selected_connection env user entry storage connection_ref resolve_table table =
     (let connection_id = resolve_provider_connection_id env storage user (pe_slug entry) connection_ref resolve_table
      in if connection_storage_ready storage \<and> connection_id \<noteq> []
         then api_get env user (pe_slug entry) connection_id table else None)"

definition api_scope_grant ::
  "api_env \<Rightarrow> auth_user \<Rightarrow> provider_entry \<Rightarrow> string \<Rightarrow> string \<Rightarrow> (string, pyval) dict \<Rightarrow> connection_table
   \<Rightarrow> api_answer \<times> connection_table \<times> api_event list" where
  "api_scope_grant env user entry connection_ref surface scopes table =
     (let effective = execution_enabled_entry entry (ev_config env);
          slug = pe_slug effective;
          storage = api_storage env True;
          selected = api_connection_ref (Some connection_ref);
          audit = append_lifecycle_audit env slug storage user
      in case selected_connection env user effective storage selected table table of
           None \<Rightarrow>
             (let payload = scope_grant_answer env effective ''blocked'' ''connection_missing'' storage None
              in (payload, table, audit ''blocked'' ''scope_grant_connection_missing'' surface payload))
         | Some connection \<Rightarrow>
             if \<not> cr_active connection then
               (let payload = scope_grant_answer env effective ''blocked'' ''connection_missing'' storage None
                in (payload, table, audit ''blocked'' ''scope_grant_connection_missing'' surface payload))
             else
               let requested = scope_grant_from_mapping (Some scopes);
                   granted = merge_scope_grants (cr_scopes connection)
                     (limited_to_policy requested (pe_default_scopes effective));
                   updated = granted_connection connection granted;
                   (saved, table1) = api_upsert env user effective updated table;
                   status = (if saved then ''ready'' else ''blocked'');
                   reason = (if saved then ''scope_grant_updated'' else ''scope_grant_update_failed'');
                   payload = scope_grant_answer env effective status reason storage
                     (Some (if saved then updated else connection))
               in (payload, table1,
                   audit (safe_surface status) (safe_surface reason) surface
                     [(''connection_ref_present'', PBool (selected \<noteq> [])),
                      (''requested_scopes'', scope_grant_metadata requested),
                      (''granted_scopes'', scope_grant_metadata granted)]))"

section \<open>Readiness, inventory and the decision preview\<close>

definition api_gateway ::
  "api_env \<Rightarrow> provider_entry \<Rightarrow> connection_record option \<Rightarrow> (string, pyval) dict \<Rightarrow> string
   \<Rightarrow> execution_request \<Rightarrow> gateway_decision" where
  "api_gateway env entry connection storage selected request =
     decide_execution_gateway entry connection request
       \<lparr>go_adapter = Some (composio_adapter_capability (ev_config env)),
        go_audit_metadata = Some [(''persistent'', PBool (audit_persistent storage))],
        go_require_persistent_audit = True, go_selection_required = (selected = []),
        go_scope_policy = Some (scope_policy_for_entry entry)\<rparr>"

definition default_activation_action_slug :: "string \<Rightarrow> string" where
  "default_activation_action_slug provider_slug =
     (let actions = list_curated_actions (Some provider_slug) True;
          readonly = filter (\<lambda>a. cu_mutation a = MRead) actions
      in case (if readonly \<noteq> [] then readonly else actions) of [] \<Rightarrow> [] | a # _ \<Rightarrow> cu_slug a)"

definition first_text :: "string option \<Rightarrow> string option \<Rightarrow> string option" where
  "first_text a b = (if str_or_empty a \<noteq> [] then a else b)"

definition api_activation_readiness ::
  "api_env \<Rightarrow> auth_user \<Rightarrow> provider_entry \<Rightarrow> string option \<Rightarrow> string option \<Rightarrow> string \<Rightarrow> bool
   \<Rightarrow> connection_table \<Rightarrow> api_answer \<times> connection_table" where
  "api_activation_readiness env user entry connection_id connection_ref action_slug probe_database table =
     (let config = ev_config env;
          effective = execution_enabled_entry entry config;
          slug = pe_slug effective;
          action = (if policy_action_slug action_slug \<noteq> [] then policy_action_slug action_slug
            else default_activation_action_slug slug);
          storage = api_storage env probe_database;
          selected = api_connection_ref (first_text connection_ref connection_id);
          table1 = snd (api_expire env storage user slug table);
          connection = selected_connection env user effective storage selected table table1;
          curated = get_curated_action slug action;
          enabled = (case curated of Some a \<Rightarrow> cu_slug a \<in> set (executable_action_slugs config slug) | None \<Rightarrow> False);
          request = \<lparr>xr_provider_slug = slug, xr_action_slug = action,
            xr_path = (case curated of Some a \<Rightarrow> cu_path a | None \<Rightarrow> ''external_app_action''),
            xr_mutation = (case curated of Some a \<Rightarrow> cu_mutation a | None \<Rightarrow> MRead),
            xr_approval_token_present = False, xr_preview_evidence_id = None,
            xr_preview_evidence_required = (case curated of Some a \<Rightarrow> cu_requires_preview a | None \<Rightarrow> False),
            xr_argument_keys = (case curated of Some a \<Rightarrow> cu_argument_keys a | None \<Rightarrow> []),
            xr_request_id = []\<rparr>
      in (build_activation_readiness_metadata (ev_str_of env)
            \<lparr>ri_provider_slug = pe_slug (connect_enabled_entry entry config),
             ri_connect_entry = Some (connect_enabled_entry entry config), ri_execution_entry = Some effective,
             ri_adapter = composio_adapter_capability config, ri_vault = composio_vault_capability config,
             ri_storage = storage, ri_action = curated, ri_action_runtime_enabled = enabled,
             ri_connection = connection,
             ri_gateway = Some (api_gateway env effective connection storage selected request)\<rparr>, table1))"

definition api_effective_actions ::
  "api_env \<Rightarrow> auth_user \<Rightarrow> provider_entry \<Rightarrow> string option \<Rightarrow> bool \<Rightarrow> connection_table
   \<Rightarrow> action_inventory \<times> connection_table" where
  "api_effective_actions env user entry connection_ref probe_database table =
     (let config = ev_config env;
          effective = execution_enabled_entry entry config;
          storage = api_storage env probe_database;
          selected = api_connection_ref connection_ref;
          table1 = snd (api_expire env storage user (pe_slug effective) table)
      in (build_action_inventory
            \<lparr>ii_entry = effective,
             ii_connection = selected_connection env user effective storage selected table table1,
             ii_adapter = composio_adapter_capability config,
             ii_enabled_slugs = executable_action_slugs config (pe_slug effective),
             ii_audit_metadata = Some [(''persistent'', PBool (audit_persistent storage))],
             ii_connection_ref_present = (selected \<noteq> []), ii_selection_required = (selected = []),
             ii_storage = Some storage, ii_scope_policy = Some (scope_policy_for_entry effective)\<rparr>, table1))"

definition api_safe_path :: "string \<Rightarrow> string" where
  "api_safe_path value = take 120 (dash_to_underscore (py_lower (py_strip value)))"

definition safe_public_id :: "string option \<Rightarrow> string option" where
  "safe_public_id value =
     (let t = py_strip (str_or_empty value)
      in if t = [] \<or> has_secret_word t then None else Some (take 160 t))"

definition append_gateway_audit ::
  "api_env \<Rightarrow> gateway_decision \<Rightarrow> execution_request \<Rightarrow> (string, pyval) dict \<Rightarrow> auth_user \<Rightarrow> string \<Rightarrow> string
   \<Rightarrow> (string, pyval) dict \<Rightarrow> api_event list" where
  "append_gateway_audit env gateway request storage user status reason metadata =
     user_audit env storage user
       (build_audit_ledger_record (ev_str_of env) (ev_created_at env) AkExecution
         (xd_provider_slug (gd_decision gateway)) status reason
         (safe_surface (case dict_get metadata ''surface'' of
            Some v \<Rightarrow> if truthy v then py_text (ev_str_of env) v else ''backend'' | None \<Rightarrow> ''backend''))
         (Some (PDict (dict_merge
            [(''request'', PDict (request_audit_metadata request)),
             (''decision'', execution_decision_metadata (gd_decision gateway))] metadata))))"

definition gateway_status_value :: "gateway_decision \<Rightarrow> string" where
  "gateway_status_value g = (if gd_allowed g then ''allowed'' else ''blocked'')"

definition gateway_reason_value :: "gateway_decision \<Rightarrow> string" where
  "gateway_reason_value g = deny_reason_value (xd_reason (gd_decision g))"

definition api_execution_decision ::
  "api_env \<Rightarrow> auth_user \<Rightarrow> provider_entry \<Rightarrow> api_body \<Rightarrow> string list \<Rightarrow> string option \<Rightarrow> connection_table
   \<Rightarrow> api_answer \<times> connection_table \<times> api_event list" where
  "api_execution_decision env user entry body argument_keys request_id table =
     (let effective = execution_enabled_entry entry (ev_config env);
          slug = pe_slug effective;
          storage = api_storage env True;
          selected = api_connection_ref (first_text (ab_connection_ref body) (ab_connection_id body));
          connection_id = resolve_provider_connection_id env storage user slug selected table;
          table1 = snd (api_expire env storage user slug table);
          connection = selected_connection env user effective storage selected table table1;
          request = \<lparr>xr_provider_slug = slug, xr_action_slug = policy_action_slug (ab_action_slug body),
            xr_path = api_safe_path (ab_path body), xr_mutation = safe_mutation (ab_mutation body),
            xr_approval_token_present = ab_approval_token_present body,
            xr_preview_evidence_id = safe_public_id (ab_preview_evidence_id body),
            xr_preview_evidence_required = ab_preview_evidence_required body,
            xr_argument_keys = safe_public_argument_keys (take 50 argument_keys),
            xr_request_id = str_or_empty request_id\<rparr>;
          gateway = api_gateway env effective connection storage selected request
      in (dict_merge (dict_of (gateway_decision_metadata gateway))
            [(''provider_slug'', PStr slug), (''storage'', PDict storage)],
          table1,
          append_gateway_audit env gateway request storage user (gateway_status_value gateway)
            (gateway_reason_value gateway)
            [(''surface'', PStr (ab_surface body)), (''connection_ref_present'', PBool (selected \<noteq> [])),
             (''connection_id_present'', PBool (connection_id \<noteq> [])),
             (''connection_found'', PBool (connection \<noteq> None)), (''storage'', PDict storage)]))"

section \<open>What the endpoints do to the table\<close>

lemma normalize_ownerD: "normalize_owner org user = Some owner \<Longrightarrow> owner = (py_strip org, py_strip user)"
  by (auto simp: normalize_owner_def Let_def split: if_splits)

definition row_of :: "auth_user \<Rightarrow> api_env \<Rightarrow> string \<times> connection_row \<Rightarrow> bool" where
  "row_of user env e \<longleftrightarrow>
     cw_organization_id (snd e) = py_strip (owner_organization_id (ev_sha env) user)
     \<and> cw_user_id (snd e) = py_strip (au_user_id user)"

definition foreign_rows :: "auth_user \<Rightarrow> api_env \<Rightarrow> connection_table \<Rightarrow> connection_table" where
  "foreign_rows user env table = filter (\<lambda>e. \<not> row_of user env e) table"

lemma filter_map_id:
  "(\<And>e. e \<in> set t \<Longrightarrow> P e \<Longrightarrow> f e = e) \<Longrightarrow> (\<And>e. e \<in> set t \<Longrightarrow> P (f e) = P e) \<Longrightarrow> filter P (map f t) = filter P t"
  by (induction t) auto

lemma expire_foreign:
  "foreign_rows user env (snd (api_expire env storage user slug table)) = foreign_rows user env table"
proof -
  have "filter (\<lambda>e. \<not> row_of user env e) (map f table) = filter (\<lambda>e. \<not> row_of user env e) table"
    if "f = (\<lambda>e. if row_stale owner s before e then (fst e, (snd e)\<lparr>cw_state := ''expired'',
                    cw_reason := Some ''stale_oauth_connection_expired'',
                    cw_warnings := cw_warnings (snd e) @ [''expired_by_wiii_connect_cleanup''],
                    cw_updated_at := later\<rparr>) else e)"
      and "owner = (py_strip (owner_organization_id (ev_sha env) user), py_strip (au_user_id user))"
    for f owner s before later
    unfolding that by (rule filter_map_id) (auto simp: row_of_def row_stale_def row_owned_def)
  then show ?thesis
    by (auto simp: api_expire_def foreign_rows_def expire_stale_connections_def Let_def
        dest: normalize_ownerD split: option.split)
qed

lemma expire_keys: "map fst (snd (api_expire env storage user slug table)) = map fst table"
  by (auto simp: api_expire_def expire_stale_connections_def Let_def comp_def split: option.split)

lemma filter_dict_set:
  "\<not> P (k, v) \<Longrightarrow> list_all (\<lambda>e. fst e = k \<longrightarrow> \<not> P e) t \<Longrightarrow> filter P (dict_set k v t) = filter P t"
  by (induction t) auto

text \<open>A row that the asking owner can look up belongs to the owner, so writing it back is confined.\<close>

lemma api_get_row:
  assumes "api_get env user slug cid table = Some c" "py_strip cid \<noteq> []"
  shows "\<exists>row. (py_strip cid, row) \<in> set table \<and> row_of user env (py_strip cid, row)
    \<and> cr_connection_id c = py_strip cid \<and> ev_up env
    \<and> normalize_owner (owner_organization_id (ev_sha env) user) (au_user_id user) \<noteq> None"
proof -
  obtain owner where o: "normalize_owner (owner_organization_id (ev_sha env) user) (au_user_id user) = Some owner"
    and up: "ev_up env"
    using assms(1) by (auto simp: api_get_def get_connection_def Let_def split: option.splits if_splits)
  let ?f = "filter (\<lambda>e. row_owned owner (normalize_provider_slug slug) e \<and> fst e = py_strip cid) table"
  obtain e rest where first: "newest_first ?f = e # rest"
    and c: "connection_from_row (ev_isofmt env) (normalize_provider_slug slug) e = Some c"
    using assms o up
    by (auto simp: api_get_def get_connection_def Let_def str_or_empty_def split: list.splits if_splits)
  have "e \<in> set (newest_first ?f)" using first by simp
  then have e: "e \<in> set table" "row_owned owner (normalize_provider_slug slug) e" "fst e = py_strip cid"
    by (auto simp: newest_first_def)
  moreover have "cr_connection_id c = py_strip (fst e)"
    using c by (cases e) (auto simp: connection_from_row_def Let_def split: if_splits)
  moreover obtain k row where "e = (k, row)" by force
  ultimately show ?thesis
    using o up normalize_ownerD [OF o] by (auto simp: row_of_def row_owned_def intro!: exI [of _ row])
qed

lemma strip_eq_Nil: "py_strip s = [] \<longleftrightarrow> (\<forall>c \<in> set s. is_space c)"
proof
  assume "py_strip s = []"
  then have all: "\<forall>c \<in> set (dropWhile is_space s). is_space c"
    by (simp add: py_strip_def dropWhile_eq_Nil_conv)
  then have "dropWhile is_space s = []"
    using hd_dropWhile [of is_space s] by (cases "dropWhile is_space s") auto
  then show "\<forall>c \<in> set s. is_space c" by (simp add: dropWhile_eq_Nil_conv)
qed (auto simp: py_strip_def dropWhile_eq_Nil_conv dest!: set_dropWhileD)

lemma listed_ids: "c \<in> set (api_lists env user slug table) \<Longrightarrow> py_strip (cr_connection_id c) \<noteq> []"
  by (auto simp: api_lists_def list_connections_def Let_def List.map_filter_def connection_from_row_def
      split: option.splits if_splits)

lemma find_SomeD: "find P xs = Some x \<Longrightarrow> x \<in> set xs \<and> P x"
  by (auto simp: find_Some_iff)

lemma resolved_id:
  assumes "resolve_provider_connection_id env storage user slug ref table = cid" "cid \<noteq> []"
  shows "py_strip cid \<noteq> []"
proof -
  let ?c = "safe_provider_connection_id (Some ref)"
  have w: "\<not> is_space (CHR ''w'')" by code_simp
  have wcn: "py_startswith ?c ''wcn_'' \<Longrightarrow> py_strip ?c \<noteq> []"
    using w by (auto simp: strip_eq_Nil py_startswith_def prefix_def)
  consider "cid = ?c" "py_startswith ?c ''wcn_''"
    | c where "c \<in> set (api_lists env user slug table)" "cid = cr_connection_id c"
    using assms
    by (auto simp: resolve_provider_connection_id_def Let_def dest!: find_SomeD split: option.splits if_splits)
  then show ?thesis using wcn listed_ids by cases auto
qed

text \<open>Writing a connection under an id the owner holds changes no foreign row.\<close>

lemma upsert_foreign:
  assumes "distinct (map fst table)" "(cr_connection_id c, row) \<in> set table"
    and "row_of user env (cr_connection_id c, row)"
  shows "foreign_rows user env (snd (api_upsert env user entry c table)) = foreign_rows user env table"
proof -
  have own: "fst e = cr_connection_id c \<Longrightarrow> e \<in> set table \<Longrightarrow> row_of user env e" for e
    using assms by (metis eq_key_imp_eq_value prod.collapse)
  have "foreign_rows user env (dict_set (cr_connection_id c) new table) = foreign_rows user env table"
    if "row_of user env (cr_connection_id c, new)" for new
    unfolding foreign_rows_def using that own by (intro filter_dict_set) (auto simp: list_all_iff)
  then show ?thesis
    by (auto simp: api_upsert_def upsert_connection_def Let_def row_of_def dest: normalize_ownerD
        split: option.splits)
qed

lemma api_upsert_row:
  assumes "fst (api_upsert env user entry c table)"
  obtains row where "snd (api_upsert env user entry c table) = dict_set (cr_connection_id c) row table"
    "row_of user env (cr_connection_id c, row)" "cw_state row = connection_state_value (cr_state c)"
    "cw_scopes row = dict_of (scope_grant_metadata (cr_scopes c))" "cw_reason row = none_if_empty (cr_reason c)"
    "cw_provider_slug row = cr_provider_slug c"
proof -
  obtain owner where "normalize_owner (owner_organization_id (ev_sha env) user) (au_user_id user) = Some owner"
    using assms by (auto simp: api_upsert_def upsert_connection_def split: option.splits)
  with assms normalize_ownerD [OF this] that show thesis
    by (simp add: api_upsert_def upsert_connection_def Let_def row_of_def split: if_splits)
qed

lemma upsert_unchanged: "\<not> fst (api_upsert env user entry c table) \<Longrightarrow> snd (api_upsert env user entry c table) = table"
  by (auto simp: api_upsert_def upsert_connection_def Let_def split: option.splits)

lemma audit_events:
  "append_lifecycle_audit env slug storage user status reason surface m \<noteq> [] \<longleftrightarrow> audit_persistent storage"
  "e \<in> set (append_lifecycle_audit env slug storage user status reason surface m) \<Longrightarrow> \<exists>o' u r. e = ApiAudit o' u r"
  by (auto simp: append_lifecycle_audit_def user_audit_def api_audit_def split: if_splits)

lemma ready_audits: "connection_storage_ready storage \<Longrightarrow> audit_persistent storage"
  by (simp add: connection_storage_ready_def audit_persistent_def)

text \<open>The two ways a disconnect ends: nothing is written, or the caller's row has been replaced.\<close>

definition disconnect_written ::
  "api_env \<Rightarrow> auth_user \<Rightarrow> provider_entry \<Rightarrow> connection_record \<Rightarrow> connection_table \<Rightarrow> connection_table" where
  "disconnect_written env user entry c table =
     snd (api_upsert env user (connect_enabled_entry entry (ev_config env))
       (disabled_connection c ''user_disconnect_requested'') table)"

lemma disconnect_cases:
  assumes "api_disconnect env user entry ref surface table = (answer, table', events)"
  obtains "table' = table" "\<And>cid. DeleteAsked cid \<notin> set events"
  | c cid slug before after where "api_get env user slug cid table = Some c" "py_strip cid \<noteq> []"
      "table' = disconnect_written env user entry c table" "before \<noteq> []"
      "events = before @ DeleteAsked (cr_connection_id c) # after"
      "\<And>e. e \<in> set before \<union> set after \<Longrightarrow> \<exists>o' u r. e = ApiAudit o' u r"
      "fst (api_upsert env user (connect_enabled_entry entry (ev_config env))
         (disabled_connection c ''user_disconnect_requested'') table)"
proof -
  let ?e = "connect_enabled_entry entry (ev_config env)" and ?s = "api_storage env True"
  let ?cid = "resolve_provider_connection_id env ?s user (pe_slug ?e) (api_connection_ref (Some ref)) table"
  let ?audit = "append_lifecycle_audit env (pe_slug ?e) ?s user"
  have quiet: "DeleteAsked d \<notin> set (?audit a b c m)" for d a b c m using audit_events(2) by blast
  show thesis
  proof (cases "connection_storage_ready ?s \<and> ?cid \<noteq> []")
    case False
    then have "table' = table \<and> (\<forall>d. DeleteAsked d \<notin> set events)"
      using assms quiet by (auto simp: api_disconnect_def Let_def split: if_splits)
    with that(1) show thesis by blast
  next
    case True
    then have strip: "py_strip ?cid \<noteq> []" using resolved_id by blast
    show thesis
    proof (cases "api_get env user (pe_slug ?e) ?cid table")
      case None
      then have "table' = table \<and> (\<forall>d. DeleteAsked d \<notin> set events)"
        using assms quiet True by (auto simp: api_disconnect_def Let_def split: if_splits)
      with that(1) show thesis by blast
    next
      case (Some c)
      let ?up = "api_upsert env user ?e (disabled_connection c ''user_disconnect_requested'') table"
      show thesis
      proof (cases "cr_provider_slug c = pe_slug ?e \<and> pe_enabled ?e
            \<and> authorization_ready (composio_adapter_capability (ev_config env)) \<and> fst ?up")
        case False
        then have "table' = table \<and> (\<forall>d. DeleteAsked d \<notin> set events)"
          using assms quiet True Some
          by (auto simp: api_disconnect_def Let_def case_prod_unfold split: if_splits)
        with that(1) show thesis by blast
      next
        case ok: True
        obtain b a w x y where e: "events = b @ DeleteAsked (cr_connection_id c) # a" and t: "table' = snd ?up"
          and ba: "b = ?audit ''started'' ''provider_disconnect_started'' surface
              [(''connection_present'', PBool True), (''local_disabled'', PBool True),
               (''provider_slug'', PStr (pe_slug ?e))]" "a = ?audit w x surface y"
          using assms ok True Some
          by (auto simp: api_disconnect_def Let_def case_prod_unfold split: if_splits)
        have "\<exists>o' u r. ev = ApiAudit o' u r" if "ev \<in> set b \<union> set a" for ev
          using that ba audit_events(2) by blast
        moreover have "b \<noteq> []" unfolding ba(1) audit_events(1) using ready_audits True by simp
        ultimately show thesis
          using that(2) [OF Some strip, of b a] e t ok by (simp add: disconnect_written_def)
      qed
    qed
  qed
qed

section \<open>Properties\<close>



lemma api_get_dict:
  assumes "distinct (map fst table)" "dict_get table cid = Some row" "row_of user env (cid, row)"
    and "py_strip cid = cid" "cid \<noteq> []" "ev_up env"
    and "normalize_owner (owner_organization_id (ev_sha env) user) (au_user_id user) \<noteq> None"
    and "normalize_provider_slug slug = cw_provider_slug row" "cw_provider_slug row \<noteq> []"
  shows "api_get env user slug cid table = connection_from_row (ev_isofmt env) (cw_provider_slug row) (cid, row)"
proof -
  obtain owner where o: "normalize_owner (owner_organization_id (ev_sha env) user) (au_user_id user) = Some owner"
    using assms(7) by auto
  have "filter (\<lambda>e. fst e = cid) table = [(cid, row)]"
    using assms(1,2) by (induction table) (force simp: filter_empty_conv split: if_splits)+
  then have "filter (\<lambda>e. row_owned owner (cw_provider_slug row) e \<and> fst e = cid) table = [(cid, row)]"
    using assms(3) normalize_ownerD [OF o] unfolding filter_conj by (simp add: row_owned_def row_of_def)
  then show ?thesis using assms o by (simp add: api_get_def get_connection_def Let_def str_or_empty_def)
qed

definition user_disconnected :: "connection_row \<Rightarrow> bool" where
  "user_disconnected row \<longleftrightarrow> cw_state row = ''disabled'' \<and> cw_reason row = Some ''user_disconnect_requested''"

lemma poll_step_keeps:
  assumes "distinct (map fst table)" "dict_get table cid = Some row" "row_of user env (cid, row)"
    and "py_strip cid = cid" "cid \<noteq> []" "ev_up env"
    and "normalize_owner (owner_organization_id (ev_sha env) user) (au_user_id user) \<noteq> None"
    and "normalize_provider_slug (cw_provider_slug row) = cw_provider_slug row" "cw_provider_slug row \<noteq> []"
    and "user_disconnected row"
    and "cr_connection_id c = cid \<Longrightarrow> cr_active c \<and> cr_provider_slug c = cw_provider_slug row"
  shows "dict_get (save_listed env user entry c table) cid = Some row \<and> distinct (map fst (save_listed env user entry c table))"
proof (cases "cr_connection_id c = cid")
  case True
  have disabled: "normalize_connection_state (Some ''disabled'') = CsDisabled" by code_simp
  have "poll_would_reanimate env user c table"
    using True assms api_get_dict [OF assms(1-7), of "cw_provider_slug row"] disabled
    by (auto simp: poll_would_reanimate_def connection_from_row_def Let_def user_disconnected_def str_or_empty_def)
  then show ?thesis using assms(1,2) by (simp add: save_listed_def)
next
  case False
  let ?w = "with_preserved_scopes env user c table"
  have id: "cr_connection_id ?w = cr_connection_id c" by (simp add: with_preserved_scopes_def split: option.split)
  consider "snd (api_upsert env user entry ?w table) = table"
    | r where "snd (api_upsert env user entry ?w table) = dict_set (cr_connection_id c) r table"
    using upsert_unchanged api_upsert_row id by metis
  then show ?thesis
    using False assms(1,2) by cases (simp_all add: save_listed_def distinct_update del: map_of_eq_Some_iff)
qed

text \<open>A poll does not undo a disconnect: while the provider keeps reporting an account as active, a row
  the user has disconnected stays as it is, whatever else the provider lists and in whatever order.\<close>

theorem user_disconnect_survives_active_poll:
  assumes "distinct (map fst table)" "dict_get table cid = Some row" "row_of user env (cid, row)"
    and "py_strip cid = cid" "cid \<noteq> []" "ev_up env"
    and "normalize_owner (owner_organization_id (ev_sha env) user) (au_user_id user) \<noteq> None"
    and "normalize_provider_slug (cw_provider_slug row) = cw_provider_slug row" "cw_provider_slug row \<noteq> []"
    and "user_disconnected row"
    and "list_all (\<lambda>c. cr_connection_id c = cid \<longrightarrow> cr_active c \<and> cr_provider_slug c = cw_provider_slug row) listed"
  shows "dict_get (upsert_listed_connections env user entry storage listed table) cid = Some row"
proof -
  have "dict_get (fold (save_listed env user entry) listed table) cid = Some row"
    using assms(1,2,11)
  proof (induction listed arbitrary: table)
    case (Cons c listed)
    have "dict_get (save_listed env user entry c table) cid = Some row
        \<and> distinct (map fst (save_listed env user entry c table))"
      by (rule poll_step_keeps) (use Cons.prems assms(3-10) in auto)
    with Cons show ?case by (simp del: map_of_eq_Some_iff)
  qed simp
  with assms(2) show ?thesis by (simp add: upsert_listed_connections_def)
qed

lemma upsert_effect:
  "snd (upsert_connection ip up now c org user kind t) = t \<or>
   (\<exists>row. snd (upsert_connection ip up now c org user kind t) = dict_set (cr_connection_id c) row t
      \<and> cw_organization_id row = py_strip org \<and> cw_user_id row = py_strip user
      \<and> cw_provider_slug row = cr_provider_slug c \<and> cw_scopes row = dict_of (scope_grant_metadata (cr_scopes c)))"
  by (auto simp: upsert_connection_def Let_def dest!: normalize_ownerD split: option.split)

lemma callback_saved:
  assumes "upsert_callback_connection env cid status entry r claims storage table = table'" "table' \<noteq> table"
  shows "connection_storage_ready storage \<and> cid \<noteq> [] \<and>
    (\<exists>row. table' = dict_set cid row table
       \<and> cw_organization_id row = py_strip (cc_organization_id claims)
       \<and> cw_user_id row = py_strip (cc_user_id claims) \<and> cw_provider_slug row = pe_slug entry
       \<and> cw_scopes row = dict_of (scope_grant_metadata (no_scopes\<lparr>sg_read := True\<rparr>)))"
proof -
  have "scope_grant_from_mapping (Some [(''read'', PBool True)]) = no_scopes\<lparr>sg_read := True\<rparr>"
    by (simp add: scope_grant_from_mapping_def no_scopes_def)
  then have c: "cr_connection_id (callback_connection cid status entry r) = cid"
    "cr_provider_slug (callback_connection cid status entry r) = pe_slug entry"
    "cr_scopes (callback_connection cid status entry r) = no_scopes\<lparr>sg_read := True\<rparr>"
    by (simp_all add: callback_connection_def Let_def)
  have ready: "cid \<noteq> []" "connection_storage_ready storage"
    using assms by (auto simp: upsert_callback_connection_def split: if_splits)
  with assms upsert_effect [of "ev_isoparse env" "ev_up env" "ev_now env" "callback_connection cid status entry r"
      "cc_organization_id claims" "cc_user_id claims" "provider_kind_value (pe_provider_kind entry)" table]
  show ?thesis unfolding c by (simp add: upsert_callback_connection_def)
qed

lemma callback_audit_owner:
  assumes "cc_valid claims" "connection_storage_ready storage"
  shows "append_callback_audit env d storage claims m \<noteq> [] \<and>
    list_all (\<lambda>e. case e of ApiAudit o' u _ \<Rightarrow> o' = cc_organization_id claims \<and> u = cc_user_id claims | _ \<Rightarrow> False)
      (append_callback_audit env d storage claims m)"
  using assms ready_audits by (simp add: append_callback_audit_def api_audit_def)

lemma accepted_callback_state:
  "cd_accepted (callback_decision_for_entry now e r b v a) \<Longrightarrow> cq_state_valid r"
  by (auto simp: callback_decision_for_entry_def decide_callback_reason_def Let_def split: if_splits)

text \<open>A callback writes at most one row, and only on the strength of a signed state: it is stored under
  the organisation and user of the state, grants reading and nothing else, and an audit row for the same
  owner comes with it. The account id is taken from the query, so whatever row had that id is replaced,
  also one of another owner.\<close>

theorem callback_writes_for_signed_owner:
  "let claims = callback_claims_of env (pe_slug entry) q
   in case api_callback env entry q table of (answer, table', events) \<Rightarrow>
     table' = table \<or>
     (cc_valid claims \<and> events \<noteq> [] \<and>
      list_all (\<lambda>e. case e of ApiAudit o' u _ \<Rightarrow> o' = cc_organization_id claims \<and> u = cc_user_id claims | _ \<Rightarrow> False) events \<and>
      query_connection_id q \<noteq> [] \<and>
      (\<exists>row. table' = dict_set (query_connection_id q) row table
         \<and> cw_organization_id row = py_strip (cc_organization_id claims)
         \<and> cw_user_id row = py_strip (cc_user_id claims) \<and> cw_provider_slug row = pe_slug entry
         \<and> cw_scopes row = dict_of (scope_grant_metadata (no_scopes\<lparr>sg_read := True\<rparr>))))"
proof -
  let ?e = "connect_enabled_entry entry (ev_config env)" and ?s = "api_storage env True"
  let ?claims = "callback_claims_of env (pe_slug entry) q"
  let ?r = "callback_request_of (pe_slug entry) q ?claims"
  let ?d = "callback_decision_of env ?e ?r"
  let ?t = "upsert_callback_connection env (query_connection_id q) (qy_status q) ?e ?r ?claims ?s table"
  show ?thesis
  proof (cases "cd_accepted ?d \<and> ?t \<noteq> table")
    case False
    then show ?thesis by (auto simp: api_callback_def Let_def)
  next
    case True
    then have valid: "cc_valid ?claims"
      using accepted_callback_state by (fastforce simp: callback_decision_of_def callback_request_of_def)
    note saved = callback_saved [OF refl, of env "query_connection_id q" "qy_status q" ?e ?r ?claims ?s table]
    have "connection_storage_ready ?s" using saved True by blast
    from callback_audit_owner [OF valid this] valid True saved show ?thesis
      by (simp add: api_callback_def Let_def)
  qed
qed

section \<open>A poll that undoes a disconnect\<close>

lemma disabled_read_back: "normalize_connection_state (Some (connection_state_value s)) = CsDisabled \<longleftrightarrow> s = CsDisabled"
  by (cases s; hypsubst; code_simp)

lemma save_listed_row:
  assumes "\<not> poll_would_reanimate env user c table" "ev_up env"
    and "normalize_owner (owner_organization_id (ev_sha env) user) (au_user_id user) \<noteq> None"
    and "cr_connection_id c \<noteq> []" "cr_provider_slug c \<noteq> []"
  obtains row where "save_listed env user entry c table = dict_set (cr_connection_id c) row table"
    "row_of user env (cr_connection_id c, row)" "cw_state row = connection_state_value (cr_state c)"
    "cw_provider_slug row = cr_provider_slug c"
proof -
  let ?w = "with_preserved_scopes env user c table"
  have w: "cr_connection_id ?w = cr_connection_id c" "cr_provider_slug ?w = cr_provider_slug c" "cr_state ?w = cr_state c"
    by (simp_all add: with_preserved_scopes_def split: option.split)
  have "fst (api_upsert env user entry ?w table)"
    using assms(2-5) w by (auto simp: api_upsert_def upsert_connection_def Let_def)
  then obtain row where "snd (api_upsert env user entry ?w table) = dict_set (cr_connection_id ?w) row table"
    "row_of user env (cr_connection_id ?w, row)" "cw_state row = connection_state_value (cr_state ?w)"
    "cw_provider_slug row = cr_provider_slug ?w"
    by (rule api_upsert_row)
  with assms(1) that show thesis unfolding w by (simp add: save_listed_def)
qed

text \<open>The guard looks at one poll at a time, and only at accounts reported as active. A disconnected row
  is overwritten when a poll reports the account in any other state (an expired token, say), which erases
  the reason the guard looks for; the next poll that reports it active connects it again.\<close>

theorem two_polls_undo_disconnect:
  assumes "distinct (map fst table)" "ev_up env" "py_strip cid = cid" "cid \<noteq> []"
    and "normalize_owner (owner_organization_id (ev_sha env) user) (au_user_id user) \<noteq> None"
    and "normalize_provider_slug slug = slug" "slug \<noteq> []"
    and "cr_connection_id lapsed = cid" "cr_provider_slug lapsed = slug" "cr_state lapsed \<notin> {CsConnected, CsDisabled}"
    and "cr_connection_id live = cid" "cr_provider_slug live = slug" "cr_active live"
  shows "\<exists>row. dict_get (save_listed env user entry live (save_listed env user entry lapsed table)) cid = Some row
    \<and> cw_state row = ''connected'' \<and> row_of user env (cid, row)"
proof -
  have "\<not> poll_would_reanimate env user lapsed table"
    using assms(10) by (simp add: poll_would_reanimate_def cr_active_def split: option.split)
  then obtain row where first: "save_listed env user entry lapsed table = dict_set cid row table"
    "row_of user env (cid, row)" "cw_state row = connection_state_value (cr_state lapsed)" "cw_provider_slug row = slug"
    using save_listed_row [of env user lapsed table entry] assms(2,4,5,7-9) by metis
  let ?t = "dict_set cid row table"
  have got: "api_get env user slug cid ?t = connection_from_row (ev_isofmt env) slug (cid, row)"
    using api_get_dict [of ?t cid row user env slug] assms(1-7) first(2,4) by (simp add: distinct_update)
  have "\<not> poll_would_reanimate env user live ?t"
    using assms(10-12) got first(3)
    by (auto simp: poll_would_reanimate_def connection_from_row_def Let_def disabled_read_back
        split: if_splits)
  then obtain row' where "save_listed env user entry live ?t = dict_set cid row' ?t"
    "row_of user env (cid, row')" "cw_state row' = connection_state_value (cr_state live)"
    using save_listed_row [of env user live ?t entry] assms(2,4,5,7,11,12) by metis
  then show ?thesis using first(1) assms(13) by (simp add: cr_active_def)
qed

section \<open>The properties at a table with rows of two owners\<close>

definition ann :: auth_user where
  "ann = \<lparr>au_user_id = ''ann'', au_organization_id = Some ''org''\<rparr>"

definition stored_row :: "string \<Rightarrow> connection_row" where
  "stored_row user =
     \<lparr>cw_organization_id = ''org'', cw_user_id = user, cw_provider_slug = ''gmail'', cw_provider_kind = ''composio'',
      cw_state = ''connected'', cw_scopes = dict_of (scope_grant_metadata (no_scopes\<lparr>sg_read := True\<rparr>)),
      cw_vault_ref = [], cw_account_label = None, cw_external_account_ref = None, cw_reason = None,
      cw_warnings = [], cw_updated_at = 0, cw_last_checked_at = None, cw_last_used_at = None\<rparr>"

definition two_owners :: connection_table where
  "two_owners = [(''ca1'', stored_row ''ann''), (''ca2'', stored_row ''bob'')]"

definition sample_api_env :: api_env where
  "sample_api_env =
     \<lparr>ev_config = linked_config, ev_probe = Tables True True True, ev_up = True, ev_created_at = ''t'',
      ev_now = 0, ev_later = 0, ev_str_of = (\<lambda>_. []), ev_sha = (\<lambda>s. s), ev_isoparse = (\<lambda>_. None),
      ev_isofmt = (\<lambda>_. []), ev_lib = sample_state_lib, ev_secret = ''key'', ev_epoch = 120, ev_nonce = ''n'',
      ev_add_query = (\<lambda>u s. u), ev_lookup_reply = TransportError, ev_link_reply = TransportError,
      ev_accounts_reply = TransportError, ev_delete_reply = DeleteReply 204 None\<rparr>"

definition gmail_entry :: provider_entry where
  "gmail_entry = provider_registry ! 1"

lemma two_owners_distinct: "distinct (map fst two_owners)"
  by (simp add: two_owners_def)



end
