(* ===== verification/Connect_Post.thy ===== *)
theory Connect_Post
  imports Connect_Accounts Callback_State
begin

text \<open>
  \<open>app/engine/wiii_connect/facebook_post_preview.py\<close>: what a post is reduced to before it is shown for
  approval, and the signed token that ties an apply request to the preview the user saw. HMAC-SHA256, the
  JSON parser and the irregular base64 inputs are those of \<open>state_lib\<close>, SHA-256 is the argument \<open>sha\<close>. A
  check that raises (a time stamp that is no number) is \<open>None\<close>.
\<close>

section \<open>Normal forms\<close>

definition post_version :: string where
  "post_version = ''wiii_connect_facebook_post_preview.v1''"

definition post_token_max_age_seconds :: int where
  "post_token_max_age_seconds = 30 * 60"

definition normalize_post_message :: "string \<Rightarrow> string" where
  "normalize_post_message value = take 5000 (py_join '' '' (py_split (py_strip value)))"

definition normalize_image_media_type :: "string \<Rightarrow> string" where
  "normalize_image_media_type value =
     (let media_type = py_lower (py_strip value)
      in if media_type \<in> {''image/png'', ''image/jpeg'', ''image/webp'', ''image/gif''}
         then media_type else [])"

definition has_post_marker :: "string \<Rightarrow> bool" where
  "has_post_marker t =
     list_ex (\<lambda>marker. contains marker t) [''token'', ''secret'', ''password'', ''key'']"

definition image_suffix :: "string \<Rightarrow> string" where
  "image_suffix media_type =
     (case dict_get [(''image/png'', ''.png''), (''image/jpeg'', ''.jpg''), (''image/webp'', ''.webp''),
        (''image/gif'', ''.gif'')] media_type of Some s \<Rightarrow> s | None \<Rightarrow> ''.img'')"

definition normalize_image_filename :: "string \<Rightarrow> string \<Rightarrow> string" where
  "normalize_image_filename value media_type =
     (let t = py_strip (base_name value);
          suffix = image_suffix media_type;
          fallback = ''wiii-facebook-post'' @ suffix
      in if t = [] \<or> has_post_marker (py_lower t) then fallback
         else
           let safe = strip_chars '' .'' (filter (\<lambda>c. is_alnum c \<or> c \<in> set '' ._-'') (take 120 t))
           in if safe = [] then fallback else if CHR ''.'' \<notin> set safe then safe @ suffix else safe)"

definition normalize_page_id :: "string \<Rightarrow> string" where
  "normalize_page_id value = filter (\<lambda>c. is_alnum c \<or> c \<in> set ''_-:'') (take 120 (py_strip value))"

definition normalize_image_url :: "string \<Rightarrow> string" where
  "normalize_image_url value =
     (let t = py_strip value
      in if \<not> py_startswith t ''https://'' \<or> has_post_marker (py_lower t) then [] else take 2000 t)"

definition image_sha256 :: "(string \<Rightarrow> string) \<Rightarrow> string \<Rightarrow> string" where
  "image_sha256 sha image_bytes = (if image_bytes = [] then [] else sha image_bytes)"

definition post_safe_connection_ref :: "string \<Rightarrow> string" where
  "post_safe_connection_ref value =
     (let t = py_strip value in if py_startswith t ''wcn_'' then take 180 t else [])"

section \<open>Evidence and token\<close>

text \<open>The fields evidence and token share, in the key order of the JSON text.\<close>

definition post_fields :: "(string \<Rightarrow> string) \<Rightarrow> operation_request \<Rightarrow> (string \<times> string) list" where
  "post_fields sha r =
     [(''action_slug'', policy_action_slug (or_action_slug r)),
      (''connection_ref'', post_safe_connection_ref (or_connection_ref r)),
      (''image_hash'', safe_fingerprint (or_image_sha256 r)),
      (''image_url_hash'', sha (normalize_image_url (or_image_url r))),
      (''message_hash'', sha (or_message r)),
      (''page_id'', normalize_page_id (or_page_id r)),
      (''provider_slug'', policy_provider_slug (or_provider_slug r))]"

definition build_preview_evidence_id :: "(string \<Rightarrow> string) \<Rightarrow> operation_request \<Rightarrow> string" where
  "build_preview_evidence_id sha r = ''wcp_'' @ take 32 (sha (json_object (post_fields sha r)))"

record post_token =
  pt_fields :: "(string \<times> string) list"
  pt_preview_evidence_id :: string
  pt_issued_at :: int
  pt_nonce :: string

definition post_token_of :: "(string \<Rightarrow> string) \<Rightarrow> operation_request \<Rightarrow> int \<Rightarrow> string \<Rightarrow> post_token" where
  "post_token_of sha r issued_at nonce =
     \<lparr>pt_fields = post_fields sha r, pt_preview_evidence_id = build_preview_evidence_id sha r,
      pt_issued_at = issued_at, pt_nonce = nonce\<rparr>"

text \<open>\<open>json.dumps(payload, sort_keys=True)\<close>: the shared fields with \<open>iat\<close>, the nonce, the evidence id and the
  version in their places.\<close>

definition token_members :: "post_token \<Rightarrow> (string \<times> string) list" where
  "token_members t =
     (let field = (\<lambda>k. (k, json_string (str_or_empty (dict_get (pt_fields t) k)))) in
     [field ''action_slug'', field ''connection_ref'', (''iat'', int_text (pt_issued_at t)),
      field ''image_hash'', field ''image_url_hash'', field ''message_hash'',
      (''nonce'', json_string (pt_nonce t)), field ''page_id'',
      (''preview_evidence_id'', json_string (pt_preview_evidence_id t)), field ''provider_slug'',
      (''v'', json_string post_version)])"

definition token_text :: "post_token \<Rightarrow> string" where
  "token_text t = CHR ''{'' # py_join '','' (map (\<lambda>(k, v). json_string k @ '':'' @ v) (token_members t)) @ ''}''"

definition token_dict :: "post_token \<Rightarrow> (string, pyval) dict" where
  "token_dict t =
     map (\<lambda>(k, v). (k, PStr v)) (pt_fields t)
     @ [(''iat'', PInt (pt_issued_at t)), (''nonce'', PStr (pt_nonce t)),
        (''preview_evidence_id'', PStr (pt_preview_evidence_id t)), (''v'', PStr post_version)]"

definition post_signature :: "state_lib \<Rightarrow> string \<Rightarrow> string \<Rightarrow> string" where
  "post_signature lib encoded_payload secret_key = b64encode (sl_hmac lib secret_key encoded_payload)"

definition build_approval_token ::
  "state_lib \<Rightarrow> (string \<Rightarrow> string) \<Rightarrow> operation_request \<Rightarrow> string \<Rightarrow> int \<Rightarrow> string \<Rightarrow> string" where
  "build_approval_token lib sha r secret_key issued_at nonce =
     (let encoded = b64encode (token_text (post_token_of sha r issued_at nonce))
      in encoded @ ''.'' @ post_signature lib encoded secret_key)"

datatype token_reason =
  TokenValid | TokenMissing | TokenInvalidSignature | TokenInvalidPayload | TokenExpired | TokenMismatch

fun token_reason_value :: "token_reason \<Rightarrow> string" where
  "token_reason_value TokenValid = ''valid''"
| "token_reason_value TokenMissing = ''missing_token''"
| "token_reason_value TokenInvalidSignature = ''invalid_signature''"
| "token_reason_value TokenInvalidPayload = ''invalid_payload''"
| "token_reason_value TokenExpired = ''token_expired''"
| "token_reason_value TokenMismatch = ''preview_mismatch''"

record token_check =
  tc_reason :: token_reason
  tc_preview_evidence_id :: string

definition tc_valid :: "token_check \<Rightarrow> bool" where
  "tc_valid c \<longleftrightarrow> tc_reason c = TokenValid"

definition token_check_metadata :: "token_check \<Rightarrow> pyval" where
  "token_check_metadata c = PDict
     [(''version'', PStr post_version), (''valid'', PBool (tc_valid c)),
      (''reason'', PStr (token_reason_value (tc_reason c))),
      (''preview_evidence_id_present'', PBool (tc_preview_evidence_id c \<noteq> []))]"

definition expected_checks :: "(string \<Rightarrow> string) \<Rightarrow> operation_request \<Rightarrow> (string \<times> string) list" where
  "expected_checks sha r =
     (''v'', post_version) # post_fields sha r @ [(''preview_evidence_id'', build_preview_evidence_id sha r)]"

definition payload_string :: "state_lib \<Rightarrow> (string, pyval) dict \<Rightarrow> string \<Rightarrow> string" where
  "payload_string lib payload key = py_text (sl_str lib) (payload_get payload key)"

definition judge_token ::
  "state_lib \<Rightarrow> (string \<Rightarrow> string) \<Rightarrow> operation_request \<Rightarrow> string \<Rightarrow> int \<Rightarrow> int \<Rightarrow> (string, pyval) dict
   \<Rightarrow> token_check option" where
  "judge_token lib sha r preview_evidence_id now max_age payload =
     (let iat = payload_get payload ''iat'' in
      case (if truthy iat then py_int iat else Some 0) of
        None \<Rightarrow> None
      | Some issued_at \<Rightarrow>
          if issued_at \<le> 0 \<or> max_age < now - issued_at
          then Some \<lparr>tc_reason = TokenExpired, tc_preview_evidence_id = []\<rparr>
          else if \<not> list_all (\<lambda>(key, expected). payload_string lib payload key = expected) (expected_checks sha r)
          then Some \<lparr>tc_reason = TokenMismatch,
                     tc_preview_evidence_id = payload_string lib payload ''preview_evidence_id''\<rparr>
          else if preview_evidence_id \<noteq> [] \<and> preview_evidence_id \<noteq> build_preview_evidence_id sha r
          then Some \<lparr>tc_reason = TokenMismatch, tc_preview_evidence_id = build_preview_evidence_id sha r\<rparr>
          else Some \<lparr>tc_reason = TokenValid, tc_preview_evidence_id = build_preview_evidence_id sha r\<rparr>)"

text \<open>\<open>text.rsplit(".", 1)\<close>: the parts before and after the last dot.\<close>

definition before_last_dot :: "string \<Rightarrow> string" where
  "before_last_dot s = rev (drop 1 (dropWhile (\<lambda>c. c \<noteq> CHR ''.'') (rev s)))"

definition after_last_dot :: "string \<Rightarrow> string" where
  "after_last_dot s = rev (takeWhile (\<lambda>c. c \<noteq> CHR ''.'') (rev s))"

definition verify_approval_token ::
  "state_lib \<Rightarrow> (string \<Rightarrow> string) \<Rightarrow> string \<Rightarrow> operation_request \<Rightarrow> string \<Rightarrow> string \<Rightarrow> int \<Rightarrow> int
   \<Rightarrow> token_check option" where
  "verify_approval_token lib sha token r secret_key preview_evidence_id now max_age =
     (let t = py_strip token;
          encoded = before_last_dot t
      in if CHR ''.'' \<notin> set t then Some \<lparr>tc_reason = TokenMissing, tc_preview_evidence_id = []\<rparr>
         else if after_last_dot t \<noteq> post_signature lib encoded secret_key
         then Some \<lparr>tc_reason = TokenInvalidSignature, tc_preview_evidence_id = []\<rparr>
         else case Option.bind (b64decode (sl_b64_other lib) encoded) (sl_json_loads lib) of
             None \<Rightarrow> Some \<lparr>tc_reason = TokenInvalidPayload, tc_preview_evidence_id = []\<rparr>
           | Some payload \<Rightarrow> judge_token lib sha r preview_evidence_id now max_age payload)"

section \<open>Properties\<close>

lemma split_last_dot:
  "CHR ''.'' \<in> set s \<Longrightarrow> s = before_last_dot s @ ''.'' @ after_last_dot s"
proof -
  assume "CHR ''.'' \<in> set s"
  then have "dropWhile (\<lambda>c. c \<noteq> CHR ''.'') (rev s) \<noteq> []" by (simp add: dropWhile_eq_Nil_conv)
  then obtain c ys where c: "dropWhile (\<lambda>c. c \<noteq> CHR ''.'') (rev s) = c # ys" 
    by (cases "dropWhile (\<lambda>c. c \<noteq> CHR ''.'') (rev s)") auto
  then have "c = CHR ''.''" using hd_dropWhile [of "\<lambda>c. c \<noteq> CHR ''.''" "rev s"] by simp
  then have "rev s = takeWhile (\<lambda>c. c \<noteq> CHR ''.'') (rev s) @ CHR ''.'' # ys"
    using takeWhile_dropWhile_id [of "\<lambda>c. c \<noteq> CHR ''.''" "rev s"] c by simp
  from arg_cong [OF this, of rev]
  have "s = rev ys @ ''.'' @ rev (takeWhile (\<lambda>c. c \<noteq> CHR ''.'') (rev s))" by simp
  then show ?thesis by (simp add: before_last_dot_def after_last_dot_def c)
qed

lemma last_dot_encoded:
  "before_last_dot (s @ ''.'' @ b64encode t) = s" "after_last_dot (s @ ''.'' @ b64encode t) = b64encode t"
proof -
  have nodot: "\<And>c. c \<in> set (rev (b64encode t)) \<Longrightarrow> c \<noteq> CHR ''.''"
    using b64encode_chars [of _ t] by auto
  have "dropWhile (\<lambda>c. c \<noteq> CHR ''.'') (rev (b64encode t) @ CHR ''.'' # rev s) = CHR ''.'' # rev s"
    "takeWhile (\<lambda>c. c \<noteq> CHR ''.'') (rev (b64encode t) @ CHR ''.'' # rev s) = rev (b64encode t)"
    using nodot by (simp_all add: dropWhile_append2 takeWhile_append2 del: set_rev)
  then show "before_last_dot (s @ ''.'' @ b64encode t) = s"
    "after_last_dot (s @ ''.'' @ b64encode t) = b64encode t"
    by (simp_all add: before_last_dot_def after_last_dot_def)
qed

lemma post_fields_keys:
  "map fst (post_fields sha r) =
     [''action_slug'', ''connection_ref'', ''image_hash'', ''image_url_hash'', ''message_hash'', ''page_id'',
      ''provider_slug'']"
  by (simp add: post_fields_def)

lemma token_dict_fields:
  "list_all (\<lambda>(key, expected). payload_string lib (token_dict (post_token_of sha r iat nonce)) key = expected)
     (expected_checks sha r') \<longleftrightarrow> post_fields sha r = post_fields sha r'"
proof -
  have str: "py_text f (PStr s) = s" for f s by (simp add: py_text_def)
  have "post_fields sha r = post_fields sha r' \<Longrightarrow> build_preview_evidence_id sha r = build_preview_evidence_id sha r'"
    by (simp add: build_preview_evidence_id_def)
  then show ?thesis
    by (auto simp: payload_string_def token_dict_def post_token_of_def payload_get_def expected_checks_def
        post_fields_def str)
qed

text \<open>An approval token approves exactly the post it was issued for: presented with any apply request,
  while it is young enough, it verifies if and only if the request agrees with the previewed one in
  provider, action, account, page and the hashes of message and image, and names no other evidence; the
  evidence id it yields is the preview's.\<close>

theorem approval_token_round_trip:
  assumes "sl_json_loads lib (token_text (post_token_of sha r iat nonce))
      = Some (token_dict (post_token_of sha r iat nonce))"
  shows "verify_approval_token lib sha (build_approval_token lib sha r secret iat nonce) r' secret evidence now max_age
    = Some (if iat \<le> 0 \<or> max_age < now - iat then \<lparr>tc_reason = TokenExpired, tc_preview_evidence_id = []\<rparr>
        else if post_fields sha r = post_fields sha r'
               \<and> (evidence = [] \<or> evidence = build_preview_evidence_id sha r)
        then \<lparr>tc_reason = TokenValid, tc_preview_evidence_id = build_preview_evidence_id sha r\<rparr>
        else \<lparr>tc_reason = TokenMismatch, tc_preview_evidence_id = build_preview_evidence_id sha r\<rparr>)"
proof -
  let ?t = "post_token_of sha r iat nonce"
  have tok: "py_strip (build_approval_token lib sha r secret iat nonce)
      = b64encode (token_text ?t) @ ''.'' @ b64encode (sl_hmac lib secret (b64encode (token_text ?t)))"
    unfolding build_approval_token_def Let_def post_signature_def by (rule strip_state)
  have iat: "payload_get (token_dict ?t) ''iat'' = PInt iat"
    and ev: "payload_string lib (token_dict ?t) ''preview_evidence_id'' = build_preview_evidence_id sha r"
    by (simp_all add: payload_get_def token_dict_def post_token_of_def post_fields_def payload_string_def py_text_def
        build_preview_evidence_id_def)
  have eq: "post_fields sha r = post_fields sha r' \<Longrightarrow>
      build_preview_evidence_id sha r' = build_preview_evidence_id sha r"
    by (simp add: build_preview_evidence_id_def)
  have "verify_approval_token lib sha (build_approval_token lib sha r secret iat nonce) r' secret evidence now max_age
      = judge_token lib sha r' evidence now max_age (token_dict ?t)"
    unfolding verify_approval_token_def tok Let_def last_dot_encoded by (simp add: post_signature_def assms)
  also have "\<dots> = Some (if iat \<le> 0 \<or> max_age < now - iat then \<lparr>tc_reason = TokenExpired, tc_preview_evidence_id = []\<rparr>
        else if post_fields sha r = post_fields sha r'
               \<and> (evidence = [] \<or> evidence = build_preview_evidence_id sha r)
        then \<lparr>tc_reason = TokenValid, tc_preview_evidence_id = build_preview_evidence_id sha r\<rparr>
        else \<lparr>tc_reason = TokenMismatch, tc_preview_evidence_id = build_preview_evidence_id sha r\<rparr>)"
    unfolding judge_token_def iat token_dict_fields ev Let_def using eq by (cases "iat = 0") auto
  finally show ?thesis .
qed

text \<open>Nothing but a signed token approves: if a text is accepted for an apply request, then what
  follows its last dot is the signature of the rest under the service's key.\<close>

theorem accepted_token_is_signed:
  assumes "verify_approval_token lib sha token r secret evidence now max_age = Some c" "tc_valid c"
  shows "(\<exists>encoded. py_strip token = encoded @ ''.'' @ post_signature lib encoded secret)
    \<and> tc_preview_evidence_id c = build_preview_evidence_id sha r
    \<and> (evidence = [] \<or> evidence = build_preview_evidence_id sha r)"
proof -
  have dot: "CHR ''.'' \<in> set (py_strip token)"
    and sig: "after_last_dot (py_strip token) = post_signature lib (before_last_dot (py_strip token)) secret"
    using assms by (auto simp: verify_approval_token_def tc_valid_def Let_def split: if_splits)
  obtain payload where "judge_token lib sha r evidence now max_age payload = Some c"
    using assms by (auto simp: verify_approval_token_def tc_valid_def Let_def split: if_splits option.splits)
  then have "tc_preview_evidence_id c = build_preview_evidence_id sha r
    \<and> (evidence = [] \<or> evidence = build_preview_evidence_id sha r)"
    using assms(2) by (auto simp: judge_token_def tc_valid_def Let_def split: if_splits option.splits)
  with split_last_dot [OF dot] sig show ?thesis by metis
qed

end
