(* ===== verification/Connect_Publish.thy ===== *)
theory Connect_Publish
  imports Connect_Api Connect_Post
begin

text \<open>
  The Facebook endpoints of \<open>app/api/v1/wiii_connect.py\<close>: list the pages of a connected account, preview a
  post, apply a previewed post. Their state is the connection table and the approval table; the replies
  of the provider's HTTP interface are in \<open>post_env\<close> and what an endpoint does is the list of its
  events, in order. An endpoint answers 404, raises, or returns its JSON answer with the new state.
\<close>

section \<open>Requests\<close>

record post_env =
  fe_api :: api_env
  fe_b64_other :: "string \<Rightarrow> string option"
  fe_schema_reply :: "string \<Rightarrow> http_reply"
  fe_upload_reply :: http_reply
  fe_put_reply :: http_reply
  fe_execute_reply :: "string \<Rightarrow> string \<Rightarrow> (string, pyval) dict \<Rightarrow> http_reply"
  fe_pages_reply :: http_reply

record post_state =
  pw_connections :: connection_table
  pw_approvals :: approval_table

datatype post_event =
    PostApi api_event
  | SchemaAsked string
  | UploadAsked string
  | PagesAsked string
  | PostSent string string "(string, pyval) dict"

datatype post_failure = NotFound string | ServerError

record post_body =
  pb_surface :: string
  pb_connection_ref :: string
  pb_page_id :: string
  pb_message :: string
  pb_image_base64 :: "string option"
  pb_image_media_type :: "string option"
  pb_image_filename :: "string option"
  pb_image_url :: "string option"

record apply_body = post_body +
  yb_approval_token :: string
  yb_preview_evidence_id :: string

section \<open>The image\<close>

text \<open>
  \<open>base64.b64decode(raw, validate=True)\<close>. A character outside the standard alphabet is an error and so is a
  length that is no multiple of four; misplaced padding, on which releases of the library differ, is left
  to \<open>other\<close>.
\<close>

definition std_char :: "char \<Rightarrow> char" where
  "std_char c = (if c = CHR ''+'' then CHR ''-'' else if c = CHR ''/'' then CHR ''_'' else c)"

definition std_alphabet :: "char \<Rightarrow> bool" where
  "std_alphabet c \<longleftrightarrow> is_alnum c \<or> c = CHR ''+'' \<or> c = CHR ''/''"

definition std_b64decode :: "(string \<Rightarrow> string option) \<Rightarrow> string \<Rightarrow> string option" where
  "std_b64decode other value =
     (let body = takeWhile (\<lambda>c. c \<noteq> CHR ''='') value;
          padding = drop (length body) value
      in if \<not> list_all (\<lambda>c. std_alphabet c \<or> c = CHR ''='') value \<or> length value mod 4 \<noteq> 0 \<and> padding = []
         then None
         else if list_all (\<lambda>c. c = CHR ''='') padding \<and> length padding \<le> 2 \<and> length value mod 4 = 0
         then map_option (map char_of) (from_sextets (map (the \<circ> char_sextet \<circ> std_char) body))
         else other value)"

record image_payload =
  ip_bytes :: string
  ip_media_type :: string
  ip_filename :: string
  ip_error :: string

definition no_image :: "string \<Rightarrow> image_payload" where
  "no_image reason = \<lparr>ip_bytes = [], ip_media_type = [], ip_filename = [], ip_error = reason\<rparr>"

definition image_limit :: nat where
  "image_limit = 10 * 1024 * 1024"

definition decode_image_payload :: "post_env \<Rightarrow> 'a post_body_scheme \<Rightarrow> image_payload" where
  "decode_image_payload env body =
     (let raw = py_strip (str_or_empty (pb_image_base64 body));
          data = (if CHR '','' \<in> set raw \<and> py_startswith (py_lower raw) ''data:''
            then drop 1 (dropWhile (\<lambda>c. c \<noteq> CHR '','') raw) else raw);
          media_type = normalize_image_media_type (str_or_empty (pb_image_media_type body))
      in if raw = [] then no_image []
         else if media_type = [] then no_image ''unsupported_image_type''
         else case std_b64decode (fe_b64_other env) data of
             None \<Rightarrow> no_image ''invalid_image_base64''
           | Some bytes \<Rightarrow>
               if bytes = [] then no_image ''missing_image''
               else if image_limit < length bytes then no_image ''image_too_large''
               else \<lparr>ip_bytes = bytes, ip_media_type = media_type,
                     ip_filename = normalize_image_filename (str_or_empty (pb_image_filename body)) media_type,
                     ip_error = []\<rparr>)"

definition post_action_slug :: "string \<Rightarrow> string \<Rightarrow> string" where
  "post_action_slug image_bytes image_url =
     (if image_bytes \<noteq> [] \<or> image_url \<noteq> [] then ''FACEBOOK_CREATE_PHOTO_POST'' else ''FACEBOOK_CREATE_POST'')"

definition post_argument_keys :: "string \<Rightarrow> string \<Rightarrow> string \<Rightarrow> string list" where
  "post_argument_keys action_slug image_bytes image_url =
     (if action_slug = ''FACEBOOK_CREATE_PHOTO_POST'' \<and> image_bytes \<noteq> []
      then [''page_id'', ''message'', ''photo'', ''published'']
      else if action_slug = ''FACEBOOK_CREATE_PHOTO_POST'' \<and> image_url \<noteq> []
      then [''page_id'', ''message'', ''url'', ''published'']
      else [''page_id'', ''message'', ''published''])"

definition post_validation_payload :: "string \<Rightarrow> api_answer" where
  "post_validation_payload reason =
     [(''version'', PStr ''wiii_connect_facebook_post_validation.v1''), (''status'', PStr ''validation_failed''),
      (''reason'', PStr (safe_surface reason)), (''provider_slug'', PStr ''facebook''),
      (''gateway'', PNone), (''execution'', PNone)]"

text \<open>The post a body asks for, in the normal forms the rest of the handler uses.\<close>

definition post_operation :: "post_env \<Rightarrow> string \<Rightarrow> string \<Rightarrow> 'a post_body_scheme \<Rightarrow> operation_request" where
  "post_operation env slug selected body =
     (let img = decode_image_payload env body;
          image_url = normalize_image_url (str_or_empty (pb_image_url body))
      in \<lparr>or_provider_slug = slug, or_action_slug = post_action_slug (ip_bytes img) image_url,
          or_connection_ref = selected, or_page_id = normalize_page_id (pb_page_id body),
          or_message = normalize_post_message (pb_message body),
          or_image_sha256 = image_sha256 (ev_sha (fe_api env)) (ip_bytes img), or_image_url = image_url\<rparr>)"

definition post_validation_error :: "post_env \<Rightarrow> 'a post_body_scheme \<Rightarrow> string option" where
  "post_validation_error env body =
     (let image_error = ip_error (decode_image_payload env body)
      in if image_error \<noteq> [] then Some image_error
         else if normalize_page_id (pb_page_id body) = [] then Some ''missing_page_id''
         else if normalize_post_message (pb_message body) = [] then Some ''missing_message''
         else None)"

section \<open>Shared steps\<close>

record post_selection =
  se_storage :: "(string, pyval) dict"
  se_connection :: "connection_record option"
  se_ref :: string
  se_connection_id :: string
  se_table :: connection_table

definition load_selected_connection ::
  "api_env \<Rightarrow> auth_user \<Rightarrow> provider_entry \<Rightarrow> string \<Rightarrow> connection_table \<Rightarrow> post_selection" where
  "load_selected_connection env user entry connection_ref table =
     (let storage = api_storage env True;
          selected = api_connection_ref (Some connection_ref);
          table1 = snd (api_expire env storage user (pe_slug entry) table)
      in \<lparr>se_storage = storage,
          se_connection = selected_connection env user entry storage selected table table1,
          se_ref = selected,
          se_connection_id = resolve_provider_connection_id env storage user (pe_slug entry) selected table,
          se_table = table1\<rparr>)"

definition stage_audit ::
  "post_env \<Rightarrow> auth_user \<Rightarrow> (string, pyval) dict \<Rightarrow> gateway_decision \<Rightarrow> execution_request \<Rightarrow> string \<Rightarrow> string
   \<Rightarrow> (string, pyval) dict \<Rightarrow> post_event list" where
  "stage_audit env user storage gateway request status reason metadata =
     map PostApi (append_gateway_audit (fe_api env) gateway request storage user
       (safe_surface status) (safe_surface reason) metadata)"

definition gateway_audit ::
  "post_env \<Rightarrow> auth_user \<Rightarrow> (string, pyval) dict \<Rightarrow> gateway_decision \<Rightarrow> execution_request
   \<Rightarrow> (string, pyval) dict \<Rightarrow> post_event list" where
  "gateway_audit env user storage gateway request metadata =
     map PostApi (append_gateway_audit (fe_api env) gateway request storage user
       (gateway_status_value gateway) (gateway_reason_value gateway) metadata)"

definition post_gateway_payload ::
  "provider_entry \<Rightarrow> string \<Rightarrow> string \<Rightarrow> gateway_decision \<Rightarrow> (string, pyval) dict \<Rightarrow> pyval \<Rightarrow> pyval
   \<Rightarrow> string list \<Rightarrow> pyval option \<Rightarrow> api_answer" where
  "post_gateway_payload entry status reason gateway storage schema upload missing approval_ledger =
     [(''version'', PStr ''wiii_connect_facebook_post_apply.v1''), (''status'', PStr (safe_surface status)),
      (''reason'', PStr (safe_surface reason)), (''provider_slug'', PStr (pe_slug entry)),
      (''gateway'', gateway_decision_metadata gateway), (''schema'', schema), (''upload'', upload),
      (''execution'', PNone), (''storage'', PDict storage)]
     @ (case approval_ledger of Some v \<Rightarrow> [(''approval_ledger'', v)] | None \<Rightarrow> [])
     @ (if missing \<noteq> [] then [(''missing_argument_keys'', PList (map PStr missing))] else [])"

definition approval_storage_ready :: "(string, pyval) dict \<Rightarrow> bool" where
  "approval_storage_ready storage \<longleftrightarrow>
     row_flag storage ''persistent'' \<and> row_flag storage ''audit_ledger_ready''
     \<and> row_flag storage ''operation_approval_table_ready''"

definition keep_first :: "'a list \<Rightarrow> 'a list" where
  "keep_first xs = fold (\<lambda>x acc. if x \<in> set acc then acc else acc @ [x]) xs []"

definition api_missing_argument_keys :: "string list \<Rightarrow> (string, pyval) dict \<Rightarrow> string list" where
  "api_missing_argument_keys required_keys arguments =
     (let provided = map (\<lambda>(k, _). py_strip k) arguments
      in take 50 (keep_first (map safe_public_argument_key
           (filter (\<lambda>key. key \<noteq> [] \<and> key \<notin> set provided) (map py_strip required_keys)))))"

section \<open>Pages\<close>

definition api_pages ::
  "post_env \<Rightarrow> auth_user \<Rightarrow> string \<Rightarrow> string \<Rightarrow> string option \<Rightarrow> post_state
   \<Rightarrow> post_failure + api_answer \<times> post_state \<times> post_event list" where
  "api_pages env user slug connection_ref request_id st =
     (case get_provider_entry slug of
        None \<Rightarrow> Inl (NotFound ''unknown_wiii_connect_provider'')
      | Some entry \<Rightarrow>
          if pe_slug entry \<noteq> ''facebook'' then Inl (NotFound ''unsupported_provider_pages'')
          else
            let api = fe_api env;
                config = ev_config api;
                effective = execution_enabled_entry entry config;
                sel = load_selected_connection api user effective connection_ref (pw_connections st);
                storage = se_storage sel;
                request = \<lparr>xr_provider_slug = pe_slug effective, xr_action_slug = ''FACEBOOK_LIST_MANAGED_PAGES'',
                  xr_path = ''external_app_action'', xr_mutation = MRead, xr_approval_token_present = False,
                  xr_preview_evidence_id = None, xr_preview_evidence_required = False,
                  xr_argument_keys = [''fields'', ''limit''], xr_request_id = str_or_empty request_id\<rparr>;
                gateway = api_gateway api effective (se_connection sel) storage (se_ref sel) request;
                base = [(''surface'', PStr ''desktop''), (''connection_ref_present'', PBool (se_ref sel \<noteq> [])),
                  (''connection_id_present'', PBool (se_connection_id sel \<noteq> [])),
                  (''connection_found'', PBool (se_connection sel \<noteq> None)), (''stage'', PStr ''page_list'')];
                st1 = st\<lparr>pw_connections := se_table sel\<rparr>
            in case (if gd_allowed gateway then se_connection sel else None) of
                 None \<Rightarrow>
                   Inr ([(''version'', PStr ''wiii_connect_facebook_pages.v1''), (''status'', PStr ''blocked''),
                         (''reason'', PStr (gateway_reason_value gateway)), (''provider_slug'', PStr (pe_slug effective)),
                         (''gateway'', gateway_decision_metadata gateway), (''pages'', PList []),
                         (''page_count'', PInt 0)],
                        st1, gateway_audit env user storage gateway request base)
               | Some connection \<Rightarrow>
                   let account = cr_connection_id connection;
                       external = external_user_id (ev_sha api) (au_organization_id user) (au_user_id user);
                       pages = list_facebook_pages (ev_str_of api) config external account
                         (xr_request_id request) (fe_pages_reply env);
                       asked = (if execute_refusal config ''facebook'' ''FACEBOOK_LIST_MANAGED_PAGES'' external account = None
                         then [PagesAsked account] else [])
                   in Inr (dict_set ''gateway'' (gateway_decision_metadata gateway) (page_list_metadata pages),
                           st1,
                           asked @ stage_audit env user storage gateway request
                             (if pl_ready pages then ''succeeded'' else ''blocked'') (pl_reason pages)
                             (base @ [(''page_list'', PDict (page_list_metadata pages))])))"

section \<open>Preview\<close>

definition approval_facts :: "string \<Rightarrow> operation_request \<Rightarrow> image_payload \<Rightarrow> (string, pyval) dict" where
  "approval_facts selected post img =
     [(''selected_connection_present'', PBool (selected \<noteq> [])),
      (''page_selected'', PBool (or_page_id post \<noteq> [])),
      (''message_length'', PInt (int (length (or_message post)))),
      (''image_present'', PBool (ip_bytes img \<noteq> [] \<or> or_image_url post \<noteq> [])),
      (''image_size_bytes'', PInt (int (length (ip_bytes img)))),
      (''image_url_present'', PBool (or_image_url post \<noteq> []))]"

definition record_post_approval ::
  "api_env \<Rightarrow> (string, pyval) dict \<Rightarrow> auth_user \<Rightarrow> string \<Rightarrow> string \<Rightarrow> string \<Rightarrow> string \<Rightarrow> (string, pyval) dict
   \<Rightarrow> approval_table \<Rightarrow> approval_decision \<times> approval_table" where
  "record_post_approval env storage user slug action evidence fingerprint facts table =
     (if \<not> approval_storage_ready storage then (unavailable_approval slug action evidence fingerprint, table)
      else
        let (saved, table1) = append_operation_approval (ev_up env) (ev_now env)
              (build_operation_approval_record (ev_now env) slug action evidence fingerprint
                post_token_max_age_seconds (Some facts))
              (owner_organization_id (ev_sha env) user) (au_user_id user) table
        in if \<not> saved then (unavailable_approval slug action evidence fingerprint, table1)
           else (\<lparr>od_status = OaPending, od_reason = PreviewRecorded, od_provider_slug = slug,
                  od_action_slug = action, od_preview_evidence_id_present = (evidence \<noteq> []),
                  od_request_fingerprint_present = (fingerprint \<noteq> []), od_persistent = True,
                  od_consumed = False, od_blocked = False, od_metadata = facts\<rparr>, table1))"

definition preview_request :: "operation_request \<Rightarrow> image_payload \<Rightarrow> string option \<Rightarrow> execution_request" where
  "preview_request post img request_id =
     \<lparr>xr_provider_slug = or_provider_slug post, xr_action_slug = or_action_slug post,
      xr_path = ''external_app_action'', xr_mutation = MPreview, xr_approval_token_present = False,
      xr_preview_evidence_id = None, xr_preview_evidence_required = False,
      xr_argument_keys = post_argument_keys (or_action_slug post) (ip_bytes img) (or_image_url post),
      xr_request_id = str_or_empty request_id\<rparr>"

definition preview_payload ::
  "provider_entry \<Rightarrow> operation_request \<Rightarrow> image_payload \<Rightarrow> string \<Rightarrow> string \<Rightarrow> gateway_decision
   \<Rightarrow> approval_decision \<Rightarrow> (string, pyval) dict \<Rightarrow> api_answer" where
  "preview_payload effective post img evidence token gateway approval storage =
     [(''version'', PStr post_version), (''status'', PStr ''ready''), (''reason'', PStr ''preview_ready''),
      (''provider_slug'', PStr (pe_slug effective)), (''action_slug'', PStr (or_action_slug post)),
      (''preview_evidence_id'', PStr evidence), (''approval_token'', PStr token),
      (''preview'', PDict
         [(''page_id'', PStr (or_page_id post)), (''message'', PStr (or_message post)),
          (''image_present'', PBool (ip_bytes img \<noteq> [] \<or> or_image_url post \<noteq> [])),
          (''image_media_type'', PStr (ip_media_type img)), (''image_filename'', PStr (ip_filename img)),
          (''image_url_present'', PBool (or_image_url post \<noteq> []))]),
      (''gateway'', gateway_decision_metadata gateway),
      (''approval_ledger'', approval_decision_metadata approval), (''storage'', PDict storage)]"

definition preview_post ::
  "post_env \<Rightarrow> auth_user \<Rightarrow> provider_entry \<Rightarrow> 'a post_body_scheme \<Rightarrow> string option \<Rightarrow> post_state
   \<Rightarrow> api_answer \<times> post_state \<times> post_event list" where
  "preview_post env user effective body request_id st =
     (let api = fe_api env;
          sel = load_selected_connection api user effective (pb_connection_ref body) (pw_connections st);
          storage = se_storage sel;
          img = decode_image_payload env body;
          post = post_operation env (pe_slug effective) (se_ref sel) body;
          request = preview_request post img request_id;
          gateway = api_gateway api effective (se_connection sel) storage (se_ref sel) request;
          evidence = build_preview_evidence_id (ev_sha api) post;
          fingerprint = build_operation_fingerprint (ev_sha api) post;
          audit = gateway_audit env user storage gateway request
            [(''surface'', PStr (pb_surface body)), (''stage'', PStr ''preview''),
             (''connection_ref_present'', PBool (se_ref sel \<noteq> [])),
             (''connection_id_present'', PBool (se_connection_id sel \<noteq> [])),
             (''connection_found'', PBool (se_connection sel \<noteq> None)),
             (''message_length'', PInt (int (length (or_message post)))),
             (''image_present'', PBool (ip_bytes img \<noteq> [] \<or> or_image_url post \<noteq> [])),
             (''image_size_bytes'', PInt (int (length (ip_bytes img)))),
             (''preview_evidence_id_present'', PBool (evidence \<noteq> []))];
          st1 = st\<lparr>pw_connections := se_table sel\<rparr>
      in if \<not> gd_allowed gateway
         then (post_gateway_payload effective ''blocked'' (gateway_reason_value gateway) gateway storage PNone PNone [] None,
               st1, audit)
         else
           let (approval, approvals1) = record_post_approval api storage user (pe_slug effective)
                 (or_action_slug post) evidence fingerprint (approval_facts (se_ref sel) post img) (pw_approvals st)
           in (preview_payload effective post img evidence
                 (build_approval_token (ev_lib api) (ev_sha api) post (ev_secret api) (ev_epoch api) (ev_nonce api))
                 gateway approval storage,
               st1\<lparr>pw_approvals := approvals1\<rparr>, audit))"

definition api_post_preview ::
  "post_env \<Rightarrow> auth_user \<Rightarrow> string \<Rightarrow> 'a post_body_scheme \<Rightarrow> string option \<Rightarrow> post_state
   \<Rightarrow> post_failure + api_answer \<times> post_state \<times> post_event list" where
  "api_post_preview env user slug body request_id st =
     (case get_provider_entry slug of
        None \<Rightarrow> Inl (NotFound ''unknown_wiii_connect_provider'')
      | Some entry \<Rightarrow>
          if pe_slug entry \<noteq> ''facebook'' then Inl (NotFound ''unsupported_provider_post'')
          else case post_validation_error env body of
              Some reason \<Rightarrow> Inr (post_validation_payload reason, st, [])
            | None \<Rightarrow> Inr (preview_post env user (execution_enabled_entry entry (ev_config (fe_api env))) body request_id st))"

section \<open>Apply\<close>

definition consume_post_approval ::
  "api_env \<Rightarrow> (string, pyval) dict \<Rightarrow> auth_user \<Rightarrow> string \<Rightarrow> string \<Rightarrow> string \<Rightarrow> string
   \<Rightarrow> approval_table \<Rightarrow> approval_decision \<times> approval_table" where
  "consume_post_approval env storage user slug action evidence fingerprint table =
     (if \<not> approval_storage_ready storage then (unavailable_approval slug action evidence fingerprint, table)
      else consume_operation_approval (ev_up env) (ev_now env) evidence fingerprint
        (owner_organization_id (ev_sha env) user) (au_user_id user) slug action table)"

definition apply_request :: "operation_request \<Rightarrow> image_payload \<Rightarrow> string \<Rightarrow> string option \<Rightarrow> execution_request" where
  "apply_request post img evidence request_id =
     \<lparr>xr_provider_slug = or_provider_slug post, xr_action_slug = or_action_slug post,
      xr_path = ''external_app_action'', xr_mutation = MApply, xr_approval_token_present = True,
      xr_preview_evidence_id = Some evidence, xr_preview_evidence_required = True,
      xr_argument_keys = post_argument_keys (or_action_slug post) (ip_bytes img) (or_image_url post),
      xr_request_id = str_or_empty request_id\<rparr>"

text \<open>What the steps after the approval share: the request, the gateway's decision and the audit fields.\<close>

record post_run =
  rn_entry :: provider_entry
  rn_storage :: "(string, pyval) dict"
  rn_post :: operation_request
  rn_image :: image_payload
  rn_request :: execution_request
  rn_gateway :: gateway_decision
  rn_base :: "(string, pyval) dict"
  rn_ledger :: pyval

definition post_arguments :: "operation_request \<Rightarrow> (string, pyval) dict" where
  "post_arguments post =
     [(''page_id'', PStr (or_page_id post)), (''message'', PStr (or_message post)), (''published'', PBool True)]"

definition image_staged :: "post_env \<Rightarrow> post_run \<Rightarrow> upload_result" where
  "image_staged env run =
     (let api = fe_api env; post = rn_post run; img = rn_image run
      in stage_file_upload (ev_str_of api) (ev_config api) (pe_slug (rn_entry run)) (or_action_slug post)
           (ip_filename img) (ip_media_type img) (ip_bytes img) (xr_request_id (rn_request run))
           (fe_upload_reply env) (fe_put_reply env))"

definition upload_asked :: "post_env \<Rightarrow> post_run \<Rightarrow> post_event list" where
  "upload_asked env run =
     (let config = ev_config (fe_api env); img = rn_image run
      in if not_configured config
            \<or> normalize_action_slug (or_action_slug (rn_post run))
                \<notin> set (executable_action_slugs config (normalize_provider_slug (pe_slug (rn_entry run))))
            \<or> safe_filename (ip_filename img) = [] \<or> safe_mimetype (ip_media_type img) = []
         then [] else [UploadAsked (ip_filename img)])"

text \<open>The execution proper: \<open>started\<close> audit, the call, result audit.\<close>

definition send_post ::
  "post_env \<Rightarrow> auth_user \<Rightarrow> post_run \<Rightarrow> connection_record \<Rightarrow> schema_result \<Rightarrow> pyval \<Rightarrow> (string, pyval) dict
   \<Rightarrow> api_answer \<times> post_event list" where
  "send_post env user run connection schema upload arguments =
     (let api = fe_api env; config = ev_config api; slug = pe_slug (rn_entry run);
          action = or_action_slug (rn_post run);
          account = cr_connection_id connection;
          external = external_user_id (ev_sha api) (au_organization_id user) (au_user_id user);
          audit = stage_audit env user (rn_storage run) (rn_gateway run) (rn_request run);
          execution = execute_tool config slug action external account (xr_request_id (rn_request run))
            (fe_execute_reply env action account arguments);
          called = (if execute_refusal config (normalize_provider_slug slug) (normalize_action_slug action)
                        external account = None
                    then [PostSent action account arguments] else []);
          facts = [(''schema'', PDict (schema_result_metadata schema)), (''upload'', upload)]
      in ([(''version'', PStr ''wiii_connect_facebook_post_apply.v1''), (''status'', PStr (tool_status execution)),
           (''reason'', PStr (tr_reason execution)), (''provider_slug'', PStr slug), (''action_slug'', PStr action),
           (''gateway'', gateway_decision_metadata (rn_gateway run)),
           (''schema'', PDict (schema_result_metadata schema)), (''upload'', upload),
           (''execution'', PDict (tool_result_metadata execution)), (''approval_ledger'', rn_ledger run),
           (''storage'', PDict (rn_storage run))],
          audit ''started'' ''provider_execution_started'' (rn_base run @ (''stage'', PStr ''execute'') # facts)
          @ called
          @ audit (tool_status execution) (tr_reason execution)
              (rn_base run @ (''stage'', PStr ''execute_result'') # facts
               @ [(''execution'', PDict (tool_result_metadata execution))])))"

definition finish_post ::
  "post_env \<Rightarrow> auth_user \<Rightarrow> post_run \<Rightarrow> connection_record \<Rightarrow> schema_result \<Rightarrow> pyval \<Rightarrow> (string, pyval) dict
   \<Rightarrow> api_answer \<times> post_event list" where
  "finish_post env user run connection schema upload arguments =
     (let missing = api_missing_argument_keys (sr_required_argument_keys schema) arguments
      in if missing \<noteq> []
         then (post_gateway_payload (rn_entry run) ''blocked'' ''missing_required_arguments'' (rn_gateway run)
                 (rn_storage run) (PDict (schema_result_metadata schema)) upload missing (Some (rn_ledger run)),
               stage_audit env user (rn_storage run) (rn_gateway run) (rn_request run) ''blocked''
                 ''missing_required_arguments''
                 (rn_base run @ [(''stage'', PStr ''schema''), (''schema'', PDict (schema_result_metadata schema)),
                    (''missing_required_arguments'', PList (map PStr missing))]))
         else send_post env user run connection schema upload arguments)"

text \<open>The image of the post, uploaded or by address, becomes an argument.\<close>

definition stage_post ::
  "post_env \<Rightarrow> auth_user \<Rightarrow> post_run \<Rightarrow> connection_record \<Rightarrow> schema_result \<Rightarrow> api_answer \<times> post_event list" where
  "stage_post env user run connection schema =
     (let post = rn_post run; arguments = post_arguments post
      in if ip_bytes (rn_image run) = []
         then finish_post env user run connection schema PNone
                (if or_image_url post \<noteq> [] then dict_set ''url'' (PStr (or_image_url post)) arguments else arguments)
         else
           let upload = image_staged env run; metadata = PDict (upload_result_metadata upload)
           in if \<not> ur_ready upload
              then (post_gateway_payload (rn_entry run) ''blocked'' (ur_reason upload) (rn_gateway run) (rn_storage run)
                      (PDict (schema_result_metadata schema)) metadata [] (Some (rn_ledger run)),
                    upload_asked env run @ stage_audit env user (rn_storage run) (rn_gateway run) (rn_request run)
                      ''blocked'' (ur_reason upload)
                      (rn_base run @ [(''stage'', PStr ''file_upload''), (''upload'', metadata)]))
              else
                let (answer, events) = finish_post env user run connection schema metadata
                      (dict_set ''photo'' (PDict (ur_file_descriptor upload)) arguments)
                in (answer, upload_asked env run @ events))"

definition run_post ::
  "post_env \<Rightarrow> auth_user \<Rightarrow> post_run \<Rightarrow> connection_record option \<Rightarrow> api_answer \<times> post_event list" where
  "run_post env user run connection =
     (let api = fe_api env; config = ev_config api; slug = pe_slug (rn_entry run);
          action = or_action_slug (rn_post run); gateway = rn_gateway run
      in case (if gd_allowed gateway then connection else None) of
           None \<Rightarrow>
             (post_gateway_payload (rn_entry run) ''blocked'' (gateway_reason_value gateway) gateway (rn_storage run)
                PNone PNone [] (Some (rn_ledger run)),
              gateway_audit env user (rn_storage run) gateway (rn_request run)
                (rn_base run @ [(''stage'', PStr ''gateway'')]))
         | Some c \<Rightarrow>
             let schema = verify_tool_schema (ev_str_of api) config slug action (xr_request_id (rn_request run))
                   (fe_schema_reply env action);
                 asked = (if schema_refusal config (normalize_provider_slug slug) (normalize_action_slug action) = None
                   then [SchemaAsked action] else [])
             in if \<not> sr_ready schema
                then (post_gateway_payload (rn_entry run) ''blocked'' (sr_reason schema) gateway (rn_storage run)
                        (PDict (schema_result_metadata schema)) PNone [] (Some (rn_ledger run)),
                      asked @ stage_audit env user (rn_storage run) gateway (rn_request run) ''blocked''
                        (sr_reason schema)
                        (rn_base run @ [(''stage'', PStr ''schema''), (''schema'', PDict (schema_result_metadata schema))]))
                else
                  let (answer, events) = stage_post env user run c schema in (answer, asked @ events))"

definition apply_run ::
  "post_env \<Rightarrow> auth_user \<Rightarrow> provider_entry \<Rightarrow> post_selection \<Rightarrow> 'a post_body_scheme \<Rightarrow> string option \<Rightarrow> string
   \<Rightarrow> approval_decision \<Rightarrow> post_run" where
  "apply_run env user effective sel body request_id evidence approval =
     (let img = decode_image_payload env body;
          post = post_operation env (pe_slug effective) (se_ref sel) body;
          request = apply_request post img evidence request_id
      in \<lparr>rn_entry = effective, rn_storage = se_storage sel, rn_post = post, rn_image = img, rn_request = request,
          rn_gateway = api_gateway (fe_api env) effective (se_connection sel) (se_storage sel) (se_ref sel) request,
          rn_base =
            [(''surface'', PStr (pb_surface body)), (''connection_ref_present'', PBool (se_ref sel \<noteq> [])),
             (''connection_id_present'', PBool (se_connection_id sel \<noteq> [])),
             (''connection_found'', PBool (se_connection sel \<noteq> None)),
             (''preview_evidence_id_present'', PBool (evidence \<noteq> [])), (''approval_token_present'', PBool True),
             (''message_length'', PInt (int (length (or_message post)))),
             (''image_present'', PBool (ip_bytes img \<noteq> [] \<or> or_image_url post \<noteq> [])),
             (''image_size_bytes'', PInt (int (length (ip_bytes img)))),
             (''approval_ledger'', approval_decision_metadata approval)],
          rn_ledger = approval_decision_metadata approval\<rparr>)"

definition apply_post ::
  "post_env \<Rightarrow> auth_user \<Rightarrow> provider_entry \<Rightarrow> apply_body \<Rightarrow> string option \<Rightarrow> post_state
   \<Rightarrow> post_failure + api_answer \<times> post_state \<times> post_event list" where
  "apply_post env user effective body request_id st =
     (let api = fe_api env;
          slug = pe_slug effective;
          selected = api_connection_ref (Some (pb_connection_ref body));
          post = post_operation env slug selected body
      in case verify_approval_token (ev_lib api) (ev_sha api) (yb_approval_token body) post (ev_secret api)
                (str_or_empty (safe_public_id (Some (yb_preview_evidence_id body)))) (ev_epoch api)
                post_token_max_age_seconds of
           None \<Rightarrow> Inl ServerError
         | Some check \<Rightarrow>
             if \<not> tc_valid check then
               Inr ([(''version'', PStr ''wiii_connect_facebook_post_apply.v1''), (''status'', PStr ''blocked''),
                     (''reason'', PStr (token_reason_value (tc_reason check))), (''provider_slug'', PStr slug),
                     (''token'', token_check_metadata check), (''execution'', PNone)], st, [])
             else
               let sel = load_selected_connection api user effective (pb_connection_ref body) (pw_connections st);
                   evidence = tc_preview_evidence_id check;
                   (approval, approvals1) = consume_post_approval api (se_storage sel) user slug
                     (or_action_slug post) evidence (build_operation_fingerprint (ev_sha api) post) (pw_approvals st);
                   st1 = st\<lparr>pw_connections := se_table sel, pw_approvals := approvals1\<rparr>
               in if od_blocked approval then
                    Inr ([(''version'', PStr ''wiii_connect_facebook_post_apply.v1''), (''status'', PStr ''blocked''),
                          (''reason'', PStr (approval_reason_value (od_reason approval))), (''provider_slug'', PStr slug),
                          (''action_slug'', PStr (or_action_slug post)), (''token'', token_check_metadata check),
                          (''approval_ledger'', approval_decision_metadata approval), (''gateway'', PNone),
                          (''schema'', PNone), (''upload'', PNone), (''execution'', PNone),
                          (''storage'', PDict (se_storage sel))], st1, [])
                  else
                    let (answer, events) = run_post env user
                          (apply_run env user effective sel body request_id evidence approval) (se_connection sel)
                    in Inr (answer, st1, events))"

definition api_post_apply ::
  "post_env \<Rightarrow> auth_user \<Rightarrow> string \<Rightarrow> apply_body \<Rightarrow> string option \<Rightarrow> post_state
   \<Rightarrow> post_failure + api_answer \<times> post_state \<times> post_event list" where
  "api_post_apply env user slug body request_id st =
     (case get_provider_entry slug of
        None \<Rightarrow> Inl (NotFound ''unknown_wiii_connect_provider'')
      | Some entry \<Rightarrow>
          if pe_slug entry \<noteq> ''facebook'' then Inl (NotFound ''unsupported_provider_post'')
          else case post_validation_error env body of
              Some reason \<Rightarrow> Inr (post_validation_payload reason, st, [])
            | None \<Rightarrow> apply_post env user (execution_enabled_entry entry (ev_config (fe_api env))) body request_id st)"

section \<open>What an apply request can cause\<close>

fun is_post :: "post_event \<Rightarrow> bool" where
  "is_post (PostSent action account arguments) = True"
| "is_post e = False"

definition sends_post :: "post_event list \<Rightarrow> bool" where
  "sends_post events = list_ex is_post events"

lemma sends_post_simps [simp]:
  "\<not> sends_post []" "sends_post (e # es) \<longleftrightarrow> is_post e \<or> sends_post es"
  "sends_post (es @ es') \<longleftrightarrow> sends_post es \<or> sends_post es'" "\<not> sends_post (map PostApi audits)"
  by (auto simp: sends_post_def list_ex_iff)

lemma audits_send_nothing [simp]:
  "\<not> sends_post (stage_audit env user storage gateway request status reason metadata)"
  "\<not> sends_post (gateway_audit env user storage gateway request metadata)"
  "\<not> sends_post (upload_asked env run)"
  by (simp_all add: stage_audit_def gateway_audit_def upload_asked_def Let_def)

lemma effective_slug: "e \<in> set provider_registry \<Longrightarrow> pe_slug (execution_enabled_entry e c) = pe_slug e"
  using enabled_entry_empty [of e c] enabled_entry_fields(1) [of e c] by fastforce

text \<open>The one call an apply request can end in, and what it needs.\<close>

lemma stage_post_sends:
  assumes "PostSent action account arguments \<in> set (snd (stage_post env user run c schema))"
  shows "action = or_action_slug (rn_post run) \<and> account = cr_connection_id c
    \<and> dict_get arguments ''page_id'' = Some (PStr (or_page_id (rn_post run)))
    \<and> dict_get arguments ''message'' = Some (PStr (or_message (rn_post run)))
    \<and> execute_refusal (ev_config (fe_api env)) (normalize_provider_slug (pe_slug (rn_entry run)))
        (normalize_action_slug action) (external_user_id (ev_sha (fe_api env)) (au_organization_id user) (au_user_id user))
        account = None"
  using assms
  by (auto simp: stage_post_def finish_post_def send_post_def upload_asked_def stage_audit_def post_arguments_def
      Let_def split_beta split: if_splits)

lemma run_post_sends:
  assumes "PostSent action account arguments \<in> set (snd (run_post env user run conn))"
  obtains c where "conn = Some c" "gd_allowed (rn_gateway run)" "action = or_action_slug (rn_post run)"
    "account = cr_connection_id c" "dict_get arguments ''page_id'' = Some (PStr (or_page_id (rn_post run)))"
    "dict_get arguments ''message'' = Some (PStr (or_message (rn_post run)))"
    "execute_refusal (ev_config (fe_api env)) (normalize_provider_slug (pe_slug (rn_entry run)))
        (normalize_action_slug action) (external_user_id (ev_sha (fe_api env)) (au_organization_id user) (au_user_id user))
        account = None"
proof (cases "if gd_allowed (rn_gateway run) then conn else None")
  case None
  then show thesis using assms by (auto simp: run_post_def gateway_audit_def Let_def)
next
  case (Some c)
  then obtain schema where "PostSent action account arguments \<in> set (snd (stage_post env user run c schema))"
    using assms by (auto simp: run_post_def stage_audit_def Let_def split_beta split: if_splits)
  from stage_post_sends [OF this] that Some show thesis by (auto split: if_splits)
qed

lemma apply_outcome:
  assumes "api_post_apply env user slug body request_id st = Inr (answer, st', events)"
  obtains (refused) "st' = st" "events = []"
  | (judged) entry check where
      "get_provider_entry slug = Some entry" "pe_slug entry = ''facebook''"
      "let api = fe_api env; effective = execution_enabled_entry entry (ev_config api);
           post = post_operation env ''facebook'' (api_connection_ref (Some (pb_connection_ref body))) body;
           sel = load_selected_connection api user effective (pb_connection_ref body) (pw_connections st);
           consumed = consume_post_approval api (se_storage sel) user ''facebook'' (or_action_slug post)
             (tc_preview_evidence_id check) (build_operation_fingerprint (ev_sha api) post) (pw_approvals st)
       in verify_approval_token (ev_lib api) (ev_sha api) (yb_approval_token body) post (ev_secret api)
            (str_or_empty (safe_public_id (Some (yb_preview_evidence_id body)))) (ev_epoch api)
            post_token_max_age_seconds = Some check
          \<and> tc_valid check
          \<and> st' = st\<lparr>pw_connections := se_table sel, pw_approvals := snd consumed\<rparr>
          \<and> events = (if od_blocked (fst consumed) then []
              else snd (run_post env user (apply_run env user effective sel body request_id
                     (tc_preview_evidence_id check) (fst consumed)) (se_connection sel)))"
proof -
  obtain entry where entry: "get_provider_entry slug = Some entry" "pe_slug entry = ''facebook''"
    using assms by (auto simp: api_post_apply_def split: option.splits if_splits)
  have slug: "pe_slug (execution_enabled_entry entry c) = ''facebook''" for c
    using effective_slug get_provider_entry_member entry by simp
  show thesis
  proof (cases "post_validation_error env body")
    case (Some reason)
    with entry assms refused show thesis by (simp add: api_post_apply_def)
  next
    case None
    with entry assms have run: "apply_post env user (execution_enabled_entry entry (ev_config (fe_api env))) body request_id st
        = Inr (answer, st', events)" by (simp add: api_post_apply_def)
    let ?post = "post_operation env ''facebook'' (api_connection_ref (Some (pb_connection_ref body))) body"
    obtain check where check: "verify_approval_token (ev_lib (fe_api env)) (ev_sha (fe_api env)) (yb_approval_token body)
        ?post (ev_secret (fe_api env)) (str_or_empty (safe_public_id (Some (yb_preview_evidence_id body))))
        (ev_epoch (fe_api env)) post_token_max_age_seconds = Some check"
      using run by (auto simp: apply_post_def Let_def slug split: option.splits)
    show thesis
    proof (cases "tc_valid check")
      case False
      with run check refused show thesis by (simp add: apply_post_def Let_def slug)
    next
      case True
      with run check entry show thesis
        by (intro judged [of entry check]) (simp_all add: apply_post_def Let_def slug split_beta split: if_splits)
    qed
  qed
qed

section \<open>Every preview is posted at most once\<close>

text \<open>The operations of all users on the shared state, and the approval row each of them is about.\<close>

datatype post_op =
    PreviewPost post_env auth_user string post_body "string option"
  | ApplyPost post_env auth_user string apply_body "string option"

definition ledger_working :: "api_env \<Rightarrow> auth_user \<Rightarrow> bool" where
  "ledger_working env user \<longleftrightarrow>
     approval_storage_ready (api_storage env True) \<and> ev_up env
     \<and> normalize_owner (owner_organization_id (ev_sha env) user) (au_user_id user) \<noteq> None"

definition post_evidence :: "post_env \<Rightarrow> 'a post_body_scheme \<Rightarrow> string" where
  "post_evidence env body = build_preview_evidence_id (ev_sha (fe_api env))
     (post_operation env ''facebook'' (api_connection_ref (Some (pb_connection_ref body))) body)"

definition post_approval_key :: "post_env \<Rightarrow> auth_user \<Rightarrow> string \<Rightarrow> approval_key option" where
  "post_approval_key env user evidence =
     approval_key_of (owner_organization_id (ev_sha (fe_api env)) user) (au_user_id user) ''facebook'' evidence"

fun post_step :: "post_op \<Rightarrow> post_state \<Rightarrow> bool \<times> post_state" where
  "post_step (PreviewPost env user slug body request_id) st =
     (case api_post_preview env user slug body request_id st of
        Inl _ \<Rightarrow> (False, st) | Inr (_, st', _) \<Rightarrow> (False, st'))"
| "post_step (ApplyPost env user slug body request_id) st =
     (case api_post_apply env user slug body request_id st of
        Inl _ \<Rightarrow> (False, st)
      | Inr (_, st', events) \<Rightarrow> (sends_post events \<and> ledger_working (fe_api env) user, st'))"

fun post_target :: "post_op \<Rightarrow> approval_key option" where
  "post_target (PreviewPost env user slug body request_id) =
     post_approval_key env user (approval_safe_public_id (post_evidence env body))"
| "post_target (ApplyPost env user slug body request_id) =
     post_approval_key env user (py_strip (post_evidence env body))"

fun post_renews :: "post_op \<Rightarrow> approval_key option \<Rightarrow> bool" where
  "post_renews (PreviewPost env user slug body request_id) k \<longleftrightarrow>
     k = post_approval_key env user (approval_safe_public_id (post_evidence env body))"
| "post_renews (ApplyPost env user slug body request_id) k \<longleftrightarrow> False"

definition post_live :: "approval_key option \<Rightarrow> post_state \<Rightarrow> bool" where
  "post_live k st \<longleftrightarrow> approval_live k (pw_approvals st)"

lemma facebook_words [simp]: "normalize_provider_slug ''facebook'' = ''facebook''" "policy_provider_slug ''facebook'' = ''facebook''"
  by code_simp+

text \<open>Consuming an approval is the table's own operation, or nothing when the table is missing.\<close>

lemma consume_post_step:
  obtains (absent) "consume_post_approval env storage user slug action ev fp t
      = (unavailable_approval slug action ev fp, t)" "\<not> approval_storage_ready storage"
  | (step) p where "p = ConsumeApproval (ev_up env) (ev_now env) ev fp
        (owner_organization_id (ev_sha env) user) (au_user_id user) slug action"
      "od_consumed (fst (consume_post_approval env storage user slug action ev fp t)) = fst (approval_step p t)"
      "snd (consume_post_approval env storage user slug action ev fp t) = snd (approval_step p t)"
  by (cases "approval_storage_ready storage") (auto simp: consume_post_approval_def Let_def split_beta)

lemma unblocked_is_consumed:
  assumes "ledger_working env user"
    and "\<not> od_blocked (fst (consume_post_approval env (api_storage env True) user slug action ev fp t))"
  shows "od_consumed (fst (consume_post_approval env (api_storage env True) user slug action ev fp t))"
  using assms
  by (auto simp: ledger_working_def consume_post_approval_def consume_operation_approval_def Let_def
      blocked_approval_def split: if_splits option.splits)

lemma apply_step_cases:
  assumes "api_post_apply env user slug body request_id st = Inr (answer, st', events)"
  obtains (quiet) "pw_approvals st' = pw_approvals st" "sends_post events \<Longrightarrow> \<not> ledger_working (fe_api env) user"
  | (consumed) p where "pw_approvals st' = snd (approval_step p (pw_approvals st))"
      "approval_target p = post_target (ApplyPost env user slug body request_id)" "\<And>k. \<not> approval_renews p k"
      "sends_post events \<Longrightarrow> ledger_working (fe_api env) user \<Longrightarrow> fst (approval_step p (pw_approvals st))"
  using assms
proof (cases rule: apply_outcome)
  case refused
  with quiet show thesis by simp
next
  case (judged entry check)
  let ?api = "fe_api env"
  let ?effective = "execution_enabled_entry entry (ev_config ?api)"
  let ?post = "post_operation env ''facebook'' (api_connection_ref (Some (pb_connection_ref body))) body"
  let ?sel = "load_selected_connection ?api user ?effective (pb_connection_ref body) (pw_connections st)"
  let ?consumed = "consume_post_approval ?api (se_storage ?sel) user ''facebook'' (or_action_slug ?post)
     (tc_preview_evidence_id check) (build_operation_fingerprint (ev_sha ?api) ?post) (pw_approvals st)"
  note judged = judged(3) [unfolded Let_def]
  have evidence: "tc_preview_evidence_id check = post_evidence env body"
    using judged accepted_token_is_signed unfolding post_evidence_def by blast
  have storage: "se_storage ?sel = api_storage ?api True" by (simp add: load_selected_connection_def Let_def)
  have approvals: "pw_approvals st' = snd ?consumed" using judged by simp
  have unblocked: "sends_post events \<Longrightarrow> \<not> od_blocked (fst ?consumed)" using judged by auto
  show thesis
  proof (cases rule: consume_post_step [of ?api "se_storage ?sel" user "''facebook''" "or_action_slug ?post"
        "tc_preview_evidence_id check" "build_operation_fingerprint (ev_sha ?api) ?post" "pw_approvals st"])
    case absent
    then show thesis using approvals storage quiet by (simp add: ledger_working_def)
  next
    case (step p)
    show thesis
    proof (rule consumed [of p])
      show "pw_approvals st' = snd (approval_step p (pw_approvals st))" using approvals step(3) by simp
      show "approval_target p = post_target (ApplyPost env user slug body request_id)"
        unfolding step(1) evidence by (simp add: post_approval_key_def)
      show "\<not> approval_renews p k" for k unfolding step(1) by simp
      show "fst (approval_step p (pw_approvals st))" if "sends_post events" "ledger_working ?api user"
        using unblocked_is_consumed [OF that(2)] unblocked [OF that(1)] step(2) unfolding storage by blast
    qed
  qed
qed

lemma preview_step_cases:
  assumes "api_post_preview env user slug body request_id st = Inr (answer, st', events)"
  obtains "pw_approvals st' = pw_approvals st"
  | p where "pw_approvals st' = snd (approval_step p (pw_approvals st))"
      "\<And>k. approval_renews p k = post_renews (PreviewPost env user slug body request_id) k"
proof -
  obtain entry where entry: "get_provider_entry slug = Some entry" "pe_slug entry = ''facebook''"
    using assms by (auto simp: api_post_preview_def split: option.splits if_splits)
  let ?effective = "execution_enabled_entry entry (ev_config (fe_api env))"
  have slug: "pe_slug ?effective = ''facebook''"
    using effective_slug get_provider_entry_member entry by simp
  show thesis
  proof (cases "post_validation_error env body")
    case (Some reason)
    with entry assms that(1) show thesis by (simp add: api_post_preview_def)
  next
    case None
    with entry assms have run: "preview_post env user ?effective body request_id st = (answer, st', events)"
      by (simp add: api_post_preview_def)
    let ?post = "post_operation env ''facebook'' (api_connection_ref (Some (pb_connection_ref body))) body"
    let ?r = "build_operation_approval_record (ev_now (fe_api env)) ''facebook'' (or_action_slug ?post)
      (post_evidence env body) (build_operation_fingerprint (ev_sha (fe_api env)) ?post) post_token_max_age_seconds
      (Some (approval_facts (api_connection_ref (Some (pb_connection_ref body))) ?post (decode_image_payload env body)))"
    let ?p = "RecordPreview (ev_up (fe_api env)) (ev_now (fe_api env)) ?r
      (owner_organization_id (ev_sha (fe_api env)) user) (au_user_id user)"
    have "pw_approvals st' = pw_approvals st \<or> pw_approvals st' = snd (approval_step ?p (pw_approvals st))"
      using run by (auto simp: preview_post_def record_post_approval_def load_selected_connection_def slug
          post_evidence_def Let_def split_beta split: if_splits)
    moreover have "approval_renews ?p k = post_renews (PreviewPost env user slug body request_id) k" for k
      by (simp add: build_operation_approval_record_def post_approval_key_def)
    ultimately show thesis using that by blast
  qed
qed

interpretation posts: single_use post_step post_target post_live post_renews
proof
  fix p st
  assume ok: "fst (post_step p st)"
  have "post_live (post_target p) st \<and> \<not> post_live (post_target p) (snd (post_step p st))"
  proof (cases p)
    case (PreviewPost env user slug body request_id)
    with ok show ?thesis by (simp split: sum.splits prod.splits)
  next
    case (ApplyPost env user slug body request_id)
    with ok obtain answer st' events where run: "api_post_apply env user slug body request_id st = Inr (answer, st', events)"
      and sent: "sends_post events" "ledger_working (fe_api env) user"
      by (auto split: sum.splits prod.splits)
    from run show ?thesis
    proof (cases rule: apply_step_cases)
      case (consumed q)
      with approvals.redeem_live [of q] approvals.redeem_spends [of q] sent run ApplyPost
      show ?thesis by (simp add: post_live_def)
    qed (use sent in blast)
  qed
  then show "post_live (post_target p) st" "\<not> post_live (post_target p) (snd (post_step p st))" by blast+
next
  fix k st p
  assume dead: "\<not> post_live k st" and kept: "\<not> post_renews p k"
  show "\<not> post_live k (snd (post_step p st))"
  proof (cases p)
    case (PreviewPost env user slug body request_id)
    show ?thesis
    proof (cases "api_post_preview env user slug body request_id st")
      case (Inr r)
      obtain answer st' events where r: "r = (answer, st', events)" by (metis prod_cases3)
      from Inr [unfolded r] show ?thesis
        by (cases rule: preview_step_cases)
          (use dead kept PreviewPost Inr r approvals.stays_spent in \<open>auto simp: post_live_def\<close>)
    qed (use dead PreviewPost in simp)
  next
    case (ApplyPost env user slug body request_id)
    show ?thesis
    proof (cases "api_post_apply env user slug body request_id st")
      case (Inr r)
      obtain answer st' events where r: "r = (answer, st', events)" by (metis prod_cases3)
      from Inr [unfolded r] show ?thesis
        by (cases rule: apply_step_cases)
          (use dead ApplyPost Inr r approvals.stays_spent in \<open>auto simp: post_live_def\<close>)
    qed (use dead ApplyPost in simp)
  qed
qed

lemma selection_owned:
  assumes "se_connection (load_selected_connection env user entry ref table) = Some c"
  obtains row where "(cr_connection_id c, row) \<in> set (se_table (load_selected_connection env user entry ref table))"
    "row_of user env (cr_connection_id c, row)" "ev_up env" "connection_storage_ready (api_storage env True)"
    "normalize_owner (owner_organization_id (ev_sha env) user) (au_user_id user) \<noteq> None"
proof -
  let ?table = "se_table (load_selected_connection env user entry ref table)"
  let ?cid = "resolve_provider_connection_id env (api_storage env True) user (pe_slug entry) (api_connection_ref (Some ref)) table"
  have got: "api_get env user (pe_slug entry) ?cid ?table = Some c" "?cid \<noteq> []" "connection_storage_ready (api_storage env True)"
    using assms by (auto simp: load_selected_connection_def selected_connection_def Let_def split: if_splits)
  from api_get_row [OF got(1) resolved_id [OF refl got(2)]] got(3) that show thesis by metis
qed

lemma gateway_allows_apply:
  assumes "gd_allowed (api_gateway env entry connection storage selected (apply_request post img evidence request_id))"
  obtains c where "connection = Some c" "cr_active c" "sg_apply (cr_scopes c)" "audit_persistent storage"
    "selected \<noteq> []"
  using assms
  by (auto simp: api_gateway_def gateway_allowed_fact decide_allowed_iff execution_checks_def apply_request_def
      ledger_persistent_def)

text \<open>An approval that does not block under a working table was found pending there, and is spent.\<close>

lemma unblocked_spends:
  assumes "ledger_working env user"
    and "\<not> od_blocked (fst (consume_post_approval env (api_storage env True) user ''facebook'' action ev fp t))"
  obtains key row where
    "approval_key_of (owner_organization_id (ev_sha env) user) (au_user_id user) ''facebook'' (py_strip ev) = Some key"
    "dict_get t key = Some row" "approval_matches (ev_now env) (py_lower (py_strip fp)) row"
    "\<not> approval_live (Some key) (snd (consume_post_approval env (api_storage env True) user ''facebook'' action ev fp t))"
proof -
  let ?p = "ConsumeApproval (ev_up env) (ev_now env) ev fp (owner_organization_id (ev_sha env) user) (au_user_id user)
    ''facebook'' action"
  have consume: "consume_post_approval env (api_storage env True) user ''facebook'' action ev fp t
      = consume_operation_approval (ev_up env) (ev_now env) ev fp (owner_organization_id (ev_sha env) user)
          (au_user_id user) ''facebook'' action t"
    using assms(1) by (simp add: consume_post_approval_def ledger_working_def)
  have ok: "fst (approval_step ?p t)"
    using unblocked_is_consumed [OF assms] by (simp add: consume split_beta Let_def)
  obtain key row where k: "approval_target ?p = Some key" "dict_get t key = Some row"
    "approval_matches (ev_now env) (py_lower (py_strip fp)) row"
    using ok by (auto simp: split_beta Let_def consume_succeeds_iff)
  moreover have "\<not> approval_live (Some key) (snd (approval_step ?p t))"
    using approvals.redeem_spends [OF ok] k(1) by simp
  ultimately show thesis using that by (simp add: consume split_beta Let_def)
qed


text \<open>C8: A preview is good for one post. Whatever previews and apply requests the users of the service send,
  in whatever order, a previewed operation is posted under a working approval table at most once for
  each time it was previewed, and once more if an approval of it was pending at the start.\<close>

theorem previews_pay_for_posts:
  "redemptions post_target k (fst (run_operations post_step ops st))
     \<le> (if post_live k st then 1 else 0) + length (filter (\<lambda>p. post_renews p k) ops)"
  by (rule posts.redemptions_bounded)

text \<open>Where the approval table is missing, nothing is spent: an apply request that was let through leaves the
  approvals as they are, and while its token is young it is let through again.\<close>

theorem missing_table_spends_nothing:
  assumes "api_post_apply env user slug body request_id st = Inr (answer, st', events)"
    and "\<not> approval_storage_ready (api_storage (fe_api env) True)"
    and "snd (api_expire (fe_api env) (api_storage (fe_api env) True) user ''facebook'' (pw_connections st))
      = pw_connections st"
  shows "st' = st \<and> snd (post_step (ApplyPost env user slug body request_id) st') = st
    \<and> api_post_apply env user slug body request_id st' = Inr (answer, st, events)"
proof -
  have "st' = st"
    using assms(1)
  proof (cases rule: apply_outcome)
    case (judged entry check)
    have slug: "pe_slug (execution_enabled_entry entry c) = ''facebook''" for c
      using effective_slug get_provider_entry_member judged(1,2) by simp
    have storage: "se_storage (load_selected_connection api user e ref table) = api_storage api True"
      and table: "se_table (load_selected_connection api user e ref table)
        = snd (api_expire api (api_storage api True) user (pe_slug e) table)" for api e ref table
      by (simp_all add: load_selected_connection_def Let_def)
    show ?thesis
      using judged(3) assms(2,3) unfolding Let_def storage table slug by (simp add: consume_post_approval_def)
  qed
  with assms(1) show ?thesis by simp
qed

section \<open>A previewed post can be applied\<close>

definition later_api :: "api_env \<Rightarrow> int \<Rightarrow> instant \<Rightarrow> instant \<Rightarrow> api_env" where
  "later_api api epoch now later = api\<lparr>ev_epoch := epoch, ev_now := now, ev_later := later\<rparr>"

text \<open>The apply request a client makes of a preview: the same body with the token and the evidence it got.\<close>

definition applied_body :: "post_body \<Rightarrow> string \<Rightarrow> string \<Rightarrow> apply_body" where
  "applied_body body token evidence =
     post_body.extend body \<lparr>yb_approval_token = token, yb_preview_evidence_id = evidence\<rparr>"

lemma applied_body_fields [simp]:
  "pb_surface (applied_body b t e) = pb_surface b" "pb_connection_ref (applied_body b t e) = pb_connection_ref b"
  "pb_page_id (applied_body b t e) = pb_page_id b" "pb_message (applied_body b t e) = pb_message b"
  "pb_image_base64 (applied_body b t e) = pb_image_base64 b"
  "pb_image_media_type (applied_body b t e) = pb_image_media_type b"
  "pb_image_filename (applied_body b t e) = pb_image_filename b" "pb_image_url (applied_body b t e) = pb_image_url b"
  "yb_approval_token (applied_body b t e) = t" "yb_preview_evidence_id (applied_body b t e) = e"
  by (simp_all add: applied_body_def post_body.defs)

lemma contains_set: "contains p s \<Longrightarrow> set p \<subseteq> set s"
  by (auto simp: contains_sublist sublist_def)

lemma evidence_words:
  assumes "safe_fingerprint (sha t) = sha t" "sha t \<noteq> []"
  defines "e \<equiv> ''wcp_'' @ take 32 (sha t)"
  shows "py_strip e = e" "py_lower e = e" "length e = 36" "\<not> has_secret_word e"
proof -
  have hex: "list_all is_hex_char (sha t)" "length (sha t) = 64"
    using assms(1,2) length_py_lower [of "py_strip (sha t)"]
    by (auto simp: safe_fingerprint_def Let_def simp del: length_py_lower split: if_splits)
  have ok: "c \<in> {CHR ''w'', CHR ''c'', CHR ''p'', CHR ''_''} \<or> is_hex_char c" if "c \<in> set e" for c
    using that hex(1) by (auto simp: e_def list_all_iff dest!: in_set_takeD)
  have words: "code (CHR ''w'') = 119" "code (CHR ''c'') = 99" "code (CHR ''p'') = 112" "code (CHR ''_'') = 95"
    "code (CHR ''t'') = 116" "code (CHR ''s'') = 115" by code_simp+
  have plain: "\<not> is_space c" "\<not> is_upper c" "c \<noteq> CHR ''t''" "c \<noteq> CHR ''s''" if "c \<in> set e" for c
    using ok [OF that] words
    by (auto simp: is_space_def is_upper_def is_hex_char_def is_digit_def code_inject [symmetric] simp del: code_inject)
  show "py_strip e = e" using plain(1) by (intro strip_nonspace) blast
  show lower: "py_lower e = e" using plain(2) by (simp add: py_lower_def lower_char_def map_idI)
  show "length e = 36" using hex(2) by (simp add: e_def)
  show "\<not> has_secret_word e"
    unfolding has_secret_word_def lower using plain(3,4) by (fastforce dest!: contains_set)
qed

lemma same_body:
  assumes "ev_sha api = ev_sha (fe_api env)"
  shows "decode_image_payload (env\<lparr>fe_api := api\<rparr>) (applied_body body token evidence) = decode_image_payload env body"
    "post_operation (env\<lparr>fe_api := api\<rparr>) slug selected (applied_body body token evidence)
      = post_operation env slug selected body"
    "post_validation_error (env\<lparr>fe_api := api\<rparr>) (applied_body body token evidence) = post_validation_error env body"
proof -
  have b64: "fe_b64_other (env\<lparr>fe_api := api\<rparr>) = fe_b64_other env" by simp
  show decode: "decode_image_payload (env\<lparr>fe_api := api\<rparr>) (applied_body body token evidence)
      = decode_image_payload env body"
    unfolding decode_image_payload_def applied_body_fields b64 by (rule refl)
  show "post_operation (env\<lparr>fe_api := api\<rparr>) slug selected (applied_body body token evidence)
      = post_operation env slug selected body"
    unfolding post_operation_def decode using assms by simp
  show "post_validation_error (env\<lparr>fe_api := api\<rparr>) (applied_body body token evidence) = post_validation_error env body"
    unfolding post_validation_error_def decode by simp
qed

lemma recorded_row:
  assumes "normalize_owner org user = Some (o', u')" "oa_preview_evidence_id r \<noteq> []" "oa_status r = OaPending"
  obtains row where "dict_get (snd (append_operation_approval True now r org user t))
      (o', u', oa_provider_slug r, oa_preview_evidence_id r) = Some row"
    "ar_status row = OaPending" "ar_request_fingerprint row = oa_request_fingerprint r"
    "ar_expires_at row = Some (case oa_expires_at r of Some t \<Rightarrow> t | None \<Rightarrow> now)"
  using assms that by (simp add: append_operation_approval_def Let_def)

lemma if_eqE: "(if b then x else y) = z \<Longrightarrow> (b \<Longrightarrow> x = z \<Longrightarrow> P) \<Longrightarrow> (\<not> b \<Longrightarrow> y = z \<Longrightarrow> P) \<Longrightarrow> P"
  by (cases b) auto

lemma blocked_payload_status:
  "dict_get (post_gateway_payload e ''blocked'' r g s a b m l) ''status'' = Some (PStr ''blocked'')"
proof -
  have "safe_surface ''blocked'' = ''blocked''" by code_simp
  then show ?thesis by (simp add: post_gateway_payload_def)
qed

lemma preview_payload_fields:
  "dict_get (preview_payload e post img evidence token g a s) ''approval_token'' = Some (PStr token)"
  "dict_get (preview_payload e post img evidence token g a s) ''preview_evidence_id'' = Some (PStr evidence)"
  by (simp_all add: preview_payload_def)

text \<open>What a preview that answers \<open>ready\<close> did.\<close>

lemma ready_preview:
  assumes "api_post_preview env user slug body rid st = Inr (answer, st1, events)"
    and "dict_get answer ''status'' = Some (PStr ''ready'')"
  defines "post \<equiv> post_operation env ''facebook'' (api_connection_ref (Some (pb_connection_ref body))) body"
  obtains entry facts where "get_provider_entry slug = Some entry" "pe_slug entry = ''facebook''"
    "post_validation_error env body = None"
    "dict_get answer ''approval_token'' = Some (PStr (build_approval_token (ev_lib (fe_api env)) (ev_sha (fe_api env)) post
        (ev_secret (fe_api env)) (ev_epoch (fe_api env)) (ev_nonce (fe_api env))))"
    "dict_get answer ''preview_evidence_id'' = Some (PStr (post_evidence env body))"
    "pw_approvals st1 = snd (record_post_approval (fe_api env) (api_storage (fe_api env) True) user ''facebook''
        (or_action_slug post) (post_evidence env body) (build_operation_fingerprint (ev_sha (fe_api env)) post) facts
        (pw_approvals st))"
proof -
  obtain entry where entry: "get_provider_entry slug = Some entry" "pe_slug entry = ''facebook''"
    using assms(1) by (auto simp: api_post_preview_def split: option.splits if_splits)
  let ?effective = "execution_enabled_entry entry (ev_config (fe_api env))"
  have slug: "pe_slug ?effective = ''facebook''" using effective_slug get_provider_entry_member entry by simp
  have valid: "post_validation_error env body = None"
    using assms(1,2) entry by (auto simp: api_post_preview_def post_validation_payload_def split: option.splits)
  with entry assms(1) have run: "preview_post env user ?effective body rid st = (answer, st1, events)"
    by (simp add: api_post_preview_def)
  have sel: "se_storage (load_selected_connection api u e r t) = api_storage api True"
    "se_ref (load_selected_connection api u e r t) = api_connection_ref (Some r)" for api u e r t
    by (simp_all add: load_selected_connection_def Let_def)
  from run [unfolded preview_post_def Let_def split_beta sel slug] show thesis
  proof (rule if_eqE, goal_cases)
    case 1
    then have "answer = post_gateway_payload ?effective ''blocked'' (gateway_reason_value (api_gateway (fe_api env) ?effective
        (se_connection (load_selected_connection (fe_api env) user ?effective (pb_connection_ref body) (pw_connections st)))
        (api_storage (fe_api env) True) (api_connection_ref (Some (pb_connection_ref body)))
        (preview_request post (decode_image_payload env body) rid))) (api_gateway (fe_api env) ?effective
        (se_connection (load_selected_connection (fe_api env) user ?effective (pb_connection_ref body) (pw_connections st)))
        (api_storage (fe_api env) True) (api_connection_ref (Some (pb_connection_ref body)))
        (preview_request post (decode_image_payload env body) rid)) (api_storage (fe_api env) True) PNone PNone [] None"
      unfolding post_def by simp
    then show thesis using assms(2) by (simp add: blocked_payload_status)
  next
    case 2
    show thesis
      by (rule that [OF entry valid, of "approval_facts (api_connection_ref (Some (pb_connection_ref body))) post
            (decode_image_payload env body)"])
        (use 2 in \<open>auto simp: preview_payload_fields post_def post_evidence_def\<close>)
  qed
qed

text \<open>A previewed post can be applied: when a preview answers \<open>ready\<close> under a working approval table, then
  the same body, sent back with the token and the evidence of the answer within thirty minutes and with no
  other request in between, passes the token check and the approval check and reaches the gateway, with
  the approval consumed.\<close>

theorem previewed_post_reaches_gateway:
  assumes "api_post_preview env user slug body rid st = Inr (answer, st1, events)"
    and "dict_get answer ''status'' = Some (PStr ''ready'')"
    and "dict_get answer ''approval_token'' = Some (PStr token)"
    and "dict_get answer ''preview_evidence_id'' = Some (PStr evidence)"
    and "ledger_working (fe_api env) user"
    and sha: "\<And>t. safe_fingerprint (ev_sha (fe_api env) t) = ev_sha (fe_api env) t \<and> ev_sha (fe_api env) t \<noteq> []"
    and json: "\<And>r. sl_json_loads (ev_lib (fe_api env))
        (token_text (post_token_of (ev_sha (fe_api env)) r (ev_epoch (fe_api env)) (ev_nonce (fe_api env))))
      = Some (token_dict (post_token_of (ev_sha (fe_api env)) r (ev_epoch (fe_api env)) (ev_nonce (fe_api env))))"
    and time: "0 < ev_epoch (fe_api env)" "epoch \<le> ev_epoch (fe_api env) + post_token_max_age_seconds"
      "now \<le> ev_now (fe_api env) + post_token_max_age_seconds * second"
    and env': "env' = env\<lparr>fe_api := later_api (fe_api env) epoch now later\<rparr>"
  shows "\<exists>run conn st2 key row.
      api_post_apply env' user slug (applied_body body token evidence) rid' st1
        = Inr (fst (run_post env' user run conn), st2, snd (run_post env' user run conn))
      \<and> post_approval_key env user evidence = Some key
      \<and> dict_get (pw_approvals st2) key = Some row \<and> ar_status row = OaConsumed"
proof -
  let ?api = "fe_api env" and ?api' = "later_api (fe_api env) epoch now later"
  let ?post = "post_operation env ''facebook'' (api_connection_ref (Some (pb_connection_ref body))) body"
  let ?fp = "build_operation_fingerprint (ev_sha ?api) ?post"
  obtain entry facts where entry: "get_provider_entry slug = Some entry" "pe_slug entry = ''facebook''"
    and valid: "post_validation_error env body = None"
    and token: "dict_get answer ''approval_token'' = Some (PStr (build_approval_token (ev_lib ?api) (ev_sha ?api) ?post (ev_secret ?api) (ev_epoch ?api) (ev_nonce ?api)))"
    and evidence: "dict_get answer ''preview_evidence_id'' = Some (PStr (post_evidence env body))"
    and recorded: "pw_approvals st1 = snd (record_post_approval ?api (api_storage ?api True) user ''facebook''
        (or_action_slug ?post) (post_evidence env body) ?fp facts (pw_approvals st))"
    by (rule ready_preview [OF assms(1,2)])
  have api': "ev_sha ?api' = ev_sha ?api" "ev_lib ?api' = ev_lib ?api" "ev_secret ?api' = ev_secret ?api"
    "ev_epoch ?api' = epoch" "ev_now ?api' = now" "ev_up ?api' = ev_up ?api" "api_storage ?api' True = api_storage ?api True"
    by (simp_all add: later_api_def api_storage_def)
  have ev: "evidence = post_evidence env body" and tok: "token = build_approval_token (ev_lib ?api) (ev_sha ?api) ?post
      (ev_secret ?api) (ev_epoch ?api) (ev_nonce ?api)"
    using token evidence assms(3,4) by simp_all
  have ev': "evidence = build_preview_evidence_id (ev_sha ?api) ?post" by (simp add: ev post_evidence_def)
  have words: "py_strip evidence = evidence" "py_lower evidence = evidence" "length evidence = 36" "\<not> has_secret_word evidence"
    unfolding ev' build_preview_evidence_id_def by (rule evidence_words [of "ev_sha ?api" "json_object (post_fields (ev_sha ?api) ?post)", OF sha [THEN conjunct1] sha [THEN conjunct2]])+
  have safe: "approval_safe_public_id evidence = evidence" "safe_public_id (Some evidence) = Some evidence" "evidence \<noteq> []"
    using words by (auto simp: approval_safe_public_id_def safe_public_id_def has_secret_word_def str_or_empty_def Let_def)
  have fp: "safe_fingerprint ?fp = ?fp" "?fp \<noteq> []" using sha by (simp_all add: build_operation_fingerprint_def)
  obtain o' u' where owner: "normalize_owner (owner_organization_id (ev_sha ?api) user) (au_user_id user) = Some (o', u')"
    and ready: "approval_storage_ready (api_storage ?api True)" "ev_up ?api"
    using assms(5) by (auto simp: ledger_working_def)
  let ?key = "(o', u', ''facebook'', evidence)"
  obtain row where row: "dict_get (pw_approvals st1) ?key = Some row" "ar_status row = OaPending"
    "ar_request_fingerprint row = ?fp"
    "ar_expires_at row = Some (ev_now ?api + post_token_max_age_seconds * second)"
  proof -
    let ?r = "build_operation_approval_record (ev_now ?api) ''facebook'' (or_action_slug ?post) evidence ?fp
      post_token_max_age_seconds (Some facts)"
    have r: "oa_preview_evidence_id ?r = evidence" "oa_provider_slug ?r = ''facebook''" "oa_status ?r = OaPending"
      "oa_request_fingerprint ?r = ?fp" "oa_expires_at ?r = Some (ev_now ?api + post_token_max_age_seconds * second)"
      using safe fp by (simp_all add: build_operation_approval_record_def post_token_max_age_seconds_def)
    have "pw_approvals st1 = snd (append_operation_approval True (ev_now ?api) ?r
        (owner_organization_id (ev_sha ?api) user) (au_user_id user) (pw_approvals st))"
      using recorded ready by (simp add: record_post_approval_def ev Let_def split_beta)
    with recorded_row [OF owner, of ?r] r safe(3) that show thesis by auto
  qed
  have check: "verify_approval_token (ev_lib ?api) (ev_sha ?api) token ?post (ev_secret ?api) evidence epoch
      post_token_max_age_seconds = Some \<lparr>tc_reason = TokenValid, tc_preview_evidence_id = evidence\<rparr>"
    unfolding tok approval_token_round_trip [OF json] using time ev' by simp
  let ?used = "consume_operation_approval True now evidence ?fp (owner_organization_id (ev_sha ?api) user) (au_user_id user)
      ''facebook'' (or_action_slug ?post) (pw_approvals st1)"
  have used: "fst ?used = consumed_approval ''facebook'' (or_action_slug ?post) evidence ?fp"
    "snd ?used = dict_set ?key (row\<lparr>ar_status := OaConsumed, ar_reason := ApprovalConsumed,
        ar_consumed_at := Some now, ar_updated_at := now\<rparr>) (pw_approvals st1)"
    using row words(1) safe(3) canonical_fingerprint [OF fp(1)] fp(2) time(3)
    by (simp_all add: consume_operation_approval_def owner Let_def)
  have slug: "pe_slug (execution_enabled_entry entry c) = ''facebook''" for c
    using effective_slug get_provider_entry_member entry by simp
  have same: "post_validation_error env' (applied_body body token evidence) = None"
    "post_operation env' ''facebook'' selected (applied_body body token evidence) = post_operation env ''facebook'' selected body"
    "fe_api env' = ?api'" for selected
    unfolding env' using same_body [of ?api' env, OF api'(1)] valid by simp_all
  have storage: "se_storage (load_selected_connection ?api' user e r t) = api_storage ?api True" for e r t
    by (simp add: load_selected_connection_def Let_def api')
  have consume: "consume_post_approval ?api' (api_storage ?api True) user ''facebook'' (or_action_slug ?post) evidence ?fp
      (pw_approvals st1) = ?used"
    using ready by (simp add: consume_post_approval_def api')
  let ?e = "execution_enabled_entry entry (ev_config ?api')"
  let ?sel = "load_selected_connection ?api' user ?e (pb_connection_ref body) (pw_connections st1)"
  let ?run = "apply_run env' user ?e ?sel (applied_body body token evidence) rid' evidence (fst ?used)"
  let ?st2 = "st1\<lparr>pw_connections := se_table ?sel, pw_approvals := snd ?used\<rparr>"
  have "api_post_apply env' user slug (applied_body body token evidence) rid' st1
      = Inr (fst (run_post env' user ?run (se_connection ?sel)), ?st2, snd (run_post env' user ?run (se_connection ?sel)))"
    using entry check
    by (simp add: api_post_apply_def apply_post_def Let_def slug same safe(2) str_or_empty_def api'
        tc_valid_def storage consume split_beta used(1) consumed_approval_def)
  moreover have "post_approval_key env user evidence = Some ?key"
    by (simp add: post_approval_key_def approval_key_of_def owner)
  moreover have "dict_get (pw_approvals ?st2) ?key = Some (row\<lparr>ar_status := OaConsumed, ar_reason := ApprovalConsumed,
        ar_consumed_at := Some now, ar_updated_at := now\<rparr>)"
    by (simp add: used(2))
  ultimately show ?thesis by (intro exI conjI) (assumption | simp)+
qed

end
