(* ===== verification/Input_Authority.thy ===== *)
theory Input_Authority
  imports Prelude
begin

text \<open>
  The input authority of the desktop computer
  (\<^verbatim>\<open>src/wiii-desktop/src-tauri/src/neko/computer/image/input_authority.py\<close>): the lease under which
  the agent may move the mouse and press keys, its revocation by the user, and the runs, dispatches
  and cleanups between the two. The fields of the object are a record, a \<open>threading.Event\<close> is its
  number plus membership in \<^term>\<open>fired\<close>, thread-local data are a record per thread. Each critical
  section of the class is one function on the record; \<^term>\<open>input_exec\<close> interleaves the sections of
  any number of threads, and the log it keeps is what the theorems speak about.
\<close>

section \<open>State\<close>

datatype input_error =
    BadLease | Cleanup_Unconfirmed | Lease_Revoked | Another_Lease_Active | Lease_Not_Current
  | Other_Authority | Not_Quiescent | Cleanup_Raised

record input_auth =
  ia_lease :: "string option"
  ia_cancelled :: nat
  ia_fired :: "nat list"
  ia_next :: nat
  ia_active :: bool
  ia_cleanup_failed :: bool
  ia_revocation_pending :: bool

definition new_input_auth :: input_auth where
  "new_input_auth = \<lparr>ia_lease = None, ia_cancelled = 0, ia_fired = [0], ia_next = 1,
     ia_active = False, ia_cleanup_failed = False, ia_revocation_pending = False\<rparr>"

definition cancelled_is_set :: "input_auth \<Rightarrow> bool" where
  "cancelled_is_set a \<longleftrightarrow> ia_cancelled a \<in> set (ia_fired a)"

text \<open>\<open>run\<close> deletes the thread-local event before it takes the lock again: \<open>Leaving\<close> is in between.\<close>

datatype run_stage = Out | Acting | Leaving

record input_thread =
  local_cancelled :: "nat option"
  local_cleaning :: bool
  in_run :: run_stage
  passed :: "bool option"
  waiting_on :: "(string option \<times> nat) option"

definition new_input_thread :: input_thread where
  "new_input_thread = \<lparr>local_cancelled = None, local_cleaning = False, in_run = Out,
     passed = None, waiting_on = None\<rparr>"

section \<open>The critical sections\<close>

definition activate :: "string \<Rightarrow> input_auth \<Rightarrow> input_error + input_auth" where
  "activate l a =
     (if \<not> (1 \<le> length l \<and> length l \<le> 200) then Inl BadLease
      else if ia_cleanup_failed a \<or> ia_revocation_pending a then Inl Cleanup_Unconfirmed
      else if Some l = ia_lease a then
        (if cancelled_is_set a then Inl Lease_Revoked else Inr a)
      else if ia_active a \<or> \<not> cancelled_is_set a then Inl Another_Lease_Active
      else Inr (a\<lparr>ia_lease := Some l, ia_cancelled := ia_next a, ia_next := Suc (ia_next a)\<rparr>))"

text \<open>
  \<open>revoke\<close> up to its wait: \<open>Inr None\<close> is the early return for a lease that is not the current one.
  The event it fires is the one whose runs it waits for.
\<close>

definition begin_revoke :: "string option \<Rightarrow> input_auth \<Rightarrow> input_error + input_auth option" where
  "begin_revoke l a =
     (if ia_lease a \<noteq> l then
        (if ia_active a \<or> \<not> cancelled_is_set a \<or> ia_revocation_pending a \<or> ia_cleanup_failed a
         then Inl Other_Authority else Inr None)
      else Inr (Some (a\<lparr>ia_fired := ia_cancelled a # ia_fired a, ia_revocation_pending := True\<rparr>)))"

text \<open>
  The rest of \<open>revoke\<close>, under the lock again: the wait has returned \<open>not active\<close>, and the cleanup
  callback, if there is one, returns (\<open>Some True\<close>) or raises (\<open>Some False\<close>).
\<close>

definition conclude_revoke :: "bool option \<Rightarrow> input_auth \<Rightarrow> input_error + input_auth" where
  "conclude_revoke cleanup a =
     (if ia_active a then Inl Not_Quiescent
      else if ia_cleanup_failed a then Inl Cleanup_Unconfirmed
      else if cleanup = Some False then Inl Cleanup_Raised
      else Inr (a\<lparr>ia_revocation_pending := False\<rparr>))"

definition enter_run :: "string option \<Rightarrow> input_auth \<Rightarrow> input_error + input_auth" where
  "enter_run l a =
     (if l \<noteq> ia_lease a \<or> cancelled_is_set a \<or> ia_active a then Inl Lease_Not_Current
      else Inr (a\<lparr>ia_active := True\<rparr>))"

definition leave_run :: "input_auth \<Rightarrow> input_auth" where
  "leave_run a = a\<lparr>ia_active := False\<rparr>"

definition checkpoint :: "input_auth \<Rightarrow> input_thread \<Rightarrow> input_error + unit" where
  "checkpoint a t =
     (case local_cancelled t of
        None \<Rightarrow> Inr ()
      | Some e \<Rightarrow> if e \<in> set (ia_fired a) \<and> \<not> local_cleaning t then Inl Lease_Revoked else Inr ())"

text \<open>
  \<open>wait\<close>: without a local event it only sleeps; otherwise it reports the revocation when the event
  fired before the time was up (\<open>fires\<close>), with the state at that moment.
\<close>

definition wait_input :: "bool \<Rightarrow> input_auth \<Rightarrow> input_thread \<Rightarrow> input_error + unit" where
  "wait_input fires a t =
     (case local_cancelled t of
        None \<Rightarrow> Inr ()
      | Some e \<Rightarrow> if fires then checkpoint a t else Inr ())"

definition cleanup_raised :: "input_auth \<Rightarrow> input_auth" where
  "cleanup_raised a = a\<lparr>ia_cleanup_failed := True\<rparr>"

section \<open>Interleaving\<close>

text \<open>The log, newest entry first. \<open>Did i e c\<close> is an effect thread \<open>i\<close> dispatched, for the event \<open>e\<close>
  of its run if it is in one, \<open>c\<close> when it is part of a cleanup.\<close>

datatype input_entry =
    Granted string nat
  | Cancelled nat
  | Quiet "string option" nat
  | Started nat nat
  | Ended nat
  | Did nat "nat option" bool

record input_world =
  authority :: input_auth
  threads :: "nat \<Rightarrow> input_thread"
  journal :: "input_entry list"

definition new_input_world :: input_world where
  "new_input_world = \<lparr>authority = new_input_auth, threads = (\<lambda>_. new_input_thread), journal = []\<rparr>"

datatype input_op =
    Activate string
  | Revoke "string option"
  | Revoke_Quiet "bool option"
  | Revoke_Timeout
  | Run "string option"
  | Run_Body_Ends
  | Run_Releases
  | Dispatch
  | Perform
  | Cleanup_Begins
  | Cleanup_Ends bool

definition thread_ready :: "input_thread \<Rightarrow> bool" where
  "thread_ready t \<longleftrightarrow> passed t = None \<and> waiting_on t = None \<and> in_run t \<noteq> Leaving"

definition set_thread :: "nat \<Rightarrow> input_thread \<Rightarrow> input_world \<Rightarrow> input_world" where
  "set_thread i t w = w\<lparr>threads := (threads w)(i := t)\<rparr>"

definition note_entry :: "input_entry \<Rightarrow> input_world \<Rightarrow> input_world" where
  "note_entry e w = w\<lparr>journal := e # journal w\<rparr>"

text \<open>
  One atomic section of thread \<open>i\<close>; \<open>None\<close> when the thread is not at that point. A section that
  raises leaves the world as it is, except that a waiting \<open>revoke\<close> stops waiting.
\<close>

definition exec_activate :: "string \<Rightarrow> input_world \<Rightarrow> input_world" where
  "exec_activate l w =
     (case activate l (authority w) of
        Inl _ \<Rightarrow> w
      | Inr a \<Rightarrow> note_entry (Granted l (ia_cancelled a)) (w\<lparr>authority := a\<rparr>))"

definition exec_revoke :: "nat \<Rightarrow> string option \<Rightarrow> input_world \<Rightarrow> input_world" where
  "exec_revoke i l w =
     (case begin_revoke l (authority w) of
        Inr (Some a) \<Rightarrow>
          note_entry (Cancelled (ia_cancelled a))
            (set_thread i ((threads w i)\<lparr>waiting_on := Some (l, ia_cancelled a)\<rparr>) (w\<lparr>authority := a\<rparr>))
      | _ \<Rightarrow> w)"

definition exec_quiet :: "nat \<Rightarrow> bool option \<Rightarrow> string option \<Rightarrow> nat \<Rightarrow> input_world \<Rightarrow> input_world" where
  "exec_quiet i cleanup l e w =
     (let w1 = set_thread i ((threads w i)\<lparr>waiting_on := None\<rparr>) w in
      case conclude_revoke cleanup (authority w) of
        Inl _ \<Rightarrow> w1
      | Inr a \<Rightarrow> note_entry (Quiet l e) (w1\<lparr>authority := a\<rparr>))"

definition exec_run :: "nat \<Rightarrow> string option \<Rightarrow> input_world \<Rightarrow> input_world" where
  "exec_run i l w =
     (case enter_run l (authority w) of
        Inl _ \<Rightarrow> w
      | Inr a \<Rightarrow>
          note_entry (Started i (ia_cancelled a))
            (set_thread i ((threads w i)\<lparr>local_cancelled := Some (ia_cancelled a), in_run := Acting\<rparr>)
              (w\<lparr>authority := a\<rparr>)))"

definition exec_dispatch :: "nat \<Rightarrow> input_world \<Rightarrow> input_world" where
  "exec_dispatch i w =
     (case checkpoint (authority w) (threads w i) of
        Inl _ \<Rightarrow> w
      | Inr _ \<Rightarrow> set_thread i ((threads w i)\<lparr>passed := Some (local_cleaning (threads w i))\<rparr>) w)"

fun input_exec :: "nat \<Rightarrow> input_op \<Rightarrow> input_world \<Rightarrow> input_world option" where
  "input_exec i (Activate l) w =
     (if thread_ready (threads w i) then Some (exec_activate l w) else None)"
| "input_exec i (Revoke l) w =
     (if thread_ready (threads w i) then Some (exec_revoke i l w) else None)"
| "input_exec i (Revoke_Quiet cleanup) w =
     (case waiting_on (threads w i) of
        None \<Rightarrow> None
      | Some (l, e) \<Rightarrow> if ia_active (authority w) then None else Some (exec_quiet i cleanup l e w))"
| "input_exec i Revoke_Timeout w =
     (if waiting_on (threads w i) = None \<or> \<not> ia_active (authority w) then None
      else Some (set_thread i ((threads w i)\<lparr>waiting_on := None\<rparr>) w))"
| "input_exec i (Run l) w =
     (if thread_ready (threads w i) then Some (exec_run i l w) else None)"
| "input_exec i Run_Body_Ends w =
     (if thread_ready (threads w i) \<and> in_run (threads w i) = Acting
      then Some (set_thread i ((threads w i)\<lparr>local_cancelled := None, in_run := Leaving\<rparr>) w) else None)"
| "input_exec i Run_Releases w =
     (if in_run (threads w i) = Leaving
      then Some (note_entry (Ended i) (set_thread i ((threads w i)\<lparr>in_run := Out\<rparr>)
        (w\<lparr>authority := leave_run (authority w)\<rparr>))) else None)"
| "input_exec i Dispatch w =
     (if thread_ready (threads w i) then Some (exec_dispatch i w) else None)"
| "input_exec i Perform w =
     (case passed (threads w i) of
        None \<Rightarrow> None
      | Some c \<Rightarrow> Some (note_entry (Did i (local_cancelled (threads w i)) c)
          (set_thread i ((threads w i)\<lparr>passed := None\<rparr>) w)))"
| "input_exec i Cleanup_Begins w =
     (if thread_ready (threads w i)
      then Some (set_thread i ((threads w i)\<lparr>local_cleaning := True\<rparr>) w) else None)"
| "input_exec i (Cleanup_Ends ok) w =
     (if thread_ready (threads w i) \<and> local_cleaning (threads w i)
      then Some (set_thread i ((threads w i)\<lparr>local_cleaning := False\<rparr>)
        (if ok then w else w\<lparr>authority := cleanup_raised (authority w)\<rparr>)) else None)"

inductive input_step :: "input_world \<Rightarrow> input_world \<Rightarrow> bool" where
  exec: "input_exec i op w = Some w' \<Longrightarrow> input_step w w'"

inductive input_reachable :: "input_world \<Rightarrow> bool" where
  start: "input_reachable new_input_world"
| step: "input_reachable w \<Longrightarrow> input_step w w' \<Longrightarrow> input_reachable w'"

inductive_cases input_stepE: "input_step w w'"

section \<open>What the log must look like\<close>

text \<open>The run that is open after a log, with its event; \<open>None\<close> when runs overlap or an effect of a
  run lies outside it.\<close>

fun open_run :: "input_entry list \<Rightarrow> (nat \<times> nat) option option" where
  "open_run [] = Some None"
| "open_run (x # old) =
     (case open_run old of
        None \<Rightarrow> None
      | Some cur \<Rightarrow>
          (case x of
             Started i e \<Rightarrow> if cur = None then Some (Some (i, e)) else None
           | Ended i \<Rightarrow>
               (case cur of None \<Rightarrow> None | Some (j, _) \<Rightarrow> if i = j then Some None else None)
           | Did i (Some e) _ \<Rightarrow> if cur = Some (i, e) then Some cur else None
           | _ \<Rightarrow> Some cur))"

definition is_quiet :: "nat \<Rightarrow> input_entry \<Rightarrow> bool" where
  "is_quiet e x = (case x of Quiet _ e' \<Rightarrow> e' = e | _ \<Rightarrow> False)"

definition effect_of :: "nat \<Rightarrow> input_entry \<Rightarrow> bool" where
  "effect_of e x = (case x of Did _ e' _ \<Rightarrow> e' = Some e | _ \<Rightarrow> False)"

text \<open>No effect of an event once its revocation has been acknowledged.\<close>

fun silent_once_quiet :: "input_entry list \<Rightarrow> bool" where
  "silent_once_quiet [] = True"
| "silent_once_quiet (x # old) \<longleftrightarrow>
     silent_once_quiet old \<and>
     (case x of Did _ (Some e) _ \<Rightarrow> \<not> list_ex (is_quiet e) old | _ \<Rightarrow> True)"

text \<open>Effects of an event, cleanups apart, after its first cancellation.\<close>

fun late_effects :: "nat \<Rightarrow> input_entry list \<Rightarrow> nat" where
  "late_effects e [] = 0"
| "late_effects e (x # old) =
     (if Cancelled e \<in> set old \<and> (case x of Did _ e' c \<Rightarrow> e' = Some e \<and> \<not> c | _ \<Rightarrow> False)
      then Suc (late_effects e old) else late_effects e old)"

lemma late_effects_before_cancel: "Cancelled e \<notin> set es \<Longrightarrow> late_effects e es = 0"
  by (induction es) auto

section \<open>The invariant\<close>

definition thread_ok :: "input_auth \<Rightarrow> input_thread \<Rightarrow> bool" where
  "thread_ok a t \<longleftrightarrow>
     local_cancelled t = (if in_run t = Acting then Some (ia_cancelled a) else None) \<and>
     (in_run t \<noteq> Out \<longrightarrow> ia_active a) \<and>
     (in_run t = Leaving \<longrightarrow> passed t = None) \<and>
     (\<forall>l e. waiting_on t = Some (l, e) \<longrightarrow> e \<in> set (ia_fired a))"

definition auth_ok :: "input_auth \<Rightarrow> bool" where
  "auth_ok a \<longleftrightarrow> ia_cancelled a < ia_next a \<and> (\<forall>e\<in>set (ia_fired a). e < ia_next a) \<and>
     (ia_revocation_pending a \<longrightarrow> cancelled_is_set a)"

definition journal_ok :: "input_auth \<Rightarrow> input_entry list \<Rightarrow> bool" where
  "journal_ok a es \<longleftrightarrow> silent_once_quiet es \<and>
     (\<forall>e. Cancelled e \<in> set es \<longrightarrow> e \<in> set (ia_fired a)) \<and>
     (\<forall>e. list_ex (is_quiet e) es \<longrightarrow> e \<in> set (ia_fired a)) \<and>
     (ia_active a \<longrightarrow> \<not> list_ex (is_quiet (ia_cancelled a)) es) \<and>
     open_run es \<noteq> None \<and> (open_run es \<noteq> Some None \<longleftrightarrow> ia_active a) \<and>
     (\<forall>i e. open_run es = Some (Some (i, e)) \<longrightarrow> e = ia_cancelled a)"

definition in_flight :: "input_world \<Rightarrow> nat \<Rightarrow> nat" where
  "in_flight w e =
     (case open_run (journal w) of
        Some (Some (i, _)) \<Rightarrow>
          (if local_cancelled (threads w i) = Some e \<and> passed (threads w i) = Some False then 1 else 0)
      | _ \<Rightarrow> 0)"

definition input_inv :: "input_world \<Rightarrow> bool" where
  "input_inv w \<longleftrightarrow> auth_ok (authority w) \<and> (\<forall>i. thread_ok (authority w) (threads w i)) \<and>
     journal_ok (authority w) (journal w) \<and>
     (\<forall>i. in_run (threads w i) \<noteq> Out \<longleftrightarrow>
        open_run (journal w) = Some (Some (i, ia_cancelled (authority w)))) \<and>
     (\<forall>e. late_effects e (journal w) + in_flight w e \<le> 1)"

subsection \<open>Every section preserves it\<close>

lemmas input_inv_defs =
  input_inv_def auth_ok_def thread_ok_def journal_ok_def in_flight_def

lemmas input_exec_defs =
  exec_activate_def exec_revoke_def exec_quiet_def exec_run_def exec_dispatch_def
  activate_def begin_revoke_def conclude_revoke_def enter_run_def leave_run_def checkpoint_def
  cleanup_raised_def set_thread_def note_entry_def thread_ready_def cancelled_is_set_def

lemma is_quiet_simps [simp]:
  "is_quiet e (Quiet l e') \<longleftrightarrow> e' = e" "\<not> is_quiet e (Granted g n)" "\<not> is_quiet e (Cancelled n)"
  "\<not> is_quiet e (Started i n)" "\<not> is_quiet e (Ended i)" "\<not> is_quiet e (Did i m c)"
  by (auto simp: is_quiet_def)

lemma input_invI:
  assumes "auth_ok (authority w)" and "\<And>i. thread_ok (authority w) (threads w i)"
    and "journal_ok (authority w) (journal w)"
    and "\<And>i. in_run (threads w i) \<noteq> Out \<longleftrightarrow>
        open_run (journal w) = Some (Some (i, ia_cancelled (authority w)))"
    and "\<And>e. late_effects e (journal w) + in_flight w e \<le> 1"
  shows "input_inv w"
  using assms by (simp add: input_inv_def)

lemma input_invD:
  assumes "input_inv w"
  shows "auth_ok (authority w)" and "thread_ok (authority w) (threads w i)"
    and "journal_ok (authority w) (journal w)"
    and "in_run (threads w i) \<noteq> Out \<longleftrightarrow>
        open_run (journal w) = Some (Some (i, ia_cancelled (authority w)))"
    and "late_effects e (journal w) + in_flight w e \<le> 1"
  using assms by (simp_all add: input_inv_def)

lemma inv_late: "input_inv w \<Longrightarrow> late_effects e (journal w) \<le> 1"
  using input_invD(5) [of w e] by simp

lemma inv_not_late:
  "input_inv w \<Longrightarrow> e \<notin> set (ia_fired (authority w)) \<Longrightarrow> late_effects e (journal w) = 0"
  using input_invD(3) by (blast intro: late_effects_before_cancel dest: journal_ok_def [THEN iffD1])

lemma thread_ok_mono:
  "thread_ok a t \<Longrightarrow> ia_cancelled a' = ia_cancelled a \<Longrightarrow> ia_active a' = ia_active a \<Longrightarrow>
   set (ia_fired a) \<subseteq> set (ia_fired a') \<Longrightarrow> thread_ok a' t"
  by (auto simp: thread_ok_def)

lemma journal_ok_mono:
  "journal_ok a es \<Longrightarrow> ia_cancelled a' = ia_cancelled a \<Longrightarrow> ia_active a' = ia_active a \<Longrightarrow>
   set (ia_fired a) \<subseteq> set (ia_fired a') \<Longrightarrow> journal_ok a' es"
  unfolding journal_ok_def by auto

lemma in_flight_authority [simp]: "in_flight (w\<lparr>authority := a\<rparr>) e = in_flight w e"
  by (simp add: in_flight_def split: option.splits)

lemma in_flight_cong:
  "open_run (journal w) = open_run (journal v) \<Longrightarrow> threads w = threads v \<Longrightarrow> in_flight w e = in_flight v e"
  by (simp add: in_flight_def split: option.splits)

lemma inv_authority:
  assumes "input_inv w" and "auth_ok a"
    and "ia_cancelled a = ia_cancelled (authority w)" and "ia_active a = ia_active (authority w)"
    and "set (ia_fired (authority w)) \<subseteq> set (ia_fired a)"
  shows "input_inv (w\<lparr>authority := a\<rparr>)"
proof (rule input_invI, goal_cases)
  case 1
  then show ?case using assms(2) by simp
next
  case (2 i)
  show ?case using thread_ok_mono [OF input_invD(2) [OF assms(1)] assms(3-5)] by simp
next
  case 3
  show ?case using journal_ok_mono [OF input_invD(3) [OF assms(1)] assms(3-5)] by simp
next
  case (4 i)
  show ?case using input_invD(4) [OF assms(1), of i] assms(3) by simp
next
  case (5 e)
  show ?case using input_invD(5) [OF assms(1), of e] by simp
qed

text \<open>Entries that neither open nor close a run nor belong to one.\<close>

definition plain_entry :: "input_entry \<Rightarrow> bool" where
  "plain_entry x = (case x of Granted _ _ \<Rightarrow> True | Cancelled _ \<Rightarrow> True | Quiet _ _ \<Rightarrow> True
     | Did _ None _ \<Rightarrow> True | _ \<Rightarrow> False)"

lemma open_run_plain: "plain_entry x \<Longrightarrow> open_run (x # es) = open_run es"
  by (cases x) (auto simp: plain_entry_def split: option.splits)

lemma late_effects_plain: "plain_entry x \<Longrightarrow> late_effects e (x # es) = late_effects e es"
  by (cases x) (auto simp: plain_entry_def split: option.splits)

lemma silent_plain: "plain_entry x \<Longrightarrow> silent_once_quiet (x # es) = silent_once_quiet es"
  by (cases x) (auto simp: plain_entry_def split: option.splits)

lemma inv_plain_entry:
  assumes "input_inv w" and "plain_entry x"
    and "\<And>e. x = Cancelled e \<Longrightarrow> e \<in> set (ia_fired (authority w))"
    and "\<And>l e. x = Quiet l e \<Longrightarrow> e \<in> set (ia_fired (authority w)) \<and> \<not> ia_active (authority w)"
  shows "input_inv (note_entry x w)"
proof (rule input_invI, goal_cases)
  case 3
  have "list_ex (is_quiet e) (x # journal w) \<longleftrightarrow>
      (\<exists>l. x = Quiet l e) \<or> list_ex (is_quiet e) (journal w)" for e
    by (cases x) auto
  then show ?case
    using input_invD(3) [OF assms(1)] assms(3,4)
    by (auto simp: note_entry_def journal_ok_def open_run_plain [OF assms(2)] silent_plain [OF assms(2)]
        simp del: list_ex_Cons_iff silent_once_quiet.simps open_run.simps)
next
  case (4 i)
  show ?case using input_invD(4) [OF assms(1), of i] open_run_plain [OF assms(2)]
    by (simp add: note_entry_def del: open_run.simps)
next
  case (5 e)
  show ?case using input_invD(5) [OF assms(1), of e] open_run_plain [OF assms(2)] late_effects_plain [OF assms(2)]
      in_flight_cong [of "note_entry x w" w e]
    by (simp add: note_entry_def del: open_run.simps late_effects.simps)
qed (use input_invD [OF assms(1)] in \<open>simp_all add: note_entry_def\<close>)

lemma in_flight_le_1: "in_flight w e \<le> 1"
  by (simp add: in_flight_def split: option.splits)

lemma in_flight_set_thread:
  "in_flight (set_thread i t w) e = in_flight w e \<or> in_flight (set_thread i t w) e = 0 \<or>
   passed t = Some False \<and> local_cancelled t = Some e \<and>
     \<not> (local_cancelled (threads w i) = Some e \<and> passed (threads w i) = Some False)"
  by (auto simp: in_flight_def set_thread_def split: option.splits)

lemma inv_thread:
  assumes "input_inv w" and "thread_ok (authority w) t" and "in_run t = in_run (threads w i)"
    and "passed t = Some False \<Longrightarrow> local_cancelled t \<noteq> None \<Longrightarrow> passed (threads w i) = Some False
      \<or> \<not> cancelled_is_set (authority w)"
  shows "input_inv (set_thread i t w)"
proof (rule input_invI, goal_cases)
  case (2 j)
  then show ?case using assms(2) input_invD(2) [OF assms(1), of j] by (simp add: set_thread_def)
next
  case (4 j)
  then show ?case using assms(3) input_invD(4) [OF assms(1), of j] by (cases "j = i") (simp_all add: set_thread_def)
next
  case (5 e)
  show ?case
    using in_flight_set_thread [of i t w e]
  proof (elim disjE conjE)
    assume t: "passed t = Some False" "local_cancelled t = Some e"
      and old: "\<not> (local_cancelled (threads w i) = Some e \<and> passed (threads w i) = Some False)"
    have "local_cancelled (threads w i) = local_cancelled t"
      using input_invD(2) [OF assms(1), of i] assms(2,3) by (simp add: thread_ok_def)
    then have "\<not> cancelled_is_set (authority w)" using assms(4) t old by simp
    then have "late_effects e (journal w) = 0"
      using assms(1,2) t by (intro inv_not_late) (auto simp: thread_ok_def cancelled_is_set_def split: if_splits)
    then show ?case using in_flight_le_1 by (simp add: set_thread_def)
  qed (use input_invD(5) [OF assms(1), of e] inv_late [OF assms(1), of e] in \<open>simp_all add: set_thread_def\<close>)
qed (use input_invD [OF assms(1)] in \<open>simp_all add: set_thread_def\<close>)

lemma inv_grant:
  assumes "input_inv w" and "\<not> ia_active (authority w)" and "\<not> ia_revocation_pending (authority w)"
  shows "input_inv (w\<lparr>authority := (authority w)\<lparr>ia_lease := l,
    ia_cancelled := ia_next (authority w), ia_next := Suc (ia_next (authority w))\<rparr>\<rparr>)"
proof (rule input_invI, goal_cases)
  case 1
  then show ?case using input_invD(1) [OF assms(1)] assms(3) by (auto simp: auth_ok_def less_Suc_eq)
next
  case (2 i)
  then show ?case using input_invD(2) [OF assms(1), of i] assms(2) by (auto simp: thread_ok_def split: if_splits)
next
  case 3
  then show ?case using input_invD(3) [OF assms(1)] assms(2) by (auto simp: journal_ok_def)
next
  case (4 i)
  have "open_run (journal w) = Some None" using input_invD(3) [OF assms(1)] assms(2) by (auto simp: journal_ok_def)
  then show ?case using input_invD(4) [OF assms(1), of i] by simp
next
  case (5 e)
  then show ?case using input_invD(5) [OF assms(1), of e] by simp
qed

lemma local_unless_acting:
  "input_inv w \<Longrightarrow> in_run (threads w i) \<noteq> Acting \<Longrightarrow> local_cancelled (threads w i) = None"
  using input_invD(2) [of w i] by (simp add: thread_ok_def)

lemma local_of_acting:
  "input_inv w \<Longrightarrow> in_run (threads w i) = Acting \<Longrightarrow>
     local_cancelled (threads w i) = Some (ia_cancelled (authority w)) \<and> ia_active (authority w)"
  using input_invD(2) [of w i] by (simp add: thread_ok_def)

lemma inv_exec_activate: "input_inv w \<Longrightarrow> input_inv (exec_activate l w)"
  unfolding exec_activate_def activate_def
  by (auto intro!: inv_plain_entry inv_grant simp: plain_entry_def)

lemma inv_exec_revoke:
  assumes "input_inv w"
  shows "input_inv (exec_revoke i l w)"
proof (cases "begin_revoke l (authority w)")
  case (Inr r)
  show ?thesis
  proof (cases r)
    case (Some a)
    then have a: "a = (authority w)\<lparr>ia_fired := ia_cancelled (authority w) # ia_fired (authority w),
        ia_revocation_pending := True\<rparr>"
      using Inr by (auto simp: begin_revoke_def split: if_splits)
    have "input_inv (w\<lparr>authority := a\<rparr>)"
      using assms input_invD(1) [OF assms] by (intro inv_authority) (auto simp: a auth_ok_def cancelled_is_set_def)
    then have "input_inv (set_thread i ((threads w i)\<lparr>waiting_on := Some (l, ia_cancelled a)\<rparr>) (w\<lparr>authority := a\<rparr>))"
      using input_invD(2) [OF assms, of i] by (intro inv_thread) (auto simp: a thread_ok_def)
    then show ?thesis
      unfolding exec_revoke_def
      by (simp add: Inr Some) (intro inv_plain_entry; simp add: plain_entry_def set_thread_def a)
  qed (simp add: exec_revoke_def Inr assms)
qed (simp add: exec_revoke_def assms)

lemma inv_exec_quiet:
  assumes "input_inv w" and "waiting_on (threads w i) = Some (l, e)"
  shows "input_inv (exec_quiet i cleanup l e w)"
proof -
  let ?w = "set_thread i ((threads w i)\<lparr>waiting_on := None\<rparr>) w"
  have w1: "input_inv ?w"
    using assms input_invD(2) [OF assms(1), of i] by (intro inv_thread) (auto simp: thread_ok_def)
  have e: "e \<in> set (ia_fired (authority w))"
    using input_invD(2) [OF assms(1), of i] assms(2) by (simp add: thread_ok_def)
  show ?thesis
  proof (cases "conclude_revoke cleanup (authority w)")
    case (Inr a)
    then have a: "a = (authority w)\<lparr>ia_revocation_pending := False\<rparr>" "\<not> ia_active (authority w)"
      by (auto simp: conclude_revoke_def split: if_splits)
    have "input_inv (?w\<lparr>authority := a\<rparr>)"
      using w1 input_invD(1) [OF assms(1)]
      by (intro inv_authority) (auto simp: a(1) auth_ok_def set_thread_def)
    then show ?thesis
      unfolding exec_quiet_def using e a(2)
      by (simp add: Inr Let_def) (intro inv_plain_entry; simp add: plain_entry_def a(1))
  qed (simp add: exec_quiet_def Let_def w1)
qed

lemma inv_exec_dispatch:
  assumes "input_inv w" and "thread_ready (threads w i)"
  shows "input_inv (exec_dispatch i w)"
proof (cases "checkpoint (authority w) (threads w i)")
  case (Inr u)
  then show ?thesis
    using assms input_invD(2) [OF assms(1), of i]
    by (auto simp: exec_dispatch_def checkpoint_def cancelled_is_set_def thread_ok_def thread_ready_def
        intro!: inv_thread split: if_splits)
qed (simp add: exec_dispatch_def assms)

lemma journal_okD:
  assumes "journal_ok a es"
  shows "silent_once_quiet es" and "Cancelled e \<in> set es \<Longrightarrow> e \<in> set (ia_fired a)"
    and "list_ex (is_quiet e) es \<Longrightarrow> e \<in> set (ia_fired a)"
    and "ia_active a \<Longrightarrow> \<not> list_ex (is_quiet (ia_cancelled a)) es"
    and "open_run es \<noteq> None" and "open_run es \<noteq> Some None \<longleftrightarrow> ia_active a"
    and "open_run es = Some (Some (i, n)) \<Longrightarrow> n = ia_cancelled a"
  using assms by (simp_all add: journal_ok_def)

lemma inv_enter_run:
  assumes "input_inv w" and "\<not> ia_active (authority w)" and "\<not> cancelled_is_set (authority w)"
    and "passed (threads w i) = None" and "waiting_on (threads w i) = None"
  shows "input_inv (note_entry (Started i (ia_cancelled (authority w)))
    (set_thread i ((threads w i)\<lparr>local_cancelled := Some (ia_cancelled (authority w)), in_run := Acting\<rparr>)
      (w\<lparr>authority := (authority w)\<lparr>ia_active := True\<rparr>\<rparr>)))"
    (is "input_inv ?w")
proof (rule input_invI)
  note j = journal_okD [OF input_invD(3) [OF assms(1)]]
  have closed: "open_run (journal w) = Some None" using j(6) assms(2) by simp
  have out: "in_run (threads w k) = Out" for k
    using input_invD(2) [OF assms(1), of k] assms(2) by (auto simp: thread_ok_def)
  show "auth_ok (authority ?w)"
    using input_invD(1) [OF assms(1)] by (simp add: note_entry_def set_thread_def auth_ok_def cancelled_is_set_def)
  show "thread_ok (authority ?w) (threads ?w k)" for k
    using input_invD(2) [OF assms(1), of k] out [of k] assms(5)
    by (auto simp: note_entry_def set_thread_def thread_ok_def)
  have "\<not> list_ex (is_quiet (ia_cancelled (authority w))) (journal w)"
    using j(3) assms(3) by (auto simp: cancelled_is_set_def)
  then show "journal_ok (authority ?w) (journal ?w)"
    using j(1-3) closed by (simp add: journal_ok_def note_entry_def set_thread_def)
  show "in_run (threads ?w k) \<noteq> Out \<longleftrightarrow> open_run (journal ?w) = Some (Some (k, ia_cancelled (authority ?w)))" for k
    using closed out [of k] by (auto simp: note_entry_def set_thread_def)
  have "in_flight ?w e = 0" for e
    using closed assms(4) by (simp add: in_flight_def note_entry_def set_thread_def)
  then show "late_effects e (journal ?w) + in_flight ?w e \<le> 1" for e
    using inv_late [OF assms(1), of e] by (simp add: note_entry_def set_thread_def)
qed

lemma inv_exec_run:
  "input_inv w \<Longrightarrow> thread_ready (threads w i) \<Longrightarrow> input_inv (exec_run i l w)"
  by (auto simp: exec_run_def enter_run_def thread_ready_def intro: inv_enter_run)

lemma inv_body_ends:
  assumes "input_inv w" and "in_run (threads w i) = Acting" and "passed (threads w i) = None"
  shows "input_inv (set_thread i ((threads w i)\<lparr>local_cancelled := None, in_run := Leaving\<rparr>) w)"
    (is "input_inv ?w")
proof (rule input_invI)
  show "thread_ok (authority ?w) (threads ?w k)" for k
    using input_invD(2) [OF assms(1), of k] assms(2,3) by (auto simp: set_thread_def thread_ok_def)
  show "in_run (threads ?w k) \<noteq> Out \<longleftrightarrow> open_run (journal ?w) = Some (Some (k, ia_cancelled (authority ?w)))" for k
    using input_invD(4) [OF assms(1), of k] assms(2) by (auto simp: set_thread_def)
  show "late_effects e (journal ?w) + in_flight ?w e \<le> 1" for e
    using in_flight_set_thread [of i "(threads w i)\<lparr>local_cancelled := None, in_run := Leaving\<rparr>" w e]
      input_invD(5) [OF assms(1), of e] inv_late [OF assms(1), of e]
    by (auto simp: set_thread_def)
qed (use input_invD [OF assms(1)] in \<open>simp_all add: set_thread_def\<close>)

lemma open_run_of:
  "input_inv w \<Longrightarrow> in_run (threads w i) \<noteq> Out \<Longrightarrow>
     open_run (journal w) = Some (Some (i, ia_cancelled (authority w)))"
  using input_invD(4) by blast

lemma inv_releases:
  assumes "input_inv w" and "in_run (threads w i) = Leaving"
  shows "input_inv (note_entry (Ended i) (set_thread i ((threads w i)\<lparr>in_run := Out\<rparr>)
    (w\<lparr>authority := leave_run (authority w)\<rparr>)))" (is "input_inv ?w")
proof (rule input_invI)
  note j = journal_okD [OF input_invD(3) [OF assms(1)]]
  have cur: "open_run (journal w) = Some (Some (i, ia_cancelled (authority w)))"
    using open_run_of assms by simp
  then have out: "in_run (threads w k) = Out" if "k \<noteq> i" for k
    using input_invD(4) [OF assms(1), of k] that by auto
  show "auth_ok (authority ?w)"
    using input_invD(1) [OF assms(1)] by (simp add: note_entry_def set_thread_def auth_ok_def cancelled_is_set_def leave_run_def)
  show "thread_ok (authority ?w) (threads ?w k)" for k
    using input_invD(2) [OF assms(1), of k] out [of k] assms(2)
    by (auto simp: note_entry_def set_thread_def thread_ok_def leave_run_def)
  show "journal_ok (authority ?w) (journal ?w)"
    using j(1-3) cur by (simp add: journal_ok_def note_entry_def set_thread_def leave_run_def)
  show "in_run (threads ?w k) \<noteq> Out \<longleftrightarrow> open_run (journal ?w) = Some (Some (k, ia_cancelled (authority ?w)))" for k
    using cur out [of k] by (cases "k = i") (auto simp: note_entry_def set_thread_def)
  show "late_effects e (journal ?w) + in_flight ?w e \<le> 1" for e
    using inv_late [OF assms(1), of e] cur by (simp add: note_entry_def set_thread_def in_flight_def)
qed

lemma inv_perform_acting:
  assumes "input_inv w" and "in_run (threads w i) = Acting" and "passed (threads w i) = Some c"
  shows "input_inv (note_entry (Did i (Some (ia_cancelled (authority w))) c)
    (set_thread i ((threads w i)\<lparr>passed := None\<rparr>) w))" (is "input_inv ?w")
proof (rule input_invI)
  note j = journal_okD [OF input_invD(3) [OF assms(1)]]
  have cur: "open_run (journal w) = Some (Some (i, ia_cancelled (authority w)))"
    using open_run_of assms by simp
  note loc = local_of_acting [OF assms(1,2)]
  show "thread_ok (authority ?w) (threads ?w k)" for k
    using input_invD(2) [OF assms(1), of k] by (auto simp: note_entry_def set_thread_def thread_ok_def)
  show "journal_ok (authority ?w) (journal ?w)"
    using j(1-4) cur loc by (simp add: journal_ok_def note_entry_def set_thread_def)
  show "in_run (threads ?w k) \<noteq> Out \<longleftrightarrow> open_run (journal ?w) = Some (Some (k, ia_cancelled (authority ?w)))" for k
    using cur input_invD(4) [OF assms(1), of k] assms(2) by (cases "k = i") (auto simp: note_entry_def set_thread_def)
  have zero: "in_flight ?w e = 0" for e
    using cur by (simp add: in_flight_def note_entry_def set_thread_def)
  show "late_effects e (journal ?w) + in_flight ?w e \<le> 1" for e
    using input_invD(5) [OF assms(1), of e] inv_late [OF assms(1), of e] cur loc assms(3)
    by (auto simp: zero note_entry_def set_thread_def in_flight_def)
qed (use input_invD [OF assms(1)] in \<open>simp_all add: set_thread_def note_entry_def\<close>)

lemma inv_perform:
  assumes "input_inv w" and "passed (threads w i) = Some c"
  shows "input_inv (note_entry (Did i (local_cancelled (threads w i)) c)
    (set_thread i ((threads w i)\<lparr>passed := None\<rparr>) w))"
proof (cases "in_run (threads w i) = Acting")
  case True
  then show ?thesis using inv_perform_acting [OF assms(1) True assms(2)] local_of_acting [OF assms(1) True] by simp
next
  case False
  have "input_inv (set_thread i ((threads w i)\<lparr>passed := None\<rparr>) w)"
    using input_invD(2) [OF assms(1), of i] by (intro inv_thread [OF assms(1)]) (auto simp: thread_ok_def)
  then show ?thesis
    using local_unless_acting [OF assms(1) False] by (intro inv_plain_entry) (auto simp: plain_entry_def)
qed

lemma inv_cleanup_raised: "input_inv w \<Longrightarrow> input_inv (w\<lparr>authority := cleanup_raised (authority w)\<rparr>)"
  using input_invD(1) [of w]
  by (intro inv_authority) (auto simp: cleanup_raised_def auth_ok_def cancelled_is_set_def)

lemma inv_thread_same:
  assumes "input_inv w" and "in_run t = in_run (threads w i)" and "passed t = passed (threads w i)"
    and "local_cancelled t = local_cancelled (threads w i)"
    and "waiting_on t = waiting_on (threads w i) \<or> waiting_on t = None"
  shows "input_inv (set_thread i t w)"
  using assms input_invD(2) [OF assms(1), of i] by (intro inv_thread) (auto simp: thread_ok_def)

lemma input_exec_inv:
  assumes "input_inv w" and "input_exec i op w = Some w'"
  shows "input_inv w'"
proof (cases op)
  case (Activate l)
  then show ?thesis using assms inv_exec_activate by (auto split: if_splits)
next
  case (Revoke l)
  then show ?thesis using assms inv_exec_revoke by (auto split: if_splits)
next
  case (Revoke_Quiet cleanup)
  then show ?thesis using assms inv_exec_quiet by (auto split: if_splits option.splits)
next
  case Revoke_Timeout
  then show ?thesis using assms by (auto split: if_splits intro: inv_thread_same)
next
  case (Run l)
  then show ?thesis using assms inv_exec_run by (auto split: if_splits)
next
  case Run_Body_Ends
  then show ?thesis using assms by (auto split: if_splits simp: thread_ready_def intro: inv_body_ends)
next
  case Run_Releases
  then show ?thesis using assms by (auto split: if_splits intro: inv_releases)
next
  case Dispatch
  then show ?thesis using assms inv_exec_dispatch by (auto split: if_splits)
next
  case Perform
  then show ?thesis using assms by (auto split: option.splits intro: inv_perform)
next
  case Cleanup_Begins
  then show ?thesis using assms by (auto split: if_splits intro: inv_thread_same)
next
  case (Cleanup_Ends ok)
  have "input_inv (set_thread i ((threads v i)\<lparr>local_cleaning := False\<rparr>) v)" if "input_inv v" for v
    using that by (intro inv_thread_same) auto
  from this [OF assms(1)] this [OF inv_cleanup_raised [OF assms(1)]] show ?thesis
    using assms(2) Cleanup_Ends by (auto split: if_splits)
qed

lemma reachable_inv: "input_reachable w \<Longrightarrow> input_inv w"
proof (induction rule: input_reachable.induct)
  case start
  show ?case
    by (simp add: input_inv_def auth_ok_def thread_ok_def journal_ok_def in_flight_def new_input_world_def
        new_input_auth_def new_input_thread_def cancelled_is_set_def)
next
  case (step w w')
  then show ?case by (auto elim!: input_stepE intro: input_exec_inv)
qed

section \<open>Schedules\<close>

fun run_ops :: "(nat \<times> input_op) list \<Rightarrow> input_world \<Rightarrow> input_world option" where
  "run_ops [] w = Some w"
| "run_ops ((i, op) # ops) w =
     (case input_exec i op w of None \<Rightarrow> None | Some w' \<Rightarrow> run_ops ops w')"

lemma run_ops_reachable: "input_reachable w \<Longrightarrow> run_ops ops w = Some w' \<Longrightarrow> input_reachable w'"
proof (induction ops w rule: run_ops.induct)
  case (2 i op ops w)
  then show ?case by (auto split: option.splits dest: input_step.exec input_reachable.step)
qed simp

lemma run_ops_append:
  "run_ops (ops @ ops') w = (case run_ops ops w of None \<Rightarrow> None | Some w' \<Rightarrow> run_ops ops' w')"
  by (induction ops arbitrary: w) (auto split: option.splits)

text \<open>A run under the lease \<open>a\<close> is revoked while one dispatch is past its checkpoint.\<close>

definition takeover_ops :: "(nat \<times> input_op) list" where
  "takeover_ops =
     [(0, Activate ''a''), (1, Run (Some ''a'')), (1, Dispatch), (2, Revoke (Some ''a'')), (1, Perform),
      (1, Dispatch), (1, Cleanup_Begins), (1, Dispatch), (1, Perform), (1, Cleanup_Ends True),
      (1, Run_Body_Ends), (1, Run_Releases), (2, Revoke_Quiet None)]"

definition takeover_journal :: "input_entry list" where
  "takeover_journal =
     [Quiet (Some ''a'') 1, Ended 1, Did 1 (Some 1) True, Did 1 (Some 1) False, Cancelled 1,
      Started 1 1, Granted ''a'' 1]"

lemmas input_run_simps =
  exec_activate_def exec_revoke_def exec_quiet_def exec_run_def exec_dispatch_def
  activate_def begin_revoke_def conclude_revoke_def enter_run_def leave_run_def checkpoint_def
  cleanup_raised_def set_thread_def note_entry_def thread_ready_def cancelled_is_set_def
  new_input_world_def new_input_auth_def new_input_thread_def

lemma takeover_reachable: "\<exists>w. input_reachable w \<and> journal w = takeover_journal"
proof -
  have "case run_ops takeover_ops new_input_world of None \<Rightarrow> False | Some w \<Rightarrow> journal w = takeover_journal"
    by (simp add: takeover_ops_def takeover_journal_def input_run_simps)
  then show ?thesis
    using run_ops_reachable [OF input_reachable.start] by (auto split: option.splits)
qed

section \<open>Properties\<close>

text \<open>C5: Once a revocation has been acknowledged, no effect of a run under the revoked grant follows:
  neither a dispatch that passed its checkpoint before the revocation nor a cleanup, whatever the
  threads do and in whatever order their critical sections are interleaved.\<close>
theorem acknowledged_revocation_is_final:
  assumes "input_reachable w"
  shows "silent_once_quiet (journal w)"
  using input_invD(3) [OF reachable_inv [OF assms]] by (simp add: journal_ok_def)

text \<open>C24: From the moment a lease is cancelled, even before the revocation is acknowledged, at most one
  more effect that is not a cleanup happens under it: the dispatch that had already passed its
  checkpoint.\<close>
theorem cancelled_lease_does_one_more:
  assumes "input_reachable w"
  shows "late_effects e (journal w) \<le> 1"
  by (rule inv_late [OF reachable_inv [OF assms]])

text \<open>Runs never overlap, and every effect that belongs to a run lies inside it: the log of runs,
  ends and effects is always well bracketed.\<close>
theorem input_runs_never_overlap:
  assumes "input_reachable w"
  shows "open_run (journal w) \<noteq> None"
  using input_invD(3) [OF reachable_inv [OF assms]] by (simp add: journal_ok_def)


text \<open>The three properties on the takeover: its log is the one a reachable world has.\<close>

lemma acknowledged_revocation_is_final_witness:
  "\<exists>w. input_reachable w \<and> journal w = takeover_journal \<and> silent_once_quiet (journal w)"
  using takeover_reachable acknowledged_revocation_is_final by blast

lemma cancelled_lease_does_one_more_witness:
  "\<exists>w. input_reachable w \<and> late_effects 1 (journal w) = 1 \<and> late_effects 1 (journal w) \<le> 1"
proof -
  obtain w where w: "input_reachable w" "journal w = takeover_journal" using takeover_reachable by blast
  have "late_effects 1 (journal w) = 1" by (simp add: w(2) takeover_journal_def)
  with w(1) cancelled_lease_does_one_more [OF w(1)] show ?thesis by blast
qed

lemma input_runs_never_overlap_witness:
  "\<exists>w. input_reachable w \<and> journal w = takeover_journal \<and> open_run (journal w) \<noteq> None"
  using takeover_reachable input_runs_never_overlap by blast

subsection \<open>A failed cleanup\<close>

lemma failed_cleanup_step:
  assumes "input_step w w'" and "ia_cleanup_failed (authority w)"
  shows "ia_cleanup_failed (authority w') \<and> ia_lease (authority w') = ia_lease (authority w) \<and>
    ia_cancelled (authority w') = ia_cancelled (authority w) \<and>
    (Quiet l e \<in> set (journal w') \<longrightarrow> Quiet l e \<in> set (journal w))"
proof -
  obtain i op where "input_exec i op w = Some w'" using assms(1) by (auto elim: input_stepE)
  then show ?thesis
    using assms(2)
    by (cases op) (auto simp: input_exec_defs Let_def split: if_splits option.splits sum.splits)
qed

text \<open>A cleanup that fails closes the authority for good: from then on no lease but the present one
  is ever granted, no new event replaces the present one, and no revocation is acknowledged.\<close>
theorem failed_cleanup_closes_authority:
  assumes "input_step\<^sup>*\<^sup>* w w'" and "ia_cleanup_failed (authority w)"
  shows "ia_cleanup_failed (authority w') \<and> ia_lease (authority w') = ia_lease (authority w) \<and>
    ia_cancelled (authority w') = ia_cancelled (authority w) \<and>
    (if Quiet l e \<in> set (journal w') then Quiet l e \<in> set (journal w) else True)"
  using assms
  by (induction rule: rtranclp_induct) (use failed_cleanup_step in \<open>auto split: if_splits\<close>)

lemma run_ops_steps: "run_ops ops w = Some w' \<Longrightarrow> input_step\<^sup>*\<^sup>* w w'"
proof (induction ops w rule: run_ops.induct)
  case (2 i op ops w)
  then show ?case
    by (auto split: option.splits dest: input_step.exec intro: converse_rtranclp_into_rtranclp)
qed simp

definition failed_cleanup_ops :: "(nat \<times> input_op) list" where
  "failed_cleanup_ops = [(0, Activate ''a''), (1, Run (Some ''a'')), (1, Cleanup_Begins), (1, Cleanup_Ends False)]"

definition after_failure_ops :: "(nat \<times> input_op) list" where
  "after_failure_ops =
     [(1, Run_Body_Ends), (1, Run_Releases), (2, Revoke (Some ''a'')), (2, Revoke_Quiet (Some True)),
      (0, Activate ''b'')]"

lemma failed_cleanup_closes_authority_witness:
  "\<exists>w w'. run_ops failed_cleanup_ops new_input_world = Some w \<and> run_ops after_failure_ops w = Some w' \<and>
    ia_lease (authority w') = Some ''a'' \<and> \<not> list_ex (is_quiet 1) (journal w')"
proof -
  have w: "case run_ops failed_cleanup_ops new_input_world of None \<Rightarrow> False | Some w \<Rightarrow>
      ia_cleanup_failed (authority w) \<and> ia_lease (authority w) = Some ''a'' \<and>
      \<not> list_ex (is_quiet 1) (journal w) \<and> run_ops after_failure_ops w \<noteq> None"
    by (simp add: failed_cleanup_ops_def after_failure_ops_def input_run_simps)
  then obtain w w' where w: "run_ops failed_cleanup_ops new_input_world = Some w"
    "run_ops after_failure_ops w = Some w'" "ia_cleanup_failed (authority w)"
    "ia_lease (authority w) = Some ''a''" "\<not> list_ex (is_quiet 1) (journal w)"
    by (auto split: option.splits)
  note closed = failed_cleanup_closes_authority [OF run_ops_steps [OF w(2)] w(3)]
  have "Quiet l 1 \<notin> set (journal w')" for l
    using closed [of l 1] w(5) by (auto simp: list_ex_iff split: if_splits)
  then have "\<not> list_ex (is_quiet 1) (journal w')"
    by (auto simp: list_ex_iff is_quiet_def split: input_entry.splits)
  with w closed show ?thesis by auto
qed

subsection \<open>A revocation can be acknowledged\<close>

text \<open>The sections that take the running thread \<open>j\<close> to the end of its run.\<close>

definition wind_up :: "nat \<Rightarrow> input_thread \<Rightarrow> (nat \<times> input_op) list" where
  "wind_up j t =
     (if in_run t = Leaving then [(j, Run_Releases)]
      else (if passed t = None then [] else [(j, Perform)]) @ [(j, Run_Body_Ends), (j, Run_Releases)])"

lemma wind_up_quiesces:
  assumes "input_inv w" and "in_run (threads w j) \<noteq> Out" and "waiting_on (threads w j) = None"
  shows "\<exists>w'. run_ops (wind_up j (threads w j)) w = Some w' \<and> \<not> ia_active (authority w') \<and>
    ia_cleanup_failed (authority w') = ia_cleanup_failed (authority w) \<and>
    (\<forall>i. i \<noteq> j \<longrightarrow> threads w' i = threads w i)"
  using assms input_invD(2) [OF assms(1), of j]
  by (cases "in_run (threads w j)"; cases "passed (threads w j)")
    (auto simp: wind_up_def thread_ready_def set_thread_def note_entry_def leave_run_def thread_ok_def)

text \<open>C11: A revocation that waits is never stuck: unless a cleanup has failed, or the running action
  itself waits for a revocation, a few sections of the running thread let the revocation be
  acknowledged, and it is acknowledged for the event it cancelled.\<close>
theorem revocation_can_be_acknowledged:
  assumes "input_reachable w" and "waiting_on (threads w i) = Some (l, e)"
    and "\<not> ia_cleanup_failed (authority w)"
    and "\<And>j. in_run (threads w j) \<noteq> Out \<Longrightarrow> waiting_on (threads w j) = None"
  shows "\<exists>ops w'. length ops \<le> 4 \<and> run_ops ops w = Some w' \<and> Quiet l e \<in> set (journal w') \<and>
    \<not> ia_revocation_pending (authority w')"
proof -
  have inv: "input_inv w" by (rule reachable_inv [OF assms(1)])
  have fin: "\<exists>v'. run_ops [(i, Revoke_Quiet None)] v = Some v' \<and> Quiet l e \<in> set (journal v') \<and>
      \<not> ia_revocation_pending (authority v')"
    if "threads v i = threads w i" "\<not> ia_active (authority v)" "\<not> ia_cleanup_failed (authority v)" for v
    using that assms(2) by (simp add: exec_quiet_def conclude_revoke_def Let_def note_entry_def set_thread_def)
  show ?thesis
  proof (cases "ia_active (authority w)")
    case False
    then show ?thesis using fin [of w] assms(3) by (intro exI [of _ "[(i, Revoke_Quiet None)]"]) auto
  next
    case True
    then obtain j n where "open_run (journal w) = Some (Some (j, n))"
      using journal_okD(5,6) [OF input_invD(3) [OF inv]] by auto
    then have j: "in_run (threads w j) \<noteq> Out" "i \<noteq> j"
      using input_invD(4) [OF inv, of j] journal_okD(7) [OF input_invD(3) [OF inv]] assms(2,4) by auto
    obtain w1 where w1: "run_ops (wind_up j (threads w j)) w = Some w1" "\<not> ia_active (authority w1)"
      "\<not> ia_cleanup_failed (authority w1)" "threads w1 i = threads w i"
      using wind_up_quiesces [OF inv j(1)] assms(3,4) j by metis
    then obtain w2 where "run_ops (wind_up j (threads w j) @ [(i, Revoke_Quiet None)]) w = Some w2"
      "Quiet l e \<in> set (journal w2)" "\<not> ia_revocation_pending (authority w2)"
      using fin [of w1] by (auto simp: run_ops_append)
    moreover have "length (wind_up j (threads w j) @ [(i, Revoke_Quiet None)]) \<le> 4"
      by (simp add: wind_up_def)
    ultimately show ?thesis by blast
  qed
qed

definition waiting_ops :: "(nat \<times> input_op) list" where
  "waiting_ops =
     [(0, Activate ''a''), (1, Run (Some ''a'')), (1, Dispatch), (2, Revoke (Some ''a'')),
      (2, Revoke_Timeout), (3, Revoke (Some ''a''))]"

lemma revocation_can_be_acknowledged_witness:
  "\<exists>w ops w'. run_ops waiting_ops new_input_world = Some w \<and> ia_active (authority w) \<and>
    length ops \<le> 4 \<and> run_ops ops w = Some w' \<and> Quiet (Some ''a'') 1 \<in> set (journal w')"
proof -
  have "case run_ops waiting_ops new_input_world of None \<Rightarrow> False | Some w \<Rightarrow>
      ia_active (authority w) \<and> waiting_on (threads w 3) = Some (Some ''a'', 1) \<and>
      \<not> ia_cleanup_failed (authority w) \<and> in_run (threads w 1) = Acting \<and> waiting_on (threads w 1) = None \<and>
      open_run (journal w) = Some (Some (1, 1))"
    by (simp add: waiting_ops_def input_run_simps)
  then obtain w where w: "run_ops waiting_ops new_input_world = Some w" "ia_active (authority w)"
    "waiting_on (threads w 3) = Some (Some ''a'', 1)" "\<not> ia_cleanup_failed (authority w)"
    "waiting_on (threads w 1) = None" "open_run (journal w) = Some (Some (1, 1))"
    by (auto split: option.splits)
  have r: "input_reachable w" by (rule run_ops_reachable [OF input_reachable.start w(1)])
  have "waiting_on (threads w j) = None" if "in_run (threads w j) \<noteq> Out" for j
    using open_run_of [OF reachable_inv [OF r] that] w(5,6) by simp
  from revocation_can_be_acknowledged [OF r w(3,4) this] w(1,2) show ?thesis by blast
qed

subsection \<open>Two revocations of one lease\<close>

definition late_revoker_ops :: "(nat \<times> input_op) list" where
  "late_revoker_ops =
     [(0, Activate ''a''), (1, Run (Some ''a'')), (2, Revoke (Some ''a'')), (3, Revoke (Some ''a'')),
      (1, Run_Body_Ends), (1, Run_Releases), (2, Revoke_Quiet (Some True)), (0, Activate ''b'')]"

text \<open>Two callers that wait to revoke the same lease are not serialised to the end. The first
  acknowledgement clears the pending flag, so a new lease can be granted while the second caller
  still waits; the second then runs its cleanup callback and acknowledges the old lease in the middle
  of the new one.\<close>
theorem late_revoker_acts_on_new_lease:
  "\<exists>w w'. input_reachable w \<and> ia_lease (authority w) = Some ''b'' \<and> \<not> cancelled_is_set (authority w) \<and>
    waiting_on (threads w 3) = Some (Some ''a'', 1) \<and>
    input_exec 3 (Revoke_Quiet (Some True)) w = Some w' \<and>
    journal w' = Quiet (Some ''a'') 1 # Granted ''b'' 2 # Quiet (Some ''a'') 1 #
      [Ended 1, Cancelled 1, Cancelled 1, Started 1 1, Granted ''a'' 1]"
proof -
  have "case run_ops late_revoker_ops new_input_world of None \<Rightarrow> False | Some w \<Rightarrow>
      ia_lease (authority w) = Some ''b'' \<and> \<not> cancelled_is_set (authority w) \<and>
      waiting_on (threads w 3) = Some (Some ''a'', 1) \<and>
      (case input_exec 3 (Revoke_Quiet (Some True)) w of None \<Rightarrow> False | Some w' \<Rightarrow>
        journal w' = Quiet (Some ''a'') 1 # Granted ''b'' 2 # Quiet (Some ''a'') 1 #
          [Ended 1, Cancelled 1, Cancelled 1, Started 1 1, Granted ''a'' 1])"
    by (simp add: late_revoker_ops_def input_run_simps)
  then show ?thesis
    by (auto split: option.splits dest: run_ops_reachable [OF input_reachable.start] simp del: input_exec.simps)
qed

end
