(* ===== verification/Work_Paths.thy ===== *)
theory Work_Paths
  imports Callback_State
begin

text \<open>
  The project behind the desktop's work plane: text as UTF-8, logical paths, the tree of files and
  links, and how \<^verbatim>\<open>work_plane_bridge.py\<close> and \<^verbatim>\<open>project_paths.py\<close>
  (\<^verbatim>\<open>src/wiii-desktop/src-tauri/src/neko/computer/image/\<close>) find files in it. A Python text is the list
  of its UTF-8 bytes, so that encoding is the identity and decoding a test; \<open>len\<close> counts the bytes
  that start a character. \<open>casefold\<close> and \<open>lower\<close> are those of ASCII.
\<close>

section \<open>UTF-8\<close>

text \<open>The ranges of the bytes that must follow a leading byte.\<close>

definition utf8_tail :: "nat \<Rightarrow> (nat \<times> nat) list option" where
  "utf8_tail b =
     (if b < 128 then Some []
      else if 194 \<le> b \<and> b \<le> 223 then Some [(128, 191)]
      else if b = 224 then Some [(160, 191), (128, 191)]
      else if b = 237 then Some [(128, 159), (128, 191)]
      else if 225 \<le> b \<and> b \<le> 239 then Some [(128, 191), (128, 191)]
      else if b = 240 then Some [(144, 191), (128, 191), (128, 191)]
      else if 241 \<le> b \<and> b \<le> 243 then Some [(128, 191), (128, 191), (128, 191)]
      else if b = 244 then Some [(128, 143), (128, 191), (128, 191)]
      else None)"

definition in_byte_range :: "char \<Rightarrow> nat \<times> nat \<Rightarrow> bool" where
  "in_byte_range c r \<longleftrightarrow> fst r \<le> code c \<and> code c \<le> snd r"

function utf8_valid :: "string \<Rightarrow> bool" where
  "utf8_valid [] = True"
| "utf8_valid (c # s) =
     (case utf8_tail (code c) of
        None \<Rightarrow> False
      | Some rs \<Rightarrow> list_all2 in_byte_range (take (length rs) s) rs \<and> utf8_valid (drop (length rs) s))"
  by pat_completeness auto
termination by (relation "measure length") auto

definition utf8_decode :: "string \<Rightarrow> string option" where
  "utf8_decode payload = (if utf8_valid payload then Some payload else None)"

definition text_length :: "string \<Rightarrow> nat" where
  "text_length s = length (filter (\<lambda>c. \<not> (128 \<le> code c \<and> code c \<le> 191)) s)"

lemma text_length_le: "text_length s \<le> length s"
  by (simp add: text_length_def)

lemma utf8_valid_ascii: "list_all (\<lambda>c. code c < 128) s \<Longrightarrow> utf8_valid s"
  by (induction s) (auto simp: utf8_tail_def)

lemma utf8_valid_append: "utf8_valid s \<Longrightarrow> utf8_valid (s @ t) = utf8_valid t"
proof (induction s rule: utf8_valid.induct)
  case (2 c s)
  then show ?case
  proof (cases "utf8_tail (code c)")
    case (Some rs)
    then have "length rs \<le> length s"
      using 2(2) by (auto dest!: list_all2_lengthD)
    with 2 Some show ?thesis by simp
  qed simp
qed simp

section \<open>Failures\<close>

text \<open>A \<open>BridgeError\<close> with its message, or any other exception (\<open>work_plane_failed\<close>).\<close>

datatype work_error = Bridge string | Work_Failed

definition try_work :: "work_error + 'a \<Rightarrow> ('a \<Rightarrow> work_error + 'b) \<Rightarrow> work_error + 'b" where
  "try_work r f = (case r of Inl e \<Rightarrow> Inl e | Inr x \<Rightarrow> f x)"

lemma try_work_simps [simp]:
  "try_work (Inl e) f = Inl e" "try_work (Inr x) f = f x"
  by (simp_all add: try_work_def)

lemma try_work_Inr: "try_work r f = Inr y \<longleftrightarrow> (\<exists>x. r = Inr x \<and> f x = Inr y)"
  by (cases r) auto

lemma try_work_split: "P (try_work r f) \<longleftrightarrow> (\<forall>e. r = Inl e \<longrightarrow> P (Inl e)) \<and> (\<forall>x. r = Inr x \<longrightarrow> P (f x))"
  by (cases r) auto

section \<open>Logical paths\<close>

definition slash :: char where "slash = CHR ''/''"

definition py_suffix :: "string \<Rightarrow> string" where
  "py_suffix name =
     (let e = takeWhile (\<lambda>c. c \<noteq> CHR ''.'') (rev name) in
      if e \<noteq> [] \<and> length e + 1 < length name then CHR ''.'' # rev e else [])"

definition protected_names :: "string list" where
  "protected_names =
     [''.git'', ''.ssh'', ''.aws'', ''.azure'', ''.gnupg'', ''.npmrc'', ''.pypirc'', ''.wiii-perf-secret'']"

definition protected_part :: "string \<Rightarrow> bool" where
  "protected_part part \<longleftrightarrow>
     py_lower part \<in> set protected_names \<or> py_startswith (py_lower part) ''.env'' \<or>
     py_lower (py_suffix part) \<in> {''.pem'', ''.key'', ''.p12'', ''.pfx''}"

definition protected_path :: "string list \<Rightarrow> bool" where
  "protected_path parts = list_ex protected_part parts"

text \<open>\<open>s.split('/')\<close> and the parts of a \<open>PurePosixPath\<close>, which drops empty and dot components.\<close>

fun split_slash :: "string \<Rightarrow> string list" where
  "split_slash [] = [[]]"
| "split_slash (c # s) =
     (case split_slash s of
        [] \<Rightarrow> [[]]
      | w # ws \<Rightarrow> if c = slash then [] # w # ws else (c # w) # ws)"

definition posix_parts :: "string \<Rightarrow> string list" where
  "posix_parts value = filter (\<lambda>p. p \<noteq> [] \<and> p \<noteq> ''.'') (split_slash value)"

definition as_posix :: "string list \<Rightarrow> string" where
  "as_posix parts = py_join [slash] parts"

definition unbackslash :: "string \<Rightarrow> string" where
  "unbackslash = replace_char backslash slash"

definition logical_path :: "string \<Rightarrow> work_error + string list" where
  "logical_path value =
     (if value = [] \<or> 240 < text_length value \<or> char_of (0::nat) \<in> set value
      then Inl (Bridge ''invalid_path: logical Project path is invalid'')
      else let path = unbackslash value; parts = posix_parts path in
      if py_startswith path [slash] \<or> list_ex (\<lambda>p. p \<in> {[], ''.'', ''..''}) parts
      then Inl (Bridge ''path_escape: path must stay inside the granted Project'')
      else if protected_path parts
      then Inl (Bridge ''protected_path: credential and repository metadata are not Work Plane resources'')
      else Inr parts)"

section \<open>The tree\<close>

text \<open>
  A file has its bytes, permission bits and modification time; a symbolic link its target. The
  members of a directory are kept by name.
\<close>

datatype node =
    File string nat nat
  | Link string
  | Dir "(string \<times> node) list"

fun find_node :: "string list \<Rightarrow> node \<Rightarrow> node option" where
  "find_node [] t = Some t"
| "find_node (p # ps) (Dir es) =
     (case map_of es p of None \<Rightarrow> None | Some t \<Rightarrow> find_node ps t)"
| "find_node (p # ps) t = None"

text \<open>\<open>os.replace\<close> of a file onto a path: the parent must be a directory, the target none.\<close>

fun put_node :: "string list \<Rightarrow> node \<Rightarrow> node \<Rightarrow> node option" where
  "put_node [] f t = None"
| "put_node (p # ps) f (Dir es) =
     (if ps = [] then
        (case map_of es p of
           Some (Dir _) \<Rightarrow> None
         | _ \<Rightarrow> Some (Dir (dict_set p f es)))
      else
        (case map_of es p of
           None \<Rightarrow> None
         | Some t \<Rightarrow> map_option (\<lambda>t'. Dir (dict_set p t' es)) (put_node ps f t)))"
| "put_node (p # ps) f t = None"

fun remove_node :: "string list \<Rightarrow> node \<Rightarrow> node option" where
  "remove_node [] t = None"
| "remove_node (p # ps) (Dir es) =
     (case map_of es p of
        None \<Rightarrow> None
      | Some t \<Rightarrow>
          if ps = [] then Some (Dir (dict_del p es))
          else map_option (\<lambda>t'. Dir (dict_set p t' es)) (remove_node ps t))"
| "remove_node (p # ps) t = None"

definition leaf_at :: "string list \<Rightarrow> node \<Rightarrow> node option" where
  "leaf_at ps t = (case find_node ps t of Some (Dir _) \<Rightarrow> None | r \<Rightarrow> r)"

definition is_file_at :: "string list \<Rightarrow> node \<Rightarrow> bool" where
  "is_file_at ps t \<longleftrightarrow> (case find_node ps t of Some (File _ _ _) \<Rightarrow> True | _ \<Rightarrow> False)"

definition is_link_at :: "string list \<Rightarrow> node \<Rightarrow> bool" where
  "is_link_at ps t \<longleftrightarrow> (case find_node ps t of Some (Link _) \<Rightarrow> True | _ \<Rightarrow> False)"

definition read_file :: "string list \<Rightarrow> node \<Rightarrow> work_error + string" where
  "read_file ps t = (case find_node ps t of Some (File b _ _) \<Rightarrow> Inr b | _ \<Rightarrow> Inl Work_Failed)"

text \<open>Some component of the path is a symbolic link.\<close>

fun crosses_link :: "string list \<Rightarrow> node \<Rightarrow> bool" where
  "crosses_link [] t = False"
| "crosses_link (p # ps) (Dir es) =
     (case map_of es p of
        None \<Rightarrow> False
      | Some (Link _) \<Rightarrow> True
      | Some t \<Rightarrow> crosses_link ps t)"
| "crosses_link (p # ps) t = False"

text \<open>
  The parent of the candidate is resolved strictly: a missing directory is a \<open>BridgeError\<close>, a path
  through a file is not caught, and a parent that is itself a file resolves.
\<close>

fun resolve_parent :: "string list \<Rightarrow> node \<Rightarrow> work_error + unit" where
  "resolve_parent [] t = Inr ()"
| "resolve_parent (p # ps) (Dir es) =
     (case map_of es p of
        None \<Rightarrow> Inl (Bridge ''parent_not_found: destination parent must already exist'')
      | Some t \<Rightarrow> resolve_parent ps t)"
| "resolve_parent (p # ps) t = Inl Work_Failed"

definition resolve_relative :: "node \<Rightarrow> string \<Rightarrow> bool \<Rightarrow> work_error + string list" where
  "resolve_relative t value must_exist =
     try_work (logical_path value) (\<lambda>parts.
       if crosses_link parts t
       then Inl (Bridge ''symlink_forbidden: Work Plane does not follow Project symlinks'')
       else if must_exist \<and> \<not> is_file_at parts t
       then Inl (Bridge ''resource_not_found: Project file does not exist'')
       else if parts = []
       then Inl (Bridge ''path_escape: path must stay inside the granted Project'')
       else try_work (resolve_parent (butlast parts) t) (\<lambda>_. Inr parts))"

section \<open>References\<close>

definition file_ref_prefix :: string where "file_ref_prefix = ''work:file:''"

definition encode_ref :: "string \<Rightarrow> string" where
  "encode_ref relative = file_ref_prefix @ b64encode relative"

definition decode_ref :: "string \<Rightarrow> work_error + string" where
  "decode_ref resource_ref =
     (if \<not> py_startswith resource_ref file_ref_prefix
      then Inl (Bridge ''invalid_resource_ref: expected a Project file resource'')
      else let token = drop (length file_ref_prefix) resource_ref in
      if token = [] \<or> 500 < length token \<or> \<not> list_all (\<lambda>c. char_sextet c \<noteq> None) token
      then Inl (Bridge ''invalid_resource_ref: malformed file identity'')
      else case b64decode (\<lambda>_. None) token of
             Some relative \<Rightarrow>
               if utf8_valid relative then Inr relative
               else Inl (Bridge ''invalid_resource_ref: malformed file identity'')
           | None \<Rightarrow> Inl (Bridge ''invalid_resource_ref: malformed file identity''))"

definition path_from_ref :: "node \<Rightarrow> string \<Rightarrow> work_error + string list" where
  "path_from_ref t resource_ref =
     try_work (decode_ref resource_ref) (\<lambda>relative. resolve_relative t relative True)"

section \<open>Listing\<close>

definition max_files :: nat where "max_files = 10000"

text \<open>
  \<open>os.walk\<close> without following links, pruned at protected names: first the files of a directory by
  name, then its directories.
\<close>

function walk_tree :: "string list \<Rightarrow> node \<Rightarrow> string list list" where
  "walk_tree here (Dir es) =
     (let members = sort_key fst es in
      map (\<lambda>e. here @ [fst e])
        (filter (\<lambda>e. (case snd e of File _ _ _ \<Rightarrow> True | _ \<Rightarrow> False) \<and> \<not> protected_path (here @ [fst e])) members) @
      concat (map (\<lambda>e. case snd e of
          Dir _ \<Rightarrow> if protected_path (here @ [fst e]) then [] else walk_tree (here @ [fst e]) (snd e)
        | _ \<Rightarrow> []) members))"
| "walk_tree here (File b m n) = []"
| "walk_tree here (Link l) = []"
  by pat_completeness auto
termination
proof (relation "measure (\<lambda>(_, t). size t)", simp, goal_cases)
  case (1 here es members e ds)
  then have "e \<in> set es" by simp
  then have "size (snd e) < Suc (size_list (size_prod (\<lambda>_. 0) size) es)"
    by (induction es) auto
  then show ?case by simp
qed

definition list_files :: "node \<Rightarrow> work_error + string list list" where
  "list_files t =
     (let paths = walk_tree [] t in
      if max_files < length paths
      then Inl (Bridge ''project_too_large: Work Plane supports at most 10000 files'')
      else Inr (sort_key (\<lambda>p. py_lower (as_posix p)) paths))"

section \<open>Revisions\<close>

type_synonym digest = "string \<Rightarrow> string"

definition revision_prefix :: string where "revision_prefix = ''sha256:''"

definition sha256_bytes :: "digest \<Rightarrow> string \<Rightarrow> string" where
  "sha256_bytes sha v = revision_prefix @ sha v"

definition file_revision :: "digest \<Rightarrow> string list \<Rightarrow> node \<Rightarrow> work_error + string" where
  "file_revision sha ps t = try_work (read_file ps t) (\<lambda>b. Inr (revision_prefix @ sha b))"

definition revision_line :: "string list \<Rightarrow> node \<Rightarrow> work_error + string" where
  "revision_line ps t =
     (case find_node ps t of
        Some (File b _ mtime) \<Rightarrow>
          if utf8_valid (as_posix ps)
          then Inr (''file'' @ [char_of (0::nat)] @ as_posix ps @ [char_of (0::nat)] @ nat_digits (length b)
             @ [char_of (0::nat)] @ nat_digits mtime @ [char_of (10::nat)])
          else Inl Work_Failed
      | _ \<Rightarrow> Inl Work_Failed)"

fun collect_work :: "('a \<Rightarrow> work_error + 'b) \<Rightarrow> 'a list \<Rightarrow> work_error + 'b list" where
  "collect_work f [] = Inr []"
| "collect_work f (x # xs) = try_work (f x) (\<lambda>y. try_work (collect_work f xs) (\<lambda>ys. Inr (y # ys)))"

definition directory_revision :: "digest \<Rightarrow> node \<Rightarrow> work_error + string" where
  "directory_revision sha t =
     try_work (list_files t) (\<lambda>paths.
       try_work (collect_work (\<lambda>p. revision_line p t) paths) (\<lambda>ls.
         Inr (revision_prefix @ sha (concat ls))))"

section \<open>Facts about the tree\<close>

fun wf_tree :: "node \<Rightarrow> bool" where
  "wf_tree (Dir es) \<longleftrightarrow> distinct (map fst es) \<and>
     list_all (\<lambda>e. fst e \<notin> {[], ''.'', ''..''} \<and> slash \<notin> set (fst e) \<and> char_of (0::nat) \<notin> set (fst e) \<and> wf_tree (snd e)) es"
| "wf_tree t = True"

lemma find_node_append: "find_node (ps @ qs) t = (case find_node ps t of None \<Rightarrow> None | Some u \<Rightarrow> find_node qs u)"
  by (induction ps t rule: find_node.induct) (auto split: option.splits)

lemma find_node_leaf: "find_node (p # ps) (File b m n) = None" "find_node (p # ps) (Link l) = None"
  by simp_all

lemma put_node_find: "put_node ps f t = Some t' \<Longrightarrow> find_node ps t' = Some f"
  by (induction ps f t arbitrary: t' rule: put_node.induct) (auto split: if_splits option.splits node.splits)

lemma put_node_leaf:
  assumes "put_node ps f t = Some t'" and "f = File b m n"
  shows "leaf_at qs t' = (if qs = ps then Some f else leaf_at qs t)"
  using assms
proof (induction ps f t arbitrary: t' qs rule: put_node.induct)
  case (2 p ps f es)
  show ?case
  proof (cases "ps = []")
    case True
    then have t': "t' = Dir (dict_set p f es)" and d: "\<And>ds. map_of es p \<noteq> Some (Dir ds)"
      using 2(2) by (auto split: option.splits node.splits)
    show ?thesis
    proof (cases qs)
      case (Cons q qs')
      have "qs' \<noteq> [] \<Longrightarrow> find_node qs' f = None"
        using 2(3) by (cases qs') simp_all
      moreover have "qs' \<noteq> [] \<Longrightarrow> map_of es p = Some u \<Longrightarrow> find_node qs' u = None" for u
        using d by (cases u; cases qs') auto
      ultimately show ?thesis
        using True t' Cons 2(3) by (auto simp: leaf_at_def split: option.splits)
    qed (use t' True in \<open>simp add: leaf_at_def\<close>)
  next
    case False
    then obtain u u' where u: "map_of es p = Some u" "put_node ps f u = Some u'" "t' = Dir (dict_set p u' es)"
      using 2(2) by (auto split: option.splits)
    show ?thesis
    proof (cases qs)
      case (Cons q qs')
      show ?thesis
        using 2(1) [OF False u(1,2) 2(3), of qs'] u Cons by (auto simp: leaf_at_def)
    qed (use u False in \<open>simp add: leaf_at_def\<close>)
  qed
qed simp_all

lemma remove_node_leaf:
  assumes "remove_node ps t = Some t'"
  shows "leaf_at qs t' = (if prefix ps qs then None else leaf_at qs t)"
  using assms
proof (induction ps t arbitrary: t' qs rule: remove_node.induct)
  case (2 p ps es)
  show ?case
  proof (cases "ps = []")
    case True
    then have t': "t' = Dir (dict_del p es)" using 2(2) by (auto split: option.splits)
    show ?thesis
      by (cases qs) (auto simp: True t' leaf_at_def delete_conv' split: option.splits)
  next
    case False
    then obtain u u' where u: "map_of es p = Some u" "remove_node ps u = Some u'" "t' = Dir (dict_set p u' es)"
      using 2(2) by (auto split: option.splits)
    show ?thesis
    proof (cases qs)
      case (Cons q qs')
      show ?thesis using 2(1) [OF u(1) False u(2), of qs'] u Cons by (auto simp: leaf_at_def)
    qed (use u False in \<open>simp add: leaf_at_def\<close>)
  qed
qed simp_all

lemma read_file_leaf: "read_file ps t = Inr b \<longleftrightarrow> (\<exists>m n. leaf_at ps t = Some (File b m n))"
  by (auto simp: read_file_def leaf_at_def split: option.splits node.splits)

lemma read_file_cong: "leaf_at ps t = leaf_at ps u \<Longrightarrow> read_file ps t = read_file ps u"
  by (auto simp: read_file_def leaf_at_def split: option.splits node.splits)

section \<open>Facts about listing and resolving\<close>

lemma wf_tree_member:
  "wf_tree (Dir es) \<Longrightarrow> map_of es p = Some t \<Longrightarrow>
     p \<noteq> [] \<and> p \<noteq> ''.'' \<and> p \<noteq> ''..'' \<and> slash \<notin> set p \<and> char_of (0::nat) \<notin> set p \<and> wf_tree t"
  by (auto simp: list_all_iff dest!: map_of_SomeD)

lemma wf_tree_path:
  "wf_tree t \<Longrightarrow> find_node ps t \<noteq> None \<Longrightarrow>
     list_all (\<lambda>p. p \<noteq> [] \<and> p \<noteq> ''.'' \<and> p \<noteq> ''..'' \<and> slash \<notin> set p \<and> char_of (0::nat) \<notin> set p) ps"
proof (induction ps t rule: find_node.induct)
  case (2 p ps es)
  then obtain u where u: "map_of es p = Some u" "find_node ps u \<noteq> None" by (auto split: option.splits)
  with wf_tree_member [OF 2(2) u(1)] 2(1) [OF u(1)] show ?case by simp
qed simp_all

lemma protected_path_append [simp]: "protected_path (a @ b) \<longleftrightarrow> protected_path a \<or> protected_path b"
  by (auto simp: protected_path_def)

lemma protected_path_Nil [simp]: "\<not> protected_path []"
  by (simp add: protected_path_def)

lemma protected_path_Cons: "protected_path (p # ps) \<longleftrightarrow> protected_part p \<or> protected_path ps"
  by (simp add: protected_path_def)

lemma is_file_at_leaf: "is_file_at q (File b m k) \<longleftrightarrow> q = []" "\<not> is_file_at q (Link l)"
  by (cases q; simp add: is_file_at_def)+

text \<open>The walk finds exactly the files whose path has no protected component.\<close>

lemma walk_tree_iff:
  assumes "wf_tree t" and "\<not> protected_path here" and "\<And>b m n. t \<noteq> File b m n"
  shows "p \<in> set (walk_tree here t) \<longleftrightarrow>
    (\<exists>q. p = here @ q \<and> is_file_at q t \<and> \<not> protected_path q)"
  using assms
proof (induction here t arbitrary: p rule: walk_tree.induct)
  case (1 here es)
  have uniq: "(n, u) \<in> set es \<Longrightarrow> map_of es n = Some u" for n u
    using 1(2) by (simp add: map_of_eq_Some_iff)
  have sub: "p \<in> set (walk_tree (here @ [n]) (Dir ds)) \<longleftrightarrow>
      (\<exists>q. p = (here @ [n]) @ q \<and> is_file_at q (Dir ds) \<and> \<not> protected_path q)"
    if "(n, Dir ds) \<in> set es" "\<not> protected_path [n]" for n ds p
    using that 1(1) [OF refl, of "(n, Dir ds)" ds p] 1(2,3) by (auto simp: list_all_iff)
  have split: "(\<exists>q. p = here @ q \<and> is_file_at q (Dir es) \<and> \<not> protected_path q) \<longleftrightarrow>
      (\<exists>n u q. (n, u) \<in> set es \<and> p = here @ n # q \<and> is_file_at q u \<and> \<not> protected_path (n # q))"
    (is "?l \<longleftrightarrow> ?r")
  proof
    assume ?l
    then obtain q where q: "p = here @ q" "is_file_at q (Dir es)" "\<not> protected_path q" by blast
    then obtain n q' where "q = n # q'" by (cases q) (auto simp: is_file_at_def)
    moreover from this q(2) obtain u where "map_of es n = Some u" "is_file_at q' u"
      by (auto simp: is_file_at_def split: option.splits)
    ultimately show ?r using q map_of_SomeD by fast
  next
    assume ?r
    then show ?l using uniq by (fastforce simp: is_file_at_def)
  qed
  have "p \<in> set (walk_tree here (Dir es)) \<longleftrightarrow>
      (\<exists>n u. (n, u) \<in> set es \<and> \<not> protected_part n \<and>
        (case u of File _ _ _ \<Rightarrow> p = here @ [n] | Link _ \<Rightarrow> False
         | Dir ds \<Rightarrow> p \<in> set (walk_tree (here @ [n]) (Dir ds))))"
  proof -
    let ?A = "\<lambda>e. (case snd e of File _ _ _ \<Rightarrow> True | _ \<Rightarrow> False) \<and> \<not> protected_path (here @ [fst e]) \<and> p = here @ [fst e]"
    let ?B = "\<lambda>e. p \<in> set (case snd e of
          Dir _ \<Rightarrow> if protected_path (here @ [fst e]) then [] else walk_tree (here @ [fst e]) (snd e)
        | _ \<Rightarrow> [])"
    let ?C = "\<lambda>n u. \<not> protected_part n \<and> (case u of File _ _ _ \<Rightarrow> p = here @ [n] | Link _ \<Rightarrow> False
         | Dir ds \<Rightarrow> p \<in> set (walk_tree (here @ [n]) (Dir ds)))"
    have "p \<in> set (walk_tree here (Dir es)) \<longleftrightarrow> (\<exists>e\<in>set es. ?A e) \<or> (\<exists>e\<in>set es. ?B e)"
      by (simp add: Let_def) blast
    also have "\<dots> \<longleftrightarrow> (\<exists>e\<in>set es. ?C (fst e) (snd e))"
    proof -
      have "?A e \<or> ?B e \<longleftrightarrow> ?C (fst e) (snd e)" for e
        using 1(3) by (cases "snd e") (simp_all add: protected_path_Cons)
      then show ?thesis by blast
    qed
    finally show ?thesis by (simp only: Bex_def split_paired_Ex fst_conv snd_conv)
  qed
  also have "\<dots> \<longleftrightarrow> (\<exists>n u q. (n, u) \<in> set es \<and> p = here @ n # q \<and> is_file_at q u \<and> \<not> protected_path (n # q))"
  proof -
    have "(\<not> protected_part n \<and> (case u of File _ _ _ \<Rightarrow> p = here @ [n] | Link _ \<Rightarrow> False
         | Dir ds \<Rightarrow> p \<in> set (walk_tree (here @ [n]) (Dir ds)))) \<longleftrightarrow>
        (\<exists>q. p = here @ n # q \<and> is_file_at q u \<and> \<not> protected_path (n # q))"
      if "(n, u) \<in> set es" for n u
    proof (cases u)
      case (Dir ds)
      show ?thesis
      proof (cases "protected_part n")
        case False
        then show ?thesis
          using sub [of n ds p] that Dir by (simp add: protected_path_Cons)
      qed (simp add: protected_path_Cons)
    qed (auto simp: is_file_at_leaf protected_path_Cons)
    then show ?thesis by blast
  qed
  finally show ?case unfolding split .
qed (blast, simp add: is_file_at_leaf)

lemma replace_char_id: "a \<notin> set s \<Longrightarrow> replace_char a b s = s"
  by (induction s) (auto simp: replace_char_def)

lemma split_slash_ne [simp]: "split_slash s \<noteq> []"
  by (induction s) (auto split: list.splits)

lemma split_slash_sep: "split_slash (slash # s) = [] # split_slash s"
  by (simp split: list.splits)

lemma split_slash_word: "slash \<notin> set w \<Longrightarrow> split_slash (w @ slash # s) = w # split_slash s"
  by (induction w) (auto simp: split_slash_sep simp del: split_slash.simps(2) simp: split_slash.simps(2) [of c "w @ z" for c w z])

lemma split_slash_single: "slash \<notin> set w \<Longrightarrow> split_slash w = [w]"
  by (induction w) auto

lemma split_as_posix:
  "ps \<noteq> [] \<Longrightarrow> list_all (\<lambda>p. slash \<notin> set p) ps \<Longrightarrow> split_slash (as_posix ps) = ps"
  unfolding as_posix_def
  by (induction "[slash]" ps rule: py_join.induct) (auto simp: split_slash_single split_slash_word)

lemma posix_parts_as_posix:
  "list_all (\<lambda>p. p \<noteq> [] \<and> p \<noteq> ''.'' \<and> slash \<notin> set p) ps \<Longrightarrow> ps \<noteq> [] \<Longrightarrow> posix_parts (as_posix ps) = ps"
  by (simp add: posix_parts_def split_as_posix list_all_iff filter_id_conv)

lemma split_slash_parts: "p \<in> set (split_slash s) \<Longrightarrow> slash \<notin> set p"
  by (induction s arbitrary: p) (fastforce split: list.splits if_splits)+

lemma logical_path_parts:
  assumes "logical_path v = Inr ps"
  shows "\<not> protected_path ps"
    and "list_all (\<lambda>p. p \<noteq> [] \<and> p \<noteq> ''.'' \<and> p \<noteq> ''..'' \<and> slash \<notin> set p) ps"
  using assms
  by (auto simp: logical_path_def Let_def posix_parts_def list_ex_iff list_all_iff split_slash_parts split: if_splits)

lemma resolve_relative_parts:
  assumes "resolve_relative t v must_exist = Inr ps"
  shows "logical_path v = Inr ps" and "ps \<noteq> []" and "\<not> crosses_link ps t"
    and "must_exist \<Longrightarrow> is_file_at ps t" and "resolve_parent (butlast ps) t = Inr ()"
  using assms by (auto simp: resolve_relative_def try_work_Inr split: if_splits)

lemma b64encode_alphabet: "list_all (\<lambda>c. char_sextet c \<noteq> None) (b64encode s)"
  using to_sextets_bound [of "map code s"] by (auto simp: b64encode_def list_all_iff code_bound sextet_round(1))

lemma length_to_sextets: "length (to_sextets bs) = (4 * length bs + 2) div 3"
  by (induction bs rule: to_sextets.induct) (auto simp: div_if)

lemma length_b64encode: "length (b64encode s) = (4 * length s + 2) div 3"
  by (simp add: b64encode_def length_to_sextets)

lemma encode_decode_ref:
  assumes "utf8_valid s" and "s \<noteq> []" and "length s \<le> 375"
  shows "decode_ref (encode_ref s) = Inr s"
proof -
  have "b64encode s \<noteq> []" using assms(2) length_b64encode [of s] by (cases s) auto
  moreover have "length (b64encode s) \<le> 500" using assms(3) by (simp add: length_b64encode)
  ultimately show ?thesis
    using assms(1) b64encode_alphabet [of s]
    by (simp add: decode_ref_def encode_ref_def py_startswith_def)
qed

lemma list_files_iff:
  assumes "wf_tree (Dir es)" and "list_files (Dir es) = Inr ps"
  shows "p \<in> set ps \<longleftrightarrow> is_file_at p (Dir es) \<and> \<not> protected_path p"
proof -
  have "set ps = set (walk_tree [] (Dir es))"
    using assms(2) by (auto simp del: walk_tree.simps simp: list_files_def Let_def split: if_splits)
  then show ?thesis using walk_tree_iff [OF assms(1), of "[]" p] by simp
qed

lemma is_file_at_Cons:
  "is_file_at (p # ps) (Dir es) \<longleftrightarrow> (\<exists>u. map_of es p = Some u \<and> is_file_at ps u)"
  by (auto simp: is_file_at_def split: option.splits)

lemma is_link_at_Cons:
  "is_link_at (p # ps) (Dir es) \<longleftrightarrow> (\<exists>u. map_of es p = Some u \<and> is_link_at ps u)"
  by (auto simp: is_link_at_def split: option.splits)

lemma no_link_on_path:
  "\<not> crosses_link ps t \<Longrightarrow> prefix qs ps \<Longrightarrow> qs \<noteq> [] \<Longrightarrow> \<not> is_link_at qs t"
proof (induction ps t arbitrary: qs rule: find_node.induct)
  case (2 p ps es)
  then obtain qs' where qs: "qs = p # qs'" "prefix qs' ps" by (cases qs) auto
  have "\<not> is_link_at qs' u" if u: "map_of es p = Some u" for u
  proof (cases "qs' = []")
    case True
    then show ?thesis using 2(2) u by (cases u) (auto simp: is_link_at_def)
  next
    case False
    have "\<not> crosses_link ps u" using 2(2) u by (cases u; cases ps) auto
    from 2(1) [OF u this qs(2) False] show ?thesis .
  qed
  then show ?case by (auto simp: qs(1) is_link_at_Cons)
qed (auto simp: is_link_at_def prefix_Cons)

lemma is_file_no_link: "is_file_at ps t \<Longrightarrow> \<not> crosses_link ps t"
proof (induction ps t rule: find_node.induct)
  case (2 p ps es)
  then obtain u where u: "map_of es p = Some u" "is_file_at ps u" by (auto simp: is_file_at_Cons)
  with 2(1) show ?case by (cases u) (auto simp: is_file_at_leaf)
qed auto

lemma is_file_parent: "is_file_at ps t \<Longrightarrow> resolve_parent (butlast ps) t = Inr ()"
proof (induction ps t rule: find_node.induct)
  case (2 p ps es)
  then obtain u where u: "map_of es p = Some u" "is_file_at ps u" by (auto simp: is_file_at_Cons)
  with 2(1) show ?case by simp
qed (auto simp: is_file_at_leaf)

lemma set_py_join: "c \<in> set (py_join sep ps) \<Longrightarrow> c \<in> set sep \<or> (\<exists>p\<in>set ps. c \<in> set p)"
  by (induction sep ps rule: py_join.induct) auto

lemma as_posix_head: "p \<noteq> [] \<Longrightarrow> as_posix (p # ps) = hd p # tl p @ (if ps = [] then [] else slash # as_posix ps)"
  by (cases p; cases ps) (simp_all add: as_posix_def)

text \<open>C37: The reference of a listed file leads back to that file, for names without a backslash and within
  the limits the decoder sets: a token of 500 characters, a path of 240 characters.\<close>
theorem ref_of_listed_file:
  assumes "wf_tree (Dir es)" and "list_files (Dir es) = Inr ps" and "p \<in> set ps"
    and "utf8_valid (as_posix p)" and "length (as_posix p) \<le> 375" and "text_length (as_posix p) \<le> 240"
    and "backslash \<notin> set (as_posix p)"
  shows "path_from_ref (Dir es) (encode_ref (as_posix p)) = Inr p"
proof -
  have p: "is_file_at p (Dir es)" "\<not> protected_path p"
    using list_files_iff [OF assms(1,2)] assms(3) by auto
  then have ne: "p \<noteq> []" by (auto simp: is_file_at_def)
  have "find_node p (Dir es) \<noteq> None" using p(1) by (auto simp: is_file_at_def split: option.splits)
  note ok = wf_tree_path [OF assms(1) this]
  obtain q qs where q: "p = q # qs" "q \<noteq> []" "slash \<notin> set q" using ok ne by (cases p) auto
  have "as_posix p \<noteq> []" using q by (simp add: as_posix_head)
  moreover have "char_of (0::nat) \<notin> set (as_posix p)"
    using ok set_py_join [of _ "[slash]" p] by (fastforce simp: as_posix_def list_all_iff slash_def char_of_def)
  moreover have "\<not> py_startswith (as_posix p) [slash]"
    using q by (cases q) (auto simp: as_posix_head py_startswith_def)
  moreover have parts: "posix_parts (as_posix p) = p"
    using ok ne by (intro posix_parts_as_posix) (auto simp: list_all_iff)
  moreover have "\<not> list_ex (\<lambda>p. p \<in> {[], ''.'', ''..''}) p"
    using ok by (auto simp: list_ex_iff list_all_iff)
  ultimately have "logical_path (as_posix p) = Inr p"
    using assms(6,7) p(2) unfolding logical_path_def
    by (simp add: Let_def unbackslash_def replace_char_id del: list_ex_iff)
  then have "resolve_relative (Dir es) (as_posix p) True = Inr p"
    using is_file_no_link [OF p(1)] is_file_parent [OF p(1)] p(1) ne by (simp add: resolve_relative_def)
  then show ?thesis
    using encode_decode_ref [OF assms(4) \<open>as_posix p \<noteq> []\<close> assms(5)] by (simp add: path_from_ref_def)
qed

end
