(* ===== verification/Work_Plane.thy ===== *)
theory Work_Plane
  imports Work_Paths
begin

text \<open>
  The file operations of the work plane (\<^verbatim>\<open>work_plane_bridge.py\<close>): the bounded readers of a request,
  resources, the two queries, and create, patch and rename with their optimistic revisions. SHA-256
  and the media type table are functions of \<open>work_env\<close>. Other programs share the project:
  \<open>between k\<close> is what they do to the tree between two phases of an operation, where a phase reads one
  state of the tree (they may add, rewrite and remove files; replacing a directory on the path by a
  link in the middle of an operation is outside the model). The temporary file of an atomic write is not part of the tree.
\<close>

section \<open>Requests\<close>

type_synonym work_request = "(string, pyval) dict"

definition work_protocol_version :: string where "work_protocol_version = ''wiii-work-plane.preview.v1''"
definition project_ref :: string where "project_ref = ''work:project''"
definition max_file_bytes :: nat where "max_file_bytes = 128 * 1024"
definition max_query_bytes :: nat where "max_query_bytes = 64 * 1024"
definition max_cells :: nat where "max_cells = 512"
definition spreadsheet_extensions :: "string list" where
  "spreadsheet_extensions = [''.ods'', ''.xlsx'', ''.xls'']"

definition bounded_integer :: "pyval \<Rightarrow> int \<Rightarrow> int \<Rightarrow> string \<Rightarrow> work_error + int" where
  "bounded_integer v lo hi label =
     (case v of
        PInt i \<Rightarrow> if lo \<le> i \<and> i \<le> hi then Inr i
          else Inl (Bridge (''invalid_'' @ label @ '': expected integer between '' @ int_text lo @ '' and '' @ int_text hi))
      | _ \<Rightarrow> Inl (Bridge (''invalid_'' @ label @ '': expected integer between '' @ int_text lo @ '' and '' @ int_text hi)))"

definition required_string :: "work_request \<Rightarrow> string \<Rightarrow> nat \<Rightarrow> work_error + string" where
  "required_string d key maximum =
     (case dict_get d key of
        Some (PStr s) \<Rightarrow> if s = [] \<or> maximum < text_length s
          then Inl (Bridge (''invalid_'' @ key @ '': expected non-empty bounded string'')) else Inr s
      | _ \<Rightarrow> Inl (Bridge (''invalid_'' @ key @ '': expected non-empty bounded string'')))"

definition bounded_string :: "work_request \<Rightarrow> string \<Rightarrow> nat \<Rightarrow> work_error + string" where
  "bounded_string d key maximum_bytes =
     (case dict_get d key of
        Some (PStr s) \<Rightarrow> if maximum_bytes < length s
          then Inl (Bridge (''invalid_'' @ key @ '': expected bounded UTF-8 text'')) else Inr s
      | _ \<Rightarrow> Inl (Bridge (''invalid_'' @ key @ '': expected bounded UTF-8 text'')))"

definition require_object :: "pyval option \<Rightarrow> string \<Rightarrow> work_error + work_request" where
  "require_object v label =
     (case v of Some (PDict d) \<Rightarrow> Inr d | _ \<Rightarrow> Inl (Bridge (''invalid_'' @ label @ '': expected object'')))"

definition get_or :: "work_request \<Rightarrow> string \<Rightarrow> pyval \<Rightarrow> pyval" where
  "get_or d key v = (case dict_get d key of None \<Rightarrow> v | Some u \<Rightarrow> u)"

section \<open>Resources\<close>

record work_env =
  we_sha :: digest
  we_media :: "string \<Rightarrow> string option"
  we_spreadsheets :: bool

record work_resource =
  wr_ref :: string
  wr_type :: string
  wr_name :: string
  wr_parent :: "string option"
  wr_revision :: string
  wr_media :: "string option"
  wr_capabilities :: "string list"
  wr_location :: "(string \<times> nat) option"

definition file_name :: "string list \<Rightarrow> string" where
  "file_name ps = (if ps = [] then [] else List.last ps)"

definition resource_type :: "string list \<Rightarrow> string" where
  "resource_type ps =
     (if py_lower (py_suffix (file_name ps)) \<in> set spreadsheet_extensions
      then ''spreadsheet.workbook'' else ''project.file'')"

definition spreadsheet_capabilities :: "string list" where
  "spreadsheet_capabilities =
     [''spreadsheet.range.set'', ''spreadsheet.range.format'', ''spreadsheet.range.merge'',
      ''spreadsheet.table.upsert'', ''spreadsheet.conditional_format.upsert'', ''spreadsheet.pivot.upsert'',
      ''spreadsheet.chart.upsert'', ''spreadsheet.sheet.layout'', ''spreadsheet.batch'', ''spreadsheet.export'']"

definition resource_capabilities :: "work_env \<Rightarrow> string list \<Rightarrow> string list" where
  "resource_capabilities env ps =
     (if resource_type ps = ''spreadsheet.workbook''
      then ''project.file.rename'' # (if we_spreadsheets env then spreadsheet_capabilities else [])
      else [''project.file.patch_text'', ''project.file.rename''])"

definition file_resource :: "work_env \<Rightarrow> node \<Rightarrow> string list \<Rightarrow> work_error + work_resource" where
  "file_resource env t ps =
     (let relative = as_posix ps in
      if \<not> utf8_valid relative then Inl Work_Failed
      else try_work (read_file ps t) (\<lambda>b.
        Inr \<lparr>wr_ref = encode_ref relative, wr_type = resource_type ps, wr_name = file_name ps,
             wr_parent = Some project_ref, wr_revision = revision_prefix @ we_sha env b,
             wr_media = Some (case we_media env (file_name ps) of
               None \<Rightarrow> ''application/octet-stream'' | Some m \<Rightarrow> m),
             wr_capabilities = resource_capabilities env ps,
             wr_location = Some (relative, length b)\<rparr>))"

definition root_resource :: "work_env \<Rightarrow> node \<Rightarrow> work_error + work_resource" where
  "root_resource env t =
     try_work (directory_revision (we_sha env) t) (\<lambda>revision.
       Inr \<lparr>wr_ref = project_ref, wr_type = ''project.root'', wr_name = ''Project'', wr_parent = None,
            wr_revision = revision, wr_media = None,
            wr_capabilities = ''project.file.create'' #
              (if we_spreadsheets env then [''spreadsheet.workbook.create''] else []),
            wr_location = None\<rparr>)"

section \<open>Queries\<close>

record work_page =
  wp_resource :: work_resource
  wp_items :: "work_resource list"
  wp_total :: nat
  wp_truncated :: bool
  wp_next :: "nat option"

definition query_children :: "work_env \<Rightarrow> work_request \<Rightarrow> node \<Rightarrow> work_error + work_page" where
  "query_children env request t =
     (if dict_get request ''resourceRef'' \<noteq> Some (PStr project_ref)
      then Inl (Bridge ''invalid_view: children requires the Project root'')
      else try_work (bounded_integer (get_or request ''offset'' (PInt 0)) 0 10000000 ''offset'') (\<lambda>offset.
        try_work (bounded_integer (get_or request ''maxItems'' (PInt 100)) 1 200 ''maxItems'') (\<lambda>limit.
        try_work (list_files t) (\<lambda>paths.
          let selected = take (nat limit) (drop (nat offset) paths);
              stop = nat offset + length selected;
              next_offset = (if stop < length paths then Some stop else None) in
          try_work (root_resource env t) (\<lambda>root.
          try_work (collect_work (file_resource env t) selected) (\<lambda>items.
            Inr \<lparr>wp_resource = root, wp_items = items, wp_total = length paths,
                 wp_truncated = (next_offset \<noteq> None), wp_next = next_offset\<rparr>))))))"

record work_content =
  wc_resource :: work_resource
  wc_offset :: nat
  wc_encoding :: string
  wc_text :: "string option"
  wc_base64 :: "string option"
  wc_truncated :: bool
  wc_next :: "nat option"

text \<open>Padded base64 of the standard alphabet.\<close>

definition std_b64encode :: "string \<Rightarrow> string" where
  "std_b64encode payload =
     (let body = map (\<lambda>c. if c = CHR ''-'' then CHR ''+'' else if c = CHR ''_'' then slash else c) (b64encode payload)
      in body @ replicate ((4 - length body mod 4) mod 4) CHR ''='')"

text \<open>The slice of the bytes read, as text when it is UTF-8 on its own.\<close>

definition content_page :: "work_resource \<Rightarrow> nat \<Rightarrow> nat \<Rightarrow> string \<Rightarrow> work_content" where
  "content_page resource offset limit source =
     (let window = take (limit + 1) (drop offset source);
          truncated = limit < length window;
          payload = take limit window;
          decoded = utf8_decode payload in
      \<lparr>wc_resource = resource, wc_offset = offset,
       wc_encoding = (if decoded = None then ''base64'' else ''utf-8''),
       wc_text = decoded,
       wc_base64 = (if decoded = None then Some (std_b64encode payload) else None),
       wc_truncated = truncated,
       wc_next = (if truncated then Some (offset + length payload) else None)\<rparr>)"

text \<open>\<open>reads k\<close> is the tree at the \<open>k\<close>-th access: finding the file and its revision, reading, checking
  the revision again.\<close>

definition query_content :: "work_env \<Rightarrow> work_request \<Rightarrow> (nat \<Rightarrow> node) \<Rightarrow> work_error + work_content" where
  "query_content env request reads =
     try_work (required_string request ''resourceRef'' 512) (\<lambda>ref.
     try_work (path_from_ref (reads 0) ref) (\<lambda>path.
       if resource_type path = ''spreadsheet.workbook''
       then Inl (Bridge ''unsupported_view: use spreadsheet view for workbook resources'')
       else
         try_work (bounded_integer (get_or request ''offset'' (PInt 0)) 0 10000000 ''offset'') (\<lambda>offset.
         try_work (bounded_integer (get_or request ''maxBytes'' (PInt (int max_query_bytes))) 1 (int max_query_bytes) ''maxBytes'') (\<lambda>limit.
         try_work (file_resource env (reads 0) path) (\<lambda>resource.
         try_work (read_file path (reads 1)) (\<lambda>source.
         try_work (file_revision (we_sha env) path (reads 2)) (\<lambda>now_revision.
           if now_revision \<noteq> wr_revision resource
           then Inl (Bridge ''source_changed: file changed during read; query again'')
           else Inr (content_page resource (nat offset) (nat limit) source))))))))"

section \<open>Answers of a mutation\<close>

record work_change =
  ch_ref :: pyval
  ch_kind :: string
  ch_before :: "string option"
  ch_after :: "string option"

record work_result =
  wx_completed :: bool
  wx_code :: "string option"
  wx_detail :: string
  wx_capability :: pyval
  wx_target :: pyval
  wx_before :: string
  wx_after :: string
  wx_changes :: "work_change list"
  wx_evidence :: "string list"
  wx_reversible :: bool
  wx_recovery :: "string option"

definition rejection ::
  "work_request \<Rightarrow> string \<Rightarrow> string \<Rightarrow> string \<Rightarrow> string list \<Rightarrow> string \<Rightarrow> work_result"
where
  "rejection request reason detail revision evidence recovery =
     \<lparr>wx_completed = False, wx_code = Some reason, wx_detail = detail,
      wx_capability = get_or request ''capabilityId'' (PStr ''unknown''),
      wx_target = get_or request ''targetRef'' (PStr project_ref), wx_before = revision, wx_after = revision,
      wx_changes = [], wx_evidence = evidence, wx_reversible = True, wx_recovery = Some recovery\<rparr>"

definition completed ::
  "work_request \<Rightarrow> string \<Rightarrow> string \<Rightarrow> work_change list \<Rightarrow> string list \<Rightarrow> bool \<Rightarrow> work_result"
where
  "completed request before after changes evidence reversible =
     \<lparr>wx_completed = True, wx_code = None, wx_detail = ''Source mutation completed and read back.'',
      wx_capability = get_or request ''capabilityId'' PNone,
      wx_target = get_or request ''targetRef'' PNone, wx_before = before, wx_after = after,
      wx_changes = changes, wx_evidence = evidence, wx_reversible = reversible, wx_recovery = None\<rparr>"

definition ensure_revision :: "work_request \<Rightarrow> string \<Rightarrow> work_error + work_result option" where
  "ensure_revision request current =
     try_work (required_string request ''ifRevision'' 96) (\<lambda>expected.
       if current = expected then Inr None
       else Inr (Some (rejection request ''stale_revision''
              ''The source changed; query the resource before retrying.'' current
              [''revision_mismatch''] ''query_resource'')))"

text \<open>\<open>ensure_revision(...) or rejection(...)\<close>, after the last check before a write has failed.\<close>

definition changed_meanwhile ::
  "work_request \<Rightarrow> string \<Rightarrow> string \<Rightarrow> string \<Rightarrow> work_error + work_result"
where
  "changed_meanwhile request current before detail =
     try_work (ensure_revision request current) (\<lambda>r.
       Inr (case r of Some x \<Rightarrow> x
         | None \<Rightarrow> rejection request ''stale_revision'' detail before [] ''query_resource''))"

section \<open>Text search\<close>

text \<open>\<open>str.count\<close>: occurrences that do not overlap; \<open>str.replace(old, new, 1)\<close>.\<close>

function py_count :: "string \<Rightarrow> string \<Rightarrow> nat" where
  "py_count p s =
     (if p = [] then Suc (text_length s)
      else if s = [] then 0
      else if prefix p s then Suc (py_count p (drop (length p) s))
      else py_count p (tl s))"
  by pat_completeness auto
termination by (relation "measure (length \<circ> snd)") auto

declare py_count.simps [simp del]

fun py_replace_once :: "string \<Rightarrow> string \<Rightarrow> string \<Rightarrow> string" where
  "py_replace_once p r [] = []"
| "py_replace_once p r (c # s) =
     (if prefix p (c # s) then r @ drop (length p) (c # s) else c # py_replace_once p r s)"

section \<open>Mutations\<close>

text \<open>\<open>atomic_write\<close>: a new file has the mode of \<open>mkstemp\<close>, a replaced one keeps its mode.\<close>

definition atomic_write :: "nat \<Rightarrow> string list \<Rightarrow> string \<Rightarrow> node \<Rightarrow> work_error + node" where
  "atomic_write now ps payload t =
     (let mode = (case find_node ps t of Some (File _ m _) \<Rightarrow> m | _ \<Rightarrow> 384) in
      case put_node ps (File payload mode now) t of None \<Rightarrow> Inl Work_Failed | Some t' \<Rightarrow> Inr t')"

definition rename_node :: "string list \<Rightarrow> string list \<Rightarrow> node \<Rightarrow> work_error + node" where
  "rename_node source destination t =
     (case find_node source t of
        Some (File b m n) \<Rightarrow>
          (case remove_node source t of
             None \<Rightarrow> Inl Work_Failed
           | Some t1 \<Rightarrow>
               (case put_node destination (File b m n) t1 of None \<Rightarrow> Inl Work_Failed | Some t2 \<Rightarrow> Inr t2))
      | _ \<Rightarrow> Inl Work_Failed)"

text \<open>What others do: \<open>between 0\<close> before the last check, \<open>between 1\<close> after it failed, \<open>between 2\<close>
  between the check and the write, \<open>between 3\<close> before the result is read back.\<close>

type_synonym interference = "nat \<Rightarrow> node \<Rightarrow> node"
type_synonym work_outcome = "(work_error + work_result) \<times> node"

text \<open>
  The shape the mutations share: the checks give an answer or what to write, with the revision they
  saw; the revision is read again right before the write, and the result is read back after it.
\<close>

definition optimistic_commit ::
  "interference \<Rightarrow> work_request \<Rightarrow> string \<Rightarrow> (node \<Rightarrow> work_error + (work_result + string \<times> 'p)) \<Rightarrow>
     ('p \<Rightarrow> node \<Rightarrow> work_error + string) \<Rightarrow> ('p \<Rightarrow> node \<Rightarrow> work_error + node) \<Rightarrow>
     (string \<Rightarrow> 'p \<Rightarrow> node \<Rightarrow> work_error + work_result) \<Rightarrow> node \<Rightarrow> work_outcome"
where
  "optimistic_commit between request detail checks revision write finish t =
     (case checks t of
        Inl e \<Rightarrow> (Inl e, t)
      | Inr (Inl r) \<Rightarrow> (Inr r, t)
      | Inr (Inr (before, p)) \<Rightarrow>
          let t0 = between 0 t in
          (case revision p t0 of
             Inl e \<Rightarrow> (Inl e, t0)
           | Inr found \<Rightarrow>
               if found \<noteq> before then
                 let t1 = between 1 t0 in
                 (try_work (revision p t1) (\<lambda>current. changed_meanwhile request current before detail), t1)
               else
                 let t2 = between 2 t0 in
                 (case write p t2 of
                    Inl e \<Rightarrow> (Inl e, t2)
                  | Inr written \<Rightarrow>
                      let t3 = between 3 written in
                      (finish before p t3, t3))))"

definition created_change :: "string \<Rightarrow> string \<Rightarrow> work_change" where
  "created_change ref revision = \<lparr>ch_ref = PStr ref, ch_kind = ''created'', ch_before = None, ch_after = Some revision\<rparr>"

definition finish_create ::
  "work_env \<Rightarrow> work_request \<Rightarrow> string \<Rightarrow> string list \<Rightarrow> node \<Rightarrow> work_error + work_result"
where
  "finish_create env request before destination t =
     try_work (file_resource env t destination) (\<lambda>created.
     try_work (directory_revision (we_sha env) t) (\<lambda>after.
       Inr (completed request before after [created_change (wr_ref created) (wr_revision created)]
         [''file_hash_readback''] True)))"

definition check_create ::
  "work_env \<Rightarrow> work_request \<Rightarrow> work_request \<Rightarrow> node \<Rightarrow> work_error + (work_result + string \<times> string list \<times> string)"
where
  "check_create env request input t =
     try_work (directory_revision (we_sha env) t) (\<lambda>before.
     try_work (ensure_revision request before) (\<lambda>stale.
       case stale of
         Some r \<Rightarrow> Inr (Inl r)
       | None \<Rightarrow>
           try_work (required_string input ''path'' 240) (\<lambda>path.
           try_work (resolve_relative t path False) (\<lambda>destination.
             if find_node destination t \<noteq> None
             then Inr (Inl (rejection request ''resource_exists'' ''Destination already exists.'' before
                    [''destination_exists''] ''choose_destination''))
             else try_work (bounded_string input ''content'' max_file_bytes) (\<lambda>content.
               Inr (Inr (before, destination, content)))))))"

definition execute_create ::
  "work_env \<Rightarrow> interference \<Rightarrow> nat \<Rightarrow> work_request \<Rightarrow> work_request \<Rightarrow> node \<Rightarrow> work_outcome"
where
  "execute_create env between now request input =
     optimistic_commit between request ''Project changed.'' (check_create env request input)
       (\<lambda>_. directory_revision (we_sha env))
       (\<lambda>(destination, content). atomic_write now destination content)
       (\<lambda>before (destination, _). finish_create env request before destination)"

definition finish_patch ::
  "work_env \<Rightarrow> work_request \<Rightarrow> string \<Rightarrow> string list \<Rightarrow> node \<Rightarrow> work_error + work_result"
where
  "finish_patch env request before path t =
     try_work (file_revision (we_sha env) path t) (\<lambda>after.
       Inr (completed request before after
         [\<lparr>ch_ref = get_or request ''targetRef'' PNone, ch_kind = ''updated'',
           ch_before = Some before, ch_after = Some after\<rparr>]
         [''exact_patch_count'', ''file_hash_readback''] True))"

text \<open>The checks of a patch on the bytes read, up to the updated bytes.\<close>

definition patched_bytes ::
  "work_request \<Rightarrow> work_request \<Rightarrow> string \<Rightarrow> string \<Rightarrow> work_error + (work_result + string)"
where
  "patched_bytes request input before payload =
     (if max_file_bytes < length payload
      then Inl (Bridge ''resource_too_large: text patch supports files up to 131072 bytes'')
      else case utf8_decode payload of
        None \<Rightarrow> Inl (Bridge ''unsupported_encoding: text patch requires UTF-8'')
      | Some body \<Rightarrow>
          try_work (required_string input ''expectedText'' max_query_bytes) (\<lambda>expected.
            case dict_get input ''replacement'' of
              Some (PStr replacement) \<Rightarrow>
                if max_file_bytes < length replacement
                then Inl (Bridge ''invalid_replacement: replacement must be bounded UTF-8 text'')
                else
                  let n = py_count expected body in
                  if n \<noteq> 1
                  then Inr (Inl (rejection request ''patch_ambiguous'' ''Expected text must occur exactly once.''
                         before [''match_count:'' @ nat_digits n] ''query_resource''))
                  else
                    let updated = py_replace_once expected replacement body in
                    if max_file_bytes < length updated
                    then Inl (Bridge ''result_too_large: patched file exceeds 131072 bytes'')
                    else Inr (Inr updated)
            | _ \<Rightarrow> Inl (Bridge ''invalid_replacement: replacement must be bounded UTF-8 text'')))"

definition check_patch ::
  "work_env \<Rightarrow> work_request \<Rightarrow> work_request \<Rightarrow> node \<Rightarrow> work_error + (work_result + string \<times> string list \<times> string)"
where
  "check_patch env request input t =
     try_work (required_string request ''targetRef'' 512) (\<lambda>ref.
     try_work (path_from_ref t ref) (\<lambda>path.
       if resource_type path \<noteq> ''project.file''
       then Inl (Bridge ''unsupported_resource: text patch requires a normal Project file'')
       else
         try_work (file_revision (we_sha env) path t) (\<lambda>before.
         try_work (ensure_revision request before) (\<lambda>stale.
           case stale of
             Some r \<Rightarrow> Inr (Inl r)
           | None \<Rightarrow>
               try_work (read_file path t) (\<lambda>payload.
               try_work (patched_bytes request input before payload) (\<lambda>r.
                 Inr (case r of Inl x \<Rightarrow> Inl x | Inr updated \<Rightarrow> Inr (before, path, updated))))))))"

definition execute_patch ::
  "work_env \<Rightarrow> interference \<Rightarrow> nat \<Rightarrow> work_request \<Rightarrow> work_request \<Rightarrow> node \<Rightarrow> work_outcome"
where
  "execute_patch env between now request input =
     optimistic_commit between request ''File changed.'' (check_patch env request input)
       (\<lambda>(path, _). file_revision (we_sha env) path)
       (\<lambda>(path, updated). atomic_write now path updated)
       (\<lambda>before (path, _). finish_patch env request before path)"

definition finish_rename ::
  "work_env \<Rightarrow> work_request \<Rightarrow> string \<Rightarrow> string list \<Rightarrow> node \<Rightarrow> work_error + work_result"
where
  "finish_rename env request before destination t =
     try_work (file_revision (we_sha env) destination t) (\<lambda>after.
       Inr (completed request before after
         [\<lparr>ch_ref = get_or request ''targetRef'' PNone, ch_kind = ''removed'',
           ch_before = Some before, ch_after = None\<rparr>,
          created_change (encode_ref (as_posix destination)) after]
         [''source_absent'', ''destination_hash_readback''] True))"

definition check_rename ::
  "work_env \<Rightarrow> work_request \<Rightarrow> work_request \<Rightarrow> node \<Rightarrow>
     work_error + (work_result + string \<times> string list \<times> string list)"
where
  "check_rename env request input t =
     try_work (required_string request ''targetRef'' 512) (\<lambda>ref.
     try_work (path_from_ref t ref) (\<lambda>source.
     try_work (file_revision (we_sha env) source t) (\<lambda>before.
     try_work (ensure_revision request before) (\<lambda>stale.
       case stale of
         Some r \<Rightarrow> Inr (Inl r)
       | None \<Rightarrow>
           try_work (required_string input ''destination'' 240) (\<lambda>path.
           try_work (resolve_relative t path False) (\<lambda>destination.
             if find_node destination t \<noteq> None
             then Inr (Inl (rejection request ''resource_exists'' ''Destination already exists.'' before
                    [''destination_exists''] ''choose_destination''))
             else Inr (Inr (before, source, destination))))))))"

definition execute_rename ::
  "work_env \<Rightarrow> interference \<Rightarrow> work_request \<Rightarrow> work_request \<Rightarrow> node \<Rightarrow> work_outcome"
where
  "execute_rename env between request input =
     optimistic_commit between request ''File changed.'' (check_rename env request input)
       (\<lambda>(source, _). file_revision (we_sha env) source)
       (\<lambda>(source, destination). rename_node source destination)
       (\<lambda>before (_, destination). finish_rename env request before destination)"

text \<open>\<open>execute\<close>. The operations on workbooks (\<open>sheets\<close>, by capability) drive LibreOffice.\<close>

definition execute_work ::
  "work_env \<Rightarrow> interference \<Rightarrow> nat \<Rightarrow> (string \<Rightarrow> work_request \<Rightarrow> work_request \<Rightarrow> node \<Rightarrow> work_outcome) \<Rightarrow>
     work_request \<Rightarrow> node \<Rightarrow> work_outcome"
where
  "execute_work env between now sheets request t =
     (case required_string request ''capabilityVersion'' 32 of
        Inl e \<Rightarrow> (Inl e, t)
      | Inr version \<Rightarrow>
          if version \<noteq> ''1''
          then (Inl (Bridge ''capability_version_mismatch: refresh the Work Plane descriptor''), t)
          else
            (case require_object (dict_get request ''input'') ''input'' of
               Inl e \<Rightarrow> (Inl e, t)
             | Inr input \<Rightarrow>
                 (case required_string request ''capabilityId'' 120 of
                    Inl e \<Rightarrow> (Inl e, t)
                  | Inr capability \<Rightarrow>
                      let at_root = dict_get request ''targetRef'' = Some (PStr project_ref) in
                      if capability = ''spreadsheet.workbook.create'' \<and> at_root then sheets capability request input t
                      else if capability = ''project.file.create'' \<and> at_root
                      then execute_create env between now request input t
                      else if capability = ''project.file.patch_text'' then execute_patch env between now request input t
                      else if capability = ''project.file.rename'' then execute_rename env between request input t
                      else if capability \<in> set spreadsheet_capabilities then sheets capability request input t
                      else (Inl (Bridge ''unsupported_capability: refresh the Work Plane descriptor''), t))))"

section \<open>Facts\<close>

lemma required_string_Inr [simp]:
  "required_string d key n = Inr s \<longleftrightarrow> dict_get d key = Some (PStr s) \<and> s \<noteq> [] \<and> text_length s \<le> n"
  by (auto simp: required_string_def split: option.splits pyval.splits)

lemma bounded_string_Inr [simp]:
  "bounded_string d key n = Inr s \<longleftrightarrow> dict_get d key = Some (PStr s) \<and> length s \<le> n"
  by (auto simp: bounded_string_def split: option.splits pyval.splits)

lemma require_object_Inr [simp]: "require_object v label = Inr d \<longleftrightarrow> v = Some (PDict d)"
  by (auto simp: require_object_def split: option.splits pyval.splits)

lemma ensure_revision_Inr:
  "ensure_revision request current = Inr None \<longleftrightarrow>
     dict_get request ''ifRevision'' = Some (PStr current) \<and> current \<noteq> [] \<and> text_length current \<le> 96"
  by (auto simp: ensure_revision_def try_work_Inr)

lemma answer_or_Inr [simp]:
  "(case r of Inl x \<Rightarrow> Inl x | Inr u \<Rightarrow> Inr (g u)) = Inr y \<longleftrightarrow> (\<exists>u. r = Inr u \<and> g u = y)"
  by (cases r) auto

lemma answer_or_Inl [simp]:
  "(case r of Inl x \<Rightarrow> Inl x | Inr u \<Rightarrow> Inr (g u)) = Inl y \<longleftrightarrow> r = Inl y"
  by (cases r) auto

definition undisturbed :: interference where "undisturbed k t = t"

text \<open>What the interference and the write keep holds of the tree at the end.\<close>

lemma commit_keeps:
  assumes "P t" and "\<And>k u. P u \<Longrightarrow> P (between k u)"
    and "\<And>before p u u'. checks t = Inr (Inr (before, p)) \<Longrightarrow> write p u = Inr u' \<Longrightarrow> P u \<Longrightarrow> P u'"
  shows "P (snd (optimistic_commit between request detail checks revision write finish t))"
proof (cases "checks t")
  case (Inr c)
  show ?thesis
  proof (cases c)
    case (Inr bp)
    obtain before p where bp: "bp = (before, p)" by fastforce
    note ok = \<open>checks t = Inr c\<close> [unfolded Inr bp]
    show ?thesis
      using assms(1,2) assms(3) [OF ok]
      by (auto simp: optimistic_commit_def ok Let_def split: sum.splits)
  qed (use assms(1) Inr in \<open>simp add: optimistic_commit_def\<close>)
qed (use assms(1) in \<open>simp add: optimistic_commit_def\<close>)

text \<open>Without interference: either nothing is written, or the checks passed and the write is done.\<close>

lemma commit_undisturbed:
  assumes "\<And>before p. checks t = Inr (Inr (before, p)) \<Longrightarrow> revision p t = Inr before"
  shows "optimistic_commit undisturbed request detail checks revision write finish t =
    (case checks t of
       Inl e \<Rightarrow> (Inl e, t)
     | Inr (Inl r) \<Rightarrow> (Inr r, t)
     | Inr (Inr (before, p)) \<Rightarrow>
         (case write p t of Inl e \<Rightarrow> (Inl e, t) | Inr u \<Rightarrow> (finish before p u, u)))"
  using assms by (auto simp: optimistic_commit_def undisturbed_def Let_def split: sum.splits)

lemma check_create_Inr:
  assumes "check_create env request input t = Inr (Inr (before, destination, content))"
  shows "directory_revision (we_sha env) t = Inr before"
    and "\<exists>v. dict_get input ''path'' = Some (PStr v) \<and> resolve_relative t v False = Inr destination"
    and "find_node destination t = None" and "dict_get input ''content'' = Some (PStr content)"
    and "dict_get request ''ifRevision'' = Some (PStr before)" and "length content \<le> max_file_bytes"
  using assms
  by (auto simp: check_create_def try_work_Inr ensure_revision_Inr split: option.splits if_splits)

lemma check_patch_Inr:
  assumes "check_patch env request input t = Inr (Inr (before, path, updated))"
  shows "file_revision (we_sha env) path t = Inr before"
    and "\<exists>ref. dict_get request ''targetRef'' = Some (PStr ref) \<and> path_from_ref t ref = Inr path"
    and "dict_get request ''ifRevision'' = Some (PStr before)"
    and "\<exists>payload. read_file path t = Inr payload \<and> patched_bytes request input before payload = Inr (Inr updated)"
  using assms
  by (auto simp: check_patch_def try_work_Inr ensure_revision_Inr split: option.splits if_splits sum.splits)

lemma check_rename_Inr:
  assumes "check_rename env request input t = Inr (Inr (before, source, destination))"
  shows "file_revision (we_sha env) source t = Inr before"
    and "\<exists>ref. dict_get request ''targetRef'' = Some (PStr ref) \<and> path_from_ref t ref = Inr source"
    and "\<exists>v. dict_get input ''destination'' = Some (PStr v) \<and> resolve_relative t v False = Inr destination"
    and "find_node destination t = None" and "dict_get request ''ifRevision'' = Some (PStr before)"
  using assms
  by (auto simp: check_rename_def try_work_Inr ensure_revision_Inr split: option.splits if_splits)

lemma path_from_ref_parts:
  assumes "path_from_ref t ref = Inr ps"
  shows "\<not> protected_path ps" and "is_file_at ps t" and "\<not> crosses_link ps t" and "ps \<noteq> []"
proof -
  obtain v where v: "resolve_relative t v True = Inr ps"
    using assms by (auto simp: path_from_ref_def try_work_Inr)
  show "\<not> protected_path ps" by (rule logical_path_parts(1) [OF resolve_relative_parts(1) [OF v]])
  show "is_file_at ps t" by (rule resolve_relative_parts(4) [OF v]) simp
  show "\<not> crosses_link ps t" "ps \<noteq> []" using resolve_relative_parts(2,3) [OF v] by auto
qed

lemma resolved_unprotected: "resolve_relative t v must_exist = Inr ps \<Longrightarrow> \<not> protected_path ps"
  by (rule logical_path_parts(1) [OF resolve_relative_parts(1)])

lemma atomic_write_leaf:
  "atomic_write now ps payload t = Inr u \<Longrightarrow> qs \<noteq> ps \<Longrightarrow> leaf_at qs u = leaf_at qs t"
  by (auto simp: atomic_write_def Let_def put_node_leaf split: option.splits)

lemma leaf_below_file: "find_node ps t = Some (File b m n) \<Longrightarrow> prefix ps qs \<Longrightarrow> qs \<noteq> ps \<Longrightarrow> leaf_at qs t = None"
proof -
  assume "find_node ps t = Some (File b m n)" "prefix ps qs" "qs \<noteq> ps"
  moreover from this obtain z zs where "qs = ps @ z # zs" 
    by (cases "drop (length ps) qs") (auto simp: prefix_def)
  ultimately show ?thesis by (simp add: find_node_append leaf_at_def)
qed

lemma rename_node_leaf:
  assumes "rename_node source destination t = Inr u" and "qs \<noteq> source" and "qs \<noteq> destination"
  shows "leaf_at qs u = leaf_at qs t"
proof -
  obtain b m n t1 where r: "find_node source t = Some (File b m n)" "remove_node source t = Some t1"
    "put_node destination (File b m n) t1 = Some u"
    using assms(1) by (auto simp: rename_node_def split: option.splits node.splits)
  have "leaf_at qs u = leaf_at qs t1" using put_node_leaf [OF r(3) refl] assms(3) by simp
  also have "\<dots> = leaf_at qs t"
    using remove_node_leaf [OF r(2)] leaf_below_file [OF r(1)] assms(2) by auto
  finally show ?thesis .
qed

section \<open>Only the named files change\<close>

text \<open>The paths a request names: the file of its target, or the path it gives in its input.\<close>

definition names_path :: "work_request \<Rightarrow> work_request \<Rightarrow> node \<Rightarrow> string list \<Rightarrow> bool" where
  "names_path request input t qs \<longleftrightarrow>
     (\<exists>ref. dict_get request ''targetRef'' = Some (PStr ref) \<and> path_from_ref t ref = Inr qs) \<or>
     (\<exists>key v. key \<in> {''path'', ''destination''} \<and> dict_get input key = Some (PStr v) \<and>
        resolve_relative t v False = Inr qs)"

lemma names_target:
  "dict_get request ''targetRef'' = Some (PStr ref) \<and> path_from_ref t ref = Inr qs \<Longrightarrow> names_path request input t qs"
  unfolding names_path_def by (rule disjI1) (rule exI)

lemma names_input:
  "key \<in> {''path'', ''destination''} \<Longrightarrow>
   dict_get input key = Some (PStr v) \<and> resolve_relative t v False = Inr qs \<Longrightarrow> names_path request input t qs"
  unfolding names_path_def by (rule disjI2) (rule exI [of _ key], rule exI [of _ v], simp)

lemma names_path_safe:
  assumes "names_path request input t qs"
  shows "\<not> protected_path qs \<and> \<not> crosses_link qs t"
  using assms unfolding names_path_def
proof (elim disjE exE conjE)
  fix ref
  assume "path_from_ref t ref = Inr qs"
  then show ?thesis using path_from_ref_parts(1,3) by simp
next
  fix key v
  assume "resolve_relative t v False = Inr qs"
  then show ?thesis using resolved_unprotected resolve_relative_parts(3) by simp
qed

lemma check_create_names:
  "check_create env request input t = Inr (Inr (before, destination, content)) \<Longrightarrow> names_path request input t destination"
  by (drule check_create_Inr(2)) (erule exE, erule names_input [rotated], simp)

lemma check_patch_names:
  "check_patch env request input t = Inr (Inr (before, path, updated)) \<Longrightarrow> names_path request input t path"
  by (drule check_patch_Inr(2)) (elim exE, rule names_target)

lemma check_rename_names:
  assumes "check_rename env request input t = Inr (Inr (before, source, destination))"
  shows "names_path request input t source" and "names_path request input t destination"
proof -
  show "names_path request input t source"
    using check_rename_Inr(2) [OF assms] by (elim exE) (rule names_target)
  show "names_path request input t destination"
    using check_rename_Inr(3) [OF assms] by (elim exE) (erule names_input [rotated], simp)
qed

definition file_capabilities :: "string list" where
  "file_capabilities = [''project.file.create'', ''project.file.patch_text'', ''project.file.rename'']"

lemma file_capabilities_no_sheet: "c \<in> set file_capabilities \<Longrightarrow> c \<notin> set spreadsheet_capabilities \<and> c \<noteq> ''spreadsheet.workbook.create''"
  by (auto simp: file_capabilities_def spreadsheet_capabilities_def)

lemma execute_work_cases:
  assumes "dict_get request ''capabilityId'' = Some (PStr c)" and "c \<in> set file_capabilities"
  obtains (refused) e where "execute_work env between now sheets request t = (Inl e, t)"
  | (create) input where "dict_get request ''input'' = Some (PDict input)"
      "execute_work env between now sheets request t = execute_create env between now request input t"
      "c = ''project.file.create''"
  | (patch) input where "dict_get request ''input'' = Some (PDict input)"
      "execute_work env between now sheets request t = execute_patch env between now request input t"
  | (rename) input where "dict_get request ''input'' = Some (PDict input)"
      "execute_work env between now sheets request t = execute_rename env between request input t"
proof (cases "required_string request ''capabilityVersion'' 32")
  case (Inl e)
  then show ?thesis using refused by (simp add: execute_work_def)
next
  case v: (Inr version)
  show ?thesis
  proof (cases "require_object (dict_get request ''input'') ''input''")
    case (Inl e)
    then show ?thesis using refused v by (cases "version = ''1''") (simp_all add: execute_work_def)
  next
    case i: (Inr input)
    then have d: "dict_get request ''input'' = Some (PDict input)" by simp
    show ?thesis
    proof (cases "required_string request ''capabilityId'' 120")
      case (Inl e)
      then show ?thesis using refused v i by (cases "version = ''1''") (simp_all add: execute_work_def)
    next
      case (Inr c')
      then have c: "required_string request ''capabilityId'' 120 = Inr c" using assms(1) by simp
      note step = v i c file_capabilities_no_sheet [OF assms(2)]
      consider "version \<noteq> ''1''" | "c = ''project.file.create''" | "c = ''project.file.patch_text''"
        | "c = ''project.file.rename''"
        using assms(2) by (auto simp: file_capabilities_def)
      then show ?thesis
      proof cases
        case 1
        then show ?thesis using refused v by (simp add: execute_work_def)
      next
        case 2
        then show ?thesis using refused create [OF d] step
          by (cases "version = ''1''"; cases "dict_get request ''targetRef'' = Some (PStr project_ref)")
            (simp_all add: execute_work_def Let_def)
      next
        case 3
        then show ?thesis using refused patch [OF d] step
          by (cases "version = ''1''") (simp_all add: execute_work_def Let_def)
      next
        case 4
        then show ?thesis using refused rename [OF d] step
          by (cases "version = ''1''") (simp_all add: execute_work_def Let_def)
      qed
    qed
  qed
qed

lemma execute_create_keeps:
  assumes "\<And>k u. leaf_at qs (between k u) = leaf_at qs u" and "\<not> names_path request input t qs"
  shows "leaf_at qs (snd (execute_create env between now request input t)) = leaf_at qs t"
  unfolding execute_create_def
proof (rule commit_keeps [where P = "\<lambda>u. leaf_at qs u = leaf_at qs t"], goal_cases)
  case (3 before p u u')
  obtain destination content where p: "p = (destination, content)" by fastforce
  have "qs \<noteq> destination" using check_create_names 3(1) assms(2) by (auto simp: p)
  then show ?case using atomic_write_leaf [of now destination content u u' qs] 3(2,3) by (simp add: p)
qed (use assms(1) in simp_all)

lemma execute_patch_keeps:
  assumes "\<And>k u. leaf_at qs (between k u) = leaf_at qs u" and "\<not> names_path request input t qs"
  shows "leaf_at qs (snd (execute_patch env between now request input t)) = leaf_at qs t"
  unfolding execute_patch_def
proof (rule commit_keeps [where P = "\<lambda>u. leaf_at qs u = leaf_at qs t"], goal_cases)
  case (3 before p u u')
  obtain path updated where p: "p = (path, updated)" by fastforce
  have "qs \<noteq> path" using check_patch_names 3(1) assms(2) by (auto simp: p)
  then show ?case using atomic_write_leaf [of now path updated u u' qs] 3(2,3) by (simp add: p)
qed (use assms(1) in simp_all)

lemma execute_rename_keeps:
  assumes "\<And>k u. leaf_at qs (between k u) = leaf_at qs u" and "\<not> names_path request input t qs"
  shows "leaf_at qs (snd (execute_rename env between request input t)) = leaf_at qs t"
  unfolding execute_rename_def
proof (rule commit_keeps [where P = "\<lambda>u. leaf_at qs u = leaf_at qs t"], goal_cases)
  case (3 before p u u')
  obtain source destination where p: "p = (source, destination)" by fastforce
  have "qs \<noteq> source" "qs \<noteq> destination" using check_rename_names 3(1) assms(2) by (auto simp: p)
  then show ?case using rename_node_leaf [of source destination u u' qs] 3(2,3) by (simp add: p)
qed (use assms(1) in simp_all)


section \<open>Patches\<close>

lemma replace_at_match:
  assumes "p \<noteq> []" and "0 < py_count p s"
  shows "\<exists>a b. s = a @ p @ b \<and> py_replace_once p r s = a @ r @ b"
  using assms
proof (induction p s rule: py_count.induct)
  case (1 p s)
  show ?case
  proof (cases s)
    case (Cons c s')
    show ?thesis
    proof (cases "prefix p s")
      case True
      then obtain b where "s = p @ b" by (auto simp: prefix_def)
      then have "s = [] @ p @ b \<and> py_replace_once p r s = [] @ r @ b"
        using 1(3) Cons True by (cases p) auto
      then show ?thesis by blast
    next
      case False
      then have "0 < py_count p (tl s)" using 1(3,4) Cons by (subst (asm) py_count.simps) simp
      from 1(2) [OF 1(3) _ False 1(3) this] Cons
      obtain a b where "s' = a @ p @ b" "py_replace_once p r s' = a @ r @ b" by auto
      then have "s = (c # a) @ p @ b \<and> py_replace_once p r s = (c # a) @ r @ b"
        using Cons False by simp
      then show ?thesis by blast
    qed
  qed (use 1 in \<open>simp add: py_count.simps\<close>)
qed

lemma patched_bytes_cases:
  assumes "patched_bytes request input before payload = Inr c"
  obtains p r where "dict_get input ''expectedText'' = Some (PStr p)" "p \<noteq> []"
    "dict_get input ''replacement'' = Some (PStr r)"
    "c = (if py_count p payload \<noteq> 1
       then Inl (rejection request ''patch_ambiguous'' ''Expected text must occur exactly once.'' before
              [''match_count:'' @ nat_digits (py_count p payload)] ''query_resource'')
       else Inr (py_replace_once p r payload))"
proof -
  have small: "\<not> max_file_bytes < length payload" "utf8_valid payload"
    using assms by (auto simp: patched_bytes_def utf8_decode_def split: if_splits)
  then obtain p where p: "required_string input ''expectedText'' max_query_bytes = Inr p"
    using assms by (auto simp: patched_bytes_def utf8_decode_def try_work_Inr simp del: required_string_Inr)
  note eq = assms [unfolded patched_bytes_def utf8_decode_def, simplified small p, simplified]
  from eq obtain r where r: "dict_get input ''replacement'' = Some (PStr r)"
    by (cases "dict_get input ''replacement''") (auto split: pyval.splits)
  from eq [unfolded r] have "c = (if py_count p payload \<noteq> 1
       then Inl (rejection request ''patch_ambiguous'' ''Expected text must occur exactly once.'' before
              [''match_count:'' @ nat_digits (py_count p payload)] ''query_resource'')
       else Inr (py_replace_once p r payload))"
    by (auto simp: Let_def split: if_splits)
  with p r that show thesis by auto
qed

lemma patched_bytes_Inr:
  assumes "patched_bytes request input before payload = Inr (Inr updated)"
  obtains p r where "dict_get input ''expectedText'' = Some (PStr p)" "dict_get input ''replacement'' = Some (PStr r)"
    "p \<noteq> []" "py_count p payload = 1" "updated = py_replace_once p r payload"
  using assms by (rule patched_bytes_cases) (auto split: if_splits intro: that)

lemma rejection_not_completed [simp]: "\<not> wx_completed (rejection request a b c d e)"
  by (simp add: rejection_def)

lemma ensure_revision_rejects: "ensure_revision request current = Inr (Some r) \<Longrightarrow> \<not> wx_completed r"
  by (auto simp: ensure_revision_def try_work_Inr split: if_splits)

lemma check_patch_rejects:
  assumes "check_patch env request input t = Inr (Inl r)"
  shows "\<not> wx_completed r"
proof -
  obtain path before stale where e: "ensure_revision request before = Inr stale"
    and rest: "(case stale of Some x \<Rightarrow> Inr (Inl x) | None \<Rightarrow>
      try_work (read_file path t) (\<lambda>payload. try_work (patched_bytes request input before payload) (\<lambda>r.
        Inr (case r of Inl x \<Rightarrow> Inl x | Inr updated \<Rightarrow> Inr (before, path, updated))))) = Inr (Inl r)"
    using assms by (auto simp: check_patch_def try_work_Inr split: if_splits)
  show ?thesis
  proof (cases stale)
    case None
    then obtain payload c where "patched_bytes request input before payload = Inr c" "c = Inl r"
      using rest by (auto simp: try_work_Inr)
    then show ?thesis by (elim patched_bytes_cases) (auto split: if_splits)
  qed (use e rest ensure_revision_rejects in auto)
qed

lemma file_revision_Inr: "file_revision sha ps t = Inr v \<longleftrightarrow> (\<exists>b. read_file ps t = Inr b \<and> v = revision_prefix @ sha b)"
  by (auto simp: file_revision_def try_work_Inr)

lemma read_file_find: "read_file ps t = Inr b \<longleftrightarrow> (\<exists>m n. find_node ps t = Some (File b m n))"
  by (auto simp: read_file_def split: option.splits node.splits)

lemma put_node_same_kind:
  "ps \<noteq> [] \<Longrightarrow> find_node ps t = Some (File b m n) \<Longrightarrow> put_node ps f t \<noteq> None"
proof (induction ps t rule: find_node.induct)
  case (2 p ps es)
  then show ?case by (auto split: option.splits node.splits)
qed simp_all

lemma atomic_write_over_file:
  assumes "ps \<noteq> []" and "find_node ps t = Some (File b m n)"
  obtains u where "atomic_write now ps payload t = Inr u" and "find_node ps u = Some (File payload m now)"
proof -
  obtain u where "put_node ps (File payload m now) t = Some u"
    using put_node_same_kind [OF assms] by blast
  with assms(2) put_node_find [OF this] that show thesis by (simp add: atomic_write_def)
qed

lemma execute_patch_undisturbed:
  "execute_patch env undisturbed now request input t =
    (case check_patch env request input t of
       Inl e \<Rightarrow> (Inl e, t)
     | Inr (Inl r) \<Rightarrow> (Inr r, t)
     | Inr (Inr (before, path, updated)) \<Rightarrow>
         (case atomic_write now path updated t of
            Inl e \<Rightarrow> (Inl e, t) | Inr u \<Rightarrow> (finish_patch env request before path u, u)))"
  unfolding execute_patch_def
  by (subst commit_undisturbed) (auto dest: check_patch_Inr(1) split: sum.splits)


section \<open>Revisions protect earlier work\<close>

text \<open>The revision an operation compares with the request's: that of its target, or of the project.\<close>

lemma commit_stops:
  "checks t = Inr (Inl r) \<Longrightarrow> optimistic_commit between request detail checks revision write finish t = (Inr r, t)"
  "checks t = Inl e \<Longrightarrow> optimistic_commit between request detail checks revision write finish t = (Inl e, t)"
  by (simp_all add: optimistic_commit_def)

lemma ensure_revision_stale:
  assumes "dict_get request ''ifRevision'' = Some (PStr x)" and "x \<noteq> current"
  shows "(\<exists>e. ensure_revision request current = Inl e) \<or>
    (\<exists>r. ensure_revision request current = Inr (Some r) \<and> wx_code r = Some ''stale_revision'' \<and> \<not> wx_completed r)"
  using assms by (auto simp: ensure_revision_def required_string_def rejection_def)

lemma target_checks_stale:
  assumes "dict_get request ''targetRef'' = Some (PStr ref)" and "path_from_ref t ref = Inr path"
    and "file_revision (we_sha env) path t = Inr current"
    and "dict_get request ''ifRevision'' = Some (PStr x)" and "x \<noteq> current"
  shows "(\<exists>e. check_patch env request input t = Inl e) \<or>
      (\<exists>r. check_patch env request input t = Inr (Inl r) \<and> \<not> wx_completed r)"
    and "(\<exists>e. check_rename env request input t = Inl e) \<or>
      (\<exists>r. check_rename env request input t = Inr (Inl r) \<and> \<not> wx_completed r)"
proof -
  have ref: "(\<exists>e. required_string request ''targetRef'' 512 = Inl e) \<or> required_string request ''targetRef'' 512 = Inr ref"
    using assms(1) by (auto simp: required_string_def)
  show "(\<exists>e. check_patch env request input t = Inl e) \<or>
      (\<exists>r. check_patch env request input t = Inr (Inl r) \<and> \<not> wx_completed r)"
    using ref ensure_revision_stale [OF assms(4,5)] assms(2,3)
    by (auto simp: check_patch_def simp del: required_string_Inr)
  show "(\<exists>e. check_rename env request input t = Inl e) \<or>
      (\<exists>r. check_rename env request input t = Inr (Inl r) \<and> \<not> wx_completed r)"
    using ref ensure_revision_stale [OF assms(4,5)] assms(2,3)
    by (auto simp: check_rename_def simp del: required_string_Inr)
qed

definition not_done :: "work_outcome \<Rightarrow> node \<Rightarrow> bool" where
  "not_done outcome t \<longleftrightarrow> snd outcome = t \<and> (case fst outcome of Inl _ \<Rightarrow> True | Inr r \<Rightarrow> \<not> wx_completed r)"

lemma commit_not_done:
  "(\<exists>e. checks t = Inl e) \<or> (\<exists>r. checks t = Inr (Inl r) \<and> \<not> wx_completed r) \<Longrightarrow>
   not_done (optimistic_commit between request detail checks revision write finish t) t"
  by (auto simp: commit_stops not_done_def)

text \<open>A file that has changed since the client read it is neither patched nor moved: when the
  revision of the target is not the one the request carries, the answer is a rejection or an error
  and the project is untouched, whatever others do.\<close>
theorem stale_target_is_untouched:
  assumes "dict_get request ''targetRef'' = Some (PStr ref)" and "path_from_ref t ref = Inr path"
    and "file_revision (we_sha env) path t = Inr current"
    and "dict_get request ''ifRevision'' = Some (PStr x)" and "x \<noteq> current"
  shows "not_done (execute_patch env between now request input t) t \<and>
    not_done (execute_rename env between request input t) t"
  unfolding execute_patch_def execute_rename_def
  by (intro conjI commit_not_done target_checks_stale [OF assms])

lemma changed_meanwhile_rejects: "changed_meanwhile request current before detail = Inr r \<Longrightarrow> \<not> wx_completed r"
  by (auto simp: changed_meanwhile_def try_work_Inr dest: ensure_revision_rejects split: option.splits)

lemma check_rename_rejects:
  assumes "check_rename env request input t = Inr (Inl r)"
  shows "\<not> wx_completed r"
  using assms
  by (auto simp: check_rename_def try_work_Inr dest: ensure_revision_rejects split: option.splits if_splits)

lemma check_create_rejects:
  assumes "check_create env request input t = Inr (Inl r)"
  shows "\<not> wx_completed r"
  using assms
  by (auto simp: check_create_def try_work_Inr dest: ensure_revision_rejects split: option.splits if_splits)

lemma commit_completed:
  assumes "optimistic_commit between request detail checks revision write finish t = (Inr r, t')"
    and "wx_completed r" and "\<And>r. checks t = Inr (Inl r) \<Longrightarrow> \<not> wx_completed r"
  obtains before p u where "checks t = Inr (Inr (before, p))" "revision p (between 0 t) = Inr before"
    "write p (between 2 (between 0 t)) = Inr u" "t' = between 3 u" "finish before p t' = Inr r"
  using assms
  by (auto simp: optimistic_commit_def Let_def try_work_Inr dest: changed_meanwhile_rejects
      split: sum.splits if_splits)

text \<open>C9: No patch or move is done over a change that the last check could see: if one completes, the
  revision of its target after everything others did up to that check is the revision the request
  carries.\<close>
theorem completed_write_saw_its_revision:
  assumes "execute_patch env between now request input t = (Inr r, t') \<or>
      execute_rename env between request input t = (Inr r, t')"
    and "wx_completed r"
  shows "\<exists>ref path x. dict_get request ''targetRef'' = Some (PStr ref) \<and> path_from_ref t ref = Inr path \<and>
    dict_get request ''ifRevision'' = Some (PStr x) \<and> file_revision (we_sha env) path (between 0 t) = Inr x"
  using assms(1)
proof
  assume "execute_patch env between now request input t = (Inr r, t')"
  then obtain before path updated where
    c: "check_patch env request input t = Inr (Inr (before, path, updated))"
    and r: "file_revision (we_sha env) path (between 0 t) = Inr before"
    using check_patch_rejects unfolding execute_patch_def
    by (elim commit_completed [OF _ assms(2)]) (auto split: prod.splits)
  show ?thesis using check_patch_Inr(2,3) [OF c] r by blast
next
  assume "execute_rename env between request input t = (Inr r, t')"
  then obtain before source destination where
    c: "check_rename env request input t = Inr (Inr (before, source, destination))"
    and r: "file_revision (we_sha env) source (between 0 t) = Inr before"
    using check_rename_rejects unfolding execute_rename_def
    by (elim commit_completed [OF _ assms(2)]) (auto split: prod.splits)
  show ?thesis using check_rename_Inr(2,5) [OF c] r by blast
qed

section \<open>Moves\<close>

lemma put_remove_gone: "remove_node ps t = Some t' \<Longrightarrow> find_node ps t' = None"
  by (induction ps t arbitrary: t' rule: remove_node.induct)
    (auto simp: delete_conv' split: option.splits if_splits)

lemma remove_node_file: "ps \<noteq> [] \<Longrightarrow> find_node ps t = Some f \<Longrightarrow> remove_node ps t \<noteq> None"
  by (induction ps t rule: find_node.induct) (auto split: option.splits)

text \<open>A move that completes takes the file away from its old path and puts the same bytes, mode and
  modification time under the new one, where nothing was before; the answer carries the revision of
  those bytes before and after.\<close>
theorem rename_moves_the_file:
  assumes "execute_rename env undisturbed request input t = (Inr r, t')" and "wx_completed r"
  shows "\<exists>ref source v destination b m n.
    dict_get request ''targetRef'' = Some (PStr ref) \<and> path_from_ref t ref = Inr source \<and>
    dict_get input ''destination'' = Some (PStr v) \<and> resolve_relative t v False = Inr destination \<and>
    find_node destination t = None \<and> find_node source t = Some (File b m n) \<and>
    leaf_at source t' = None \<and> find_node destination t' = Some (File b m n) \<and>
    wx_before r = sha256_bytes (we_sha env) b \<and> wx_after r = sha256_bytes (we_sha env) b"
proof -
  obtain before source destination u where
    c: "check_rename env request input t = Inr (Inr (before, source, destination))"
    and w: "rename_node source destination t = Inr u" "t' = u"
    and f: "finish_rename env request before destination u = Inr r"
    using assms check_rename_rejects unfolding execute_rename_def
    by (elim commit_completed [OF _ assms(2)]) (auto simp: undisturbed_def split: prod.splits)
  note facts = check_rename_Inr [OF c]
  obtain ref where ref: "dict_get request ''targetRef'' = Some (PStr ref)" "path_from_ref t ref = Inr source"
    using facts(2) by blast
  obtain v where v: "dict_get input ''destination'' = Some (PStr v)" "resolve_relative t v False = Inr destination"
    using facts(3) by blast
  obtain b m n t1 where n: "find_node source t = Some (File b m n)" "remove_node source t = Some t1"
    "put_node destination (File b m n) t1 = Some u"
    using w(1) by (auto simp: rename_node_def split: option.splits node.splits)
  have d: "find_node destination u = Some (File b m n)" by (rule put_node_find [OF n(3)])
  have "source \<noteq> destination" using facts(4) n(1) by auto
  then have gone: "leaf_at source u = None"
    using put_node_leaf [OF n(3) refl, of source] put_remove_gone [OF n(2)] by (simp add: leaf_at_def)
  have "wx_before r = before" "wx_after r = revision_prefix @ we_sha env b"
    using f d by (auto simp: finish_rename_def file_revision_def read_file_def completed_def)
  moreover have "before = revision_prefix @ we_sha env b"
    using facts(1) n(1) by (simp add: file_revision_def read_file_def)
  ultimately show ?thesis
    using ref v facts(4) n(1) gone d w(2)
    by (intro exI conjI) (assumption | simp add: sha256_bytes_def)+
qed

section \<open>Reading a file in pages\<close>

text \<open>A client that follows \<open>nextOffset\<close>: it decodes each page and asks for the next.\<close>

definition std_b64_bytes :: "string \<Rightarrow> string option" where
  "std_b64_bytes body =
     b64decode (\<lambda>_. None) (map (\<lambda>c. if c = CHR ''+'' then CHR ''-'' else if c = slash then CHR ''_'' else c)
       (takeWhile (\<lambda>c. c \<noteq> CHR ''='') body))"

definition page_bytes :: "work_content \<Rightarrow> string option" where
  "page_bytes page =
     (case wc_text page of
        Some s \<Rightarrow> Some s
      | None \<Rightarrow> (case wc_base64 page of None \<Rightarrow> None | Some b \<Rightarrow> std_b64_bytes b))"

fun read_pages :: "nat \<Rightarrow> work_env \<Rightarrow> string \<Rightarrow> nat \<Rightarrow> node \<Rightarrow> nat \<Rightarrow> string option" where
  "read_pages 0 env ref limit t offset = None"
| "read_pages (Suc fuel) env ref limit t offset =
     (case query_content env [(''resourceRef'', PStr ref), (''offset'', PInt (int offset)), (''maxBytes'', PInt (int limit))] (\<lambda>_. t) of
        Inl _ \<Rightarrow> None
      | Inr page \<Rightarrow>
          (case page_bytes page of
             None \<Rightarrow> None
           | Some b \<Rightarrow>
               (case wc_next page of
                  None \<Rightarrow> Some b
                | Some next_offset \<Rightarrow> map_option ((@) b) (read_pages fuel env ref limit t next_offset))))"

lemma takeWhile_pad: "x \<notin> set xs \<Longrightarrow> takeWhile (\<lambda>c. c \<noteq> x) (xs @ replicate k x) = xs"
proof (induction xs)
  case Nil
  show ?case by (cases k) simp_all
qed auto

lemma std_b64_round: "std_b64_bytes (std_b64encode s) = Some s"
proof -
  have alpha: "char_sextet c \<noteq> None" if "c \<in> set (b64encode s)" for c
    using b64encode_alphabet [of s] that by (simp add: list_all_iff)
  have "char_sextet CHR ''+'' = None" "char_sextet slash = None" "char_sextet CHR ''='' = None" by code_simp+
  with alpha have odd: "c \<noteq> CHR ''+'' \<and> c \<noteq> slash \<and> c \<noteq> CHR ''=''" if "c \<in> set (b64encode s)" for c
    using that by metis
  let ?f = "\<lambda>c. if c = CHR ''-'' then CHR ''+'' else if c = CHR ''_'' then slash else c"
  let ?g = "\<lambda>c. if c = CHR ''+'' then CHR ''-'' else if c = slash then CHR ''_'' else c"
  have "?f c \<noteq> CHR ''=''" if "c \<in> set (b64encode s)" for c using odd [OF that] by (simp add: slash_def)
  then have "CHR ''='' \<notin> set (map ?f (b64encode s))" unfolding set_map image_iff by metis
  from takeWhile_pad [OF this]
  have "takeWhile (\<lambda>c. c \<noteq> CHR ''='') (map ?f (b64encode s) @ replicate k CHR ''='') = map ?f (b64encode s)" for k .
  then have "takeWhile (\<lambda>c. c \<noteq> CHR ''='') (std_b64encode s) = map ?f (b64encode s)"
    unfolding std_b64encode_def Let_def .
  moreover have "map ?g (map ?f (b64encode s)) = b64encode s"
    unfolding map_map using odd by (intro map_idI) (auto simp: slash_def)
  ultimately show ?thesis by (simp add: std_b64_bytes_def)
qed

lemma content_page_bytes:
  "page_bytes (content_page resource offset limit b) = Some (take limit (drop offset b))"
  "wc_next (content_page resource offset limit b) =
     (if limit < length (drop offset b) then Some (offset + limit) else None)"
  by (auto simp: content_page_def page_bytes_def utf8_decode_def std_b64_round Let_def min_def split: option.splits)

lemma query_content_page:
  assumes "path_from_ref t ref = Inr path" and "find_node path t = Some (File b m n)"
    and "resource_type path = ''project.file''" and "ref \<noteq> []" and "text_length ref \<le> 512"
    and "utf8_valid (as_posix path)" and "offset \<le> 10000000" and "1 \<le> limit" and "limit \<le> max_query_bytes"
  shows "\<exists>resource. query_content env [(''resourceRef'', PStr ref), (''offset'', PInt (int offset)),
      (''maxBytes'', PInt (int limit))] (\<lambda>_. t) = Inr (content_page resource offset limit b)"
proof -
  let ?q = "[(''resourceRef'', PStr ref), (''offset'', PInt (int offset)), (''maxBytes'', PInt (int limit))]"
  have r: "required_string ?q ''resourceRef'' 512 = Inr ref" using assms(4,5) by simp
  have off: "bounded_integer (get_or ?q ''offset'' (PInt 0)) 0 10000000 ''offset'' = Inr (int offset)"
    using assms(7) by (simp add: get_or_def bounded_integer_def)
  have l: "bounded_integer (get_or ?q ''maxBytes'' (PInt (int max_query_bytes))) 1 (int max_query_bytes) ''maxBytes'' = Inr (int limit)"
    using assms(8,9) by (simp add: get_or_def bounded_integer_def)
  obtain res where res: "file_resource env t path = Inr res" "wr_revision res = revision_prefix @ we_sha env b"
    using assms(2,6) by (simp add: file_resource_def read_file_def Let_def)
  have f: "read_file path t = Inr b" "file_revision (we_sha env) path t = Inr (wr_revision res)"
    using assms(2) res(2) by (simp_all add: read_file_def file_revision_def)
  have "query_content env ?q (\<lambda>_. t) = Inr (content_page res (nat (int offset)) (nat (int limit)) b)"
    unfolding query_content_def r off l try_work_simps assms(1) res(1) f using assms(3) by simp
  then show ?thesis by auto
qed

lemma read_pages_drop:
  assumes "path_from_ref t ref = Inr path" and "find_node path t = Some (File b m n)"
    and "resource_type path = ''project.file''" and "ref \<noteq> []" and "text_length ref \<le> 512"
    and "utf8_valid (as_posix path)" and "length b \<le> 10000000" and "1 \<le> limit" and "limit \<le> max_query_bytes"
    and "offset \<le> length b" and "length b - offset < fuel"
  shows "read_pages fuel env ref limit t offset = Some (drop offset b)"
  using assms(10,11)
proof (induction fuel arbitrary: offset)
  case (Suc fuel)
  obtain resource where q: "query_content env [(''resourceRef'', PStr ref), (''offset'', PInt (int offset)),
      (''maxBytes'', PInt (int limit))] (\<lambda>_. t) = Inr (content_page resource offset limit b)"
    using query_content_page [OF assms(1-6) _ assms(8,9)] Suc(2) assms(7) by (meson le_trans)
  show ?case
  proof (cases "limit < length (drop offset b)")
    case True
    then have "read_pages fuel env ref limit t (offset + limit) = Some (drop (offset + limit) b)"
      using Suc(2,3) assms(8) by (intro Suc(1)) auto
    moreover have "take limit (drop offset b) @ drop (offset + limit) b = drop offset b"
      by (metis append_take_drop_id drop_drop add.commute)
    ultimately show ?thesis using True by (simp add: q content_page_bytes)
  qed (simp add: q content_page_bytes)
qed simp


section \<open>A sample project\<close>

definition sample_work_env :: work_env where
  "sample_work_env = \<lparr>we_sha = (\<lambda>s. s), we_media = (\<lambda>_. None), we_spreadsheets = False\<rparr>"

definition sample_project :: node where
  "sample_project = Dir [(''a.txt'', File ''one two'' 420 1), (''.git'', Dir [(''config'', File ''x'' 420 1)]),
     (''d'', Dir [(''b'', File ''b'' 420 1)]), (''l'', Link ''d'')]"

definition sample_patch_input :: work_request where
  "sample_patch_input = [(''expectedText'', PStr ''two''), (''replacement'', PStr ''2'')]"

definition sample_patch :: work_request where
  "sample_patch = [(''capabilityVersion'', PStr ''1''), (''capabilityId'', PStr ''project.file.patch_text''),
     (''targetRef'', PStr ''work:file:YS50eHQ''), (''ifRevision'', PStr ''sha256:one two''),
     (''input'', PDict sample_patch_input)]"

definition sample_rename_input :: work_request where
  "sample_rename_input = [(''destination'', PStr ''d/c.txt'')]"

lemma sample_ref: "path_from_ref sample_project ''work:file:YS50eHQ'' = Inr [''a.txt'']" by code_simp

lemma sample_listing: "list_files sample_project = Inr [[''a.txt''], [''d'', ''b'']]" by code_simp

lemma ref_of_listed_file_witness:
  "path_from_ref sample_project (encode_ref (as_posix [''d'', ''b''])) = Inr [''d'', ''b'']"
  unfolding sample_project_def
  by (rule ref_of_listed_file [OF _ sample_listing [unfolded sample_project_def]]; code_simp)

definition patched_project :: node where
  "patched_project = Dir [(''a.txt'', File ''one 2'' 420 7), (''.git'', Dir [(''config'', File ''x'' 420 1)]),
     (''d'', Dir [(''b'', File ''b'' 420 1)]), (''l'', Link ''d'')]"

definition sample_answer :: work_result where
  "sample_answer = completed sample_patch ''sha256:one two'' ''sha256:one 2''
     [\<lparr>ch_ref = PStr ''work:file:YS50eHQ'', ch_kind = ''updated'',
       ch_before = Some ''sha256:one two'', ch_after = Some ''sha256:one 2''\<rparr>]
     [''exact_patch_count'', ''file_hash_readback''] True"

definition no_sheets :: "string \<Rightarrow> work_request \<Rightarrow> work_request \<Rightarrow> node \<Rightarrow> work_outcome" where
  "no_sheets c request input t = (Inl Work_Failed, t)"

lemma sample_patched:
  "patched_bytes sample_patch sample_patch_input ''sha256:one two'' ''one two'' = Inr (Inr ''one 2'')"
proof -
  have "utf8_decode ''one two'' = Some ''one two''" "py_count ''two'' ''one two'' = 1"
    "py_replace_once ''two'' ''2'' ''one two'' = ''one 2''" "text_length ''two'' = 3"
    by code_simp+
  moreover have "required_string sample_patch_input ''expectedText'' max_query_bytes = Inr ''two''"
    using \<open>text_length ''two'' = 3\<close> by (simp add: sample_patch_input_def max_query_bytes_def)
  moreover have "dict_get sample_patch_input ''replacement'' = Some (PStr ''2'')" by code_simp
  ultimately show ?thesis
    by (simp add: patched_bytes_def max_file_bytes_def Let_def del: required_string_Inr)
qed

lemma sample_checks:
  "check_patch sample_work_env sample_patch sample_patch_input sample_project
     = Inr (Inr (''sha256:one two'', [''a.txt''], ''one 2''))"
proof -
  have "required_string sample_patch ''targetRef'' 512 = Inr ''work:file:YS50eHQ''"
    "resource_type [''a.txt''] = ''project.file''"
    "file_revision (we_sha sample_work_env) [''a.txt''] sample_project = Inr ''sha256:one two''"
    "ensure_revision sample_patch ''sha256:one two'' = Inr None"
    "read_file [''a.txt''] sample_project = Inr ''one two''"
    by code_simp+
  then show ?thesis
    unfolding check_patch_def by (simp only: try_work_simps sample_ref option.case sum.case sample_patched) simp
qed

lemma sample_patch_runs:
  "execute_patch sample_work_env undisturbed 7 sample_patch sample_patch_input sample_project
     = (Inr sample_answer, patched_project)"
proof -
  have "atomic_write 7 [''a.txt''] ''one 2'' sample_project = Inr patched_project"
    "finish_patch sample_work_env sample_patch ''sha256:one two'' [''a.txt''] patched_project = Inr sample_answer"
    by code_simp+
  then show ?thesis by (simp add: execute_patch_undisturbed sample_checks)
qed

lemma sample_work_runs:
  "execute_work sample_work_env undisturbed 7 no_sheets sample_patch sample_project
     = (Inr sample_answer, patched_project)"
proof -
  have "required_string sample_patch ''capabilityVersion'' 32 = Inr ''1''"
    "require_object (dict_get sample_patch ''input'') ''input'' = Inr sample_patch_input"
    "required_string sample_patch ''capabilityId'' 120 = Inr ''project.file.patch_text''"
    by code_simp+
  then show ?thesis by (simp add: execute_work_def Let_def sample_patch_runs del: required_string_Inr require_object_Inr)
qed

lemma sample_answer_completed [simp]: "wx_completed sample_answer"
  by (simp add: sample_answer_def completed_def)



lemma completed_write_saw_its_revision_witness:
  "\<exists>ref path x. dict_get sample_patch ''targetRef'' = Some (PStr ref) \<and> path_from_ref sample_project ref = Inr path \<and>
    dict_get sample_patch ''ifRevision'' = Some (PStr x) \<and>
    file_revision (we_sha sample_work_env) path (undisturbed 0 sample_project) = Inr x"
  by (rule completed_write_saw_its_revision [OF disjI1 [OF sample_patch_runs] sample_answer_completed])

text \<open>The same request once more: its revision is that of the file before the patch.\<close>

lemma stale_target_is_untouched_witness:
  "not_done (execute_patch sample_work_env undisturbed 8 sample_patch sample_patch_input patched_project) patched_project \<and>
   not_done (execute_rename sample_work_env undisturbed sample_patch sample_patch_input patched_project) patched_project"
proof (rule stale_target_is_untouched [where ref = "''work:file:YS50eHQ''" and path = "[''a.txt'']"
      and current = "''sha256:one 2''" and x = "''sha256:one two''"])
  show "dict_get sample_patch ''targetRef'' = Some (PStr ''work:file:YS50eHQ'')" by code_simp
  show "path_from_ref patched_project ''work:file:YS50eHQ'' = Inr [''a.txt'']" by code_simp
  show "file_revision (we_sha sample_work_env) [''a.txt''] patched_project = Inr ''sha256:one 2''" by code_simp
  show "dict_get sample_patch ''ifRevision'' = Some (PStr ''sha256:one two'')" by code_simp
  show "''sha256:one two'' \<noteq> ''sha256:one 2''" by simp
qed

lemma rename_moves_the_file_witness:
  "\<exists>r t'. execute_rename sample_work_env undisturbed sample_patch sample_rename_input sample_project = (Inr r, t') \<and>
    leaf_at [''a.txt''] t' = None \<and> find_node [''d'', ''c.txt''] t' = Some (File ''one two'' 420 1)"
proof -
  let ?o = "execute_rename sample_work_env undisturbed sample_patch sample_rename_input sample_project"
  have "case fst ?o of Inl _ \<Rightarrow> False | Inr r \<Rightarrow> wx_completed r" by code_simp
  then obtain r t' where o: "?o = (Inr r, t')" "wx_completed r" by (cases ?o) (auto split: sum.splits)
  have "dict_get sample_patch ''targetRef'' = Some (PStr ''work:file:YS50eHQ'')" by code_simp
  moreover have "dict_get sample_rename_input ''destination'' = Some (PStr ''d/c.txt'')" by code_simp
  moreover have "resolve_relative sample_project ''d/c.txt'' False = Inr [''d'', ''c.txt'']" by code_simp
  moreover have "find_node [''a.txt''] sample_project = Some (File ''one two'' 420 1)" by code_simp
  ultimately show ?thesis using rename_moves_the_file [OF o] o(1) sample_ref by auto
qed


section \<open>Where the references and the revisions do not reach\<close>

definition backslash_project :: node where
  "backslash_project = Dir [(''a'', Dir [(''b'', File ''inner'' 420 1)]),
     (''a'' @ [backslash] @ ''b'', File ''outer'' 420 1)]"

text \<open>Two listed files can share one identity: a name that contains a backslash is listed with a
  reference of its own, but the reference is read back with the backslash as a separator, so it names
  another file of the project.\<close>
theorem backslash_name_leads_elsewhere:
  "list_files backslash_project = Inr [[''a'', ''b''], [''a'' @ [backslash] @ ''b'']] \<and>
   path_from_ref backslash_project (encode_ref (as_posix [''a'' @ [backslash] @ ''b''])) = Inr [''a'', ''b'']"
  by code_simp

definition late_writer :: interference where
  "late_writer k t =
     (if k = 2 then (case put_node [''a.txt''] (File ''theirs'' 420 5) t of Some u \<Rightarrow> u | None \<Rightarrow> t) else t)"

text \<open>The last check and the write are two steps: what another program writes to the file between
  them is overwritten, and the answer still says that the patch was made on the revision the client
  had seen.\<close>
theorem change_after_last_check_is_lost:
  "execute_patch sample_work_env late_writer 7 sample_patch sample_patch_input sample_project
     = (Inr sample_answer, patched_project)"
proof -
  have "atomic_write 7 [''a.txt''] ''one 2'' (late_writer 2 sample_project) = Inr patched_project"
    "late_writer 0 sample_project = sample_project" "late_writer 3 patched_project = patched_project"
    "finish_patch sample_work_env sample_patch ''sha256:one two'' [''a.txt''] patched_project = Inr sample_answer"
    "file_revision (we_sha sample_work_env) [''a.txt''] sample_project = Inr ''sha256:one two''"
    by code_simp+
  then show ?thesis by (simp add: execute_patch_def optimistic_commit_def sample_checks Let_def)
qed

text \<open>Occurrences are counted without overlap, so a text that occurs twice in overlapping places
  passes for unambiguous and its first occurrence is replaced.\<close>
theorem overlapping_match_passes:
  "py_count ''aa'' ''aaa'' = 1 \<and> py_replace_once ''aa'' ''b'' ''aaa'' = ''ba'' \<and>
   prefix ''aa'' (drop 0 ''aaa'') \<and> prefix ''aa'' (drop 1 ''aaa'')"
  by code_simp

text \<open>A file whose whole name is an extension of the list is not protected: it has no suffix.\<close>
theorem bare_key_file_is_exposed:
  "list_files (Dir [(''.key'', File ''k'' 384 1), (''id.key'', File ''k'' 384 1), (''.pem'', File ''k'' 384 1)])
     = Inr [[''.key''], [''.pem'']]"
  by code_simp

section \<open>Refusals\<close>

lemma finish_completed:
  "finish_create env request before destination t = Inr r \<Longrightarrow> wx_completed r"
  "finish_patch env request before path t = Inr r \<Longrightarrow> wx_completed r"
  "finish_rename env request before destination t = Inr r \<Longrightarrow> wx_completed r"
  by (auto simp: finish_create_def finish_patch_def finish_rename_def try_work_Inr completed_def)

lemma commit_changed:
  assumes "optimistic_commit undisturbed request detail checks revision write finish t = (res, t')" and "t' \<noteq> t"
  obtains before p where "checks t = Inr (Inr (before, p))" "write p t = Inr t'" "res = finish before p t'"
  using assms
  by (auto simp: optimistic_commit_def undisturbed_def Let_def split: sum.splits if_splits)

lemma patch_changed_completes:
  assumes "execute_patch env undisturbed now request input t = (res, t')" and "t' \<noteq> t"
  shows "\<exists>r. res = Inr r \<and> wx_completed r"
proof -
  obtain before path updated where c: "check_patch env request input t = Inr (Inr (before, path, updated))"
    and w: "atomic_write now path updated t = Inr t'" and res: "res = finish_patch env request before path t'"
    using commit_changed [OF assms(1) [unfolded execute_patch_def] assms(2)] by (auto split: prod.splits)
  obtain ref where "path_from_ref t ref = Inr path" using check_patch_Inr(2) [OF c] by blast
  from path_from_ref_parts(2,4) [OF this] obtain b m n where "find_node path t = Some (File b m n)" "path \<noteq> []"
    by (auto simp: is_file_at_def split: option.splits node.splits)
  with w have "find_node path t' = Some (File updated m now)"
    by (auto simp: atomic_write_def dest: put_node_find split: option.splits)
  then have "\<exists>r. res = Inr r"
    unfolding res by (auto simp: finish_patch_def file_revision_def read_file_def)
  then show ?thesis using finish_completed(2) res by metis
qed

lemma rename_changed_completes:
  assumes "execute_rename env undisturbed request input t = (res, t')" and "t' \<noteq> t"
  shows "\<exists>r. res = Inr r \<and> wx_completed r"
proof -
  obtain before source destination where
    w: "rename_node source destination t = Inr t'" and res: "res = finish_rename env request before destination t'"
    using assms unfolding execute_rename_def by (elim commit_changed) (auto split: prod.splits)
  then obtain b m n where "find_node destination t' = Some (File b m n)"
    by (auto simp: rename_node_def dest: put_node_find split: option.splits node.splits)
  then have "\<exists>r. res = Inr r"
    unfolding res by (auto simp: finish_rename_def file_revision_def read_file_def)
  then show ?thesis using finish_completed(3) res by metis
qed

lemma create_changed:
  assumes "execute_create env undisturbed now request input t = (res, t')" and "t' \<noteq> t"
  shows "(\<exists>r. res = Inr r \<and> wx_completed r) \<or> (\<exists>e. res = Inl e)"
proof -
  obtain before destination where "res = finish_create env request before destination t'"
    using assms unfolding execute_create_def by (elim commit_changed) (auto split: prod.splits)
  then show ?thesis using finish_completed(1) [of env request before destination t']
    by (cases "finish_create env request before destination t'") auto
qed

text \<open>C23: When no other program interferes, an answer that is not a completed change means that the
  project is as it was. The one exception is the creation of a file: an error can be reported after
  the file has been written, because the project is read again for the answer.\<close>
theorem refusals_leave_project_unchanged:
  assumes "dict_get request ''capabilityId'' = Some (PStr c)" and "c \<in> set file_capabilities"
    and "execute_work env undisturbed now sheets request t = (res, t')" and "t' \<noteq> t"
  shows "(\<exists>r. res = Inr r \<and> wx_completed r) \<or> (c = ''project.file.create'' \<and> (\<exists>e. res = Inl e))"
proof (cases rule: execute_work_cases [OF assms(1,2), of env undisturbed now sheets t])
  case (2 input)
  then show ?thesis using assms(3,4) create_changed [of env now request input t res t'] by auto
next
  case (3 input)
  then show ?thesis using assms(3,4) patch_changed_completes [of env now request input t res t'] by auto
next
  case (4 input)
  then show ?thesis using assms(3,4) rename_changed_completes [of env request input t res t'] by auto
qed (use assms(3,4) in simp)

lemma refusals_leave_project_unchanged_witness:
  "\<exists>r. (Inr sample_answer :: work_error + work_result) = Inr r \<and> wx_completed r"
proof -
  have "patched_project \<noteq> sample_project" by code_simp
  moreover have "dict_get sample_patch ''capabilityId'' = Some (PStr ''project.file.patch_text'')" by code_simp
  moreover have "''project.file.patch_text'' \<in> set file_capabilities" by (simp add: file_capabilities_def)
  ultimately show ?thesis using refusals_leave_project_unchanged [OF _ _ sample_work_runs] by simp
qed

subsection \<open>The file that fills the project\<close>

text \<open>A flat project with as many files as the work plane supports.\<close>

definition plain_name :: "nat \<Rightarrow> string" where "plain_name k = CHR ''f'' # replicate k CHR ''x''"

definition full_entries :: "nat \<Rightarrow> (string \<times> node) list" where
  "full_entries n = map (\<lambda>k. (plain_name k, File [] 420 1)) [0..<n]"

lemma plain_name_unprotected: "\<not> protected_part (plain_name k)"
proof -
  have all: "takeWhile (\<lambda>c. c \<noteq> CHR ''.'') (rev (plain_name k)) = rev (plain_name k)"
    by (simp add: takeWhile_eq_all_conv plain_name_def)
  have "py_suffix (plain_name k) = []" unfolding py_suffix_def all Let_def by simp
  moreover have "py_lower (plain_name k) = CHR ''f'' # py_lower (replicate k CHR ''x'')"
    by (simp add: plain_name_def py_lower_def) code_simp
  ultimately show ?thesis
    by (simp add: protected_part_def protected_names_def py_startswith_def) (simp add: py_lower_def)
qed

lemma walk_flat:
  assumes "\<And>e. e \<in> set es \<Longrightarrow> (\<exists>b m n. snd e = File b m n) \<and> \<not> protected_part (fst e)"
  shows "walk_tree [] (Dir es) = map (\<lambda>e. [fst e]) (sort_key fst es)"
proof -
  have "filter (\<lambda>e. (case snd e of File _ _ _ \<Rightarrow> True | _ \<Rightarrow> False) \<and> \<not> protected_path [fst e]) (sort_key fst es)
      = sort_key fst es"
    using assms by (fastforce simp: filter_id_conv protected_path_Cons)
  moreover have "concat (map (\<lambda>e. case snd e of
      Dir _ \<Rightarrow> if protected_path [fst e] then [] else walk_tree [fst e] (snd e) | _ \<Rightarrow> []) (sort_key fst es)) = []"
    using assms by (fastforce simp: concat_eq_Nil_conv)
  ultimately show ?thesis
    unfolding walk_tree.simps Let_def append_Nil by (simp only: append_Nil2)
qed

lemma full_entries_member:
  "e \<in> set (full_entries n) \<Longrightarrow> \<exists>k. e = (plain_name k, File [] 420 1)"
  by (auto simp: full_entries_def)

lemma map_of_full_g: "map_of (full_entries n) ''g'' = None"
  by (auto simp: map_of_eq_None_iff full_entries_def plain_name_def)

lemma dict_set_new: "map_of d k = None \<Longrightarrow> dict_set k v d = d @ [(k, v)]"
  by (induction d) (auto split: if_splits)

lemma collect_work_ok: "(\<And>x. x \<in> set xs \<Longrightarrow> \<exists>y. f x = Inr y) \<Longrightarrow> \<exists>ys. collect_work f xs = Inr ys"
proof (induction xs)
  case (Cons x xs)
  from Cons(2) [of x] obtain y where "f x = Inr y" by auto
  moreover obtain ys where "collect_work f xs = Inr ys" using Cons by fastforce
  ultimately show ?case by simp
qed simp

lemma plain_name_utf8: "utf8_valid (plain_name k)"
  by (rule utf8_valid_ascii) (simp add: plain_name_def list_all_iff, code_simp)

lemma full_revision:
  assumes "n \<le> max_files"
  shows "\<exists>ls. directory_revision sha (Dir (full_entries n)) = Inr (revision_prefix @ sha ls)"
proof -
  let ?t = "Dir (full_entries n)"
  have walk: "walk_tree [] ?t = map (\<lambda>e. [fst e]) (sort_key fst (full_entries n))"
    by (rule walk_flat) (use full_entries_member plain_name_unprotected in fastforce)
  then have "length (walk_tree [] ?t) = n" by (simp add: full_entries_def)
  then obtain ps where ps: "list_files ?t = Inr ps" "set ps = set (walk_tree [] ?t)"
    using assms by (simp add: list_files_def Let_def)
  have "\<exists>y. revision_line p ?t = Inr y" if "p \<in> set ps" for p
  proof -
    have "p \<in> (\<lambda>e. [fst e]) ` set (full_entries n)" using that unfolding ps(2) walk by (simp only: set_map set_sort)
    then obtain e where e: "p = [fst e]" "e \<in> set (full_entries n)" by (rule imageE)
    then obtain k where k: "fst e = plain_name k" using full_entries_member by fastforce
    obtain u where "map_of (full_entries n) (fst e) = Some u"
      using e(2) by (metis map_of_eq_None_iff not_None_eq image_eqI)
    moreover from map_of_SomeD [OF this] have "u = File [] 420 1" using full_entries_member by fastforce
    ultimately show ?thesis
      using plain_name_utf8 [of k] by (simp add: revision_line_def e(1) k as_posix_def)
  qed
  from collect_work_ok [of ps "\<lambda>p. revision_line p ?t", OF this] obtain ls where "collect_work (\<lambda>p. revision_line p ?t) ps = Inr ls" by blast
  then show ?thesis using ps(1) by (auto simp: directory_revision_def)
qed

definition full_request :: work_request where
  "full_request = [(''capabilityId'', PStr ''project.file.create''), (''targetRef'', PStr project_ref),
     (''ifRevision'', PStr ''sha256:d'')]"

definition full_input :: work_request where
  "full_input = [(''path'', PStr ''g''), (''content'', PStr ''hi'')]"

text \<open>The answer can contradict the effect: in a project with as many files as the work plane
  supports, the creation of one more passes every check and writes the file, and then answers that the
  project is too large, because the answer needs the revision of the project it has made too large.\<close>
theorem last_file_is_written_and_refused:
  "\<exists>t'. execute_create (sample_work_env\<lparr>we_sha := (\<lambda>_. ''d'')\<rparr>) undisturbed 7 full_request full_input
       (Dir (full_entries max_files))
     = (Inl (Bridge ''project_too_large: Work Plane supports at most 10000 files''), t') \<and>
     find_node [''g''] t' = Some (File ''hi'' 384 7)"
proof -
  let ?env = "sample_work_env\<lparr>we_sha := (\<lambda>_. ''d'')\<rparr>"
  let ?t = "Dir (full_entries max_files)"
  let ?u = "Dir (full_entries max_files @ [(''g'', File ''hi'' 384 7)])"
  have rev: "directory_revision (\<lambda>_. ''d'') ?t = Inr ''sha256:d''"
    using full_revision [OF order_refl, of "\<lambda>_. ''d''"] by (simp add: revision_prefix_def)
  have "logical_path ''g'' = Inr [''g'']" "dict_get full_input ''path'' = Some (PStr ''g'')"
    "dict_get full_input ''content'' = Some (PStr ''hi'')" "ensure_revision full_request ''sha256:d'' = Inr None"
    "required_string full_input ''path'' 240 = Inr ''g''"
    by code_simp+
  moreover have "bounded_string full_input ''content'' max_file_bytes = Inr ''hi''"
    by (simp add: full_input_def max_file_bytes_def)
  ultimately have c: "check_create ?env full_request full_input ?t = Inr (Inr (''sha256:d'', [''g''], ''hi''))"
    by (simp add: check_create_def rev resolve_relative_def map_of_full_g del: required_string_Inr bounded_string_Inr)
  have w: "atomic_write 7 [''g''] ''hi'' ?t = Inr ?u"
    by (simp add: atomic_write_def map_of_full_g dict_set_new)
  have "walk_tree [] ?u = map (\<lambda>e. [fst e]) (sort_key fst (full_entries max_files @ [(''g'', File ''hi'' 384 7)]))"
  proof (rule walk_flat, goal_cases)
    case (1 e)
    then consider "e \<in> set (full_entries max_files)" | "e = (''g'', File ''hi'' 384 7)" by auto
    then show ?case
    proof cases
      case 1
      then obtain k where "e = (plain_name k, File [] 420 1)" using full_entries_member by blast
      then show ?thesis using plain_name_unprotected by simp
    next
      case 2
      have "\<not> protected_part ''g''" by code_simp
      then show ?thesis using 2 by simp
    qed
  qed
  then have "length (walk_tree [] ?u) = Suc max_files" by (simp add: full_entries_def del: walk_tree.simps)
  then have "list_files ?u = Inl (Bridge ''project_too_large: Work Plane supports at most 10000 files'')"
    by (simp add: list_files_def Let_def del: walk_tree.simps)
  moreover have "\<exists>r. file_resource ?env ?u [''g''] = Inr r"
  proof -
    have "utf8_valid (as_posix [''g''])" by code_simp
    then show ?thesis by (simp add: file_resource_def read_file_def map_of_full_g map_add_def Let_def)
  qed
  ultimately have "finish_create ?env full_request ''sha256:d'' [''g''] ?u
      = Inl (Bridge ''project_too_large: Work Plane supports at most 10000 files'')"
    by (auto simp: finish_create_def directory_revision_def)
  then show ?thesis
    by (simp add: execute_create_def optimistic_commit_def c rev w undisturbed_def Let_def map_of_full_g map_add_def)
qed

end
