(* ===== verification/Work_Cells.thy ===== *)
theory Work_Cells
  imports Work_Plane
begin

text \<open>
  The spreadsheet side of the work plane (\<^verbatim>\<open>work_plane_bridge.py\<close>) up to LibreOffice: ranges, cell
  values, formulas, formats and the validation of tables, conditional formats and pivots. The regular
  expressions are written out as the readers they amount to. Setting a range yields the list of cell
  writes that the source makes on the document.
\<close>

section \<open>Columns and ranges\<close>

definition column_index :: "string \<Rightarrow> int" where
  "column_index value = foldl (\<lambda>result character. result * 26 + int (code character) - 65 + 1) 0 value - 1"

function column_loop :: "nat \<Rightarrow> string \<Rightarrow> string" where
  "column_loop value result =
     (if value = 0 then result
      else column_loop ((value - 1) div 26) (char_of (65 + (value - 1) mod 26) # result))"
  by pat_completeness auto
termination by (relation "measure fst") auto

declare column_loop.simps [simp del]

definition column_name :: "nat \<Rightarrow> string" where
  "column_name index = column_loop (index + 1) []"

definition drop_dollar :: "string \<Rightarrow> string" where
  "drop_dollar s = (case s of c # cs \<Rightarrow> if c = CHR ''$'' then cs else s | [] \<Rightarrow> [])"

fun decimal_value :: "string \<Rightarrow> nat \<Rightarrow> nat" where
  "decimal_value [] n = n"
| "decimal_value (c # s) n = decimal_value s (10 * n + (code c - 48))"

text \<open>\<open>\$?([A-Z]{1,3})\$?([1-9][0-9]{0,6})\<close> at the start of a text: column, row, the rest. The next
  thing the whole expression allows is a colon or the end, so a longer run cannot match.\<close>

definition read_cell :: "string \<Rightarrow> (string \<times> string \<times> string) option" where
  "read_cell s =
     (let s1 = drop_dollar s; letters = takeWhile is_upper s1;
          s2 = drop_dollar (dropWhile is_upper s1); digits = takeWhile is_digit s2 in
      if letters \<noteq> [] \<and> length letters \<le> 3 \<and> digits \<noteq> [] \<and> hd digits \<noteq> CHR ''0'' \<and> length digits \<le> 7
      then Some (letters, digits, dropWhile is_digit s2) else None)"

definition read_cell_range :: "string \<Rightarrow> ((string \<times> string) \<times> (string \<times> string) option) option" where
  "read_cell_range s =
     (case read_cell s of
        None \<Rightarrow> None
      | Some (c, r, rest) \<Rightarrow>
          (case rest of
             [] \<Rightarrow> Some ((c, r), None)
           | x # others \<Rightarrow>
               if x = CHR '':'' then
                 (case read_cell others of
                    Some (c', r', []) \<Rightarrow> Some ((c, r), Some (c', r'))
                  | _ \<Rightarrow> None)
               else None))"

type_synonym cell_range = "int \<times> int \<times> int \<times> int"

definition parse_range :: "string \<Rightarrow> int \<Rightarrow> work_error + cell_range" where
  "parse_range value limit =
     (case read_cell_range (py_upper value) of
        None \<Rightarrow> Inl (Bridge ''invalid_range: expected an A1 range'')
      | Some ((c, r), stop) \<Rightarrow>
          let start_column = column_index c;
              start_row = int (decimal_value r 0) - 1;
              end_column = column_index (case stop of Some (c', _) \<Rightarrow> c' | None \<Rightarrow> c);
              end_row = int (decimal_value (case stop of Some (_, r') \<Rightarrow> r' | None \<Rightarrow> r) 0) - 1 in
          if end_column < start_column \<or> end_row < start_row
          then Inl (Bridge ''invalid_range: range end precedes start'')
          else if limit < (end_column - start_column + 1) * (end_row - start_row + 1)
          then Inl (Bridge (''range_too_large: at most '' @ int_text limit @ '' cells are allowed''))
          else Inr (start_column, start_row, end_column, end_row))"

text \<open>\<open>range_address_text\<close>, with which the plane reports the range of an object; \<open>used_range\<close> prints
  the address of the cursor in the same way.\<close>

definition range_address_text :: "nat \<times> nat \<times> nat \<times> nat \<Rightarrow> string" where
  "range_address_text a =
     (case a of (sc, sr, ec, er) \<Rightarrow>
        column_name sc @ nat_digits (sr + 1) @ '':'' @ column_name ec @ nat_digits (er + 1))"

section \<open>Formulas and values\<close>

definition safe_formula_functions :: "string list" where
  "safe_formula_functions =
     [''ABS'', ''AND'', ''AVERAGE'', ''AVERAGEIF'', ''AVERAGEIFS'', ''COUNT'', ''COUNTA'', ''COUNTIF'',
      ''COUNTIFS'', ''HLOOKUP'', ''IF'', ''IFERROR'', ''INDEX'', ''MAX'', ''MAXIFS'', ''MATCH'', ''MIN'',
      ''MINIFS'', ''NOT'', ''OR'', ''POWER'', ''RANK'', ''RANK.EQ'', ''ROUND'', ''SQRT'', ''SUM'', ''SUMIF'',
      ''SUMIFS'', ''VLOOKUP'']"

definition formula_char :: "char \<Rightarrow> bool" where
  "formula_char c \<longleftrightarrow> is_alnum c \<or> c \<in> set ''_.$:+-*/(),; <>=''"

definition formula_characters :: "string \<Rightarrow> bool" where
  "formula_characters s \<longleftrightarrow> (case s of c # cs \<Rightarrow> c = CHR ''='' \<and> cs \<noteq> [] \<and> list_all formula_char cs | [] \<Rightarrow> False)"

definition name_start :: "char \<Rightarrow> bool" where
  "name_start c \<longleftrightarrow> is_upper c \<or> is_lower c \<or> c = CHR ''_''"

definition name_char :: "char \<Rightarrow> bool" where
  "name_char c \<longleftrightarrow> is_alnum c \<or> c = CHR ''_'' \<or> c = CHR ''.''"

lemma shorter_after_name:
  assumes "x # others = dropWhile is_space (dropWhile name_char s)"
  shows "length others < Suc (length s)"
proof -
  have "length (x # others) \<le> length s" unfolding assms by (meson le_trans length_dropWhile_le)
  then show ?thesis by simp
qed

text \<open>The first group of \<open>FORMULA_FUNCTION.findall\<close>: names in front of a parenthesis, from left to right.\<close>

function formula_calls :: "string \<Rightarrow> string list" where
  "formula_calls [] = []"
| "formula_calls (c # s) =
     (if name_start c then
        (let after = dropWhile is_space (dropWhile name_char s) in
         case after of
           [] \<Rightarrow> formula_calls s
         | x # others \<Rightarrow> if x = CHR ''('' then (c # takeWhile name_char s) # formula_calls others else formula_calls s)
      else formula_calls s)"
  by pat_completeness auto
termination by (relation "measure length") (auto dest: shorter_after_name)

definition validate_formula :: "string \<Rightarrow> work_error + unit" where
  "validate_formula value =
     (if 4096 < text_length value \<or> \<not> formula_characters value
        \<or> list_ex (\<lambda>f. py_upper f \<notin> set safe_formula_functions) (formula_calls value)
      then Inl (Bridge ''unsafe_formula: preview formulas must be data-only'') else Inr ())"

definition max_cell_text :: nat where "max_cell_text = 16384"

definition validate_scalar :: "pyval \<Rightarrow> work_error + unit" where
  "validate_scalar v =
     (case v of
        PNone \<Rightarrow> Inr () | PBool _ \<Rightarrow> Inr () | PInt _ \<Rightarrow> Inr () | PFloat _ \<Rightarrow> Inr ()
      | PStr s \<Rightarrow> if text_length s \<le> max_cell_text then Inr ()
          else Inl (Bridge ''invalid_cell: unsupported or oversized cell value'')
      | _ \<Rightarrow> Inl (Bridge ''invalid_cell: unsupported or oversized cell value''))"

text \<open>The value of a dictionary whose one key is \<open>formula\<close>, when it is a text; a list value.\<close>

definition formula_of :: "work_request \<Rightarrow> string option" where
  "formula_of d =
     (if set (map fst d) = {''formula''}
      then (case dict_get d ''formula'' of Some (PStr f) \<Rightarrow> Some f | _ \<Rightarrow> None) else None)"

definition value_of :: "work_request \<Rightarrow> pyval" where
  "value_of d = get_or d ''value'' PNone"

definition list_of :: "pyval option \<Rightarrow> pyval list option" where
  "list_of v = (case v of Some (PList xs) \<Rightarrow> Some xs | _ \<Rightarrow> None)"

definition validate_cell_value :: "pyval \<Rightarrow> work_error + unit" where
  "validate_cell_value v =
     (case v of
        PDict d \<Rightarrow>
          (case formula_of d of
             Some f \<Rightarrow> validate_formula f
           | None \<Rightarrow>
               if set (map fst d) = {''value''} then validate_scalar (value_of d)
               else Inl (Bridge ''invalid_cell: use a scalar, {value}, or {formula}''))
      | _ \<Rightarrow> validate_scalar v)"

text \<open>What \<open>set_cell\<close> calls on the cell.\<close>

datatype cell_write = Set_Formula string | Set_String string | Set_Value pyfloat

definition scalar_write :: "pyval \<Rightarrow> cell_write option" where
  "scalar_write v =
     (case v of
        PNone \<Rightarrow> Some (Set_String [])
      | PBool b \<Rightarrow> Some (Set_Value (if b then 1 else 0))
      | PInt i \<Rightarrow> Some (Set_Value (of_int i))
      | PFloat r \<Rightarrow> Some (Set_Value r)
      | PStr s \<Rightarrow> if text_length s \<le> max_cell_text then Some (Set_String s) else None
      | _ \<Rightarrow> None)"

definition set_cell :: "pyval \<Rightarrow> work_error + cell_write option" where
  "set_cell v =
     try_work (validate_cell_value v) (\<lambda>_. Inr
       (case v of
          PDict d \<Rightarrow>
            (case formula_of d of
               Some f \<Rightarrow> Some (Set_Formula f)
             | None \<Rightarrow> scalar_write (value_of d))
        | _ \<Rightarrow> scalar_write v))"

definition row_writes :: "nat \<Rightarrow> pyval list \<Rightarrow> work_error + ((nat \<times> nat) \<times> cell_write option) list" where
  "row_writes row cells =
     collect_work (\<lambda>(column, v). try_work (set_cell v) (\<lambda>w. Inr ((column, row), w))) (enumerate 0 cells)"

definition row_fits :: "int \<Rightarrow> pyval \<Rightarrow> bool" where
  "row_fits columns row = (case row of PList vs \<Rightarrow> int (length vs) = columns | _ \<Rightarrow> False)"

definition row_cells :: "pyval \<Rightarrow> pyval list" where
  "row_cells row = (case row of PList vs \<Rightarrow> vs | _ \<Rightarrow> [])"

text \<open>\<open>apply_spreadsheet_set\<close>: the sheet and range it reports and its writes, by column and row
  relative to the range. \<open>has_sheet\<close> is the document's.\<close>

definition apply_spreadsheet_set ::
  "(string \<Rightarrow> bool) \<Rightarrow> work_request \<Rightarrow>
     work_error + (string \<times> string \<times> ((nat \<times> nat) \<times> cell_write option) list)"
where
  "apply_spreadsheet_set has_sheet input =
     try_work (required_string input ''sheet'' 200) (\<lambda>sheet_name.
     try_work (required_string input ''range'' 100) (\<lambda>raw.
       let range_name = py_upper raw in
       try_work (parse_range range_name (int max_cells)) (\<lambda>(start_column, start_row, end_column, end_row).
         let rows = end_row - start_row + 1; columns = end_column - start_column + 1 in
         case list_of (dict_get input ''cells'') of
           Some cells \<Rightarrow>
             if int (length cells) \<noteq> rows \<or> \<not> list_all (row_fits columns) cells
             then Inl (Bridge ''invalid_cells: cells must match the requested rectangular range'')
             else
               try_work (collect_work validate_cell_value (concat (map row_cells cells))) (\<lambda>_.
                 if \<not> has_sheet sheet_name
                 then Inl (Bridge ''sheet_not_found: workbook does not contain the requested sheet'')
                 else try_work (collect_work (\<lambda>(row, cs). row_writes row (row_cells cs)) (enumerate 0 cells)) (\<lambda>ws.
                   Inr (sheet_name, range_name, concat ws)))
         | None \<Rightarrow> Inl (Bridge ''invalid_cells: cells must match the requested rectangular range''))))"

section \<open>Facts about columns and ranges\<close>

lemma column_index_snoc: "column_index (w @ [c]) = (column_index w + 1) * 26 + int (code c) - 65"
  by (simp add: column_index_def)

definition column_value :: "string \<Rightarrow> int" where
  "column_value w = column_index w + 1"

lemma column_value_simps [simp]:
  "column_value [] = 0" "column_value (w @ [c]) = column_value w * 26 + int (code c) - 64"
  by (simp_all add: column_value_def column_index_def)

lemma column_value_append: "column_value (u @ w) = column_value u * 26 ^ length w + column_value w"
  by (induction w rule: rev_induct) (simp_all add: append_assoc [symmetric] algebra_simps del: append_assoc)

lemma column_loop_value: "column_value (column_loop v r) = int v * 26 ^ length r + column_value r"
proof (induction v r rule: column_loop.induct)
  case (1 v r)
  show ?case
  proof (cases "v = 0")
    case False
    obtain q m where q: "(v - 1) div 26 = q" and m: "(v - 1) mod 26 = m" by simp
    have v: "v = q * 26 + m + 1" and m26: "m < 26"
      using False div_mult_mod_eq [of "v - 1" 26] q m mod_less_divisor [of 26 "v - 1"] by linarith+
    have code: "code (char_of (65 + m)) = 65 + m" by (rule code_char_of) (use m26 in linarith)
    have "column_loop v r = column_loop q (char_of (65 + m) # r)"
      unfolding column_loop.simps [of v r] q m using False by simp
    moreover have "column_value (char_of (65 + m) # r) = (int m + 1) * 26 ^ length r + column_value r"
      using column_value_append [of "[char_of (65 + m)]" r] column_value_simps(2) [of "[]" "char_of (65 + m)"]
      by (simp add: code)
    moreover have "column_value (column_loop q (char_of (65 + m) # r))
        = int q * 26 ^ Suc (length r) + column_value (char_of (65 + m) # r)"
      using 1 [OF False] unfolding q m by simp
    moreover have "int v = int q * 26 + int m + 1" using v by simp
    ultimately show ?thesis by (simp add: algebra_simps)
  qed (simp add: column_loop.simps)
qed

lemma column_index_name: "column_index (column_name n) = int n"
proof -
  have "column_value (column_name n) = int n + 1"
    unfolding column_name_def using column_loop_value [of "n + 1" "[]"] by simp
  then show ?thesis by (simp add: column_value_def)
qed

lemma column_loop_upper: "list_all is_upper r \<Longrightarrow> list_all is_upper (column_loop v r)"
proof (induction v r rule: column_loop.induct)
  case (1 v r)
  have "65 + (v - 1) mod 26 < 256" "(v - 1) mod 26 < 26" using mod_less_divisor [of 26 "v - 1"] by linarith+
  then have "is_upper (char_of (65 + (v - 1) mod 26))" by (simp add: is_upper_def)
  with 1 show ?case by (subst column_loop.simps) simp
qed

lemma column_loop_not_Nil: "v \<noteq> 0 \<or> r \<noteq> [] \<Longrightarrow> column_loop v r \<noteq> []"
  by (induction v r rule: column_loop.induct) (subst column_loop.simps, auto)

lemma upper_code: "is_upper c \<Longrightarrow> 65 \<le> int (code c) \<and> int (code c) \<le> 90"
  by (auto simp: is_upper_def)

lemma column_value_large: "list_all is_upper w \<Longrightarrow> 26 ^ length w \<le> 25 * column_value w + 1"
proof (induction w rule: rev_induct)
  case (snoc c w)
  then show ?case using upper_code [of c] by simp
qed simp

lemma column_value_pos: "list_all is_upper w \<Longrightarrow> 0 \<le> column_value w"
  using column_value_large [of w] one_le_power [of "26::int" "length w"] by linarith

lemma column_name_upper: "list_all is_upper (column_name n)"
  by (simp add: column_name_def column_loop_upper)

lemma column_name_length:
  assumes "n < 18278"
  shows "length (column_name n) \<le> 3"
proof (rule ccontr)
  assume "\<not> ?thesis"
  then have "(26::int) ^ 4 \<le> 26 ^ length (column_name n)" by (intro power_increasing) auto
  also have "\<dots> \<le> 25 * column_value (column_name n) + 1" by (rule column_value_large [OF column_name_upper])
  also have "column_value (column_name n) = int n + 1" using column_index_name by (simp add: column_value_def)
  finally show False using assms by simp
qed

lemma column_value_inject:
  "list_all is_upper u \<Longrightarrow> list_all is_upper w \<Longrightarrow> column_value u = column_value w \<Longrightarrow> u = w"
proof (induction u arbitrary: w rule: rev_induct)
  case Nil
  then show ?case
    using column_value_pos upper_code by (cases w rule: rev_cases) (simp, fastforce)
next
  case (snoc c u)
  show ?case
  proof (cases w rule: rev_cases)
    case Nil
    then show ?thesis using snoc(2,4) column_value_pos [of u] upper_code [of c] by simp
  next
    case w: (snoc w' d)
    have "column_value u * 26 + int (code c) = column_value w' * 26 + int (code d)" using snoc(4) w by simp
    moreover have "65 \<le> int (code c)" "int (code c) \<le> 90" "65 \<le> int (code d)" "int (code d) \<le> 90"
      using snoc(2,3) w upper_code [of c] upper_code [of d] by auto
    ultimately have v: "column_value u = column_value w'" by linarith
    with snoc(4) w have "code c = code d" by simp
    with v show ?thesis using snoc(1) [of w'] snoc(2,3) w by (simp add: code_inject)
  qed
qed

lemma column_name_index:
  assumes "list_all is_upper w" and "w \<noteq> []"
  shows "column_name (nat (column_index w)) = w"
proof (rule column_value_inject [OF column_name_upper assms(1)])
  have "0 \<le> column_index w"
    using assms column_value_pos upper_code by (cases w rule: rev_cases) (fastforce simp: column_index_snoc column_value_def)+
  then show "column_value (column_name (nat (column_index w))) = column_value w"
    by (simp add: column_value_def column_index_name)
qed

lemma hex_digit_code: "n < 10 \<Longrightarrow> code (hex_digit n) = 48 + n"
  unfolding hex_digit_def by (simp add: code_char_of)

lemma nat_digits_digits: "list_all is_digit (nat_digits n)"
proof (induction n rule: nat_digits.induct)
  case (1 n)
  show ?case
  proof (cases "n < 10")
    case False
    have "is_digit (hex_digit (n mod 10))" by (simp add: is_digit_def hex_digit_code)
    with 1 [OF False] False show ?thesis by (subst nat_digits.simps) simp
  qed (subst nat_digits.simps, simp add: is_digit_def hex_digit_code)
qed

lemma decimal_value_append: "decimal_value (u @ w) n = decimal_value w (decimal_value u n)"
  by (induction u n rule: decimal_value.induct) simp_all

lemma decimal_value_nat_digits: "decimal_value (nat_digits n) 0 = n"
proof (induction n rule: nat_digits.induct)
  case (1 n)
  show ?case
  proof (cases "n < 10")
    case True
    then show ?thesis by (subst nat_digits.simps) (simp add: hex_digit_code)
  next
    case False
    with 1 [OF False] show ?thesis
      by (subst nat_digits.simps) (simp add: decimal_value_append hex_digit_code)
  qed
qed

lemma nat_digits_not_Nil [simp]: "nat_digits n \<noteq> []"
  by (subst nat_digits.simps) simp

lemma nat_digits_head: "0 < n \<Longrightarrow> hd (nat_digits n) \<noteq> CHR ''0''"
proof (induction n rule: nat_digits.induct)
  case (1 n)
  show ?case
  proof (cases "n < 10")
    case True
    have "code (hex_digit n) \<noteq> code (CHR ''0'')" using True 1(2) by (simp add: hex_digit_code) (simp add: code_def)
    then have "hex_digit n \<noteq> CHR ''0''" by metis
    with True show ?thesis by (subst nat_digits.simps) simp
  next
    case False
    have "hd (nat_digits n) = hd (nat_digits (n div 10))"
      using False by (subst nat_digits.simps) (simp add: hd_append)
    with 1 False show ?thesis by simp
  qed
qed

lemma nat_digits_length: "n < 10 ^ k \<Longrightarrow> 0 < k \<Longrightarrow> length (nat_digits n) \<le> k"
proof (induction k arbitrary: n)
  case (Suc k)
  show ?case
  proof (cases "n < 10")
    case True
    then show ?thesis by (subst nat_digits.simps) simp
  next
    case False
    then have "0 < k" using Suc(2) by (cases k) auto
    moreover have "n div 10 < 10 ^ k" using Suc(2) by (simp add: less_mult_imp_div_less mult.commute)
    ultimately have "length (nat_digits (n div 10)) \<le> k" by (rule Suc(1) [rotated])
    with False show ?thesis by (subst nat_digits.simps) simp
  qed
qed simp

lemma upper_not_digit: "is_upper c \<Longrightarrow> \<not> is_digit c" "is_digit c \<Longrightarrow> \<not> is_upper c"
  by (auto simp: is_upper_def is_digit_def)

lemma not_dollar: "is_upper c \<Longrightarrow> c \<noteq> CHR ''$''" "is_digit c \<Longrightarrow> c \<noteq> CHR ''$''"
  by (auto simp: is_upper_def is_digit_def code_def)

lemma drop_dollar_skip: "list_all P s \<Longrightarrow> s \<noteq> [] \<Longrightarrow> (\<And>c. P c \<Longrightarrow> c \<noteq> CHR ''$'') \<Longrightarrow> drop_dollar (s @ t) = s @ t"
  by (cases s) (auto simp: drop_dollar_def)

lemma read_cell_text:
  assumes "list_all is_upper l" and "l \<noteq> []" and "length l \<le> 3" and "list_all is_digit d" and "d \<noteq> []"
    and "hd d \<noteq> CHR ''0''" and "length d \<le> 7" and "t = [] \<or> hd t = CHR '':''"
  shows "read_cell (l @ d @ t) = Some (l, d, t)"
proof -
  obtain x xs where d: "d = x # xs" using assms(5) by (cases d) auto
  have x: "is_digit x" "\<not> is_upper x" using assms(4) d upper_not_digit by auto
  have colon: "\<not> is_digit CHR '':''" by code_simp
  have "takeWhile is_upper (l @ d @ t) = l" "dropWhile is_upper (l @ d @ t) = d @ t"
    using assms(1) x by (simp_all add: d list_all_iff)
  moreover have "takeWhile is_digit (d @ t) = d" "dropWhile is_digit (d @ t) = t"
    using assms(4,8) colon by (cases t; simp add: list_all_iff)+
  moreover have "drop_dollar (l @ d @ t) = l @ d @ t" "drop_dollar (d @ t) = d @ t"
    using assms drop_dollar_skip [of is_upper l "d @ t"] drop_dollar_skip [of is_digit d t] not_dollar by auto
  ultimately show ?thesis using assms by (simp add: read_cell_def Let_def)
qed

lemma py_upper_append: "py_upper (a @ b) = py_upper a @ py_upper b"
  by (simp add: py_upper_def)

lemma py_upper_id: "list_all (\<lambda>c. \<not> is_lower c) s \<Longrightarrow> py_upper s = s"
  by (induction s) (simp_all add: py_upper_def upper_char_def)

lemma upper_not_lower: "is_upper c \<Longrightarrow> \<not> is_lower c" "is_digit c \<Longrightarrow> \<not> is_lower c"
  by (auto simp: is_upper_def is_lower_def is_digit_def)

text \<open>The range the plane prints is the range it reads: the text of a rectangle of cells parses back to
  its four corners, for every rectangle the expression can name and the limit admits.\<close>
theorem printed_range_is_read_back:
  assumes "sc \<le> ec" and "sr \<le> er" and "ec < 18278" and "er + 1 < 10 ^ 7"
    and "(int ec - int sc + 1) * (int er - int sr + 1) \<le> limit"
  shows "parse_range (range_address_text (sc, sr, ec, er)) limit = Inr (int sc, int sr, int ec, int er)"
proof -
  let ?t = "range_address_text (sc, sr, ec, er)"
  have cols: "list_all is_upper (column_name n)" "column_name n \<noteq> []" for n
    using column_name_upper by (simp_all add: column_name_def column_loop_not_Nil)
  have d: "list_all is_digit (nat_digits (n + 1))" "hd (nat_digits (n + 1)) \<noteq> CHR ''0''" for n
    using nat_digits_digits nat_digits_head by simp_all
  have colon: "\<not> is_lower CHR '':''" by code_simp
  have "list_all (\<lambda>c. \<not> is_lower c) ?t"
    using cols(1) d(1) upper_not_lower colon by (auto simp: range_address_text_def list_all_iff)
  then have up: "py_upper ?t = ?t" by (rule py_upper_id)
  have "length (nat_digits (sr + 1)) \<le> 7" "length (nat_digits (er + 1)) \<le> 7"
    by (rule nat_digits_length; use assms(2,4) in simp)+
  moreover have "length (column_name sc) \<le> 3" "length (column_name ec) \<le> 3"
    by (rule column_name_length; use assms(1,3) in simp)+
  ultimately have "read_cell ?t = Some (column_name sc, nat_digits (sr + 1), '':'' @ column_name ec @ nat_digits (er + 1))"
    "read_cell (column_name ec @ nat_digits (er + 1) @ []) = Some (column_name ec, nat_digits (er + 1), [])"
    unfolding range_address_text_def prod.case
    by (intro read_cell_text cols d nat_digits_not_Nil; simp)+
  then have "read_cell_range (py_upper ?t)
      = Some ((column_name sc, nat_digits (sr + 1)), Some (column_name ec, nat_digits (er + 1)))"
    unfolding up by (simp add: read_cell_range_def)
  then show ?thesis
    using assms by (simp add: parse_range_def Let_def column_index_name decimal_value_nat_digits)
qed

lemma read_cell_Some:
  assumes "read_cell s = Some (l, d, t)"
  shows "0 \<le> column_index l" and "1 \<le> decimal_value d 0"
proof -
  from assms have l: "list_all is_upper l" "l \<noteq> []" and d: "list_all is_digit d" "d \<noteq> []" "hd d \<noteq> CHR ''0''"
    by (auto simp: read_cell_def Let_def list_all_iff dest: set_takeWhileD split: if_splits)
  show "0 \<le> column_index l"
  proof -
    have "(26::int) ^ 1 \<le> 26 ^ length l" using l(2) by (intro power_increasing) (auto simp: Suc_le_eq)
    with column_value_large [OF l(1)] show ?thesis by (simp add: column_value_def)
  qed
  obtain x xs where x: "d = x # xs" using d(2) by (cases d) auto
  have grow: "n \<le> decimal_value u n" for u n
  proof (induction u n rule: decimal_value.induct)
    case (2 c s n)
    then show ?case by simp
  qed simp
  have "CHR ''0'' = char_of (48::nat)" by code_simp
  then have "x \<noteq> char_of (48::nat)" using d(3) x by (metis list.sel(1))
  then have "code x \<noteq> 48" using code_eqD by metis
  moreover have "48 \<le> code x" using d(1) x by (simp add: is_digit_def)
  ultimately have "1 \<le> code x - 48" by linarith
  then show "1 \<le> decimal_value d 0" using grow [of "code x - 48" xs] by (simp add: x)
qed

lemma read_cell_range_Some:
  assumes "read_cell_range s = Some ((c, r), stop)"
  shows "0 \<le> column_index c \<and> 1 \<le> decimal_value r 0"
  using assms read_cell_Some by (auto simp: read_cell_range_def split: option.splits list.splits if_splits)

text \<open>What the plane accepts as a range is a rectangle: its corners are in order and not negative, and
  it has at most as many cells as the limit.\<close>
theorem accepted_range_is_bounded:
  assumes "parse_range v limit = Inr (sc, sr, ec, er)"
  shows "0 \<le> sc \<and> sc \<le> ec \<and> 0 \<le> sr \<and> sr \<le> er \<and> (ec - sc + 1) * (er - sr + 1) \<le> limit"
proof -
  obtain c r stop where r: "read_cell_range (py_upper v) = Some ((c, r), stop)"
    using assms by (auto simp: parse_range_def split: option.splits)
  show ?thesis
    using assms read_cell_range_Some [OF r]
    by (simp add: parse_range_def r Let_def not_less split: if_splits) auto
qed

section \<open>Formulas\<close>

text \<open>The text before a name does not end inside a longer name.\<close>

definition name_ends :: "string \<Rightarrow> bool" where
  "name_ends pre \<longleftrightarrow> list_all (\<lambda>c. \<not> name_start c) (takeWhile name_char (rev pre))"

lemma set_takeWhile_append: "set (takeWhile P xs) \<subseteq> set (takeWhile P (xs @ ys))"
  by (induction xs) auto

lemma name_ends_suffix: "name_ends (a @ b) \<Longrightarrow> name_ends b"
  using set_takeWhile_append [of name_char "rev b" "rev a"] by (auto simp: name_ends_def list_all_iff)

lemma name_ends_start:
  assumes "name_ends (c # pre)" and "name_start c"
  shows "\<exists>x\<in>set pre. \<not> name_char x"
proof (rule ccontr)
  assume all: "\<not> ?thesis"
  have "name_char c" using assms(2) by (auto simp: name_start_def name_char_def is_alnum_def)
  with all have "takeWhile name_char (rev (c # pre)) = rev (c # pre)" by (auto simp: takeWhile_eq_all_conv)
  from assms(1) [unfolded name_ends_def this] assms(2) show False by simp
qed

lemma name_char_blank: "name_char c \<Longrightarrow> \<not> is_space c \<and> c \<noteq> CHR ''(''" "is_space c \<Longrightarrow> c \<noteq> CHR ''('' \<and> \<not> name_char c"
  by (auto simp: name_char_def is_alnum_def is_digit_def is_upper_def is_lower_def is_space_def code_def)

lemma dropWhile_stop: "list_all P u \<Longrightarrow> \<not> P x \<Longrightarrow> dropWhile P (u @ x # v) = x # v"
  by (induction u) auto

lemma takeWhile_stop: "list_all P u \<Longrightarrow> \<not> P x \<Longrightarrow> takeWhile P (u @ x # v) = u"
  by (induction u) auto

lemma paren_not_special: "\<not> name_char CHR ''(''" "\<not> is_space CHR ''(''"
  by code_simp+

lemma name_then_paren:
  assumes "list_all name_char ns" and "list_all is_space blanks"
  shows "dropWhile is_space (dropWhile name_char (ns @ blanks @ ''('' @ post)) = CHR ''('' # post"
    and "takeWhile name_char (ns @ blanks @ ''('' @ post) = ns"
proof -
  obtain b bs where b: "blanks @ ''('' @ post = b # bs" "\<not> name_char b"
    using assms(2) paren_not_special(1) name_char_blank(2) by (cases blanks) auto
  show "takeWhile name_char (ns @ blanks @ ''('' @ post) = ns"
    unfolding b(1) by (rule takeWhile_stop [OF assms(1) b(2)])
  have "dropWhile name_char (ns @ blanks @ ''('' @ post) = blanks @ ''('' @ post"
    unfolding b(1) by (rule dropWhile_stop [OF assms(1) b(2)])
  then show "dropWhile is_space (dropWhile name_char (ns @ blanks @ ''('' @ post)) = CHR ''('' # post"
    using dropWhile_stop [OF assms(2) paren_not_special(2), of post] by simp
qed

lemma formula_calls_complete:
  assumes "list_all name_char name" and "name \<noteq> []" and "name_start (hd name)" and "list_all is_space blanks"
    and "name_ends pre"
  shows "name \<in> set (formula_calls (pre @ name @ blanks @ ''('' @ post))"
  using assms(5)
proof (induction "length pre" arbitrary: pre rule: less_induct)
  case less
  obtain n ns where n: "name = n # ns" using assms(2) by (cases name) auto
  have call: "dropWhile is_space (dropWhile name_char (ns @ blanks @ ''('' @ post)) = CHR ''('' # post"
    "takeWhile name_char (ns @ blanks @ ''('' @ post) = ns"
    using name_then_paren [of ns blanks post] assms(1,4) n by auto
  show ?case
  proof (cases pre)
    case Nil
    then show ?thesis using assms(3) call n by (simp add: Let_def)
  next
    case (Cons c pre')
    let ?s = "pre' @ name @ blanks @ ''('' @ post"
    have IH: "name \<in> set (formula_calls ?s)"
      using less Cons name_ends_suffix [of "[c]" pre'] by simp
    show ?thesis
    proof (cases "name_start c \<and> (\<exists>others. dropWhile is_space (dropWhile name_char ?s) = CHR ''('' # others)")
      case True
      then obtain others where o: "dropWhile is_space (dropWhile name_char ?s) = CHR ''('' # others" by blast
      obtain x where "x \<in> set pre'" "\<not> name_char x" using name_ends_start less(2) Cons True by blast
      then obtain u y v where u: "pre' = u @ y # v" "list_all name_char u" "\<not> name_char y"
        using split_list_first_prop [of pre' "\<lambda>x. \<not> name_char x"] by (auto simp: list_all_iff)
      have drop: "dropWhile name_char ?s = (y # v) @ name @ blanks @ ''('' @ post"
        using dropWhile_stop [OF u(2,3)] u(1) by simp
      have n': "\<not> is_space n" "n \<noteq> CHR ''(''" using assms(1) n name_char_blank(1) by auto
      show ?thesis
      proof (cases "\<forall>x\<in>set (y # v). is_space x")
        case True
        then have "dropWhile is_space (dropWhile name_char ?s) = name @ blanks @ ''('' @ post"
          unfolding drop using n n' by (subst dropWhile_append2) auto
        then show ?thesis using o n n' by simp
      next
        case False
        then obtain z where z: "z \<in> set (y # v)" "\<not> is_space z" by blast
        have "dropWhile is_space (dropWhile name_char ?s) = dropWhile is_space (y # v) @ name @ blanks @ ''('' @ post"
          unfolding drop by (rule dropWhile_append1 [of z "y # v" is_space, OF z])
        moreover have "dropWhile is_space (y # v) \<noteq> []" using z by (auto simp: dropWhile_eq_Nil_conv)
        ultimately obtain zs where zs: "dropWhile is_space (y # v) = CHR ''('' # zs"
          "others = zs @ name @ blanks @ ''('' @ post"
          using o by (cases "dropWhile is_space (y # v)") auto
        obtain sp where "y # v = sp @ CHR ''('' # zs"
          using zs(1) takeWhile_dropWhile_id by metis
        then have "pre = (c # u @ sp @ ''('') @ zs" using Cons u(1) by simp
        then have "name_ends zs" "length zs < length pre" using less(2) name_ends_suffix by (metis, simp)
        then have "name \<in> set (formula_calls others)" using less(1) zs(2) by blast
        then show ?thesis using Cons True o by (simp add: Let_def)
      qed
    next
      case False
      then show ?thesis using IH Cons by (auto simp: Let_def split: list.splits)
    qed
  qed
qed

text \<open>C25: A formula that is accepted calls nothing outside the list: every name that stands in front of a
  parenthesis, white space apart, is one of the safe functions, wherever in the formula it stands.\<close>
theorem accepted_formula_calls_safe_functions:
  assumes "validate_formula v = Inr ()"
    and "v = pre @ name @ blanks @ ''('' @ post"
    and "list_all name_char name" and "name \<noteq> []" and "name_start (hd name)"
    and "list_all is_space blanks"
    and "name_ends pre"
  shows "py_upper name \<in> set safe_formula_functions"
  using formula_calls_complete [OF assms(3-7), of post] assms(1,2)
  by (auto simp: validate_formula_def list_ex_iff split: if_splits)

section \<open>Setting a range\<close>

lemma collect_work_Inr: "collect_work f xs = Inr ys \<longleftrightarrow> list_all2 (\<lambda>x y. f x = Inr y) xs ys"
  by (induction xs arbitrary: ys) (auto simp: try_work_Inr list_all2_Cons1)

definition safe_write :: "cell_write option \<Rightarrow> bool" where
  "safe_write w = (case w of None \<Rightarrow> False | Some (Set_Formula f) \<Rightarrow> validate_formula f = Inr () | Some _ \<Rightarrow> True)"

lemma scalar_write_safe: "validate_scalar v = Inr () \<Longrightarrow> safe_write (scalar_write v)"
  by (auto simp: validate_scalar_def scalar_write_def safe_write_def split: pyval.splits if_splits)

lemma set_cell_safe:
  assumes "set_cell v = Inr w"
  shows "safe_write w"
proof (cases v)
  case (PDict d)
  show ?thesis
  proof (cases "formula_of d")
    case None
    then have "validate_scalar (value_of d) = Inr ()"
      using assms PDict by (auto simp: set_cell_def try_work_Inr validate_cell_value_def split: if_splits)
    then show ?thesis using assms PDict None scalar_write_safe by (auto simp: set_cell_def try_work_Inr)
  next
    case (Some f)
    then show ?thesis using assms PDict
      by (auto simp: set_cell_def try_work_Inr validate_cell_value_def safe_write_def)
  qed
qed (use assms scalar_write_safe in \<open>auto simp: set_cell_def try_work_Inr validate_cell_value_def\<close>)

lemma row_writes_Inr:
  assumes "row_writes row cells = Inr ws"
  shows "map fst ws = map (\<lambda>c. (c, row)) [0..<length cells]" and "list_all (\<lambda>w. safe_write (snd w)) ws"
proof -
  have all: "list_all2 (\<lambda>cv w. fst w = (fst cv, row) \<and> safe_write (snd w)) (enumerate 0 cells) ws"
    using assms unfolding row_writes_def collect_work_Inr
    by (rule list_all2_mono) (auto simp: try_work_Inr set_cell_safe)
  then have len: "length ws = length cells" by (simp add: list_all2_lengthD [symmetric])
  show "map fst ws = map (\<lambda>c. (c, row)) [0..<length cells]"
    by (rule nth_equalityI) (use len all in \<open>auto simp: list_all2_conv_all_nth nth_enumerate_eq\<close>)
  show "list_all (\<lambda>w. safe_write (snd w)) ws"
    using all by (auto simp: list_all2_conv_all_nth list_all_length)
qed


section \<open>Formats\<close>

definition spreadsheet_format_keys :: "string list" where
  "spreadsheet_format_keys =
     [''bold'', ''fontColor'', ''fontSize'', ''fillColor'', ''horizontalAlignment'', ''numberFormat'',
      ''wrapText'', ''optimalWidth'', ''columnWidth'', ''rowHeight'']"

definition is_hex_digit :: "char \<Rightarrow> bool" where
  "is_hex_digit c \<longleftrightarrow> is_digit c \<or> (65 \<le> code c \<and> code c \<le> 70) \<or> (97 \<le> code c \<and> code c \<le> 102)"

definition hex_value :: "char \<Rightarrow> nat" where
  "hex_value c = (if is_digit c then code c - 48 else if is_upper c then code c - 55 else code c - 87)"

definition parse_color :: "pyval \<Rightarrow> string \<Rightarrow> work_error + nat" where
  "parse_color v key =
     (case v of
        PStr (c # s) \<Rightarrow>
          if c = CHR ''#'' \<and> length s = 6 \<and> list_all is_hex_digit s
          then Inr (foldl (\<lambda>n d. 16 * n + hex_value d) 0 s)
          else Inl (Bridge (''invalid_format: '' @ key @ '' must use #RRGGBB''))
      | _ \<Rightarrow> Inl (Bridge (''invalid_format: '' @ key @ '' must use #RRGGBB'')))"

text \<open>\<open>f"#{value & 0xFFFFFF:06X}"\<close>, with the digits of the low 24 bits.\<close>

definition upper_hex :: "nat \<Rightarrow> char" where
  "upper_hex n = char_of (if n < 10 then 48 + n else 55 + n)"

definition color_text :: "int \<Rightarrow> string" where
  "color_text v =
     CHR ''#'' # map (\<lambda>k. upper_hex (nat ((v mod 16777216) div 16 ^ k mod 16))) [5, 4, 3, 2, 1, 0]"

definition control_free :: "string \<Rightarrow> bool" where
  "control_free s \<longleftrightarrow> list_all (\<lambda>c. 32 \<le> code c \<and> code c \<noteq> 127) s"

text \<open>The checks of a format, in the order of the source; the first that fails is the error. A membership
  test on a list or an object raises, because they cannot be hashed.\<close>

definition check_bool :: "string \<Rightarrow> work_request \<Rightarrow> work_error + unit" where
  "check_bool key d =
     (case dict_get d key of
        None \<Rightarrow> Inr () | Some (PBool _) \<Rightarrow> Inr ()
      | _ \<Rightarrow> Inl (Bridge (''invalid_format: '' @ key @ '' must be boolean'')))"

definition check_color :: "string \<Rightarrow> work_request \<Rightarrow> work_error + unit" where
  "check_color key d =
     (case dict_get d key of None \<Rightarrow> Inr () | Some v \<Rightarrow> try_work (parse_color v key) (\<lambda>_. Inr ()))"

definition check_font_size :: "work_request \<Rightarrow> work_error + unit" where
  "check_font_size d =
     (let bad = Inl (Bridge ''invalid_format: fontSize must be between 6 and 72'') in
      case dict_get d ''fontSize'' of
        None \<Rightarrow> Inr ()
      | Some (PInt i) \<Rightarrow> if 6 \<le> i \<and> i \<le> 72 then Inr () else bad
      | Some (PFloat r) \<Rightarrow> if 6 \<le> r \<and> r \<le> 72 then Inr () else bad
      | _ \<Rightarrow> bad)"

definition check_alignment :: "work_request \<Rightarrow> work_error + unit" where
  "check_alignment d =
     (case get_or d ''horizontalAlignment'' PNone of
        PNone \<Rightarrow> Inr ()
      | PStr s \<Rightarrow> if s \<in> {''left'', ''center'', ''right''} then Inr ()
          else Inl (Bridge ''invalid_format: horizontalAlignment is unsupported'')
      | PList _ \<Rightarrow> Inl Work_Failed
      | PDict _ \<Rightarrow> Inl Work_Failed
      | _ \<Rightarrow> Inl (Bridge ''invalid_format: horizontalAlignment is unsupported''))"

definition check_number_format :: "work_request \<Rightarrow> work_error + unit" where
  "check_number_format d =
     (let bad = Inl (Bridge ''invalid_format: numberFormat must be bounded text'') in
      case dict_get d ''numberFormat'' of
        None \<Rightarrow> Inr ()
      | Some (PStr s) \<Rightarrow> if s = [] \<or> 120 < text_length s \<or> \<not> control_free s then bad else Inr ()
      | _ \<Rightarrow> bad)"

definition check_extent :: "string \<Rightarrow> work_request \<Rightarrow> work_error + unit" where
  "check_extent key d =
     (let bad = Inl (Bridge (''invalid_format: '' @ key @ '' must be between 200 and 20000'')) in
      case dict_get d key of
        None \<Rightarrow> Inr ()
      | Some (PInt i) \<Rightarrow> if 200 \<le> i \<and> i \<le> 20000 then Inr () else bad
      | _ \<Rightarrow> bad)"

fun first_failure :: "(work_error + unit) list \<Rightarrow> work_error + unit" where
  "first_failure [] = Inr ()"
| "first_failure (c # cs) = try_work c (\<lambda>_. first_failure cs)"

definition validate_spreadsheet_format :: "pyval option \<Rightarrow> work_error + work_request" where
  "validate_spreadsheet_format v =
     (case v of
        Some (PDict d) \<Rightarrow>
          if d = [] \<or> \<not> set (map fst d) \<subseteq> set spreadsheet_format_keys
          then Inl (Bridge ''invalid_format: unsupported or empty spreadsheet format'')
          else try_work (first_failure
            [check_bool ''bold'' d, check_bool ''wrapText'' d, check_bool ''optimalWidth'' d,
             check_color ''fontColor'' d, check_color ''fillColor'' d, check_font_size d, check_alignment d,
             check_number_format d, check_extent ''columnWidth'' d, check_extent ''rowHeight'' d]) (\<lambda>_. Inr d)
      | _ \<Rightarrow> Inl (Bridge ''invalid_format: unsupported or empty spreadsheet format''))"

section \<open>Sheets, tables, conditional formats and pivots\<close>

text \<open>The names of the sheets of a new workbook; \<open>item.strip()\<close> and \<open>casefold\<close> as for ASCII.\<close>

definition sheet_name_ok :: "pyval \<Rightarrow> bool" where
  "sheet_name_ok v =
     (case v of
        PStr s \<Rightarrow> py_strip s \<noteq> [] \<and> text_length s \<le> 31 \<and>
          list_all (\<lambda>c. c \<notin> set ''[]:*?/'' \<and> c \<noteq> backslash) s \<and> control_free s
      | _ \<Rightarrow> False)"

definition text_items :: "pyval list \<Rightarrow> string list" where
  "text_items vs = map (\<lambda>v. case v of PStr s \<Rightarrow> s | _ \<Rightarrow> []) vs"

definition validate_sheet_names :: "pyval option \<Rightarrow> work_error + string list" where
  "validate_sheet_names v =
     (case list_of v of
        None \<Rightarrow> Inl (Bridge ''invalid_sheets: workbook requires between 1 and 16 sheets'')
      | Some items \<Rightarrow>
          if \<not> (1 \<le> length items \<and> length items \<le> 16)
          then Inl (Bridge ''invalid_sheets: workbook requires between 1 and 16 sheets'')
          else if \<not> list_all sheet_name_ok items
          then Inl (Bridge ''invalid_sheet: sheet names must be valid Excel identifiers'')
          else if \<not> distinct (map py_lower (text_items items))
          then Inl (Bridge ''invalid_sheets: sheet names must be unique'')
          else Inr (text_items items))"

definition table_name_ok :: "string \<Rightarrow> bool" where
  "table_name_ok s =
     (case s of [] \<Rightarrow> False | c # cs \<Rightarrow> name_start c \<and> length cs \<le> 99 \<and> list_all name_char cs)"

definition bool_or :: "work_request \<Rightarrow> string \<Rightarrow> bool option" where
  "bool_or d key = (case get_or d key (PBool True) of PBool b \<Rightarrow> Some b | _ \<Rightarrow> None)"

record table_input =
  ti_sheet :: string
  ti_name :: string
  ti_range :: string
  ti_has_headers :: bool
  ti_auto_filter :: bool

definition validate_table_input :: "work_request \<Rightarrow> work_error + table_input" where
  "validate_table_input input =
     (if \<not> set (map fst input) \<subseteq> {''sheet'', ''name'', ''range'', ''hasHeaders'', ''autoFilter''}
      then Inl (Bridge ''invalid_table: unsupported table field'')
      else
        try_work (required_string input ''sheet'' 200) (\<lambda>sheet_name.
        try_work (required_string input ''name'' 100) (\<lambda>name.
          if \<not> table_name_ok name
          then Inl (Bridge ''invalid_table_name: use a letter or underscore followed by letters, digits, dots or underscores'')
          else
            try_work (required_string input ''range'' 100) (\<lambda>raw.
            try_work (parse_range (py_upper raw) 1000000) (\<lambda>(start_column, start_row, end_column, end_row).
              if start_row = end_row \<or> start_column = end_column
              then Inl (Bridge ''invalid_table_range: a table needs at least two rows and two columns'')
              else
                (case (bool_or input ''hasHeaders'', bool_or input ''autoFilter'') of
                   (Some h, Some f) \<Rightarrow> Inr \<lparr>ti_sheet = sheet_name, ti_name = name, ti_range = py_upper raw,
                      ti_has_headers = h, ti_auto_filter = f\<rparr>
                 | _ \<Rightarrow> Inl (Bridge ''invalid_table: hasHeaders and autoFilter must be boolean'')))))))"

definition condition_operators :: "(string, string) dict" where
  "condition_operators =
     [(''between'', ''BETWEEN''), (''equal'', ''EQUAL''), (''greater_than'', ''GREATER''),
      (''greater_than_or_equal'', ''GREATER_EQUAL''), (''less_than'', ''LESS''),
      (''less_than_or_equal'', ''LESS_EQUAL''), (''not_equal'', ''NOT_EQUAL'')]"

definition pivot_functions :: "(string, string) dict" where
  "pivot_functions =
     [(''average'', ''AVERAGE''), (''count'', ''COUNT''), (''max'', ''MAX''), (''min'', ''MIN''), (''sum'', ''SUM'')]"

text \<open>\<open>v in table\<close> for a table keyed by texts: the key, or the exception of an unhashable value.\<close>

definition known_key :: "(string, string) dict \<Rightarrow> pyval \<Rightarrow> string \<Rightarrow> work_error + string" where
  "known_key table v message =
     (case v of
        PStr s \<Rightarrow> if s \<in> set (map fst table) then Inr s else Inl (Bridge message)
      | PList _ \<Rightarrow> Inl Work_Failed
      | PDict _ \<Rightarrow> Inl Work_Failed
      | _ \<Rightarrow> Inl (Bridge message))"

text \<open>\<open>-?[0-9]+(?:\.[0-9]+)?\<close> on the whole text.\<close>

definition decimal_text :: "string \<Rightarrow> bool" where
  "decimal_text s =
     (let s1 = (case s of c # cs \<Rightarrow> if c = CHR ''-'' then cs else s | [] \<Rightarrow> []);
          fraction = dropWhile is_digit s1 in
      takeWhile is_digit s1 \<noteq> [] \<and>
      (case fraction of [] \<Rightarrow> True | c # cs \<Rightarrow> c = CHR ''.'' \<and> cs \<noteq> [] \<and> list_all is_digit cs))"

text \<open>\<open>float_text\<close> is Python's \<open>str\<close> of a float.\<close>

definition validate_condition_formula ::
  "(pyfloat \<Rightarrow> string) \<Rightarrow> pyval \<Rightarrow> string \<Rightarrow> work_error + string"
where
  "validate_condition_formula float_text v label =
     (let body = (case v of PInt i \<Rightarrow> Some (int_text i) | PFloat r \<Rightarrow> Some (float_text r) | PStr s \<Rightarrow> Some s | _ \<Rightarrow> None) in
      case body of
        None \<Rightarrow> Inl (Bridge (''invalid_conditional_format: '' @ label @ '' must be a number or formula''))
      | Some s \<Rightarrow>
          if s = [] \<or> 256 < text_length s \<or> \<not> control_free s
          then Inl (Bridge (''invalid_conditional_format: '' @ label @ '' must be bounded text''))
          else if py_startswith s ''='' then try_work (validate_formula s) (\<lambda>_. Inr s)
          else if \<not> decimal_text s
          then Inl (Bridge (''invalid_conditional_format: '' @ label @ '' must be numeric or a safe formula''))
          else Inr s)"

record condition_input =
  ci_sheet :: string
  ci_range :: string
  ci_operator :: string
  ci_formula1 :: string
  ci_formula2 :: "string option"
  ci_style :: work_request
  ci_replace :: bool

definition condition_second ::
  "(pyfloat \<Rightarrow> string) \<Rightarrow> string \<Rightarrow> pyval \<Rightarrow> work_error + string option"
where
  "condition_second float_text operator formula2 =
     (if operator = ''between''
      then try_work (validate_condition_formula float_text formula2 ''formula2'') (\<lambda>f. Inr (Some f))
      else if formula2 \<noteq> PNone
      then Inl (Bridge ''invalid_conditional_format: formula2 is only valid for between'')
      else Inr None)"

definition validate_conditional_format_input ::
  "(pyfloat \<Rightarrow> string) \<Rightarrow> work_request \<Rightarrow> work_error + condition_input"
where
  "validate_conditional_format_input float_text input =
     (if \<not> set (map fst input) \<subseteq> {''sheet'', ''range'', ''operator'', ''formula1'', ''formula2'', ''style'', ''replace''}
      then Inl (Bridge ''invalid_conditional_format: unsupported field'')
      else
        try_work (required_string input ''sheet'' 200) (\<lambda>sheet_name.
        try_work (required_string input ''range'' 100) (\<lambda>raw.
        try_work (parse_range (py_upper raw) (int max_cells)) (\<lambda>_.
        try_work (known_key condition_operators (get_or input ''operator'' PNone)
            ''invalid_conditional_format: operator is unsupported'') (\<lambda>operator.
        try_work (validate_condition_formula float_text (get_or input ''formula1'' PNone) ''formula1'') (\<lambda>formula1.
        try_work (condition_second float_text operator (get_or input ''formula2'' PNone)) (\<lambda>formula2.
        try_work (validate_spreadsheet_format (dict_get input ''style'')) (\<lambda>style.
          if \<not> set (map fst style) \<subseteq> {''bold'', ''fontColor'', ''fontSize'', ''fillColor'', ''numberFormat''}
          then Inl (Bridge ''invalid_conditional_format: style contains a range-only format'')
          else
            (case bool_or input ''replace'' of
               None \<Rightarrow> Inl (Bridge ''invalid_conditional_format: replace must be boolean'')
             | Some replace \<Rightarrow> Inr \<lparr>ci_sheet = sheet_name, ci_range = py_upper raw, ci_operator = operator,
                 ci_formula1 = formula1, ci_formula2 = formula2, ci_style = style, ci_replace = replace\<rparr>)))))))))"

record pivot_input =
  pi_source_sheet :: string
  pi_source_range :: string
  pi_output_sheet :: string
  pi_output_cell :: string
  pi_name :: string
  pi_rows :: "string list"
  pi_columns :: "string list"
  pi_data :: "(string \<times> string) list"

definition field_name_ok :: "pyval \<Rightarrow> bool" where
  "field_name_ok v = (case v of PStr s \<Rightarrow> s \<noteq> [] \<and> text_length s \<le> 100 | _ \<Rightarrow> False)"

definition pivot_fields :: "pyval option \<Rightarrow> string \<Rightarrow> work_error + string list" where
  "pivot_fields v label =
     (case list_of v of
        None \<Rightarrow> Inl (Bridge (''invalid_pivot: '' @ label @ '' must contain bounded field names''))
      | Some items \<Rightarrow>
          if 8 < length items \<or> \<not> list_all field_name_ok items
          then Inl (Bridge (''invalid_pivot: '' @ label @ '' must contain bounded field names''))
          else Inr (text_items items))"

definition pivot_data_field :: "pyval \<Rightarrow> work_error + string \<times> string" where
  "pivot_data_field v =
     (case v of
        PDict d \<Rightarrow>
          if set (map fst d) \<noteq> {''field'', ''function''}
          then Inl (Bridge ''invalid_pivot: each data field needs field and function'')
          else
            try_work (required_string d ''field'' 100) (\<lambda>field.
            try_work (known_key pivot_functions (get_or d ''function'' PNone)
              ''invalid_pivot: data function is unsupported'') (\<lambda>function. Inr (field, function)))
      | _ \<Rightarrow> Inl (Bridge ''invalid_pivot: each data field needs field and function''))"

definition pivot_data :: "pyval option \<Rightarrow> work_error + (string \<times> string) list" where
  "pivot_data v =
     (case list_of v of
        None \<Rightarrow> Inl (Bridge ''invalid_pivot: data must contain between 1 and 16 fields'')
      | Some items \<Rightarrow>
          if \<not> (1 \<le> length items \<and> length items \<le> 16)
          then Inl (Bridge ''invalid_pivot: data must contain between 1 and 16 fields'')
          else collect_work pivot_data_field items)"

definition validate_pivot_input :: "work_request \<Rightarrow> work_error + pivot_input" where
  "validate_pivot_input input =
     (if set (map fst input) \<noteq> {''sourceSheet'', ''sourceRange'', ''outputSheet'', ''outputCell'', ''name'',
           ''rows'', ''columns'', ''data''}
      then Inl (Bridge ''invalid_pivot: fields are invalid'')
      else
        try_work (required_string input ''sourceSheet'' 200) (\<lambda>source_sheet.
        try_work (required_string input ''sourceRange'' 100) (\<lambda>source_range.
        try_work (parse_range (py_upper source_range) 1000000) (\<lambda>_.
        try_work (required_string input ''outputSheet'' 200) (\<lambda>output_sheet.
        try_work (required_string input ''outputCell'' 100) (\<lambda>output_cell.
        try_work (parse_range (py_upper output_cell) (int max_cells)) (\<lambda>(start_column, start_row, end_column, end_row).
          if (start_column, start_row) \<noteq> (end_column, end_row)
          then Inl (Bridge ''invalid_pivot: outputCell must identify one cell'')
          else
            try_work (required_string input ''name'' 100) (\<lambda>name.
              if \<not> table_name_ok name
              then Inl (Bridge ''invalid_pivot_name: use a letter or underscore followed by letters, digits, dots or underscores'')
              else
                try_work (pivot_fields (dict_get input ''rows'') ''rows'') (\<lambda>rows.
                try_work (pivot_fields (dict_get input ''columns'') ''columns'') (\<lambda>columns.
                try_work (pivot_data (dict_get input ''data'')) (\<lambda>data.
                  if \<not> distinct (map py_lower (rows @ columns @ map fst data))
                  then Inl (Bridge ''invalid_pivot: a field can only have one orientation'')
                  else Inr \<lparr>pi_source_sheet = source_sheet, pi_source_range = py_upper source_range,
                    pi_output_sheet = output_sheet, pi_output_cell = py_upper output_cell, pi_name = name,
                    pi_rows = rows, pi_columns = columns, pi_data = data\<rparr>)))))))))))"

section \<open>Facts about formats\<close>

lemma upper_hex_value: "n < 16 \<Longrightarrow> hex_value (upper_hex n) = n \<and> is_hex_digit (upper_hex n)"
proof -
  assume n: "n < 16"
  then have "code (upper_hex n) = (if n < 10 then 48 + n else 55 + n)"
    unfolding upper_hex_def by (intro code_char_of) auto
  with n show ?thesis by (auto simp: hex_value_def is_hex_digit_def is_digit_def is_upper_def)
qed

lemma horner_hex:
  fixes n :: nat
  assumes "n < 16777216"
  shows "foldl (\<lambda>a k. 16 * a + n div 16 ^ k mod 16) 0 [5, 4, 3, 2, 1, 0] = n"
proof -
  have step: "16 * (n div 16 ^ Suc k) + n div 16 ^ k mod 16 = n div 16 ^ k" for k
    by (simp add: div_mult2_eq mult.commute [of 16] mult_div_mod_eq)
  have "n div 16 ^ 5 mod 16 = n div 16 ^ 5" using assms by simp
  then show ?thesis
    using step [of 4] step [of 3] step [of 2] step [of 1] step [of 0] by simp
qed

lemma int_hex_digit: "nat (int m div 16 ^ k mod 16) = m div 16 ^ k mod 16"
proof -
  have "int m div 16 ^ k mod 16 = int (m div 16 ^ k mod 16)" by (simp add: zdiv_int zmod_int)
  then show ?thesis by simp
qed

text \<open>A colour that the plane prints is read back as the same colour: only its low 24 bits are printed,
  and they are what the reader returns.\<close>
theorem printed_color_is_read_back:
  "parse_color (PStr (color_text v)) key = Inr (nat (v mod 16777216))"
proof -
  have "0 \<le> v mod 16777216" by simp
  then obtain n where n: "v mod 16777216 = int n" by (rule nonneg_int_cases)
  moreover have "v mod 16777216 < 16777216" by simp
  ultimately have small: "n < 16777216" by simp
  have val: "hex_value (upper_hex (n div 16 ^ k mod 16)) = n div 16 ^ k mod 16 \<and>
      is_hex_digit (upper_hex (n div 16 ^ k mod 16))" for k
    by (rule upper_hex_value) simp
  have "foldl (\<lambda>n d. 16 * n + hex_value d) 0 (map (\<lambda>k. upper_hex (n div 16 ^ k mod 16)) [5, 4, 3, 2, 1, 0]) = n"
    using horner_hex [OF small] val by (simp only: foldl_map)
  moreover have "is_hex_digit (upper_hex (m mod 16))" for m using upper_hex_value [of "m mod 16"] by simp
  ultimately show ?thesis
    by (simp only: parse_color_def color_text_def n int_hex_digit pyval.case list.case) simp
qed

definition safe_condition :: "string \<Rightarrow> bool" where
  "safe_condition s \<longleftrightarrow> validate_formula s = Inr () \<or> decimal_text s"

lemma validate_condition_formula_safe:
  "validate_condition_formula float_text v label = Inr s \<Longrightarrow> safe_condition s"
  by (auto simp: validate_condition_formula_def safe_condition_def Let_def try_work_Inr
      split: option.splits if_splits)

lemma condition_second_safe:
  "condition_second float_text operator v = Inr r \<Longrightarrow>
     (case r of None \<Rightarrow> operator \<noteq> ''between'' | Some f \<Rightarrow> operator = ''between'' \<and> safe_condition f)"
  by (auto simp: condition_second_def try_work_Inr dest: validate_condition_formula_safe split: if_splits)

text \<open>The formulas of an accepted conditional format are data only: each of them passes the formula check
  or is a plain decimal number, the second one is there exactly for a range of values, and the range
  is a rectangle within the limit.\<close>
theorem accepted_condition_is_data_only:
  assumes "validate_conditional_format_input float_text input = Inr c"
  shows "safe_condition (ci_formula1 c) \<and>
    (case ci_formula2 c of None \<Rightarrow> ci_operator c \<noteq> ''between'' | Some f \<Rightarrow> ci_operator c = ''between'' \<and> safe_condition f) \<and>
    (\<exists>r. parse_range (ci_range c) (int max_cells) = Inr r)"
  using assms
  by (auto simp: validate_conditional_format_input_def try_work_Inr split: if_splits option.splits
      dest!: validate_condition_formula_safe condition_second_safe)

section \<open>Samples\<close>

lemma sample_formula: "validate_formula ''=SUM(A1:A3)'' = Inr ()"
proof -
  have "text_length ''=SUM(A1:A3)'' = 11" "formula_characters ''=SUM(A1:A3)''"
    "formula_calls ''=SUM(A1:A3)'' = [''SUM'']" "py_upper ''SUM'' \<in> set safe_formula_functions"
    by code_simp+
  then show ?thesis by (simp add: validate_formula_def)
qed

lemma accepted_formula_calls_safe_functions_witness: "py_upper ''SUM'' \<in> set safe_formula_functions"
proof (rule accepted_formula_calls_safe_functions [OF sample_formula, of "''=''" "''SUM''" "[]" "''A1:A3)''"])
  show "list_all name_char ''SUM''" "name_start (hd ''SUM'')" "name_ends ''=''" by code_simp+
qed simp_all

lemma printed_range_is_read_back_witness:
  "parse_range (range_address_text (26, 0, 27, 9)) 512 = Inr (26, 0, 27, 9)"
  using printed_range_is_read_back [of 26 27 0 9 512] by simp

lemma accepted_range_is_bounded_witness: "(0::int) \<le> 0 \<and> (0::int) \<le> 2 \<and> (0::int) \<le> 4 \<and> (4::int) \<le> 5"
proof -
  have "parse_range ''a$5:C6'' 512 = Inr (0, 4, 2, 5)" by code_simp
  from accepted_range_is_bounded [OF this] show ?thesis by simp
qed

definition sample_set_input :: work_request where
  "sample_set_input = [(''sheet'', PStr ''S''), (''range'', PStr ''b2:c2''),
     (''cells'', PList [PList [PInt 7, PDict [(''formula'', PStr ''=SUM(A1:A3)'')]]])]"

lemma sample_set_runs:
  "apply_spreadsheet_set (\<lambda>s. s = ''S'') sample_set_input
     = Inr (''S'', ''B2:C2'', [((0, 0), Some (Set_Value 7)), ((1, 0), Some (Set_Formula ''=SUM(A1:A3)''))])"
proof -
  have "required_string sample_set_input ''sheet'' 200 = Inr ''S''" "required_string sample_set_input ''range'' 100 = Inr ''b2:c2''"
    "py_upper ''b2:c2'' = ''B2:C2''" "parse_range ''B2:C2'' (int max_cells) = Inr (1, 1, 2, 1)"
    by code_simp+
  moreover have "list_of (dict_get sample_set_input ''cells'') = Some [PList [PInt 7, PDict [(''formula'', PStr ''=SUM(A1:A3)'')]]]"
    by (simp add: sample_set_input_def list_of_def)
  moreover have "formula_of [(''formula'', PStr ''=SUM(A1:A3)'')] = Some ''=SUM(A1:A3)''" by (simp add: formula_of_def)
  ultimately show ?thesis
    by (simp add: apply_spreadsheet_set_def Let_def row_fits_def row_cells_def validate_cell_value_def
        validate_scalar_def set_cell_def scalar_write_def row_writes_def sample_formula enumerate_eq_zip
        del: required_string_Inr)
qed


definition sample_condition :: work_request where
  "sample_condition = [(''sheet'', PStr ''S''), (''range'', PStr ''B2''), (''operator'', PStr ''equal''),
     (''formula1'', PInt 7), (''style'', PDict [(''bold'', PBool True)])]"

lemma accepted_condition_is_data_only_witness:
  "\<exists>c. validate_conditional_format_input (\<lambda>_. []) sample_condition = Inr c \<and> safe_condition (ci_formula1 c)"
proof -
  have "case validate_conditional_format_input (\<lambda>_. []) sample_condition of Inl _ \<Rightarrow> False | Inr _ \<Rightarrow> True"
    by code_simp
  then obtain c where "validate_conditional_format_input (\<lambda>_. []) sample_condition = Inr c" by (auto split: sum.splits)
  with accepted_condition_is_data_only [OF this] show ?thesis by blast
qed

text \<open>A value that cannot be hashed is reported as a failure of the plane and not as a malformed request:
  a list or an object as alignment, operator or function raises instead of being rejected.\<close>
theorem unhashable_choice_is_a_failure:
  "validate_spreadsheet_format (Some (PDict [(''horizontalAlignment'', PList [])])) = Inl Work_Failed \<and>
   known_key condition_operators (PList []) ''m'' = Inl Work_Failed"
  by code_simp

end
