(* ===== verification/Response_Cache.thy ===== *)
theory Response_Cache
  imports Prelude
begin

text \<open>
  The semantic response cache of the retrieval pipeline (\<open>cache/models.py\<close>, \<open>cache/semantic_cache.py\<close>).
  An embedding is an abstract vector; numpy's norm and dot product are functions of \<open>vec_ops\<close>, where a
  dot product that raises (vectors of different length) is \<open>None\<close>. The \<open>OrderedDict\<close> is an association
  list, oldest entry first. Numbers that are floats are rationals; an operation reads the clock once.
  Every operation holds the cache's lock, so that it is one step.
\<close>

section \<open>Entries\<close>

datatype cache_tier = Tier_Response | Tier_Retrieval | Tier_Embedding

record cache_config =
  cc_similarity_threshold :: pyfloat
  cc_response_ttl :: int
  cc_retrieval_ttl :: int
  cc_embedding_ttl :: int
  cc_max_response_entries :: int
  cc_max_retrieval_entries :: int
  cc_max_embedding_entries :: int
  cc_adaptive_ttl :: bool
  cc_max_multiplier :: pyfloat
  cc_enabled :: bool
  cc_log_operations :: bool

definition default_cache_config :: cache_config where
  "default_cache_config =
     \<lparr>cc_similarity_threshold = 92 / 100, cc_response_ttl = 7200, cc_retrieval_ttl = 1800,
      cc_embedding_ttl = 3600, cc_max_response_entries = 10000, cc_max_retrieval_entries = 5000,
      cc_max_embedding_entries = 50000, cc_adaptive_ttl = True, cc_max_multiplier = 3,
      cc_enabled = True, cc_log_operations = True\<rparr>"

record ('e, 'v) cache_entry =
  ce_key :: string
  ce_embedding :: 'e
  ce_value :: 'v
  ce_tier :: cache_tier
  ce_user_id :: string
  ce_org_id :: string
  ce_created_at :: pyfloat
  ce_last_accessed :: pyfloat
  ce_ttl :: int
  ce_metadata :: "(string, pyval) dict"
  ce_access_count :: nat
  ce_document_ids :: "string list"

definition effective_ttl :: "bool \<Rightarrow> pyfloat \<Rightarrow> ('e, 'v) cache_entry \<Rightarrow> pyfloat" where
  "effective_ttl adaptive mult e =
     (if \<not> adaptive \<or> ce_access_count e = 0 then of_int (ce_ttl e)
      else of_int (ce_ttl e) * min (1 + of_nat (ce_access_count e) / 4) mult)"

definition entry_expired :: "pyfloat \<Rightarrow> bool \<Rightarrow> pyfloat \<Rightarrow> ('e, 'v) cache_entry \<Rightarrow> bool" where
  "entry_expired now adaptive mult e \<longleftrightarrow> effective_ttl adaptive mult e < now - ce_created_at e"

definition touch_entry :: "pyfloat \<Rightarrow> ('e, 'v) cache_entry \<Rightarrow> ('e, 'v) cache_entry" where
  "touch_entry now e = e\<lparr>ce_last_accessed := now, ce_access_count := Suc (ce_access_count e)\<rparr>"

definition entry_age :: "pyfloat \<Rightarrow> ('e, 'v) cache_entry \<Rightarrow> pyfloat" where
  "entry_age now e = now - ce_created_at e"

definition remaining_ttl :: "pyfloat \<Rightarrow> ('e, 'v) cache_entry \<Rightarrow> pyfloat" where
  "remaining_ttl now e = max 0 (of_int (ce_ttl e) - entry_age now e)"

record cache_stats =
  cs_tier :: cache_tier
  cs_total_entries :: nat
  cs_hits :: nat
  cs_misses :: nat
  cs_evictions :: nat
  cs_invalidations :: nat
  cs_avg_similarity :: pyfloat

definition new_cache_stats :: cache_stats where
  "new_cache_stats = \<lparr>cs_tier = Tier_Response, cs_total_entries = 0, cs_hits = 0, cs_misses = 0,
     cs_evictions = 0, cs_invalidations = 0, cs_avg_similarity = 0\<rparr>"

definition cache_hit_rate :: "cache_stats \<Rightarrow> pyfloat" where
  "cache_hit_rate st =
     (if 0 < cs_hits st + cs_misses st then of_nat (cs_hits st) / of_nat (cs_hits st + cs_misses st) else 0)"

record ('e, 'v) cache_result =
  lr_hit :: bool
  lr_entry :: "('e, 'v) cache_entry option"
  lr_similarity :: pyfloat
  lr_tier :: "cache_tier option"

definition cache_miss :: "cache_tier option \<Rightarrow> ('e, 'v) cache_result" where
  "cache_miss tier = \<lparr>lr_hit = False, lr_entry = None, lr_similarity = 0, lr_tier = tier\<rparr>"

definition lr_value :: "('e, 'v) cache_result \<Rightarrow> 'v option" where
  "lr_value r = map_option ce_value (lr_entry r)"

section \<open>The cache\<close>

type_synonym ('e, 'v) cache_map = "(string, ('e, 'v) cache_entry) dict"

record ('e, 'v) semantic_cache =
  sc_config :: cache_config
  sc_cache :: "('e, 'v) cache_map"
  sc_stats :: cache_stats

definition new_semantic_cache :: "cache_config \<Rightarrow> ('e, 'v) semantic_cache" where
  "new_semantic_cache cfg = \<lparr>sc_config = cfg, sc_cache = [], sc_stats = new_cache_stats\<rparr>"

record 'e vec_ops =
  vo_norm :: "'e \<Rightarrow> pyfloat"
  vo_dot :: "'e \<Rightarrow> 'e \<Rightarrow> pyfloat option"

definition cosine_similarity :: "'e vec_ops \<Rightarrow> 'e \<Rightarrow> 'e \<Rightarrow> pyfloat option" where
  "cosine_similarity V a b =
     (if vo_norm V a = 0 \<or> vo_norm V b = 0 then Some 0
      else map_option (\<lambda>d. d / (vo_norm V a * vo_norm V b)) (vo_dot V a b))"

definition updated_average :: "pyfloat \<Rightarrow> cache_stats \<Rightarrow> pyfloat" where
  "updated_average s st =
     (if cs_hits st = 1 then s else 1 / 10 * s + (1 - 1 / 10) * cs_avg_similarity st)"

text \<open>The two tests that keep an entry from a request.\<close>

definition other_owner :: "string \<Rightarrow> string \<Rightarrow> bool" where
  "other_owner requested stored \<longleftrightarrow> requested \<noteq> [] \<and> stored \<noteq> [] \<and> stored \<noteq> requested"

definition entry_visible :: "string \<Rightarrow> string \<Rightarrow> ('e, 'v) cache_entry \<Rightarrow> bool" where
  "entry_visible user org e \<longleftrightarrow> \<not> other_owner user (ce_user_id e) \<and> \<not> other_owner org (ce_org_id e)"

text \<open>
  The loop over a copy of the items: what is left of the cache, the number of evictions, the best
  match so far (its key, the entry, its similarity); the flag says that the loop came to its end.
\<close>

type_synonym ('e, 'v) scan_state =
  "('e, 'v) cache_map \<times> nat \<times> (string \<times> ('e, 'v) cache_entry \<times> pyfloat) option"

definition better_match :: "pyfloat \<Rightarrow> (string \<times> ('e, 'v) cache_entry \<times> pyfloat) option \<Rightarrow> pyfloat \<Rightarrow> bool" where
  "better_match threshold best s \<longleftrightarrow>
     threshold \<le> s \<and> (case best of None \<Rightarrow> True | Some (_, _, t) \<Rightarrow> t < s)"

fun scan_cache ::
  "'e vec_ops \<Rightarrow> cache_config \<Rightarrow> pyfloat \<Rightarrow> 'e \<Rightarrow> string \<Rightarrow> string \<Rightarrow>
     (string \<times> ('e, 'v) cache_entry) list \<Rightarrow> ('e, 'v) scan_state \<Rightarrow> ('e, 'v) scan_state \<times> bool"
where
  "scan_cache V cfg now q user org [] st = (st, True)"
| "scan_cache V cfg now q user org ((k, e) # items) (c, n, best) =
     (if entry_expired now (cc_adaptive_ttl cfg) (cc_max_multiplier cfg) e
      then scan_cache V cfg now q user org items (dict_del k c, Suc n, best)
      else if \<not> entry_visible user org e then scan_cache V cfg now q user org items (c, n, best)
      else case cosine_similarity V q (ce_embedding e) of
        None \<Rightarrow> ((c, n, best), False)
      | Some s \<Rightarrow> scan_cache V cfg now q user org items
          (c, n, if better_match (cc_similarity_threshold cfg) best s then Some (k, e, s) else best))"

text \<open>\<open>OrderedDict.move_to_end\<close>, which raises for a key that is not there.\<close>

definition move_to_end :: "'k \<Rightarrow> ('k, 'a) dict \<Rightarrow> ('k, 'a) dict option" where
  "move_to_end k d = map_option (\<lambda>v. dict_del k d @ [(k, v)]) (dict_get d k)"

text \<open>\<open>get\<close>: the first component is \<open>None\<close> when an exception leaves the method.\<close>

definition cache_get ::
  "'e vec_ops \<Rightarrow> pyfloat \<Rightarrow> 'e \<Rightarrow> string \<Rightarrow> string \<Rightarrow> ('e, 'v) semantic_cache \<Rightarrow>
     ('e, 'v) cache_result option \<times> ('e, 'v) semantic_cache"
where
  "cache_get V now q user org sc =
     (if \<not> cc_enabled (sc_config sc) then (Some (cache_miss (Some Tier_Response)), sc)
      else case scan_cache V (sc_config sc) now q user org (sc_cache sc) (sc_cache sc, 0, None) of
        ((c, n, best), finished) \<Rightarrow>
          let st = (sc_stats sc)\<lparr>cs_evictions := cs_evictions (sc_stats sc) + n\<rparr>;
              sc1 = sc\<lparr>sc_cache := c, sc_stats := st\<rparr> in
          if \<not> finished then (None, sc1)
          else case best of
            None \<Rightarrow> (Some (cache_miss (Some Tier_Response)), sc1\<lparr>sc_stats := st\<lparr>cs_misses := Suc (cs_misses st)\<rparr>\<rparr>)
          | Some (k, e, s) \<Rightarrow>
              let e' = touch_entry now e; c1 = dict_set k e' c in
              (case move_to_end (ce_key e') c1 of
                 None \<Rightarrow> (None, sc1\<lparr>sc_cache := c1\<rparr>)
               | Some c2 \<Rightarrow>
                   let st1 = st\<lparr>cs_hits := Suc (cs_hits st)\<rparr> in
                   (Some \<lparr>lr_hit = True, lr_entry = Some e', lr_similarity = s, lr_tier = Some Tier_Response\<rparr>,
                    sc1\<lparr>sc_cache := c2, sc_stats := st1\<lparr>cs_avg_similarity := updated_average s st1\<rparr>\<rparr>)))"

definition response_cache_key :: "string \<Rightarrow> string \<Rightarrow> string \<Rightarrow> string" where
  "response_cache_key org user query =
     (if org \<noteq> [] then org @ '':'' else []) @ (if user \<noteq> [] then user @ ''::'' else []) @ query"

text \<open>
  The eviction loop runs while the cache is full; \<open>next(iter(...))\<close> of an empty cache raises, which
  is the case of a capacity that is not positive.
\<close>

fun evict_while_full :: "int \<Rightarrow> ('k, 'a) dict \<Rightarrow> ('k, 'a) dict \<times> nat \<times> bool" where
  "evict_while_full m [] = ([], 0, 0 < m)"
| "evict_while_full m (x # xs) =
     (if m \<le> int (length (x # xs)) then
        (case evict_while_full m xs of (c, n, ok) \<Rightarrow> (c, Suc n, ok))
      else (x # xs, 0, True))"

record ('e, 'v) cache_store =
  cp_query :: string
  cp_embedding :: 'e
  cp_response :: 'v
  cp_document_ids :: "string list"
  cp_metadata :: "(string, pyval) dict"
  cp_user_id :: string
  cp_org_id :: string

definition new_cache_entry :: "cache_config \<Rightarrow> pyfloat \<Rightarrow> ('e, 'v) cache_store \<Rightarrow> ('e, 'v) cache_entry" where
  "new_cache_entry cfg now p =
     \<lparr>ce_key = response_cache_key (cp_org_id p) (cp_user_id p) (cp_query p), ce_embedding = cp_embedding p,
      ce_value = cp_response p, ce_tier = Tier_Response, ce_user_id = cp_user_id p, ce_org_id = cp_org_id p,
      ce_created_at = now, ce_last_accessed = now, ce_ttl = cc_response_ttl cfg, ce_metadata = cp_metadata p,
      ce_access_count = 0, ce_document_ids = cp_document_ids p\<rparr>"

text \<open>\<open>set\<close>: \<open>False\<close> when an exception leaves the method.\<close>

definition cache_set ::
  "pyfloat \<Rightarrow> ('e, 'v) cache_store \<Rightarrow> ('e, 'v) semantic_cache \<Rightarrow> bool \<times> ('e, 'v) semantic_cache"
where
  "cache_set now p sc =
     (if \<not> cc_enabled (sc_config sc) then (True, sc)
      else case evict_while_full (cc_max_response_entries (sc_config sc)) (sc_cache sc) of
        (c, n, ok) \<Rightarrow>
          let st = (sc_stats sc)\<lparr>cs_evictions := cs_evictions (sc_stats sc) + n\<rparr> in
          if \<not> ok then (False, sc\<lparr>sc_cache := c, sc_stats := st\<rparr>)
          else
            let e = new_cache_entry (sc_config sc) now p; c1 = dict_set (ce_key e) e c in
            (True, sc\<lparr>sc_cache := c1, sc_stats := st\<lparr>cs_total_entries := length c1\<rparr>\<rparr>))"

definition invalidate_by_document :: "string \<Rightarrow> ('e, 'v) semantic_cache \<Rightarrow> nat \<times> ('e, 'v) semantic_cache" where
  "invalidate_by_document d sc =
     (let keys = map fst (filter (\<lambda>(k, e). d \<in> set (ce_document_ids e)) (sc_cache sc));
          c = fold dict_del keys (sc_cache sc); st = sc_stats sc in
      (length keys, sc\<lparr>sc_cache := c, sc_stats := st\<lparr>
         cs_invalidations := cs_invalidations st + length keys, cs_total_entries := length c\<rparr>\<rparr>))"

definition clear_cache :: "('e, 'v) semantic_cache \<Rightarrow> nat \<times> ('e, 'v) semantic_cache" where
  "clear_cache sc = (length (sc_cache sc), sc\<lparr>sc_cache := [], sc_stats := (sc_stats sc)\<lparr>cs_total_entries := 0\<rparr>\<rparr>)"

definition read_cache_stats :: "('e, 'v) semantic_cache \<Rightarrow> cache_stats \<times> ('e, 'v) semantic_cache" where
  "read_cache_stats sc =
     (let st = (sc_stats sc)\<lparr>cs_total_entries := length (sc_cache sc)\<rparr> in (st, sc\<lparr>sc_stats := st\<rparr>))"

section \<open>Histories\<close>

datatype ('e, 'v) cache_op =
    Lookup pyfloat 'e string string
  | Store pyfloat "('e, 'v) cache_store"
  | Invalidate string
  | Clear
  | Read_Stats

primrec cache_exec :: "'e vec_ops \<Rightarrow> ('e, 'v) cache_op \<Rightarrow> ('e, 'v) semantic_cache \<Rightarrow> ('e, 'v) semantic_cache" where
  "cache_exec V (Lookup now q user org) sc = snd (cache_get V now q user org sc)"
| "cache_exec V (Store now p) sc = snd (cache_set now p sc)"
| "cache_exec V (Invalidate d) sc = snd (invalidate_by_document d sc)"
| "cache_exec V Clear sc = snd (clear_cache sc)"
| "cache_exec V Read_Stats sc = snd (read_cache_stats sc)"

definition run_cache :: "'e vec_ops \<Rightarrow> ('e, 'v) cache_op list \<Rightarrow> ('e, 'v) semantic_cache \<Rightarrow> ('e, 'v) semantic_cache" where
  "run_cache V ops sc = fold (cache_exec V) ops sc"

section \<open>The scan\<close>

abbreviation expired_in :: "cache_config \<Rightarrow> pyfloat \<Rightarrow> ('e, 'v) cache_entry \<Rightarrow> bool" where
  "expired_in cfg now e \<equiv> entry_expired now (cc_adaptive_ttl cfg) (cc_max_multiplier cfg) e"

text \<open>Entries a request may be answered with.\<close>

definition candidate :: "cache_config \<Rightarrow> pyfloat \<Rightarrow> string \<Rightarrow> string \<Rightarrow> ('e, 'v) cache_entry \<Rightarrow> bool" where
  "candidate cfg now user org e \<longleftrightarrow> \<not> expired_in cfg now e \<and> entry_visible user org e"

lemma dict_del_filter: "dict_del k d = filter (\<lambda>x. fst x \<noteq> k) d"
  by (induction d) auto

lemma subseq_dict_del: "subseq (dict_del k d) d"
  by (simp add: dict_del_filter)

lemma scan_subseq: "scan_cache V cfg now q user org items (c, n, best) = ((c', n', best'), fin) \<Longrightarrow> subseq c' c"
proof (induction items arbitrary: c n best)
  case (Cons x items)
  obtain k e where x: "x = (k, e)" by (cases x)
  show ?case
  proof (cases "expired_in cfg now e")
    case True
    then have "subseq c' (dict_del k c)"
      using Cons.prems Cons.IH [of "dict_del k c"] by (simp add: x)
    then show ?thesis by (rule subseq_order.trans [OF _ subseq_dict_del])
  next
    case False
    then show ?thesis
      using Cons.prems Cons.IH [of c] by (simp add: x split: if_splits option.splits)
  qed
qed simp

lemma scan_evicts:
  "scan_cache V cfg now q user org items (c, n, best) = ((c', n', best'), True) \<Longrightarrow>
   c' = filter (\<lambda>x. fst x \<notin> fst ` set (filter (\<lambda>y. expired_in cfg now (snd y)) items)) c \<and>
   n' = n + length (filter (\<lambda>y. expired_in cfg now (snd y)) items)"
proof (induction items arbitrary: c n best)
  case (Cons x items)
  obtain k e where x: "x = (k, e)" by (cases x)
  show ?case
  proof (cases "expired_in cfg now e")
    case True
    then show ?thesis
      using Cons.prems Cons.IH [of "dict_del k c" "Suc n" best]
      by (auto simp: x dict_del_filter intro!: filter_cong)
  next
    case False
    then show ?thesis
      using Cons.prems Cons.IH [of c n] by (auto simp: x split: if_splits option.splits)
  qed
qed simp

lemma scan_all_evicts:
  assumes "distinct (map fst c)" and "scan_cache V cfg now q user org c (c, 0, None) = ((c', n, best), True)"
  shows "c' = filter (\<lambda>y. \<not> expired_in cfg now (snd y)) c"
proof -
  have "c' = filter (\<lambda>x. fst x \<notin> fst ` set (filter (\<lambda>y. expired_in cfg now (snd y)) c)) c"
    using scan_evicts [OF assms(2)] by simp
  also have "\<dots> = filter (\<lambda>y. \<not> expired_in cfg now (snd y)) c"
    using assms(1) by (intro filter_cong) (force simp: image_iff distinct_map inj_on_def)+
  finally show ?thesis .
qed

text \<open>What the best match is, given the one the loop started with.\<close>

definition best_so_far ::
  "'e vec_ops \<Rightarrow> cache_config \<Rightarrow> 'e \<Rightarrow> (string \<times> ('e, 'v) cache_entry) list \<Rightarrow>
     (string \<times> ('e, 'v) cache_entry \<times> pyfloat) option \<Rightarrow> (string \<times> ('e, 'v) cache_entry \<times> pyfloat) option \<Rightarrow> bool"
where
  "best_so_far V cfg q xs old new \<longleftrightarrow>
     (\<forall>(k, e) \<in> set xs. \<exists>s. cosine_similarity V q (ce_embedding e) = Some s) \<and>
     (case new of
        None \<Rightarrow> old = None \<and>
          (\<forall>(k, e) \<in> set xs. \<forall>s. cosine_similarity V q (ce_embedding e) = Some s \<longrightarrow> s < cc_similarity_threshold cfg)
      | Some (k, e, s) \<Rightarrow>
          (old = Some (k, e, s) \<or>
           (k, e) \<in> set xs \<and> cosine_similarity V q (ce_embedding e) = Some s \<and> cc_similarity_threshold cfg \<le> s) \<and>
          (\<forall>(k', e') \<in> set xs. \<forall>t. cosine_similarity V q (ce_embedding e') = Some t \<longrightarrow>
             cc_similarity_threshold cfg \<le> t \<longrightarrow> t \<le> s) \<and>
          (\<forall>k' e' t. old = Some (k', e', t) \<longrightarrow> t \<le> s))"

lemma best_so_far_step:
  assumes "cosine_similarity V q (ce_embedding e) = Some s"
    and "best_so_far V cfg q xs
      (if better_match (cc_similarity_threshold cfg) old s then Some (k, e, s) else old) new"
  shows "best_so_far V cfg q ((k, e) # xs) old new"
proof (cases "better_match (cc_similarity_threshold cfg) old s")
  case True
  then show ?thesis
    using assms by (auto simp: best_so_far_def better_match_def split: option.splits)
next
  case False
  then show ?thesis
    using assms by (fastforce simp: best_so_far_def better_match_def split: option.splits)
qed

lemma scan_best:
  "scan_cache V cfg now q user org items (c, n, best) = ((c', n', best'), True) \<Longrightarrow>
   best_so_far V cfg q (filter (\<lambda>y. candidate cfg now user org (snd y)) items) best best'"
proof (induction items arbitrary: c n best)
  case Nil
  then show ?case by (auto simp: best_so_far_def split: option.splits)
next
  case (Cons x items)
  obtain k e where x: "x = (k, e)" by (cases x)
  show ?case
  proof (cases "candidate cfg now user org e")
    case False
    then show ?thesis
      using Cons.prems Cons.IH by (auto simp: x candidate_def split: if_splits)
  next
    case True
    then obtain s where s: "cosine_similarity V q (ce_embedding e) = Some s"
      using Cons.prems by (auto simp: x candidate_def split: option.splits)
    show ?thesis
      using True Cons.prems s best_so_far_step [OF s Cons.IH]
      by (simp add: x candidate_def)
  qed
qed

section \<open>The invariant\<close>

definition entry_ok :: "cache_config \<Rightarrow> string \<times> ('e, 'v) cache_entry \<Rightarrow> bool" where
  "entry_ok cfg x \<longleftrightarrow> ce_key (snd x) = fst x \<and> ce_ttl (snd x) = cc_response_ttl cfg \<and>
     (\<exists>query. fst x = response_cache_key (ce_org_id (snd x)) (ce_user_id (snd x)) query)"

definition cache_ok :: "('e, 'v) semantic_cache \<Rightarrow> bool" where
  "cache_ok sc \<longleftrightarrow> distinct (map fst (sc_cache sc)) \<and> list_all (entry_ok (sc_config sc)) (sc_cache sc) \<and>
     int (length (sc_cache sc)) \<le> max 0 (cc_max_response_entries (sc_config sc))"

lemma cache_okD:
  assumes "cache_ok sc"
  shows "distinct (map fst (sc_cache sc))" "x \<in> set (sc_cache sc) \<Longrightarrow> entry_ok (sc_config sc) x"
    "int (length (sc_cache sc)) \<le> max 0 (cc_max_response_entries (sc_config sc))"
  using assms by (auto simp: cache_ok_def list_all_iff)

lemma subseq_members: "subseq c' c \<Longrightarrow> set c' \<subseteq> set c"
  by (auto simp: subseq_conv_nths dest: in_set_nthsD)

lemma subseq_distinct_keys:
  assumes "subseq c' c" and "distinct (map fst c)"
  shows "distinct (map fst c')"
proof -
  have "distinct c'" using assms by (auto simp: subseq_conv_nths distinct_map intro: distinct_nthsI)
  moreover have "inj_on fst (set c')"
    using assms(2) subseq_members [OF assms(1)] by (auto simp: distinct_map intro: inj_on_subset)
  ultimately show ?thesis by (simp add: distinct_map)
qed

lemma cache_ok_subseq:
  assumes "cache_ok sc" and "subseq (sc_cache sc') (sc_cache sc)" and "sc_config sc' = sc_config sc"
  shows "cache_ok sc'"
  using assms(1,3) subseq_distinct_keys [OF assms(2)] list_emb_length [OF assms(2)] subseq_members [OF assms(2)]
  by (auto simp: cache_ok_def list_all_iff)

lemma dict_del_set: "dict_del k (dict_set k v d) = dict_del k d"
  by (induction d) auto

lemma new_cache_ok: "cache_ok (new_semantic_cache cfg)"
  by (simp add: cache_ok_def new_semantic_cache_def)

lemma evict_drop:
  "evict_while_full m c = (c', n, ok) \<Longrightarrow>
   c' = drop n c \<and> n \<le> length c \<and> (ok \<longrightarrow> int (length c') < m) \<and> (ok \<longleftrightarrow> 0 < m)"
proof (induction c arbitrary: c' n ok)
  case (Cons x c)
  obtain d l ok' where r: "evict_while_full m c = (d, l, ok')" by (cases "evict_while_full m c")
  then show ?case
    using Cons.prems Cons.IH [OF r] by (auto split: if_splits)
qed simp

text \<open>At most one entry goes when the cache is within its bound.\<close>

lemma evict_one:
  assumes "evict_while_full m c = (c', n, True)" and "int (length c) \<le> max 0 m"
  shows "n = (if int (length c) = m then 1 else 0)"
proof -
  have "0 < m" using evict_drop [OF assms(1)] by simp
  show ?thesis
  proof (cases c)
    case Nil
    then show ?thesis using assms(1) \<open>0 < m\<close> by simp
  next
    case (Cons x xs)
    have small: "evict_while_full m xs = (xs, 0, True)" if "int (length xs) < m"
      using that by (cases xs) simp_all
    show ?thesis using assms \<open>0 < m\<close> small by (simp add: Cons split: if_splits)
  qed
qed

text \<open>The one place where a lookup changes more than it removes: a hit.\<close>

lemma cache_get_hit:
  assumes "cache_ok sc" and "cache_get V now q user org sc = (Some r, sc')" and "lr_hit r"
  obtains k e s where "(k, e) \<in> set (sc_cache sc)" "candidate (sc_config sc) now user org e"
    "cosine_similarity V q (ce_embedding e) = Some s" "cc_similarity_threshold (sc_config sc) \<le> s"
    "best_so_far V (sc_config sc) q (filter (\<lambda>y. candidate (sc_config sc) now user org (snd y)) (sc_cache sc))
       None (Some (k, e, s))"
    "r = \<lparr>lr_hit = True, lr_entry = Some (touch_entry now e), lr_similarity = s, lr_tier = Some Tier_Response\<rparr>"
    "sc_cache sc' = dict_del k (filter (\<lambda>y. \<not> expired_in (sc_config sc) now (snd y)) (sc_cache sc)) @
       [(k, touch_entry now e)]"
    "sc_config sc' = sc_config sc" "cc_enabled (sc_config sc)"
proof -
  have en: "cc_enabled (sc_config sc)"
    using assms(2,3) by (auto simp: cache_get_def cache_miss_def split: if_splits)
  obtain c n best fin where sc: "scan_cache V (sc_config sc) now q user org (sc_cache sc) (sc_cache sc, 0, None) =
      ((c, n, best), fin)"
    by (metis surj_pair)
  have fin using assms(2,3) en by (auto simp: cache_get_def sc Let_def split: if_splits)
  moreover have "best \<noteq> None"
  proof
    assume "best = None"
    then show False
      using assms(2,3) en by (auto simp: cache_get_def sc cache_miss_def Let_def split: if_splits)
  qed
  ultimately obtain k e s where fin: fin and b: "best = Some (k, e, s)" by (cases best) auto
  have sc': "scan_cache V (sc_config sc) now q user org (sc_cache sc) (sc_cache sc, 0, None) =
      ((c, n, Some (k, e, s)), True)"
    using sc b fin by simp
  have bs: "best_so_far V (sc_config sc) q
      (filter (\<lambda>y. candidate (sc_config sc) now user org (snd y)) (sc_cache sc)) None (Some (k, e, s))"
    by (rule scan_best [OF sc'])
  then have in_c: "(k, e) \<in> set (sc_cache sc)" "candidate (sc_config sc) now user org e"
    by (auto simp: best_so_far_def)
  then have key: "ce_key e = k" using cache_okD(2) [OF assms(1)] by (force simp: entry_ok_def)
  have c: "c = filter (\<lambda>y. \<not> expired_in (sc_config sc) now (snd y)) (sc_cache sc)"
    by (rule scan_all_evicts [OF cache_okD(1) [OF assms(1)] sc'])
  have k: "ce_key (touch_entry now e) = k" using key by (simp add: touch_entry_def)
  show thesis
    using that [OF in_c _ _ bs _ _ _ en] bs assms(2) en sc' k
    by (auto simp: cache_get_def Let_def move_to_end_def dict_del_set best_so_far_def c)
qed

lemma cache_get_no_hit:
  assumes "cache_ok sc" and "cache_get V now q user org sc = (r, sc')" and "\<And>x. r = Some x \<Longrightarrow> \<not> lr_hit x"
  shows "subseq (sc_cache sc') (sc_cache sc) \<and> sc_config sc' = sc_config sc"
proof (cases "cc_enabled (sc_config sc)")
  case True
  obtain c n best fin where sc: "scan_cache V (sc_config sc) now q user org (sc_cache sc) (sc_cache sc, 0, None) =
      ((c, n, best), fin)"
    by (metis surj_pair)
  note sub = scan_subseq [OF sc]
  consider "\<not> fin" | fin "best = None" | k e s where fin "best = Some (k, e, s)"
    by (cases fin; cases best) auto
  then show ?thesis
  proof cases
    case (3 k e s)
    then have "(k, e) \<in> set (sc_cache sc)"
      using scan_best [of V "sc_config sc" now q user org] sc by (fastforce simp: best_so_far_def)
    then have "ce_key (touch_entry now e) = k"
      using cache_okD(2) [OF assms(1)] by (force simp: entry_ok_def touch_entry_def)
    then show ?thesis
      using assms(2,3) True 3 by (auto simp: cache_get_def sc Let_def move_to_end_def)
  qed (use assms(2) True sub in \<open>auto simp: cache_get_def sc Let_def\<close>)
qed (use assms in \<open>simp add: cache_get_def\<close>)

lemma cache_get_ok:
  assumes "cache_ok sc"
  shows "cache_ok (snd (cache_get V now q user org sc)) \<and>
    sc_config (snd (cache_get V now q user org sc)) = sc_config sc"
proof -
  obtain r sc' where g: "cache_get V now q user org sc = (r, sc')" by (cases "cache_get V now q user org sc")
  show ?thesis
  proof (cases "\<exists>x. r = Some x \<and> lr_hit x")
    case False
    then show ?thesis
      using cache_get_no_hit [OF assms g] cache_ok_subseq [OF assms] g by auto
  next
    case True
    then obtain x where x: "cache_get V now q user org sc = (Some x, sc')" "lr_hit x" using g by auto
    from assms x show ?thesis
    proof (rule cache_get_hit)
      fix k e s
      let ?f = "filter (\<lambda>y. \<not> expired_in (sc_config sc) now (snd y)) (sc_cache sc)"
      assume a: "(k, e) \<in> set (sc_cache sc)" "candidate (sc_config sc) now user org e"
        "sc_cache sc' = dict_del k ?f @ [(k, touch_entry now e)]" "sc_config sc' = sc_config sc"
      have sub: "subseq (dict_del k ?f) (sc_cache sc)"
        by (rule subseq_order.trans [OF subseq_dict_del subseq_filter_left])
      have less: "length (dict_del k ?f) < length (sc_cache sc)"
        using length_filter_less [of "(k, e)" ?f "\<lambda>x. fst x \<noteq> k"] length_filter_le [of _ "sc_cache sc"] a(1,2)
        by (auto simp: dict_del_filter candidate_def intro: less_le_trans)
      have "entry_ok (sc_config sc) (k, touch_entry now e)"
        using cache_okD(2) [OF assms a(1)] by (simp add: entry_ok_def touch_entry_def)
      then show ?thesis
        using a(3,4) less subseq_distinct_keys [OF sub cache_okD(1) [OF assms]] subseq_members [OF sub]
          cache_okD(2,3) [OF assms] g x
        by (auto simp: cache_ok_def list_all_iff dict_del_filter)
    qed
  qed
qed

lemma cache_set_cases:
  assumes "cache_set now p sc = (ok, sc')"
  obtains (disabled) "\<not> cc_enabled (sc_config sc)" "ok" "sc' = sc"
  | (failed) n where "cc_enabled (sc_config sc)" "\<not> ok" "cc_max_response_entries (sc_config sc) \<le> 0"
      "sc_cache sc' = drop n (sc_cache sc)" "sc_config sc' = sc_config sc"
  | (stored) n where "cc_enabled (sc_config sc)" ok "0 < cc_max_response_entries (sc_config sc)"
      "evict_while_full (cc_max_response_entries (sc_config sc)) (sc_cache sc) = (drop n (sc_cache sc), n, True)"
      "int (length (drop n (sc_cache sc))) < cc_max_response_entries (sc_config sc)"
      "sc_config sc' = sc_config sc"
      "sc_cache sc' = dict_set (ce_key (new_cache_entry (sc_config sc) now p))
         (new_cache_entry (sc_config sc) now p) (drop n (sc_cache sc))"
proof (cases "cc_enabled (sc_config sc)")
  case True
  obtain c n ok' where e: "evict_while_full (cc_max_response_entries (sc_config sc)) (sc_cache sc) = (c, n, ok')"
    by (metis surj_pair)
  from evict_drop [OF e] have c: "c = drop n (sc_cache sc)" by simp
  show thesis
  proof (cases ok')
    case True
    note ev = evict_drop [OF e, simplified True] and now_on = assms [unfolded cache_set_def e]
    show thesis
      by (rule stored [of n]) (use ev now_on True c e \<open>cc_enabled (sc_config sc)\<close> in \<open>auto simp: Let_def\<close>)
  next
    case False
    note ev = evict_drop [OF e, simplified False] and now_on = assms [unfolded cache_set_def e]
    show thesis
      by (rule failed [of n]) (use ev now_on False c \<open>cc_enabled (sc_config sc)\<close> in \<open>auto simp: Let_def\<close>)
  qed
next
  case False
  then show thesis by (rule disabled) (use assms False in \<open>simp_all add: cache_set_def\<close>)
qed

lemma subseq_drop: "subseq (drop n xs) xs"
  by (rule suffix_imp_subseq) (rule suffix_drop)

lemma new_entry_ok: "entry_ok cfg (ce_key (new_cache_entry cfg now p), new_cache_entry cfg now p)"
  by (auto simp: entry_ok_def new_cache_entry_def)

lemma cache_set_ok:
  assumes "cache_ok sc"
  shows "cache_ok (snd (cache_set now p sc)) \<and> sc_config (snd (cache_set now p sc)) = sc_config sc"
proof -
  obtain ok sc' where s: "cache_set now p sc = (ok, sc')" by (cases "cache_set now p sc")
  then show ?thesis
  proof (cases rule: cache_set_cases)
    case disabled
    then show ?thesis using assms s by simp
  next
    case (failed n)
    then show ?thesis using cache_ok_subseq [OF assms, of sc'] subseq_drop [of n "sc_cache sc"] s by simp
  next
    case (stored n)
    let ?e = "new_cache_entry (sc_config sc) now p"
    have "cache_ok (sc\<lparr>sc_cache := drop n (sc_cache sc)\<rparr>)"
      by (rule cache_ok_subseq [OF assms]) (simp_all add: subseq_drop)
    then have d: "distinct (map fst (drop n (sc_cache sc)))"
        "\<And>x. x \<in> set (drop n (sc_cache sc)) \<Longrightarrow> entry_ok (sc_config sc) x"
      by (auto simp: cache_ok_def list_all_iff)
    show ?thesis
      using s stored d new_entry_ok length_dict_set [of "ce_key ?e" ?e "drop n (sc_cache sc)"]
      by (auto simp: cache_ok_def list_all_iff distinct_update dest!: set_dict_set)
  qed
qed

lemma fold_dict_del: "fold dict_del ks d = filter (\<lambda>x. fst x \<notin> set ks) d"
  by (induction ks arbitrary: d) (auto simp: dict_del_filter intro!: filter_cong)

lemma invalidated_cache:
  assumes "cache_ok sc"
  shows "sc_cache (snd (invalidate_by_document d sc)) = filter (\<lambda>x. d \<notin> set (ce_document_ids (snd x))) (sc_cache sc)"
  using cache_okD(1) [OF assms]
  by (auto simp: invalidate_by_document_def Let_def fold_dict_del distinct_map inj_on_def image_iff
      intro!: filter_cong) force+

lemma cache_exec_ok:
  assumes "cache_ok sc"
  shows "cache_ok (cache_exec V a sc) \<and> sc_config (cache_exec V a sc) = sc_config sc"
proof (cases a)
  case (Invalidate d)
  have "sc_config (snd (invalidate_by_document d sc)) = sc_config sc"
    by (simp add: invalidate_by_document_def Let_def)
  then show ?thesis
    using cache_ok_subseq [OF assms] by (simp add: Invalidate invalidated_cache [OF assms])
next
  case Clear
  then show ?thesis using assms by (simp add: clear_cache_def cache_ok_def)
next
  case Read_Stats
  then show ?thesis using assms by (simp add: read_cache_stats_def Let_def cache_ok_def)
qed (simp_all add: cache_get_ok [OF assms] cache_set_ok [OF assms])

lemma run_cache_Nil [simp]: "run_cache V [] sc = sc"
  and run_cache_Cons [simp]: "run_cache V (a # ops) sc = run_cache V ops (cache_exec V a sc)"
  by (simp_all add: run_cache_def)

lemma run_cache_ok:
  "cache_ok sc \<Longrightarrow> cache_ok (run_cache V ops sc) \<and> sc_config (run_cache V ops sc) = sc_config sc"
  by (induction ops arbitrary: sc) (simp_all add: cache_exec_ok)

text \<open>C22: In every history the cache is in order: each key once, each entry filed under the key of its
  organisation, user and query with the configured lifetime, and never more entries than configured.\<close>

theorem cache_stays_in_order:
  "cache_ok (run_cache V ops (new_semantic_cache cfg))"
  by (rule run_cache_ok [OF new_cache_ok, THEN conjunct1])

section \<open>What a request is answered with\<close>

lemma cache_get_miss:
  assumes "cache_get V now q user org sc = (Some r, sc')" and "lr_entry r = None" and "cc_enabled (sc_config sc)"
  shows "best_so_far V (sc_config sc) q (filter (\<lambda>y. candidate (sc_config sc) now user org (snd y)) (sc_cache sc)) None None"
proof -
  obtain c n best fin where sc: "scan_cache V (sc_config sc) now q user org (sc_cache sc) (sc_cache sc, 0, None) =
      ((c, n, best), fin)"
    by (metis surj_pair)
  have fin using assms(1,3) by (auto simp: cache_get_def sc Let_def split: if_splits)
  moreover have "best = None"
  proof (rule ccontr)
    assume "best \<noteq> None"
    then obtain k e s where "best = Some (k, e, s)" by (cases best) auto
    then show False
      using assms \<open>fin\<close> by (auto simp: cache_get_def sc Let_def split: option.splits)
  qed
  ultimately show ?thesis using scan_best [of V "sc_config sc" now q user org "sc_cache sc" "sc_cache sc" 0 None] sc by simp
qed

lemma hit_iff_entry: "cache_get V now q user org sc = (Some r, sc') \<Longrightarrow> lr_hit r \<longleftrightarrow> lr_entry r \<noteq> None"
  by (auto simp: cache_get_def cache_miss_def Let_def split: if_splits prod.splits option.splits)

text \<open>C21: A lookup answers with the best entry there is: one that is not expired and that the user and the
  organisation may see, whose similarity reaches the threshold and is not below that of any other such
  entry; if it answers with nothing, no such entry reaches the threshold.\<close>

theorem lookup_answers_best_match:
  assumes "cache_ok sc" and "cc_enabled (sc_config sc)" and "cache_get V now q user org sc = (Some r, sc')"
  shows "case lr_entry r of
      None \<Rightarrow> \<forall>(k, e) \<in> set (sc_cache sc). candidate (sc_config sc) now user org e \<longrightarrow>
        (\<exists>s. cosine_similarity V q (ce_embedding e) = Some s \<and> s < cc_similarity_threshold (sc_config sc))
    | Some e \<Rightarrow> \<exists>k e0. (k, e0) \<in> set (sc_cache sc) \<and> candidate (sc_config sc) now user org e0 \<and>
        e = touch_entry now e0 \<and> cosine_similarity V q (ce_embedding e0) = Some (lr_similarity r) \<and>
        cc_similarity_threshold (sc_config sc) \<le> lr_similarity r \<and>
        (\<forall>(k', e') \<in> set (sc_cache sc). candidate (sc_config sc) now user org e' \<longrightarrow>
          (\<exists>t. cosine_similarity V q (ce_embedding e') = Some t \<and> t \<le> lr_similarity r))"
proof (cases "lr_entry r")
  case None
  show ?thesis
    using cache_get_miss [OF assms(3) None assms(2)] by (fastforce simp: None best_so_far_def)
next
  case (Some e)
  then have "lr_hit r" using hit_iff_entry [OF assms(3)] by simp
  from assms(1,3) this show ?thesis
  proof (rule cache_get_hit)
    fix k e0 s
    let ?live = "filter (\<lambda>y. candidate (sc_config sc) now user org (snd y)) (sc_cache sc)"
    assume a: "(k, e0) \<in> set (sc_cache sc)" "candidate (sc_config sc) now user org e0"
      "cosine_similarity V q (ce_embedding e0) = Some s" "cc_similarity_threshold (sc_config sc) \<le> s"
      "best_so_far V (sc_config sc) q ?live None (Some (k, e0, s))"
      "r = \<lparr>lr_hit = True, lr_entry = Some (touch_entry now e0), lr_similarity = s, lr_tier = Some Tier_Response\<rparr>"
    have "\<exists>t. cosine_similarity V q (ce_embedding e') = Some t \<and> t \<le> s"
      if "(k', e') \<in> set (sc_cache sc)" "candidate (sc_config sc) now user org e'" for k' e'
    proof -
      have "(k', e') \<in> set ?live" using that by simp
      then obtain t where "cosine_similarity V q (ce_embedding e') = Some t"
          "cc_similarity_threshold (sc_config sc) \<le> t \<longrightarrow> t \<le> s"
        using a(5) unfolding best_so_far_def by fastforce
      then show ?thesis using a(4) by force
    qed
    then show ?thesis using a(1-4,6) by (auto intro!: exI [of _ k] exI [of _ e0])
  qed
qed

text \<open>Every entry has what every stored entry has, if touching an entry keeps it.\<close>

lemma exec_entries:
  assumes "cache_ok sc"
    and "\<And>x. x \<in> set (sc_cache sc) \<Longrightarrow> P (snd x)"
    and "\<And>now e. P e \<Longrightarrow> P (touch_entry now e)"
    and "\<And>now p. a = Store now p \<Longrightarrow> P (new_cache_entry (sc_config sc) now p)"
    and "x \<in> set (sc_cache (cache_exec V a sc))"
  shows "P (snd x)"
proof (cases a)
  case (Lookup now q user org)
  obtain r sc' where g: "cache_get V now q user org sc = (r, sc')" by (cases "cache_get V now q user org sc")
  show ?thesis
  proof (cases "\<exists>y. r = Some y \<and> lr_hit y")
    case False
    then show ?thesis
      using cache_get_no_hit [OF assms(1) g] subseq_members assms(2,5) g by (fastforce simp: Lookup)
  next
    case True
    then obtain y where y: "cache_get V now q user org sc = (Some y, sc')" "lr_hit y" using g by auto
    from assms(1) y show ?thesis
    proof (rule cache_get_hit)
      fix k e s
      assume a: "(k, e) \<in> set (sc_cache sc)"
        and c: "sc_cache sc' = dict_del k (filter (\<lambda>y. \<not> expired_in (sc_config sc) now (snd y)) (sc_cache sc)) @
          [(k, touch_entry now e)]"
      have "P (touch_entry now e)" using assms(2) [OF a] assms(3) by simp
      moreover have "x \<in> set (sc_cache sc) \<or> x = (k, touch_entry now e)"
        using assms(5) g c by (auto simp: Lookup dict_del_filter)
      ultimately show ?thesis using assms(2) [of x] by auto
    qed
  qed
next
  case (Store now p)
  obtain ok sc' where s: "cache_set now p sc = (ok, sc')" by (cases "cache_set now p sc")
  then have "x \<in> set (sc_cache sc) \<or> snd x = new_cache_entry (sc_config sc) now p"
    using assms(5) s
    by (cases rule: cache_set_cases) (auto simp: Store dest: in_set_dropD dest!: set_dict_set)
  then show ?thesis using assms(2) [of x] assms(4) [OF Store] by auto
next
  case (Invalidate d)
  then show ?thesis using assms(2,5) by (simp add: invalidated_cache [OF assms(1)])
qed (use assms(2,5) in \<open>auto simp: clear_cache_def read_cache_stats_def Let_def\<close>)

lemma run_entries:
  assumes "cache_ok sc"
    and "\<And>x. x \<in> set (sc_cache sc) \<Longrightarrow> P (snd x)"
    and "\<And>now e. P e \<Longrightarrow> P (touch_entry now e)"
    and "\<And>now p. Store now p \<in> set ops \<Longrightarrow> P (new_cache_entry (sc_config sc) now p)"
    and "x \<in> set (sc_cache (run_cache V ops sc))"
  shows "P (snd x)"
  using assms
proof (induction ops arbitrary: sc)
  case (Cons a ops)
  have ok: "cache_ok (cache_exec V a sc)" "sc_config (cache_exec V a sc) = sc_config sc"
    using cache_exec_ok [OF Cons.prems(1)] by simp_all
  show ?case
  proof (rule Cons.IH [OF ok(1) _ Cons.prems(3)])
    fix y
    assume y: "y \<in> set (sc_cache (cache_exec V a sc))"
    show "P (snd y)"
      by (rule exec_entries [OF Cons.prems(1-3) _ y]) (use Cons.prems(4) in auto)
  qed (use Cons.prems ok in simp_all)
qed simp

lemma run_new_cache:
  "cache_ok (run_cache V ops (new_semantic_cache cfg))"
  "sc_config (run_cache V ops (new_semantic_cache cfg)) = cfg"
  using run_cache_ok [OF new_cache_ok, of V ops cfg] by (simp_all add: new_semantic_cache_def)

lemma hit_entries:
  assumes "cache_ok sc" and "cache_get V now q user org sc = (Some r, sc')" and "lr_entry r = Some e"
    and "\<And>x. x \<in> set (sc_cache sc) \<Longrightarrow> P (snd x)"
  obtains e0 where "e = touch_entry now e0" "P e0" "candidate (sc_config sc) now user org e0"
    "entry_ok (sc_config sc) (ce_key e0, e0)"
proof -
  have "lr_hit r" using hit_iff_entry [OF assms(2)] assms(3) by simp
  from assms(1,2) this show thesis
  proof (rule cache_get_hit)
    fix k e0 s
    assume a: "(k, e0) \<in> set (sc_cache sc)" "candidate (sc_config sc) now user org e0"
      "r = \<lparr>lr_hit = True, lr_entry = Some (touch_entry now e0), lr_similarity = s, lr_tier = Some Tier_Response\<rparr>"
    show thesis
      using that [of e0] a assms(3,4) cache_okD(2) [OF assms(1) a(1)] by (force simp: entry_ok_def)
  qed
qed

text \<open>What an entry has from the call that stored it.\<close>

definition stored_from :: "('e, 'v) cache_store \<Rightarrow> ('e, 'v) cache_entry \<Rightarrow> bool" where
  "stored_from p e \<longleftrightarrow> ce_value e = cp_response p \<and> ce_user_id e = cp_user_id p \<and> ce_org_id e = cp_org_id p \<and>
     ce_embedding e = cp_embedding p \<and> ce_metadata e = cp_metadata p \<and> ce_document_ids e = cp_document_ids p"

lemma stored_from_simps [simp]:
  "stored_from p (touch_entry now e) = stored_from p e"
  "stored_from p (new_cache_entry cfg now p)"
  by (simp_all add: stored_from_def touch_entry_def new_cache_entry_def)

lemma hit_was_stored:
  assumes "cache_get V now q user org (run_cache V ops (new_semantic_cache cfg)) = (Some r, sc')"
    and "lr_entry r = Some e"
  shows "\<exists>t p. Store t p \<in> set ops \<and> stored_from p e \<and> entry_visible user org e"
proof -
  let ?P = "\<lambda>e. \<exists>t p. Store t p \<in> set ops \<and> stored_from p e"
  let ?sc = "run_cache V ops (new_semantic_cache cfg)"
  note ok = run_new_cache(1) [of V ops cfg]
  have "?P (snd x)" if "x \<in> set (sc_cache ?sc)" for x
    by (rule run_entries [OF new_cache_ok _ _ _ that])
      (simp_all add: new_semantic_cache_def, use stored_from_simps(2) in blast)
  from hit_entries [where P = ?P, OF ok assms this] obtain e0 t p
    where "e = touch_entry now e0" "candidate (sc_config ?sc) now user org e0"
      "Store t p \<in> set ops" "stored_from p e0"
    by blast
  then show ?thesis by (auto simp: candidate_def entry_visible_def touch_entry_def stored_from_def)
qed

text \<open>A request of a user in an organisation is only ever answered with what was stored before it, and
  stored by the same user or without one, in the same organisation or without one.\<close>

theorem answers_stay_with_their_owner:
  assumes "cache_get V now q user org (run_cache V ops (new_semantic_cache cfg)) = (Some r, sc')"
    and "lr_entry r = Some e" and "user \<noteq> []" and "org \<noteq> []"
  shows "\<exists>t p. Store t p \<in> set ops \<and> stored_from p e \<and> cp_user_id p \<in> {user, []} \<and> cp_org_id p \<in> {org, []}"
proof -
  obtain t p where p: "Store t p \<in> set ops" "stored_from p e" "entry_visible user org e"
    using hit_was_stored [OF assms(1,2)] by blast
  then have "cp_user_id p \<in> {user, []} \<and> cp_org_id p \<in> {org, []}"
    using assms(3,4) by (auto simp: stored_from_def entry_visible_def other_owner_def)
  then show ?thesis using p(1,2) by blast
qed

text \<open>C20: Once the answers of a document have been invalidated, no request is answered with one that used the
  document, until an answer that uses it is stored again.\<close>

theorem invalidated_answer_is_not_served:
  assumes "cache_ok sc" and "\<And>t p. Store t p \<in> set ops \<Longrightarrow> d \<notin> set (cp_document_ids p)"
    and "cache_get V now q user org (run_cache V ops (snd (invalidate_by_document d sc))) = (Some r, sc')"
    and "lr_entry r = Some e"
  shows "d \<notin> set (ce_document_ids e)"
proof -
  let ?P = "\<lambda>e. d \<notin> set (ce_document_ids e)"
  let ?start = "snd (invalidate_by_document d sc)"
  have start: "cache_ok ?start" using cache_exec_ok [OF assms(1), where a = "Invalidate d"] by simp
  have "?P (snd x)" if "x \<in> set (sc_cache (run_cache V ops ?start))" for x
    by (rule run_entries [OF start _ _ _ that])
      (auto simp: invalidated_cache [OF assms(1)] touch_entry_def new_cache_entry_def assms(2))
  from hit_entries [where P = ?P, OF run_cache_ok [OF start, THEN conjunct1] assms(3,4) this]
  obtain e0 where "e = touch_entry now e0" "?P e0"
    by blast
  then show ?thesis by (simp add: touch_entry_def)
qed

text \<open>No answer is served beyond its lifetime: its age is at most the configured lifetime, times the
  configured multiplier when often used answers may live longer.\<close>

theorem served_answer_is_fresh:
  assumes "cache_get V now q user org (run_cache V ops (new_semantic_cache cfg)) = (Some r, sc')"
    and "lr_entry r = Some e" and "0 \<le> cc_response_ttl cfg"
  shows "now - ce_created_at e \<le> of_int (cc_response_ttl cfg) * (if cc_adaptive_ttl cfg then max 1 (cc_max_multiplier cfg) else 1)"
proof -
  let ?sc = "run_cache V ops (new_semantic_cache cfg)"
  note ok = run_new_cache [of V ops cfg]
  from hit_entries [OF ok(1) assms(1,2), where P = "\<lambda>_. True"] obtain e0 where
    e: "e = touch_entry now e0" "candidate cfg now user org e0" "entry_ok cfg (ce_key e0, e0)"
    by (auto simp: ok(2))
  let ?ttl = "of_int (cc_response_ttl cfg) :: pyfloat"
  have "?ttl * m \<le> ?ttl * m'" if "m \<le> m'" for m m' :: pyfloat
    using that assms(3) by (intro mult_left_mono) simp_all
  from this [of 1 "max 1 (cc_max_multiplier cfg)"]
    this [of "min (1 + of_nat (ce_access_count e0) / 4) (cc_max_multiplier cfg)" "max 1 (cc_max_multiplier cfg)"]
  have "effective_ttl (cc_adaptive_ttl cfg) (cc_max_multiplier cfg) e0 \<le>
      ?ttl * (if cc_adaptive_ttl cfg then max 1 (cc_max_multiplier cfg) else 1)"
    using e(3) by (auto simp: effective_ttl_def entry_ok_def)
  then show ?thesis
    using e(1,2) by (simp add: candidate_def entry_expired_def touch_entry_def)
qed

section \<open>Eviction\<close>

text \<open>The entry under \<open>k\<close> has at most \<open>n\<close> younger ones.\<close>

definition younger_at_most :: "nat \<Rightarrow> 'k \<Rightarrow> ('k, 'a) dict \<Rightarrow> bool" where
  "younger_at_most n k c \<longleftrightarrow> (\<exists>xs v zs. c = xs @ (k, v) # zs \<and> length zs \<le> n)"

lemma younger_at_mostI: "length zs \<le> n \<Longrightarrow> younger_at_most n k (xs @ (k, v) # zs)"
  by (auto simp: younger_at_most_def)

lemma younger_key: "younger_at_most n k c \<Longrightarrow> k \<in> fst ` set c"
  by (force simp: younger_at_most_def)

lemma dict_set_append:
  "dict_set k v (xs @ ys) = (if k \<in> fst ` set xs then dict_set k v xs @ ys else xs @ dict_set k v ys)"
  by (induction xs) auto

lemma younger_set:
  assumes "younger_at_most n k c"
  shows "younger_at_most (Suc n) k (dict_set k' v' c)"
proof -
  obtain xs v zs where c: "c = xs @ (k, v) # zs" "length zs \<le> n"
    using assms by (auto simp: younger_at_most_def)
  have "length (dict_set k' v' zs) \<le> Suc n" using length_dict_set [of k' v' zs] c(2) by simp
  then have tail: "younger_at_most (Suc n) k (xs @ (k, v) # dict_set k' v' zs)" by (rule younger_at_mostI)
  have "younger_at_most (Suc n) k (dict_set k' v' xs @ (k, v) # zs)"
    and "younger_at_most (Suc n) k (xs @ (k, v') # zs)"
    using c(2) by (simp_all add: younger_at_mostI)
  with tail show ?thesis by (cases "k = k'") (simp_all add: c(1) dict_set_append)
qed

lemma younger_drop:
  assumes "younger_at_most n k c" and "n + m < length c"
  shows "younger_at_most n k (drop m c)"
proof -
  obtain xs v zs where c: "c = xs @ (k, v) # zs" "length zs \<le> n"
    using assms by (auto simp: younger_at_most_def)
  then have "drop m c = drop m xs @ (k, v) # zs" using assms(2) by simp
  then show ?thesis using c(2) by (auto simp: younger_at_most_def)
qed

lemma store_keeps_used:
  assumes "cache_ok sc" and "younger_at_most n k (sc_cache sc)"
    and "int (Suc n) < cc_max_response_entries (sc_config sc)"
  shows "younger_at_most (Suc n) k (sc_cache (snd (cache_set now p sc)))"
proof -
  obtain ok sc' where s: "cache_set now p sc = (ok, sc')" by (cases "cache_set now p sc")
  then show ?thesis
  proof (cases rule: cache_set_cases)
    case disabled
    then show ?thesis using assms(2) s by (force simp: younger_at_most_def)
  next
    case (failed m)
    then show ?thesis using assms(3) by simp
  next
    case (stored m)
    have "m = (if int (length (sc_cache sc)) = cc_max_response_entries (sc_config sc) then 1 else 0)"
      by (rule evict_one [OF stored(4) cache_okD(3) [OF assms(1)]])
    moreover have "drop 0 (sc_cache sc) = sc_cache sc" by simp
    ultimately have "younger_at_most n k (drop m (sc_cache sc))"
      using younger_drop [OF assms(2), of m] assms(2,3) by (auto split: if_splits)
    then show ?thesis using younger_set s stored(7) by simp
  qed
qed

lemma stores_keep_used:
  "cache_ok sc \<Longrightarrow> younger_at_most n k (sc_cache sc) \<Longrightarrow>
   int (n + length ps) < cc_max_response_entries (sc_config sc) \<Longrightarrow>
   younger_at_most (n + length ps) k (sc_cache (run_cache V (map (\<lambda>(t, p). Store t p) ps) sc))"
proof (induction ps arbitrary: sc n)
  case (Cons x ps)
  obtain t p where x: "x = (t, p)" by (cases x)
  have "younger_at_most (Suc n) k (sc_cache (snd (cache_set t p sc)))"
    by (rule store_keeps_used [OF Cons.prems(1,2)]) (use Cons.prems(3) in simp)
  then show ?case
    using Cons.IH [of "snd (cache_set t p sc)" "Suc n"] cache_set_ok [OF Cons.prems(1), of t p] Cons.prems(3)
    by (simp add: x)
qed simp

text \<open>C38: An answer that was just used is not evicted soon: it outlives any number of new answers that is
  smaller than the capacity.\<close>

theorem used_answer_outlives_stores:
  assumes "cache_ok sc" and "cache_get V now q user org sc = (Some r, sc')" and "lr_entry r = Some e"
    and "int (length ps) < cc_max_response_entries (sc_config sc)"
  shows "ce_key e \<in> fst ` set (sc_cache (run_cache V (map (\<lambda>(t, p). Store t p) ps) sc'))"
proof -
  have "lr_hit r" using hit_iff_entry [OF assms(2)] assms(3) by simp
  have ok: "cache_ok sc'" "sc_config sc' = sc_config sc"
    using cache_get_ok [OF assms(1), of V now q user org] assms(2) by simp_all
  from assms(1,2) \<open>lr_hit r\<close> have "younger_at_most 0 (ce_key e) (sc_cache sc')"
  proof (rule cache_get_hit)
    fix k e0 s
    assume a: "(k, e0) \<in> set (sc_cache sc)"
      "r = \<lparr>lr_hit = True, lr_entry = Some (touch_entry now e0), lr_similarity = s, lr_tier = Some Tier_Response\<rparr>"
      "sc_cache sc' = dict_del k (filter (\<lambda>y. \<not> expired_in (sc_config sc) now (snd y)) (sc_cache sc)) @
         [(k, touch_entry now e0)]"
    have "ce_key e = k"
      using a(2) assms(3) cache_okD(2) [OF assms(1) a(1)] by (auto simp: entry_ok_def touch_entry_def)
    then show ?thesis using a(3) by (auto simp: younger_at_most_def)
  qed
  from stores_keep_used [OF ok(1) this, of ps V] assms(4) show ?thesis
    by (auto simp: ok(2) intro: younger_key)
qed

section \<open>Keys\<close>

lemma colon_split:
  "xs @ CHR '':'' # s = ys @ CHR '':'' # t \<Longrightarrow> CHR '':'' \<notin> set xs \<Longrightarrow> CHR '':'' \<notin> set ys \<Longrightarrow> xs = ys \<and> s = t"
proof (induction xs arbitrary: ys)
  case Nil
  then show ?case by (cases ys) auto
next
  case (Cons x xs)
  then show ?case by (cases ys) auto
qed

text \<open>Requests with an organisation and a user whose names have no colon never share a key.\<close>

lemma owned_keys_distinct:
  assumes "response_cache_key org user query = response_cache_key org' user' query'"
    and "org \<noteq> []" "user \<noteq> []" "org' \<noteq> []" "user' \<noteq> []"
    and "CHR '':'' \<notin> set org" "CHR '':'' \<notin> set user" "CHR '':'' \<notin> set org'" "CHR '':'' \<notin> set user'"
  shows "org = org' \<and> user = user' \<and> query = query'"
  using assms colon_split [of org "user @ ''::'' @ query" org' "user' @ ''::'' @ query'"]
    colon_split [of user "CHR '':'' # query" user' "CHR '':'' # query'"]
  by (simp add: response_cache_key_def)

section \<open>Where the cache does less than it says\<close>

definition unit_vectors :: "unit vec_ops" where
  "unit_vectors = \<lparr>vo_norm = (\<lambda>_. 1), vo_dot = (\<lambda>_ _. Some 1)\<rparr>"

definition sample_store :: "string \<Rightarrow> string \<Rightarrow> string \<Rightarrow> 'v \<Rightarrow> (unit, 'v) cache_store" where
  "sample_store org user query answer =
     \<lparr>cp_query = query, cp_embedding = (), cp_response = answer, cp_document_ids = [''doc''], cp_metadata = [],
      cp_user_id = user, cp_org_id = org\<rparr>"

definition small_cache :: "int \<Rightarrow> (unit, 'v) semantic_cache" where
  "small_cache m = new_semantic_cache (default_cache_config\<lparr>cc_max_response_entries := m\<rparr>)"

lemmas cache_evaluation = unit_vectors_def sample_store_def small_cache_def new_semantic_cache_def
  default_cache_config_def new_cache_stats_def cache_set_def cache_get_def new_cache_entry_def
  response_cache_key_def candidate_def entry_visible_def other_owner_def entry_expired_def effective_ttl_def
  cosine_similarity_def better_match_def touch_entry_def move_to_end_def cache_miss_def Let_def lr_value_def

text \<open>The isolation fails open: a request without a user and an organisation is answered with what
  was stored for a user of an organisation.\<close>

theorem anonymous_lookup_reads_private_answer:
  "map_option lr_value (fst (cache_get unit_vectors 1 () [] [] (run_cache unit_vectors
     [Store 0 (sample_store ''org'' ''ann'' ''q'' (7::nat))] (small_cache 3)))) = Some (Some 7)"
  by (simp add: cache_evaluation)

text \<open>The key of an entry does not tell its owner: a query without a user can overwrite the answer stored
  for a user.\<close>

theorem keys_of_two_owners_collide:
  "map (ce_value \<circ> snd) (sc_cache (run_cache unit_vectors
     [Store 0 (sample_store [] ''ann'' ''q'' (7::nat)), Store 1 (sample_store [] [] ''ann::q'' 8)] (small_cache 3))) = [8]"
  by (simp add: cache_evaluation)

text \<open>An answer that is stored again keeps its old place in the order of eviction, so that the newest
  answer of the cache can be the first to go.\<close>

theorem refreshed_answer_goes_first:
  "map (ce_value \<circ> snd) (sc_cache (run_cache unit_vectors
     [Store 0 (sample_store [] [] ''a'' (1::nat)), Store 1 (sample_store [] [] ''b'' 2),
      Store 2 (sample_store [] [] ''a'' 3), Store 3 (sample_store [] [] ''c'' 4), Store 4 (sample_store [] [] ''d'' 5)]
     (small_cache 3))) = [2, 4, 5]"
  by (simp add: cache_evaluation)

text \<open>Storing an answer again in a full cache evicts another one although nothing is added.\<close>

theorem full_cache_loses_a_bystander:
  "map (ce_value \<circ> snd) (sc_cache (run_cache unit_vectors
     [Store 0 (sample_store [] [] ''a'' (1::nat)), Store 1 (sample_store [] [] ''b'' 2),
      Store 2 (sample_store [] [] ''b'' 3)] (small_cache 2))) = [3]"
  by (simp add: cache_evaluation)

section \<open>The theorems at work\<close>

definition cache_history :: "(unit, nat) cache_op list" where
  "cache_history = [Store 0 (sample_store ''org'' ''ann'' ''q'' 7), Store 1 (sample_store ''org'' ''bob'' ''q'' 8)]"

definition sample_hit :: "(unit, nat) cache_entry" where
  "sample_hit =
     \<lparr>ce_key = ''org:ann::q'', ce_embedding = (), ce_value = 7, ce_tier = Tier_Response, ce_user_id = ''ann'',
      ce_org_id = ''org'', ce_created_at = 0, ce_last_accessed = 9, ce_ttl = 7200, ce_metadata = [],
      ce_access_count = 1, ce_document_ids = [''doc'']\<rparr>"

abbreviation sample_cache :: "(unit, nat) semantic_cache" where
  "sample_cache \<equiv> run_cache unit_vectors cache_history (new_semantic_cache default_cache_config)"

lemma sample_cache_lookup:
  "cache_get unit_vectors 9 () ''ann'' ''org'' sample_cache =
     (Some \<lparr>lr_hit = True, lr_entry = Some sample_hit, lr_similarity = 1, lr_tier = Some Tier_Response\<rparr>,
      snd (cache_get unit_vectors 9 () ''ann'' ''org'' sample_cache))"
  by (simp add: cache_evaluation cache_history_def sample_hit_def)

lemma lookup_answers_best_match_witness:
  "\<exists>k e0. (k, e0) \<in> set (sc_cache sample_cache) \<and> sample_hit = touch_entry 9 e0 \<and>
     (\<forall>(k', e') \<in> set (sc_cache sample_cache). candidate default_cache_config 9 ''ann'' ''org'' e' \<longrightarrow>
        (\<exists>t. cosine_similarity unit_vectors () (ce_embedding e') = Some t \<and> t \<le> 1))"
  using lookup_answers_best_match [OF run_new_cache(1) _ sample_cache_lookup]
  by (simp only: run_new_cache(2)) (auto simp: default_cache_config_def)

lemma answers_stay_with_their_owner_witness:
  "\<exists>t p. Store t p \<in> set cache_history \<and> stored_from p sample_hit \<and> cp_user_id p \<in> {''ann'', []} \<and>
     cp_org_id p \<in> {''org'', []}"
  by (rule answers_stay_with_their_owner [OF sample_cache_lookup]) simp_all

lemma served_answer_is_fresh_witness:
  "9 - ce_created_at sample_hit \<le> 7200 * 3"
  using served_answer_is_fresh [OF sample_cache_lookup, of sample_hit] by (simp add: default_cache_config_def)

lemma used_answer_outlives_stores_witness:
  "''org:ann::q'' \<in> fst ` set (sc_cache (run_cache unit_vectors
     [Store 10 (sample_store ''org'' ''bob'' ''other'' (9::nat))]
     (snd (cache_get unit_vectors 9 () ''ann'' ''org'' sample_cache))))"
  using used_answer_outlives_stores [OF run_new_cache(1) sample_cache_lookup, of sample_hit
      "[(10, sample_store ''org'' ''bob'' ''other'' 9)]"]
  by (simp add: run_new_cache(2) default_cache_config_def sample_hit_def del: run_cache_Cons)

lemma invalidated_answer_is_not_served_witness:
  "\<exists>r sc' e. cache_get unit_vectors 9 () ''ann'' ''org'' (run_cache unit_vectors
      [Store 8 ((sample_store ''org'' ''ann'' ''q'' (9::nat))\<lparr>cp_document_ids := []\<rparr>)]
      (snd (invalidate_by_document ''doc'' sample_cache))) = (Some r, sc') \<and>
    lr_entry r = Some e \<and> ''doc'' \<notin> set (ce_document_ids e)"
proof -
  let ?ops = "[Store 8 ((sample_store ''org'' ''ann'' ''q'' (9::nat))\<lparr>cp_document_ids := []\<rparr>)]"
  let ?get = "cache_get unit_vectors 9 () ''ann'' ''org''
    (run_cache unit_vectors ?ops (snd (invalidate_by_document ''doc'' sample_cache)))"
  have "\<exists>r e. fst ?get = Some r \<and> lr_entry r = Some e"
    by (simp add: cache_evaluation cache_history_def invalidate_by_document_def)
  then obtain r e where r: "?get = (Some r, snd ?get)" "lr_entry r = Some e" by (metis prod.collapse)
  have "''doc'' \<notin> set (ce_document_ids e)"
    by (rule invalidated_answer_is_not_served [OF run_new_cache(1) _ r]) (simp add: sample_store_def)
  then show ?thesis using r by blast
qed

end
