(* ===== verification/Cache_Manager.thy ===== *)
theory Cache_Manager
  imports Response_Cache Failure_Gate
begin

text \<open>
  What stands around the response cache: its circuit breaker and unified interface
  (\<open>cache/cache_manager.py\<close>), the invalidation by document versions (\<open>cache/invalidation.py\<close>), and its
  use by the retrieval pipeline (\<open>engine/agentic_rag/corrective_rag_process_runtime.py\<close>,
  \<open>corrective_rag_runtime_support.py\<close>). SHA-256 is an argument. The values of a request context are
  texts. How a hit is turned into a result is a function of the hit (its routing and rewriting by a
  model; that it also marks the cached sources with a content type is left out).
\<close>

section \<open>The breaker\<close>

record cache_breaker =
  kb_failure_count :: nat
  kb_last_failure :: pyfloat
  kb_is_open :: bool
  kb_failure_threshold :: int
  kb_recovery_timeout :: pyfloat

definition new_cache_breaker :: cache_breaker where
  "new_cache_breaker = \<lparr>kb_failure_count = 0, kb_last_failure = 0, kb_is_open = False,
     kb_failure_threshold = 5, kb_recovery_timeout = 60\<rparr>"

definition kb_record_failure :: "pyfloat \<Rightarrow> cache_breaker \<Rightarrow> cache_breaker" where
  "kb_record_failure now b =
     (let n = Suc (kb_failure_count b) in
      b\<lparr>kb_failure_count := n, kb_last_failure := now,
        kb_is_open := (kb_failure_threshold b \<le> int n \<or> kb_is_open b)\<rparr>)"

definition kb_record_success :: "cache_breaker \<Rightarrow> cache_breaker" where
  "kb_record_success b = b\<lparr>kb_failure_count := 0, kb_is_open := False\<rparr>"

definition kb_is_closed :: "pyfloat \<Rightarrow> cache_breaker \<Rightarrow> bool" where
  "kb_is_closed now b \<longleftrightarrow> \<not> kb_is_open b \<or> kb_recovery_timeout b < now - kb_last_failure b"

definition kb_invar :: "int \<Rightarrow> pyfloat \<Rightarrow> cache_breaker \<Rightarrow> bool" where
  "kb_invar threshold timeout b \<longleftrightarrow>
     kb_failure_threshold b = threshold \<and> kb_recovery_timeout b = timeout \<and>
     (kb_is_open b \<longrightarrow> threshold \<le> int (kb_failure_count b))"

interpretation cache_gate: failure_gate threshold "\<lambda>d. d \<le> timeout" "\<lambda>now b. \<not> kb_is_closed now b"
    "\<lambda>now b. b" kb_record_failure "\<lambda>now. kb_record_success" kb_failure_count kb_last_failure
    "kb_invar threshold timeout"
  for threshold timeout
  by unfold_locales
    (auto simp: kb_invar_def kb_is_closed_def kb_record_failure_def kb_record_success_def Let_def not_less)

section \<open>Invalidation\<close>

record doc_version =
  dv_document_id :: string
  dv_content_hash :: string
  dv_last_updated :: pyfloat
  dv_embedding_version :: "string option"

text \<open>A handler gets a document and the caches; \<open>None\<close> as its count stands for an exception.\<close>

type_synonym 's invalidation_handler = "string \<Rightarrow> 's \<Rightarrow> int option \<times> 's"

record 's invalidation_manager =
  im_versions :: "(string, doc_version) dict"
  im_handlers :: "(string, 's invalidation_handler) dict"
  im_count :: int
  im_last_time :: "pyfloat option"
  im_embedding_version :: "string option"

definition new_invalidation_manager :: "'s invalidation_manager" where
  "new_invalidation_manager = \<lparr>im_versions = [], im_handlers = [], im_count = 0, im_last_time = None,
     im_embedding_version = None\<rparr>"

definition register_handler :: "string \<Rightarrow> 's invalidation_handler \<Rightarrow> 's invalidation_manager \<Rightarrow> 's invalidation_manager" where
  "register_handler tier h im = im\<lparr>im_handlers := dict_set tier h (im_handlers im)\<rparr>"

definition content_hash :: "(string \<Rightarrow> string) \<Rightarrow> string \<Rightarrow> string" where
  "content_hash sha content = take 16 (sha content)"

fun run_handlers :: "string \<Rightarrow> (string, 's invalidation_handler) dict \<Rightarrow> 's \<Rightarrow> (string, int) dict \<times> 's" where
  "run_handlers d [] s = ([], s)"
| "run_handlers d ((tier, h) # hs) s =
     (case h d s of (n, s1) \<Rightarrow> case run_handlers d hs s1 of (rs, s2) \<Rightarrow>
        ((tier, case n of Some k \<Rightarrow> k | None \<Rightarrow> -1) # rs, s2))"

definition total_invalidated :: "(string, int) dict \<Rightarrow> int" where
  "total_invalidated rs = sum_list (filter (\<lambda>n. 0 < n) (map snd rs))"

definition on_document_updated ::
  "(string \<Rightarrow> string) \<Rightarrow> pyfloat \<Rightarrow> string \<Rightarrow> string \<Rightarrow> 's invalidation_manager \<Rightarrow> 's \<Rightarrow>
     (string, int) dict \<times> 's invalidation_manager \<times> 's"
where
  "on_document_updated sha now d content im s =
     (let new_hash = content_hash sha content in
      if map_option dv_content_hash (dict_get (im_versions im) d) = Some new_hash then ([], im, s)
      else case run_handlers d (im_handlers im) s of (rs, s') \<Rightarrow>
        (rs, im\<lparr>im_versions := dict_set d \<lparr>dv_document_id = d, dv_content_hash = new_hash,
                  dv_last_updated = now, dv_embedding_version = None\<rparr> (im_versions im),
                im_count := im_count im + total_invalidated rs, im_last_time := Some now\<rparr>, s'))"

definition on_document_deleted ::
  "pyfloat \<Rightarrow> string \<Rightarrow> 's invalidation_manager \<Rightarrow> 's \<Rightarrow> (string, int) dict \<times> 's invalidation_manager \<times> 's"
where
  "on_document_deleted now d im s =
     (case run_handlers d (im_handlers im) s of (rs, s') \<Rightarrow>
        (rs, im\<lparr>im_versions := dict_del d (im_versions im),
                im_count := im_count im + total_invalidated rs, im_last_time := Some now\<rparr>, s'))"

text \<open>The handler that clears the embedding cache reports whether it returned.\<close>

definition on_embeddings_refreshed ::
  "pyfloat \<Rightarrow> string \<Rightarrow> ('s \<Rightarrow> bool \<times> 's) option \<Rightarrow> 's invalidation_manager \<Rightarrow> 's \<Rightarrow> bool \<times> 's invalidation_manager \<times> 's"
where
  "on_embeddings_refreshed now version handler im s =
     (if im_embedding_version im = Some version then (False, im, s)
      else case (case handler of None \<Rightarrow> (True, s) | Some h \<Rightarrow> h s) of (ok, s') \<Rightarrow>
        if ok then (True, im\<lparr>im_embedding_version := Some version, im_last_time := Some now\<rparr>, s')
        else (False, im, s'))"

definition invalidate_all :: "pyfloat \<Rightarrow> 's invalidation_manager \<Rightarrow> (string, int) dict \<times> 's invalidation_manager" where
  "invalidate_all now im = ([], im\<lparr>im_versions := [], im_last_time := Some now\<rparr>)"

section \<open>The manager\<close>

record ('e, 'v) cache_manager =
  cm_response :: "('e, 'v) semantic_cache"
  cm_invalidation :: "('e, 'v) semantic_cache invalidation_manager"
  cm_circuit :: cache_breaker
  cm_total_requests :: nat
  cm_bypasses :: nat

definition response_handler :: "('e, 'v) semantic_cache invalidation_handler" where
  "response_handler d sc = (case invalidate_by_document d sc of (n, sc') \<Rightarrow> (Some (int n), sc'))"

definition new_cache_manager ::
  "('e, 'v) semantic_cache \<Rightarrow> ('e, 'v) semantic_cache invalidation_manager \<Rightarrow> ('e, 'v) cache_manager"
where
  "new_cache_manager sc im =
     \<lparr>cm_response = sc, cm_invalidation = register_handler ''response'' response_handler im,
      cm_circuit = new_cache_breaker, cm_total_requests = 0, cm_bypasses = 0\<rparr>"

definition manager_get ::
  "'e vec_ops \<Rightarrow> pyfloat \<Rightarrow> 'e \<Rightarrow> string \<Rightarrow> string \<Rightarrow> ('e, 'v) cache_manager \<Rightarrow>
     ('e, 'v) cache_result \<times> ('e, 'v) cache_manager"
where
  "manager_get V now q user org m =
     (let m1 = m\<lparr>cm_total_requests := Suc (cm_total_requests m)\<rparr> in
      if \<not> kb_is_closed now (cm_circuit m) then (cache_miss None, m1\<lparr>cm_bypasses := Suc (cm_bypasses m)\<rparr>)
      else case cache_get V now q user org (cm_response m) of
        (Some r, sc) \<Rightarrow> (r, m1\<lparr>cm_response := sc, cm_circuit := kb_record_success (cm_circuit m)\<rparr>)
      | (None, sc) \<Rightarrow> (cache_miss None, m1\<lparr>cm_response := sc, cm_circuit := kb_record_failure now (cm_circuit m)\<rparr>))"

definition manager_set ::
  "pyfloat \<Rightarrow> ('e, 'v) cache_store \<Rightarrow> ('e, 'v) cache_manager \<Rightarrow> bool \<times> ('e, 'v) cache_manager"
where
  "manager_set now p m =
     (if \<not> kb_is_closed now (cm_circuit m) then (False, m)
      else case cache_set now p (cm_response m) of
        (ok, sc) \<Rightarrow> (ok, m\<lparr>cm_response := sc, cm_circuit :=
          if ok then kb_record_success (cm_circuit m) else kb_record_failure now (cm_circuit m)\<rparr>))"

definition update_document ::
  "(string \<Rightarrow> string) \<Rightarrow> pyfloat \<Rightarrow> string \<Rightarrow> string \<Rightarrow> ('e, 'v) cache_manager \<Rightarrow> (string, int) dict \<times> ('e, 'v) cache_manager"
where
  "update_document sha now d content m =
     (case on_document_updated sha now d content (cm_invalidation m) (cm_response m) of
        (rs, im, sc) \<Rightarrow> (rs, m\<lparr>cm_invalidation := im, cm_response := sc\<rparr>))"

text \<open>\<open>invalidate_document\<close> passes an empty content.\<close>

definition invalidate_document ::
  "(string \<Rightarrow> string) \<Rightarrow> pyfloat \<Rightarrow> string \<Rightarrow> ('e, 'v) cache_manager \<Rightarrow> (string, int) dict \<times> ('e, 'v) cache_manager"
where
  "invalidate_document sha now d m = update_document sha now d [] m"

definition delete_document ::
  "pyfloat \<Rightarrow> string \<Rightarrow> ('e, 'v) cache_manager \<Rightarrow> (string, int) dict \<times> ('e, 'v) cache_manager"
where
  "delete_document now d m =
     (case on_document_deleted now d (cm_invalidation m) (cm_response m) of
        (rs, im, sc) \<Rightarrow> (rs, m\<lparr>cm_invalidation := im, cm_response := sc\<rparr>))"

section \<open>The pipeline\<close>

record rag_context =
  rx_user_id :: string
  rx_organization_id :: "string option"
  rx_provider :: "string option"
  rx_model :: "string option"

definition clean_scope_value :: "string option \<Rightarrow> string" where
  "clean_scope_value v = py_strip (str_or_empty v)"

definition runtime_cache_scope :: "rag_context \<Rightarrow> string \<times> string" where
  "runtime_cache_scope cx = (py_lower (clean_scope_value (rx_provider cx)), clean_scope_value (rx_model cx))"

definition metadata_text :: "(string, pyval) dict \<Rightarrow> string \<Rightarrow> string option" where
  "metadata_text d key = (case dict_get d key of Some (PStr s) \<Rightarrow> if s = [] then None else Some s | _ \<Rightarrow> None)"

text \<open>\<open>metadata.get(key) or metadata.get(other)\<close>\<close>

definition metadata_either :: "(string, pyval) dict \<Rightarrow> string \<Rightarrow> string \<Rightarrow> string option" where
  "metadata_either d key other = (case metadata_text d key of Some s \<Rightarrow> Some s | None \<Rightarrow> metadata_text d other)"

definition hit_matches_runtime_scope :: "('e, 'v) cache_result \<Rightarrow> rag_context \<Rightarrow> bool" where
  "hit_matches_runtime_scope r cx =
     (case runtime_cache_scope cx of (provider, model) \<Rightarrow>
        if provider = [] \<and> model = [] then True
        else
          let d = (case lr_entry r of None \<Rightarrow> [] | Some e \<Rightarrow> ce_metadata e);
              cached_provider = py_lower (clean_scope_value (metadata_either d ''generation_provider'' ''provider''));
              cached_model = clean_scope_value (metadata_either d ''generation_model'' ''model'') in
          if provider \<noteq> [] \<and> cached_provider \<noteq> provider then False
          else if model \<noteq> [] \<and> cached_model \<noteq> model then False
          else True)"

definition fold_source_text :: "string \<Rightarrow> string" where
  "fold_source_text v = py_join '' '' (py_split (py_lower v))"

definition answer_declines_sources :: "string \<Rightarrow> bool" where
  "answer_declines_sources answer =
     list_ex (\<lambda>marker. contains marker (fold_source_text answer))
       [''khong gan citation rag'', ''chua thay nguon noi bo that su khop'', ''chua co du doan nguon ro rang'']"

type_synonym rag_source = "(string, string) dict"

record rag_answer =
  ra_answer :: string
  ra_sources :: "rag_source list"
  ra_confidence :: pyfloat
  ra_thinking :: "string option"

record 'e rag_env =
  re_embed :: "string \<Rightarrow> 'e option"
  re_vectors :: "'e vec_ops"

datatype ('e, 'a) rag_lookup =
    Replayed 'a
  | Proceed "'e option"

text \<open>The head of \<open>process_impl\<close>: an exception from the adaptation of the hit is caught, and the
  pipeline goes on without the embedding.\<close>

definition rag_cache_lookup ::
  "'e rag_env \<Rightarrow> (('e, 'v) cache_result \<Rightarrow> 'a option) \<Rightarrow> bool \<Rightarrow> pyfloat \<Rightarrow> string \<Rightarrow> rag_context \<Rightarrow>
     ('e, 'v) cache_manager \<Rightarrow> ('e, 'a) rag_lookup \<times> ('e, 'v) cache_manager"
where
  "rag_cache_lookup E adapt cache_enabled now query cx m =
     (if \<not> cache_enabled then (Proceed None, m)
      else case re_embed E query of
        None \<Rightarrow> (Proceed None, m)
      | Some q \<Rightarrow>
          (case manager_get (re_vectors E) now q (rx_user_id cx) (str_or_empty (rx_organization_id cx)) m of
             (r, m1) \<Rightarrow>
               if lr_hit r \<and> hit_matches_runtime_scope r cx
               then (case adapt r of Some a \<Rightarrow> Replayed a | None \<Rightarrow> Proceed None, m1)
               else (Proceed (Some q), m1)))"

definition source_document_ids :: "rag_source list \<Rightarrow> string list" where
  "source_document_ids sources = filter (\<lambda>d. d \<noteq> []) (map (\<lambda>s. str_or_empty (dict_get s ''document_id'')) sources)"

text \<open>What a run of the pipeline hands to the cache.\<close>

record 'e rag_outcome =
  ro_query :: string
  ro_embedding :: "'e option"
  ro_answer :: string
  ro_sources :: "rag_source list"
  ro_confidence :: pyfloat
  ro_thinking :: "string option"
  ro_iterations :: nat
  ro_rewritten :: bool

definition rag_store_request :: "rag_context \<Rightarrow> 'e rag_outcome \<Rightarrow> 'e \<Rightarrow> ('e, rag_answer) cache_store" where
  "rag_store_request cx out q =
     (let safe = (if answer_declines_sources (ro_answer out) then [] else ro_sources out) in
      \<lparr>cp_query = ro_query out, cp_embedding = q,
       cp_response = \<lparr>ra_answer = ro_answer out, ra_sources = safe, ra_confidence = ro_confidence out,
         ra_thinking = ro_thinking out\<rparr>,
       cp_document_ids = source_document_ids safe,
       cp_metadata = [(''iterations'', PInt (int (ro_iterations out))), (''was_rewritten'', PBool (ro_rewritten out)),
         (''generation_provider'', PStr (fst (runtime_cache_scope cx))),
         (''generation_model'', PStr (snd (runtime_cache_scope cx)))],
       cp_user_id = rx_user_id cx, cp_org_id = str_or_empty (rx_organization_id cx)\<rparr>)"

definition store_cache_response ::
  "'e rag_env \<Rightarrow> bool \<Rightarrow> pyfloat \<Rightarrow> rag_context \<Rightarrow> 'e rag_outcome \<Rightarrow> ('e, rag_answer) cache_manager \<Rightarrow> ('e, rag_answer) cache_manager"
where
  "store_cache_response E cache_enabled now cx out m =
     (if \<not> cache_enabled \<or> ro_confidence out < 70 then m
      else case (case ro_embedding out of None \<Rightarrow> re_embed E (ro_query out) | Some q \<Rightarrow> Some q) of
        None \<Rightarrow> m
      | Some q \<Rightarrow> snd (manager_set now (rag_store_request cx out q) m))"

section \<open>The breaker's promise\<close>

lemma cache_breaker_refuses_only_after_failures:
  "(if \<not> kb_is_closed now (gate_run (\<lambda>now b. b) kb_record_failure (\<lambda>now. kb_record_success) es new_cache_breaker)
    then 5 \<le> trailing_failures es \<and> now - last_failure_in 0 es \<le> 60 else True) \<and>
   (if 4 \<le> length ts \<and> now - t \<le> 60
    then \<not> kb_is_closed now (gate_run (\<lambda>now b. b) kb_record_failure (\<lambda>now. kb_record_success)
      (map Failed (ts @ [t])) new_cache_breaker) else True)"
proof -
  have start: "kb_invar 5 60 new_cache_breaker" "kb_failure_count new_cache_breaker = 0"
    "kb_last_failure new_cache_breaker = 0"
    by (simp_all add: kb_invar_def new_cache_breaker_def)
  show ?thesis
    using cache_gate.refusal_explained [OF start(1,2), of now es]
      cache_gate.refuses_after_failures [OF start(1), of ts now t]
    by (simp add: start(3))
qed

section \<open>Histories of the pipeline\<close>

datatype 'e rag_op =
    Rag_Lookup pyfloat string rag_context
  | Rag_Store pyfloat rag_context "'e rag_outcome"
  | Rag_Update pyfloat string string
  | Rag_Delete pyfloat string

primrec rag_exec ::
  "'e rag_env \<Rightarrow> (string \<Rightarrow> string) \<Rightarrow> 'e rag_op \<Rightarrow> ('e, rag_answer) cache_manager \<Rightarrow> ('e, rag_answer) cache_manager"
where
  "rag_exec E sha (Rag_Lookup now query cx) m = snd (rag_cache_lookup E (\<lambda>r. Some r) True now query cx m)"
| "rag_exec E sha (Rag_Store now cx out) m = store_cache_response E True now cx out m"
| "rag_exec E sha (Rag_Update now d content) m = snd (update_document sha now d content m)"
| "rag_exec E sha (Rag_Delete now d) m = snd (delete_document now d m)"

definition run_rag ::
  "'e rag_env \<Rightarrow> (string \<Rightarrow> string) \<Rightarrow> 'e rag_op list \<Rightarrow> ('e, rag_answer) cache_manager \<Rightarrow> ('e, rag_answer) cache_manager"
where
  "run_rag E sha ops m = fold (rag_exec E sha) ops m"

lemma run_rag_simps [simp]:
  "run_rag E sha [] m = m" "run_rag E sha (a # ops) m = run_rag E sha ops (rag_exec E sha a m)"
  by (simp_all add: run_rag_def)

text \<open>The manager with the response cache as its one tier.\<close>

definition one_tier :: "('e, 'v) cache_manager \<Rightarrow> bool" where
  "one_tier m \<longleftrightarrow> im_handlers (cm_invalidation m) = [(''response'', response_handler)]"

definition fresh_manager :: "cache_config \<Rightarrow> ('e, 'v) cache_manager" where
  "fresh_manager cfg = new_cache_manager (new_semantic_cache cfg) new_invalidation_manager"

lemma fresh_manager_simps [simp]:
  "one_tier (fresh_manager cfg)" "cm_response (fresh_manager cfg) = new_semantic_cache cfg"
  by (simp_all add: fresh_manager_def one_tier_def new_cache_manager_def new_invalidation_manager_def register_handler_def)

text \<open>Each step of the pipeline is at most one step of the cache.\<close>

definition cache_steps :: "'e vec_ops \<Rightarrow> ('e, 'v) cache_op list \<Rightarrow> ('e, 'v) cache_manager \<Rightarrow> ('e, 'v) cache_manager \<Rightarrow> bool" where
  "cache_steps V ops m m' \<longleftrightarrow>
     cm_response m' = run_cache V ops (cm_response m) \<and>
     im_handlers (cm_invalidation m') = im_handlers (cm_invalidation m)"

lemma manager_get_steps: "\<exists>ops. cache_steps V ops m (snd (manager_get V now q user org m)) \<and> (\<forall>t p. Store t p \<notin> set ops)"
proof (cases "kb_is_closed now (cm_circuit m)")
  case True
  have "cache_steps V [Lookup now q user org] m (snd (manager_get V now q user org m))"
    by (cases "cache_get V now q user org (cm_response m)")
      (auto simp: manager_get_def True Let_def cache_steps_def split: option.splits)
  then show ?thesis by force
next
  case False
  then have "cache_steps V [] m (snd (manager_get V now q user org m))"
    by (simp add: manager_get_def Let_def cache_steps_def)
  then show ?thesis by force
qed

lemma manager_set_steps: "\<exists>ops. cache_steps V ops m (snd (manager_set now p m)) \<and> set ops \<subseteq> {Store now p}"
proof (cases "kb_is_closed now (cm_circuit m)")
  case True
  have "cache_steps V [Store now p] m (snd (manager_set now p m))"
    by (cases "cache_set now p (cm_response m)") (simp add: manager_set_def True cache_steps_def)
  then show ?thesis by force
next
  case False
  then have "cache_steps V [] m (snd (manager_set now p m))"
    by (simp add: manager_set_def cache_steps_def)
  then show ?thesis by force
qed

lemma run_one_handler:
  "run_handlers d [(''response'', response_handler)] sc =
     ([(''response'', int (fst (invalidate_by_document d sc)))], snd (invalidate_by_document d sc))"
  by (simp add: response_handler_def split: prod.splits)

lemma update_document_steps:
  assumes "one_tier m"
  shows "\<exists>ops. cache_steps V ops m (snd (update_document sha now d content m)) \<and> set ops \<subseteq> {Invalidate d}"
proof (cases "map_option dv_content_hash (dict_get (im_versions (cm_invalidation m)) d) = Some (content_hash sha content)")
  case True
  then have "cache_steps V [] m (snd (update_document sha now d content m))"
    by (simp add: update_document_def on_document_updated_def Let_def cache_steps_def)
  then show ?thesis by force
next
  case False
  then have "cache_steps V [Invalidate d] m (snd (update_document sha now d content m))"
    using assms
    by (auto simp: update_document_def on_document_updated_def Let_def cache_steps_def one_tier_def run_one_handler
        simp del: run_handlers.simps)
  then show ?thesis by force
qed

lemma delete_document_steps:
  "one_tier m \<Longrightarrow> cache_steps V [Invalidate d] m (snd (delete_document now d m))"
  by (simp add: delete_document_def on_document_deleted_def cache_steps_def one_tier_def run_one_handler
      del: run_handlers.simps)

text \<open>The stores of a cache history come from the pipeline.\<close>

definition kept_by :: "'e rag_env \<Rightarrow> 'e rag_op list \<Rightarrow> ('e, rag_answer) cache_op list \<Rightarrow> bool" where
  "kept_by E rops ops \<longleftrightarrow> (\<forall>t p. Store t p \<in> set ops \<longrightarrow>
     (\<exists>cx out q. Rag_Store t cx out \<in> set rops \<and> p = rag_store_request cx out q \<and> 70 \<le> ro_confidence out))"

lemma rag_exec_steps:
  assumes "one_tier m"
  shows "\<exists>ops. cache_steps (re_vectors E) ops m (rag_exec E sha a m) \<and> kept_by E [a] ops"
proof (cases a)
  case (Rag_Lookup now query cx)
  show ?thesis
  proof (cases "re_embed E query")
    case None
    then have "cache_steps (re_vectors E) [] m (rag_exec E sha a m)"
      by (simp add: Rag_Lookup rag_cache_lookup_def cache_steps_def)
    then show ?thesis by (force simp: kept_by_def)
  next
    case (Some q)
    then have "rag_exec E sha a m =
        snd (manager_get (re_vectors E) now q (rx_user_id cx) (str_or_empty (rx_organization_id cx)) m)"
      by (simp add: Rag_Lookup rag_cache_lookup_def split: prod.splits)
    then show ?thesis
      using manager_get_steps [of "re_vectors E" m now q "rx_user_id cx" "str_or_empty (rx_organization_id cx)"]
      by (force simp: kept_by_def)
  qed
next
  case (Rag_Store now cx out)
  show ?thesis
  proof (cases "ro_confidence out < 70 \<or>
      (case ro_embedding out of None \<Rightarrow> re_embed E (ro_query out) | Some q \<Rightarrow> Some q) = None")
    case True
    then have "cache_steps (re_vectors E) [] m (rag_exec E sha a m)"
      by (auto simp: Rag_Store store_cache_response_def cache_steps_def)
    then show ?thesis by (force simp: kept_by_def)
  next
    case False
    then obtain q where q: "(case ro_embedding out of None \<Rightarrow> re_embed E (ro_query out) | Some q \<Rightarrow> Some q) = Some q"
        "70 \<le> ro_confidence out"
      by force
    then have "rag_exec E sha a m = snd (manager_set now (rag_store_request cx out q) m)"
      by (simp add: Rag_Store store_cache_response_def)
    then show ?thesis
      using manager_set_steps [of "re_vectors E" m now "rag_store_request cx out q"] q(2)
      by (force simp: kept_by_def Rag_Store)
  qed
next
  case (Rag_Update now d content)
  then show ?thesis
    using update_document_steps [OF assms, of "re_vectors E" sha now d content] by (force simp: kept_by_def)
next
  case (Rag_Delete now d)
  then show ?thesis
    using delete_document_steps [OF assms, of "re_vectors E" d now] by (force simp: kept_by_def)
qed

lemma run_rag_steps:
  "one_tier m \<Longrightarrow> \<exists>ops. cache_steps (re_vectors E) ops m (run_rag E sha rops m) \<and> kept_by E rops ops"
proof (induction rops arbitrary: m)
  case Nil
  then show ?case by (force simp: cache_steps_def kept_by_def intro: exI [of _ "[]"])
next
  case (Cons a rops)
  obtain ops1 where 1: "cache_steps (re_vectors E) ops1 m (rag_exec E sha a m)" "kept_by E [a] ops1"
    using rag_exec_steps [OF Cons.prems] by blast
  then have "one_tier (rag_exec E sha a m)" using Cons.prems by (simp add: one_tier_def cache_steps_def)
  from Cons.IH [OF this] obtain ops2 where 2:
    "cache_steps (re_vectors E) ops2 (rag_exec E sha a m) (run_rag E sha rops (rag_exec E sha a m))" "kept_by E rops ops2"
    by blast
  have "cache_steps (re_vectors E) (ops1 @ ops2) m (run_rag E sha (a # rops) m)"
    using 1(1) 2(1) by (simp add: cache_steps_def run_cache_def)
  moreover have "kept_by E (a # rops) (ops1 @ ops2)"
    using 1(2) 2(2) by (simp add: kept_by_def) blast
  ultimately show ?case by blast
qed

section \<open>Answers that are replayed\<close>

interpretation scope_provider: text_normalizer "\<lambda>s. py_lower (py_strip s)"
  by unfold_locales (simp_all add: strip_stripped stripped_strip)

interpretation scope_model: text_normalizer py_strip
  by unfold_locales (simp_all add: stripped_strip)

lemma metadata_of_request:
  "metadata_either (cp_metadata (rag_store_request cx out q)) ''generation_provider'' ''provider'' =
     (if fst (runtime_cache_scope cx) = [] then None else Some (fst (runtime_cache_scope cx)))"
  "metadata_either (cp_metadata (rag_store_request cx out q)) ''generation_model'' ''model'' =
     (if snd (runtime_cache_scope cx) = [] then None else Some (snd (runtime_cache_scope cx)))"
  by (simp_all add: metadata_either_def metadata_text_def rag_store_request_def Let_def)

lemma matching_scope:
  assumes "stored_from (rag_store_request cx0 out q) e" and "lr_entry r = Some e" and "hit_matches_runtime_scope r cx"
  shows "fst (runtime_cache_scope cx) \<in> {[], fst (runtime_cache_scope cx0)} \<and>
    snd (runtime_cache_scope cx) \<in> {[], snd (runtime_cache_scope cx0)}"
proof -
  have meta: "ce_metadata e = cp_metadata (rag_store_request cx0 out q)"
    using assms(1) by (simp add: stored_from_def)
  have "py_lower (py_strip (fst (runtime_cache_scope cx0))) = fst (runtime_cache_scope cx0)"
    "py_strip (snd (runtime_cache_scope cx0)) = snd (runtime_cache_scope cx0)"
    by (simp_all add: runtime_cache_scope_def clean_scope_value_def scope_provider.norm_idem)
  then show ?thesis
    using assms(2,3)
    by (cases "runtime_cache_scope cx")
      (auto simp: hit_matches_runtime_scope_def meta metadata_of_request clean_scope_value_def str_or_empty_def
        Let_def split: if_splits)
qed


section \<open>Invalidation that does not happen\<close>

text \<open>What goes on between two invalidations: requests and answers, in any number and order.\<close>

definition serving :: "'e rag_op \<Rightarrow> bool" where
  "serving a \<longleftrightarrow> (case a of Rag_Lookup _ _ _ \<Rightarrow> True | Rag_Store _ _ _ \<Rightarrow> True | _ \<Rightarrow> False)"

lemma manager_keeps_versions:
  "cm_invalidation (snd (manager_get V now q user org m)) = cm_invalidation m"
  "cm_invalidation (snd (manager_set now p m)) = cm_invalidation m"
  by (auto simp: manager_get_def manager_set_def Let_def split: prod.splits option.splits)

lemma serving_keeps_versions:
  "serving a \<Longrightarrow> cm_invalidation (rag_exec E sha a m) = cm_invalidation m"
proof (cases a)
  case (Rag_Lookup now query cx)
  have snd_if: "snd (case x of (r, m1) \<Rightarrow> if P r then (f r, m1) else (g, m1)) = snd x" for x P f g
    by (simp split: prod.splits)
  show ?thesis
    by (simp add: Rag_Lookup rag_cache_lookup_def snd_if manager_keeps_versions split: option.splits)
next
  case (Rag_Store now cx out)
  then show ?thesis by (auto simp: store_cache_response_def manager_keeps_versions split: option.splits)
qed (simp_all add: serving_def)

lemma run_serving_keeps_versions:
  "list_all serving rops \<Longrightarrow> cm_invalidation (run_rag E sha rops m) = cm_invalidation m"
  by (induction rops arbitrary: m) (simp_all add: serving_keeps_versions)

lemma updated_version:
  "map_option dv_content_hash (dict_get (im_versions (cm_invalidation (snd (update_document sha now d content m)))) d) =
     Some (content_hash sha content)"
  by (cases "map_option dv_content_hash (dict_get (im_versions (cm_invalidation m)) d) = Some (content_hash sha content)")
    (auto simp: update_document_def on_document_updated_def Let_def split: prod.splits)

text \<open>A document can be invalidated by hand only once: the empty content that is to force the invalidation is
  remembered as the document's version, so that every later invalidation of the document finds it
  unchanged and does nothing, whatever answers were stored in between.\<close>

theorem second_invalidation_is_skipped:
  "invalidate_document sha t' d (run_rag E sha (filter serving rops) (snd (invalidate_document sha t d m))) =
     ([], run_rag E sha (filter serving rops) (snd (invalidate_document sha t d m)))"
proof -
  let ?m = "run_rag E sha (filter serving rops) (snd (invalidate_document sha t d m))"
  have "cm_invalidation ?m = cm_invalidation (snd (invalidate_document sha t d m))"
    by (rule run_serving_keeps_versions) (simp add: list_all_iff)
  then have "map_option dv_content_hash (dict_get (im_versions (cm_invalidation ?m)) d) = Some (content_hash sha [])"
    using updated_version [of sha t d "[]" m] by (simp add: invalidate_document_def)
  then show ?thesis
    by (simp add: invalidate_document_def [of sha t'] update_document_def on_document_updated_def)
qed

text \<open>A handler that fails is not called again for the same content: the new version is recorded although
  the answers of the old one are still there.\<close>

theorem failed_invalidation_is_not_retried:
  "(let im = register_handler tier (\<lambda>d s. (None, s)) new_invalidation_manager;
        first = on_document_updated sha t d content im s in
    fst first = [(tier, -1)] \<and>
    on_document_updated sha t' d content (fst (snd first)) (snd (snd first)) = ([], fst (snd first), s))"
  by (simp add: on_document_updated_def register_handler_def new_invalidation_manager_def Let_def)

text \<open>The first invalidation of a document, or one with a new content, does what it should: no answer that
  used the document is left.\<close>

theorem new_content_invalidates:
  assumes "one_tier m" and "cache_ok (cm_response m)"
    and "map_option dv_content_hash (dict_get (im_versions (cm_invalidation m)) d) \<noteq> Some (content_hash sha content)"
  shows "sc_cache (cm_response (snd (update_document sha now d content m))) =
    filter (\<lambda>x. d \<notin> set (ce_document_ids (snd x))) (sc_cache (cm_response m))"
proof -
  have "cm_response (snd (update_document sha now d content m)) = snd (invalidate_by_document d (cm_response m))"
    using assms(1,3)
    by (auto simp: update_document_def on_document_updated_def Let_def one_tier_def run_one_handler
        simp del: run_handlers.simps)
  then show ?thesis by (simp add: invalidated_cache [OF assms(2)])
qed

section \<open>The theorems at work\<close>

definition sample_rag_env :: "unit rag_env" where
  "sample_rag_env = \<lparr>re_embed = (\<lambda>_. Some ()), re_vectors = unit_vectors\<rparr>"

definition sample_rag_context :: rag_context where
  "sample_rag_context = \<lparr>rx_user_id = ''ann'', rx_organization_id = Some ''org'', rx_provider = Some '' Google '',
     rx_model = None\<rparr>"

definition sample_outcome :: "unit rag_outcome" where
  "sample_outcome =
     \<lparr>ro_query = ''q'', ro_embedding = None, ro_answer = ''42'', ro_sources = [[(''document_id'', ''d1'')], []],
      ro_confidence = 80, ro_thinking = None, ro_iterations = 1, ro_rewritten = False\<rparr>"

definition sample_rag_ops :: "unit rag_op list" where
  "sample_rag_ops =
     [Rag_Store 1 sample_rag_context sample_outcome,
      Rag_Store 2 (sample_rag_context\<lparr>rx_user_id := ''bob''\<rparr>) sample_outcome]"

definition answer_text :: "(unit, rag_answer) cache_result \<Rightarrow> string option" where
  "answer_text r = map_option ra_answer (lr_value r)"

lemma sample_replay:
  "fst (rag_cache_lookup sample_rag_env answer_text True 3 ''q'' sample_rag_context
     (run_rag sample_rag_env (\<lambda>s. s) sample_rag_ops (fresh_manager default_cache_config))) = Replayed ''42''"
  by code_simp


lemma new_content_invalidates_witness:
  "sc_cache (cm_response (snd (update_document (\<lambda>s. s) 3 ''doc'' ''new'' (new_cache_manager sample_cache new_invalidation_manager)))) =
     filter (\<lambda>x. ''doc'' \<notin> set (ce_document_ids (snd x))) (sc_cache sample_cache)"
  using new_content_invalidates [of "new_cache_manager sample_cache new_invalidation_manager" "''doc''" "\<lambda>s. s"
      "''new''" 3]
  by (simp add: one_tier_def new_cache_manager_def new_invalidation_manager_def register_handler_def run_new_cache)

end
