(* ===== verification/User_Accounts.thy ===== *)
theory User_Accounts
  imports Prelude
begin

text \<open>
  \<open>auth/user_service.py\<close>: the tables of users and of their external identities, with the find-or-create of
  a login, and \<open>auth/identity_resolver.py\<close>. A table is the list of its rows in the order of the table;
  a query that may match several rows and does not order them takes the first. The index on
  (\<open>provider\<close>, \<open>provider_sub\<close>, \<open>provider_issuer\<close>) is unique, but a missing issuer never conflicts.
  \<open>column\<close> says that the table of users has the column \<open>platform_role\<close>; without it every statement falls back to the
  older one. Fresh identifiers and the clock are arguments; audit events and logging are left out.
\<close>

section \<open>Tables\<close>

record user_account =
  ua_id :: string
  ua_email :: "string option"
  ua_name :: "string option"
  ua_avatar :: "string option"
  ua_role :: string
  ua_platform_role :: "string option"
  ua_active :: bool
  ua_updated_at :: int

record identity_row =
  ir_id :: string
  ir_user_id :: string
  ir_provider :: string
  ir_sub :: string
  ir_issuer :: "string option"
  ir_email :: "string option"
  ir_display_name :: "string option"
  ir_avatar :: "string option"
  ir_linked_at :: int
  ir_used_at :: int

record account_db =
  ad_users :: "user_account list"
  ad_identities :: "identity_row list"

text \<open>The dictionary a login works with.\<close>

record login_user =
  lu_id :: string
  lu_email :: "string option"
  lu_name :: "string option"
  lu_avatar :: "string option"
  lu_role :: string
  lu_platform_role :: string
  lu_active :: bool

definition valid_roles :: "string list" where "valid_roles = [''student'', ''teacher'', ''admin'']"
definition valid_platform_roles :: "string list" where "valid_platform_roles = [''user'', ''platform_admin'']"

definition derive_platform_role :: "string option \<Rightarrow> string option \<Rightarrow> string" where
  "derive_platform_role legacy platform =
     (let fallback = (if map_option (\<lambda>r. py_lower (py_strip r)) legacy = Some ''admin'' then ''platform_admin'' else ''user'') in
      case platform of
        Some p \<Rightarrow> if py_lower (py_strip p) \<in> set valid_platform_roles then py_lower (py_strip p) else fallback
      | None \<Rightarrow> fallback)"

definition format_user_row :: "bool \<Rightarrow> user_account \<Rightarrow> login_user" where
  "format_user_row column u =
     \<lparr>lu_id = ua_id u, lu_email = ua_email u, lu_name = ua_name u, lu_avatar = ua_avatar u, lu_role = ua_role u,
      lu_platform_role = derive_platform_role (Some (ua_role u)) (if column then ua_platform_role u else None),
      lu_active = ua_active u\<rparr>"

section \<open>Statements\<close>

record login_key =
  lk_provider :: string
  lk_sub :: string
  lk_issuer :: "string option"

definition identity_matches :: "login_key \<Rightarrow> identity_row \<Rightarrow> bool" where
  "identity_matches k i \<longleftrightarrow> ir_provider i = lk_provider k \<and> ir_sub i = lk_sub k \<and> ir_issuer i = lk_issuer k"

definition user_by_id :: "string \<Rightarrow> account_db \<Rightarrow> user_account option" where
  "user_by_id uid db = find (\<lambda>u. ua_id u = uid) (ad_users db)"

definition joined_identity :: "login_key \<Rightarrow> account_db \<Rightarrow> user_account option" where
  "joined_identity k db =
     (case find (\<lambda>i. identity_matches k i \<and> user_by_id (ir_user_id i) db \<noteq> None) (ad_identities db) of
        None \<Rightarrow> None
      | Some i \<Rightarrow> user_by_id (ir_user_id i) db)"

definition find_user_by_provider :: "bool \<Rightarrow> int \<Rightarrow> login_key \<Rightarrow> account_db \<Rightarrow> login_user option \<times> account_db" where
  "find_user_by_provider column now k db =
     (case joined_identity k db of
        None \<Rightarrow> (None, db)
      | Some u \<Rightarrow>
          (Some (format_user_row column u),
           db\<lparr>ad_identities := map (\<lambda>i. if identity_matches k i then i\<lparr>ir_used_at := now\<rparr> else i) (ad_identities db)\<rparr>))"

definition find_user_by_email :: "bool \<Rightarrow> string \<Rightarrow> account_db \<Rightarrow> login_user option" where
  "find_user_by_email column email db =
     map_option (format_user_row column)
       (find (\<lambda>u. map_option py_lower (ua_email u) = Some (py_lower email)) (ad_users db))"

record login_profile =
  lp_email :: "string option"
  lp_name :: "string option"
  lp_avatar :: "string option"

definition create_user ::
  "bool \<Rightarrow> int \<Rightarrow> string \<Rightarrow> login_profile \<Rightarrow> string \<Rightarrow> string option \<Rightarrow> account_db \<Rightarrow> login_user \<times> account_db"
where
  "create_user column now uid p role platform db =
     (let effective = derive_platform_role (Some role) platform;
          u = \<lparr>ua_id = uid, ua_email = lp_email p, ua_name = lp_name p, ua_avatar = lp_avatar p, ua_role = role,
               ua_platform_role = (if column then Some effective else None), ua_active = True, ua_updated_at = now\<rparr> in
      (\<lparr>lu_id = uid, lu_email = lp_email p, lu_name = lp_name p, lu_avatar = lp_avatar p, lu_role = role,
        lu_platform_role = effective, lu_active = True\<rparr>,
       db\<lparr>ad_users := ad_users db @ [u]\<rparr>))"

text \<open>\<open>INSERT ... ON CONFLICT (provider, provider_sub, provider_issuer) DO UPDATE\<close>, which leaves the
  user of the row as it is.\<close>

definition link_identity ::
  "int \<Rightarrow> string \<Rightarrow> string \<Rightarrow> login_key \<Rightarrow> login_profile \<Rightarrow> account_db \<Rightarrow> account_db"
where
  "link_identity now identity_id uid k p db =
     (if lk_issuer k \<noteq> None \<and> list_ex (identity_matches k) (ad_identities db)
      then db\<lparr>ad_identities := map (\<lambda>i. if identity_matches k i
               then i\<lparr>ir_used_at := now, ir_email := lp_email p, ir_display_name := lp_name p, ir_avatar := lp_avatar p\<rparr>
               else i) (ad_identities db)\<rparr>
      else db\<lparr>ad_identities := ad_identities db @
               [\<lparr>ir_id = identity_id, ir_user_id = uid, ir_provider = lk_provider k, ir_sub = lk_sub k,
                 ir_issuer = lk_issuer k, ir_email = lp_email p, ir_display_name = lp_name p, ir_avatar = lp_avatar p,
                 ir_linked_at = now, ir_used_at = now\<rparr>]\<rparr>)"

section \<open>Login\<close>

record login_request =
  lq_key :: login_key
  lq_profile :: login_profile
  lq_role :: string
  lq_auto_create :: bool
  lq_email_verified :: bool
  lq_user_id :: string
  lq_identity_id :: string

definition create_and_link :: "bool \<Rightarrow> int \<Rightarrow> login_request \<Rightarrow> account_db \<Rightarrow> login_user option \<times> account_db" where
  "create_and_link column now r db =
     (if \<not> lq_auto_create r then (None, db)
      else case create_user column now (lq_user_id r) (lq_profile r) (lq_role r) None db of
        (u, db1) \<Rightarrow> (Some u, link_identity now (lq_identity_id r) (lu_id u) (lq_key r) (lq_profile r) db1))"

definition find_or_create_by_provider ::
  "bool \<Rightarrow> int \<Rightarrow> login_request \<Rightarrow> account_db \<Rightarrow> login_user option \<times> account_db"
where
  "find_or_create_by_provider column now r db =
     (case find_user_by_provider column now (lq_key r) db of
        (Some u, db1) \<Rightarrow> (Some u, db1)
      | (None, db1) \<Rightarrow>
          let email = str_or_empty (lp_email (lq_profile r)) in
          if email = [] then create_and_link column now r db1
          else case find_user_by_email column email db1 of
            None \<Rightarrow> create_and_link column now r db1
          | Some u \<Rightarrow>
              if lq_email_verified r
              then (Some u, link_identity now (lq_identity_id r) (lu_id u) (lq_key r) (lq_profile r) db1)
              else create_and_link column now r db1)"

definition google_request ::
  "string \<Rightarrow> login_profile \<Rightarrow> bool \<Rightarrow> string \<Rightarrow> string \<Rightarrow> login_request"
where
  "google_request sub p verified uid identity_id =
     \<lparr>lq_key = \<lparr>lk_provider = ''google'', lk_sub = sub, lk_issuer = None\<rparr>, lq_profile = p, lq_role = ''student'',
      lq_auto_create = True, lq_email_verified = verified, lq_user_id = uid, lq_identity_id = identity_id\<rparr>"

definition find_or_create_by_google ::
  "bool \<Rightarrow> int \<Rightarrow> string \<Rightarrow> login_profile \<Rightarrow> bool \<Rightarrow> string \<Rightarrow> string \<Rightarrow> account_db \<Rightarrow> login_user option \<times> account_db"
where
  "find_or_create_by_google column now sub p verified uid identity_id db =
     find_or_create_by_provider column now (google_request sub p verified uid identity_id) db"

text \<open>\<open>resolve_user_id\<close>: \<open>raises\<close> says that a statement of the lookup fails.\<close>

definition channel_request :: "string \<Rightarrow> string \<Rightarrow> string option \<Rightarrow> string \<Rightarrow> string \<Rightarrow> login_request" where
  "channel_request channel sender name uid identity_id =
     \<lparr>lq_key = \<lparr>lk_provider = channel, lk_sub = sender, lk_issuer = None\<rparr>,
      lq_profile = \<lparr>lp_email = None, lp_name = name, lp_avatar = None\<rparr>, lq_role = ''student'',
      lq_auto_create = True, lq_email_verified = False, lq_user_id = uid, lq_identity_id = identity_id\<rparr>"

definition resolve_user_id ::
  "bool \<Rightarrow> bool \<Rightarrow> bool \<Rightarrow> int \<Rightarrow> string \<Rightarrow> string \<Rightarrow> string option \<Rightarrow> string \<Rightarrow> string \<Rightarrow> account_db \<Rightarrow> string \<times> account_db"
where
  "resolve_user_id enabled raises column now channel sender name uid identity_id db =
     (let legacy = channel @ ''_'' @ sender in
      if \<not> enabled then (legacy, db)
      else if raises then (legacy, db)
      else case find_or_create_by_provider column now (channel_request channel sender name uid identity_id) db of
        (Some u, db1) \<Rightarrow> (lu_id u, db1)
      | (None, db1) \<Rightarrow> (legacy, db1))"

section \<open>Changing users\<close>

definition update_where :: "string \<Rightarrow> (user_account \<Rightarrow> user_account) \<Rightarrow> account_db \<Rightarrow> account_db option" where
  "update_where uid f db =
     (if list_ex (\<lambda>u. ua_id u = uid) (ad_users db)
      then Some (db\<lparr>ad_users := map (\<lambda>u. if ua_id u = uid then f u else u) (ad_users db)\<rparr>) else None)"

definition get_user :: "bool \<Rightarrow> string \<Rightarrow> account_db \<Rightarrow> login_user option" where
  "get_user column uid db = map_option (format_user_row column) (user_by_id uid db)"

definition updated_user :: "bool \<Rightarrow> string \<Rightarrow> account_db option \<Rightarrow> account_db \<Rightarrow> login_user option \<times> account_db" where
  "updated_user column uid new db = (case new of None \<Rightarrow> (None, db) | Some db1 \<Rightarrow> (get_user column uid db1, db1))"

definition update_user ::
  "bool \<Rightarrow> int \<Rightarrow> string \<Rightarrow> string option \<Rightarrow> string option \<Rightarrow> account_db \<Rightarrow> login_user option \<times> account_db"
where
  "update_user column now uid name avatar db =
     (if name = None \<and> avatar = None then (get_user column uid db, db)
      else updated_user column uid (update_where uid (\<lambda>u. u\<lparr>
             ua_name := (if name = None then ua_name u else name),
             ua_avatar := (if avatar = None then ua_avatar u else avatar), ua_updated_at := now\<rparr>) db) db)"

text \<open>\<open>update_user_role\<close>: \<open>None\<close> is a \<open>ValueError\<close>.\<close>

definition update_user_role ::
  "bool \<Rightarrow> int \<Rightarrow> string \<Rightarrow> string option \<Rightarrow> string option \<Rightarrow> account_db \<Rightarrow> (login_user option \<times> account_db) option"
where
  "update_user_role column now uid role platform db =
     (let p = map_option (\<lambda>r. py_lower (py_strip r)) platform in
      if role = None \<and> platform = None then None
      else if (case role of None \<Rightarrow> False | Some r \<Rightarrow> r \<notin> set valid_roles) then None
      else if (case p of None \<Rightarrow> False | Some r \<Rightarrow> r \<notin> set valid_platform_roles) then None
      else if column \<or> p = None then
        Some (updated_user column uid (update_where uid (\<lambda>u. u\<lparr>
           ua_role := (case role of None \<Rightarrow> ua_role u | Some r \<Rightarrow> r),
           ua_platform_role := (case p of None \<Rightarrow> ua_platform_role u | Some r \<Rightarrow> Some r), ua_updated_at := now\<rparr>) db) db)
      else
        (case (case role of Some r \<Rightarrow> Some r | None \<Rightarrow> if p = Some ''platform_admin'' then Some ''admin'' else None) of
           None \<Rightarrow> None
         | Some r \<Rightarrow> Some (updated_user column uid (update_where uid (\<lambda>u. u\<lparr>ua_role := r, ua_updated_at := now\<rparr>) db) db)))"

definition set_active :: "bool \<Rightarrow> int \<Rightarrow> string \<Rightarrow> account_db \<Rightarrow> account_db option" where
  "set_active active now uid db = update_where uid (\<lambda>u. u\<lparr>ua_active := active, ua_updated_at := now\<rparr>) db"

definition reactivate_user :: "bool \<Rightarrow> int \<Rightarrow> string \<Rightarrow> account_db \<Rightarrow> login_user option \<times> account_db" where
  "reactivate_user column now uid db = updated_user column uid (set_active True now uid db) db"

definition list_user_identities :: "string \<Rightarrow> account_db \<Rightarrow> identity_row list" where
  "list_user_identities uid db = sort_key ir_linked_at (filter (\<lambda>i. ir_user_id i = uid) (ad_identities db))"

text \<open>\<open>unlink_identity\<close>: a count, then a deletion; \<open>Inl ()\<close> is the \<open>ValueError\<close> for the last identity.\<close>

definition identity_count :: "string \<Rightarrow> account_db \<Rightarrow> nat" where
  "identity_count uid db = length (filter (\<lambda>i. ir_user_id i = uid) (ad_identities db))"

definition delete_identity :: "string \<Rightarrow> string \<Rightarrow> account_db \<Rightarrow> bool \<times> account_db" where
  "delete_identity uid identity_id db =
     (let hit = (\<lambda>i. ir_id i = identity_id \<and> ir_user_id i = uid) in
      (list_ex hit (ad_identities db), db\<lparr>ad_identities := filter (\<lambda>i. \<not> hit i) (ad_identities db)\<rparr>))"

definition unlink_identity :: "string \<Rightarrow> string \<Rightarrow> account_db \<Rightarrow> (unit + bool) \<times> account_db" where
  "unlink_identity uid identity_id db =
     (if identity_count uid db \<le> 1 then (Inl (), db)
      else case delete_identity uid identity_id db of (deleted, db1) \<Rightarrow> (Inr deleted, db1))"

text \<open>\<open>find_external_identity\<close>: the most recently used one.\<close>

definition find_external_identity :: "string \<Rightarrow> string \<Rightarrow> string option \<Rightarrow> account_db \<Rightarrow> identity_row option" where
  "find_external_identity uid provider issuer db =
     (let hits = filter (\<lambda>i. ir_user_id i = uid \<and> ir_provider i = provider \<and>
            (str_or_empty issuer = [] \<or> ir_issuer i = issuer)) (ad_identities db) in
      case sort_key (\<lambda>i. - ir_used_at i) hits of [] \<Rightarrow> None | i # _ \<Rightarrow> Some i)"

section \<open>Logins that run at the same time\<close>

text \<open>Each statement of a login is a step of its own; other logins run in between.\<close>

datatype login_phase =
    By_Provider
  | By_Email
  | Link_Found login_user
  | Insert_User
  | Link_New login_user
  | Logged_In "login_user option"

definition after_no_user :: "login_request \<Rightarrow> login_phase" where
  "after_no_user r = (if lq_auto_create r then Insert_User else Logged_In None)"

primrec login_tick :: "bool \<Rightarrow> int \<Rightarrow> login_request \<Rightarrow> login_phase \<Rightarrow> account_db \<Rightarrow> login_phase \<times> account_db" where
  "login_tick column now r By_Provider db =
     (case find_user_by_provider column now (lq_key r) db of
        (Some u, db1) \<Rightarrow> (Logged_In (Some u), db1)
      | (None, db1) \<Rightarrow>
          (if str_or_empty (lp_email (lq_profile r)) = [] then after_no_user r else By_Email, db1))"
| "login_tick column now r By_Email db =
     (case find_user_by_email column (str_or_empty (lp_email (lq_profile r))) db of
        None \<Rightarrow> (after_no_user r, db)
      | Some u \<Rightarrow> (if lq_email_verified r then Link_Found u else after_no_user r, db))"
| "login_tick column now r (Link_Found u) db =
     (Logged_In (Some u), link_identity now (lq_identity_id r) (lu_id u) (lq_key r) (lq_profile r) db)"
| "login_tick column now r Insert_User db =
     (case create_user column now (lq_user_id r) (lq_profile r) (lq_role r) None db of (u, db1) \<Rightarrow> (Link_New u, db1))"
| "login_tick column now r (Link_New u) db =
     (Logged_In (Some u), link_identity now (lq_identity_id r) (lu_id u) (lq_key r) (lq_profile r) db)"
| "login_tick column now r (Logged_In res) db = (Logged_In res, db)"

text \<open>A schedule says whose statement is next.\<close>

fun run_logins ::
  "bool \<Rightarrow> int \<Rightarrow> login_request list \<Rightarrow> nat list \<Rightarrow> login_phase list \<Rightarrow> account_db \<Rightarrow> login_phase list \<times> account_db"
where
  "run_logins column now rs [] ps db = (ps, db)"
| "run_logins column now rs (i # is) ps db =
     (if i < length rs \<and> i < length ps then
        (case login_tick column now (rs ! i) (ps ! i) db of
           (p, db1) \<Rightarrow> run_logins column now rs is (ps[i := p]) db1)
      else run_logins column now rs is ps db)"

section \<open>A login alone\<close>


section \<open>What logins never change\<close>

definition identity_key :: "identity_row \<Rightarrow> string \<times> string \<times> string \<times> string \<times> string option" where
  "identity_key i = (ir_id i, ir_user_id i, ir_provider i, ir_sub i, ir_issuer i)"

definition extends :: "account_db \<Rightarrow> account_db \<Rightarrow> bool" where
  "extends db db' \<longleftrightarrow> prefix (ad_users db) (ad_users db') \<and>
     prefix (map identity_key (ad_identities db)) (map identity_key (ad_identities db'))"

lemma extends_refl [simp]: "extends db db"
  by (simp add: extends_def)

lemma extends_trans: "extends a b \<Longrightarrow> extends b c \<Longrightarrow> extends a c"
  by (auto simp: extends_def intro: prefix_order.trans)

lemma extends_touched:
  assumes "ad_users db' = ad_users db" and "ad_identities db' = map f (ad_identities db)"
    and "\<And>i. identity_key (f i) = identity_key i"
  shows "extends db db'"
  using assms by (simp add: extends_def comp_def)

lemma extends_find: "extends db (snd (find_user_by_provider column now k db))"
proof (cases "joined_identity k db")
  case (Some u)
  then show ?thesis
    by (intro extends_touched [where f = "\<lambda>i. if identity_matches k i then i\<lparr>ir_used_at := now\<rparr> else i"])
      (simp_all add: find_user_by_provider_def identity_key_def)
qed (simp add: find_user_by_provider_def)

lemma extends_link: "extends db (link_identity now iid uid k p db)"
proof (cases "lk_issuer k \<noteq> None \<and> list_ex (identity_matches k) (ad_identities db)")
  case True
  then show ?thesis
    by (intro extends_touched [where f = "\<lambda>i. if identity_matches k i
        then i\<lparr>ir_used_at := now, ir_email := lp_email p, ir_display_name := lp_name p, ir_avatar := lp_avatar p\<rparr> else i"])
      (simp_all add: link_identity_def identity_key_def)
qed (auto simp: link_identity_def extends_def)

lemma extends_create: "extends db (snd (create_user column now uid p role platform db))"
  by (simp add: create_user_def extends_def Let_def)

lemma extends_tick: "extends db (snd (login_tick column now r ph db))"
proof (cases ph)
  case By_Provider
  then show ?thesis
    using extends_find [of db column now "lq_key r"] by (auto split: prod.splits option.splits)
next
  case Insert_User
  then show ?thesis
    using extends_create [of db column now "lq_user_id r" "lq_profile r" "lq_role r" None] by (auto split: prod.splits)
qed (auto simp: extends_link split: option.splits)

lemma logins_only_add:
  "extends db (snd (run_logins column now rs is ps db))"
proof (induction "is" arbitrary: ps db)
  case (Cons i "is")
  show ?case
  proof (cases "i < length rs \<and> i < length ps")
    case True
    obtain p db1 where t: "login_tick column now (rs ! i) (ps ! i) db = (p, db1)"
      by (cases "login_tick column now (rs ! i) (ps ! i) db")
    then show ?thesis
      using True extends_trans [OF _ Cons.IH] extends_tick [of db column now "rs ! i" "ps ! i"] by simp
  next
    case False
    then show ?thesis using Cons.IH by auto
  qed
qed simp

lemma find_append: "find P (xs @ ys) = (case find P xs of Some x \<Rightarrow> Some x | None \<Rightarrow> find P ys)"
  by (induction xs) auto

lemma user_by_id_extends: "extends db db' \<Longrightarrow> user_by_id uid db = Some u \<Longrightarrow> user_by_id uid db' = Some u"
  by (auto simp: extends_def user_by_id_def prefix_def find_append)

text \<open>The identity that a login finds is determined by the keys of the rows.\<close>

lemma find_by_key:
  assumes "map identity_key is' = map identity_key is @ ks"
    and "find (\<lambda>i. identity_matches k i \<and> P (ir_user_id i)) is = Some i"
    and "\<And>uid. P uid \<Longrightarrow> Q uid"
    and "\<And>j. j \<in> set is \<Longrightarrow> Q (ir_user_id j) \<Longrightarrow> P (ir_user_id j)"
  shows "\<exists>i'. find (\<lambda>i. identity_matches k i \<and> Q (ir_user_id i)) is' = Some i' \<and> ir_user_id i' = ir_user_id i"
  using assms
proof (induction "is" arbitrary: is')
  case (Cons j js)
  from Cons.prems(1) obtain j' js' where
    j: "is' = j' # js'" "identity_key j' = identity_key j" "map identity_key js' = map identity_key js @ ks"
    by (cases is') auto
  have same: "identity_matches k j' = identity_matches k j" "ir_user_id j' = ir_user_id j"
    using j(2) by (auto simp: identity_matches_def identity_key_def)
  show ?case
  proof (cases "identity_matches k j \<and> P (ir_user_id j)")
    case True
    then show ?thesis using Cons.prems(2,3) same j(1) by auto
  next
    case False
    then have "\<not> (identity_matches k j' \<and> Q (ir_user_id j'))" using Cons.prems(4) [of j] same by auto
    moreover have "\<exists>i'. find (\<lambda>i. identity_matches k i \<and> Q (ir_user_id i)) js' = Some i' \<and> ir_user_id i' = ir_user_id i"
      by (rule Cons.IH [OF j(3)]) (use False Cons.prems(2-4) in auto)
    ultimately show ?thesis using j(1) by auto
  qed
qed simp

lemma joined_extends:
  assumes "extends db db'" and "joined_identity k db = Some u"
    and "\<And>i. i \<in> set (ad_identities db) \<Longrightarrow> user_by_id (ir_user_id i) db \<noteq> None"
  shows "joined_identity k db' = Some u"
proof -
  obtain i where i: "find (\<lambda>i. identity_matches k i \<and> user_by_id (ir_user_id i) db \<noteq> None) (ad_identities db) = Some i"
      "user_by_id (ir_user_id i) db = Some u"
    using assms(2) by (auto simp: joined_identity_def split: option.splits)
  obtain ks where ks: "map identity_key (ad_identities db') = map identity_key (ad_identities db) @ ks"
    using assms(1) by (auto simp: extends_def prefix_def)
  have "\<exists>i'. find (\<lambda>i. identity_matches k i \<and> user_by_id (ir_user_id i) db' \<noteq> None) (ad_identities db') = Some i' \<and>
      ir_user_id i' = ir_user_id i"
    by (rule find_by_key [OF ks i(1), where Q = "\<lambda>uid. user_by_id uid db' \<noteq> None"])
      (use user_by_id_extends [OF assms(1)] assms(3) in auto)
  then obtain i' where "find (\<lambda>i. identity_matches k i \<and> user_by_id (ir_user_id i) db' \<noteq> None) (ad_identities db') = Some i'"
      "ir_user_id i' = ir_user_id i"
    by blast
  then show ?thesis using user_by_id_extends [OF assms(1) i(2)] by (simp add: joined_identity_def)
qed


text \<open>C12: A login that ends in an account which was there before either comes with an identity already linked
  to it, or with its e-mail address and the provider's word that the address is verified.\<close>

theorem existing_account_needs_proof:
  assumes "find_or_create_by_provider column now r db = (Some v, db')" and "lu_id v \<noteq> lq_user_id r"
  shows "(\<exists>u. joined_identity (lq_key r) db = Some u \<and> v = format_user_row column u) \<or>
    (lq_email_verified r \<and> (\<exists>u email. u \<in> set (ad_users db) \<and> v = format_user_row column u \<and>
       lp_email (lq_profile r) = Some email \<and> email \<noteq> [] \<and>
       map_option py_lower (ua_email u) = Some (py_lower email)))"
proof (cases "joined_identity (lq_key r) db")
  case (Some u)
  then show ?thesis using assms(1) by (simp add: find_or_create_by_provider_def find_user_by_provider_def)
next
  case None
  have new: "create_and_link column now r db \<noteq> (Some v, db')"
    using assms(2) by (auto simp: create_and_link_def create_user_def Let_def)
  have p: "find_user_by_provider column now (lq_key r) db = (None, db)"
    by (simp add: find_user_by_provider_def None)
  have e: "str_or_empty (lp_email (lq_profile r)) \<noteq> []"
    using assms(1) new by (auto simp: find_or_create_by_provider_def p)
  then obtain email where email: "lp_email (lq_profile r) = Some email" "email \<noteq> []"
    by (cases "lp_email (lq_profile r)") (simp_all add: str_or_empty_def)
  then obtain w where w: "find_user_by_email column email db = Some w" "lq_email_verified r" "v = w"
    using assms(1) new by (auto simp: find_or_create_by_provider_def p str_or_empty_def split: option.splits if_splits)
  then obtain u where "find (\<lambda>u. map_option py_lower (ua_email u) = Some (py_lower email)) (ad_users db) = Some u"
      "w = format_user_row column u"
    by (auto simp: find_user_by_email_def)
  then show ?thesis using w(2,3) email by (auto simp: find_Some_iff)
qed

section \<open>Unlinking\<close>

lemma delete_at_most_one:
  assumes "distinct (map ir_id is)"
  shows "length (filter (\<lambda>i. ir_user_id i = uid) is) \<le>
    Suc (length (filter (\<lambda>i. ir_user_id i = uid) (filter (\<lambda>i. \<not> (ir_id i = iid \<and> ir_user_id i = uid)) is)))"
  using assms
proof (induction "is")
  case (Cons i "is")
  show ?case
  proof (cases "ir_id i = iid")
    case True
    then have other: "ir_id j \<noteq> iid" if "j \<in> set is" for j
      using Cons.prems that by (simp add: True [symmetric]) (metis imageI)
    have "filter (\<lambda>i. \<not> (ir_id i = iid \<and> ir_user_id i = uid)) is = is"
      by (rule filter_True) (use other in blast)
    then show ?thesis by (cases "ir_user_id i = uid") (simp_all add: True)
  next
    case False
    then show ?thesis using Cons by auto
  qed
qed simp

text \<open>Unlinking an identity leaves the user at least one, and takes none from anybody else.\<close>

theorem unlinking_leaves_an_identity:
  assumes "unlink_identity uid iid db = (Inr deleted, db')" and "distinct (map ir_id (ad_identities db))"
  shows "1 \<le> identity_count uid db' \<and>
    filter (\<lambda>i. ir_user_id i \<noteq> uid) (ad_identities db') = filter (\<lambda>i. ir_user_id i \<noteq> uid) (ad_identities db)"
proof -
  have two: "1 < identity_count uid db"
    and db': "ad_identities db' = filter (\<lambda>i. \<not> (ir_id i = iid \<and> ir_user_id i = uid)) (ad_identities db)"
    using assms(1) by (auto simp: unlink_identity_def delete_identity_def Let_def split: if_splits)
  have "1 \<le> identity_count uid db'"
    using two delete_at_most_one [OF assms(2), of uid iid] by (simp add: identity_count_def db')
  moreover have "filter (\<lambda>i. ir_user_id i \<noteq> uid) (ad_identities db') = filter (\<lambda>i. ir_user_id i \<noteq> uid) (ad_identities db)"
    unfolding db' filter_filter by (rule filter_cong) auto
  ultimately show ?thesis by blast
qed

section \<open>Roles\<close>

definition role_ok :: "user_account \<Rightarrow> bool" where
  "role_ok u \<longleftrightarrow> ua_role u \<in> set valid_roles \<and>
     (ua_platform_role u = None \<or> ua_platform_role u \<in> Some ` set valid_platform_roles)"

definition roles_valid :: "account_db \<Rightarrow> bool" where
  "roles_valid db \<longleftrightarrow> list_all role_ok (ad_users db)"

lemma roles_valid_update:
  assumes "roles_valid db" and "update_where uid f db = Some db'" and "\<And>u. role_ok u \<Longrightarrow> role_ok (f u)"
  shows "roles_valid db'"
  using assms by (auto simp: roles_valid_def update_where_def list_all_iff split: if_splits)

lemma updated_user_db: "updated_user column uid new db = (u, db') \<Longrightarrow> db' = db \<or> new = Some db'"
  by (auto simp: updated_user_def split: option.splits)

text \<open>The table of users only ever holds roles the service knows: every change of a role is refused unless
  the role is one of them, with and without the column of platform roles, and logins create none but
  these if they ask for one of them.\<close>

theorem role_changes_keep_roles_valid:
  assumes "roles_valid db" and "update_user_role column now uid role platform db = Some (u, db')"
  shows "roles_valid db'"
proof -
  let ?p = "map_option (\<lambda>r. py_lower (py_strip r)) platform"
  have role: "r \<in> set valid_roles" if "role = Some r" for r
    using assms(2) that by (auto simp: update_user_role_def Let_def split: if_splits)
  have plat: "p \<in> set valid_platform_roles" if "?p = Some p" for p
    using assms(2) that by (auto simp: update_user_role_def Let_def split: if_splits)
  have admin: "''admin'' \<in> set valid_roles" by (simp add: valid_roles_def)
  consider (new) "column \<or> ?p = None" | (old) "\<not> (column \<or> ?p = None)" by blast
  then show ?thesis
  proof cases
    case new
    let ?f = "\<lambda>v. v\<lparr>ua_role := (case role of None \<Rightarrow> ua_role v | Some r \<Rightarrow> r),
        ua_platform_role := (case ?p of None \<Rightarrow> ua_platform_role v | Some r \<Rightarrow> Some r), ua_updated_at := now\<rparr>"
    have "updated_user column uid (update_where uid ?f db) db = (u, db')"
      using assms(2) new by (auto simp: update_user_role_def Let_def split: if_splits)
    from updated_user_db [OF this] show ?thesis
    proof
      assume "update_where uid ?f db = Some db'"
      then show ?thesis
        by (rule roles_valid_update [OF assms(1)]) (use role plat in \<open>auto simp: role_ok_def split: option.splits\<close>)
    qed (use assms(1) in simp)
  next
    case old
    obtain r where r: "updated_user column uid (update_where uid (\<lambda>v. v\<lparr>ua_role := r, ua_updated_at := now\<rparr>) db) db = (u, db')"
        "r \<in> set valid_roles"
      using assms(2) old role admin
      by (auto simp: update_user_role_def Let_def split: if_splits option.splits)
    from updated_user_db [OF r(1)] show ?thesis
    proof
      assume "update_where uid (\<lambda>v. v\<lparr>ua_role := r, ua_updated_at := now\<rparr>) db = Some db'"
      then show ?thesis by (rule roles_valid_update [OF assms(1)]) (use r(2) in \<open>simp add: role_ok_def\<close>)
    qed (use assms(1) in simp)
  qed
qed

lemma derived_platform_role_valid: "derive_platform_role legacy platform \<in> set valid_platform_roles"
  by (auto simp: derive_platform_role_def valid_platform_roles_def Let_def split: option.splits)

lemma logins_keep_roles_valid:
  assumes "roles_valid db" and "lq_role r \<in> set valid_roles"
  shows "roles_valid (snd (find_or_create_by_provider column now r db))"
proof -
  have same: "roles_valid (snd (find_user_by_provider column now k db))" "roles_valid (link_identity now iid uid k p db0) = roles_valid db0"
    for k iid uid p db0
    using assms(1) by (auto simp: roles_valid_def find_user_by_provider_def link_identity_def split: option.splits)
  have new: "roles_valid (snd (create_and_link column now r db0))" if "roles_valid db0" for db0
    using that assms(2) derived_platform_role_valid
    by (auto simp: create_and_link_def create_user_def Let_def same) (auto simp: roles_valid_def role_ok_def)
  obtain u0 db0 where p: "find_user_by_provider column now (lq_key r) db = (u0, db0)"
    by (cases "find_user_by_provider column now (lq_key r) db")
  then have "roles_valid db0" using same(1) [of "lq_key r"] by simp
  then show ?thesis
    by (auto simp: find_or_create_by_provider_def p Let_def new same split: option.splits)
qed

section \<open>Where accounts go wrong\<close>

definition no_accounts :: account_db where "no_accounts = \<lparr>ad_users = [], ad_identities = []\<rparr>"

definition lms_login :: "string \<Rightarrow> string option \<Rightarrow> string option \<Rightarrow> string \<Rightarrow> string \<Rightarrow> login_request" where
  "lms_login sub issuer email uid iid =
     \<lparr>lq_key = \<lparr>lk_provider = ''lms'', lk_sub = sub, lk_issuer = issuer\<rparr>,
      lq_profile = \<lparr>lp_email = email, lp_name = None, lp_avatar = None\<rparr>, lq_role = ''student'', lq_auto_create = True,
      lq_email_verified = True, lq_user_id = uid, lq_identity_id = iid\<rparr>"

text \<open>Two first logins of one person at the same time make two accounts: both logins succeed, as two users,
  and the user whose insertion of the identity came second is left without an identity.\<close>

theorem two_first_logins_make_two_accounts:
  "(let r1 = lms_login ''s'' (Some ''moodle'') None ''u1'' ''i1''; r2 = lms_login ''s'' (Some ''moodle'') None ''u2'' ''i2'';
        out = run_logins True 1 [r1, r2] [0, 1, 0, 1, 0, 1] [By_Provider, By_Provider] no_accounts in
    map (\<lambda>p. case p of Logged_In (Some u) \<Rightarrow> lu_id u | _ \<Rightarrow> []) (fst out) = [''u1'', ''u2''] \<and>
    identity_count ''u1'' (snd out) = 1 \<and> identity_count ''u2'' (snd out) = 0)"
  by code_simp

text \<open>An account that somebody opened with an address that was not verified takes in the owner of the
  address later: when he first logs in, with the address verified, he is linked to that account.\<close>

theorem unverified_account_captures_owner:
  "(let db1 = snd (find_or_create_by_google True 1 ''mallory'' \<lparr>lp_email = Some ''ann@x'', lp_name = None, lp_avatar = None\<rparr> False
          ''u1'' ''i1'' no_accounts);
        (ann, db2) = find_or_create_by_google True 2 ''ann'' \<lparr>lp_email = Some ''ann@x'', lp_name = None, lp_avatar = None\<rparr> True
          ''u2'' ''i2'' db1;
        (mallory, db3) = find_or_create_by_google True 3 ''mallory'' \<lparr>lp_email = Some ''ann@x'', lp_name = None, lp_avatar = None\<rparr> False
          ''u3'' ''i3'' db2 in
    map_option lu_id ann = Some ''u1'' \<and> map_option lu_id mallory = Some ''u1'')"
  by code_simp

text \<open>The guard of the last identity is a count before the deletion: two requests at the same time both
  pass it and leave the user without any identity.\<close>

theorem two_unlinks_leave_none:
  "(let i = (\<lambda>n. \<lparr>ir_id = n, ir_user_id = ''u'', ir_provider = ''google'', ir_sub = n, ir_issuer = None, ir_email = None,
          ir_display_name = None, ir_avatar = None, ir_linked_at = 0, ir_used_at = 0\<rparr>);
        db = no_accounts\<lparr>ad_identities := [i ''a'', i ''b'']\<rparr> in
    1 < identity_count ''u'' db \<and>
    identity_count ''u'' (snd (delete_identity ''u'' ''b'' (snd (delete_identity ''u'' ''a'' db)))) = 0)"
  by code_simp

section \<open>The theorems at work\<close>

definition sample_accounts :: account_db where
  "sample_accounts =
     \<lparr>ad_users = [\<lparr>ua_id = ''u1'', ua_email = Some ''Ann@x'', ua_name = None, ua_avatar = None, ua_role = ''teacher'',
                    ua_platform_role = None, ua_active = True, ua_updated_at = 0\<rparr>],
      ad_identities = [\<lparr>ir_id = ''i1'', ir_user_id = ''u1'', ir_provider = ''lms'', ir_sub = ''s'', ir_issuer = Some ''moodle'',
                    ir_email = None, ir_display_name = None, ir_avatar = None, ir_linked_at = 0, ir_used_at = 0\<rparr>,
                  \<lparr>ir_id = ''i2'', ir_user_id = ''u1'', ir_provider = ''google'', ir_sub = ''g'', ir_issuer = None,
                    ir_email = None, ir_display_name = None, ir_avatar = None, ir_linked_at = 0, ir_used_at = 0\<rparr>]\<rparr>"


lemma existing_account_needs_proof_witness:
  "\<exists>u \<in> set (ad_users sample_accounts). map_option py_lower (ua_email u) = Some (py_lower ''ann@X'')"
proof -
  let ?r = "lms_login ''t'' (Some ''moodle'') (Some ''ann@X'') ''u2'' ''i3''"
  let ?out = "find_or_create_by_provider True 5 ?r sample_accounts"
  have a: "map_option lu_id (fst ?out) = Some ''u1''" by code_simp
  have b: "joined_identity (lq_key ?r) sample_accounts = None" by code_simp
  from a obtain v where v: "fst ?out = Some v" "lu_id v = ''u1''" by (cases "fst ?out") simp_all
  then have "?out = (Some v, snd ?out)" by (simp add: prod_eq_iff)
  from existing_account_needs_proof [OF this] b v(2) show ?thesis by (auto simp: lms_login_def)
qed

lemma unlinking_leaves_an_identity_witness:
  "1 \<le> identity_count ''u1'' (snd (unlink_identity ''u1'' ''i2'' sample_accounts))"
proof -
  have "unlink_identity ''u1'' ''i2'' sample_accounts = (Inr True, snd (unlink_identity ''u1'' ''i2'' sample_accounts))"
    by (simp add: unlink_identity_def delete_identity_def identity_count_def sample_accounts_def Let_def)
  from unlinking_leaves_an_identity [OF this] show ?thesis
    by (simp add: sample_accounts_def)
qed

lemma role_changes_keep_roles_valid_witness:
  "\<exists>u db'. update_user_role True 9 ''u1'' (Some ''admin'') (Some '' Platform_Admin'') sample_accounts = Some (u, db') \<and> roles_valid db'"
proof -
  have "update_user_role True 9 ''u1'' (Some ''admin'') (Some '' Platform_Admin'') sample_accounts \<noteq> None" by code_simp
  then obtain u db' where u: "update_user_role True 9 ''u1'' (Some ''admin'') (Some '' Platform_Admin'') sample_accounts = Some (u, db')"
    by auto
  have "roles_valid sample_accounts" by code_simp
  from role_changes_keep_roles_valid [OF this u] show ?thesis using u by blast
qed

end
