(* ===== verification/Lms_Exchange.thy ===== *)
theory Lms_Exchange
  imports User_Accounts Auth_Gate Callback_State
begin

text \<open>
  The token exchange of a learning management system: \<open>auth/lms_token_exchange.py\<close>, its endpoint in
  \<open>auth/lms_auth_router.py\<close>, and the deactivation of a user, over the tables of \<open>User_Accounts\<close>
  and the refresh tokens of \<open>Token_Service\<close>. HMAC, the JSON parser and the validation of the request model
  are arguments, and so is which statement fails. The connector configuration is its parsed list. The
  first registry lookup of the code imports a name that does not exist and is always skipped; audit
  events, the rate limit and the host name of a grant are left out.
\<close>

section \<open>Roles\<close>

definition lms_host_role_map :: "(string, string) dict" where
  "lms_host_role_map =
     [(''teacher'', ''teacher''), (''instructor'', ''teacher''), (''professor'', ''teacher''), (''lecturer'', ''teacher''),
      (''ta'', ''teacher''), (''teaching_assistant'', ''teacher''), (''admin'', ''admin''), (''org_admin'', ''org_admin''),
      (''administrator'', ''admin''), (''manager'', ''admin''), (''student'', ''student''), (''learner'', ''student'')]"

definition map_lms_host_role :: "string option \<Rightarrow> string option" where
  "map_lms_host_role role =
     (if str_or_empty role = [] then Some ''student''
      else let raw = py_strip (py_lower (str_or_empty role)) in
        normalize_host_role (Some (case dict_get lms_host_role_map raw of Some r \<Rightarrow> r | None \<Rightarrow> raw)))"

definition map_lms_role :: "string option \<Rightarrow> string" where
  "map_lms_role role = map_host_role_to_legacy_role (map_lms_host_role role)"

section \<open>Connectors\<close>

record lms_connector =
  lc_id :: string
  lc_webhook_secret :: "string option"
  lc_organization_id :: "string option"

record lms_settings =
  ls_connectors :: "lms_connector list option"
  ls_registry_organization :: "string \<Rightarrow> string option"
  ls_webhook_secret :: "string option"
  ls_environment :: string
  ls_max_age :: int

definition named_connectors :: "lms_settings \<Rightarrow> pyval \<Rightarrow> lms_connector list" where
  "named_connectors st cid =
     (case ls_connectors st of None \<Rightarrow> [] | Some cs \<Rightarrow> filter (\<lambda>c. PStr (lc_id c) = cid) cs)"

definition resolve_connector_secret :: "lms_settings \<Rightarrow> pyval \<Rightarrow> string option" where
  "resolve_connector_secret st cid =
     (case find (\<lambda>c. str_or_empty (lc_webhook_secret c) \<noteq> []) (named_connectors st cid) of
        Some c \<Rightarrow> lc_webhook_secret c
      | None \<Rightarrow> ls_webhook_secret st)"

text \<open>\<open>None\<close> is a \<open>ValueError\<close>.\<close>

definition validate_lms_signature ::
  "(string \<Rightarrow> string \<Rightarrow> string) \<Rightarrow> lms_settings \<Rightarrow> pyval \<Rightarrow> string \<Rightarrow> string \<Rightarrow> bool option"
where
  "validate_lms_signature hmac st cid body signature =
     (let secret = str_or_empty (resolve_connector_secret st cid) in
      if secret = [] then None
      else if signature = [] then None
      else Some (''sha256='' @ hmac secret body = signature))"

text \<open>\<open>Some\<close> is the message of the \<open>ValueError\<close>.\<close>

definition validate_request_timestamp :: "lms_settings \<Rightarrow> int \<Rightarrow> int option \<Rightarrow> string option" where
  "validate_request_timestamp st now timestamp =
     (case timestamp of
        None \<Rightarrow> if ls_environment st = ''production''
          then Some ''timestamp is required in production (replay protection)'' else None
      | Some t \<Rightarrow> if ls_max_age st < \<bar>now - t\<bar>
          then Some (''Request timestamp too far from server time: '' @ int_text \<bar>now - t\<bar> @ ''s difference (max '' @
                 int_text (ls_max_age st) @ ''s)'') else None)"

definition resolve_connector_org :: "lms_settings \<Rightarrow> string \<Rightarrow> string option" where
  "resolve_connector_org st cid =
     (if cid = [] then None
      else case named_connectors st (PStr cid) of
        c # _ \<Rightarrow>
          if str_or_empty (lc_organization_id c) \<noteq> [] then lc_organization_id c
          else if str_or_empty (ls_registry_organization st cid) \<noteq> [] then ls_registry_organization st cid
          else Some cid
      | [] \<Rightarrow>
          if str_or_empty (ls_registry_organization st cid) \<noteq> [] then ls_registry_organization st cid
          else Some cid)"

section \<open>The exchange\<close>

record lms_request =
  lr_connector_id :: string
  lr_lms_user_id :: string
  lr_email :: "string option"
  lr_name :: "string option"
  lr_role :: "string option"
  lr_organization_id :: "string option"
  lr_timestamp :: "int option"

record lms_grant =
  lg_user_id :: string
  lg_connector_id :: string
  lg_host_user_id :: string
  lg_workspace_id :: string
  lg_organization_id :: "string option"

record lms_world =
  lw_accounts :: account_db
  lw_members :: "(string \<times> string) list"
  lw_tokens :: "refresh_row list"
  lw_unavailable :: bool
  lw_grants :: "((string \<times> string), lms_grant) dict"

record lms_env =
  le_column :: bool
  le_accounts_ok :: bool
  le_member_ok :: bool
  le_grant_ok :: bool
  le_token :: token_env
  le_fresh :: fresh_values
  le_user_id :: string
  le_identity_id :: string

record lms_response =
  er_pair :: token_pair
  er_user_id :: string
  er_email :: "string option"
  er_name :: "string option"
  er_role :: string
  er_platform_role :: string
  er_host_role :: "string option"
  er_organization_id :: "string option"

definition opt_text :: "string option \<Rightarrow> pyval" where
  "opt_text v = (case v of None \<Rightarrow> PNone | Some s \<Rightarrow> PStr s)"

text \<open>The tables that the token service sees.\<close>

definition token_view :: "bool \<Rightarrow> lms_world \<Rightarrow> token_db" where
  "token_view column w =
     \<lparr>td_tokens = lw_tokens w,
      td_users = map (\<lambda>u. (ua_id u, \<lparr>ur_email = opt_text (ua_email u), ur_name = opt_text (ua_name u),
        ur_role = PStr (ua_role u), ur_platform_role = (if column then opt_text (ua_platform_role u) else PNone)\<rparr>))
        (ad_users (lw_accounts w)),
      td_marked_unavailable = lw_unavailable w\<rparr>"

definition with_tokens :: "token_db \<Rightarrow> lms_world \<Rightarrow> lms_world" where
  "with_tokens db w = w\<lparr>lw_tokens := td_tokens db, lw_unavailable := td_marked_unavailable db\<rparr>"

definition lms_login_request :: "lms_env \<Rightarrow> lms_request \<Rightarrow> login_request" where
  "lms_login_request env req =
     \<lparr>lq_key = \<lparr>lk_provider = ''lms'', lk_sub = lr_lms_user_id req, lk_issuer = Some (lr_connector_id req)\<rparr>,
      lq_profile = \<lparr>lp_email = lr_email req, lp_name = lr_name req, lp_avatar = None\<rparr>,
      lq_role = map_lms_role (lr_role req), lq_auto_create = True, lq_email_verified = True,
      lq_user_id = le_user_id env, lq_identity_id = le_identity_id env\<rparr>"

definition ensure_org_membership :: "bool \<Rightarrow> string \<Rightarrow> string \<Rightarrow> lms_world \<Rightarrow> lms_world" where
  "ensure_org_membership ok uid org w =
     (if ok \<and> (uid, org) \<notin> set (lw_members w) then w\<lparr>lw_members := lw_members w @ [(uid, org)]\<rparr> else w)"

definition lms_token_identity :: "login_user \<Rightarrow> lms_request \<Rightarrow> string option \<Rightarrow> token_identity" where
  "lms_token_identity u req org =
     \<lparr>ti_user_id = PStr (lu_id u), ti_email = opt_text (lu_email u), ti_name = opt_text (lu_name u),
      ti_role = PStr (map_lms_role (lr_role req)), ti_platform_role = PStr ''user'', ti_organization_role = PNone,
      ti_host_role = opt_text (map_lms_host_role (lr_role req)), ti_role_source = PStr ''lms_host'',
      ti_active_organization_id = opt_text org, ti_connector_id = PStr (lr_connector_id req),
      ti_identity_version = PStr ''2'', ti_auth_method = PStr ''lms''\<rparr>"

text \<open>The key of a grant: connector, external account and workspace, each stripped, with its placeholder.\<close>

definition connector_grant_key :: "string \<Rightarrow> string \<Rightarrow> string \<Rightarrow> string" where
  "connector_grant_key connector host_user workspace =
     (if py_strip connector = [] then ''unknown-connector'' else py_strip connector) @ '':'' @
     (if py_strip host_user = [] then ''*'' else py_strip host_user) @ '':'' @
     (if py_strip workspace = [] then ''*'' else py_strip workspace)"

definition upsert_connector_grant :: "bool \<Rightarrow> lms_grant \<Rightarrow> lms_world \<Rightarrow> lms_world" where
  "upsert_connector_grant ok g w =
     (if ok then w\<lparr>lw_grants := dict_set
          (lg_user_id g, connector_grant_key (lg_connector_id g) (lg_host_user_id g) (lg_workspace_id g)) g (lw_grants w)\<rparr>
      else w)"

definition resolved_org :: "lms_settings \<Rightarrow> lms_request \<Rightarrow> string option" where
  "resolved_org st req =
     (if str_or_empty (lr_organization_id req) \<noteq> [] then lr_organization_id req
      else resolve_connector_org st (lr_connector_id req))"

text \<open>The part after the user is known.\<close>

definition issue_lms_tokens ::
  "token_lib \<Rightarrow> token_settings \<Rightarrow> lms_settings \<Rightarrow> lms_env \<Rightarrow> int \<Rightarrow> lms_request \<Rightarrow> login_user \<Rightarrow> lms_world \<Rightarrow> lms_response \<times> lms_world"
where
  "issue_lms_tokens lib ts st env now req u w =
     (let org = resolved_org st req;
          w1 = (if str_or_empty org \<noteq> [] then ensure_org_membership (le_member_ok env) (lu_id u) (str_or_empty org) w else w) in
      case create_token_pair lib ts now (le_fresh env) (le_token env) (lms_token_identity u req org) None (token_view (le_column env) w1) of
        (pair, tdb) \<Rightarrow>
          let w2 = with_tokens tdb w1;
              workspace = (if str_or_empty org \<noteq> [] then str_or_empty org else lr_connector_id req);
              w3 = upsert_connector_grant (le_grant_ok env)
                \<lparr>lg_user_id = lu_id u, lg_connector_id = lr_connector_id req, lg_host_user_id = lr_lms_user_id req,
                 lg_workspace_id = workspace, lg_organization_id = org\<rparr> w2 in
          (\<lparr>er_pair = pair, er_user_id = lu_id u, er_email = lu_email u, er_name = lu_name u,
            er_role = map_lms_role (lr_role req), er_platform_role = ''user'',
            er_host_role = map_lms_host_role (lr_role req), er_organization_id = org\<rparr>, w3))"

text \<open>\<open>exchange_lms_token\<close>: \<open>None\<close> is an exception, from a statement on the users or from the assertion
  that there is one.\<close>

definition exchange_lms_token ::
  "token_lib \<Rightarrow> token_settings \<Rightarrow> lms_settings \<Rightarrow> lms_env \<Rightarrow> int \<Rightarrow> lms_request \<Rightarrow> lms_world \<Rightarrow> lms_response option \<times> lms_world"
where
  "exchange_lms_token lib ts st env now req w =
     (if \<not> le_accounts_ok env then (None, w)
      else case find_or_create_by_provider (le_column env) now (lms_login_request env req) (lw_accounts w) of
        (None, db) \<Rightarrow> (None, w\<lparr>lw_accounts := db\<rparr>)
      | (Some u, db) \<Rightarrow>
          (case issue_lms_tokens lib ts st env now req u (w\<lparr>lw_accounts := db\<rparr>) of (r, w1) \<Rightarrow> (Some r, w1)))"

section \<open>The endpoint\<close>

record lms_http =
  lh_parse :: "string \<Rightarrow> pyval option"
  lh_validate :: "(string, pyval) dict \<Rightarrow> lms_request option"
  lh_hmac :: "string \<Rightarrow> string \<Rightarrow> string"

definition lms_token_endpoint ::
  "token_lib \<Rightarrow> token_settings \<Rightarrow> lms_settings \<Rightarrow> lms_http \<Rightarrow> lms_env \<Rightarrow> int \<Rightarrow> string \<Rightarrow> string \<Rightarrow> lms_world \<Rightarrow>
     (http_error + lms_response) \<times> lms_world"
where
  "lms_token_endpoint lib ts st H env now body signature w =
     (case lh_parse H body of
        None \<Rightarrow> (Inl (HttpError 400 ''Invalid JSON body''), w)
      | Some (PDict raw) \<Rightarrow>
          let cid = (case dict_get raw ''connector_id'' of None \<Rightarrow> PNone | Some v \<Rightarrow> v) in
          if \<not> truthy cid then (Inl (HttpError 400 ''connector_id is required''), w)
          else if validate_lms_signature (lh_hmac H) st cid body signature \<noteq> Some True
          then (Inl (HttpError 401 ''Invalid HMAC signature''), w)
          else (case lh_validate H raw of
            None \<Rightarrow> (Inl (HttpError 400 ''Invalid request''), w)
          | Some req \<Rightarrow>
              (case validate_request_timestamp st now (lr_timestamp req) of
                 Some detail \<Rightarrow> (Inl (HttpError 400 detail), w)
               | None \<Rightarrow>
                   (case exchange_lms_token lib ts st env now req w of
                      (None, w1) \<Rightarrow> (Inl (HttpError 500 ''Token exchange failed''), w1)
                    | (Some r, w1) \<Rightarrow> (Inr r, w1))))
      | Some _ \<Rightarrow> (Inl (HttpError 500 ''Internal Server Error''), w))"

section \<open>Deactivation\<close>

definition deactivate_user :: "bool \<Rightarrow> bool \<Rightarrow> int \<Rightarrow> string \<Rightarrow> lms_world \<Rightarrow> login_user option \<times> lms_world" where
  "deactivate_user column tokens_ok now uid w =
     (case set_active False now uid (lw_accounts w) of
        None \<Rightarrow> (None, w)
      | Some db \<Rightarrow>
          let w1 = w\<lparr>lw_accounts := db\<rparr> in
          (get_user column uid db, with_tokens (snd (revoke_user_tokens now tokens_ok uid (token_view column w1))) w1))"

section \<open>What an exchange needs\<close>

lemma signature_ok:
  "validate_lms_signature hmac st cid body signature = Some True \<longleftrightarrow>
     str_or_empty (resolve_connector_secret st cid) \<noteq> [] \<and>
     signature = ''sha256='' @ hmac (str_or_empty (resolve_connector_secret st cid)) body"
  by (auto simp: validate_lms_signature_def Let_def)

lemma endpoint_accepts:
  assumes "lms_token_endpoint lib ts st H env now body signature w = (Inr r, w')"
  obtains raw req where "lh_parse H body = Some (PDict raw)" "truthy (case dict_get raw ''connector_id'' of None \<Rightarrow> PNone | Some v \<Rightarrow> v)"
    "validate_lms_signature (lh_hmac H) st (case dict_get raw ''connector_id'' of None \<Rightarrow> PNone | Some v \<Rightarrow> v) body signature = Some True"
    "lh_validate H raw = Some req" "validate_request_timestamp st now (lr_timestamp req) = None"
    "exchange_lms_token lib ts st env now req w = (Some r, w')"
proof -
  obtain raw where raw: "lh_parse H body = Some (PDict raw)"
    using assms by (auto simp: lms_token_endpoint_def split: option.splits pyval.splits)
  show thesis
    using assms that [OF raw]
    by (auto simp: lms_token_endpoint_def raw Let_def split: if_splits option.splits prod.splits)
qed

text \<open>C13: Nobody gets tokens from the exchange without a signature: the answer is a token pair only for a body that
  is signed with the secret the service holds for the connector the body names, or with the shared one,
  and whose timestamp is in the window; in production it must have one. Whatever else happens, a request
  that is refused before the exchange changes nothing.\<close>

theorem exchange_needs_signature:
  assumes "lms_token_endpoint lib ts st H env now body signature w = (res, w')"
  shows "(case res of
      Inr _ \<Rightarrow> \<exists>raw connector secret req. lh_parse H body = Some (PDict raw) \<and>
        dict_get raw ''connector_id'' = Some connector \<and> resolve_connector_secret st connector = Some secret \<and>
        secret \<noteq> [] \<and> signature = ''sha256='' @ lh_hmac H secret body \<and> lh_validate H raw = Some req \<and>
        (case lr_timestamp req of None \<Rightarrow> ls_environment st \<noteq> ''production'' | Some t \<Rightarrow> \<bar>now - t\<bar> \<le> ls_max_age st)
    | Inl (HttpError status _) \<Rightarrow> status = 500 \<or> w' = w)"
proof (cases res)
  case (Inr r)
  with assms have "lms_token_endpoint lib ts st H env now body signature w = (Inr r, w')" by simp
  then show ?thesis
  proof (rule endpoint_accepts)
    fix raw req
    let ?cid = "case dict_get raw ''connector_id'' of None \<Rightarrow> PNone | Some v \<Rightarrow> v"
    assume a: "lh_parse H body = Some (PDict raw)" "truthy ?cid"
      "validate_lms_signature (lh_hmac H) st ?cid body signature = Some True"
      "lh_validate H raw = Some req" "validate_request_timestamp st now (lr_timestamp req) = None"
    from a(2) obtain connector where c: "dict_get raw ''connector_id'' = Some connector"
      by (cases "dict_get raw ''connector_id''") simp_all
    from a(3) obtain secret where "resolve_connector_secret st connector = Some secret" "secret \<noteq> []"
        "signature = ''sha256='' @ lh_hmac H secret body"
      by (cases "resolve_connector_secret st connector") (auto simp: signature_ok c str_or_empty_def)
    moreover have "case lr_timestamp req of None \<Rightarrow> ls_environment st \<noteq> ''production'' | Some t \<Rightarrow> \<bar>now - t\<bar> \<le> ls_max_age st"
      using a(5) by (auto simp: validate_request_timestamp_def split: option.splits if_splits)
    ultimately show ?thesis using a(1,4) c by (auto simp: Inr)
  qed
next
  case (Inl e)
  then show ?thesis
    using assms
    by (auto simp: lms_token_endpoint_def Let_def split: option.splits pyval.splits if_splits prod.splits)
qed

section \<open>What an exchange gives\<close>

lemma lms_role_low: "map_lms_role role \<in> {''student'', ''teacher''}"
  by (simp add: map_lms_role_def map_host_role_to_legacy_role_def default_legacy_role_def)

lemma lms_role_no_admin: "derive_platform_role (Some (map_lms_role role)) None = ''user''"
proof -
  have "py_lower (py_strip ''student'') \<noteq> ''admin''" "py_lower (py_strip ''teacher'') \<noteq> ''admin''" by code_simp+
  then show ?thesis using lms_role_low [of role] by (auto simp: derive_platform_role_def)
qed

definition platform_admins :: "bool \<Rightarrow> account_db \<Rightarrow> login_user list" where
  "platform_admins column db =
     filter (\<lambda>u. lu_platform_role u = ''platform_admin'') (map (format_user_row column) (ad_users db))"

lemma login_users:
  "ad_users (snd (find_or_create_by_provider column now r db)) = ad_users db \<or>
   (\<exists>u. ad_users (snd (find_or_create_by_provider column now r db)) = ad_users db @ [u] \<and>
      lu_platform_role (format_user_row column u) = derive_platform_role (Some (lq_role r)) None)"
proof -
  have same: "ad_users (snd (find_user_by_provider column now k db)) = ad_users db" "ad_users (link_identity now iid uid k p db0) = ad_users db0"
    for k iid uid p db0
    by (auto simp: find_user_by_provider_def link_identity_def split: option.splits)
  have idem: "derive_platform_role l (Some (derive_platform_role l p)) = derive_platform_role l p" for l p
  proof -
    have v: "derive_platform_role l (Some q) = q" if "q = ''user'' \<or> q = ''platform_admin''" for q
    proof -
      have "py_lower (py_strip ''user'') = ''user''" "py_lower (py_strip ''platform_admin'') = ''platform_admin''" by code_simp+
      then show ?thesis using that by (auto simp: derive_platform_role_def valid_platform_roles_def)
    qed
    show ?thesis
      by (rule v) (use derived_platform_role_valid [of l p] in \<open>simp add: valid_platform_roles_def\<close>)
  qed
  have new: "ad_users (snd (create_and_link column now r db0)) = ad_users db0 \<or>
     (\<exists>u. ad_users (snd (create_and_link column now r db0)) = ad_users db0 @ [u] \<and>
      lu_platform_role (format_user_row column u) = derive_platform_role (Some (lq_role r)) None)"
    for db0
    by (auto simp: create_and_link_def create_user_def format_user_row_def same idem Let_def)
  obtain u0 db1 where p: "find_user_by_provider column now (lq_key r) db = (u0, db1)"
    by (cases "find_user_by_provider column now (lq_key r) db")
  then have db1: "ad_users db1 = ad_users db" using same(1) [of "lq_key r"] by simp
  show ?thesis
    using new [of db1]
    by (auto simp: find_or_create_by_provider_def p same db1 Let_def split: option.splits)
qed


section \<open>Deactivation\<close>

definition live_tokens :: "string \<Rightarrow> lms_world \<Rightarrow> refresh_row list" where
  "live_tokens uid w = filter (\<lambda>t. rr_user_id t = uid \<and> rr_revoked_at t = None) (lw_tokens w)"

text \<open>A user that is deactivated keeps no refresh token that works, if the statement that revokes them
  succeeds; nobody else loses one, and the account is marked.\<close>

theorem deactivation_revokes_tokens:
  assumes "deactivate_user column True now uid w = (Some u, w')"
  shows "\<not> lu_active u \<and> live_tokens uid w' = [] \<and>
    filter (\<lambda>t. rr_user_id t \<noteq> uid) (lw_tokens w') = filter (\<lambda>t. rr_user_id t \<noteq> uid) (lw_tokens w)"
proof -
  obtain db where db: "set_active False now uid (lw_accounts w) = Some db"
    using assms by (auto simp: deactivate_user_def split: option.splits)
  have found: "x \<in> set xs \<and> P x" if "find P xs = Some x" for P x and xs :: "user_account list"
    using that by (induction xs) (auto split: if_splits)
  let ?P = "\<lambda>t. rr_user_id t = uid \<and> rr_revoked_at t = None"
  let ?f = "\<lambda>t. if ?P t then t\<lparr>rr_revoked_at := Some now\<rparr> else t"
  have tokens: "lw_tokens w' = map ?f (lw_tokens w)"
    using assms by (auto simp: deactivate_user_def db with_tokens_def revoke_user_tokens_def revoke_where_def token_view_def Let_def)
  have "get_user column uid db = Some u"
    using assms by (simp add: deactivate_user_def db Let_def)
  then obtain v where v: "find (\<lambda>v. ua_id v = uid) (ad_users db) = Some v" "u = format_user_row column v"
    by (auto simp: get_user_def user_by_id_def)
  have "db = (lw_accounts w)\<lparr>ad_users := map (\<lambda>u. if ua_id u = uid then u\<lparr>ua_active := False, ua_updated_at := now\<rparr> else u)
      (ad_users (lw_accounts w))\<rparr>"
    using db by (simp add: set_active_def update_where_def split: if_split_asm)
  moreover have "list_all (\<lambda>v. ua_id v = uid \<longrightarrow> \<not> ua_active v)
      (map (\<lambda>u. if ua_id u = uid then u\<lparr>ua_active := False, ua_updated_at := now\<rparr> else u) us)" for us
    by (induction us) simp_all
  ultimately have "list_all (\<lambda>v. ua_id v = uid \<longrightarrow> \<not> ua_active v) (ad_users db)" by simp
  then have "\<not> ua_active v" using found [OF v(1)] by (simp add: list_all_iff)
  then have "\<not> lu_active u" by (simp add: v(2) format_user_row_def)
  moreover have "live_tokens uid w' = []"
  proof -
    have "filter ?P (map ?f ts) = []" for ts by (induction ts) simp_all
    then show ?thesis by (simp only: live_tokens_def tokens)
  qed
  moreover have "filter (\<lambda>t. rr_user_id t \<noteq> uid) (map ?f ts) = filter (\<lambda>t. rr_user_id t \<noteq> uid) ts" for ts
    by (induction ts) simp_all
  ultimately show ?thesis by (simp only: tokens) blast
qed

section \<open>Where the exchange goes wrong\<close>

definition sample_lms_settings :: lms_settings where
  "sample_lms_settings = \<lparr>ls_connectors = Some [\<lparr>lc_id = ''moodle'', lc_webhook_secret = Some ''k'', lc_organization_id = Some ''school''\<rparr>],
     ls_registry_organization = (\<lambda>_. None), ls_webhook_secret = None, ls_environment = ''production'', ls_max_age = 300\<rparr>"

definition sample_lms_request :: "string option \<Rightarrow> lms_request" where
  "sample_lms_request org = \<lparr>lr_connector_id = ''moodle'', lr_lms_user_id = ''s'', lr_email = None, lr_name = None,
     lr_role = Some ''Admin'', lr_organization_id = org, lr_timestamp = Some 10\<rparr>"

definition sample_lms_http :: "string option \<Rightarrow> lms_http" where
  "sample_lms_http org = \<lparr>lh_parse = (\<lambda>_. Some (PDict [(''connector_id'', PStr ''moodle'')])),
     lh_validate = (\<lambda>_. Some (sample_lms_request org)), lh_hmac = (\<lambda>s b. s @ b)\<rparr>"

definition sample_lms_env :: lms_env where
  "sample_lms_env = \<lparr>le_column = True, le_accounts_ok = True, le_member_ok = True, le_grant_ok = True, le_token = sample_token_env,
     le_fresh = sample_fresh, le_user_id = ''u9'', le_identity_id = ''i9''\<rparr>"

definition sample_lms_world :: lms_world where
  "sample_lms_world = \<lparr>lw_accounts = sample_accounts, lw_members = [],
     lw_tokens = [(sample_token_row None)\<lparr>rr_user_id := ''u1''\<rparr>], lw_unavailable = False, lw_grants = []\<rparr>"

abbreviation "sample_exchange env org w \<equiv> lms_token_endpoint sample_token_lib sample_token_settings sample_lms_settings
  (sample_lms_http org) env 20 ''body'' ''sha256=kbody'' w"

text \<open>Deactivation does not stop the exchange: after a user is deactivated and its refresh tokens are
  revoked, the next signed request of the learning system gives it a token pair again, and a live refresh
  token with it.\<close>

theorem deactivated_user_gets_tokens:
  "(let w1 = snd (deactivate_user True True 5 ''u1'' sample_lms_world); (res, w2) = sample_exchange sample_lms_env None w1 in
    map_option lu_active (get_user True ''u1'' (lw_accounts w2)) = Some False \<and> live_tokens ''u1'' w1 = [] \<and>
    (case res of Inr r \<Rightarrow> er_user_id r = ''u1'' | Inl _ \<Rightarrow> False) \<and> live_tokens ''u1'' w2 \<noteq> [])"
  by code_simp

text \<open>The organisation of the request wins over that of the connector: a connector that is configured for one
  organisation makes its user a member of any other it names, with a token for it.\<close>

theorem connector_enters_any_organization:
  "(let (res, w) = sample_exchange sample_lms_env (Some ''rival'') sample_lms_world in
    resolve_connector_org sample_lms_settings ''moodle'' = Some ''school'' \<and>
    (case res of Inr r \<Rightarrow> er_organization_id r = Some ''rival'' | Inl _ \<Rightarrow> False) \<and> (''u1'', ''rival'') \<in> set (lw_members w))"
  by code_simp

text \<open>A signed request can be sent again while its timestamp is in the window: the second sending gives
  another token pair and another live refresh token.\<close>

theorem signed_request_replays:
  "(let (res1, w1) = sample_exchange sample_lms_env None sample_lms_world;
        (res2, w2) = sample_exchange (sample_lms_env\<lparr>le_fresh := sample_fresh\<lparr>fv_refresh_token := ''other''\<rparr>\<rparr>) None w1 in
    (case res1 of Inr _ \<Rightarrow> True | Inl _ \<Rightarrow> False) \<and> (case res2 of Inr _ \<Rightarrow> True | Inl _ \<Rightarrow> False) \<and>
    length (live_tokens ''u1'' w2) = Suc (length (live_tokens ''u1'' w1)))"
  by code_simp

section \<open>The theorems at work\<close>

lemma exchange_needs_signature_witness:
  "\<exists>secret. resolve_connector_secret sample_lms_settings (PStr ''moodle'') = Some secret \<and>
     ''sha256=kbody'' = ''sha256='' @ lh_hmac (sample_lms_http None) secret ''body''"
proof -
  have ok: "\<exists>r. fst (sample_exchange sample_lms_env None sample_lms_world) = Inr r"
  proof -
    have "(case fst (sample_exchange sample_lms_env None sample_lms_world) of Inr _ \<Rightarrow> True | Inl _ \<Rightarrow> False)" by code_simp
    then show ?thesis by (cases "fst (sample_exchange sample_lms_env None sample_lms_world)") simp_all
  qed
  then obtain r w where "sample_exchange sample_lms_env None sample_lms_world = (Inr r, w)"
    by (cases "sample_exchange sample_lms_env None sample_lms_world") auto
  from exchange_needs_signature [OF this] show ?thesis
    by (auto simp: sample_lms_http_def)
qed


lemma deactivation_revokes_tokens_witness:
  "live_tokens ''u1'' sample_lms_world \<noteq> [] \<and> live_tokens ''u1'' (snd (deactivate_user True True 5 ''u1'' sample_lms_world)) = []"
proof -
  let ?out = "deactivate_user True True 5 ''u1'' sample_lms_world"
  have "fst ?out \<noteq> None" by code_simp
  then obtain u w where out: "?out = (Some u, w)" by (cases ?out) auto
  have "live_tokens ''u1'' sample_lms_world \<noteq> []" by code_simp
  with deactivation_revokes_tokens [OF out] show ?thesis by (simp add: out)
qed

end
