(* ===== verification/Spec2Isabelle.thy ===== *)
theory Spec2Isabelle
  imports Payload_Sanitizer Connect_Lifecycle Connect_Sessions Connect_Policy Connect_Executor
    Resilience Search_Chain Stream_Smoother Path_Grants Tool_Guardrails Run_State Event_Log
    Auth_Gate Otp_Linking Callback_State Magic_Link Connect_Publish Input_Authority Work_Cells Cache_Manager Lms_Exchange
begin

text \<open>
  A verification library for Wiii: of its backend (\<open>src/maritime-ai-service/app\<close>) the code that decides
  whether a user, an agent or a callback may make something happen, and the services that must keep a
  promise whatever happens around them (logs, breakers, streams, credentials); of its desktop computer
  (\<open>src/wiii-desktop/src-tauri/src/neko/computer/image\<close>) the authority over mouse and keyboard and the
  work plane through which an agent reads and changes the files of a project.

  The program. A request comes in through FastAPI with an API key, a token of this service or a token of a
  learning management system; authentication turns it into a user with a role and an organisation. A chat
  turn runs as a state machine, calls tools behind guardrails, streams its answer and logs its events.
  Wiii Connect (\<open>engine/wiii_connect\<close>) brokers external accounts: a static registry and a curated action
  catalog say what exists, a deployment configuration says what is switched on, a connection row says
  which account a user of an organisation has linked and with which scopes. A request for an action runs
  through the action policy, the authorization of mutations, the adapter policy, the scope policy and the
  execution gateway; the executor then verifies the provider's live tool schema, checks the required
  arguments and calls the provider, with an audit record before and after the call. A post needs, in
  addition, a preview, a signed token and an approval row that is spent by it. Everything published
  (audit, events, API metadata) passes a redaction filter. On the desktop computer an agent's input runs
  under a lease that the user can revoke at any moment, and its changes to files name the revision they
  were planned on.

  The theories, with the code they model (paths under \<open>app/\<close>, those of the desktop computer under
  \<open>image/\<close>).

  Shared:

  \<^item> \<open>Prelude\<close>: Python's text operations on ASCII strings, slices, insertion-ordered dictionaries as
    association lists with distinct keys, the dynamic values \<open>pyval\<close>, the locale \<open>text_normalizer\<close> of the
    slug and key normalisers (interpreted in \<open>Connect_Keys\<close> and \<open>Connect_Lifecycle\<close>). \<open>Py_Regex\<close>: the
    regular expressions the code uses. \<open>Json_Text\<close>: \<open>json.dumps\<close> of flat dictionaries, proved injective.
  \<^item> \<open>Single_Use\<close>: the contract of a credential that is redeemed at most once, a locale over an operation
    step. Its interpretations: the approval table (\<open>approvals\<close>), refresh tokens (\<open>refresh\<close>), linking codes
    (\<open>otp\<close>), waiting sockets (\<open>socket_wait\<close>), and the preview and apply endpoints together (\<open>posts\<close>).
  \<^item> \<open>Failure_Gate\<close>: the contract of a circuit breaker, a locale interpreted by the breaker of external
    services (\<open>breaker_gate\<close>), the one per search platform (\<open>platform_gate\<close>) and the one of the response
    cache (\<open>cache_gate\<close>).

  Authentication:

  \<^item> \<open>Token_Service\<close>: \<open>auth/token_service.py\<close>, token pairs, the denylist, refresh with
    rotation and replay detection; refreshes of concurrent requests are interleavings of their SQL
    statements (\<open>run_schedule\<close>). \<open>Auth_Gate\<close>: \<open>core/security.py\<close> with roles and models, the whole of
    \<open>require_auth\<close>. \<open>Otp_Linking\<close>: \<open>auth/otp_linking.py\<close>. \<open>Magic_Link\<close>: \<open>auth/magic_link_session_store.py\<close>,
    both stores; the Valkey store is a step relation over any number of workers (\<open>vk_step\<close>,
    \<open>vk_reachable\<close>) with an invariant by rule induction.
  \<^item> \<open>User_Accounts\<close>: \<open>auth/user_service.py\<close> and \<open>identity_resolver.py\<close>, the tables of users and identities;
    a login is also a sequence of its SQL statements (\<open>login_tick\<close>), and schedules interleave logins
    (\<open>run_logins\<close>). \<open>Lms_Exchange\<close>: \<open>auth/lms_token_exchange.py\<close> and its endpoint in
    \<open>lms_auth_router.py\<close>, over those tables and the refresh tokens of \<open>Token_Service\<close>.

  Runtime services:

  \<^item> \<open>Payload_Sanitizer\<close>: \<open>engine/runtime/event_payload_sanitizer.py\<close>. \<open>Event_Log\<close>:
    \<open>session_event_log.py\<close>, its two backends as interpretations \<open>memory\<close> and \<open>postgres\<close> of the locale
    \<open>session_log\<close>, and the histories that concurrent appends may leave (\<open>pg_history\<close>). \<open>Tool_Guardrails\<close>:
    \<open>tool_guardrails.py\<close>, each guardrail an interpretation of \<open>guard_contract\<close>. \<open>Run_State\<close>:
    \<open>run_state.py\<close>, a step relation. \<open>Stream_Smoother\<close>: \<open>stream_smoother.py\<close>. \<open>Resilience\<close>:
    \<open>core/resilience.py\<close>, with concurrent calls as a step relation (\<open>cb_step\<close>). \<open>Search_Chain\<close>:
    \<open>engine/search_platforms\<close>, breaker and fallback chain. \<open>Path_Grants\<close>: \<open>sandbox/path_grants.py\<close>.
  \<^item> \<open>Response_Cache\<close>: \<open>cache/semantic_cache.py\<close> and \<open>cache/models.py\<close>, histories of the cache as lists of its
    operations (\<open>run_cache\<close>). \<open>Cache_Manager\<close>: \<open>cache_manager.py\<close>, \<open>invalidation.py\<close> and the calls of the
    retrieval pipeline (\<open>engine/agentic_rag\<close>), each a step of the cache (\<open>cache_steps\<close>).

  Wiii Connect:

  \<^item> \<open>Connect_Keys\<close>: \<open>argument_key_policy.py\<close>. \<open>Connect_Lifecycle\<close>: \<open>connection_lifecycle.py\<close>.
    \<open>Connect_Adapter\<close>: \<open>adapter_v1.py\<close>, the data classes as records, the Literal types as datatypes with
    their \<open>_value\<close> texts, and the fail-closed execution decision. \<open>Connect_Vault\<close>: \<open>vault.py\<close> and
    \<open>audit_ledger.py\<close>. \<open>Connect_Providers\<close>: \<open>provider_adapters.py\<close>. \<open>Connect_Sessions\<close>:
    \<open>connection_sessions.py\<close> and \<open>callback_boundary.py\<close>. \<open>Connect_Registry\<close>: \<open>provider_registry.py\<close> and
    \<open>action_catalog.py\<close>, all entries literally. \<open>Connect_Approval\<close>: \<open>operation_approval.py\<close> and the approval
    table of \<open>persistent_storage.py\<close>. \<open>Connect_Store\<close>: the connection table of that file.
  \<^item> \<open>Connect_Gateway\<close>: \<open>scope_policy.py\<close>, \<open>execution_gateway.py\<close>, \<open>action_authorization.py\<close>.
    \<open>Connect_Policy\<close>: \<open>action_policy.py\<close>. \<open>Connect_Inventory\<close>: \<open>action_inventory.py\<close>. \<open>Connect_Readiness\<close>:
    \<open>activation_readiness.py\<close>. \<open>Callback_State\<close>: \<open>callback_state.py\<close>, with base64. \<open>Connect_Post\<close>:
    \<open>facebook_post_preview.py\<close>.
  \<^item> \<open>Connect_Composio\<close> and \<open>Connect_Accounts\<close>: \<open>composio_adapter.py\<close>, configuration, tool schema and tool
    execution in the first, links, accounts, files and pages in the second. \<open>Connect_Executor\<close>:
    \<open>backend_action_executor.py\<close>, the execute endpoint of \<open>api/v1/wiii_connect.py\<close> and the generic tool of
    \<open>engine/tools/wiii_connect_tools.py\<close>. \<open>Connect_Api\<close>: the connection endpoints of the API.
    \<open>Connect_Publish\<close>: its Facebook endpoints, over the connection table and the approval table.

  Desktop computer:

  \<^item> \<open>Input_Authority\<close>: \<open>input_authority.py\<close>, each critical section under the condition's lock as one step
    (\<open>input_exec\<close>), threads interleaved at will (\<open>input_step\<close>), with a journal of grants, effects and
    acknowledged revocations and an invariant by rule induction (\<open>input_inv\<close>).
  \<^item> \<open>Work_Paths\<close>: \<open>project_paths.py\<close> and the paths, references, listing and revisions of
    \<open>work_plane_bridge.py\<close>, over a tree of files and links; \<open>Work_Plane\<close>: its file queries and mutations,
    where \<open>between\<close> says what other programs do to the tree from one phase to the next; \<open>Work_Cells\<close>: its
    cell ranges, formulas, cell values and the validators of workbook requests.

  Conventions. A decision procedure of the code is a function with the same early returns, its reason
  a constructor; an update of a SQL table is a function on an association list keyed as the table is; the
  effects of an endpoint are the list of its events in order; a Python exception is a value of a sum or
  option type. The clock, SHA-256, BLAKE2 and HMAC, the JWT and JSON parsers, URL query parsing,
  \<open>isoformat\<close>, \<open>str\<close> of foreign objects, HTTP replies and which SQL statement fails are arguments. Text is
  ASCII, but UTF-8 bytes in the work plane; instants are integers (microseconds, or seconds where the code counts seconds), but rationals
  for the monotonic clock of the breakers. Every recursion of the code is structural or has a measure
  (\<open>retry_from\<close>, \<open>replace_loop\<close>, \<open>extract_page_items\<close>, \<open>walk_tree\<close>, the sanitizer's depth, which is the
  code's own bound), and the log's append retries are the code's own three; only the client that reads
  a file page by page (\<open>read_pages\<close>) has fuel, one more than the bytes of the file, proved enough.

  What the lemmas show. For each decision: exactly when it allows (\<open>_iff\<close> theorems), that refusals say
  what to do next, and what its published metadata can reveal. For the tables: tenant confinement,
  read-after-write, single use, and that cleanup touches stale rows only. For the concurrent parts:
  invariants of every reachable state. For the endpoints: no row of another owner changes, a scope is never
  above policy, nothing reaches a provider past the gateway, a previewed post goes out at most once per
  preview, and a model cannot reach anything but a read without the backend's verification. For the
  desktop: nothing is typed or clicked under a lease whose revocation was acknowledged, and a file
  operation changes only what its request names, on the revision it names. Lemmas
  whose text says so record places where the code does less than its documentation.

  Not modelled: network and database drivers, FastAPI routing and dependency injection, logging, prompt
  text, the LLM graph, retrieval other than its cache, the runtime snapshot, what LibreOffice does with a workbook, the
  accessibility bridge of the desktop computer, user interface and tests.
\<close>

end
